(* ===== verification/Prelude.thy ===== *)
theory Prelude
  imports Main "HOL-Library.Word" "HOL-Library.List_Lexorder"
    "HOL-Library.Product_Lexorder" "HOL-Library.Option_ord"
begin

text \<open>Shared vocabulary of the development: the bytes and integers of the Rust code, the
  result type of every fallible operation, the Rust combinators on it, and the generic lemmas on
  results, lists and maps that the component theories use.\<close>

type_synonym u8 = "8 word"
type_synonym u16 = "16 word"
type_synonym u64 = "64 word"
type_synonym bytes = "8 word list"

text \<open>Facts about the model's records and parameters that the component proofs use as rewrite
  rules, and the introduction rules of the hypotheses on third-party code.\<close>
named_theorems rust_simps
named_theorems law_intros

section \<open>Results\<close>

text \<open>\<open>Result<T, E>\<close> of Rust, with the third outcome a call can have: it panics or does not
  return.  A panic unwinds through every caller, so every combinator propagates \<open>Abort\<close>.\<close>
datatype ('a, 'e) rust_result = Ok 'a | Err 'e | Abort

fun and_then :: "('a, 'e) rust_result \<Rightarrow> ('a \<Rightarrow> ('b, 'e) rust_result) \<Rightarrow> ('b, 'e) rust_result" where
  "and_then (Ok a) f = f a"
| "and_then (Err e) f = Err e"
| "and_then Abort f = Abort"

fun map_ok :: "('a \<Rightarrow> 'b) \<Rightarrow> ('a, 'e) rust_result \<Rightarrow> ('b, 'e) rust_result" where
  "map_ok f (Ok a) = Ok (f a)"
| "map_ok f (Err e) = Err e"
| "map_ok f Abort = Abort"

fun map_err :: "('e \<Rightarrow> 'f) \<Rightarrow> ('a, 'e) rust_result \<Rightarrow> ('a, 'f) rust_result" where
  "map_err f (Ok a) = Ok a"
| "map_err f (Err e) = Err (f e)"
| "map_err f Abort = Abort"

fun or_else :: "('a, 'e) rust_result \<Rightarrow> ('e \<Rightarrow> ('a, 'f) rust_result) \<Rightarrow> ('a, 'f) rust_result" where
  "or_else (Ok a) f = Ok a"
| "or_else (Err e) f = f e"
| "or_else Abort f = Abort"

text \<open>\<open>Option::ok_or\<close>, \<open>Option::expect\<close> and \<open>Result::expect\<close>.\<close>
fun ok_or :: "'e \<Rightarrow> 'a option \<Rightarrow> ('a, 'e) rust_result" where
  "ok_or e (Some a) = Ok a"
| "ok_or e None = Err e"

fun expect_some :: "'a option \<Rightarrow> ('a, 'e) rust_result" where
  "expect_some (Some a) = Ok a"
| "expect_some None = Abort"

fun expect_ok :: "('a, 'f) rust_result \<Rightarrow> ('a, 'e) rust_result" where
  "expect_ok (Ok a) = Ok a"
| "expect_ok _ = Abort"

text \<open>A guard with an early return: \<open>if c { return Err(e) }\<close>.\<close>
definition guard_err :: "bool \<Rightarrow> 'e \<Rightarrow> (unit, 'e) rust_result" where
  "guard_err c e = (if c then Err e else Ok ())"

text \<open>A loop over a list whose body uses \<open>?\<close>; also \<open>collect::<Result<Vec<_>, _>>()\<close>.\<close>
fun map_result :: "('a \<Rightarrow> ('b, 'e) rust_result) \<Rightarrow> 'a list \<Rightarrow> ('b list, 'e) rust_result" where
  "map_result f [] = Ok []"
| "map_result f (x # xs) = and_then (f x) (\<lambda>y. map_ok (\<lambda>ys. y # ys) (map_result f xs))"

fun fold_result :: "('s \<Rightarrow> 'a \<Rightarrow> ('s, 'e) rust_result) \<Rightarrow> 's \<Rightarrow> 'a list \<Rightarrow> ('s, 'e) rust_result" where
  "fold_result f s [] = Ok s"
| "fold_result f s (x # xs) = and_then (f s x) (\<lambda>s'. fold_result f s' xs)"

lemma and_then_eq_Ok [simp]:
  "and_then r f = Ok b \<longleftrightarrow> (\<exists>a. r = Ok a \<and> f a = Ok b)"
  by (cases r) auto

lemma and_then_eq_Err:
  "and_then r f = Err e \<longleftrightarrow> r = Err e \<or> (\<exists>a. r = Ok a \<and> f a = Err e)"
  by (cases r) auto

lemma and_then_eq_Abort:
  "and_then r f = Abort \<longleftrightarrow> r = Abort \<or> (\<exists>a. r = Ok a \<and> f a = Abort)"
  by (cases r) auto

lemma map_ok_eq_Ok [simp]: "map_ok f r = Ok b \<longleftrightarrow> (\<exists>a. r = Ok a \<and> b = f a)"
  by (cases r) auto

lemma map_ok_eq_Err [simp]: "map_ok f r = Err e \<longleftrightarrow> r = Err e"
  by (cases r) auto

lemma map_ok_eq_Abort [simp]: "map_ok f r = Abort \<longleftrightarrow> r = Abort"
  by (cases r) auto

lemma map_err_eq_Ok [simp]: "map_err f r = Ok b \<longleftrightarrow> r = Ok b"
  by (cases r) auto

lemma map_err_eq_Err [simp]: "map_err f r = Err e \<longleftrightarrow> (\<exists>e'. r = Err e' \<and> e = f e')"
  by (cases r) auto

lemma map_err_eq_Abort [simp]: "map_err f r = Abort \<longleftrightarrow> r = Abort"
  by (cases r) auto

lemma ok_or_eq_Ok [simp]: "ok_or e x = Ok a \<longleftrightarrow> x = Some a"
  by (cases x) auto

lemma ok_or_neq_Abort [simp]: "ok_or e x \<noteq> Abort"
  by (cases x) auto

lemma ok_or_eq_Err [simp]: "ok_or e x = Err e' \<longleftrightarrow> x = None \<and> e' = e"
  by (cases x) auto

lemma expect_some_eq_Ok [simp]: "expect_some x = Ok a \<longleftrightarrow> x = Some a"
  by (cases x) auto

lemma expect_ok_eq_Ok [simp]: "expect_ok r = Ok a \<longleftrightarrow> r = Ok a"
  by (cases r) auto

lemma guard_err_eq_Ok [simp]: "guard_err c e = Ok u \<longleftrightarrow> \<not> c"
  by (simp add: guard_err_def)

lemma guard_err_eq_Err [simp]: "guard_err c e = Err e' \<longleftrightarrow> c \<and> e' = e"
  by (auto simp: guard_err_def)

lemma guard_err_neq_Abort [simp]: "guard_err c e \<noteq> Abort"
  by (simp add: guard_err_def)

lemma and_then_guard_err [simp]:
  "and_then (guard_err c e) f = (if c then Err e else f ())"
  by (simp add: guard_err_def)

lemma map_result_length: "map_result f xs = Ok ys \<Longrightarrow> length ys = length xs"
  by (induction xs arbitrary: ys) auto

lemma map_result_nth:
  "map_result f xs = Ok ys \<Longrightarrow> i < length xs \<Longrightarrow> f (xs ! i) = Ok (ys ! i)"
proof (induction xs arbitrary: ys i)
  case (Cons x xs)
  then show ?case by (cases i) auto
qed simp

lemma map_result_Ok_iff:
  "map_result f xs = Ok ys \<longleftrightarrow> list_all2 (\<lambda>x y. f x = Ok y) xs ys"
proof (induction xs arbitrary: ys)
  case (Cons x xs)
  then show ?case by (cases ys) auto
qed (auto simp: list_all2_Nil)

lemma map_result_map_Ok: "(\<And>x. x \<in> set xs \<Longrightarrow> f x = Ok (g x)) \<Longrightarrow> map_result f xs = Ok (map g xs)"
  by (induction xs) auto

section \<open>Bytes\<close>

text \<open>\<open>u64::to_be_bytes\<close>, \<open>u16::to_be_bytes\<close>.\<close>
definition be_bytes_u64 :: "u64 \<Rightarrow> bytes" where
  "be_bytes_u64 w = map (\<lambda>i. ucast (drop_bit (8 * (7 - i)) w)) [0..<8]"

definition be_bytes_u16 :: "u16 \<Rightarrow> bytes" where
  "be_bytes_u16 w = [ucast (drop_bit 8 w), ucast w]"

lemma length_be_bytes_u64 [simp]: "length (be_bytes_u64 w) = 8"
  by (simp add: be_bytes_u64_def)

lemma be_bytes_u64_inject [simp]: "be_bytes_u64 v = be_bytes_u64 w \<longleftrightarrow> v = w"
proof
  assume eq: "be_bytes_u64 v = be_bytes_u64 w"
  show "v = w"
  proof (rule bit_word_eqI)
    fix n assume n: "n < LENGTH(64)"
    define i where "i = 7 - n div 8"
    have i: "i < 8" and n8: "n = 8 * (7 - i) + n mod 8" using n by (auto simp: i_def)
    have nth: "be_bytes_u64 x ! i = ucast (drop_bit (8 * (7 - i)) x)" for x
      using i by (simp add: be_bytes_u64_def)
    have "bit (be_bytes_u64 v ! i) (n mod 8) = bit (be_bytes_u64 w ! i) (n mod 8)"
      using eq by simp
    then show "bit v n = bit w n"
      using n8 by (simp add: nth bit_ucast_iff bit_drop_bit_eq)
  qed
qed simp

text \<open>Arithmetic that stays in range, as natural numbers.\<close>
lemma u64_add: "unat a + unat b < 2 ^ 64 \<Longrightarrow> unat (a + b :: u64) = unat a + unat b"
  using unat_add_lem [of a b] by simp
lemma u64_mul: "unat a * unat b < 2 ^ 64 \<Longrightarrow> unat (a * b :: u64) = unat a * unat b"
  using unat_mult_lem [of a b] by simp
lemma u64_sub: "unat b \<le> unat a \<Longrightarrow> unat (a - b :: u64) = unat a - unat b"
  by (simp add: unat_sub word_le_nat_alt)
lemma u64_of_u16 : "unat (ucast (n :: u16) :: u64) = unat n"
  using unsigned_less [of n, where 'a = nat] by (simp add: unsigned_ucast_eq take_bit_nat_eq_self)
lemma u16_sub: "unat b \<le> unat a \<Longrightarrow> unat (a - b :: u16) = unat a - unat b"
  by (simp add: unat_sub word_le_nat_alt)
lemma u64_less: "(a :: u64) < b \<longleftrightarrow> unat a < unat b" by (rule word_less_nat_alt)
lemma u64_le: "(a :: u64) \<le> b \<longleftrightarrow> unat a \<le> unat b" by (rule word_le_nat_alt)

lemma u64_of_nat [simp]: "n < 2 ^ 64 \<Longrightarrow> unat (of_nat n :: u64) = n"
  by (simp add: unat_of_nat)

lemma u16_of_nat [simp]: "n < 2 ^ 16 \<Longrightarrow> unat (of_nat n :: u16) = n"
  by (simp add: unat_of_nat)

text \<open>Two byte strings that end in suffixes of the same length: the only framing the code's
  associated data has.\<close>
lemma append_suffix_inject:
  "length s = length t \<Longrightarrow> xs @ s = ys @ t \<longleftrightarrow> xs = ys \<and> s = t"
  by simp

lemma append_prefix_take: "xs = ys @ zs \<Longrightarrow> length ys = n \<Longrightarrow> take n xs = ys \<and> drop n xs = zs"
  by simp

section \<open>Maps\<close>

lemma fold_map_upd_other:
  "x \<notin> key ` set xs \<Longrightarrow> fold (\<lambda>e m. m(key e \<mapsto> val e)) xs m x = m x"
  by (induction xs arbitrary: m) auto

lemma fold_map_upd_dom:
  "fold (\<lambda>e m. m(key e \<mapsto> val e)) xs m k = Some v \<Longrightarrow>
     m k = Some v \<or> (\<exists>e\<in>set xs. key e = k \<and> val e = v)"
  by (induction xs arbitrary: m) (fastforce split: if_splits)+

lemma fold_map_upd_inj:
  assumes "inj_on key (set xs)" and "e \<in> set xs"
  shows "fold (\<lambda>e m. m(key e \<mapsto> val e)) xs m (key e) = Some (val e)"
  using assms
proof (induction xs arbitrary: m)
  case (Cons a xs)
  show ?case
  proof (cases "e \<in> set xs")
    case True
    then show ?thesis using Cons by (simp add: inj_on_def)
  next
    case False
    then have "e = a" using Cons.prems by simp
    moreover have "key a \<notin> key ` set xs"
      using Cons.prems False \<open>e = a\<close> by (auto simp: inj_on_def)
    ultimately show ?thesis by (simp add: fold_map_upd_other del: fun_upd_apply) simp
  qed
qed simp

text \<open>\<open>HashMap::retain\<close>.\<close>
definition map_retain :: "('k \<Rightarrow> 'v \<Rightarrow> bool) \<Rightarrow> ('k \<rightharpoonup> 'v) \<Rightarrow> ('k \<rightharpoonup> 'v)" where
  "map_retain p m = (\<lambda>k. case m k of Some v \<Rightarrow> if p k v then Some v else None | None \<Rightarrow> None)"

lemma map_retain_eq_Some [simp]: "map_retain p m k = Some v \<longleftrightarrow> m k = Some v \<and> p k v"
  by (auto simp: map_retain_def split: option.splits)

lemma map_retain_eq_None [simp]:
  "map_retain p m k = None \<longleftrightarrow> (\<forall>v. m k = Some v \<longrightarrow> \<not> p k v)"
  by (auto simp: map_retain_def split: option.splits)

lemma map_retain_idem [simp]: "map_retain p (map_retain p m) = map_retain p m"
  by (rule ext) (auto simp: map_retain_def split: option.splits)

end
