(* ===== verification/SB_Keys.thy ===== *)
theory SB_Keys
  imports Rust_Str
begin

text \<open>\<open>crates/strong-box/src\<close>: the error type (\<open>error.rs\<close>), keys (\<open>key.rs\<close>), key derivation
  (\<open>kdf.rs\<close>) and key identifiers (\<open>key_id.rs\<close>).  The cryptographic and CBOR crates they call are
  the fields of the record \<open>ext\<close>; what the code relies on of them are the predicates
  \<open>hkdf_laws\<close>, \<open>aead_laws\<close>, \<open>cbor_laws\<close> and \<open>dh_laws\<close>.\<close>

section \<open>Third-party code\<close>

text \<open>\<open>ciborium_ll::Header\<close>, as far as the program tells headers apart.\<close>
datatype header = HArray "nat option" | HBytes "nat option" | HOther

text \<open>A \<open>ciborium_ll::Segment\<close>: the bytes of it not read yet, and the reader it borrows.\<close>
type_synonym segment = "nat \<times> bytes"

record ext =
  aead_encrypt :: "bytes \<Rightarrow> bytes \<Rightarrow> bytes \<Rightarrow> bytes \<Rightarrow> bytes option"
  aead_decrypt :: "bytes \<Rightarrow> bytes \<Rightarrow> bytes \<Rightarrow> bytes \<Rightarrow> bytes option"
  hkdf_prk_ok :: "bytes \<Rightarrow> bool"
  hkdf_extract :: "bytes option \<Rightarrow> bytes \<Rightarrow> bytes"
  hkdf_expand :: "bytes \<Rightarrow> bytes \<Rightarrow> nat \<Rightarrow> bytes option"
  x25519_public :: "bytes \<Rightarrow> bytes"
  x25519_dh :: "bytes \<Rightarrow> bytes \<Rightarrow> bytes"
  was_contributory :: "bytes \<Rightarrow> bool"
  cbor_push :: "header \<Rightarrow> (bytes, string) rust_result"
  cbor_bytes :: "bytes \<Rightarrow> (bytes, string) rust_result"
  cbor_pull :: "bytes \<Rightarrow> (header \<times> bytes, string) rust_result"
  segments_pull :: "nat option \<Rightarrow> bytes \<Rightarrow> (segment option, string) rust_result"
  segment_pull :: "nat \<Rightarrow> segment \<Rightarrow> ((bytes \<times> segment) option, string) rust_result"

text \<open>ChaCha20-Poly1305 (RFC 8439): encryption is deterministic in key, nonce, associated data and
  plaintext, decryption accepts exactly the ciphertexts encryption produces, and a ciphertext is
  its plaintext and a tag of 16 bytes.\<close>
definition aead_laws :: "'x ext_scheme \<Rightarrow> bool" where
  "aead_laws X \<longleftrightarrow>
     (\<forall>k n a m c. aead_decrypt X k n a c = Some m \<longleftrightarrow> aead_encrypt X k n a m = Some c) \<and>
     (\<forall>k n a m c. aead_encrypt X k n a m = Some c \<longrightarrow> length c = length m + 16)"

text \<open>HKDF (RFC 5869) over SHA-256: a pseudorandom key of at least 32 bytes is accepted, and up to
  255 blocks of 32 bytes can be expanded from it.\<close>
definition hkdf_laws :: "'x ext_scheme \<Rightarrow> bool" where
  "hkdf_laws X \<longleftrightarrow>
     (\<forall>k. hkdf_prk_ok X k \<longleftrightarrow> 32 \<le> length k) \<and>
     (\<forall>s i. length (hkdf_extract X s i) = 32) \<and>
     (\<forall>k c n. n \<le> 255 * 32 \<longrightarrow> (\<exists>r. hkdf_expand X k c n = Some r \<and> length r = n))"

text \<open>X25519 (RFC 7748): public keys and shared secrets are 32 bytes, and both sides of an
  exchange compute the same secret.\<close>
definition dh_laws :: "'x ext_scheme \<Rightarrow> bool" where
  "dh_laws X \<longleftrightarrow>
     (\<forall>s. length (x25519_public X s) = 32) \<and>
     (\<forall>s p. length (x25519_dh X s p) = 32) \<and>
     (\<forall>a b. length a = 32 \<longrightarrow> length b = 32 \<longrightarrow>
        x25519_dh X a (x25519_public X b) = x25519_dh X b (x25519_public X a))"

text \<open>CBOR (RFC 8949) as \<open>ciborium_ll\<close> reads and writes it: a definite array or byte-string header
  is at least one byte and is read back with the rest of the input, a definite byte string has one
  segment, and a segment is read in chunks of at most the buffer's size until none of it is
  left.\<close>
definition cbor_laws :: "'x ext_scheme \<Rightarrow> bool" where
  "cbor_laws X \<longleftrightarrow>
     (\<forall>n. \<exists>h. cbor_push X (HArray (Some n)) = Ok h \<and> 1 \<le> length h \<and>
        (\<forall>rest. cbor_pull X (h @ rest) = Ok (HArray (Some n), rest))) \<and>
     (\<forall>b. \<exists>h. cbor_bytes X b = Ok (h @ b) \<and> 1 \<le> length h \<and>
        (\<forall>rest. cbor_pull X (h @ rest) = Ok (HBytes (Some (length b)), rest))) \<and>
     (\<forall>n r. segments_pull X (Some n) r = Ok (Some (n, r))) \<and>
     (\<forall>cap r. segment_pull X cap (0, r) = Ok None) \<and>
     (\<forall>cap n r. 0 < cap \<longrightarrow> 0 < n \<longrightarrow> n \<le> length r \<longrightarrow>
        segment_pull X cap (n, r) =
          Ok (Some (take (min cap n) r, (n - min cap n, drop (min cap n) r))))"

text \<open>On any input, also a hostile one, the decoder returns an item or an error, and every chunk it
  hands out uses some of the segment up.\<close>
definition cbor_robust :: "'x ext_scheme \<Rightarrow> bool" where
  "cbor_robust X \<longleftrightarrow>
     (\<forall>b. cbor_pull X b \<noteq> Abort) \<and>
     (\<forall>len b. segments_pull X len b \<noteq> Abort) \<and>
     (\<forall>cap s. segment_pull X cap s \<noteq> Abort) \<and>
     (\<forall>cap n r chunk n' r'. 0 < cap \<longrightarrow>
        segment_pull X cap (n, r) = Ok (Some (chunk, (n', r'))) \<longrightarrow> n' < n)"

section \<open>Errors\<close>

datatype error =
    Decryption
  | Encryption
  | Decoding string
  | Encoding string
  | CiphertextDecoding string string
  | CiphertextEncoding string string
  | Insanity string
  | InvalidCiphertext string
  | InvalidKey string

fun error_display :: "error \<Rightarrow> string" where
  "error_display Decryption = ''failed to decrypt ciphertext''"
| "error_display Encryption = ''failed to encrypt plaintext''"
| "error_display (Decoding cause) = ''decoding failure: '' @ cause"
| "error_display (Encoding cause) = ''encoding failure: '' @ cause"
| "error_display (CiphertextDecoding element cause) =
     ''ciphertext decoding failure on '' @ element @ '': '' @ cause"
| "error_display (CiphertextEncoding element cause) =
     ''ciphertext encoding failure on '' @ element @ '': '' @ cause"
| "error_display (Insanity m) = ''CAN'' @ [CHR 0x27] @ ''T HAPPEN: '' @ m"
| "error_display (InvalidCiphertext m) = ''invalid ciphertext: '' @ m"
| "error_display (InvalidKey m) = ''invalid key: '' @ m"

text \<open>The errors of a ciphertext that is not well formed.\<close>
fun malformed :: "error \<Rightarrow> bool" where
  "malformed (InvalidCiphertext _) = True"
| "malformed (CiphertextDecoding _ _) = True"
| "malformed _ = False"

section \<open>Keys\<close>

datatype key = Key (expose_secret: bytes)

definition key_wf :: "key \<Rightarrow> bool" where
  "key_wf k \<longleftrightarrow> length (expose_secret k) = 32"

text \<open>The random bytes are an argument.\<close>
definition generate_key :: "bytes \<Rightarrow> key" where
  "generate_key random = Key random"

definition kdf_derive_key :: "'x ext_scheme \<Rightarrow> key \<Rightarrow> bytes \<Rightarrow> (key, 'e) rust_result" where
  "kdf_derive_key X key context =
     (if hkdf_prk_ok X (expose_secret key)
      then map_ok Key (expect_some (hkdf_expand X (expose_secret key) context 32))
      else Abort)"

section \<open>Key identifiers\<close>

datatype keyid = KeyId (as_bytes: bytes)

definition keyid_wf :: "keyid \<Rightarrow> bool" where
  "keyid_wf i \<longleftrightarrow> length (as_bytes i) = 16"

text \<open>The derived \<open>Ord\<close>: lexicographic on the bytes.\<close>
instantiation keyid :: linorder
begin

definition less_eq_keyid :: "keyid \<Rightarrow> keyid \<Rightarrow> bool" where
  "less_eq_keyid a b \<longleftrightarrow> as_bytes a \<le> as_bytes b"

definition less_keyid :: "keyid \<Rightarrow> keyid \<Rightarrow> bool" where
  "less_keyid a b \<longleftrightarrow> as_bytes a < as_bytes b"

instance
  by standard (auto simp: less_eq_keyid_def less_keyid_def keyid.expand)

end

definition keyid_display :: "keyid \<Rightarrow> string" where
  "keyid_display i = hex_bytes (as_bytes i)"

definition key_id :: "'x ext_scheme \<Rightarrow> key \<Rightarrow> (keyid, 'e) rust_result" where
  "key_id X key =
     map_ok (\<lambda>k. KeyId (take 16 (expose_secret k))) (kdf_derive_key X key (str_bytes ''key_id''))"

definition keyid_encode :: "'x ext_scheme \<Rightarrow> keyid \<Rightarrow> (bytes, error) rust_result" where
  "keyid_encode X i = map_err (CiphertextEncoding ''key_id'') (cbor_bytes X (as_bytes i))"

text \<open>Read the header of a byte string, and the one chunk of it a fixed-length field must be:
  the pattern \<open>let Header::Bytes(len) = dec.pull()? else ...\<close> up to \<open>copy_from_slice\<close> that
  \<open>KeyId::decode\<close> and the two \<open>Ciphertext::try_from\<close> repeat with their own names and messages.\<close>
definition pull_bytes_header ::
  "'x ext_scheme \<Rightarrow> string \<Rightarrow> error \<Rightarrow> error \<Rightarrow> bytes \<Rightarrow> (segment, error) rust_result" where
  "pull_bytes_header X element expected bad dec =
     and_then (map_err (CiphertextDecoding element) (cbor_pull X dec)) (\<lambda>(header, dec).
       case header of
         HBytes len \<Rightarrow>
           (case segments_pull X len dec of
              Ok (Some segment) \<Rightarrow> Ok segment
            | Abort \<Rightarrow> Abort
            | _ \<Rightarrow> Err bad)
       | _ \<Rightarrow> Err expected)"

definition pull_exact ::
  "'x ext_scheme \<Rightarrow> nat \<Rightarrow> nat \<Rightarrow> string \<Rightarrow> error \<Rightarrow> error \<Rightarrow> segment \<Rightarrow> (bytes \<times> bytes, error) rust_result"
  where
  "pull_exact X cap len element incorrect short segment =
     and_then (map_err (CiphertextDecoding element) (segment_pull X cap segment)) (\<lambda>r.
       case r of
         Some (chunk, (_, dec)) \<Rightarrow> if length chunk \<noteq> len then Err incorrect else Ok (chunk, dec)
       | None \<Rightarrow> Err short)"

text \<open>\<open>let Header::Array(Some(n)) = dec.pull()? else { return Err("expected array") }\<close>.\<close>
definition pull_array :: "'x ext_scheme \<Rightarrow> nat \<Rightarrow> bytes \<Rightarrow> (bytes, error) rust_result" where
  "pull_array X n dec =
     and_then (map_err (CiphertextDecoding ''array'') (cbor_pull X dec)) (\<lambda>(header, dec).
       if header = HArray (Some n) then Ok dec else Err (InvalidCiphertext ''expected array''))"

text \<open>The loop \<open>while let Some(chunk) = segment.pull(&mut buf[..])? { ... }\<close> over the 1024-byte
  buffer that collects a ciphertext of any length; \<open>None\<close> when it does not end.\<close>
partial_function (option) read_chunks ::
  "'x ext_scheme \<Rightarrow> segment \<Rightarrow> bytes \<Rightarrow> (bytes, error) rust_result option" where
  "read_chunks X segment acc =
     (case segment_pull X 1024 segment of
        Ok None \<Rightarrow> Some (Ok acc)
      | Ok (Some (chunk, segment')) \<Rightarrow> read_chunks X segment' (acc @ chunk)
      | Err e \<Rightarrow> Some (Err (CiphertextDecoding ''ciphertext'' e))
      | Abort \<Rightarrow> Some Abort)"

declare read_chunks.simps [code]

definition read_body :: "'x ext_scheme \<Rightarrow> segment \<Rightarrow> (bytes, error) rust_result" where
  "read_body X segment = (case read_chunks X segment [] of Some r \<Rightarrow> r | None \<Rightarrow> Abort)"

definition keyid_decode :: "'x ext_scheme \<Rightarrow> bytes \<Rightarrow> (keyid \<times> bytes, error) rust_result" where
  "keyid_decode X dec =
     and_then (pull_bytes_header X ''key_id header'' (InvalidCiphertext ''expected key_id'')
                 (InvalidCiphertext ''bad key_id'') dec) (\<lambda>segment.
     map_ok (\<lambda>(chunk, dec). (KeyId chunk, dec))
       (pull_exact X 32 16 ''key_id'' (InvalidCiphertext ''incorrect key_id length'')
          (InvalidCiphertext ''short nonce'') segment))"

section \<open>Lemmas\<close>

lemma aead_decrypt_iff [rust_simps]:
  "aead_laws X \<Longrightarrow> aead_decrypt X k n a c = Some m \<longleftrightarrow> aead_encrypt X k n a m = Some c"
  by (simp add: aead_laws_def)

lemma aead_length: "aead_laws X \<Longrightarrow> aead_encrypt X k n a m = Some c \<Longrightarrow> length c = length m + 16"
  by (simp add: aead_laws_def)

lemma hkdf_expand_Some:
  "hkdf_laws X \<Longrightarrow> n \<le> 255 * 32 \<Longrightarrow> \<exists>r. hkdf_expand X k c n = Some r \<and> length r = n"
  unfolding hkdf_laws_def by blast

lemma hkdf_expand_32:
  assumes "hkdf_laws X" obtains r where "hkdf_expand X k c 32 = Some r" "length r = 32"
  using hkdf_expand_Some [OF assms, of 32 k c] by auto

lemma hkdf_prk_ok_wf [rust_simps]: "hkdf_laws X \<Longrightarrow> key_wf k \<Longrightarrow> hkdf_prk_ok X (expose_secret k)"
  by (simp add: hkdf_laws_def key_wf_def)

text \<open>The derived key as a value, for specifications: it is what \<open>kdf_derive_key\<close> returns when
  HKDF keeps its laws.\<close>
definition derived :: "'x ext_scheme \<Rightarrow> key \<Rightarrow> bytes \<Rightarrow> key" where
  "derived X k c = (case hkdf_expand X (expose_secret k) c 32 of Some r \<Rightarrow> Key r | None \<Rightarrow> Key [])"

definition keyid_of :: "'x ext_scheme \<Rightarrow> key \<Rightarrow> keyid" where
  "keyid_of X k = KeyId (take 16 (expose_secret (derived X k (str_bytes ''key_id''))))"

lemma kdf_derive_key_eq [rust_simps]:
  assumes "hkdf_laws X" "key_wf k" shows "kdf_derive_key X k c = Ok (derived X k c)"
proof -
  obtain r where "hkdf_expand X (expose_secret k) c 32 = Some r"
    using hkdf_expand_32 [OF assms(1)] by blast
  then show ?thesis using assms by (simp add: kdf_derive_key_def derived_def rust_simps)
qed

lemma key_wf_derived [simp]:
  assumes "hkdf_laws X" shows "key_wf (derived X k c)"
proof -
  obtain r where "hkdf_expand X (expose_secret k) c 32 = Some r" "length r = 32"
    using hkdf_expand_32 [OF assms] by blast
  then show ?thesis by (simp add: derived_def key_wf_def)
qed

lemma key_id_eq [rust_simps]: "hkdf_laws X \<Longrightarrow> key_wf k \<Longrightarrow> key_id X k = Ok (keyid_of X k)"
  by (simp add: key_id_def rust_simps keyid_of_def)

lemma keyid_wf_keyid_of [simp]: "hkdf_laws X \<Longrightarrow> keyid_wf (keyid_of X k)"
  using key_wf_derived [of X k "str_bytes ''key_id''"]
  by (simp add: keyid_of_def keyid_wf_def key_wf_def)

lemma key_id_wf:
  assumes "hkdf_laws X" "key_id X k = Ok i" shows "keyid_wf i"
proof -
  obtain r where "hkdf_expand X (expose_secret k) (str_bytes ''key_id'') 32 = Some r" "length r = 32"
    using hkdf_expand_32 [OF assms(1)] by blast
  then show ?thesis using assms(2)
    by (auto simp: key_id_def kdf_derive_key_def keyid_wf_def split: if_splits)
qed

lemma cbor_push_array:
  "cbor_laws X \<Longrightarrow> \<exists>h. cbor_push X (HArray (Some n)) = Ok h \<and> 1 \<le> length h \<and>
     (\<forall>rest. cbor_pull X (h @ rest) = Ok (HArray (Some n), rest))"
  unfolding cbor_laws_def by (elim conjE) (erule spec)

lemma cbor_bytes_pull:
  "cbor_laws X \<Longrightarrow> \<exists>h. cbor_bytes X b = Ok (h @ b) \<and> 1 \<le> length h \<and>
     (\<forall>rest. cbor_pull X (h @ rest) = Ok (HBytes (Some (length b)), rest))"
  unfolding cbor_laws_def by (elim conjE) (erule spec)

lemma segments_pull_definite [rust_simps]:
  "cbor_laws X \<Longrightarrow> segments_pull X (Some n) r = Ok (Some (n, r))"
  by (simp add: cbor_laws_def)

lemma segment_pull_0 [rust_simps]: "cbor_laws X \<Longrightarrow> segment_pull X cap (0, r) = Ok None"
  by (simp add: cbor_laws_def)

lemma segment_pull_pos [rust_simps]:
  "cbor_laws X \<Longrightarrow> 0 < cap \<Longrightarrow> 0 < n \<Longrightarrow> n \<le> length r \<Longrightarrow>
     segment_pull X cap (n, r) = Ok (Some (take (min cap n) r, (n - min cap n, drop (min cap n) r)))"
  by (simp add: cbor_laws_def)

text \<open>A field written by \<open>Encoder::bytes\<close> is read back by the pattern, with the rest of the
  input left in the decoder.\<close>
lemma pull_field:
  assumes laws: "cbor_laws X" and enc: "cbor_bytes X b = Ok e"
  shows "pull_bytes_header X el ex bad (e @ rest) = Ok (length b, b @ rest)"
    and "\<lbrakk>length b = n; 0 < n; n \<le> cap\<rbrakk> \<Longrightarrow>
           pull_exact X cap n el inc short (length b, b @ rest) = Ok (b, rest)"
proof -
  obtain h where h: "cbor_bytes X b = Ok (h @ b)"
    "\<And>rest. cbor_pull X (h @ rest) = Ok (HBytes (Some (length b)), rest)"
    using cbor_bytes_pull [OF laws] by blast
  with enc have "e = h @ b" by simp
  then show "pull_bytes_header X el ex bad (e @ rest) = Ok (length b, b @ rest)"
    using laws by (simp add: pull_bytes_header_def h rust_simps)
  show "\<lbrakk>length b = n; 0 < n; n \<le> cap\<rbrakk> \<Longrightarrow>
          pull_exact X cap n el inc short (length b, b @ rest) = Ok (b, rest)"
    using laws by (simp add: pull_exact_def rust_simps min_absorb2)
qed

lemma cbor_robust_pulls [rust_simps]:
  assumes "cbor_robust X"
  shows "cbor_pull X b \<noteq> Abort" "segments_pull X len b \<noteq> Abort" "segment_pull X cap s \<noteq> Abort"
  using assms unfolding cbor_robust_def by (blast, blast, blast)

lemma segment_pull_progress:
  "cbor_robust X \<Longrightarrow> segment_pull X cap (n, r) = Ok (Some (chunk, n', r')) \<Longrightarrow> 0 < cap \<Longrightarrow> n' < n"
  unfolding cbor_robust_def by blast

lemma read_chunks_definite:
  assumes "cbor_laws X" "n \<le> length r"
  shows "read_chunks X (n, r) acc = Some (Ok (acc @ take n r))"
  using assms(2)
proof (induction n arbitrary: r acc rule: less_induct)
  case (less n)
  show ?case
  proof (cases "n = 0")
    case True
    then show ?thesis using assms(1) by (simp add: read_chunks.simps rust_simps)
  next
    case False
    define m where "m = min 1024 n"
    have "read_chunks X (n - m, drop m r) (acc @ take m r) = Some (Ok (acc @ take n r))"
      using less.IH [of "n - m" "drop m r" "acc @ take m r"] less.prems False
      by (simp add: m_def flip: take_add)
    then show ?thesis using assms(1) False less.prems
      by (subst read_chunks.simps) (simp add: rust_simps m_def)
  qed
qed

lemma read_body_definite [rust_simps]:
  "cbor_laws X \<Longrightarrow> n \<le> length r \<Longrightarrow> read_body X (n, r) = Ok (take n r)"
  by (simp add: read_body_def read_chunks_definite)

lemma read_chunks_returns:
  assumes "cbor_robust X"
  shows "\<exists>r. read_chunks X (n, b) acc = Some r \<and> r \<noteq> Abort \<and> (\<forall>e. r = Err e \<longrightarrow> malformed e)"
proof (induction n arbitrary: b acc rule: less_induct)
  case (less n)
  show ?case
  proof (cases "segment_pull X 1024 (n, b)")
    case (Ok item)
    show ?thesis
    proof (cases item)
      case None
      then show ?thesis using Ok by (simp add: read_chunks.simps)
    next
      case (Some p)
      then obtain chunk n' b' where p: "p = (chunk, n', b')" by (cases p) auto
      then have "n' < n" using segment_pull_progress [OF assms] Ok Some by auto
      then show ?thesis using less.IH [of n'] Ok Some p by (simp add: read_chunks.simps [of X "(n, b)"])
    qed
  qed (use assms in \<open>simp_all add: read_chunks.simps rust_simps\<close>)
qed

lemma read_body_robust [rust_simps]:
  assumes "cbor_robust X" shows "read_body X s \<noteq> Abort"
proof (cases s)
  case (Pair n b)
  then show ?thesis using read_chunks_returns [OF assms, of n b "[]"] by (auto simp: read_body_def)
qed

lemma pull_array_push:
  assumes "cbor_laws X" "cbor_push X (HArray (Some n)) = Ok h"
  shows "pull_array X n (h @ rest) = Ok rest"
  using assms cbor_push_array [of X n] by (auto simp: pull_array_def)

lemma pull_array_robust [rust_simps]: "cbor_robust X \<Longrightarrow> pull_array X n dec \<noteq> Abort"
  by (auto simp: pull_array_def rust_simps and_then_eq_Abort split: if_splits)

lemma pull_bytes_header_robust [rust_simps]:
  "cbor_robust X \<Longrightarrow> pull_bytes_header X el ex bad dec \<noteq> Abort"
  by (auto simp: pull_bytes_header_def rust_simps and_then_eq_Abort
      split: header.splits rust_result.splits option.splits)

lemma pull_exact_robust [rust_simps]: "cbor_robust X \<Longrightarrow> pull_exact X cap n el inc short s \<noteq> Abort"
  by (auto simp: pull_exact_def rust_simps and_then_eq_Abort split: option.splits if_splits)

lemma keyid_decode_robust [rust_simps]: "cbor_robust X \<Longrightarrow> keyid_decode X dec \<noteq> Abort"
  by (auto simp: keyid_decode_def and_then_eq_Abort rust_simps)

lemma pull_exact_field [rust_simps]:
  "\<lbrakk>cbor_laws X; length b = n; 0 < n; n \<le> cap\<rbrakk> \<Longrightarrow>
     pull_exact X cap n el inc short (n, b @ rest) = Ok (b, rest)"
  by (auto simp: pull_exact_def rust_simps min_absorb2)

lemma pull_exact_length: "pull_exact X cap n el inc short s = Ok (b, dec) \<Longrightarrow> length b = n"
  by (auto simp: pull_exact_def split: option.splits prod.splits if_splits)

lemma read_body_error:
  assumes "cbor_robust X" "read_body X s = Err e" shows "malformed e"
proof (cases s)
  case (Pair n b)
  then show ?thesis using read_chunks_returns [OF assms(1), of n b "[]"] assms(2)
    by (auto simp: read_body_def)
qed

lemma pull_array_error: "pull_array X n dec = Err e \<Longrightarrow> malformed e"
  by (auto simp: pull_array_def and_then_eq_Err split: if_splits)

lemma pull_bytes_header_error:
  "pull_bytes_header X el ex bad dec = Err e \<Longrightarrow> malformed ex \<Longrightarrow> malformed bad \<Longrightarrow> malformed e"
  by (cases "cbor_pull X dec")
    (auto simp: pull_bytes_header_def split: prod.splits header.splits rust_result.splits option.splits)

lemma pull_exact_error:
  "pull_exact X cap n el inc short s = Err e \<Longrightarrow> malformed inc \<Longrightarrow> malformed short \<Longrightarrow> malformed e"
  by (auto simp: pull_exact_def and_then_eq_Err split: option.splits prod.splits if_splits)

lemma keyid_decode_error: "keyid_decode X dec = Err e \<Longrightarrow> malformed e"
  by (auto simp: keyid_decode_def and_then_eq_Err dest: pull_bytes_header_error pull_exact_error)

lemma keyid_encode_decode:
  assumes "cbor_laws X" "keyid_wf i" "keyid_encode X i = Ok e"
  shows "keyid_decode X (e @ rest) = Ok (i, rest)"
  using assms pull_field [of X "as_bytes i" e]
  by (simp add: keyid_encode_def keyid_decode_def keyid_wf_def)

lemma keyid_decode_wf: "keyid_decode X dec = Ok (i, rest) \<Longrightarrow> keyid_wf i"
  by (auto simp: keyid_decode_def keyid_wf_def dest: pull_exact_length)

end
