(* ===== verification/SB_Trait.thy ===== *)
theory SB_Trait
  imports SB_Keys
begin

text \<open>\<open>crates/strong-box/src/strong_box.rs\<close>: the trait \<open>StrongBox\<close> as the interface its callers
  rest on.  A box \<open>b\<close> encrypts with fresh randomness \<open>r\<close>; \<open>ready b r\<close> says that the box can
  open its own ciphertexts.  \<open>forged b c ctx ctx'\<close> is the event that
  the cipher itself accepts \<open>c\<close> under the associated data of two different contexts.\<close>

locale strong_box =
  fixes encrypt :: "'b \<Rightarrow> 'r \<Rightarrow> bytes \<Rightarrow> bytes \<Rightarrow> (bytes, error) rust_result"
    and decrypt :: "'b \<Rightarrow> bytes \<Rightarrow> bytes \<Rightarrow> (bytes, error) rust_result"
    and ready :: "'b \<Rightarrow> 'r \<Rightarrow> bool"
  assumes round_trip: "ready b r \<Longrightarrow> encrypt b r m ctx = Ok c \<Longrightarrow> decrypt b c ctx = Ok m"
begin

lemma decrypt_unique:
  "ready b r \<Longrightarrow> encrypt b r m ctx = Ok c \<Longrightarrow> decrypt b c ctx = Ok m' \<Longrightarrow> m' = m"
  by (auto dest: round_trip)

text \<open>Two encryptions that give one ciphertext had one plaintext.\<close>
lemma encrypt_inject:
  "\<lbrakk>ready b r; ready b r'; encrypt b r m ctx = Ok c; encrypt b r' m' ctx = Ok c\<rbrakk> \<Longrightarrow> m = m'"
  by (metis round_trip rust_result.inject(1))

text \<open>A value serialised and sealed is opened and parsed back.\<close>
lemma seal_open:
  assumes "ready b r" "\<And>v. parse (ser v) = Ok v"
    and "encrypt b r (ser v) ctx = Ok c"
  shows "and_then (map_err wrap (decrypt b c ctx)) parse = Ok v"
  using assms round_trip [OF assms(1,3)] by simp

end

text \<open>A box whose ciphertexts are bound to the context they were made for: one that opens under
  another context is a forgery against the cipher, for those two contexts.\<close>
locale context_bound_box = strong_box +
  fixes forged :: "'b \<Rightarrow> bytes \<Rightarrow> bytes \<Rightarrow> bytes \<Rightarrow> bool"
  assumes context_bound:
    "\<lbrakk>ready b r; encrypt b r m ctx = Ok c; decrypt b c ctx' = Ok m'; ctx' \<noteq> ctx\<rbrakk> \<Longrightarrow>
       forged b c ctx ctx'"
begin

lemma opened_context:
  "\<lbrakk>ready b r; encrypt b r m ctx = Ok c; \<not> forged b c ctx ctx'; decrypt b c ctx' = Ok m'\<rbrakk> \<Longrightarrow>
     ctx' = ctx \<and> m' = m"
  by (metis context_bound decrypt_unique)

lemma wrong_context_fails:
  "\<lbrakk>ready b r; encrypt b r m ctx = Ok c; \<not> forged b c ctx ctx'; ctx' \<noteq> ctx\<rbrakk> \<Longrightarrow>
     decrypt b c ctx' \<noteq> Ok m'"
  by (blast dest: context_bound)

end

end
