(* ===== verification/Ext_Instance.thy ===== *)
theory Ext_Instance
  imports SB_Keys
begin

text \<open>One concrete, executable instance of the third-party code that satisfies every law the
  development assumes of it: the witnesses evaluate the model with it, which shows that the laws
  are consistent with each other.  It is not meant to be secure.\<close>

definition pad_to :: "nat \<Rightarrow> bytes \<Rightarrow> bytes" where
  "pad_to n b = take n (b @ replicate n 0)"

lemma length_pad_to [simp]: "length (pad_to n b) = n"
  by (simp add: pad_to_def)

definition demo_tag :: "bytes \<Rightarrow> bytes \<Rightarrow> bytes \<Rightarrow> bytes" where
  "demo_tag k n a = pad_to 16 [sum_list k, sum_list n, sum_list a, of_nat (length a)]"

definition demo_aead :: "bytes \<Rightarrow> bytes \<Rightarrow> bytes \<Rightarrow> bytes \<Rightarrow> bytes option" where
  "demo_aead k n a m = Some (m @ demo_tag k n a)"

definition demo_open :: "bytes \<Rightarrow> bytes \<Rightarrow> bytes \<Rightarrow> bytes \<Rightarrow> bytes option" where
  "demo_open k n a c =
     (let m = take (length c - 16) c in
      if 16 \<le> length c \<and> drop (length c - 16) c = demo_tag k n a then Some m else None)"

definition demo_expand :: "bytes \<Rightarrow> bytes \<Rightarrow> nat \<Rightarrow> bytes option" where
  "demo_expand k info n = (if n \<le> 255 * 32 then Some (map2 (+) (pad_to n (rev info)) (pad_to n k)) else None)"

definition demo_dh :: "bytes \<Rightarrow> bytes \<Rightarrow> bytes" where
  "demo_dh a b = map2 (+) (pad_to 32 a) (pad_to 32 b)"

definition demo_header :: "header \<Rightarrow> bytes" where
  "demo_header h = (case h of
     HArray (Some n) \<Rightarrow> replicate n 0x81 @ [0x80]
   | HBytes (Some n) \<Rightarrow> replicate n 0x41 @ [0x40]
   | HArray None \<Rightarrow> [0x9f]
   | HBytes None \<Rightarrow> [0x5f]
   | HOther \<Rightarrow> [0xf6])"

definition demo_pull :: "bytes \<Rightarrow> (header \<times> bytes, string) rust_result" where
  "demo_pull b =
     (let a = length (takeWhile ((=) 0x81) b); s = length (takeWhile ((=) 0x41) b) in
      case drop a b of
        [] \<Rightarrow> Err ''eof''
      | x # r \<Rightarrow>
          if x = 0x80 then Ok (HArray (Some a), r)
          else (case drop s b of
            [] \<Rightarrow> Err ''eof''
          | x # r \<Rightarrow> if x = 0x40 then Ok (HBytes (Some s), r) else Ok (HOther, r)))"

definition demo_segment :: "nat \<Rightarrow> segment \<Rightarrow> ((bytes \<times> segment) option, string) rust_result" where
  "demo_segment cap = (\<lambda>(n, r).
     if n = 0 then Ok None
     else if cap = 0 \<or> length r < min cap n then Err ''eof''
     else Ok (Some (take (min cap n) r, (n - min cap n, drop (min cap n) r))))"

definition demo :: ext where
  "demo = \<lparr>
     aead_encrypt = demo_aead,
     aead_decrypt = demo_open,
     hkdf_prk_ok = (\<lambda>k. 32 \<le> length k),
     hkdf_extract = (\<lambda>s i. pad_to 32 (i @ (case s of Some t \<Rightarrow> t | None \<Rightarrow> []))),
     hkdf_expand = demo_expand,
     x25519_public = pad_to 32,
     x25519_dh = demo_dh,
     was_contributory = (\<lambda>s. s \<noteq> replicate 32 0),
     cbor_push = (\<lambda>h. Ok (demo_header h)),
     cbor_bytes = (\<lambda>b. Ok (demo_header (HBytes (Some (length b))) @ b)),
     cbor_pull = demo_pull,
     segments_pull = (\<lambda>len b. case len of Some n \<Rightarrow> Ok (Some (n, b)) | None \<Rightarrow> Err ''indefinite''),
     segment_pull = demo_segment \<rparr>"

lemma demo_simps [simp]:
  "aead_encrypt demo = demo_aead" "aead_decrypt demo = demo_open"
  "hkdf_prk_ok demo = (\<lambda>k. 32 \<le> length k)" "hkdf_expand demo = demo_expand"
  "x25519_public demo = pad_to 32" "x25519_dh demo = demo_dh"
  "was_contributory demo = (\<lambda>s. s \<noteq> replicate 32 0)"
  "cbor_push demo = (\<lambda>h. Ok (demo_header h))"
  "cbor_bytes demo = (\<lambda>b. Ok (demo_header (HBytes (Some (length b))) @ b))"
  "cbor_pull demo = demo_pull" "segment_pull demo = demo_segment"
  "segments_pull demo = (\<lambda>len b. case len of Some n \<Rightarrow> Ok (Some (n, b)) | None \<Rightarrow> Err ''indefinite'')"
  by (simp_all add: demo_def)

lemma demo_aead_laws: "aead_laws demo"
proof -
  have "demo_open k n a c = Some m \<longleftrightarrow> demo_aead k n a m = Some c" for k n a m c
  proof
    assume l: "demo_open k n a c = Some m"
    then have "c = take (length c - 16) c @ demo_tag k n a" "m = take (length c - 16) c"
      by (auto simp: demo_open_def Let_def split: if_splits) (metis append_take_drop_id)
    then show "demo_aead k n a m = Some c" by (simp add: demo_aead_def)
  next
    assume "demo_aead k n a m = Some c"
    then show "demo_open k n a c = Some m"
      by (auto simp: demo_aead_def demo_open_def demo_tag_def)
  qed
  then show ?thesis by (auto simp: aead_laws_def demo_aead_def demo_tag_def)
qed

lemma demo_hkdf_laws: "hkdf_laws demo"
  by (simp add: hkdf_laws_def demo_def demo_expand_def)

lemma demo_dh_laws: "dh_laws demo"
proof -
  have "map2 (+) xs ys = map2 (+) ys (xs :: bytes)" for xs ys
    by (rule nth_equalityI) (simp_all add: add.commute)
  moreover have "length b = 32 \<Longrightarrow> pad_to 32 (pad_to 32 b) = pad_to 32 b" for b
    by (simp add: pad_to_def)
  ultimately show ?thesis by (simp add: dh_laws_def demo_dh_def)
qed

lemma takeWhile_header:
  "y \<noteq> x \<Longrightarrow> takeWhile ((=) x) (replicate n x @ y # rest) = replicate n x"
  by (induction n) auto

lemma demo_pull_array: "demo_pull (demo_header (HArray (Some n)) @ rest) = Ok (HArray (Some n), rest)"
  by (simp add: demo_pull_def demo_header_def takeWhile_header)

lemma demo_pull_bytes: "demo_pull (demo_header (HBytes (Some n)) @ rest) = Ok (HBytes (Some n), rest)"
proof -
  have "takeWhile ((=) 0x81) (replicate n 0x41 @ 0x40 # rest) = ([] :: bytes)" by (cases n) simp_all
  then show ?thesis
    by (cases n) (simp_all add: demo_pull_def demo_header_def takeWhile_header)
qed

lemma demo_cbor_laws: "cbor_laws demo"
proof -
  have "1 \<le> length (demo_header (HArray (Some n)))" "1 \<le> length (demo_header (HBytes (Some n)))" for n
    by (simp_all add: demo_header_def)
  then show ?thesis
    by (auto simp: cbor_laws_def demo_pull_array demo_pull_bytes demo_segment_def)
qed

lemma demo_cbor_robust: "cbor_robust demo"
  by (auto simp: cbor_robust_def demo_pull_def demo_segment_def Let_def
      split: list.splits option.splits prod.splits if_splits)

lemmas demo_laws [simp] =
  demo_aead_laws demo_hkdf_laws demo_dh_laws demo_cbor_laws demo_cbor_robust

text \<open>Two keys for the examples.\<close>
definition demo_key :: "u8 \<Rightarrow> key" where
  "demo_key b = Key (replicate 32 b)"

lemma key_wf_demo_key [simp]: "key_wf (demo_key b)"
  by (simp add: demo_key_def key_wf_def)

end
