(* ===== verification/SB_Static.thy ===== *)
theory SB_Static
  imports SB_Trait Ext_Instance
begin

text \<open>\<open>crates/strong-box/src/strong_box.rs\<close> and \<open>static_strong_box.rs\<close>: the trait every strong
  box implements, as a locale with the facts its users rest on, and the box with one encryption
  key and a set of decryption keys.  The nonce \<open>fill_nonce\<close> draws is an argument of
  encryption.\<close>

section \<open>The box\<close>

record static_strong_box =
  encryption_key :: key
  encryption_key_id :: keyid
  decryption_keys :: "keyid \<rightharpoonup> key"

definition static_new ::
  "'x ext_scheme \<Rightarrow> key \<Rightarrow> key list \<Rightarrow> (static_strong_box, 'e) rust_result" where
  "static_new X enc_key dec_keys =
     and_then (fold_result (\<lambda>key_map key. map_ok (\<lambda>i. key_map(i \<mapsto> key)) (key_id X key)) Map.empty dec_keys)
       (\<lambda>key_map. map_ok
          (\<lambda>enc_key_id. \<lparr> encryption_key = enc_key, encryption_key_id = enc_key_id, decryption_keys = key_map \<rparr>)
          (key_id X enc_key))"

section \<open>Ciphertexts\<close>

record ciphertext =
  ct_key_id :: keyid
  ct_nonce :: bytes
  ct_ciphertext :: bytes

definition static_magic :: bytes where
  "static_magic = [0xb1, 0xb8, 0xf5]"

definition ciphertext_to_bytes :: "'x ext_scheme \<Rightarrow> ciphertext \<Rightarrow> (bytes, error) rust_result" where
  "ciphertext_to_bytes X c =
     and_then (map_err (CiphertextEncoding ''key_id'') (cbor_push X (HArray (Some 3)))) (\<lambda>h.
     and_then (keyid_encode X (ct_key_id c)) (\<lambda>i.
     and_then (map_err (CiphertextEncoding ''nonce'') (cbor_bytes X (ct_nonce c))) (\<lambda>n.
     and_then (map_err (CiphertextEncoding ''ciphertext'') (cbor_bytes X (ct_ciphertext c))) (\<lambda>b.
     Ok (static_magic @ h @ i @ n @ b)))))"

definition ciphertext_from_bytes :: "'x ext_scheme \<Rightarrow> bytes \<Rightarrow> (ciphertext, error) rust_result" where
  "ciphertext_from_bytes X b =
     (if length b < 21 then Err (InvalidCiphertext ''too short'')
      else if take 3 b \<noteq> static_magic then Err (InvalidCiphertext ''incorrect magic'')
      else
        and_then (pull_array X 3 (drop 3 b)) (\<lambda>dec.
        and_then (keyid_decode X dec) (\<lambda>(i, dec).
        and_then (pull_bytes_header X ''nonce header'' (InvalidCiphertext ''expected nonce'')
                    (InvalidCiphertext ''bad nonce'') dec) (\<lambda>segment.
        and_then (pull_exact X 1024 12 ''nonce'' (InvalidCiphertext ''incorrect nonce length'')
                    (InvalidCiphertext ''short nonce'') segment) (\<lambda>(nonce, dec).
        and_then (pull_bytes_header X ''ciphertext header'' (InvalidCiphertext ''expected ciphertext'')
                    (InvalidCiphertext ''bad ciphertext'') dec) (\<lambda>segment.
        and_then (read_body X segment) (\<lambda>body.
        Ok \<lparr> ct_key_id = i, ct_nonce = nonce, ct_ciphertext = body \<rparr>)))))))"

section \<open>Encryption and decryption\<close>

definition static_aad :: "bytes \<Rightarrow> keyid \<Rightarrow> bytes \<Rightarrow> bytes" where
  "static_aad ctx i nonce = ctx @ as_bytes i @ nonce"

definition static_decrypt_ciphertext ::
  "'x ext_scheme \<Rightarrow> static_strong_box \<Rightarrow> ciphertext \<Rightarrow> bytes \<Rightarrow> (bytes, error) rust_result" where
  "static_decrypt_ciphertext X sb c ctx =
     (case decryption_keys sb (ct_key_id c) of
        Some key \<Rightarrow>
          ok_or Decryption (aead_decrypt X (expose_secret key) (ct_nonce c)
            (static_aad ctx (ct_key_id c) (ct_nonce c)) (ct_ciphertext c))
      | None \<Rightarrow> Err Decryption)"

definition static_encrypt ::
  "'x ext_scheme \<Rightarrow> static_strong_box \<Rightarrow> bytes \<Rightarrow> bytes \<Rightarrow> bytes \<Rightarrow> (bytes, error) rust_result" where
  "static_encrypt X sb nonce plaintext ctx =
     and_then (ok_or Encryption (aead_encrypt X (expose_secret (encryption_key sb)) nonce
                (static_aad ctx (encryption_key_id sb) nonce) plaintext)) (\<lambda>body.
     ciphertext_to_bytes X
       \<lparr> ct_key_id = encryption_key_id sb, ct_nonce = nonce, ct_ciphertext = body \<rparr>)"

definition static_decrypt ::
  "'x ext_scheme \<Rightarrow> static_strong_box \<Rightarrow> bytes \<Rightarrow> bytes \<Rightarrow> (bytes, error) rust_result" where
  "static_decrypt X sb ciphertext ctx =
     and_then (ciphertext_from_bytes X ciphertext) (\<lambda>c. static_decrypt_ciphertext X sb c ctx)"

section \<open>Construction\<close>

lemma static_new_fold:
  assumes "hkdf_laws X" "\<forall>k\<in>set ks. key_wf k"
  shows "fold_result (\<lambda>m key. map_ok (\<lambda>i. m(i \<mapsto> key)) (key_id X key)) m ks =
           Ok (fold (\<lambda>k m. m(keyid_of X k \<mapsto> k)) ks m)"
  using assms(2) by (induction ks arbitrary: m) (simp_all add: rust_simps assms(1))

lemma static_new_eq [rust_simps]:
  assumes "hkdf_laws X" "key_wf k" "\<forall>k\<in>set ks. key_wf k"
  shows "static_new X k ks =
    Ok \<lparr> encryption_key = k, encryption_key_id = keyid_of X k,
         decryption_keys = fold (\<lambda>k m. m(keyid_of X k \<mapsto> k)) ks Map.empty \<rparr>"
  using assms by (simp add: static_new_def static_new_fold rust_simps)

text \<open>The boxes \<open>new\<close> builds: the identifier of every key is the key's own.\<close>
definition static_wf :: "'x ext_scheme \<Rightarrow> static_strong_box \<Rightarrow> bool" where
  "static_wf X sb \<longleftrightarrow>
     key_wf (encryption_key sb) \<and> encryption_key_id sb = keyid_of X (encryption_key sb) \<and>
     (\<forall>i k. decryption_keys sb i = Some k \<longrightarrow> key_wf k \<and> i = keyid_of X k)"

lemma static_new_wf:
  assumes "hkdf_laws X" "key_wf k" "\<forall>k\<in>set ks. key_wf k" "static_new X k ks = Ok sb"
  shows "static_wf X sb"
  using assms by (auto simp: static_new_eq static_wf_def dest!: fold_map_upd_dom)

lemma static_new_lookup:
  assumes "hkdf_laws X" "key_wf k" "\<forall>k\<in>set ks. key_wf k"
    and "inj_on (keyid_of X) (set ks)" "d \<in> set ks" "static_new X k ks = Ok sb"
  shows "decryption_keys sb (keyid_of X d) = Some d"
  using assms fold_map_upd_inj [of "keyid_of X" ks d "\<lambda>k. k"] by (auto simp: static_new_eq)

lemma static_new_unlisted:
  assumes "hkdf_laws X" "key_wf k'" "\<forall>k\<in>set ks. key_wf k" "static_new X k' ks = Ok sb"
    and "inj_on (keyid_of X) (insert k (set ks))" "k \<notin> set ks"
  shows "decryption_keys sb (keyid_of X k) = None"
proof -
  have "keyid_of X k \<notin> keyid_of X ` set ks" using assms(5,6) by (auto simp: inj_on_def)
  then show ?thesis using assms(1-4) fold_map_upd_other [of _ "keyid_of X" ks "\<lambda>k. k"] by (auto simp: static_new_eq)
qed

section \<open>Wire format\<close>

definition ciphertext_wf :: "ciphertext \<Rightarrow> bool" where
  "ciphertext_wf c \<longleftrightarrow> keyid_wf (ct_key_id c) \<and> length (ct_nonce c) = 12"

lemma ciphertext_to_bytes_total:
  "cbor_laws X \<Longrightarrow> \<exists>b. ciphertext_to_bytes X c = Ok b"
  using cbor_push_array [of X 3] cbor_bytes_pull [of X "as_bytes (ct_key_id c)"]
    cbor_bytes_pull [of X "ct_nonce c"] cbor_bytes_pull [of X "ct_ciphertext c"]
  by (auto simp: ciphertext_to_bytes_def keyid_encode_def)

lemma ciphertext_to_from_bytes:
  assumes laws: "cbor_laws X" and wf: "ciphertext_wf c" and enc: "ciphertext_to_bytes X c = Ok w"
  shows "ciphertext_from_bytes X w = Ok c"
proof -
  obtain h i n b where parts:
    "cbor_push X (HArray (Some 3)) = Ok h" "keyid_encode X (ct_key_id c) = Ok i"
    "cbor_bytes X (ct_nonce c) = Ok n" "cbor_bytes X (ct_ciphertext c) = Ok b"
    and w: "w = static_magic @ h @ i @ n @ b"
    using enc by (auto simp: ciphertext_to_bytes_def)
  have wf': "keyid_wf (ct_key_id c)" "length (ct_nonce c) = 12" using wf by (auto simp: ciphertext_wf_def)
  have "1 \<le> length h" using cbor_push_array [OF laws, of 3] parts by auto
  moreover have "17 \<le> length i"
    using cbor_bytes_pull [OF laws, of "as_bytes (ct_key_id c)"] parts wf'
    by (auto simp: keyid_encode_def keyid_wf_def)
  ultimately have len: "\<not> length w < 21" "take 3 w = static_magic" "drop 3 w = h @ i @ n @ b"
    by (simp_all add: w static_magic_def)
  note fields = pull_array_push [OF laws parts(1)] keyid_encode_decode [OF laws wf'(1) parts(2)]
    pull_field [OF laws parts(3)] pull_field(1) [OF laws parts(4), where rest = "[]", simplified]
  show ?thesis using wf'(2) laws
    by (simp add: ciphertext_from_bytes_def len fields rust_simps)
qed

lemma ciphertext_from_bytes_wf: "ciphertext_from_bytes X w = Ok c \<Longrightarrow> ciphertext_wf c"
  by (auto simp: ciphertext_from_bytes_def ciphertext_wf_def
      split: if_splits dest: keyid_decode_wf pull_exact_length)

lemma ciphertext_from_bytes_error:
  "cbor_robust X \<Longrightarrow> ciphertext_from_bytes X w = Err e \<Longrightarrow> malformed e"
  by (auto simp: ciphertext_from_bytes_def and_then_eq_Err split: if_splits
      dest: pull_array_error keyid_decode_error pull_bytes_header_error pull_exact_error read_body_error)

lemma ciphertext_from_bytes_magic:
  "ciphertext_from_bytes X w = Ok c \<Longrightarrow> 21 \<le> length w \<and> take 3 w = static_magic"
  by (auto simp: ciphertext_from_bytes_def split: if_splits)

lemma ciphertext_from_bytes_robust:
  "cbor_robust X \<Longrightarrow> ciphertext_from_bytes X w \<noteq> Abort"
  by (auto simp: ciphertext_from_bytes_def and_then_eq_Abort rust_simps)

section \<open>The trait\<close>

text \<open>A box over the third-party code \<open>X\<close> that can open what it seals with this nonce.\<close>
definition static_ready :: "'x ext_scheme \<times> static_strong_box \<Rightarrow> bytes \<Rightarrow> bool" where
  "static_ready b nonce \<longleftrightarrow> (case b of (X, sb) \<Rightarrow>
     aead_laws X \<and> cbor_laws X \<and> length nonce = 12 \<and> keyid_wf (encryption_key_id sb) \<and>
     decryption_keys sb (encryption_key_id sb) = Some (encryption_key sb))"

text \<open>The cipher opens the body of \<open>w\<close> under the associated data of both contexts.\<close>
definition static_forged ::
  "'x ext_scheme \<times> static_strong_box \<Rightarrow> bytes \<Rightarrow> bytes \<Rightarrow> bytes \<Rightarrow> bool" where
  "static_forged b w ctx ctx' \<longleftrightarrow> (case b of (X, sb) \<Rightarrow>
     (case ciphertext_from_bytes X w of
        Ok c \<Rightarrow>
          (case decryption_keys sb (ct_key_id c) of
             Some key \<Rightarrow>
               (let open_with = (\<lambda>ctx. aead_decrypt X (expose_secret key) (ct_nonce c)
                      (static_aad ctx (ct_key_id c) (ct_nonce c)) (ct_ciphertext c)) in
                static_aad ctx (ct_key_id c) (ct_nonce c) \<noteq> static_aad ctx' (ct_key_id c) (ct_nonce c)
                \<and> open_with ctx \<noteq> None \<and> open_with ctx' \<noteq> None)
           | None \<Rightarrow> False)
      | _ \<Rightarrow> False))"

lemma static_encrypt_Ok:
  "static_encrypt X sb nonce m ctx = Ok w \<longleftrightarrow>
     (\<exists>body. aead_encrypt X (expose_secret (encryption_key sb)) nonce
               (static_aad ctx (encryption_key_id sb) nonce) m = Some body \<and>
        ciphertext_to_bytes X
          \<lparr> ct_key_id = encryption_key_id sb, ct_nonce = nonce, ct_ciphertext = body \<rparr> = Ok w)"
  by (simp add: static_encrypt_def)

lemma static_encrypt_parsed:
  assumes "cbor_laws X" "length nonce = 12" "keyid_wf (encryption_key_id sb)"
    and "static_encrypt X sb nonce m ctx = Ok w"
  shows "\<exists>body. aead_encrypt X (expose_secret (encryption_key sb)) nonce
             (static_aad ctx (encryption_key_id sb) nonce) m = Some body \<and>
           ciphertext_from_bytes X w = Ok \<lparr> ct_key_id = encryption_key_id sb, ct_nonce = nonce,
             ct_ciphertext = body \<rparr>"
proof -
  obtain body where "aead_encrypt X (expose_secret (encryption_key sb)) nonce
        (static_aad ctx (encryption_key_id sb) nonce) m = Some body"
    "ciphertext_to_bytes X \<lparr> ct_key_id = encryption_key_id sb, ct_nonce = nonce,
        ct_ciphertext = body \<rparr> = Ok w"
    using assms(4) by (auto simp: static_encrypt_Ok)
  moreover have "ciphertext_wf \<lparr> ct_key_id = encryption_key_id sb, ct_nonce = nonce,
        ct_ciphertext = body \<rparr>" for body
    using assms by (simp add: ciphertext_wf_def)
  ultimately show ?thesis using ciphertext_to_from_bytes [OF assms(1)] by blast
qed

lemma static_open_other:
  assumes "aead_laws X" "cbor_laws X" "length nonce = 12" "keyid_wf (encryption_key_id sb)"
    and "decryption_keys sb' (encryption_key_id sb) = Some (encryption_key sb)"
    and "static_encrypt X sb nonce m ctx = Ok w"
  shows "static_decrypt X sb' w ctx = Ok m"
  using static_encrypt_parsed [OF assms(2-4,6)] assms(1,5)
  by (auto simp: static_decrypt_def static_decrypt_ciphertext_def rust_simps)

lemma static_aad_inject [simp]:
  "static_aad ctx i nonce = static_aad ctx' i nonce \<longleftrightarrow> ctx = ctx'"
  by (simp add: static_aad_def)

lemma static_context_bound:
  assumes "static_ready (X, sb) nonce" "static_encrypt X sb nonce m ctx = Ok w"
    and "static_decrypt X sb w ctx' = Ok m'" "ctx' \<noteq> ctx"
  shows "static_forged (X, sb) w ctx ctx'"
proof -
  have ready: "aead_laws X" "cbor_laws X" "length nonce = 12" "keyid_wf (encryption_key_id sb)"
    "decryption_keys sb (encryption_key_id sb) = Some (encryption_key sb)"
    using assms(1) by (auto simp: static_ready_def)
  obtain body where "aead_encrypt X (expose_secret (encryption_key sb)) nonce
      (static_aad ctx (encryption_key_id sb) nonce) m = Some body"
    "ciphertext_from_bytes X w = Ok \<lparr> ct_key_id = encryption_key_id sb, ct_nonce = nonce,
       ct_ciphertext = body \<rparr>"
    using static_encrypt_parsed [OF ready(2-4) assms(2)] by blast
  then show ?thesis using assms(3,4) ready(1,5)
    by (auto simp: static_forged_def static_decrypt_def static_decrypt_ciphertext_def rust_simps)
qed

interpretation static_box: context_bound_box
  "\<lambda>b nonce. static_encrypt (fst b) (snd b) nonce" "\<lambda>b. static_decrypt (fst b) (snd b)"
  static_ready static_forged
  by unfold_locales
    (auto simp: static_ready_def intro: static_open_other static_context_bound)

section \<open>Properties\<close>

definition demo_ct :: ciphertext where
  "demo_ct = \<lparr> ct_key_id = KeyId (replicate 16 7), ct_nonce = replicate 12 9, ct_ciphertext = [1, 2, 3] \<rparr>"

definition demo_box :: static_strong_box where
  "demo_box = \<lparr> encryption_key = demo_key 1, encryption_key_id = keyid_of demo (demo_key 1),
     decryption_keys = [keyid_of demo (demo_key 1) \<mapsto> demo_key 1] \<rparr>"

text \<open>The box after a roll-over to key 2 that still lists key 1.\<close>
definition demo_box2 :: static_strong_box where
  "demo_box2 = \<lparr> encryption_key = demo_key 2, encryption_key_id = keyid_of demo (demo_key 2),
     decryption_keys = [keyid_of demo (demo_key 1) \<mapsto> demo_key 1, keyid_of demo (demo_key 2) \<mapsto> demo_key 2] \<rparr>"

text \<open>A box that does not list key 1.\<close>
definition demo_box3 :: static_strong_box where
  "demo_box3 = \<lparr> encryption_key = demo_key 2, encryption_key_id = keyid_of demo (demo_key 2),
     decryption_keys = [keyid_of demo (demo_key 2) \<mapsto> demo_key 2] \<rparr>"

definition demo_wire :: bytes where
  "demo_wire = (case static_encrypt demo demo_box (replicate 12 5) [1, 2, 3] [10] of Ok w \<Rightarrow> w | _ \<Rightarrow> [])"

lemma demo_static_facts:
  "static_new demo (demo_key 1) [demo_key 1] = Ok demo_box"
  "static_new demo (demo_key 2) [demo_key 1, demo_key 2] = Ok demo_box2"
  "static_encrypt demo demo_box (replicate 12 5) [1, 2, 3] [10] = Ok demo_wire"
  "inj_on (keyid_of demo) (set [demo_key 1, demo_key 2])"
  "static_ready (demo, demo_box) (replicate 12 5)"
  subgoal by (simp add: rust_simps demo_box_def)
  subgoal by (simp add: rust_simps demo_box2_def)
  subgoal by code_simp
  subgoal by code_simp
  subgoal by (simp add: static_ready_def demo_box_def)
  done

text \<open>every ciphertext value with a 16-byte key identifier and a 12-byte nonce is read back
  unchanged from the bytes it is written as: the magic, the array header and the three byte
  strings, the last of them in as many 1024-byte chunks as it takes.\<close>
theorem ciphertext_round_trip:
  assumes "cbor_laws X" "ciphertext_wf c"
  shows "\<exists>w. ciphertext_to_bytes X c = Ok w \<and> ciphertext_from_bytes X w = Ok c"
  using ciphertext_to_bytes_total [OF assms(1), of c] ciphertext_to_from_bytes [OF assms] by blast

theorem ciphertext_round_trip_witness:
  "\<exists>w. ciphertext_to_bytes demo demo_ct = Ok w \<and> ciphertext_from_bytes demo w = Ok demo_ct"
  by (rule ciphertext_round_trip) (simp_all add: demo_ct_def ciphertext_wf_def keyid_wf_def)

text \<open>reading a ciphertext from any bytes whatsoever returns: it yields a value whose key
  identifier is 16 bytes and whose nonce is 12, from bytes that begin with the magic and are at
  least 21 long, or one of the two
  errors of a malformed ciphertext; no input makes it panic or loop.\<close>
theorem ciphertext_parse_total:
  assumes "cbor_robust X"
  shows "case ciphertext_from_bytes X w of
           Ok c \<Rightarrow> ciphertext_wf c \<and> 21 \<le> length w \<and> take 3 w = static_magic
         | Err e \<Rightarrow> malformed e
         | Abort \<Rightarrow> False"
  using assms ciphertext_from_bytes_robust [OF assms, of w]
  by (auto split: rust_result.splits
      dest: ciphertext_from_bytes_wf ciphertext_from_bytes_magic ciphertext_from_bytes_error)

theorem ciphertext_parse_total_witness:
  "case ciphertext_from_bytes demo [0xb1, 0xb8, 0xf5] of
     Ok c \<Rightarrow> ciphertext_wf c \<and> 21 \<le> length [0xb1, 0xb8, 0xf5 :: u8] \<and> take 3 [0xb1, 0xb8, 0xf5] = static_magic
   | Err e \<Rightarrow> malformed e
   | Abort \<Rightarrow> False"
  by (rule ciphertext_parse_total) simp

text \<open>C1: what a box encrypts with its encryption key, every box that lists this key among its
  decryption keys decrypts, whatever its own encryption key is: the same box, or one built after a
  key roll-over.  The key identifiers of the listed keys must differ.\<close>
theorem static_round_trip:
  assumes "aead_laws X" "cbor_laws X" "hkdf_laws X"
    and "key_wf k" "\<forall>d\<in>set ks. key_wf d" "static_new X k ks = Ok sb"
    and "key_wf k'" "\<forall>d\<in>set ks'. key_wf d" "static_new X k' ks' = Ok sb'"
    and "k \<in> set ks'" "inj_on (keyid_of X) (set ks')"
    and "length nonce = 12" "static_encrypt X sb nonce m ctx = Ok w"
  shows "static_decrypt X sb' w ctx = Ok m"
proof (rule static_open_other [OF assms(1,2,12) _ _ assms(13)])
  have sb: "encryption_key sb = k" "encryption_key_id sb = keyid_of X k"
    using assms(3-6) by (auto simp: static_new_eq)
  show "keyid_wf (encryption_key_id sb)" using assms(3) sb by simp
  show "decryption_keys sb' (encryption_key_id sb) = Some (encryption_key sb)"
    using static_new_lookup [OF assms(3,7,8,11,10,9)] sb by simp
qed

text \<open>C2: what a box sealed is refused with \<open>Decryption\<close>, and nothing else happens, by every box that does
  not list its key, whatever keys that box has, and by every box under any context but the one it was sealed
  under, unless the cipher itself opens the body under the associated data of both contexts.  The identifiers of
  the keys involved must differ.\<close>
theorem static_sealed_refused:
  assumes "aead_laws X" "cbor_laws X" "hkdf_laws X"
    and "key_wf k" "\<forall>d\<in>set ks. key_wf d" "static_new X k ks = Ok sb"
    and "key_wf k'" "\<forall>d\<in>set ks'. key_wf d" "static_new X k' ks' = Ok sb'"
    and "inj_on (keyid_of X) (insert k (set ks'))"
    and "length nonce = 12" "static_encrypt X sb nonce m ctx = Ok w"
    and "k \<notin> set ks' \<or> ctx' \<noteq> ctx" "\<not> static_forged (X, sb') w ctx ctx'"
  shows "static_decrypt X sb' w ctx' = Err Decryption"
proof -
  have sb: "encryption_key sb = k" "encryption_key_id sb = keyid_of X k"
    using assms(3-6) by (auto simp: static_new_eq)
  obtain body where body: "aead_encrypt X (expose_secret k) nonce (static_aad ctx (keyid_of X k) nonce) m = Some body"
      "ciphertext_from_bytes X w = Ok \<lparr> ct_key_id = keyid_of X k, ct_nonce = nonce, ct_ciphertext = body \<rparr>"
    using static_encrypt_parsed [OF assms(2,11) _ assms(12)] assms(3) sb by auto
  show ?thesis
  proof (cases "k \<in> set ks'")
    case True
    have "inj_on (keyid_of X) (set ks')" using assms(10) by (rule inj_on_subset) auto
    from static_new_lookup [OF assms(3,7,8) this True assms(9)]
    have key: "decryption_keys sb' (keyid_of X k) = Some k" .
    have "aead_decrypt X (expose_secret k) nonce (static_aad ctx (keyid_of X k) nonce) body = Some m"
      using body(1) by (simp add: aead_decrypt_iff [OF assms(1)])
    then have "aead_decrypt X (expose_secret k) nonce (static_aad ctx' (keyid_of X k) nonce) body = None"
      using assms(13,14) True body(2) key by (auto simp: static_forged_def Let_def)
    then show ?thesis using body(2) key by (simp add: static_decrypt_def static_decrypt_ciphertext_def)
  next
    case False
    then show ?thesis using body(2) static_new_unlisted [OF assms(3,7,8,9,10)]
      by (simp add: static_decrypt_def static_decrypt_ciphertext_def)
  qed
qed

text \<open>Decryption of an own ciphertext under another context.\<close>
lemma static_foreign_context:
  assumes "static_ready (X, sb) nonce" "static_encrypt X sb nonce m ctx = Ok w"
    and "\<not> static_forged (X, sb) w ctx ctx'" "ctx' \<noteq> ctx"
  shows "static_decrypt X sb w ctx' = Err Decryption"
proof -
  have "static_decrypt X sb w ctx' \<noteq> Ok m'" for m'
    using static_box.wrong_context_fails [of "(X, sb)" nonce m ctx w ctx'] assms by simp
  moreover have "static_decrypt X sb w ctx' \<in> range Ok \<union> {Err Decryption}"
  proof -
    obtain body where "ciphertext_from_bytes X w = Ok \<lparr> ct_key_id = encryption_key_id sb,
        ct_nonce = nonce, ct_ciphertext = body \<rparr>"
      using static_encrypt_parsed [OF _ _ _ assms(2)] assms(1) by (auto simp: static_ready_def)
    then show ?thesis
      by (cases "static_decrypt X sb w ctx'")
        (auto simp: static_decrypt_def static_decrypt_ciphertext_def split: option.splits)
  qed
  ultimately show ?thesis by auto
qed

text \<open>a ciphertext does not decrypt under any context but its own, unless the cipher itself
  opens its body under the associated data of both contexts.\<close>
theorem static_wrong_context:
  assumes "static_ready (X, sb) nonce" "static_encrypt X sb nonce m ctx = Ok w"
    and "\<not> static_forged (X, sb) w ctx ctx'" "ctx' \<noteq> ctx"
  shows "static_decrypt X sb w ctx' = Err Decryption"
  using static_foreign_context [OF assms] .

theorem static_round_trip_witness:
  "static_decrypt demo demo_box2 demo_wire [10] = Ok [1, 2, 3]"
  by (rule static_round_trip [OF _ _ _ _ _ demo_static_facts(1) _ _ demo_static_facts(2) _
        demo_static_facts(4) _ demo_static_facts(3)]) simp_all

theorem static_sealed_refused_witness:
  "static_decrypt demo demo_box2 demo_wire [11] = Err Decryption \<and>
   static_decrypt demo demo_box3 demo_wire [10] = Err Decryption"
proof -
  have new3: "static_new demo (demo_key 2) [demo_key 2] = Ok demo_box3" by (simp add: rust_simps demo_box3_def)
  have keys: "demo_key 1 \<noteq> demo_key 2" by (simp add: demo_key_def)
  have ids: "inj_on (keyid_of demo) (insert (demo_key 1) (set [demo_key 1, demo_key 2]))"
      "inj_on (keyid_of demo) (insert (demo_key 1) (set [demo_key 2]))"
    using demo_static_facts(4) by (simp_all add: insert_commute)
  have "\<not> static_forged (demo, demo_box2) demo_wire [10] [11]" "\<not> static_forged (demo, demo_box3) demo_wire [10] [10]"
    by code_simp+
  then show ?thesis
    using static_sealed_refused [OF _ _ _ _ _ demo_static_facts(1) _ _ demo_static_facts(2) ids(1) _ demo_static_facts(3)]
      static_sealed_refused [OF _ _ _ _ _ demo_static_facts(1) _ _ new3 ids(2) _ demo_static_facts(3)] keys
    by simp
qed

theorem static_wrong_context_witness:
  "static_decrypt demo demo_box demo_wire [11] = Err Decryption"
proof (rule static_wrong_context [OF demo_static_facts(5,3)])
  show "\<not> static_forged (demo, demo_box) demo_wire [10] [11]" by code_simp
qed simp

end
