(* ===== verification/SB_Rotating.thy ===== *)
theory SB_Rotating
  imports SB_Static
begin

text \<open>\<open>crates/strong-box/src/rotating_strong_box.rs\<close>: the box whose keys change with every period
  of \<open>lifespan\<close> seconds.  The clock readings are arguments; a \<open>Timestamp\<close> is its \<open>u64\<close>, and its
  operators wrap as the release build's do.\<close>

section \<open>Data\<close>

type_synonym timestamp = u64

record period =
  first_valid_at :: timestamp
  last_valid_at :: timestamp

record cached_strong_box =
  invalid_after :: timestamp
  strong_box :: static_strong_box

record key_cache =
  lifespan :: u64
  backtrack :: u16
  root_encryption_key :: key
  root_decryption_keys :: "key list"
  current_encryptor :: cached_strong_box
  decryptor_cache :: "keyid \<rightharpoonup> cached_strong_box"
  decryptor_validities :: "(timestamp \<times> keyid) list"
  cache_invalid_at :: timestamp

section \<open>Periods\<close>

definition period_of :: "key_cache \<Rightarrow> timestamp \<Rightarrow> (period, 'e) rust_result" where
  "period_of kc at =
     (if lifespan kc = 0 then Abort
      else let start = at - at mod lifespan kc in
        Ok \<lparr> first_valid_at = start, last_valid_at = start + lifespan kc - 1 \<rparr>)"

definition period_to_bytes :: "period \<Rightarrow> bytes" where
  "period_to_bytes p = be_bytes_u64 (first_valid_at p) @ be_bytes_u64 (last_valid_at p)"

definition back_by :: "period \<Rightarrow> u16 \<Rightarrow> period option" where
  "back_by p n =
     (let d = (last_valid_at p - first_valid_at p + 1) * ucast n in
      if first_valid_at p < d then None
      else Some \<lparr> first_valid_at = first_valid_at p - d, last_valid_at = last_valid_at p - d \<rparr>)"

definition previous :: "period \<Rightarrow> period option" where
  "previous p = back_by p 1"

section \<open>Cached boxes\<close>

definition cached_new :: "'x ext_scheme \<Rightarrow> key \<Rightarrow> timestamp \<Rightarrow> (cached_strong_box, 'e) rust_result" where
  "cached_new X key expiry =
     map_ok (\<lambda>sb. \<lparr> invalid_after = expiry, strong_box = sb \<rparr>) (static_new X key [key])"

definition is_expired :: "cached_strong_box \<Rightarrow> timestamp \<Rightarrow> bool" where
  "is_expired c now \<longleftrightarrow> now > invalid_after c"

section \<open>The key cache\<close>

definition rotation_key :: "'x ext_scheme \<Rightarrow> key \<Rightarrow> period \<Rightarrow> (key, 'e) rust_result" where
  "rotation_key X root_key p = kdf_derive_key X root_key (str_bytes ''rotation::'' @ period_to_bytes p)"

definition update_encryptor ::
  "'x ext_scheme \<Rightarrow> key_cache \<Rightarrow> timestamp \<Rightarrow> (key_cache, 'e) rust_result" where
  "update_encryptor X kc t =
     (if is_expired (current_encryptor kc) t then
        and_then (period_of kc t) (\<lambda>p.
        and_then (rotation_key X (root_encryption_key kc) p) (\<lambda>key.
        map_ok (\<lambda>c. kc\<lparr>current_encryptor := c\<rparr>) (cached_new X key (last_valid_at p))))
      else Ok kc)"

definition oldest_cached_decryptor :: "key_cache \<Rightarrow> (timestamp \<times> keyid) option" where
  "oldest_cached_decryptor kc =
     (case decryptor_validities kc of [] \<Rightarrow> None | entry # _ \<Rightarrow> Some entry)"

function purge_entries_before :: "key_cache \<Rightarrow> timestamp \<Rightarrow> key_cache" where
  "purge_entries_before kc t =
     (case oldest_cached_decryptor kc of
        Some (expiry, i) \<Rightarrow>
          if expiry < t then
            purge_entries_before
              (kc\<lparr>decryptor_validities := remove1 (expiry, i) (decryptor_validities kc),
                  decryptor_cache := (decryptor_cache kc)(i := None)\<rparr>) t
          else kc
      | None \<Rightarrow> kc)"
  by pat_completeness auto
termination
  by (relation "measure (\<lambda>(kc, t). length (decryptor_validities kc))")
    (auto simp: oldest_cached_decryptor_def split: list.splits)

declare purge_entries_before.simps [simp del]

text \<open>One key of the inner loop of \<open>refresh_cache\<close>.  The two inserts go into a \<open>BTreeMap\<close> and a
  \<open>BTreeSet\<close>: the set is the sorted list of its elements.\<close>
definition cache_key ::
  "'x ext_scheme \<Rightarrow> period \<Rightarrow> timestamp \<Rightarrow> key_cache \<Rightarrow> key \<Rightarrow> (key_cache, 'e) rust_result" where
  "cache_key X p expiry kc root_key =
     and_then (rotation_key X root_key p) (\<lambda>key.
     and_then (key_id X key) (\<lambda>i.
     map_ok (\<lambda>c. kc\<lparr>decryptor_cache := (decryptor_cache kc)(i \<mapsto> c),
                    decryptor_validities := insort_insert (expiry, i) (decryptor_validities kc)\<rparr>)
       (cached_new X key expiry)))"

fun refresh_periods ::
  "'x ext_scheme \<Rightarrow> key_cache \<Rightarrow> period \<Rightarrow> u16 list \<Rightarrow> (key_cache, 'e) rust_result" where
  "refresh_periods X kc p [] = Ok kc"
| "refresh_periods X kc p (b # bs) =
     (case root_decryption_keys kc of
        [] \<Rightarrow> Abort
      | root # _ \<Rightarrow>
          and_then (rotation_key X root p) (\<lambda>trial_key.
          and_then (key_id X trial_key) (\<lambda>trial_key_id.
            if decryptor_cache kc trial_key_id \<noteq> None then Ok kc
            else
              let expiry = last_valid_at p + ucast (backtrack kc - b) * lifespan kc in
              and_then (fold_result (cache_key X p expiry) kc (root_decryption_keys kc)) (\<lambda>kc.
                case previous p of
                  Some q \<Rightarrow> refresh_periods X kc q bs
                | None \<Rightarrow> Ok kc))))"

definition refresh_cache ::
  "'x ext_scheme \<Rightarrow> key_cache \<Rightarrow> timestamp \<Rightarrow> (key_cache, 'e) rust_result" where
  "refresh_cache X kc as_at =
     (if as_at < cache_invalid_at kc then Ok kc
      else
        and_then (period_of kc as_at) (\<lambda>p.
          refresh_periods X (purge_entries_before kc (first_valid_at p)) p
            (map of_nat [0..<Suc (unat (backtrack kc))])))"

section \<open>The box\<close>

definition rotating_new ::
  "'x ext_scheme \<Rightarrow> key \<Rightarrow> key list \<Rightarrow> u64 \<Rightarrow> u16 \<Rightarrow> (key_cache, 'e) rust_result" where
  "rotating_new X enc_key dec_keys period_secs max_back =
     map_ok (\<lambda>c. \<lparr> lifespan = period_secs, backtrack = max_back, root_encryption_key = enc_key,
          root_decryption_keys = dec_keys, current_encryptor = c,
          decryptor_cache = Map.empty, decryptor_validities = [], cache_invalid_at = 0 \<rparr>)
       (cached_new X (Key (replicate 32 0)) 0)"

definition try_decrypt_with ::
  "'x ext_scheme \<Rightarrow> key_cache \<Rightarrow> timestamp \<Rightarrow> ciphertext \<Rightarrow> bytes \<Rightarrow> (bytes, error) rust_result" where
  "try_decrypt_with X kc now c ctx =
     (case decryptor_cache kc (ct_key_id c) of
        Some cached \<Rightarrow>
          if is_expired cached now then Err Decryption
          else static_decrypt_ciphertext X (strong_box cached) c ctx
      | None \<Rightarrow> Err Decryption)"

definition rotating_encrypt ::
  "'x ext_scheme \<Rightarrow> key_cache \<Rightarrow> timestamp \<Rightarrow> bytes \<Rightarrow> bytes \<Rightarrow> bytes \<Rightarrow>
     key_cache \<times> (bytes, error) rust_result" where
  "rotating_encrypt X kc now nonce plaintext ctx =
     (case update_encryptor X kc now of
        Ok kc' \<Rightarrow> (kc', static_encrypt X (strong_box (current_encryptor kc')) nonce plaintext ctx)
      | Err e \<Rightarrow> (kc, Err e)
      | Abort \<Rightarrow> (kc, Abort))"

text \<open>The clock is read before the first attempt, for the refresh, and before the second attempt.\<close>
definition rotating_decrypt ::
  "'x ext_scheme \<Rightarrow> key_cache \<Rightarrow> timestamp \<Rightarrow> timestamp \<Rightarrow> timestamp \<Rightarrow> bytes \<Rightarrow> bytes \<Rightarrow>
     key_cache \<times> (bytes, error) rust_result" where
  "rotating_decrypt X kc t1 t2 t3 ciphertext ctx =
     (case ciphertext_from_bytes X ciphertext of
        Err e \<Rightarrow> (kc, Err e)
      | Abort \<Rightarrow> (kc, Abort)
      | Ok c \<Rightarrow>
          (case try_decrypt_with X kc t1 c ctx of
             Ok plaintext \<Rightarrow> (kc, Ok plaintext)
           | Abort \<Rightarrow> (kc, Abort)
           | Err _ \<Rightarrow>
               (case refresh_cache X kc t2 of
                  Ok kc' \<Rightarrow> (kc', try_decrypt_with X kc' t3 c ctx)
                | Err e \<Rightarrow> (kc, Err e)
                | Abort \<Rightarrow> (kc, Abort))))"

section \<open>Periods\<close>

text \<open>The \<open>n\<close>-th period since the epoch.\<close>
definition period_at :: "nat \<Rightarrow> nat \<Rightarrow> period" where
  "period_at L n = \<lparr> first_valid_at = of_nat (n * L), last_valid_at = of_nat (n * L + (L - 1)) \<rparr>"

lemma period_end_bound:
  "0 < L \<Longrightarrow> (n + 1) * L < 2 ^ 64 \<Longrightarrow> n * L < 2 ^ 64 \<and> n * L + (L - 1) < (2 ^ 64 :: nat)"
  by (cases L) auto

lemma period_at_unat:
  assumes "0 < L" "(n + 1) * L < 2 ^ 64"
  shows "unat (first_valid_at (period_at L n)) = n * L"
    and "unat (last_valid_at (period_at L n)) = n * L + (L - 1)"
  using period_end_bound [OF assms] by (simp_all add: period_at_def del: of_nat_mult of_nat_add)

lemma period_of_eq:
  assumes "0 < unat (lifespan kc)" "(unat at div unat (lifespan kc) + 1) * unat (lifespan kc) < 2 ^ 64"
  shows "period_of kc at = Ok (period_at (unat (lifespan kc)) (unat at div unat (lifespan kc)))"
proof -
  define L n where "L = unat (lifespan kc)" and "n = unat at div L"
  have A: "0 < L" "(n + 1) * L < 2 ^ 64" using assms by (simp_all add: L_def n_def)
  note bound = period_end_bound [OF A]
  have start: "unat (at - at mod lifespan kc) = n * L"
    by (subst u64_sub) (simp_all add: unat_mod n_def L_def minus_mod_eq_div_mult)
  have assoc: "at - at mod lifespan kc + lifespan kc - 1 = (at - at mod lifespan kc) + (lifespan kc - 1)"
    by simp
  have pred: "unat (lifespan kc - 1) = L - 1"
    using A(1) by (subst u64_sub) (simp_all add: L_def)
  have stop: "unat (at - at mod lifespan kc + lifespan kc - 1) = n * L + (L - 1)"
    unfolding assoc using bound start pred by (subst u64_add) simp_all
  have "first_valid_at (period_at L n) = at - at mod lifespan kc"
    "last_valid_at (period_at L n) = at - at mod lifespan kc + lifespan kc - 1"
    using period_at_unat [OF A] start stop by (simp_all add: word_unat_eq_iff)
  then have "period_at L n = \<lparr> first_valid_at = at - at mod lifespan kc,
      last_valid_at = at - at mod lifespan kc + lifespan kc - 1 \<rparr>"
    by (intro period.equality) simp_all
  moreover have "lifespan kc \<noteq> 0" using assms(1) by auto
  ultimately show ?thesis by (simp add: period_of_def Let_def L_def n_def)
qed

lemma back_by_period_at:
  assumes "0 < L" "(n + 1) * L < 2 ^ 64" "unat m * L < 2 ^ 64"
  shows "back_by (period_at L n) m = (if unat m \<le> n then Some (period_at L (n - unat m)) else None)"
proof -
  let ?p = "period_at L n"
  note u = period_at_unat [OF assms(1,2)] and bound = period_end_bound [OF assms(1,2)]
  have "L \<le> (n + 1) * L" by simp
  then have "L < 2 ^ 64" using assms(2) by linarith
  moreover have "unat (last_valid_at ?p - first_valid_at ?p) = L - 1"
    by (subst u64_sub) (simp_all add: u)
  ultimately have len: "unat (last_valid_at ?p - first_valid_at ?p + 1) = L"
    using assms(1) u64_add [of "last_valid_at ?p - first_valid_at ?p" 1] by simp
  have d: "unat ((last_valid_at ?p - first_valid_at ?p + 1) * ucast m) = unat m * L"
    using assms(3) by (subst u64_mul) (simp_all add: len u64_of_u16 mult.commute)
  show ?thesis
  proof (cases "unat m \<le> n")
    case True
    then have le: "unat m * L \<le> n * L" by simp
    have "(n - unat m + 1) * L \<le> (n + 1) * L" by (rule mult_le_mono1) simp
    then have u': "unat (first_valid_at (period_at L (n - unat m))) = (n - unat m) * L"
      "unat (last_valid_at (period_at L (n - unat m))) = (n - unat m) * L + (L - 1)"
      using period_at_unat [of L "n - unat m"] assms(1) le_less_trans [OF _ assms(2)] by simp_all
    have "unat (last_valid_at ?p - (last_valid_at ?p - first_valid_at ?p + 1) * ucast m) =
        n * L + (L - 1) - unat m * L"
      using u64_sub [of "(last_valid_at ?p - first_valid_at ?p + 1) * ucast m" "last_valid_at ?p"]
        trans_le_add1 [OF le, of "L - 1"] unfolding d u by blast
    moreover have "n * L + (L - 1) - unat m * L = (n - unat m) * L + (L - 1)"
      using le by (simp add: diff_mult_distrib del: One_nat_def)
    ultimately have "last_valid_at ?p - (last_valid_at ?p - first_valid_at ?p + 1) * ucast m =
        last_valid_at (period_at L (n - unat m))"
      unfolding word_unat_eq_iff u' by simp
    moreover have "first_valid_at ?p - (last_valid_at ?p - first_valid_at ?p + 1) * ucast m =
        first_valid_at (period_at L (n - unat m))"
      unfolding word_unat_eq_iff u' using le
      by (subst u64_sub) (simp_all only: d u diff_mult_distrib)
    moreover have "\<not> first_valid_at ?p < (last_valid_at ?p - first_valid_at ?p + 1) * ucast m"
      using le unfolding u64_less d u by linarith
    ultimately show ?thesis using True
      by (simp add: back_by_def Let_def)
  next
    case False
    then have "n * L < unat m * L" using assms(1) by simp
    then show ?thesis using False by (simp add: back_by_def Let_def u64_less d u)
  qed
qed

lemma previous_period_at:
  assumes "0 < L" "(n + 1) * L < 2 ^ 64"
  shows "previous (period_at L n) = (if n = 0 then None else Some (period_at L (n - 1)))"
  using back_by_period_at [OF assms, of 1] assms by (auto simp: previous_def)

end
