(* ===== verification/SB_Rotation.thy ===== *)
theory SB_Rotation
  imports SB_Rotating
begin

text \<open>What the cache of a rotating box holds: the effect of \<open>refresh_cache\<close> as values, the
  invariant of every reachable box, and for how long a key can be used.\<close>

section \<open>Rotation keys as values\<close>

definition rot_key :: "'x ext_scheme \<Rightarrow> key \<Rightarrow> period \<Rightarrow> key" where
  "rot_key X r p = derived X r (str_bytes ''rotation::'' @ period_to_bytes p)"

definition rot_id :: "'x ext_scheme \<Rightarrow> key \<Rightarrow> period \<Rightarrow> keyid" where
  "rot_id X r p = keyid_of X (rot_key X r p)"

text \<open>The box \<open>CachedStrongBox::new\<close> builds from one key.\<close>
definition single_box :: "'x ext_scheme \<Rightarrow> key \<Rightarrow> static_strong_box" where
  "single_box X k = \<lparr> encryption_key = k, encryption_key_id = keyid_of X k,
     decryption_keys = [keyid_of X k \<mapsto> k] \<rparr>"

lemma cached_new_eq [rust_simps]:
  "hkdf_laws X \<Longrightarrow> key_wf k \<Longrightarrow>
     cached_new X k e = Ok \<lparr> invalid_after = e, strong_box = single_box X k \<rparr>"
  by (simp add: cached_new_def rust_simps single_box_def)

lemma rotation_key_eq [rust_simps]:
  "hkdf_laws X \<Longrightarrow> key_wf r \<Longrightarrow> rotation_key X r p = Ok (rot_key X r p)"
  by (simp add: rotation_key_def rust_simps rot_key_def)

lemma key_wf_rot_key [simp]: "hkdf_laws X \<Longrightarrow> key_wf (rot_key X r p)"
  by (simp add: rot_key_def)

text \<open>The cache after the key of root \<open>r\<close> for period \<open>p\<close> is added.\<close>
definition add_root :: "'x ext_scheme \<Rightarrow> period \<Rightarrow> timestamp \<Rightarrow> key \<Rightarrow> key_cache \<Rightarrow> key_cache" where
  "add_root X p e r kc =
     kc\<lparr>decryptor_cache := (decryptor_cache kc)(rot_id X r p \<mapsto>
           \<lparr> invalid_after = e, strong_box = single_box X (rot_key X r p) \<rparr>),
        decryptor_validities := insort_insert (e, rot_id X r p) (decryptor_validities kc)\<rparr>"

lemma cache_key_eq [rust_simps]:
  "hkdf_laws X \<Longrightarrow> key_wf r \<Longrightarrow> cache_key X p e kc r = Ok (add_root X p e r kc)"
  by (simp add: cache_key_def rust_simps rot_id_def add_root_def)

lemma fold_cache_key [rust_simps]:
  assumes "hkdf_laws X" "\<forall>r\<in>set rs. key_wf r"
  shows "fold_result (cache_key X p e) kc rs = Ok (fold (add_root X p e) rs kc)"
  using assms(2) by (induction rs arbitrary: kc) (simp_all add: rust_simps assms(1))

lemma add_root_params [simp]:
  "lifespan (add_root X p e r kc) = lifespan kc" "backtrack (add_root X p e r kc) = backtrack kc"
  "root_decryption_keys (add_root X p e r kc) = root_decryption_keys kc"
  "root_encryption_key (add_root X p e r kc) = root_encryption_key kc"
  "current_encryptor (add_root X p e r kc) = current_encryptor kc"
  "cache_invalid_at (add_root X p e r kc) = cache_invalid_at kc"
  by (simp_all add: add_root_def)

lemma fold_add_root_params [simp]:
  "lifespan (fold (add_root X p e) rs kc) = lifespan kc"
  "backtrack (fold (add_root X p e) rs kc) = backtrack kc"
  "root_decryption_keys (fold (add_root X p e) rs kc) = root_decryption_keys kc"
  "root_encryption_key (fold (add_root X p e) rs kc) = root_encryption_key kc"
  "current_encryptor (fold (add_root X p e) rs kc) = current_encryptor kc"
  "cache_invalid_at (fold (add_root X p e) rs kc) = cache_invalid_at kc"
  by (induction rs arbitrary: kc) simp_all

lemma add_root_cache [simp]:
  "decryptor_cache (add_root X p e r kc) = (decryptor_cache kc)(rot_id X r p \<mapsto>
     \<lparr> invalid_after = e, strong_box = single_box X (rot_key X r p) \<rparr>)"
  "decryptor_validities (add_root X p e r kc) =
     insort_insert (e, rot_id X r p) (decryptor_validities kc)"
  by (simp_all add: add_root_def)

lemma fold_add_root_other:
  "i \<notin> (\<lambda>r. rot_id X r p) ` set rs \<Longrightarrow>
     decryptor_cache (fold (add_root X p e) rs kc) i = decryptor_cache kc i"
  by (induction rs arbitrary: kc) auto

lemma fold_add_root_lookup:
  assumes "r \<in> set rs" "inj_on (\<lambda>r. rot_id X r p) (set rs)"
  shows "decryptor_cache (fold (add_root X p e) rs kc) (rot_id X r p) =
    Some \<lparr> invalid_after = e, strong_box = single_box X (rot_key X r p) \<rparr>"
  using assms
proof (induction rs arbitrary: kc)
  case (Cons a rs)
  show ?case
  proof (cases "r \<in> set rs")
    case True
    then show ?thesis using Cons by (simp add: inj_on_def)
  next
    case False
    then have "rot_id X r p \<notin> (\<lambda>r. rot_id X r p) ` set rs" using Cons.prems by (auto simp: inj_on_def)
    then show ?thesis using False Cons.prems by (auto simp: fold_add_root_other)
  qed
qed simp

section \<open>Purging\<close>

lemma purge_params [simp]:
  "lifespan (purge_entries_before kc t) = lifespan kc"
  "backtrack (purge_entries_before kc t) = backtrack kc"
  "root_decryption_keys (purge_entries_before kc t) = root_decryption_keys kc"
  "root_encryption_key (purge_entries_before kc t) = root_encryption_key kc"
  "current_encryptor (purge_entries_before kc t) = current_encryptor kc"
  "cache_invalid_at (purge_entries_before kc t) = cache_invalid_at kc"
  by (induction kc t rule: purge_entries_before.induct;
      subst purge_entries_before.simps; simp split: option.splits)+

lemma purge_validities:
  assumes "sorted (decryptor_validities kc)"
  shows "decryptor_validities (purge_entries_before kc t) =
           dropWhile (\<lambda>(e, _). e < t) (decryptor_validities kc)"
  using assms
proof (induction kc t rule: purge_entries_before.induct)
  case (1 kc t)
  show ?case
  proof (cases "decryptor_validities kc")
    case (Cons v vs)
    then show ?thesis using 1
      by (subst purge_entries_before.simps)
        (auto simp: oldest_cached_decryptor_def split: prod.splits)
  qed (subst purge_entries_before.simps, simp add: oldest_cached_decryptor_def)
qed

lemma sorted_dropWhile_filter:
  "sorted vs \<Longrightarrow> dropWhile (\<lambda>(e, _). e < t) vs = filter (\<lambda>(e, _). \<not> e < (t :: timestamp)) vs"
proof (induction vs)
  case (Cons v vs)
  have "\<not> fst v < t \<Longrightarrow> \<forall>x\<in>set vs. \<not> fst x < t"
    using Cons.prems by (fastforce simp: less_eq_prod_def)
  then show ?case using Cons by (auto simp: case_prod_beta filter_id_conv)
qed simp

lemma purge_cache:
  "decryptor_cache (purge_entries_before kc t) i =
     (if i \<in> snd ` set (takeWhile (\<lambda>(e, _). e < t) (decryptor_validities kc)) then None
      else decryptor_cache kc i)"
proof (induction kc t rule: purge_entries_before.induct)
  case (1 kc t)
  show ?case
  proof (cases "decryptor_validities kc")
    case (Cons v vs)
    obtain e j where v: "v = (e, j)" by (cases v)
    show ?thesis
    proof (cases "e < t")
      case True
      define kc' where "kc' = kc\<lparr>decryptor_validities := vs,
          decryptor_cache := (decryptor_cache kc)(j := None)\<rparr>"
      have step: "purge_entries_before kc t = purge_entries_before kc' t"
        using Cons v True
        by (simp add: purge_entries_before.simps [of kc] oldest_cached_decryptor_def kc'_def)
      have "decryptor_cache (purge_entries_before kc' t) i =
          (if i \<in> snd ` set (takeWhile (\<lambda>(e, _). e < t) vs) then None else decryptor_cache kc' i)"
        using 1 [of "(e, j)" e j] Cons v True by (simp add: oldest_cached_decryptor_def kc'_def)
      then show ?thesis unfolding step using Cons v True by (simp add: kc'_def)
    qed (subst purge_entries_before.simps, simp add: oldest_cached_decryptor_def Cons v)
  qed (subst purge_entries_before.simps, simp add: oldest_cached_decryptor_def)
qed

section \<open>The invariant\<close>

text \<open>Every cached box is the one built from a root key's rotation key for some period, under its
  own identifier, and is listed with its expiry in the ordered set; the set is sorted and without
  repetitions.\<close>
definition cache_inv :: "'x ext_scheme \<Rightarrow> key_cache \<Rightarrow> bool" where
  "cache_inv X kc \<longleftrightarrow>
     sorted (decryptor_validities kc) \<and> distinct (decryptor_validities kc) \<and>
     (\<forall>i c. decryptor_cache kc i = Some c \<longrightarrow>
        (invalid_after c, i) \<in> set (decryptor_validities kc) \<and>
        (\<exists>r\<in>set (root_decryption_keys kc). \<exists>p. i = rot_id X r p \<and>
           strong_box c = single_box X (rot_key X r p)))"

lemma cache_invD:
  assumes "cache_inv X kc"
  shows "sorted (decryptor_validities kc)" "distinct (decryptor_validities kc)"
    "decryptor_cache kc i = Some c \<Longrightarrow> (invalid_after c, i) \<in> set (decryptor_validities kc)"
    "decryptor_cache kc i = Some c \<Longrightarrow> \<exists>r\<in>set (root_decryption_keys kc). \<exists>p.
       i = rot_id X r p \<and> strong_box c = single_box X (rot_key X r p)"
  using assms by (auto simp: cache_inv_def)

lemma cache_inv_add_root:
  assumes "cache_inv X kc" "r \<in> set (root_decryption_keys kc)"
  shows "cache_inv X (add_root X p e r kc)"
  using assms by (auto simp: cache_inv_def sorted_insort_insert distinct_insort_insert
      set_insort_insert)

lemma cache_inv_fold_add_root:
  assumes "cache_inv X kc" "set rs \<subseteq> set (root_decryption_keys kc)"
  shows "cache_inv X (fold (add_root X p e) rs kc)"
  using assms by (induction rs arbitrary: kc) (auto simp: cache_inv_add_root)

lemma cache_inv_purge:
  assumes "cache_inv X kc"
  shows "cache_inv X (purge_entries_before kc t)"
proof -
  let ?vs = "decryptor_validities kc"
  note inv = cache_invD [OF assms]
  have sorted: "sorted (dropWhile (\<lambda>(e, _). e < t) ?vs)" "distinct (dropWhile (\<lambda>(e, _). e < t) ?vs)"
    using inv(1,2) by (simp_all add: sorted_dropWhile_filter sorted_wrt_filter)
  have "(invalid_after c, i) \<in> set (dropWhile (\<lambda>(e, _). e < t) ?vs)"
    if "decryptor_cache kc i = Some c" "i \<notin> snd ` set (takeWhile (\<lambda>(e, _). e < t) ?vs)" for i c
  proof -
    have "(invalid_after c, i) \<in> set (takeWhile (\<lambda>(e, _). e < t) ?vs @ dropWhile (\<lambda>(e, _). e < t) ?vs)"
      using inv(3) [OF that(1)] by simp
    then show ?thesis using that(2) by (force simp del: takeWhile_dropWhile_id)
  qed
  then show ?thesis using sorted inv(1,4)
    by (auto simp: cache_inv_def purge_validities purge_cache split: if_splits)
qed

text \<open>One turn of the loop over the periods, with the keys it derives as values.\<close>
lemma refresh_periods_Cons:
  assumes "hkdf_laws X" "root_decryption_keys kc \<noteq> []" "\<forall>k\<in>set (root_decryption_keys kc). key_wf k"
  shows "refresh_periods X kc p (b # bs) =
    (if decryptor_cache kc (rot_id X (hd (root_decryption_keys kc)) p) \<noteq> None then Ok kc
     else
       let k2 = fold (add_root X p (last_valid_at p + ucast (backtrack kc - b) * lifespan kc))
                  (root_decryption_keys kc) kc in
       case previous p of Some q \<Rightarrow> refresh_periods X k2 q bs | None \<Rightarrow> Ok k2)"
  using assms by (cases "root_decryption_keys kc") (auto simp: rust_simps rot_id_def Let_def)

lemma refresh_periods_total:
  assumes "hkdf_laws X" "root_decryption_keys kc \<noteq> []" "\<forall>k\<in>set (root_decryption_keys kc). key_wf k"
  shows "\<exists>kc'. refresh_periods X kc p bs = (Ok kc' :: (key_cache, 'e) rust_result)"
  using assms(2,3)
  by (induction bs arbitrary: kc p)
    (auto simp: refresh_periods_Cons assms(1) Let_def simp del: refresh_periods.simps(2) split: option.split)

lemma refresh_periods_inv:
  assumes "hkdf_laws X" "root_decryption_keys kc \<noteq> []" "\<forall>k\<in>set (root_decryption_keys kc). key_wf k"
    and "refresh_periods X kc p bs = (Ok kc' :: (key_cache, 'e) rust_result)" "cache_inv X kc"
  shows "cache_inv X kc' \<and> root_decryption_keys kc' = root_decryption_keys kc \<and>
     root_encryption_key kc' = root_encryption_key kc \<and> lifespan kc' = lifespan kc \<and>
     backtrack kc' = backtrack kc \<and> cache_invalid_at kc' = cache_invalid_at kc"
  using assms(2-)
proof (induction bs arbitrary: kc p)
  case (Cons b bs)
  define k2 where "k2 = fold (add_root X p (last_valid_at p + ucast (backtrack kc - b) * lifespan kc))
      (root_decryption_keys kc) kc"
  have k2: "cache_inv X k2" "root_decryption_keys k2 = root_decryption_keys kc"
    "root_encryption_key k2 = root_encryption_key kc" "lifespan k2 = lifespan kc"
    "backtrack k2 = backtrack kc" "cache_invalid_at k2 = cache_invalid_at kc"
    using cache_inv_fold_add_root [OF Cons.prems(4)] by (simp_all add: k2_def)
  have "kc' = kc \<or> (case previous p of Some q \<Rightarrow> refresh_periods X k2 q bs | None \<Rightarrow> Ok k2) = (Ok kc' :: (key_cache, 'e) rust_result)"
    using Cons.prems(3) unfolding refresh_periods_Cons [OF assms(1) Cons.prems(1,2)] k2_def Let_def
    by (auto simp del: refresh_periods.simps split: if_splits)
  then show ?case
  proof
    assume "(case previous p of Some q \<Rightarrow> refresh_periods X k2 q bs | None \<Rightarrow> Ok k2) = (Ok kc' :: (key_cache, 'e) rust_result)"
    then show ?thesis using Cons.IH [of k2] Cons.prems k2 by (auto split: option.splits)
  qed (use Cons.prems in simp)
qed auto

section \<open>Filling an empty cache\<close>

text \<open>What \<open>refresh_cache\<close> stores for root \<open>r\<close> and the \<open>i\<close>-th period when the loop meets that
  period at step \<open>b\<close>.\<close>
definition filled :: "'x ext_scheme \<Rightarrow> key_cache \<Rightarrow> nat \<Rightarrow> key \<Rightarrow> nat \<Rightarrow> cached_strong_box" where
  "filled X kc b r i =
     (let p = period_at (unat (lifespan kc)) i in
      \<lparr> invalid_after = last_valid_at p + ucast (backtrack kc - of_nat b) * lifespan kc,
        strong_box = single_box X (rot_key X r p) \<rparr>)"

text \<open>The identifiers of the rotation keys of all roots up to period \<open>N\<close> are different.\<close>
definition distinct_ids :: "'x ext_scheme \<Rightarrow> key list \<Rightarrow> nat \<Rightarrow> nat \<Rightarrow> bool" where
  "distinct_ids X roots L N \<longleftrightarrow>
     (\<forall>r\<in>set roots. \<forall>r'\<in>set roots. \<forall>i\<le>N. \<forall>i'\<le>N.
        rot_id X r (period_at L i) = rot_id X r' (period_at L i') \<longrightarrow> r = r' \<and> i = i')"

lemma add_period_lookup:
  fixes kc :: key_cache
  assumes "distinct_ids X (root_decryption_keys kc) (unat (lifespan kc)) N" "n \<le> N" "i \<le> N"
    and "r \<in> set (root_decryption_keys kc)"
  shows "decryptor_cache (fold (add_root X (period_at (unat (lifespan kc)) n)
        (last_valid_at (period_at (unat (lifespan kc)) n) + ucast (backtrack kc - of_nat b) * lifespan kc))
        (root_decryption_keys kc) kc) (rot_id X r (period_at (unat (lifespan kc)) i)) =
      (if i = n then Some (filled X kc b r n)
       else decryptor_cache kc (rot_id X r (period_at (unat (lifespan kc)) i)))"
proof (cases "i = n")
  case True
  have "inj_on (\<lambda>r. rot_id X r (period_at (unat (lifespan kc)) n)) (set (root_decryption_keys kc))"
    using assms(1,2) by (auto simp: inj_on_def distinct_ids_def)
  then show ?thesis using True assms(4) by (simp add: fold_add_root_lookup filled_def Let_def)
next
  case False
  then have "rot_id X r (period_at (unat (lifespan kc)) i) \<notin>
      (\<lambda>r. rot_id X r (period_at (unat (lifespan kc)) n)) ` set (root_decryption_keys kc)"
    using assms by (auto simp: distinct_ids_def)
  then show ?thesis using False by (simp add: fold_add_root_other)
qed

lemma refresh_periods_fill:
  fixes kc kc' :: key_cache
  assumes laws: "hkdf_laws X" and L: "0 < L" "(N + 1) * L < 2 ^ 64"
    and "unat (lifespan kc) = L" "unat (backtrack kc) = bt" "root_decryption_keys kc = roots"
    and "roots \<noteq> []" "\<forall>k\<in>set roots. key_wf k" "distinct_ids X roots L N"
    and "n \<le> N" "b \<le> bt"
    and "\<forall>r\<in>set roots. \<forall>i\<le>n. decryptor_cache kc (rot_id X r (period_at L i)) = None"
    and "refresh_periods X kc (period_at L n) (map of_nat [b..<Suc bt]) = (Ok kc' :: (key_cache, 'e) rust_result)"
    and "r \<in> set roots" "i \<le> N"
  shows "decryptor_cache kc' (rot_id X r (period_at L i)) =
    (if i \<le> n \<and> n - i \<le> bt - b then Some (filled X kc (b + (n - i)) r i)
     else decryptor_cache kc (rot_id X r (period_at L i)))"
  using assms(4-)
proof (induction "bt - b" arbitrary: b n kc)
  case (0 b n kc)
  define k2 where "k2 = fold (add_root X (period_at L n) (last_valid_at (period_at L n)
      + ucast (backtrack kc - of_nat b) * lifespan kc)) roots kc"
  have "kc' = k2"
    using 0 laws by (auto simp: refresh_periods_Cons Let_def k2_def split: option.splits
        simp del: refresh_periods.simps(2))
  then show ?case using 0 add_period_lookup [of X kc N n i r b] by (auto simp: k2_def)
next
  case (Suc d b n kc)
  define k2 where "k2 = fold (add_root X (period_at L n) (last_valid_at (period_at L n)
      + ucast (backtrack kc - of_nat b) * lifespan kc)) roots kc"
  have k2: "decryptor_cache k2 (rot_id X r (period_at L i)) =
      (if i = n then Some (filled X kc b r n) else decryptor_cache kc (rot_id X r (period_at L i)))"
    if "i \<le> N" "r \<in> set roots" for i r
    using add_period_lookup [of X kc N n i r b] that Suc.prems by (simp add: k2_def)
  have "(n + 1) * L \<le> (N + 1) * L" using Suc.prems(7) by (intro mult_le_mono1) simp
  then have prev: "previous (period_at L n) = (if n = 0 then None else Some (period_at L (n - 1)))"
    using previous_period_at [of L n] L by linarith
  have list: "[b..<Suc bt] = b # [Suc b..<Suc bt]" using Suc.hyps(2) by (simp add: upt_conv_Cons)
  have "decryptor_cache kc (rot_id X (hd roots) (period_at L n)) = None"
    using Suc.prems(4,9) by simp
  then have rest: "(case previous (period_at L n) of
        Some q \<Rightarrow> refresh_periods X k2 q (map of_nat [Suc b..<Suc bt]) | None \<Rightarrow> Ok k2) = (Ok kc' :: (key_cache, 'e) rust_result)"
    using Suc.prems laws unfolding list k2_def
    by (simp add: refresh_periods_Cons Let_def del: refresh_periods.simps(2) upt_Suc)
  show ?case
  proof (cases n)
    case 0
    then have "kc' = k2" using rest prev by simp
    then show ?thesis using 0 k2 Suc.prems by auto
  next
    case (Suc m)
    have k2_params: "unat (lifespan k2) = L" "unat (backtrack k2) = bt" "root_decryption_keys k2 = roots"
      "lifespan k2 = lifespan kc" "backtrack k2 = backtrack kc"
      using Suc.prems by (simp_all add: k2_def)
    have "refresh_periods X k2 (period_at L m) (map of_nat [Suc b..<Suc bt]) = (Ok kc' :: (key_cache, 'e) rust_result)"
      using rest prev Suc by simp
    moreover have "\<forall>r\<in>set roots. \<forall>i\<le>m. decryptor_cache k2 (rot_id X r (period_at L i)) = None"
      using k2 Suc.prems Suc by auto
    ultimately have "decryptor_cache kc' (rot_id X r (period_at L i)) =
        (if i \<le> m \<and> m - i \<le> bt - Suc b then Some (filled X k2 (Suc b + (m - i)) r i)
         else decryptor_cache k2 (rot_id X r (period_at L i)))"
      using Suc.prems k2_params Suc Suc.hyps(2) by (intro Suc.hyps(1)) simp_all
    moreover have "filled X k2 = filled X kc" by (intro ext) (simp add: filled_def k2_params)
    moreover have "i \<le> m \<Longrightarrow> b + (n - i) = Suc b + (m - i)" using Suc by simp
    ultimately show ?thesis using Suc k2 [of i r] Suc.prems(11,12) Suc.hyps(2)
      by (cases "i = n"; cases "i \<le> m") auto
  qed
qed

section \<open>Reachable boxes\<close>

lemma refresh_cache_inv:
  assumes "hkdf_laws X" "\<forall>k\<in>set (root_decryption_keys kc). key_wf k"
    and "refresh_cache X kc t = (Ok kc' :: (key_cache, 'e) rust_result)" "cache_inv X kc"
  shows "cache_inv X kc' \<and> root_decryption_keys kc' = root_decryption_keys kc \<and>
     root_encryption_key kc' = root_encryption_key kc \<and> lifespan kc' = lifespan kc \<and>
     backtrack kc' = backtrack kc \<and> cache_invalid_at kc' = cache_invalid_at kc"
proof (cases "t < cache_invalid_at kc")
  case False
  obtain p :: period where p: "refresh_periods X (purge_entries_before kc (first_valid_at p)) p
      (map of_nat [0..<Suc (unat (backtrack kc))]) = (Ok kc' :: (key_cache, 'e) rust_result)"
    using assms(3) False by (auto simp: refresh_cache_def simp del: upt_Suc)
  then have "root_decryption_keys kc \<noteq> []"
    by (auto simp: upt_conv_Cons simp del: upt_Suc)
  then show ?thesis
    using refresh_periods_inv [OF assms(1) _ _ p] cache_inv_purge [OF assms(4)] assms(2) by simp
qed (use assms in \<open>simp add: refresh_cache_def\<close>)

text \<open>The boxes a program can get from \<open>RotatingStrongBox::new\<close> by encrypting and decrypting at any
  times.\<close>
inductive rotating_reach ::
  "'x ext_scheme \<Rightarrow> key \<Rightarrow> key list \<Rightarrow> u64 \<Rightarrow> u16 \<Rightarrow> key_cache \<Rightarrow> bool" for X enc roots life limit where
  new: "rotating_new X enc roots life limit = (Ok kc :: (key_cache, error) rust_result) \<Longrightarrow>
    rotating_reach X enc roots life limit kc"
| encrypt: "rotating_reach X enc roots life limit kc \<Longrightarrow>
    rotating_reach X enc roots life limit (fst (rotating_encrypt X kc now nonce m ctx))"
| decrypt: "rotating_reach X enc roots life limit kc \<Longrightarrow>
    rotating_reach X enc roots life limit (fst (rotating_decrypt X kc t1 t2 t3 w ctx))"

definition rotating_inv ::
  "'x ext_scheme \<Rightarrow> key \<Rightarrow> key list \<Rightarrow> u64 \<Rightarrow> u16 \<Rightarrow> key_cache \<Rightarrow> bool" where
  "rotating_inv X enc roots life limit kc \<longleftrightarrow>
     cache_inv X kc \<and> root_decryption_keys kc = roots \<and> root_encryption_key kc = enc \<and>
     lifespan kc = life \<and> backtrack kc = limit \<and> cache_invalid_at kc = 0"

lemma rotating_inv_update_encryptor:
  "update_encryptor X kc t = Ok kc' \<Longrightarrow> rotating_inv X e rs l b kc \<Longrightarrow> rotating_inv X e rs l b kc'"
  by (auto simp: update_encryptor_def rotating_inv_def cache_inv_def split: if_splits)

lemma rotating_reach_inv:
  assumes "hkdf_laws X" "\<forall>k\<in>set roots. key_wf k"
  shows "rotating_reach X enc roots life limit kc \<Longrightarrow> rotating_inv X enc roots life limit kc"
proof (induction rule: rotating_reach.induct)
  case (new kc)
  then show ?case by (auto simp: rotating_new_def rotating_inv_def cache_inv_def)
next
  case (encrypt kc now nonce m ctx)
  then show ?case
    by (auto simp: rotating_encrypt_def rotating_inv_update_encryptor split: rust_result.splits)
next
  case (decrypt kc t1 t2 t3 w ctx)
  have "rotating_inv X enc roots life limit kc'"
    if "refresh_cache X kc t2 = (Ok kc' :: (key_cache, error) rust_result)" for kc'
    using refresh_cache_inv [OF assms(1) _ that] decrypt.IH assms(2) by (simp add: rotating_inv_def)
  then show ?case using decrypt.IH
    by (auto simp: rotating_decrypt_def split: rust_result.splits)
qed

text \<open>C5: a rotating box without decryption keys, which \<open>derive_rotating\<close> makes from a stem box
  without decryption keys, panics on every well-formed ciphertext.\<close>
theorem rotating_decrypt_no_keys_panics:
  assumes "rotating_reach X enc [] life limit kc" "hkdf_laws X"
    and "ciphertext_from_bytes X w = Ok c"
  shows "snd (rotating_decrypt X kc t1 t2 t3 w ctx) = Abort"
proof -
  have inv: "rotating_inv X enc [] life limit kc"
    using rotating_reach_inv [of X "[]"] assms by simp
  then have "decryptor_cache kc i = None" for i
    using cache_invD(4) [of X kc i] by (cases "decryptor_cache kc i") (auto simp: rotating_inv_def)
  then have "try_decrypt_with X kc t1 c ctx = Err Decryption" by (simp add: try_decrypt_with_def)
  moreover have "refresh_cache X kc t2 = (Abort :: (key_cache, error) rust_result)"
    using inv unfolding refresh_cache_def period_of_def
    by (auto simp: rotating_inv_def upt_conv_Cons Let_def simp del: upt_Suc)
  ultimately show ?thesis using assms(3) by (simp add: rotating_decrypt_def)
qed

section \<open>Periods and expiries of cached keys\<close>

lemma expired_nat: "0 < L \<Longrightarrow> q * L + (L - 1) < t \<longleftrightarrow> q < t div (L :: nat)"
  using less_eq_div_iff_mult_less_eq [of L "Suc q" t] by (auto simp: Suc_le_eq)

lemma unat_of_nat_le: "unat (of_nat n :: u64) \<le> n"
  by (simp add: unat_of_nat)

lemma unat_of_nat_le16: "unat (of_nat n :: u16) \<le> n"
  by (simp add: unat_of_nat)

lemma unat_add_le: "unat (a + b :: u64) \<le> unat a + unat b"
  using unat_plus_if' [of a b] by (simp split: if_splits)

lemma unat_mul_le: "unat (a * b :: u64) \<le> unat a * unat b"
  by (metis unat_word_ariths(2) mod_less_eq_dividend)

lemma period_of_div:
  assumes "lifespan kc \<noteq> 0"
  shows "period_of kc at = Ok (period_at (unat (lifespan kc)) (unat at div unat (lifespan kc)))"
proof -
  let ?L = "unat (lifespan kc)" and ?n = "unat at div unat (lifespan kc)"
  have "unat (at - at mod lifespan kc) = ?n * ?L"
    by (subst u64_sub) (simp_all add: unat_mod minus_mod_eq_div_mult)
  then have start: "at - at mod lifespan kc = of_nat (?n * ?L)" by (metis of_nat_unat ucast_id)
  have "1 \<le> ?L" using assms by (simp add: Suc_le_eq unat_gt_0)
  then have "of_nat (?n * ?L + (?L - 1)) = (of_nat (?n * ?L) + lifespan kc - 1 :: u64)"
    by (simp add: of_nat_diff)
  then show ?thesis using assms by (simp add: period_of_def Let_def start period_at_def)
qed

lemma previous_period:
  assumes "0 < L" "L < 2 ^ 64" "n * L < 2 ^ 64"
  shows "previous (period_at L n) = (if n = 0 then None else Some (period_at L (n - 1)))"
proof -
  have len: "last_valid_at (period_at L n) - first_valid_at (period_at L n) + 1 = (of_nat L :: u64)"
    using assms(1) by (simp add: period_at_def of_nat_diff)
  have uc: "ucast (1 :: u16) = (1 :: u64)" by simp
  have less: "first_valid_at (period_at L n) < (of_nat L :: u64) \<longleftrightarrow> n = 0"
  proof -
    have "unat (of_nat (n * L) :: u64) = n * L" "unat (of_nat L :: u64) = L"
      using assms by (simp_all add: unat_of_nat del: of_nat_mult)
    then show ?thesis using assms(1) by (simp add: u64_less period_at_def del: of_nat_mult)
  qed
  have "of_nat (n * L) - of_nat L = (of_nat ((n - 1) * L) :: u64)"
      "of_nat (n * L + (L - 1)) - of_nat L = (of_nat ((n - 1) * L + (L - 1)) :: u64)" if "n \<noteq> 0"
    using that by (cases n; simp)+
  then show ?thesis using less
    unfolding previous_def back_by_def Let_def len uc mult_1_right
    by (auto simp: period_at_def simp del: of_nat_mult of_nat_add)
qed

lemma unat_expiry:
  assumes "b \<le> bt"
  shows "unat (last_valid_at (period_at (unat life) n) + ucast (bt - b :: u16) * life) \<le>
    (n + unat bt) * unat life + (unat life - 1)"
proof -
  have "unat (bt - b) \<le> unat bt" using assms by (simp add: u16_sub word_le_nat_alt)
  then have "unat (ucast (bt - b) * life) \<le> unat bt * unat life"
    using unat_mul_le [of "ucast (bt - b)" life] by (simp add: u64_of_u16) (meson le_trans mult_le_mono1)
  moreover have "unat (last_valid_at (period_at (unat life) n)) \<le> n * unat life + (unat life - 1)"
    unfolding period_at_def period.simps by (rule unat_of_nat_le)
  ultimately show ?thesis
    using unat_add_le [of "last_valid_at (period_at (unat life) n)" "ucast (bt - b) * life"]
    by (simp add: add_mult_distrib)
qed

text \<open>Every cached box is the one of a root's rotation key for a period not after the \<open>N\<close>-th, and expires at
  most \<open>backtrack\<close> periods after this one.\<close>
definition dated :: "'x ext_scheme \<Rightarrow> nat \<Rightarrow> key_cache \<Rightarrow> bool" where
  "dated X N kc \<longleftrightarrow> (\<forall>i c. decryptor_cache kc i = Some c \<longrightarrow>
     (\<exists>r\<in>set (root_decryption_keys kc). \<exists>n\<le>N. i = rot_id X r (period_at (unat (lifespan kc)) n) \<and>
        strong_box c = single_box X (rot_key X r (period_at (unat (lifespan kc)) n)) \<and>
        unat (invalid_after c) \<le> (n + unat (backtrack kc)) * unat (lifespan kc) + (unat (lifespan kc) - 1)))"

lemma dated_later: "dated X N kc \<Longrightarrow> N \<le> N' \<Longrightarrow> dated X N' kc"
  unfolding dated_def by (meson le_trans)

lemma dated_purge: "dated X N kc \<Longrightarrow> dated X N (purge_entries_before kc t)"
  by (simp add: dated_def purge_cache)

lemma dated_add_root:
  assumes "dated X N kc" "n \<le> N" "r \<in> set (root_decryption_keys kc)"
    and "unat e \<le> (n + unat (backtrack kc)) * unat (lifespan kc) + (unat (lifespan kc) - 1)"
  shows "dated X N (add_root X (period_at (unat (lifespan kc)) n) e r kc)"
  using assms by (auto simp: dated_def)

lemma dated_fold_add_root:
  assumes "dated X N kc" "n \<le> N" "set rs \<subseteq> set (root_decryption_keys kc)" "L = unat (lifespan kc)"
    and "unat e \<le> (n + unat (backtrack kc)) * L + (L - 1)"
  shows "dated X N (fold (add_root X (period_at L n) e) rs kc)"
  using assms
proof (induction rs arbitrary: kc)
  case (Cons r rs)
  have "dated X N (add_root X (period_at L n) e r kc)"
    using dated_add_root [OF Cons.prems(1,2), of r e] Cons.prems(3-5) by simp
  from Cons.IH [OF this Cons.prems(2)] show ?case using Cons.prems(3-5) by simp
qed simp

lemma dated_refresh_periods:
  assumes "hkdf_laws X" "root_decryption_keys kc \<noteq> []" "\<forall>k\<in>set (root_decryption_keys kc). key_wf k"
    and "refresh_periods X kc (period_at L n) bs = (Ok kc' :: (key_cache, 'e) rust_result)"
    and "L = unat (lifespan kc)" "0 < L" "n * L < 2 ^ 64" "n \<le> N" "\<forall>b\<in>set bs. b \<le> backtrack kc" "dated X N kc"
  shows "dated X N kc'"
  using assms(2-)
proof (induction bs arbitrary: kc n)
  case (Cons b bs)
  let ?e = "last_valid_at (period_at L n) + ucast (backtrack kc - b) * lifespan kc"
  define k2 where "k2 = fold (add_root X (period_at L n) ?e) (root_decryption_keys kc) kc"
  have e: "unat ?e \<le> (n + unat (backtrack kc)) * L + (L - 1)"
    using unat_expiry [of b "backtrack kc" "lifespan kc" n] Cons.prems(4,8) by simp
  have k2: "dated X N k2" unfolding k2_def
    by (rule dated_fold_add_root [OF Cons.prems(9,7) order_refl Cons.prems(4) e])
  have "L < 2 ^ 64" using Cons.prems(4) unsigned_less [of "lifespan kc", where 'a = nat] by simp
  note prev = previous_period [OF Cons.prems(5) this Cons.prems(6)]
  have "kc' = kc \<or> (case previous (period_at L n) of Some q \<Rightarrow> refresh_periods X k2 q bs | None \<Rightarrow> Ok k2) =
      (Ok kc' :: (key_cache, 'e) rust_result)"
    using Cons.prems(3) unfolding refresh_periods_Cons [OF assms(1) Cons.prems(1,2)] k2_def Let_def
    by (auto simp del: refresh_periods.simps split: if_splits)
  then show ?case
  proof
    assume *: "(case previous (period_at L n) of Some q \<Rightarrow> refresh_periods X k2 q bs | None \<Rightarrow> Ok k2) =
      (Ok kc' :: (key_cache, 'e) rust_result)"
    show ?thesis
    proof (cases "n = 0")
      case False
      have "(n - 1) * L < 2 ^ 64" using Cons.prems(6) by (meson diff_le_self le_less_trans mult_le_mono1)
      then show ?thesis using * False prev k2 Cons.IH [of k2 "n - 1"] Cons.prems by (simp add: k2_def)
    qed (use * prev k2 in simp)
  qed (use Cons.prems in simp)
qed auto

lemma dated_refresh_cache:
  assumes "hkdf_laws X" "\<forall>k\<in>set (root_decryption_keys kc). key_wf k" "dated X N kc"
    and "refresh_cache X kc t = (Ok kc' :: (key_cache, 'e) rust_result)"
  shows "dated X (max N (unat t div unat (lifespan kc))) kc'"
proof (cases "t < cache_invalid_at kc")
  case False
  let ?L = "unat (lifespan kc)" and ?n = "unat t div unat (lifespan kc)"
  have L: "lifespan kc \<noteq> 0" using assms(4) False by (auto simp: refresh_cache_def period_of_def)
  have run: "refresh_periods X (purge_entries_before kc (first_valid_at (period_at ?L ?n))) (period_at ?L ?n)
      (map of_nat [0..<Suc (unat (backtrack kc))]) = (Ok kc' :: (key_cache, 'e) rust_result)"
    using assms(4) False unfolding refresh_cache_def period_of_div [OF L] by (simp del: upt_Suc)
  then have "root_decryption_keys kc \<noteq> []" by (auto simp: upt_conv_Cons simp del: upt_Suc)
  moreover have "?n * ?L < 2 ^ 64"
    by (rule le_less_trans [OF div_times_less_eq_dividend]) (use unsigned_less [of t, where 'a = nat] in simp)
  moreover have "\<forall>b\<in>set (map of_nat [0..<Suc (unat (backtrack kc))]). b \<le> backtrack kc"
    by (auto simp: word_le_nat_alt less_Suc_eq_le simp del: upt_Suc intro: le_trans [OF unat_of_nat_le16])
  ultimately show ?thesis
    using assms(1,2) L dated_purge [OF dated_later [OF assms(3), of "max N ?n"]]
    by (intro dated_refresh_periods [OF _ _ _ run]) (simp_all add: unat_gt_0 del: upt_Suc)
qed (use assms in \<open>simp add: refresh_cache_def dated_later\<close>)

text \<open>The boxes a program can get from \<open>RotatingStrongBox::new\<close>, as \<open>rotating_reach\<close> has them, with the latest
  reading of the clock so far.\<close>
inductive rotating_run ::
  "'x ext_scheme \<Rightarrow> key \<Rightarrow> key list \<Rightarrow> u64 \<Rightarrow> u16 \<Rightarrow> timestamp \<Rightarrow> key_cache \<Rightarrow> bool" for X enc roots life limit where
  new: "rotating_new X enc roots life limit = (Ok kc :: (key_cache, error) rust_result) \<Longrightarrow>
    rotating_run X enc roots life limit 0 kc"
| encrypt: "rotating_run X enc roots life limit T kc \<Longrightarrow>
    rotating_run X enc roots life limit (max T now) (fst (rotating_encrypt X kc now nonce m ctx))"
| decrypt: "rotating_run X enc roots life limit T kc \<Longrightarrow>
    rotating_run X enc roots life limit (Max {T, t1, t2, t3}) (fst (rotating_decrypt X kc t1 t2 t3 w ctx))"

lemma rotating_run_reach: "rotating_run X enc roots life limit T kc \<Longrightarrow> rotating_reach X enc roots life limit kc"
  by (induction rule: rotating_run.induct) (auto intro: rotating_reach.intros)

lemma dated_update_encryptor: "update_encryptor X kc t = Ok kc' \<Longrightarrow> dated X N kc \<Longrightarrow> dated X N kc'"
  by (auto simp: update_encryptor_def dated_def split: if_splits)

lemma rotating_run_dated:
  assumes "hkdf_laws X" "\<forall>k\<in>set roots. key_wf k"
  shows "rotating_run X enc roots life limit T kc \<Longrightarrow> dated X (unat T div unat life) kc"
proof (induction rule: rotating_run.induct)
  case (new kc)
  then show ?case by (auto simp: rotating_new_def dated_def)
next
  case (encrypt T kc now nonce m ctx)
  have "dated X (unat (max T now) div unat life) kc"
    by (rule dated_later [OF encrypt.IH]) (simp add: div_le_mono word_le_nat_alt [symmetric])
  then show ?case
    by (auto simp: rotating_encrypt_def dated_update_encryptor split: rust_result.splits)
next
  case (decrypt T kc t1 t2 t3 w ctx)
  let ?T = "Max {T, t1, t2, t3}"
  note inv = rotating_reach_inv [OF assms rotating_run_reach [OF decrypt.hyps]]
  have le: "unat t div unat life \<le> unat ?T div unat life" if "t \<in> {T, t1, t2, t3}" for t
    using that by (intro div_le_mono) (auto simp: word_le_nat_alt [symmetric] le_max_iff_disj)
  have "dated X (unat ?T div unat life) kc'"
    if "refresh_cache X kc t2 = (Ok kc' :: (key_cache, error) rust_result)" for kc'
  proof -
    have "dated X (max (unat T div unat life) (unat t2 div unat life)) kc'"
      using dated_refresh_cache [OF assms(1) _ decrypt.IH that] inv assms(2) by (simp add: rotating_inv_def)
    then show ?thesis by (rule dated_later) (use le in simp)
  qed
  moreover have "dated X (unat ?T div unat life) kc" by (rule dated_later [OF decrypt.IH le]) simp
  ultimately show ?case
    by (auto simp: rotating_decrypt_def split: rust_result.splits)
qed

lemma try_decrypt_dated:
  assumes "aead_laws X" "dated X N kc" "lifespan kc = life" "backtrack kc = limit"
    and "try_decrypt_with X kc now c ctx = Ok m"
  shows "\<exists>r\<in>set (root_decryption_keys kc). \<exists>n\<le>N. ct_key_id c = rot_id X r (period_at (unat life) n) \<and>
    unat now div unat life \<le> n + unat limit \<and>
    aead_encrypt X (expose_secret (rot_key X r (period_at (unat life) n))) (ct_nonce c)
      (ctx @ as_bytes (ct_key_id c) @ ct_nonce c) m = Some (ct_ciphertext c)"
proof -
  obtain cached where c: "decryptor_cache kc (ct_key_id c) = Some cached" "\<not> is_expired cached now"
    and d: "static_decrypt_ciphertext X (strong_box cached) c ctx = Ok m"
    using assms(5) by (auto simp: try_decrypt_with_def split: option.splits if_splits)
  obtain r n where rn: "r \<in> set (root_decryption_keys kc)" "n \<le> N" "ct_key_id c = rot_id X r (period_at (unat life) n)"
    "strong_box cached = single_box X (rot_key X r (period_at (unat life) n))"
    "unat (invalid_after cached) \<le> (n + unat limit) * unat life + (unat life - 1)"
    using assms(2) c(1) unfolding dated_def assms(3,4) by blast
  have "unat now \<le> (n + unat limit) * unat life + (unat life - 1)"
    using c(2) rn(5) by (simp add: is_expired_def u64_less)
  then have "unat now div unat life \<le> n + unat limit"
    using expired_nat [of "unat life" "n + unat limit" "unat now"] by (cases "unat life") (auto simp: not_less)
  then show ?thesis using d assms(1) rn
    by (intro bexI [of _ r] exI [of _ n])
      (auto simp: static_decrypt_ciphertext_def single_box_def rot_id_def rust_simps static_aad_def)
qed

text \<open>C3: whatever a rotating box decrypts, in whatever order it encrypted, decrypted and rotated before, was sealed
  under the caller's context with a key of a period the box may use: the rotation key of one of its root keys
  for the \<open>n\<close>-th period, which has begun at the latest clock reading and lies at most \<open>limit\<close> periods before the
  reading of the attempt that succeeded.  No key of a later period, none that has expired and no foreign one
  is ever accepted.\<close>
theorem rotating_decrypt_sound:
  assumes "aead_laws X" "hkdf_laws X" "\<forall>k\<in>set roots. key_wf k"
    and "rotating_run X enc roots life limit T kc"
    and "snd (rotating_decrypt X kc t1 t2 t3 w ctx) = Ok m"
  shows "\<exists>c. \<exists>r\<in>set roots. \<exists>n. ciphertext_from_bytes X w = Ok c \<and>
    ct_key_id c = rot_id X r (period_at (unat life) n) \<and>
    n \<le> unat (max T t2) div unat life \<and>
    (unat t1 div unat life \<le> n + unat limit \<or> unat t3 div unat life \<le> n + unat limit) \<and>
    aead_encrypt X (expose_secret (rot_key X r (period_at (unat life) n))) (ct_nonce c)
      (ctx @ as_bytes (ct_key_id c) @ ct_nonce c) m = Some (ct_ciphertext c)"
proof -
  have inv: "root_decryption_keys kc = roots" "lifespan kc = life" "backtrack kc = limit"
    using rotating_reach_inv [OF assms(2,3) rotating_run_reach [OF assms(4)]] by (auto simp: rotating_inv_def)
  note dated = rotating_run_dated [OF assms(2,3,4)]
  have latest: "max (unat T div unat life) (unat t2 div unat life) \<le> unat (max T t2) div unat life"
    by (simp add: div_le_mono word_le_nat_alt [symmetric])
  obtain c where c: "ciphertext_from_bytes X w = Ok c"
    using assms(5) by (auto simp: rotating_decrypt_def split: rust_result.splits)
  consider "try_decrypt_with X kc t1 c ctx = Ok m"
    | kc' where "refresh_cache X kc t2 = (Ok kc' :: (key_cache, error) rust_result)"
        "try_decrypt_with X kc' t3 c ctx = Ok m"
    using assms(5) c by (auto simp: rotating_decrypt_def split: rust_result.splits)
  then show ?thesis
  proof cases
    case 1
    from try_decrypt_dated [OF assms(1) dated inv(2,3) this] show ?thesis
      using c latest unfolding inv(1) by (meson le_trans max.cobounded1)
  next
    case 2
    have "lifespan kc' = life" "backtrack kc' = limit" "root_decryption_keys kc' = roots"
      using refresh_cache_inv [OF assms(2) _ 2(1)] inv assms(3) rotating_reach_inv [OF assms(2,3) rotating_run_reach [OF assms(4)]]
      by (auto simp: rotating_inv_def)
    moreover have "dated X (max (unat T div unat life) (unat t2 div unat life)) kc'"
      using dated_refresh_cache [OF assms(2) _ dated 2(1)] inv assms(3) by simp
    ultimately show ?thesis
      using try_decrypt_dated [OF assms(1) _ _ _ 2(2)] c latest by (meson le_trans)
  qed
qed

section \<open>How long a key can be used\<close>

lemma filled_expired:
  fixes kc :: key_cache
  assumes "unat (lifespan kc) = L" "unat (backtrack kc) = bt" "0 < L"
    and "unat now div L = n" "(n + 1 + bt) * L < 2 ^ 64" "i \<le> n" "n - i \<le> bt"
  shows "is_expired (filled X kc (n - i) r i) now \<longleftrightarrow> bt < 2 * (n - i)"
proof -
  define b where "b = n - i"
  have "bt < 2 ^ 16" using assms(2) unsigned_less [of "backtrack kc", where 'a = nat] by simp
  then have sub: "unat (ucast (backtrack kc - of_nat b) :: u64) = bt - b"
    using assms(2,7) by (simp add: u64_of_u16 u16_sub b_def)
  have le: "(i + 1 + (bt - b)) * L \<le> (n + 1 + bt) * L" "(bt - b) * L \<le> (n + 1 + bt) * L"
    "(i + 1) * L \<le> (n + 1 + bt) * L"
    using assms(6) by (intro mult_le_mono1, simp)+
  have mul: "unat (ucast (backtrack kc - of_nat b) * lifespan kc) = (bt - b) * L"
    using assms(1,5) le(2) by (subst u64_mul) (simp_all only: sub)
  have last: "unat (last_valid_at (period_at L i)) = i * L + (L - 1)"
    using period_at_unat(2) [OF assms(3) le_less_trans [OF le(3) assms(5)]] .
  have "i * L + (L - 1) + (bt - b) * L = (i + (bt - b)) * L + (L - 1)"
    by (simp add: add_mult_distrib)
  moreover have "i * L + (L - 1) + (bt - b) * L < 2 ^ 64"
    using le(1) assms(3,5) by (simp add: add_mult_distrib)
  ultimately have "unat (invalid_after (filled X kc b r i)) = (i + (bt - b)) * L + (L - 1)"
    unfolding filled_def Let_def assms(1) using last mul by (simp add: u64_add)
  then have "is_expired (filled X kc b r i) now \<longleftrightarrow> i + (bt - b) < n"
    using expired_nat [OF assms(3), of "i + (bt - b)" "unat now"] assms(4)
    by (simp add: is_expired_def u64_less)
  also have "\<dots> \<longleftrightarrow> bt < 2 * b" using assms(6,7) by (auto simp: b_def)
  finally show ?thesis by (simp add: b_def)
qed

text \<open>The state of a box that was just made.\<close>
lemma rotating_new_eq:
  "hkdf_laws X \<Longrightarrow> rotating_new X e roots l limit = Ok \<lparr> lifespan = l, backtrack = limit,
     root_encryption_key = e, root_decryption_keys = roots,
     current_encryptor = \<lparr> invalid_after = 0, strong_box = single_box X (Key (replicate 32 0)) \<rparr>,
     decryptor_cache = Map.empty, decryptor_validities = [], cache_invalid_at = 0 \<rparr>"
  by (simp add: rotating_new_def rust_simps key_wf_def)

lemma refresh_new:
  fixes kc :: key_cache
  assumes "hkdf_laws X" "rotating_new X e roots l limit = Ok kc"
    and "roots \<noteq> []" "\<forall>k\<in>set roots. key_wf k"
    and "L = unat l" "bt = unat limit" "0 < L" "n = unat now div L" "(n + 1 + bt) * L < 2 ^ 64"
    and "distinct_ids X roots L n"
  shows "\<exists>kc'. refresh_cache X kc now = (Ok kc' :: (key_cache, 'e) rust_result) \<and>
     (\<forall>r\<in>set roots. \<forall>i\<le>n. n - i \<le> bt \<longrightarrow>
        decryptor_cache kc' (rot_id X r (period_at L i)) = Some (filled X kc (n - i) r i))"
proof -
  have kc: "kc = \<lparr> lifespan = l, backtrack = limit,
     root_encryption_key = e, root_decryption_keys = roots,
     current_encryptor = \<lparr> invalid_after = 0, strong_box = single_box X (Key (replicate 32 0)) \<rparr>,
     decryptor_cache = Map.empty, decryptor_validities = [], cache_invalid_at = 0 \<rparr>"
    using assms(1,2) by (simp add: rotating_new_eq)
  have bound: "(n + 1) * L < 2 ^ 64"
    using assms(9) le_less_trans [OF mult_le_mono1 [of "n + 1" "n + 1 + bt" L]] by simp
  have purge: "purge_entries_before kc t = kc" for t
    by (simp add: purge_entries_before.simps oldest_cached_decryptor_def kc)
  have period: "period_of kc now = (Ok (period_at L n) :: (period, 'e) rust_result)"
    using period_of_eq [of kc now] bound assms by (simp add: kc)
  obtain kc' where kc': "refresh_periods X kc (period_at L n) (map of_nat [0..<Suc bt]) =
      (Ok kc' :: (key_cache, 'e) rust_result)"
    using refresh_periods_total [OF assms(1), of kc] assms(3,4) kc key_cache.select_convs(4) by metis
  have "refresh_cache X kc now = (Ok kc' :: (key_cache, 'e) rust_result)"
    unfolding refresh_cache_def period purge using kc' assms(6) by (simp add: kc del: upt_Suc)
  moreover have "decryptor_cache kc' (rot_id X r (period_at L i)) = Some (filled X kc (n - i) r i)"
    if "r \<in> set roots" "i \<le> n" "n - i \<le> bt" for r i
    using refresh_periods_fill [OF assms(1,7) bound _ _ _ assms(3,4,10) order_refl _ _ kc' that(1,2)]
      assms(5,6) that by (simp add: kc)
  ultimately show ?thesis by blast
qed

text \<open>The second attempt of a new box, after the refresh.\<close>
lemma fresh_second_attempt:
  fixes kc :: key_cache
  assumes "aead_laws X" "cbor_laws X" "hkdf_laws X"
    and "rotating_new X e roots l limit = Ok kc" "\<forall>k\<in>set roots. key_wf k"
    and "L = unat l" "bt = unat limit" "0 < L" "n = unat now div L" "(n + 1 + bt) * L < 2 ^ 64"
    and "distinct_ids X roots L n"
    and "r \<in> set roots" "d \<le> n" "d \<le> bt" "length nonce = 12"
    and "static_encrypt X (single_box X (rot_key X r (period_at L (n - d)))) nonce m ctx = Ok w"
  shows "\<exists>c. \<exists>kc'. ciphertext_from_bytes X w = Ok c \<and>
    try_decrypt_with X kc now c ctx = Err Decryption \<and>
    refresh_cache X kc now = (Ok kc' :: (key_cache, error) rust_result) \<and>
    try_decrypt_with X kc' now c ctx = (if 2 * d \<le> bt then Ok m else Err Decryption)"
proof -
  let ?box = "single_box X (rot_key X r (period_at L (n - d)))"
  obtain body where c: "ciphertext_from_bytes X w = Ok \<lparr> ct_key_id = encryption_key_id ?box,
      ct_nonce = nonce, ct_ciphertext = body \<rparr>"
    using static_encrypt_parsed [OF assms(2,15) _ assms(16)] assms(3) by (auto simp: single_box_def)
  have ready: "static_decrypt X ?box w ctx = Ok m"
    using static_open_other [OF assms(1,2,15) _ _ assms(16)] assms(3) by (simp add: single_box_def)
  have id: "encryption_key_id ?box = rot_id X r (period_at L (n - d))"
    by (simp add: single_box_def rot_id_def)
  have first: "try_decrypt_with X kc now c ctx = Err Decryption" for c
    using assms(3,4) by (auto simp: rotating_new_eq try_decrypt_with_def)
  have params: "unat (lifespan kc) = L" "unat (backtrack kc) = bt"
    using assms(3,4,6,7) by (auto simp: rotating_new_eq)
  obtain kc' where "refresh_cache X kc now = (Ok kc' :: (key_cache, error) rust_result)"
    "decryptor_cache kc' (rot_id X r (period_at L (n - d))) = Some (filled X kc d r (n - d))"
    using refresh_new [OF assms(3,4) _ assms(5-11)] assms(12-14) by fastforce
  moreover have "is_expired (filled X kc d r (n - d)) now \<longleftrightarrow> bt < 2 * d"
    using filled_expired [OF params assms(8), of now n "n - d" X r] assms(9,10,13,14) by simp
  moreover have "strong_box (filled X kc d r (n - d)) = ?box"
    by (simp add: filled_def Let_def params)
  ultimately have "refresh_cache X kc now = (Ok kc' :: (key_cache, error) rust_result) \<and>
    try_decrypt_with X kc' now \<lparr> ct_key_id = encryption_key_id ?box, ct_nonce = nonce,
       ct_ciphertext = body \<rparr> ctx = (if 2 * d \<le> bt then Ok m else Err Decryption)"
    using ready c by (auto simp: try_decrypt_with_def id static_decrypt_def)
  then show ?thesis using c first by blast
qed

text \<open>C4: what a new box keeps of the past.  In the period \<open>n\<close> it is asked to decrypt in, a box that
  has just been made (every process start makes one) derives the keys of the last \<open>backtrack\<close>
  periods, but gives the key of \<open>d\<close> periods ago an expiry that is \<open>d\<close> periods too early: a
  ciphertext that is \<open>d \<le> backtrack\<close> periods old decrypts when \<open>2 * d \<le> backtrack\<close>, and fails
  with \<open>Decryption\<close> otherwise.\<close>
theorem rotating_fresh_decrypt:
  fixes kc :: key_cache
  assumes "aead_laws X" "cbor_laws X" "hkdf_laws X"
    and "rotating_new X e roots l limit = Ok kc" "\<forall>k\<in>set roots. key_wf k"
    and "L = unat l" "bt = unat limit" "0 < L" "n = unat now div L" "(n + 1 + bt) * L < 2 ^ 64"
    and "distinct_ids X roots L n"
    and "r \<in> set roots" "d \<le> n" "d \<le> bt" "length nonce = 12"
    and "static_encrypt X (single_box X (rot_key X r (period_at L (n - d)))) nonce m ctx = Ok w"
  shows "snd (rotating_decrypt X kc now now now w ctx) =
           (if 2 * d \<le> bt then Ok m else Err Decryption)"
  using fresh_second_attempt [OF assms] by (auto simp: rotating_decrypt_def)

text \<open>a box that has just been made encrypts with the key of the period the clock is in, as long
  as the clock is past second 0, when the all-zero key it was made with is still in use.\<close>
theorem rotating_fresh_encrypt:
  fixes kc :: key_cache
  assumes "hkdf_laws X" "rotating_new X e roots l limit = Ok kc" "key_wf e"
    and "L = unat l" "0 < L" "n = unat now div L" "(n + 1) * L < 2 ^ 64"
  shows "snd (rotating_encrypt X kc now nonce m ctx) =
    static_encrypt X
      (single_box X (if now = 0 then Key (replicate 32 0) else rot_key X e (period_at L n))) nonce m ctx"
proof -
  have kc: "kc = \<lparr> lifespan = l, backtrack = limit,
     root_encryption_key = e, root_decryption_keys = roots,
     current_encryptor = \<lparr> invalid_after = 0, strong_box = single_box X (Key (replicate 32 0)) \<rparr>,
     decryptor_cache = Map.empty, decryptor_validities = [], cache_invalid_at = 0 \<rparr>"
    using assms(1,2) by (simp add: rotating_new_eq)
  have period: "period_of kc now = (Ok (period_at L n) :: (period, error) rust_result)"
    using period_of_eq [of kc now] assms by (simp add: kc)
  have "now > 0 \<longleftrightarrow> now \<noteq> 0" by (simp add: word_neq_0_conv)
  then show ?thesis using assms(1,3)
    by (simp add: rotating_encrypt_def update_encryptor_def period is_expired_def rust_simps)
      (simp add: kc rust_simps)
qed

text \<open>time is cut into periods of \<open>lifespan\<close> seconds that neither overlap nor leave gaps: a
  time lies in its period, every second of the period has the same one, a period starts at a
  multiple of the lifespan, and the period before it ends one second earlier.\<close>
theorem period_partition:
  fixes kc :: key_cache
  assumes "L = unat (lifespan kc)" "0 < L" "(unat at div L + 1) * L < 2 ^ 64"
  shows "\<exists>p. period_of kc at = (Ok p :: (period, 'e) rust_result) \<and>
    first_valid_at p \<le> at \<and> at \<le> last_valid_at p \<and> L dvd unat (first_valid_at p) \<and>
    unat (last_valid_at p) + 1 = unat (first_valid_at p) + L \<and>
    {t. period_of kc t = (Ok p :: (period, 'e) rust_result)} = {first_valid_at p..last_valid_at p} \<and>
    (case previous p of
       Some q \<Rightarrow> L \<le> unat at \<and> last_valid_at q + 1 = first_valid_at p
     | None \<Rightarrow> unat at < L)"
proof -
  define n where "n = unat at div L"
  have bound: "(n + 1) * L < 2 ^ 64" using assms by (simp add: n_def)
  note u = period_at_unat [OF assms(2) bound]
  have p: "period_of kc at = (Ok (period_at L n) :: (period, 'e) rust_result)"
    using period_of_eq [of kc at] assms by (simp add: n_def)
  have at: "n * L \<le> unat at" "unat at \<le> n * L + (L - 1)"
    using expired_nat [OF assms(2), of n "unat at"] by (auto simp: n_def simp del: One_nat_def)
  have same: "period_of kc t = (Ok (period_at L n) :: (period, 'e) rust_result) \<longleftrightarrow>
      first_valid_at (period_at L n) \<le> t \<and> t \<le> last_valid_at (period_at L n)" for t
  proof
    assume "first_valid_at (period_at L n) \<le> t \<and> t \<le> last_valid_at (period_at L n)"
    then have t: "n * L \<le> unat t" "\<not> n * L + (L - 1) < unat t" by (auto simp: u64_le u)
    then have "unat t div L = n"
      using expired_nat [OF assms(2), of n "unat t"] less_eq_div_iff_mult_less_eq [OF assms(2), of n "unat t"]
      by (auto simp del: One_nat_def)
    then show "period_of kc t = (Ok (period_at L n) :: (period, 'e) rust_result)"
      using period_of_eq [of kc t] assms(1,2) bound by simp
  next
    assume eq: "period_of kc t = (Ok (period_at L n) :: (period, 'e) rust_result)"
    have nz: "lifespan kc \<noteq> 0" using assms(1,2) by auto
    have tu: "unat (t - t mod lifespan kc) = unat t div L * L"
      by (subst u64_sub) (simp_all add: unat_mod assms(1) minus_mod_eq_div_mult)
    have "period_at L n = \<lparr> first_valid_at = t - t mod lifespan kc,
        last_valid_at = t - t mod lifespan kc + lifespan kc - 1 \<rparr>"
      using eq nz by (simp add: period_of_def Let_def)
    then have "first_valid_at (period_at L n) = t - t mod lifespan kc" by simp
    then have "unat t div L * L = n * L" using u(1) tu by simp
    then have "unat t div L = n" using assms(2) by simp
    then show "first_valid_at (period_at L n) \<le> t \<and> t \<le> last_valid_at (period_at L n)"
      using expired_nat [OF assms(2), of n "unat t"] less_eq_div_iff_mult_less_eq [OF assms(2), of n "unat t"]
      by (auto simp: u64_le u simp del: One_nat_def)
  qed
  have prev: "case previous (period_at L n) of
       Some q \<Rightarrow> L \<le> unat at \<and> last_valid_at q + 1 = first_valid_at (period_at L n)
     | None \<Rightarrow> unat at < L"
  proof (cases n)
    case 0
    then show ?thesis using previous_period_at [OF assms(2) bound] at assms(2) by auto
  next
    case (Suc m)
    have b': "(m + 1) * L < 2 ^ 64" using bound Suc by simp
    have "unat (last_valid_at (period_at L m)) + 1 = n * L"
      using period_at_unat(2) [OF assms(2) b'] assms(2) Suc by simp
    then have "unat (last_valid_at (period_at L m) + 1) = unat (first_valid_at (period_at L n))"
      using u(1) u64_add [of "last_valid_at (period_at L m)" 1] bound by simp
    then have "last_valid_at (period_at L m) + 1 = first_valid_at (period_at L n)"
      by (simp only: word_unat_eq_iff)
    moreover have "L \<le> unat at" using at(1) Suc by simp
    ultimately show ?thesis using previous_period_at [OF assms(2) bound] Suc by simp
  qed
  have "first_valid_at (period_at L n) \<le> at" "at \<le> last_valid_at (period_at L n)"
    unfolding u64_le u using at by simp_all
  moreover have "L dvd unat (first_valid_at (period_at L n))" by (simp add: u(1))
  moreover have "unat (last_valid_at (period_at L n)) + 1 = unat (first_valid_at (period_at L n)) + L"
    unfolding u using assms(2) by simp
  moreover have "{t. period_of kc t = (Ok (period_at L n) :: (period, 'e) rust_result)} =
      {first_valid_at (period_at L n)..last_valid_at (period_at L n)}"
    unfolding same by auto
  ultimately show ?thesis using p prev by blast
qed

text \<open>purging ends, leaves no cached key that expired before the time given, keeps every other
  entry of the ordered set, and keeps the cache consistent with it.\<close>
theorem purge_entries:
  assumes "cache_inv X kc"
  shows "cache_inv X (purge_entries_before kc t) \<and>
    (\<forall>i. case decryptor_cache (purge_entries_before kc t) i of
       Some c \<Rightarrow> t \<le> invalid_after c \<and> decryptor_cache kc i = Some c | None \<Rightarrow> True) \<and>
    set (decryptor_validities (purge_entries_before kc t)) =
      {(e, i) \<in> set (decryptor_validities kc). t \<le> e}"
proof (intro conjI allI)
  note inv = cache_inv_purge [OF assms, of t]
  show "cache_inv X (purge_entries_before kc t)" by (rule inv)
  show set: "set (decryptor_validities (purge_entries_before kc t)) =
      {(e, i) \<in> set (decryptor_validities kc). t \<le> e}"
    using assms by (auto simp: cache_inv_def purge_validities sorted_dropWhile_filter not_less)
  fix i
  show "case decryptor_cache (purge_entries_before kc t) i of
       Some c \<Rightarrow> t \<le> invalid_after c \<and> decryptor_cache kc i = Some c | None \<Rightarrow> True"
    using cache_invD(3) [OF inv, of i] set by (auto simp: purge_cache split: option.splits if_splits)
qed

section \<open>Witnesses\<close>

definition demo_cache :: key_cache where
  "demo_cache = \<lparr> lifespan = 10, backtrack = 1, root_encryption_key = demo_key 1,
     root_decryption_keys = [demo_key 1],
     current_encryptor = \<lparr> invalid_after = 0, strong_box = single_box demo (Key (replicate 32 0)) \<rparr>,
     decryptor_cache = Map.empty, decryptor_validities = [], cache_invalid_at = 0 \<rparr>"

lemma demo_cache_new: "rotating_new demo (demo_key 1) [demo_key 1] 10 1 = Ok demo_cache"
  by (simp add: rotating_new_eq demo_cache_def)

lemma demo_cache_reach: "rotating_reach demo (demo_key 1) [demo_key 1] 10 1 demo_cache"
  by (rule rotating_reach.new) (rule demo_cache_new)

lemma demo_cache_run: "rotating_run demo (demo_key 1) [demo_key 1] 10 1 0 demo_cache"
  by (rule rotating_run.new) (rule demo_cache_new)

definition demo_wire_at :: "nat \<Rightarrow> bytes" where
  "demo_wire_at n = (case static_encrypt demo (single_box demo (rot_key demo (demo_key 1) (period_at 10 n)))
     (replicate 12 5) [1, 2, 3] [10] of Ok w \<Rightarrow> w | _ \<Rightarrow> [])"

lemma demo_wire_at:
  "static_encrypt demo (single_box demo (rot_key demo (demo_key 1) (period_at 10 n)))
     (replicate 12 5) [1, 2, 3] [10] = Ok (demo_wire_at n)"
proof -
  have "\<exists>w. static_encrypt demo (single_box demo (rot_key demo (demo_key 1) (period_at 10 n)))
     (replicate 12 5) [1, 2, 3] [10] = Ok w"
    using ciphertext_to_bytes_total [OF demo_cbor_laws] by (simp add: static_encrypt_def demo_aead_def)
  then show ?thesis by (auto simp: demo_wire_at_def)
qed

lemma demo_distinct_ids: "distinct_ids demo [demo_key 1] 10 1"
proof -
  have "as_bytes (rot_id demo (demo_key 1) (period_at 10 0)) ! 0 \<noteq>
      as_bytes (rot_id demo (demo_key 1) (period_at 10 1)) ! 0"
    by (simp add: rot_id_def rot_key_def keyid_of_def derived_def demo_expand_def pad_to_def demo_key_def
        period_to_bytes_def period_at_def be_bytes_u64_def str_bytes_def upt_rec)
  then have "rot_id demo (demo_key 1) (period_at 10 0) \<noteq> rot_id demo (demo_key 1) (period_at 10 1)"
    by auto
  then show ?thesis by (auto simp: distinct_ids_def le_Suc_eq)
qed

theorem rotating_fresh_decrypt_witness:
  "snd (rotating_decrypt demo demo_cache 15 15 15 (demo_wire_at 0) [10]) = Err Decryption"
  using rotating_fresh_decrypt [where X = demo and kc = demo_cache and L = 10 and bt = 1 and n = 1
      and d = 1 and r = "demo_key 1" and now = 15 and w = "demo_wire_at 0" and m = "[1, 2, 3]"
      and nonce = "replicate 12 5" and roots = "[demo_key 1]" and e = "demo_key 1" and l = 10
      and limit = 1 and ctx = "[10]"]
  by (simp add: demo_cache_new demo_distinct_ids [simplified] demo_wire_at)

theorem rotating_fresh_encrypt_witness:
  "snd (rotating_encrypt demo demo_cache 15 (replicate 12 5) [1, 2, 3] [10]) =
     static_encrypt demo (single_box demo (rot_key demo (demo_key 1) (period_at 10 1)))
       (replicate 12 5) [1, 2, 3] [10]"
  using rotating_fresh_encrypt [OF demo_hkdf_laws demo_cache_new _ refl _ refl, where now = 15] by simp

lemma demo_decrypts: "snd (rotating_decrypt demo demo_cache 15 15 15 (demo_wire_at 1) [10]) = Ok [1, 2, 3]"
proof -
  have "\<exists>c kc'. ciphertext_from_bytes demo (demo_wire_at 1) = Ok c \<and>
      try_decrypt_with demo demo_cache 15 c [10] = Err Decryption \<and>
      refresh_cache demo demo_cache 15 = (Ok kc' :: (key_cache, error) rust_result) \<and>
      try_decrypt_with demo kc' 15 c [10] = Ok [1, 2, 3]"
    using fresh_second_attempt [where X = demo and kc = demo_cache and L = 10 and bt = 1 and n = 1
        and d = 0 and r = "demo_key 1" and now = 15 and w = "demo_wire_at 1" and m = "[1, 2, 3]"
        and nonce = "replicate 12 5" and roots = "[demo_key 1]" and e = "demo_key 1" and l = 10
        and limit = 1 and ctx = "[10]"]
    by (simp add: demo_cache_new demo_distinct_ids [simplified] demo_wire_at [of 1, simplified])
  then show ?thesis by (auto simp: rotating_decrypt_def)
qed

theorem rotating_decrypt_sound_witness:
  "\<exists>c n. ciphertext_from_bytes demo (demo_wire_at 1) = Ok c \<and>
    ct_key_id c = rot_id demo (demo_key 1) (period_at 10 n) \<and> n \<le> 1 \<and>
    aead_encrypt demo (expose_secret (rot_key demo (demo_key 1) (period_at 10 n))) (ct_nonce c)
      ([10] @ as_bytes (ct_key_id c) @ ct_nonce c) [1, 2, 3] = Some (ct_ciphertext c)"
  using rotating_decrypt_sound [OF demo_aead_laws demo_hkdf_laws _ demo_cache_run demo_decrypts] by simp

theorem purge_entries_witness:
  "cache_inv demo (purge_entries_before demo_cache 20) \<and>
    (\<forall>i. case decryptor_cache (purge_entries_before demo_cache 20) i of
       Some c \<Rightarrow> 20 \<le> invalid_after c \<and> decryptor_cache demo_cache i = Some c | None \<Rightarrow> True) \<and>
    set (decryptor_validities (purge_entries_before demo_cache 20)) =
      {(e, i) \<in> set (decryptor_validities demo_cache). 20 \<le> e}"
  by (rule purge_entries) (simp add: demo_cache_def cache_inv_def)

text \<open>The box \<open>derive_rotating\<close> makes from a stem box without decryption keys.\<close>
definition demo_keyless :: key_cache where
  "demo_keyless = demo_cache\<lparr>root_decryption_keys := []\<rparr>"

theorem rotating_decrypt_no_keys_panics_witness:
  "snd (rotating_decrypt demo demo_keyless 15 15 15 (demo_wire_at 1) [10]) = Abort"
proof -
  have "\<exists>c. ciphertext_from_bytes demo (demo_wire_at 1) = Ok c"
    using static_encrypt_parsed [OF demo_cbor_laws _ _ demo_wire_at [of 1]] by (auto simp: single_box_def)
  moreover have "rotating_reach demo (demo_key 1) [] 10 1 demo_keyless"
    by (rule rotating_reach.new) (simp add: rotating_new_eq demo_keyless_def demo_cache_def)
  ultimately show ?thesis using rotating_decrypt_no_keys_panics demo_hkdf_laws by blast
qed

theorem period_partition_witness:
  "\<exists>p. period_of demo_cache 15 = (Ok p :: (period, error) rust_result) \<and>
    first_valid_at p \<le> 15 \<and> 15 \<le> last_valid_at p \<and> 10 dvd unat (first_valid_at p) \<and>
    unat (last_valid_at p) + 1 = unat (first_valid_at p) + 10 \<and>
    {t. period_of demo_cache t = (Ok p :: (period, error) rust_result)} = {first_valid_at p..last_valid_at p} \<and>
    (case previous p of
       Some q \<Rightarrow> 10 \<le> unat (15 :: u64) \<and> last_valid_at q + 1 = first_valid_at p
     | None \<Rightarrow> unat (15 :: u64) < 10)"
  by (rule period_partition) (simp_all add: demo_cache_def)

end
