(* ===== verification/SB_Stem.thy ===== *)
theory SB_Stem
  imports SB_Rotation
begin

text \<open>\<open>crates/strong-box/src/stem_strong_box.rs\<close>: the box that only derives other boxes.\<close>

record stem_strong_box =
  stem_encryption_key :: key
  stem_decryption_keys :: "key list"

definition stem_new :: "key \<Rightarrow> key list \<Rightarrow> stem_strong_box" where
  "stem_new enc_key dec_keys = \<lparr> stem_encryption_key = enc_key, stem_decryption_keys = dec_keys \<rparr>"

definition derive_static ::
  "'x ext_scheme \<Rightarrow> stem_strong_box \<Rightarrow> bytes \<Rightarrow> (static_strong_box, 'e) rust_result" where
  "derive_static X sb purpose =
     (let context = str_bytes ''derive::'' @ purpose in
      and_then (kdf_derive_key X (stem_encryption_key sb) context) (\<lambda>enc_key.
      and_then (map_result (\<lambda>k. kdf_derive_key X k context) (stem_decryption_keys sb)) (\<lambda>dec_keys.
      static_new X enc_key dec_keys)))"

definition derive_stem ::
  "'x ext_scheme \<Rightarrow> stem_strong_box \<Rightarrow> bytes \<Rightarrow> (stem_strong_box, 'e) rust_result" where
  "derive_stem X sb purpose =
     (let context = str_bytes ''derive_stem::'' @ purpose in
      and_then (kdf_derive_key X (stem_encryption_key sb) context) (\<lambda>enc_key.
      and_then (map_result (\<lambda>k. kdf_derive_key X k context) (stem_decryption_keys sb)) (\<lambda>dec_keys.
      Ok (stem_new enc_key dec_keys))))"

definition derive_rotating ::
  "'x ext_scheme \<Rightarrow> stem_strong_box \<Rightarrow> bytes \<Rightarrow> u64 \<Rightarrow> u16 \<Rightarrow> (key_cache, 'e) rust_result" where
  "derive_rotating X sb purpose period_secs max_back =
     (let context = str_bytes ''derive_stem::'' @ purpose in
      and_then (kdf_derive_key X (stem_encryption_key sb) context) (\<lambda>enc_key.
      and_then (map_result (\<lambda>k. kdf_derive_key X k context) (stem_decryption_keys sb)) (\<lambda>dec_keys.
      rotating_new X enc_key dec_keys period_secs max_back)))"

section \<open>Derivation as a tree of keys\<close>

definition stem_wf :: "stem_strong_box \<Rightarrow> bool" where
  "stem_wf sb \<longleftrightarrow> key_wf (stem_encryption_key sb) \<and> (\<forall>k\<in>set (stem_decryption_keys sb). key_wf k)"

lemma derive_all [rust_simps]:
  "hkdf_laws X \<Longrightarrow> \<forall>k\<in>set ks. key_wf k \<Longrightarrow>
     map_result (\<lambda>k. kdf_derive_key X k c) ks = Ok (map (\<lambda>k. derived X k c) ks)"
  by (intro map_result_map_Ok) (simp add: rust_simps)

lemma derive_static_eq [rust_simps]:
  assumes "hkdf_laws X" "stem_wf sb"
  shows "derive_static X sb purpose =
    static_new X (derived X (stem_encryption_key sb) (str_bytes ''derive::'' @ purpose))
      (map (\<lambda>k. derived X k (str_bytes ''derive::'' @ purpose)) (stem_decryption_keys sb))"
  using assms by (simp add: derive_static_def Let_def stem_wf_def rust_simps)

lemma derive_stem_eq [rust_simps]:
  assumes "hkdf_laws X" "stem_wf sb"
  shows "derive_stem X sb purpose =
    Ok (stem_new (derived X (stem_encryption_key sb) (str_bytes ''derive_stem::'' @ purpose))
      (map (\<lambda>k. derived X k (str_bytes ''derive_stem::'' @ purpose)) (stem_decryption_keys sb)))"
  using assms by (simp add: derive_stem_def Let_def stem_wf_def rust_simps)

lemma derive_stem_wf:
  assumes "hkdf_laws X" "stem_wf sb" "derive_stem X sb purpose = Ok sb'"
  shows "stem_wf sb'"
  using assms by (auto simp: derive_stem_eq stem_wf_def stem_new_def)

text \<open>A path of \<open>derive_stem\<close> calls from a root box.\<close>
fun derive_path :: "'x ext_scheme \<Rightarrow> stem_strong_box \<Rightarrow> bytes list \<Rightarrow> (stem_strong_box, 'e) rust_result" where
  "derive_path X sb [] = Ok sb"
| "derive_path X sb (p # ps) = and_then (derive_stem X sb p) (\<lambda>sb'. derive_path X sb' ps)"

definition path_key :: "'x ext_scheme \<Rightarrow> bytes list \<Rightarrow> key \<Rightarrow> key" where
  "path_key X ps k = fold (\<lambda>p k. derived X k (str_bytes ''derive_stem::'' @ p)) ps k"

lemma key_wf_path_key [simp]: "hkdf_laws X \<Longrightarrow> key_wf k \<Longrightarrow> key_wf (path_key X ps k)"
  unfolding path_key_def by (induction ps arbitrary: k) auto

lemma derive_path_eq:
  assumes "hkdf_laws X" "stem_wf sb"
  shows "derive_path X sb ps = (Ok :: _ \<Rightarrow> (stem_strong_box, 'e) rust_result)
    (stem_new (path_key X ps (stem_encryption_key sb)) (map (path_key X ps) (stem_decryption_keys sb)))"
  using assms(2)
proof (induction ps arbitrary: sb)
  case Nil
  then show ?case by (simp add: path_key_def stem_new_def id_def [symmetric])
next
  case (Cons p ps)
  let ?d = "\<lambda>k. derived X k (str_bytes ''derive_stem::'' @ p)"
  let ?sb = "stem_new (?d (stem_encryption_key sb)) (map ?d (stem_decryption_keys sb))"
  have "derive_stem X sb p = (Ok ?sb :: (stem_strong_box, 'e) rust_result)" using assms(1) Cons.prems by (simp add: derive_stem_eq)
  moreover from this have "stem_wf ?sb" using derive_stem_wf assms(1) Cons.prems by blast
  ultimately show ?case using Cons.IH [of ?sb] by (simp add: stem_new_def path_key_def comp_def)
qed

section \<open>Domain separation\<close>

text \<open>The contexts under which the crate derives keys from one key: a static box, a stem box (or a
  rotating box), a period of a rotating box, and a key identifier.\<close>
datatype derivation = ForStatic bytes | ForStem bytes | ForPeriod period | ForKeyId

fun derivation_context :: "derivation \<Rightarrow> bytes" where
  "derivation_context (ForStatic purpose) = str_bytes ''derive::'' @ purpose"
| "derivation_context (ForStem purpose) = str_bytes ''derive_stem::'' @ purpose"
| "derivation_context (ForPeriod p) = str_bytes ''rotation::'' @ period_to_bytes p"
| "derivation_context ForKeyId = str_bytes ''key_id''"

lemma period_to_bytes_inject [simp]: "period_to_bytes p = period_to_bytes q \<longleftrightarrow> p = q"
  by (auto simp: period_to_bytes_def intro: period.equality)

text \<open>no two derivations from one key share a context: the purposes of static boxes, those of
  stem boxes, the periods of a rotation and the key identifier are kept apart by their prefixes,
  and within each kind different purposes or periods have different contexts.\<close>
theorem derivation_context_inject:
  "derivation_context d = derivation_context d' \<longleftrightarrow> d = d'"
  by (cases d; cases d') (auto simp: str_bytes_def)

text \<open>along any path of \<open>derive_stem\<close> calls and a final \<open>derive_static\<close>, what a box derived
  from one root encrypts, a box derived along the same path from another root decrypts, when the
  second root lists the first one's encryption key: a root key roll-over rolls over the whole
  tree.\<close>
theorem derived_tree_rollover:
  assumes laws: "aead_laws X" "cbor_laws X" "hkdf_laws X"
    and wf: "stem_wf root" "stem_wf root'"
    and listed: "stem_encryption_key root \<in> set (stem_decryption_keys root')"
    and path: "derive_path X root ps = Ok stem" "derive_path X root' ps = Ok stem'"
    and box: "derive_static X stem purpose = (Ok sb :: (static_strong_box, error) rust_result)"
      "derive_static X stem' purpose = (Ok sb' :: (static_strong_box, error) rust_result)"
    and ids: "inj_on (\<lambda>k. keyid_of X (derived X (path_key X ps k) (str_bytes ''derive::'' @ purpose)))
                (set (stem_decryption_keys root'))"
    and enc: "length nonce = 12" "static_encrypt X sb nonce m ctx = Ok w"
  shows "static_decrypt X sb' w ctx = Ok m"
proof -
  let ?d = "\<lambda>k. derived X k (str_bytes ''derive::'' @ purpose)" and ?p = "path_key X ps"
  have stem: "stem = stem_new (?p (stem_encryption_key root)) (map ?p (stem_decryption_keys root))"
    "stem' = stem_new (?p (stem_encryption_key root')) (map ?p (stem_decryption_keys root'))"
    using path unfolding derive_path_eq [OF laws(3) wf(1)] derive_path_eq [OF laws(3) wf(2)]
    by simp_all
  then have wf': "stem_wf stem" "stem_wf stem'" using wf laws(3) by (auto simp: stem_wf_def stem_new_def)
  then have sb: "static_new X (?d (?p (stem_encryption_key root))) (map (?d \<circ> ?p) (stem_decryption_keys root)) =
        (Ok sb :: (static_strong_box, error) rust_result)"
    "static_new X (?d (?p (stem_encryption_key root'))) (map (?d \<circ> ?p) (stem_decryption_keys root')) =
        (Ok sb' :: (static_strong_box, error) rust_result)"
    using box unfolding derive_static_eq [OF laws(3) wf'(1)] derive_static_eq [OF laws(3) wf'(2)]
    by (simp_all add: stem stem_new_def)
  have inj: "inj_on (keyid_of X) (set (map (?d \<circ> ?p) (stem_decryption_keys root')))"
    using ids by (auto simp: inj_on_def)
  have "encryption_key sb = ?d (?p (stem_encryption_key root))"
    "encryption_key_id sb = keyid_of X (?d (?p (stem_encryption_key root)))"
    using sb(1) laws(3) wf by (auto simp: static_new_eq)
  moreover have "decryption_keys sb' (keyid_of X (?d (?p (stem_encryption_key root)))) =
      Some (?d (?p (stem_encryption_key root)))"
    using static_new_lookup [OF laws(3) _ _ inj _ sb(2)] listed laws(3) by auto
  ultimately show ?thesis
    using static_open_other [OF laws(1,2) enc(1) _ _ enc(2)] laws(3) by simp
qed

text \<open>a rotating box and a stem box derived from one box for one purpose have the same root
  keys, since both use the \<open>derive_stem::\<close> prefix.\<close>
theorem derive_rotating_shares_stem_keys:
  assumes "hkdf_laws X" "stem_wf sb"
  shows "\<exists>stem kc. derive_stem X sb purpose = (Ok stem :: (stem_strong_box, 'e) rust_result) \<and>
    derive_rotating X sb purpose l limit = (Ok kc :: (key_cache, 'e) rust_result) \<and>
    root_encryption_key kc = stem_encryption_key stem \<and>
    root_decryption_keys kc = stem_decryption_keys stem"
  using assms
  by (simp add: derive_stem_eq derive_rotating_def Let_def stem_wf_def rust_simps rotating_new_eq stem_new_def)

section \<open>Witnesses\<close>

definition demo_stem :: "u8 list \<Rightarrow> stem_strong_box" where
  "demo_stem ks = stem_new (demo_key (hd ks)) (map demo_key ks)"

lemma demo_stem_wf [simp]: "stem_wf (demo_stem ks)"
  by (simp add: demo_stem_def stem_wf_def stem_new_def)

theorem derive_rotating_shares_stem_keys_witness:
  "\<exists>stem kc. derive_stem demo (demo_stem [1]) [7] = (Ok stem :: (stem_strong_box, error) rust_result) \<and>
    derive_rotating demo (demo_stem [1]) [7] 10 1 = (Ok kc :: (key_cache, error) rust_result) \<and>
    root_encryption_key kc = stem_encryption_key stem \<and>
    root_decryption_keys kc = stem_decryption_keys stem"
  by (rule derive_rotating_shares_stem_keys) simp_all

lemma demo_tree_box:
  assumes "stem_wf s"
  shows "\<exists>stem sb. derive_path demo s [[7]] = (Ok stem :: (stem_strong_box, error) rust_result) \<and>
    derive_static demo stem [8] = (Ok sb :: (static_strong_box, error) rust_result) \<and> length (as_bytes (encryption_key_id sb)) = 16"
proof -
  define stem where "stem = stem_new (path_key demo [[7]] (stem_encryption_key s))
      (map (path_key demo [[7]]) (stem_decryption_keys s))"
  have "derive_path demo s [[7]] = (Ok stem :: (stem_strong_box, error) rust_result)"
    using derive_path_eq [OF demo_hkdf_laws assms] unfolding stem_def .
  moreover have wf: "stem_wf stem" using assms by (auto simp: stem_def stem_wf_def stem_new_def)
  moreover from wf obtain sb where "derive_static demo stem [8] = (Ok sb :: (static_strong_box, error) rust_result)"
    "encryption_key_id sb = keyid_of demo (encryption_key sb)"
    by (auto simp: rust_simps stem_wf_def)
  ultimately show ?thesis using keyid_wf_keyid_of [OF demo_hkdf_laws] by (auto simp: keyid_wf_def)
qed

theorem derived_tree_rollover_witness:
  "\<exists>stem sb stem' sb' w.
    derive_path demo (demo_stem [1]) [[7]] = (Ok stem :: (stem_strong_box, error) rust_result) \<and>
    derive_static demo stem [8] = (Ok sb :: (static_strong_box, error) rust_result) \<and>
    derive_path demo (demo_stem [2, 1]) [[7]] = (Ok stem' :: (stem_strong_box, error) rust_result) \<and>
    derive_static demo stem' [8] = (Ok sb' :: (static_strong_box, error) rust_result) \<and>
    static_encrypt demo sb (replicate 12 5) [1, 2, 3] [10] = Ok w \<and>
    static_decrypt demo sb' w [10] = Ok [1, 2, 3]"
proof -
  obtain stem sb where a: "derive_path demo (demo_stem [1]) [[7]] = (Ok stem :: (stem_strong_box, error) rust_result)"
    "derive_static demo stem [8] = (Ok sb :: (static_strong_box, error) rust_result)"
    using demo_tree_box [OF demo_stem_wf] by blast
  obtain stem' sb' where b: "derive_path demo (demo_stem [2, 1]) [[7]] = (Ok stem' :: (stem_strong_box, error) rust_result)"
    "derive_static demo stem' [8] = (Ok sb' :: (static_strong_box, error) rust_result)"
    using demo_tree_box [OF demo_stem_wf] by blast
  obtain w where w: "static_encrypt demo sb (replicate 12 5) [1, 2, 3] [10] = Ok w"
    using ciphertext_to_bytes_total [OF demo_cbor_laws] by (auto simp: static_encrypt_def demo_aead_def)
  have "inj_on (\<lambda>k. keyid_of demo (derived demo (path_key demo [[7]] k) (str_bytes ''derive::'' @ [8])))
      (set (stem_decryption_keys (demo_stem [2, 1])))"
    by code_simp
  from derived_tree_rollover [OF demo_aead_laws demo_cbor_laws demo_hkdf_laws demo_stem_wf demo_stem_wf _
      a(1) b(1) a(2) b(2) this _ w]
  have "static_decrypt demo sb' w [10] = Ok [1, 2, 3]" by (simp add: demo_stem_def stem_new_def)
  then show ?thesis using a b w by blast
qed

end
