(* ===== verification/SB_Shared.thy ===== *)
theory SB_Shared
  imports SB_Static
begin

text \<open>\<open>crates/strong-box/src/shared_strong_box.rs\<close>: the box anyone can encrypt to with its public
  key.  The ephemeral secret of an encryption and the nonce of the inner static box are
  arguments.\<close>

section \<open>Keys\<close>

record shared_key =
  sk_private :: "bytes option"
  sk_public :: bytes

definition PRIVATE_KEY :: u8 where "PRIVATE_KEY = 0"
definition PUBLIC_KEY :: u8 where "PUBLIC_KEY = 1"

definition shared_new_from_key :: "'x ext_scheme \<Rightarrow> bytes \<Rightarrow> shared_key" where
  "shared_new_from_key X s = \<lparr> sk_private = Some s, sk_public = x25519_public X s \<rparr>"

definition shared_new_from_pubkey :: "bytes \<Rightarrow> shared_key" where
  "shared_new_from_pubkey p = \<lparr> sk_private = None, sk_public = p \<rparr>"

definition shared_dh :: "'x ext_scheme \<Rightarrow> shared_key \<Rightarrow> bytes \<Rightarrow> bytes option" where
  "shared_dh X k pubkey = map_option (\<lambda>s. x25519_dh X s pubkey) (sk_private k)"

definition shared_private :: "shared_key \<Rightarrow> bytes option" where
  "shared_private k = map_option (\<lambda>s. PRIVATE_KEY # s) (sk_private k)"

definition shared_public :: "shared_key \<Rightarrow> bytes" where
  "shared_public k = PUBLIC_KEY # sk_public k"

definition shared_key_try_from :: "'x ext_scheme \<Rightarrow> bytes \<Rightarrow> (shared_key, error) rust_result" where
  "shared_key_try_from X k =
     (if length k \<noteq> 33 then Err (InvalidKey ''invalid key length'')
      else
        let inkey = drop 1 k in
        case k of
          [] \<Rightarrow> Err (InvalidKey ''how the heck did we get here?!?'')
        | n # _ \<Rightarrow>
            if n = PRIVATE_KEY then Ok (shared_new_from_key X inkey)
            else if n = PUBLIC_KEY then Ok (shared_new_from_pubkey inkey)
            else Err (InvalidKey (''invalid type byte '' @ show_nat (unat n))))"

section \<open>Ciphertexts\<close>

record shared_ciphertext =
  sc_pubkey :: bytes
  sc_ciphertext :: bytes

definition shared_magic :: bytes where
  "shared_magic = [0xb2, 0xc6, 0xf5]"

definition shared_to_bytes :: "'x ext_scheme \<Rightarrow> shared_ciphertext \<Rightarrow> (bytes, error) rust_result" where
  "shared_to_bytes X c =
     and_then (map_err (CiphertextEncoding ''array'') (cbor_push X (HArray (Some 2)))) (\<lambda>h.
     and_then (map_err (CiphertextEncoding ''pubkey'') (cbor_bytes X (sc_pubkey c))) (\<lambda>p.
     and_then (map_err (CiphertextEncoding ''ciphertext'') (cbor_bytes X (sc_ciphertext c))) (\<lambda>b.
     Ok (shared_magic @ h @ p @ b))))"

definition shared_from_bytes :: "'x ext_scheme \<Rightarrow> bytes \<Rightarrow> (shared_ciphertext, error) rust_result" where
  "shared_from_bytes X b =
     (if length b < 37 then Err (InvalidCiphertext ''too short'')
      else if take 3 b \<noteq> shared_magic then Err (InvalidCiphertext ''incorrect magic'')
      else
        and_then (pull_array X 2 (drop 3 b)) (\<lambda>dec.
        and_then (pull_bytes_header X ''pubkey header'' (InvalidCiphertext ''expected pubkey'')
                    (InvalidCiphertext ''bad pubkey'') dec) (\<lambda>segment.
        and_then (pull_exact X 1024 32 ''pubkey'' (InvalidCiphertext ''bad pubkey length'')
                    (InvalidCiphertext ''short pubkey'') segment) (\<lambda>(pubkey, dec).
        and_then (pull_bytes_header X ''ciphertext header'' (InvalidCiphertext ''expected ciphertext'')
                    (InvalidCiphertext ''bad ciphertext'') dec) (\<lambda>segment.
        and_then (read_body X segment) (\<lambda>body.
        Ok \<lparr> sc_pubkey = pubkey, sc_ciphertext = body \<rparr>))))))"

section \<open>Encryption and decryption\<close>

definition shared_encrypt ::
  "'x ext_scheme \<Rightarrow> shared_key \<Rightarrow> bytes \<Rightarrow> bytes \<Rightarrow> bytes \<Rightarrow> bytes \<Rightarrow> (bytes, error) rust_result" where
  "shared_encrypt X key tmp_key nonce plaintext ctx =
     (let tmp_pubkey = x25519_public X tmp_key;
          box_key = x25519_dh X tmp_key (sk_public key) in
      if \<not> was_contributory X box_key then Err Encryption
      else
        and_then (static_new X (Key box_key) []) (\<lambda>sb.
        and_then (static_encrypt X sb nonce plaintext (ctx @ tmp_pubkey)) (\<lambda>ciphertext.
        shared_to_bytes X \<lparr> sc_pubkey = tmp_pubkey, sc_ciphertext = ciphertext \<rparr>)))"

definition shared_decrypt ::
  "'x ext_scheme \<Rightarrow> shared_key \<Rightarrow> bytes \<Rightarrow> bytes \<Rightarrow> (bytes, error) rust_result" where
  "shared_decrypt X key ciphertext ctx =
     and_then (shared_from_bytes X ciphertext) (\<lambda>c.
     and_then (ok_or (InvalidKey ''this SharedStrongBox does not have a private key'')
                 (shared_dh X key (sc_pubkey c))) (\<lambda>box_key.
     if \<not> was_contributory X box_key then Err Encryption
     else
       and_then (static_new X (Key box_key) [Key box_key]) (\<lambda>sb.
       static_decrypt X sb (sc_ciphertext c) (ctx @ sc_pubkey c))))"

section \<open>Wire format\<close>

lemma shared_to_bytes_total: "cbor_laws X \<Longrightarrow> \<exists>b. shared_to_bytes X c = Ok b"
  using cbor_push_array [of X 2] cbor_bytes_pull [of X "sc_pubkey c"] cbor_bytes_pull [of X "sc_ciphertext c"]
  by (auto simp: shared_to_bytes_def)

lemma shared_to_from_bytes:
  assumes laws: "cbor_laws X" and len: "length (sc_pubkey c) = 32"
    and enc: "shared_to_bytes X c = Ok w"
  shows "shared_from_bytes X w = Ok c"
proof -
  obtain h p b where parts:
    "cbor_push X (HArray (Some 2)) = Ok h" "cbor_bytes X (sc_pubkey c) = Ok p"
    "cbor_bytes X (sc_ciphertext c) = Ok b"
    and w: "w = shared_magic @ h @ p @ b"
    using enc by (auto simp: shared_to_bytes_def)
  have "1 \<le> length h" using cbor_push_array [OF laws, of 2] parts by auto
  moreover have "33 \<le> length p"
    using cbor_bytes_pull [OF laws, of "sc_pubkey c"] parts len by auto
  ultimately have len37: "\<not> length w < 37" "take 3 w = shared_magic" "drop 3 w = h @ p @ b"
    by (simp_all add: w shared_magic_def)
  note fields = pull_array_push [OF laws parts(1)] pull_field [OF laws parts(2)]
    pull_field(1) [OF laws parts(3), where rest = "[]", simplified]
  show ?thesis using len laws
    by (simp add: shared_from_bytes_def len37 fields rust_simps)
qed

lemma shared_from_bytes_robust: "cbor_robust X \<Longrightarrow> shared_from_bytes X w \<noteq> Abort"
  by (auto simp: shared_from_bytes_def and_then_eq_Abort rust_simps)

section \<open>The trait\<close>

text \<open>A box with its private key, and fresh randomness that gives a contributory exchange.\<close>
definition shared_ready :: "'x ext_scheme \<times> shared_key \<Rightarrow> bytes \<times> bytes \<Rightarrow> bool" where
  "shared_ready b r \<longleftrightarrow> (case b of (X, key) \<Rightarrow> case r of (tmp, nonce) \<Rightarrow>
     aead_laws X \<and> cbor_laws X \<and> hkdf_laws X \<and> dh_laws X \<and> length nonce = 12 \<and> length tmp = 32 \<and>
     (\<exists>s. length s = 32 \<and> key = shared_new_from_key X s))"

definition shared_forged ::
  "'x ext_scheme \<times> shared_key \<Rightarrow> bytes \<Rightarrow> bytes \<Rightarrow> bytes \<Rightarrow> bool" where
  "shared_forged b w ctx ctx' \<longleftrightarrow> (case b of (X, key) \<Rightarrow>
     (case shared_from_bytes X w of
        Ok c \<Rightarrow>
          (case shared_dh X key (sc_pubkey c) of
             Some box_key \<Rightarrow>
               (case static_new X (Key box_key) [Key box_key] of
                  (Ok sb :: (static_strong_box, error) rust_result) \<Rightarrow>
                    static_forged (X, sb) (sc_ciphertext c) (ctx @ sc_pubkey c) (ctx' @ sc_pubkey c)
                | _ \<Rightarrow> False)
           | None \<Rightarrow> False)
      | _ \<Rightarrow> False))"

definition box_of_secret :: "'x ext_scheme \<Rightarrow> bytes \<Rightarrow> static_strong_box" where
  "box_of_secret X s = \<lparr> encryption_key = Key s, encryption_key_id = keyid_of X (Key s),
     decryption_keys = [keyid_of X (Key s) \<mapsto> Key s] \<rparr>"

lemma shared_sealed:
  assumes "shared_ready (X, key) (tmp, nonce)" "shared_encrypt X key tmp nonce m ctx = Ok w"
  obtains body where
    "shared_from_bytes X w = Ok \<lparr> sc_pubkey = x25519_public X tmp, sc_ciphertext = body \<rparr>"
    "shared_dh X key (x25519_public X tmp) = Some (x25519_dh X tmp (sk_public key))"
    "was_contributory X (x25519_dh X tmp (sk_public key))"
    "key_wf (Key (x25519_dh X tmp (sk_public key)))"
    "static_encrypt X (box_of_secret X (x25519_dh X tmp (sk_public key))) nonce m
       (ctx @ x25519_public X tmp) = Ok body"
proof -
  let ?s = "x25519_dh X tmp (sk_public key)"
  have laws: "aead_laws X" "cbor_laws X" "hkdf_laws X" "dh_laws X" "length nonce = 12" "length tmp = 32"
    and "\<exists>s. length s = 32 \<and> key = shared_new_from_key X s"
    using assms(1) by (auto simp: shared_ready_def)
  then obtain s where s: "length s = 32" "key = shared_new_from_key X s" by blast
  have wf: "key_wf (Key ?s)" using laws(4) by (simp add: key_wf_def dh_laws_def)
  have dh: "shared_dh X key (x25519_public X tmp) = Some ?s"
    using s laws(4,6) by (simp add: shared_dh_def shared_new_from_key_def dh_laws_def)
  obtain sb body where sb: "static_new X (Key ?s) [] = (Ok sb :: (static_strong_box, error) rust_result)"
    and body: "static_encrypt X sb nonce m (ctx @ x25519_public X tmp) = Ok body"
    and w: "shared_to_bytes X \<lparr> sc_pubkey = x25519_public X tmp, sc_ciphertext = body \<rparr> = Ok w"
    and contributory: "was_contributory X ?s"
    using assms(2) by (auto simp: shared_encrypt_def Let_def split: if_splits)
  have "static_encrypt X sb = static_encrypt X (box_of_secret X ?s)"
    using sb wf laws(3) by (auto simp: static_new_eq static_encrypt_def box_of_secret_def intro!: ext)
  moreover have "shared_from_bytes X w = Ok \<lparr> sc_pubkey = x25519_public X tmp, sc_ciphertext = body \<rparr>"
    using shared_to_from_bytes [OF laws(2) _ w] laws(4) by (simp add: dh_laws_def)
  ultimately show thesis using that body dh contributory wf by metis
qed

lemma static_new_single:
  "hkdf_laws X \<Longrightarrow> key_wf (Key s) \<Longrightarrow> static_new X (Key s) [Key s] = Ok (box_of_secret X s)"
  by (simp add: static_new_eq box_of_secret_def)

lemma static_ready_secret:
  "aead_laws X \<Longrightarrow> cbor_laws X \<Longrightarrow> hkdf_laws X \<Longrightarrow> length nonce = 12 \<Longrightarrow>
     static_ready (X, box_of_secret X s) nonce"
  by (simp add: static_ready_def box_of_secret_def)

lemma shared_round:
  assumes "shared_ready (X, key) (tmp, nonce)" "shared_encrypt X key tmp nonce m ctx = Ok w"
  shows "shared_decrypt X key w ctx = Ok m"
proof -
  obtain body where body:
    "shared_from_bytes X w = Ok \<lparr> sc_pubkey = x25519_public X tmp, sc_ciphertext = body \<rparr>"
    "shared_dh X key (x25519_public X tmp) = Some (x25519_dh X tmp (sk_public key))"
    "was_contributory X (x25519_dh X tmp (sk_public key))"
    "key_wf (Key (x25519_dh X tmp (sk_public key)))"
    "static_encrypt X (box_of_secret X (x25519_dh X tmp (sk_public key))) nonce m
       (ctx @ x25519_public X tmp) = Ok body"
    using shared_sealed [OF assms] by blast
  have laws: "aead_laws X" "cbor_laws X" "hkdf_laws X" "length nonce = 12"
    using assms(1) by (auto simp: shared_ready_def)
  show ?thesis
    using static_box.round_trip [of "(X, box_of_secret X (x25519_dh X tmp (sk_public key)))" nonce] body laws
    by (simp add: shared_decrypt_def static_new_single static_ready_secret)
qed

lemma shared_bound:
  assumes "shared_ready (X, key) (tmp, nonce)" "shared_encrypt X key tmp nonce m ctx = Ok w"
    and "shared_decrypt X key w ctx' = Ok m'" "ctx' \<noteq> ctx"
  shows "shared_forged (X, key) w ctx ctx'"
proof -
  obtain body where body:
    "shared_from_bytes X w = Ok \<lparr> sc_pubkey = x25519_public X tmp, sc_ciphertext = body \<rparr>"
    "shared_dh X key (x25519_public X tmp) = Some (x25519_dh X tmp (sk_public key))"
    "was_contributory X (x25519_dh X tmp (sk_public key))"
    "key_wf (Key (x25519_dh X tmp (sk_public key)))"
    "static_encrypt X (box_of_secret X (x25519_dh X tmp (sk_public key))) nonce m
       (ctx @ x25519_public X tmp) = Ok body"
    using shared_sealed [OF assms(1,2)] by blast
  have laws: "aead_laws X" "cbor_laws X" "hkdf_laws X" "length nonce = 12"
    using assms(1) by (auto simp: shared_ready_def)
  have "static_decrypt X (box_of_secret X (x25519_dh X tmp (sk_public key))) body
      (ctx' @ x25519_public X tmp) = Ok m'"
    using assms(3) body laws by (simp add: shared_decrypt_def static_new_single)
  then have "static_forged (X, box_of_secret X (x25519_dh X tmp (sk_public key))) body
      (ctx @ x25519_public X tmp) (ctx' @ x25519_public X tmp)"
    using static_context_bound [OF static_ready_secret body(5)] laws assms(4) by simp
  then show ?thesis using body laws by (simp add: shared_forged_def static_new_single)
qed

interpretation shared_box: context_bound_box
  "\<lambda>b r. shared_encrypt (fst b) (snd b) (fst r) (snd r)" "\<lambda>b. shared_decrypt (fst b) (snd b)"
  shared_ready shared_forged
  by unfold_locales (auto intro: shared_round shared_bound)

section \<open>Properties\<close>

lemma shared_encrypt_public_half:
  "shared_encrypt X (shared_new_from_pubkey (sk_public key)) = shared_encrypt X key"
  by (intro ext) (simp add: shared_encrypt_def shared_new_from_pubkey_def)

text \<open>C6: the printed public key is all it takes to encrypt, and the printed private key all it
  takes to decrypt: both are 33 bytes and are parsed back, and what is encrypted with the parsed
  public key decrypts with the parsed private key.\<close>
theorem shared_round_trip:
  assumes "aead_laws X" "cbor_laws X" "hkdf_laws X" "dh_laws X"
    and "length s = 32" "length tmp = 32" "length nonce = 12"
  shows "\<exists>pub priv. shared_key_try_from X (shared_public (shared_new_from_key X s)) = Ok pub \<and>
    and_then (ok_or (InvalidKey []) (shared_private (shared_new_from_key X s))) (shared_key_try_from X) = Ok priv \<and>
    (\<forall>m ctx w. shared_encrypt X pub tmp nonce m ctx = Ok w \<longrightarrow> shared_decrypt X priv w ctx = Ok m)"
proof (intro exI conjI allI impI)
  let ?k = "shared_new_from_key X s"
  show "shared_key_try_from X (shared_public ?k) = Ok (shared_new_from_pubkey (sk_public ?k))"
    using assms(4) by (simp add: shared_key_try_from_def shared_public_def shared_new_from_key_def
        PUBLIC_KEY_def PRIVATE_KEY_def dh_laws_def)
  show "and_then (ok_or (InvalidKey []) (shared_private ?k)) (shared_key_try_from X) = Ok ?k"
    using assms(5) by (simp add: shared_key_try_from_def shared_private_def shared_new_from_key_def)
  fix m ctx w assume "shared_encrypt X (shared_new_from_pubkey (sk_public ?k)) tmp nonce m ctx = Ok w"
  then have enc: "shared_encrypt X ?k tmp nonce m ctx = Ok w" by (simp add: shared_encrypt_public_half)
  have "shared_ready (X, ?k) (tmp, nonce)" using assms by (auto simp: shared_ready_def)
  then show "shared_decrypt X ?k w ctx = Ok m"
    using shared_box.round_trip [of "(X, ?k)" "(tmp, nonce)" m ctx w] enc by simp
qed

theorem shared_round_trip_witness:
  "\<exists>pub priv. shared_key_try_from demo (shared_public (shared_new_from_key demo (replicate 32 3))) = Ok pub \<and>
    and_then (ok_or (InvalidKey []) (shared_private (shared_new_from_key demo (replicate 32 3))))
      (shared_key_try_from demo) = Ok priv \<and>
    (\<forall>m ctx w. shared_encrypt demo pub (replicate 32 4) (replicate 12 5) m ctx = Ok w \<longrightarrow>
       shared_decrypt demo priv w ctx = Ok m)"
  by (rule shared_round_trip) simp_all

text \<open>a ciphertext for a shared box opens under no context but its own, unless the cipher of the
  inner static box opens it under both; and a box that only has the public key opens nothing.\<close>
theorem shared_wrong_context:
  assumes "shared_ready (X, key) (tmp, nonce)" "shared_encrypt X key tmp nonce m ctx = Ok w"
    and "\<not> shared_forged (X, key) w ctx ctx'" "ctx' \<noteq> ctx"
  shows "shared_decrypt X key w ctx' \<noteq> Ok m' \<and>
    shared_decrypt X (shared_new_from_pubkey (sk_public key)) w ctx =
      Err (InvalidKey ''this SharedStrongBox does not have a private key'')"
proof
  show "shared_decrypt X key w ctx' \<noteq> Ok m'"
    using shared_box.wrong_context_fails [of "(X, key)" "(tmp, nonce)" m ctx w ctx'] assms by simp
  obtain body where
    "shared_from_bytes X w = Ok \<lparr> sc_pubkey = x25519_public X tmp, sc_ciphertext = body \<rparr>"
    using shared_sealed [OF assms(1,2)] by blast
  then show "shared_decrypt X (shared_new_from_pubkey (sk_public key)) w ctx =
      Err (InvalidKey ''this SharedStrongBox does not have a private key'')"
    by (simp add: shared_decrypt_def shared_dh_def shared_new_from_pubkey_def)
qed

definition demo_shared_wire :: bytes where
  "demo_shared_wire = (case shared_encrypt demo (shared_new_from_key demo (replicate 32 3))
     (replicate 32 4) (replicate 12 5) [1, 2, 3] [10] of Ok w \<Rightarrow> w | _ \<Rightarrow> [])"

theorem shared_wrong_context_witness:
  "shared_decrypt demo (shared_new_from_key demo (replicate 32 3)) demo_shared_wire [11] \<noteq> Ok [1, 2, 3] \<and>
    shared_decrypt demo (shared_new_from_pubkey (sk_public (shared_new_from_key demo (replicate 32 3))))
      demo_shared_wire [10] = Err (InvalidKey ''this SharedStrongBox does not have a private key'')"
proof (rule shared_wrong_context)
  show "shared_ready (demo, shared_new_from_key demo (replicate 32 3)) (replicate 32 4, replicate 12 5)"
    by (auto simp: shared_ready_def intro!: exI [of _ "replicate 32 3"])
  show "shared_encrypt demo (shared_new_from_key demo (replicate 32 3))
      (replicate 32 4) (replicate 12 5) [1, 2, 3] [10] = Ok demo_shared_wire"
    by code_simp
  show "\<not> shared_forged (demo, shared_new_from_key demo (replicate 32 3)) demo_shared_wire [10] [11]"
    by code_simp
qed simp

end
