(* ===== verification/Client_Core.thy ===== *)
theory Client_Core
  imports Ext_Instance
begin

text \<open>\<open>crates/client-core/src/lib.rs\<close> (the public error type) and the data the client crates
  exchange: the payloads of \<open>crates/client-crypto/src/payloads.rs\<close>, CBOR and JSON values, and the
  third-party code of the client crates as further fields of \<open>ext\<close>: base64 engines, HMAC, Argon2,
  the printed form of a UUID, and the serde encoders and decoders of each payload type.\<close>

section \<open>Errors\<close>

datatype public_error = Validation string | Crypto string | Unexpected string

fun public_display :: "public_error \<Rightarrow> string" where
  "public_display (Validation m) = m"
| "public_display (Crypto m) = m"
| "public_display (Unexpected m) = m"

type_synonym 'a public_result = "('a, public_error) rust_result"

section \<open>Values\<close>

text \<open>An \<open>f64\<close> is its bit pattern.\<close>
type_synonym f64 = u64

definition f64_finite :: "f64 \<Rightarrow> bool" where
  "f64_finite x \<longleftrightarrow> unat (drop_bit 52 x) mod 2048 \<noteq> 2047"

text \<open>\<open>to_string\<close> of a number that is not finite.\<close>
definition f64_show_special :: "f64 \<Rightarrow> string" where
  "f64_show_special x =
     (if unat x mod 2 ^ 52 \<noteq> 0 then ''NaN'' else if bit x 63 then ''-inf'' else ''inf'')"

text \<open>\<open>serde_json::Value\<close>: a number is a non-negative \<open>u64\<close>, a negative \<open>i64\<close>, or a float; an
  object is a \<open>BTreeMap\<close>, the list of its entries in the order of their keys.\<close>
datatype json =
    JNull
  | JBool bool
  | JPos nat
  | JNeg int
  | JFloat f64
  | JString string
  | JArray "json list"
  | JObject "(string \<times> json) list"

text \<open>\<open>ciborium::Value\<close>.\<close>
datatype flexible =
    FInteger int
  | FBytes bytes
  | FFloat f64
  | FText string
  | FBool bool
  | FNull
  | FTag nat flexible
  | FArray "flexible list"
  | FMap "(flexible \<times> flexible) list"

section \<open>Payloads\<close>

datatype symmetric_key = SymmetricKey (sym_bytes: bytes)

record sealed_payload =
  sp_version :: u8
  sp_ciphertext :: bytes

record sealed_blob =
  sb_bytes :: bytes
  sb_base64 :: string

record attachment_blob_ref =
  br_version :: u8
  br_object_key :: string
  br_ciphertext_bytes :: nat
  br_file_key :: bytes
  br_enc_context :: string

record rich_text_block =
  rb_block_type :: string
  rb_text :: string

record rich_text =
  rt_format :: string
  rt_version :: u8
  rt_blocks :: "rich_text_block list"

record checklist_item =
  ci_id :: string
  ci_title :: string
  ci_is_done :: bool
  ci_completed_at :: "int option"
  ci_assignee_user_ids :: "string list option"

record task_body =
  tb_title :: string
  tb_rich_text :: "rich_text option"
  tb_checklist :: "checklist_item list option"
  tb_attachments :: "flexible list option"
  tb_references :: "flexible list option"
  tb_mentions :: "string list option"
  tb_client_meta :: "flexible option"
  tb_recurrence_state :: "flexible option"

record task_envelope =
  te_kind :: string
  te_version :: u8
  te_body :: task_body

record comment_body =
  cb_content :: rich_text
  cb_mentions :: "string list option"
  cb_attachments :: "flexible list option"
  cb_client_meta :: "flexible option"

record comment_envelope =
  ce_kind :: string
  ce_version :: u8
  ce_body :: comment_body

record text_value_payload =
  tv_value :: string

record hpke_suite =
  suite_kem :: u16
  suite_kdf :: u16
  suite_aead :: u16
  suite_mode :: u8

record hpke_envelope =
  he_version :: u8
  he_suite :: hpke_suite
  he_enc :: bytes
  he_ciphertext :: bytes

text \<open>The untagged field of \<open>WorkListKeyEnvelope\<close>.\<close>
datatype work_list_key_field = KeyBytes bytes | KeyText string

record work_list_key_envelope =
  wk_key :: work_list_key_field

section \<open>Third-party code\<close>

type_synonym uuid = bytes

text \<open>A serde type as ciborium writes and reads it: reading also returns how many bytes of the input
  the item took.\<close>
record 'a codec =
  enc :: "'a \<Rightarrow> (bytes, string) rust_result"
  dec :: "bytes \<Rightarrow> ('a \<times> nat, string) rust_result"

text \<open>The value \<open>v\<close> is written, and read back alone or at the start of a longer input.\<close>
definition codec_reads :: "'a codec \<Rightarrow> 'a \<Rightarrow> bool" where
  "codec_reads c v \<longleftrightarrow> (\<exists>b. enc c v = Ok b \<and> (\<forall>rest. dec c (b @ rest) = Ok (v, length b)))"

record client_ext = ext +
  b64_nopad_enc :: "bytes \<Rightarrow> string"
  b64_nopad_dec :: "string \<Rightarrow> (bytes, string) rust_result"
  b64_std_dec :: "string \<Rightarrow> (bytes, string) rust_result"
  b64_url_nopad_dec :: "string \<Rightarrow> (bytes, string) rust_result"
  b64_url_dec :: "string \<Rightarrow> (bytes, string) rust_result"
  hmac_sha256 :: "bytes \<Rightarrow> bytes \<Rightarrow> (bytes, string) rust_result"
  hkdf_error :: string
  hkdf_prk_error :: string
  argon2id :: "bytes \<Rightarrow> bytes \<Rightarrow> (bytes, string) rust_result"
  uuid_display :: "uuid \<Rightarrow> string"
  json_display :: "json \<Rightarrow> string"
  sealed_payload_codec :: "sealed_payload codec"
  text_value_codec :: "text_value_payload codec"
  task_codec :: "task_envelope codec"
  comment_codec :: "comment_envelope codec"
  flexible_codec :: "flexible codec"
  hpke_codec :: "hpke_envelope codec"
  key_envelope_codec :: "work_list_key_envelope codec"
  raw_bytes_codec :: "bytes codec"

definition base64_alphabet :: string where
  "base64_alphabet =
     ''ABCDEFGHIJKLMNOPQRSTUVWXYZabcdefghijklmnopqrstuvwxyz0123456789+/''"

text \<open>RFC 4648 base64 without padding: the text is over the standard alphabet and is decoded back.\<close>
definition b64_laws :: "'x client_ext_scheme \<Rightarrow> bool" where
  "b64_laws X \<longleftrightarrow> (\<forall>b. set (b64_nopad_enc X b) \<subseteq> set base64_alphabet \<and>
     (b \<noteq> [] \<longrightarrow> b64_nopad_enc X b \<noteq> []) \<and> b64_nopad_dec X (b64_nopad_enc X b) = Ok b)"

text \<open>The hyphenated lower-case form of a UUID: 36 characters, different for different UUIDs.\<close>
definition uuid_laws :: "'x client_ext_scheme \<Rightarrow> bool" where
  "uuid_laws X \<longleftrightarrow> (\<forall>u v. length u = 16 \<longrightarrow> length v = 16 \<longrightarrow>
     length (uuid_display X u) = 36 \<and> (uuid_display X u = uuid_display X v \<longrightarrow> u = v))"

text \<open>HMAC-SHA-256 (RFC 2104) takes a key of any length and returns 32 bytes.\<close>
definition hmac_laws :: "'x client_ext_scheme \<Rightarrow> bool" where
  "hmac_laws X \<longleftrightarrow> (\<forall>k m. \<exists>t. hmac_sha256 X k m = Ok t \<and> length t = 32)"

lemma codec_dec_enc:
  assumes "codec_reads c v" "enc c v = Ok b"
  shows "dec c (b @ rest) = Ok (v, length b)" "dec c b = Ok (v, length b)"
proof -
  have all: "\<forall>rest. dec c (b @ rest) = Ok (v, length b)"
    using assms by (auto simp: codec_reads_def)
  then show "dec c (b @ rest) = Ok (v, length b)" by blast
  show "dec c b = Ok (v, length b)" using all [rule_format, of "[]"] by simp
qed

section \<open>Symmetric keys\<close>

definition sym_wf :: "symmetric_key \<Rightarrow> bool" where
  "sym_wf k \<longleftrightarrow> length (sym_bytes k) = 32"

definition to_strong_box_key :: "symmetric_key \<Rightarrow> key" where
  "to_strong_box_key k = Key (sym_bytes k)"

lemma key_wf_to_strong_box_key [simp]: "key_wf (to_strong_box_key k) \<longleftrightarrow> sym_wf k"
  by (simp add: to_strong_box_key_def key_wf_def sym_wf_def)

definition symmetric_key_from_bytes :: "bytes \<Rightarrow> symmetric_key public_result" where
  "symmetric_key_from_bytes b =
     (if length b \<noteq> 32 then
        Err (Validation (''expected 32-byte key, got '' @ show_nat (length b) @ '' bytes''))
      else Ok (SymmetricKey b))"

lemma symmetric_key_from_bytes_wf: "symmetric_key_from_bytes b = Ok k \<Longrightarrow> sym_wf k \<and> sym_bytes k = b"
  by (auto simp: symmetric_key_from_bytes_def sym_wf_def split: if_splits)

lemma symmetric_key_from_sym_bytes [simp]: "sym_wf k \<Longrightarrow> symmetric_key_from_bytes (sym_bytes k) = Ok k"
  by (simp add: symmetric_key_from_bytes_def sym_wf_def)

lemma symmetric_key_from_bytes_neq_Abort [simp]: "symmetric_key_from_bytes b \<noteq> Abort"
  by (simp add: symmetric_key_from_bytes_def)

end
