(* ===== verification/Crypto_Seal.thy ===== *)
theory Crypto_Seal
  imports Client_Core SB_Shared
begin

text \<open>\<open>crates/client-crypto/src\<close>: sealed payloads (\<open>lib.rs\<close>, with the key ring of \<open>keys.rs\<close> and the
  CBOR helpers of \<open>cbor.rs\<close>) and the text fields bound to the entity they belong to
  (\<open>text_fields.rs\<close>).  The nonce of an encryption is an argument.\<close>

section \<open>Contexts\<close>

definition USER_DATA_KEY_CONTEXT :: bytes where
  "USER_DATA_KEY_CONTEXT = str_bytes ''worklist.user.data_key''"
definition WORK_LIST_PAYLOAD_CONTEXT :: bytes where
  "WORK_LIST_PAYLOAD_CONTEXT = str_bytes ''worklist.work_list.v1''"
definition WORK_LIST_MEMBERSHIP_CONTEXT :: bytes where
  "WORK_LIST_MEMBERSHIP_CONTEXT = str_bytes ''worklist.membership''"
definition TASK_PAYLOAD_CONTEXT :: bytes where
  "TASK_PAYLOAD_CONTEXT = str_bytes ''worklist.task.v1''"
definition COMMENT_PAYLOAD_CONTEXT :: bytes where
  "COMMENT_PAYLOAD_CONTEXT = str_bytes ''worklist.comment.v1''"
definition ATTACHMENT_REF_CONTEXT :: bytes where
  "ATTACHMENT_REF_CONTEXT = str_bytes ''worklist.attachment.ref.v1''"
definition ATTACHMENT_BLOB_CONTEXT_LABEL :: string where
  "ATTACHMENT_BLOB_CONTEXT_LABEL = ''worklist.attachment.blob.v1''"

section \<open>CBOR and base64\<close>

definition deserialize_from_cbor :: "'a codec \<Rightarrow> bytes \<Rightarrow> 'a public_result" where
  "deserialize_from_cbor c b =
     map_err (\<lambda>e. Crypto (''failed to deserialize payload: '' @ e)) (map_ok fst (dec c b))"

definition serialize_to_cbor :: "'a codec \<Rightarrow> 'a \<Rightarrow> bytes public_result" where
  "serialize_to_cbor c v = map_err (\<lambda>e. Crypto (''failed to serialize payload: '' @ e)) (enc c v)"

definition deserialize_complete_from_cbor :: "'a codec \<Rightarrow> bytes \<Rightarrow> 'a public_result" where
  "deserialize_complete_from_cbor c b =
     and_then (map_err (\<lambda>e. Crypto (''failed to deserialize payload: '' @ e)) (dec c b)) (\<lambda>(v, position).
     if position \<noteq> length b then Err (Validation ''CBOR payload contains trailing bytes'') else Ok v)"

definition decode_base64 :: "'x client_ext_scheme \<Rightarrow> string \<Rightarrow> bytes public_result" where
  "decode_base64 X value =
     (let trimmed = trim value in
      if trimmed = [] then Err (Validation ''ciphertext cannot be empty'')
      else
        map_err (\<lambda>e. Validation (''ciphertext must be base64: '' @ e))
          (or_else (or_else (or_else (b64_nopad_dec X trimmed)
            (\<lambda>_. b64_std_dec X trimmed))
            (\<lambda>_. b64_url_nopad_dec X trimmed))
            (\<lambda>_. b64_url_dec X trimmed)))"

definition decode_sealed_blob :: "'x client_ext_scheme \<Rightarrow> string \<Rightarrow> bytes public_result" where
  "decode_sealed_blob X b64 = decode_base64 X b64"

section \<open>Sealed payloads\<close>

record key_ring =
  kr_encryption :: symmetric_key
  kr_history :: "symmetric_key list"

definition key_ring_new :: "symmetric_key \<Rightarrow> key_ring" where
  "key_ring_new current = \<lparr> kr_encryption = current, kr_history = [] \<rparr>"

definition key_ring_strong_box :: "'x client_ext_scheme \<Rightarrow> key_ring \<Rightarrow> (static_strong_box, 'e) rust_result" where
  "key_ring_strong_box X ring =
     (let key = to_strong_box_key (kr_encryption ring);
          dec_keys = to_strong_box_key (kr_encryption ring) # map to_strong_box_key (kr_history ring) in
      static_new X key dec_keys)"

definition SEALED_PAYLOAD_VERSION :: u8 where
  "SEALED_PAYLOAD_VERSION = 1"

definition sealed_payload_new :: "bytes \<Rightarrow> sealed_payload" where
  "sealed_payload_new c = \<lparr> sp_version = SEALED_PAYLOAD_VERSION, sp_ciphertext = c \<rparr>"

definition sealed_payload_from_bytes :: "'x client_ext_scheme \<Rightarrow> bytes \<Rightarrow> sealed_payload public_result" where
  "sealed_payload_from_bytes X b = deserialize_from_cbor (sealed_payload_codec X) b"

definition sealed_payload_to_bytes :: "'x client_ext_scheme \<Rightarrow> sealed_payload \<Rightarrow> bytes public_result" where
  "sealed_payload_to_bytes X p = serialize_to_cbor (sealed_payload_codec X) p"

definition ensure_payload_version :: "u8 \<Rightarrow> unit public_result" where
  "ensure_payload_version version =
     (if version \<noteq> SEALED_PAYLOAD_VERSION then
        Err (Validation (''unsupported sealed payload version '' @ show_nat (unat version)))
      else Ok ())"

definition decrypt_sealed_bytes ::
  "'x client_ext_scheme \<Rightarrow> symmetric_key \<Rightarrow> bytes \<Rightarrow> bytes \<Rightarrow> string \<Rightarrow> bytes public_result" where
  "decrypt_sealed_bytes X key payload context error_context =
     and_then (sealed_payload_from_bytes X payload) (\<lambda>sealed.
     and_then (ensure_payload_version (sp_version sealed)) (\<lambda>_.
     and_then (key_ring_strong_box X (key_ring_new key)) (\<lambda>sb.
     map_err (\<lambda>e. Crypto (error_context @ '': '' @ error_display e))
       (static_decrypt X sb (sp_ciphertext sealed) context))))"

definition decrypt_sealed_payload ::
  "'x client_ext_scheme \<Rightarrow> 'a codec \<Rightarrow> symmetric_key \<Rightarrow> bytes \<Rightarrow> bytes \<Rightarrow> string \<Rightarrow> 'a public_result" where
  "decrypt_sealed_payload X c key payload context error_context =
     and_then (decrypt_sealed_bytes X key payload context error_context) (deserialize_from_cbor c)"

definition decrypt_raw_attachment_bytes ::
  "'x client_ext_scheme \<Rightarrow> symmetric_key \<Rightarrow> bytes \<Rightarrow> bytes \<Rightarrow> bytes public_result" where
  "decrypt_raw_attachment_bytes X key ciphertext context =
     and_then (key_ring_strong_box X (key_ring_new key)) (\<lambda>sb.
     map_err (\<lambda>e. Crypto (''failed to decrypt attachment bytes: '' @ error_display e))
       (static_decrypt X sb ciphertext context))"

definition sealed_blob_from_payload :: "'x client_ext_scheme \<Rightarrow> sealed_payload \<Rightarrow> sealed_blob public_result" where
  "sealed_blob_from_payload X payload =
     and_then (sealed_payload_to_bytes X payload) (\<lambda>b.
     Ok \<lparr> sb_bytes = b, sb_base64 = b64_nopad_enc X b \<rparr>)"

definition encrypt_sealed_payload ::
  "'x client_ext_scheme \<Rightarrow> 'a codec \<Rightarrow> 'a \<Rightarrow> symmetric_key \<Rightarrow> bytes \<Rightarrow> bytes \<Rightarrow> string \<Rightarrow>
     sealed_blob public_result" where
  "encrypt_sealed_payload X c value key nonce context error_context =
     and_then (serialize_to_cbor c value) (\<lambda>plaintext.
     and_then (key_ring_strong_box X (key_ring_new key)) (\<lambda>sb.
     and_then (map_err (\<lambda>e. Crypto (error_context @ '': '' @ error_display e))
                 (static_encrypt X sb nonce plaintext context)) (\<lambda>ciphertext.
     sealed_blob_from_payload X (sealed_payload_new ciphertext))))"

section \<open>Task, comment and list payloads\<close>

definition decrypt_work_list_payload ::
  "'x client_ext_scheme \<Rightarrow> 'a codec \<Rightarrow> symmetric_key \<Rightarrow> bytes \<Rightarrow> 'a public_result" where
  "decrypt_work_list_payload X c list_key payload =
     decrypt_sealed_payload X c list_key payload WORK_LIST_PAYLOAD_CONTEXT ''failed to decrypt payload''"

definition decrypt_task_payload ::
  "'x client_ext_scheme \<Rightarrow> symmetric_key \<Rightarrow> bytes \<Rightarrow> task_envelope public_result" where
  "decrypt_task_payload X list_key payload =
     decrypt_sealed_payload X (task_codec X) list_key payload TASK_PAYLOAD_CONTEXT
       ''failed to decrypt task payload''"

definition decrypt_comment_payload ::
  "'x client_ext_scheme \<Rightarrow> symmetric_key \<Rightarrow> bytes \<Rightarrow> comment_envelope public_result" where
  "decrypt_comment_payload X list_key payload =
     decrypt_sealed_payload X (comment_codec X) list_key payload COMMENT_PAYLOAD_CONTEXT
       ''failed to decrypt comment payload''"

definition encrypt_task_payload ::
  "'x client_ext_scheme \<Rightarrow> task_envelope \<Rightarrow> symmetric_key \<Rightarrow> bytes \<Rightarrow> sealed_blob public_result" where
  "encrypt_task_payload X envelope list_key nonce =
     encrypt_sealed_payload X (task_codec X) envelope list_key nonce TASK_PAYLOAD_CONTEXT
       ''failed to seal task payload''"

definition encrypt_comment_payload ::
  "'x client_ext_scheme \<Rightarrow> comment_envelope \<Rightarrow> symmetric_key \<Rightarrow> bytes \<Rightarrow> sealed_blob public_result" where
  "encrypt_comment_payload X envelope list_key nonce =
     encrypt_sealed_payload X (comment_codec X) envelope list_key nonce COMMENT_PAYLOAD_CONTEXT
       ''failed to seal comment payload''"

definition build_task_payload_envelope :: "task_body \<Rightarrow> u8 \<Rightarrow> task_envelope" where
  "build_task_payload_envelope body version = \<lparr> te_kind = ''task'', te_version = version, te_body = body \<rparr>"

definition build_comment_payload_envelope :: "comment_body \<Rightarrow> u8 \<Rightarrow> comment_envelope" where
  "build_comment_payload_envelope body version =
     \<lparr> ce_kind = ''comment'', ce_version = version, ce_body = body \<rparr>"

definition plaintext_rich_text :: "string \<Rightarrow> rich_text option" where
  "plaintext_rich_text markdown =
     (let trimmed = trim markdown in
      if trimmed = [] then None
      else Some \<lparr> rt_format = ''markdown'', rt_version = 1,
        rt_blocks = [\<lparr> rb_block_type = ''paragraph'', rb_text = trimmed \<rparr>] \<rparr>)"

definition compute_payload_proof ::
  "'x client_ext_scheme \<Rightarrow> bytes \<Rightarrow> symmetric_key \<Rightarrow> string public_result" where
  "compute_payload_proof X ciphertext binding_key =
     and_then (map_err (\<lambda>e. Crypto (''failed to create HMAC: '' @ e))
                 (hmac_sha256 X (sym_bytes binding_key) ciphertext)) (\<lambda>tag.
     Ok (b64_nopad_enc X tag))"

datatype crypto_capability = DataKeyUnwrap | WorkListKeyDecrypt | PayloadSeal | PayloadProof

fun capability_as_str :: "crypto_capability \<Rightarrow> string" where
  "capability_as_str DataKeyUnwrap = ''data_key_unwrap''"
| "capability_as_str WorkListKeyDecrypt = ''work_list_key_decrypt''"
| "capability_as_str PayloadSeal = ''payload_seal''"
| "capability_as_str PayloadProof = ''payload_proof''"

section \<open>Text fields\<close>

datatype text_context = WorkListTitle | WorkListDescription | TaskTitle | NoteTitle

fun text_context_bytes :: "text_context \<Rightarrow> bytes" where
  "text_context_bytes WorkListTitle = str_bytes ''worklist.work_list.title.v1''"
| "text_context_bytes WorkListDescription = str_bytes ''worklist.work_list.description.v1''"
| "text_context_bytes TaskTitle = str_bytes ''worklist.task.title.v1''"
| "text_context_bytes NoteTitle = str_bytes ''worklist.note.title.v1''"

definition entity_bound_context :: "'x client_ext_scheme \<Rightarrow> bytes \<Rightarrow> uuid \<Rightarrow> bytes" where
  "entity_bound_context X base entity_id = base @ str_bytes '':'' @ str_bytes (uuid_display X entity_id)"

definition for_entity :: "'x client_ext_scheme \<Rightarrow> text_context \<Rightarrow> uuid \<Rightarrow> bytes" where
  "for_entity X c entity_id = entity_bound_context X (text_context_bytes c) entity_id"

definition decrypt_text_value_with_context ::
  "'x client_ext_scheme \<Rightarrow> symmetric_key \<Rightarrow> bytes \<Rightarrow> bytes \<Rightarrow> string public_result" where
  "decrypt_text_value_with_context X list_key payload context =
     and_then (decrypt_sealed_payload X (text_value_codec X) list_key payload context
                 ''failed to decrypt text value'') (\<lambda>p. Ok (tv_value p))"

definition decrypt_text_value ::
  "'x client_ext_scheme \<Rightarrow> symmetric_key \<Rightarrow> bytes \<Rightarrow> text_context \<Rightarrow> string public_result" where
  "decrypt_text_value X list_key payload context =
     decrypt_text_value_with_context X list_key payload (text_context_bytes context)"

definition decrypt_text_value_for_entity ::
  "'x client_ext_scheme \<Rightarrow> symmetric_key \<Rightarrow> bytes \<Rightarrow> text_context \<Rightarrow> uuid \<Rightarrow> string public_result" where
  "decrypt_text_value_for_entity X list_key payload context entity_id =
     or_else (decrypt_text_value_with_context X list_key payload (for_entity X context entity_id))
       (\<lambda>_. decrypt_text_value X list_key payload context)"

definition seal_text_value_with_context ::
  "'x client_ext_scheme \<Rightarrow> string \<Rightarrow> symmetric_key \<Rightarrow> bytes \<Rightarrow> bytes \<Rightarrow> sealed_blob public_result" where
  "seal_text_value_with_context X value list_key nonce context =
     encrypt_sealed_payload X (text_value_codec X) \<lparr> tv_value = value \<rparr> list_key nonce context
       ''failed to seal text value''"

definition seal_text_value ::
  "'x client_ext_scheme \<Rightarrow> string \<Rightarrow> symmetric_key \<Rightarrow> bytes \<Rightarrow> text_context \<Rightarrow> sealed_blob public_result" where
  "seal_text_value X value list_key nonce context =
     seal_text_value_with_context X value list_key nonce (text_context_bytes context)"

definition seal_text_value_for_entity ::
  "'x client_ext_scheme \<Rightarrow> string \<Rightarrow> symmetric_key \<Rightarrow> bytes \<Rightarrow> text_context \<Rightarrow> uuid \<Rightarrow>
     sealed_blob public_result" where
  "seal_text_value_for_entity X value list_key nonce context entity_id =
     seal_text_value_with_context X value list_key nonce (for_entity X context entity_id)"

section \<open>The public text functions\<close>

definition decrypt_work_list_title :: "'x client_ext_scheme \<Rightarrow> symmetric_key \<Rightarrow> bytes \<Rightarrow> string public_result" where
  "decrypt_work_list_title X list_key payload = decrypt_text_value X list_key payload WorkListTitle"

definition decrypt_work_list_title_for_id ::
  "'x client_ext_scheme \<Rightarrow> symmetric_key \<Rightarrow> bytes \<Rightarrow> uuid \<Rightarrow> string public_result" where
  "decrypt_work_list_title_for_id X list_key payload entity_id =
     decrypt_text_value_for_entity X list_key payload WorkListTitle entity_id"

definition seal_work_list_title ::
  "'x client_ext_scheme \<Rightarrow> string \<Rightarrow> symmetric_key \<Rightarrow> bytes \<Rightarrow> sealed_blob public_result" where
  "seal_work_list_title X value list_key nonce = seal_text_value X value list_key nonce WorkListTitle"

definition seal_work_list_title_for_id ::
  "'x client_ext_scheme \<Rightarrow> string \<Rightarrow> symmetric_key \<Rightarrow> bytes \<Rightarrow> uuid \<Rightarrow> sealed_blob public_result" where
  "seal_work_list_title_for_id X value list_key nonce entity_id =
     seal_text_value_for_entity X value list_key nonce WorkListTitle entity_id"

definition decrypt_work_list_description :: "'x client_ext_scheme \<Rightarrow> symmetric_key \<Rightarrow> bytes \<Rightarrow> string public_result" where
  "decrypt_work_list_description X list_key payload = decrypt_text_value X list_key payload WorkListDescription"

definition decrypt_work_list_description_for_id ::
  "'x client_ext_scheme \<Rightarrow> symmetric_key \<Rightarrow> bytes \<Rightarrow> uuid \<Rightarrow> string public_result" where
  "decrypt_work_list_description_for_id X list_key payload entity_id =
     decrypt_text_value_for_entity X list_key payload WorkListDescription entity_id"

definition seal_work_list_description ::
  "'x client_ext_scheme \<Rightarrow> string \<Rightarrow> symmetric_key \<Rightarrow> bytes \<Rightarrow> sealed_blob public_result" where
  "seal_work_list_description X value list_key nonce = seal_text_value X value list_key nonce WorkListDescription"

definition seal_work_list_description_for_id ::
  "'x client_ext_scheme \<Rightarrow> string \<Rightarrow> symmetric_key \<Rightarrow> bytes \<Rightarrow> uuid \<Rightarrow> sealed_blob public_result" where
  "seal_work_list_description_for_id X value list_key nonce entity_id =
     seal_text_value_for_entity X value list_key nonce WorkListDescription entity_id"

definition decrypt_task_title :: "'x client_ext_scheme \<Rightarrow> symmetric_key \<Rightarrow> bytes \<Rightarrow> string public_result" where
  "decrypt_task_title X list_key payload = decrypt_text_value X list_key payload TaskTitle"

definition decrypt_task_title_for_id ::
  "'x client_ext_scheme \<Rightarrow> symmetric_key \<Rightarrow> bytes \<Rightarrow> uuid \<Rightarrow> string public_result" where
  "decrypt_task_title_for_id X list_key payload entity_id =
     decrypt_text_value_for_entity X list_key payload TaskTitle entity_id"

definition seal_task_title ::
  "'x client_ext_scheme \<Rightarrow> string \<Rightarrow> symmetric_key \<Rightarrow> bytes \<Rightarrow> sealed_blob public_result" where
  "seal_task_title X value list_key nonce = seal_text_value X value list_key nonce TaskTitle"

definition seal_task_title_for_id ::
  "'x client_ext_scheme \<Rightarrow> string \<Rightarrow> symmetric_key \<Rightarrow> bytes \<Rightarrow> uuid \<Rightarrow> sealed_blob public_result" where
  "seal_task_title_for_id X value list_key nonce entity_id =
     seal_text_value_for_entity X value list_key nonce TaskTitle entity_id"

definition decrypt_note_title :: "'x client_ext_scheme \<Rightarrow> symmetric_key \<Rightarrow> bytes \<Rightarrow> string public_result" where
  "decrypt_note_title X list_key payload = decrypt_text_value X list_key payload NoteTitle"

definition decrypt_note_title_for_id ::
  "'x client_ext_scheme \<Rightarrow> symmetric_key \<Rightarrow> bytes \<Rightarrow> uuid \<Rightarrow> string public_result" where
  "decrypt_note_title_for_id X list_key payload entity_id =
     decrypt_text_value_for_entity X list_key payload NoteTitle entity_id"

definition seal_note_title ::
  "'x client_ext_scheme \<Rightarrow> string \<Rightarrow> symmetric_key \<Rightarrow> bytes \<Rightarrow> sealed_blob public_result" where
  "seal_note_title X value list_key nonce = seal_text_value X value list_key nonce NoteTitle"

definition seal_note_title_for_id ::
  "'x client_ext_scheme \<Rightarrow> string \<Rightarrow> symmetric_key \<Rightarrow> bytes \<Rightarrow> uuid \<Rightarrow> sealed_blob public_result" where
  "seal_note_title_for_id X value list_key nonce entity_id =
     seal_text_value_for_entity X value list_key nonce NoteTitle entity_id"

end
