(* ===== verification/Crypto_Json.thy ===== *)
theory Crypto_Json
  imports Crypto_Seal "HOL-Library.Char_ord"
begin

text \<open>\<open>crates/client-crypto/src/cbor.rs\<close>: the conversions between CBOR and JSON values.\<close>

section \<open>JSON objects\<close>

text \<open>\<open>BTreeMap::insert\<close> on the entries in key order.\<close>
fun obj_insert :: "string \<Rightarrow> json \<Rightarrow> (string \<times> json) list \<Rightarrow> (string \<times> json) list" where
  "obj_insert k v [] = [(k, v)]"
| "obj_insert k v ((k', v') # es) =
     (if k < k' then (k, v) # (k', v') # es
      else if k = k' then (k, v) # es
      else (k', v') # obj_insert k v es)"

definition obj_collect :: "(string \<times> json) list \<Rightarrow> (string \<times> json) list" where
  "obj_collect es = fold (\<lambda>(k, v). obj_insert k v) es []"

definition obj_get :: "(string \<times> json) list \<Rightarrow> string \<Rightarrow> json option" where
  "obj_get es k = map_of es k"

lemma obj_insert_last:
  "sorted_wrt (<) (map fst es) \<Longrightarrow> \<forall>e\<in>set es. fst e < k \<Longrightarrow> obj_insert k v es = es @ [(k, v)]"
  by (induction es) (auto dest: less_asym)

lemma obj_collect_sorted:
  assumes "sorted_wrt (<) (map fst es)" shows "obj_collect es = es"
proof -
  have "fold (\<lambda>(k, v). obj_insert k v) es acc = acc @ es" if "sorted_wrt (<) (map fst (acc @ es))" for acc
    using that
  proof (induction es arbitrary: acc)
    case (Cons e es)
    obtain k v where e: "e = (k, v)" by (cases e)
    have "obj_insert k v acc = acc @ [(k, v)]"
      using Cons.prems e by (intro obj_insert_last) (auto simp: sorted_wrt_append)
    then show ?case using Cons.IH [of "acc @ [(k, v)]"] Cons.prems e by simp
  qed simp
  then show ?thesis using assms by (simp add: obj_collect_def)
qed

lemma obj_insert_keys: "set (map fst (obj_insert k v es)) = insert k (set (map fst es))"
  by (induction k v es rule: obj_insert.induct) auto

lemma obj_insert_sorted:
  "sorted_wrt (<) (map fst es) \<Longrightarrow> sorted_wrt (<) (map fst (obj_insert k v es))"
proof (induction k v es rule: obj_insert.induct)
  case (2 k v k' v' es)
  then show ?case using obj_insert_keys [of k v es] by (auto intro: less_trans)
qed simp

lemma obj_get_insert: "obj_get (obj_insert k v es) x = (if x = k then Some v else obj_get es x)"
  if "sorted_wrt (<) (map fst es)"
  using that
proof (induction k v es rule: obj_insert.induct)
  case (2 k v k' v' es)
  then show ?case by (auto simp: obj_get_def)
qed (simp add: obj_get_def)

section \<open>Conversions\<close>

definition json_of_int :: "int \<Rightarrow> json" where
  "json_of_int i = (if 0 \<le> i then JPos (nat i) else JNeg i)"

definition integer_to_json_value :: "int \<Rightarrow> json" where
  "integer_to_json_value i =
     (if - (2 ^ 63) \<le> i \<and> i < 2 ^ 63 then json_of_int i
      else if 0 \<le> i \<and> i < 2 ^ 64 then json_of_int i
      else JString (show_int i))"

lemma size_map_entry:
  assumes "(k, v) \<in> set es"
  shows "size k < Suc (size_list (size_prod size size) es)" "size v < Suc (size_list (size_prod size size) es)"
  using size_list_estimation' [OF assms, of "size k" "size_prod size size"]
    size_list_estimation' [OF assms, of "size v" "size_prod size size"] by simp_all

function flexible_value_to_json :: "'x client_ext_scheme \<Rightarrow> flexible \<Rightarrow> json" where
  "flexible_value_to_json X (FInteger i) = integer_to_json_value i"
| "flexible_value_to_json X (FBytes b) = JArray (map (\<lambda>w. JPos (unat w)) b)"
| "flexible_value_to_json X (FFloat f) = (if f64_finite f then JFloat f else JString (f64_show_special f))"
| "flexible_value_to_json X (FText t) = JString t"
| "flexible_value_to_json X (FBool b) = JBool b"
| "flexible_value_to_json X FNull = JNull"
| "flexible_value_to_json X (FTag t v) =
     JObject [(''tag'', JPos t), (''value'', flexible_value_to_json X v)]"
| "flexible_value_to_json X (FArray vs) = JArray (map (flexible_value_to_json X) vs)"
| "flexible_value_to_json X (FMap es) =
     JObject (obj_collect (map (\<lambda>(k, v).
       (case k of FText t \<Rightarrow> t | _ \<Rightarrow> json_display X (flexible_value_to_json X k),
        flexible_value_to_json X v)) es))"
  by pat_completeness auto
termination
  by (relation "measure (\<lambda>(X, v). size v)")
    (auto simp: size_map_entry less_Suc_eq_le size_list_estimation' dest: size_map_entry)

fun json_value_to_flexible :: "json \<Rightarrow> flexible" where
  "json_value_to_flexible JNull = FNull"
| "json_value_to_flexible (JBool b) = FBool b"
| "json_value_to_flexible (JPos n) = FInteger (int n)"
| "json_value_to_flexible (JNeg i) = FInteger i"
| "json_value_to_flexible (JFloat f) = FFloat f"
| "json_value_to_flexible (JString s) = FText s"
| "json_value_to_flexible (JArray vs) = FArray (map json_value_to_flexible vs)"
| "json_value_to_flexible (JObject es) = FMap (map (\<lambda>(k, v). (FText k, json_value_to_flexible v)) es)"

text \<open>The values \<open>serde_json\<close> can hold: numbers in the range of their kind, no infinite or undefined
  float, and the entries of an object in strictly increasing key order.\<close>
fun json_wf :: "json \<Rightarrow> bool" where
  "json_wf (JPos n) = (n < 2 ^ 64)"
| "json_wf (JNeg i) = (- (2 ^ 63) \<le> i \<and> i < 0)"
| "json_wf (JFloat f) = f64_finite f"
| "json_wf (JArray vs) = list_all json_wf vs"
| "json_wf (JObject es) = (sorted_wrt (<) (map fst es) \<and> list_all (\<lambda>(k, v). json_wf v) es)"
| "json_wf _ = True"

text \<open>a JSON value survives the way through CBOR: what \<open>json_value_to_flexible\<close> makes of it,
  \<open>flexible_value_to_json\<close> turns back into the same value, at every depth, for numbers over the
  whole \<open>i64\<close> and \<open>u64\<close> ranges.\<close>
theorem json_flexible_round_trip:
  assumes "json_wf j"
  shows "flexible_value_to_json X (json_value_to_flexible j) = j"
  using assms
proof (induction j rule: json_value_to_flexible.induct)
  case (7 vs)
  then show ?case by (auto simp: list_all_iff map_idI)
next
  case (8 es)
  have "map (\<lambda>e. (fst e, flexible_value_to_json X (json_value_to_flexible (snd e)))) es = es"
    using 8 by (intro map_idI) (auto simp: list_all_iff)
  then show ?case using 8(2) by (simp add: obj_collect_sorted comp_def case_prod_beta)
qed (auto simp: integer_to_json_value_def json_of_int_def)

theorem json_flexible_round_trip_witness:
  "\<forall>X. flexible_value_to_json X (json_value_to_flexible
     (JObject [(''a'', JPos (2 ^ 64 - 1)), (''b'', JArray [JNeg (- 5), JNull])])) =
   JObject [(''a'', JPos (2 ^ 64 - 1)), (''b'', JArray [JNeg (- 5), JNull])]"
  by (intro allI json_flexible_round_trip) simp

lemma obj_collect_invariant: "sorted_wrt (<) (map fst (obj_collect es))"
proof -
  have "sorted_wrt (<) (map fst acc) \<Longrightarrow> sorted_wrt (<) (map fst (fold (\<lambda>(k, v). obj_insert k v) es acc))" for acc
    by (induction es arbitrary: acc) (auto simp: obj_insert_sorted)
  then show ?thesis by (simp add: obj_collect_def)
qed

end
