(* ===== verification/Client_Instance.thy ===== *)
theory Client_Instance
  imports Client_Core
begin

text \<open>The concrete instance of the third-party code of the client crates: \<open>demo\<close> extended by a
  hexadecimal stand-in for base64, a stand-in for HMAC and Argon2, and encoders that read back the
  values the witnesses use.\<close>

definition unhex_digit :: "char \<Rightarrow> nat" where
  "unhex_digit c = (let n = of_char c :: nat in if n < 97 then n - 48 else n - 87)"

fun unhex :: "string \<Rightarrow> (bytes, string) rust_result" where
  "unhex [] = Ok []"
| "unhex [c] = Err ''odd length''"
| "unhex (c # d # s) = map_ok (\<lambda>b. of_nat (16 * unhex_digit c + unhex_digit d) # b) (unhex s)"

lemma unhex_hex_digit: "n < 16 \<Longrightarrow> unhex_digit (hex_digit n) = n"
proof -
  assume "n < 16"
  then have "n \<in> set [0..<16]" by simp
  then show ?thesis unfolding set_upt
    by (auto simp: hex_digit_def unhex_digit_def eval_nat_numeral less_Suc_eq)
qed

lemma hex_digit_alphabet: "n < 16 \<Longrightarrow> hex_digit n \<in> set base64_alphabet"
  by (auto simp: hex_digit_def base64_alphabet_def eval_nat_numeral less_Suc_eq)

lemma unhex_hex_bytes: "unhex (hex_bytes b) = Ok b"
proof (induction b)
  case (Cons x b)
  have lt: "unat x < 256" using unsigned_less [of x, where 'a = nat] by simp
  then have "unat x div 16 < 16" by simp
  then have "16 * unhex_digit (hex_digit (unat x div 16)) + unhex_digit (hex_digit (unat x mod 16)) = unat x"
    by (simp add: unhex_hex_digit)
  then show ?case using Cons by (simp add: hex_bytes_def hex_byte_def del: of_nat_add of_nat_mult)
qed (simp add: hex_bytes_def)

lemma hex_bytes_alphabet: "set (hex_bytes b) \<subseteq> set base64_alphabet"
proof (induction b)
  case (Cons x b)
  have "unat x < 256" using unsigned_less [of x, where 'a = nat] by simp
  then have "set (hex_byte x) \<subseteq> set base64_alphabet"
    using hex_digit_alphabet [of "unat x div 16"] hex_digit_alphabet [of "unat x mod 16"]
    by (simp add: hex_byte_def)
  then show ?case using Cons by (simp add: hex_bytes_def)
qed (simp add: hex_bytes_def)

definition bytes_codec :: "('a \<Rightarrow> bytes) \<Rightarrow> (bytes \<Rightarrow> 'a) \<Rightarrow> 'a codec" where
  "bytes_codec f g = \<lparr>
     enc = (\<lambda>v. Ok (demo_header (HBytes (Some (length (f v)))) @ f v)),
     dec = (\<lambda>b. case demo_pull b of
        Ok (HBytes (Some n), r) \<Rightarrow> if length r < n then Err ''eof'' else Ok (g (take n r), n + 1 + n)
      | _ \<Rightarrow> Err ''expected bytes'') \<rparr>"

lemma bytes_codec_reads: "g (f v) = v \<Longrightarrow> codec_reads (bytes_codec f g) v"
  by (simp add: codec_reads_def bytes_codec_def demo_pull_bytes)
    (simp add: demo_header_def)

text \<open>An encoder that reads one value back.\<close>
definition one_codec :: "'a \<Rightarrow> 'a codec" where
  "one_codec v = \<lparr> enc = (\<lambda>_. Ok [0xf6]), dec = (\<lambda>b. case b of [] \<Rightarrow> Err ''eof'' | _ \<Rightarrow> Ok (v, 1)) \<rparr>"

lemma one_codec_reads: "codec_reads (one_codec v) v"
  by (simp add: codec_reads_def one_codec_def)

definition demo_envelope :: hpke_envelope where
  "demo_envelope = \<lparr> he_version = 1, he_suite = \<lparr> suite_kem = 0x20, suite_kdf = 1, suite_aead = 3, suite_mode = 0 \<rparr>,
     he_enc = [], he_ciphertext = [] \<rparr>"

definition demo_task :: task_envelope where
  "demo_task = \<lparr> te_kind = ''task'', te_version = 1, te_body = \<lparr> tb_title = ''T'', tb_rich_text = None,
     tb_checklist = None, tb_attachments = None, tb_references = None, tb_mentions = None,
     tb_client_meta = None, tb_recurrence_state = None \<rparr> \<rparr>"

definition demo_comment :: comment_envelope where
  "demo_comment = \<lparr> ce_kind = ''comment'', ce_version = 1, ce_body = \<lparr> cb_content =
     \<lparr> rt_format = ''markdown'', rt_version = 1, rt_blocks = [] \<rparr>, cb_mentions = None,
     cb_attachments = None, cb_client_meta = None \<rparr> \<rparr>"

definition show_uuid :: "uuid \<Rightarrow> string" where
  "show_uuid u = hex_bytes u @ ''----''"

text \<open>The instance reads the task \<open>t\<close> and the HPKE envelope \<open>e\<close>.\<close>
definition client_with :: "task_envelope \<Rightarrow> hpke_envelope \<Rightarrow> client_ext" where
  "client_with t e = ext.extend demo \<lparr>
     b64_nopad_enc = hex_bytes, b64_nopad_dec = unhex, b64_std_dec = unhex,
     b64_url_nopad_dec = unhex, b64_url_dec = unhex,
     hmac_sha256 = (\<lambda>k m. Ok (map2 (+) (pad_to 32 k) (pad_to 32 (rev m)))),
     hkdf_error = ''invalid length'', hkdf_prk_error = ''invalid pseudorandom key length'',
     argon2id = (\<lambda>p s. Ok (pad_to 32 (p @ s))),
     uuid_display = show_uuid, json_display = (\<lambda>_. ''json''),
     sealed_payload_codec = bytes_codec (\<lambda>p. sp_version p # sp_ciphertext p)
       (\<lambda>b. \<lparr> sp_version = hd b, sp_ciphertext = tl b \<rparr>),
     text_value_codec = bytes_codec (\<lambda>p. str_bytes (tv_value p)) (\<lambda>b. \<lparr> tv_value = bytes_str b \<rparr>),
     task_codec = one_codec t, comment_codec = one_codec demo_comment,
     flexible_codec = one_codec FNull, hpke_codec = one_codec e,
     key_envelope_codec = one_codec \<lparr> wk_key = KeyBytes (replicate 32 6) \<rparr>,
     raw_bytes_codec = bytes_codec id id \<rparr>"

definition demo_client :: client_ext where
  "demo_client = client_with demo_task demo_envelope"

lemma client_with_base [simp]:
  "aead_encrypt (client_with t e) = demo_aead" "aead_decrypt (client_with t e) = demo_open"
  "hkdf_prk_ok (client_with t e) = (\<lambda>k. 32 \<le> length k)" "hkdf_expand (client_with t e) = demo_expand"
  "hkdf_extract (client_with t e) = hkdf_extract demo"
  "x25519_public (client_with t e) = pad_to 32" "x25519_dh (client_with t e) = demo_dh"
  "was_contributory (client_with t e) = (\<lambda>s. s \<noteq> replicate 32 0)"
  "cbor_push (client_with t e) = cbor_push demo" "cbor_bytes (client_with t e) = cbor_bytes demo"
  "cbor_pull (client_with t e) = demo_pull" "segments_pull (client_with t e) = segments_pull demo"
  "segment_pull (client_with t e) = demo_segment"
  by (simp_all add: client_with_def ext.defs demo_def)

lemma client_with_fields [simp]:
  "b64_nopad_enc (client_with t e) = hex_bytes" "b64_nopad_dec (client_with t e) = unhex"
  "b64_std_dec (client_with t e) = unhex"
  "hmac_sha256 (client_with t e) = (\<lambda>k m. Ok (map2 (+) (pad_to 32 k) (pad_to 32 (rev m))))"
  "argon2id (client_with t e) = (\<lambda>p s. Ok (pad_to 32 (p @ s)))"
  "uuid_display (client_with t e) = show_uuid"
  "task_codec (client_with t e) = one_codec t" "hpke_codec (client_with t e) = one_codec e"
  "key_envelope_codec (client_with t e) = one_codec \<lparr> wk_key = KeyBytes (replicate 32 6) \<rparr>"
  by (simp_all add: client_with_def ext.defs)

lemma client_with_laws [simp]:
  "aead_laws (client_with t e)" "hkdf_laws (client_with t e)" "dh_laws (client_with t e)"
  "cbor_laws (client_with t e)" "cbor_robust (client_with t e)"
  subgoal using demo_aead_laws unfolding aead_laws_def client_with_base demo_simps .
  subgoal using demo_hkdf_laws unfolding hkdf_laws_def client_with_base demo_simps .
  subgoal using demo_dh_laws unfolding dh_laws_def client_with_base demo_simps .
  subgoal using demo_cbor_laws unfolding cbor_laws_def client_with_base demo_simps .
  subgoal using demo_cbor_robust unfolding cbor_robust_def client_with_base demo_simps .
  done

lemma client_with_codecs [simp]:
  "codec_reads (sealed_payload_codec (client_with t e)) p"
  "codec_reads (text_value_codec (client_with t e)) v"
  "codec_reads (raw_bytes_codec (client_with t e)) b"
  by (simp_all add: client_with_def ext.defs bytes_codec_reads)

lemma client_with_client_laws [simp]:
  "b64_laws (client_with t e)" "uuid_laws (client_with t e)" "hmac_laws (client_with t e)"
proof -
  have len: "length (hex_bytes b) = 2 * length b" for b
    by (induction b) (simp_all add: hex_bytes_def hex_byte_def)
  show "b64_laws (client_with t e)"
    using len hex_bytes_alphabet by (auto simp: b64_laws_def unhex_hex_bytes) (metis length_greater_0_conv list.size(3) mult_is_0 zero_neq_numeral)
  show "uuid_laws (client_with t e)" by (auto simp: uuid_laws_def show_uuid_def len)
  show "hmac_laws (client_with t e)" by (simp add: hmac_laws_def)
qed

end
