(* ===== verification/Crypto_Seal_Thms.thy ===== *)
theory Crypto_Seal_Thms
  imports Crypto_Seal Client_Instance
begin

text \<open>What sealing and opening payloads guarantees: round trips, the separation of contexts, and the
  binding of text fields to their entity.\<close>

section \<open>The key ring\<close>

definition box_laws :: "'x ext_scheme \<Rightarrow> bool" where
  "box_laws X \<longleftrightarrow> aead_laws X \<and> cbor_laws X \<and> hkdf_laws X"

lemma client_with_box_laws [simp]: "box_laws (client_with t e)"
  by (simp add: box_laws_def)

lemma key_ring_box [rust_simps]:
  "hkdf_laws X \<Longrightarrow> sym_wf k \<Longrightarrow>
     key_ring_strong_box X (key_ring_new k) = Ok (box_of_secret X (sym_bytes k))"
  by (simp add: key_ring_strong_box_def key_ring_new_def Let_def to_strong_box_key_def
      static_new_single key_wf_def sym_wf_def)

lemma ring_ready:
  "box_laws X \<Longrightarrow> length nonce = 12 \<Longrightarrow> static_ready (X, box_of_secret X s) nonce"
  by (simp add: box_laws_def static_ready_secret)

section \<open>Opening what was sealed\<close>

lemma ensure_payload_version_current [simp]: "ensure_payload_version SEALED_PAYLOAD_VERSION = Ok ()"
  by (simp add: ensure_payload_version_def)

text \<open>What a sealed blob consists of.\<close>
lemma encrypt_sealed_payload_parts:
  assumes "box_laws X" "sym_wf key" "encrypt_sealed_payload X c v key nonce ctx err = Ok blob"
  obtains plaintext ciphertext where "enc c v = Ok plaintext"
    "static_encrypt X (box_of_secret X (sym_bytes key)) nonce plaintext ctx = Ok ciphertext"
    "enc (sealed_payload_codec X) (sealed_payload_new ciphertext) = Ok (sb_bytes blob)"
    "sb_base64 blob = b64_nopad_enc X (sb_bytes blob)"
  using assms
  by (auto simp: encrypt_sealed_payload_def rust_simps box_laws_def serialize_to_cbor_def
      sealed_blob_from_payload_def sealed_payload_to_bytes_def)

lemma decrypt_sealed_bytes_eq:
  assumes "box_laws X" "sym_wf key" "enc (sealed_payload_codec X) (sealed_payload_new ct) = Ok w"
    and "codec_reads (sealed_payload_codec X) (sealed_payload_new ct)"
  shows "decrypt_sealed_bytes X key w ctx err =
    map_err (\<lambda>e. Crypto (err @ '': '' @ error_display e))
      (static_decrypt X (box_of_secret X (sym_bytes key)) ct ctx)"
  using assms codec_dec_enc(2) [OF assms(4,3)]
  by (simp add: decrypt_sealed_bytes_def sealed_payload_from_bytes_def deserialize_from_cbor_def
      rust_simps box_laws_def) (simp add: sealed_payload_new_def)

lemma sealed_round_trip:
  assumes "box_laws X" "sym_wf key" "length nonce = 12" "codec_reads c v"
    and "\<forall>p. codec_reads (sealed_payload_codec X) p"
    and "encrypt_sealed_payload X c v key nonce ctx err = Ok blob"
  shows "decrypt_sealed_payload X c key (sb_bytes blob) ctx err' = Ok v"
proof -
  obtain plaintext ct where parts: "enc c v = Ok plaintext"
    "static_encrypt X (box_of_secret X (sym_bytes key)) nonce plaintext ctx = Ok ct"
    "enc (sealed_payload_codec X) (sealed_payload_new ct) = Ok (sb_bytes blob)"
    by (rule encrypt_sealed_payload_parts [OF assms(1,2,6)])
  have "static_decrypt X (box_of_secret X (sym_bytes key)) ct ctx = Ok plaintext"
    using static_box.round_trip [OF ring_ready [OF assms(1,3)], of "sym_bytes key"] parts(2) by simp
  then show ?thesis
    using decrypt_sealed_bytes_eq [OF assms(1,2) parts(3)] assms(5) codec_dec_enc(2) [OF assms(4) parts(1)]
    by (simp add: decrypt_sealed_payload_def deserialize_from_cbor_def)
qed

text \<open>The event that the cipher opens the ciphertext inside a sealed blob under two contexts.\<close>
definition blob_forged :: "'x client_ext_scheme \<Rightarrow> symmetric_key \<Rightarrow> bytes \<Rightarrow> bytes \<Rightarrow> bytes \<Rightarrow> bool" where
  "blob_forged X key w ctx ctx' \<longleftrightarrow>
     (case sealed_payload_from_bytes X w of
        Ok p \<Rightarrow> static_forged (X, box_of_secret X (sym_bytes key)) (sp_ciphertext p) ctx ctx'
      | _ \<Rightarrow> False)"

lemma sealed_foreign_context:
  assumes "box_laws X" "sym_wf key" "length nonce = 12"
    and "\<forall>p. codec_reads (sealed_payload_codec X) p"
    and "encrypt_sealed_payload X c v key nonce ctx err = Ok blob"
    and "ctx' \<noteq> ctx" "\<not> blob_forged X key (sb_bytes blob) ctx ctx'"
  shows "decrypt_sealed_payload X c' key (sb_bytes blob) ctx' err' =
    Err (Crypto (err' @ '': failed to decrypt ciphertext''))"
proof -
  obtain plaintext ct where parts: "enc c v = Ok plaintext"
    "static_encrypt X (box_of_secret X (sym_bytes key)) nonce plaintext ctx = Ok ct"
    "enc (sealed_payload_codec X) (sealed_payload_new ct) = Ok (sb_bytes blob)"
    by (rule encrypt_sealed_payload_parts [OF assms(1,2,5)])
  have "sealed_payload_from_bytes X (sb_bytes blob) = Ok (sealed_payload_new ct)"
    using codec_dec_enc(2) [OF _ parts(3)] assms(4)
    by (simp add: sealed_payload_from_bytes_def deserialize_from_cbor_def)
  then have "\<not> static_forged (X, box_of_secret X (sym_bytes key)) ct ctx ctx'"
    using assms(7) by (simp add: blob_forged_def sealed_payload_new_def)
  then have "static_decrypt X (box_of_secret X (sym_bytes key)) ct ctx' = Err Decryption"
    using static_foreign_context [OF ring_ready [OF assms(1,3)] parts(2)] assms(6) by blast
  then show ?thesis
    using decrypt_sealed_bytes_eq [OF assms(1,2) parts(3)] assms(4)
    by (simp add: decrypt_sealed_payload_def)
qed

section \<open>Base64 text of a blob\<close>

lemma ws_not_alphabet:
  "w \<in> set ws_encodings \<Longrightarrow> w \<noteq> [] \<and> hd w \<notin> set base64_alphabet \<and> last w \<notin> set base64_alphabet"
proof -
  have "\<forall>w\<in>set ws_encodings. w \<noteq> [] \<and> hd w \<notin> set base64_alphabet \<and> last w \<notin> set base64_alphabet"
    by code_simp
  then show "w \<in> set ws_encodings \<Longrightarrow> w \<noteq> [] \<and> hd w \<notin> set base64_alphabet \<and> last w \<notin> set base64_alphabet"
    by blast
qed

lemma trim_front_stop:
  assumes "\<And>w. w \<in> set ws \<Longrightarrow> w \<noteq> [] \<Longrightarrow> s \<noteq> [] \<Longrightarrow> hd w \<noteq> hd s"
  shows "trim_front ws s = s"
proof -
  have "find (\<lambda>w. w \<noteq> [] \<and> starts_with s w) ws = None"
  proof (unfold find_None_iff, safe)
    fix w assume "w \<in> set ws" "w \<noteq> []" "starts_with s w"
    then obtain t where "s = w @ t" by (auto simp: starts_with_iff)
    then show False using assms [of w] \<open>w \<in> set ws\<close> \<open>w \<noteq> []\<close> by simp
  qed
  then show ?thesis by (simp add: trim_front.simps)
qed

lemma trim_base64: "set s \<subseteq> set base64_alphabet \<Longrightarrow> trim s = s"
proof -
  assume s: "set s \<subseteq> set base64_alphabet"
  have front: "trim_start s = s"
    unfolding trim_start_def
    by (rule trim_front_stop) (use s ws_not_alphabet hd_in_set in fastforce)
  have "trim_front (map rev ws_encodings) (rev s) = rev s"
  proof (rule trim_front_stop)
    fix w assume w: "w \<in> set (map rev ws_encodings)" "rev s \<noteq> []"
    then obtain v where "v \<in> set ws_encodings" "w = rev v" by auto
    then have "hd w \<notin> set base64_alphabet" using ws_not_alphabet [of v] by (simp add: hd_rev)
    moreover have "hd (rev s) \<in> set base64_alphabet" using s w(2) hd_in_set [of "rev s"] by auto
    ultimately show "hd w \<noteq> hd (rev s)" by auto
  qed
  then show "trim s = s" using front by (simp add: trim_def trim_end_def)
qed

lemma decode_base64_enc:
  "b64_laws X \<Longrightarrow> b \<noteq> [] \<Longrightarrow> decode_base64 X (b64_nopad_enc X b) = Ok b"
  by (simp add: decode_base64_def b64_laws_def trim_base64)

section \<open>Contexts\<close>

text \<open>Everything the client crates seal, by the context it is sealed under.\<close>
datatype sealing =
    SealDataKey | SealWorkList | SealMembership | SealTask | SealComment | SealAttachmentRef
  | SealAttachmentBlob | SealText text_context | SealTextFor text_context uuid

fun sealing_context :: "'x client_ext_scheme \<Rightarrow> sealing \<Rightarrow> bytes" where
  "sealing_context X SealDataKey = USER_DATA_KEY_CONTEXT"
| "sealing_context X SealWorkList = WORK_LIST_PAYLOAD_CONTEXT"
| "sealing_context X SealMembership = WORK_LIST_MEMBERSHIP_CONTEXT"
| "sealing_context X SealTask = TASK_PAYLOAD_CONTEXT"
| "sealing_context X SealComment = COMMENT_PAYLOAD_CONTEXT"
| "sealing_context X SealAttachmentRef = ATTACHMENT_REF_CONTEXT"
| "sealing_context X SealAttachmentBlob = str_bytes ATTACHMENT_BLOB_CONTEXT_LABEL"
| "sealing_context X (SealText c) = text_context_bytes c"
| "sealing_context X (SealTextFor c u) = for_entity X c u"

lemmas context_defs = USER_DATA_KEY_CONTEXT_def WORK_LIST_PAYLOAD_CONTEXT_def
  WORK_LIST_MEMBERSHIP_CONTEXT_def TASK_PAYLOAD_CONTEXT_def COMMENT_PAYLOAD_CONTEXT_def
  ATTACHMENT_REF_CONTEXT_def ATTACHMENT_BLOB_CONTEXT_LABEL_def

lemma text_context_bytes_inject [simp]: "text_context_bytes c = text_context_bytes c' \<longleftrightarrow> c = c'"
  by (cases c; cases c') (auto simp: str_bytes_def)

lemma length_for_entity:
  "uuid_laws X \<Longrightarrow> length u = 16 \<Longrightarrow> length (for_entity X c u) = length (text_context_bytes c) + 37"
  by (simp add: for_entity_def entity_bound_context_def uuid_laws_def)

lemma length_text_context: "22 \<le> length (text_context_bytes c)"
  by (cases c) simp_all

lemma for_entity_inject:
  assumes "uuid_laws X" "length u = 16" "length u' = 16"
  shows "for_entity X c u = for_entity X c' u' \<longleftrightarrow> c = c' \<and> u = u'"
proof
  assume eq: "for_entity X c u = for_entity X c' u'"
  have len: "length (uuid_display X u) = 36" "length (uuid_display X u') = 36"
    using assms by (auto simp: uuid_laws_def)
  have "(text_context_bytes c @ str_bytes '':'') @ str_bytes (uuid_display X u) =
      (text_context_bytes c' @ str_bytes '':'') @ str_bytes (uuid_display X u')"
    using eq by (simp add: for_entity_def entity_bound_context_def)
  then have "text_context_bytes c @ str_bytes '':'' = text_context_bytes c' @ str_bytes '':''"
    "str_bytes (uuid_display X u) = str_bytes (uuid_display X u')"
    using len append_suffix_inject [of "str_bytes (uuid_display X u)" "str_bytes (uuid_display X u')"]
    by auto
  then show "c = c' \<and> u = u'" using assms by (auto simp: uuid_laws_def)
qed simp

definition sealing_wf :: "sealing \<Rightarrow> bool" where
  "sealing_wf s \<longleftrightarrow> (case s of SealTextFor c u \<Rightarrow> length u = 16 | _ \<Rightarrow> True)"

lemma length_text_context_le: "length (text_context_bytes c) \<le> 33"
  by (cases c) simp_all

lemma sealing_context_short:
  "(\<forall>c u. s \<noteq> SealTextFor c u) \<Longrightarrow> length (sealing_context X s) < 59"
  by (cases s) (auto simp: context_defs intro: le_less_trans [OF length_text_context_le])

lemma sealing_context_plain:
  assumes "\<forall>c u. s \<noteq> SealTextFor c u" "\<forall>c u. s' \<noteq> SealTextFor c u"
  shows "sealing_context X s = sealing_context X s' \<longleftrightarrow> s = s'"
proof -
  have titles: "text_context_bytes c \<notin> {USER_DATA_KEY_CONTEXT, WORK_LIST_PAYLOAD_CONTEXT,
      WORK_LIST_MEMBERSHIP_CONTEXT, TASK_PAYLOAD_CONTEXT, COMMENT_PAYLOAD_CONTEXT,
      ATTACHMENT_REF_CONTEXT, str_bytes ATTACHMENT_BLOB_CONTEXT_LABEL}" for c
    by (cases c) (simp_all add: context_defs)
  have others: "distinct [USER_DATA_KEY_CONTEXT, WORK_LIST_PAYLOAD_CONTEXT,
      WORK_LIST_MEMBERSHIP_CONTEXT, TASK_PAYLOAD_CONTEXT, COMMENT_PAYLOAD_CONTEXT,
      ATTACHMENT_REF_CONTEXT, str_bytes ATTACHMENT_BLOB_CONTEXT_LABEL]"
    by (simp add: context_defs)
  show ?thesis using assms titles others by (cases s; cases s') (auto simp: eq_commute)
qed

text \<open>no two kinds of data the client seals share a context, so no ciphertext of one kind is
  accepted as another: the data key, lists, memberships, tasks, comments, attachment references and
  blobs, the four text fields, and each text field of each entity have contexts of their own.\<close>
theorem sealing_context_inject:
  assumes "uuid_laws X" "sealing_wf s" "sealing_wf s'"
  shows "sealing_context X s = sealing_context X s' \<longleftrightarrow> s = s'"
proof -
  have long: "59 \<le> length (sealing_context X s)" if "s = SealTextFor c u" "sealing_wf s" for s c u
    using that length_for_entity [OF assms(1), of u c] length_text_context [of c]
    by (simp add: sealing_wf_def)
  consider "\<forall>c u. s \<noteq> SealTextFor c u" "\<forall>c u. s' \<noteq> SealTextFor c u"
    | c u where "s = SealTextFor c u" "\<forall>c u. s' \<noteq> SealTextFor c u"
    | c u where "s' = SealTextFor c u" "\<forall>c u. s \<noteq> SealTextFor c u"
    | c u c' u' where "s = SealTextFor c u" "s' = SealTextFor c' u'" by blast
  then show ?thesis
  proof cases
    case 1
    then show ?thesis by (rule sealing_context_plain)
  next
    case 2
    then show ?thesis using long [OF 2(1) assms(2)] sealing_context_short [OF 2(2), of X] by auto
  next
    case 3
    then show ?thesis using long [OF 3(1) assms(3)] sealing_context_short [OF 3(2), of X] by auto
  next
    case 4
    then show ?thesis using assms by (simp add: for_entity_inject sealing_wf_def)
  qed
qed

theorem sealing_context_inject_witness:
  "sealing_context demo_client (SealTextFor TaskTitle (replicate 16 1)) =
     sealing_context demo_client (SealTextFor NoteTitle (replicate 16 1)) \<longleftrightarrow>
   SealTextFor TaskTitle (replicate 16 1) = SealTextFor NoteTitle (replicate 16 1)"
  by (rule sealing_context_inject) (simp_all add: demo_client_def sealing_wf_def)

section \<open>Text fields\<close>

lemma text_open:
  assumes "box_laws X" "sym_wf key" "length nonce = 12" "codec_reads (text_value_codec X) \<lparr> tv_value = value \<rparr>"
    and "\<forall>p. codec_reads (sealed_payload_codec X) p"
    and "seal_text_value_with_context X value key nonce ctx = Ok blob"
  shows "decrypt_text_value_with_context X key (sb_bytes blob) ctx = Ok value"
  using sealed_round_trip [OF assms(1-5)] assms(6)
  by (simp add: decrypt_text_value_with_context_def seal_text_value_with_context_def)

lemma text_foreign:
  assumes "box_laws X" "sym_wf key" "length nonce = 12" "\<forall>p. codec_reads (sealed_payload_codec X) p"
    and "seal_text_value_with_context X value key nonce ctx = Ok blob"
    and "ctx' \<noteq> ctx" "\<not> blob_forged X key (sb_bytes blob) ctx ctx'"
  shows "decrypt_text_value_with_context X key (sb_bytes blob) ctx' =
    Err (Crypto ''failed to decrypt text value: failed to decrypt ciphertext'')"
  using sealed_foreign_context [OF assms(1-4) assms(5) [unfolded seal_text_value_with_context_def]
      assms(6,7), where c' = "text_value_codec X"]
  by (simp add: decrypt_text_value_with_context_def)

text \<open>C7: a text field sealed for an entity is read back for the same field and entity, and its
  base64 form decodes to the same bytes; read for another entity or as another field it fails,
  unless the cipher opens it under both contexts, also through the fallback to the context without
  an entity.\<close>
theorem text_field_bound_to_entity:
  assumes "box_laws X" "uuid_laws X" "b64_laws X" "sym_wf key" "length nonce = 12"
    and "codec_reads (text_value_codec X) \<lparr> tv_value = value \<rparr>"
    and "\<forall>p. codec_reads (sealed_payload_codec X) p"
    and "length u = 16" "length u' = 16" "(c', u') \<noteq> (c, u)"
    and "seal_text_value_for_entity X value key nonce c u = Ok blob"
    and "\<not> blob_forged X key (sb_bytes blob) (for_entity X c u) (for_entity X c' u')"
    and "\<not> blob_forged X key (sb_bytes blob) (for_entity X c u) (text_context_bytes c')"
  shows "decrypt_text_value_for_entity X key (sb_bytes blob) c u = Ok value \<and>
    (sb_bytes blob \<noteq> [] \<longrightarrow> decode_sealed_blob X (sb_base64 blob) = Ok (sb_bytes blob)) \<and>
    decrypt_text_value_for_entity X key (sb_bytes blob) c' u' =
      Err (Crypto ''failed to decrypt text value: failed to decrypt ciphertext'')"
proof (intro conjI impI)
  have sealed: "seal_text_value_with_context X value key nonce (for_entity X c u) = Ok blob"
    using assms(11) by (simp add: seal_text_value_for_entity_def)
  show "decrypt_text_value_for_entity X key (sb_bytes blob) c u = Ok value"
    using text_open [OF assms(1,4-7) sealed] by (simp add: decrypt_text_value_for_entity_def)
  show "decode_sealed_blob X (sb_base64 blob) = Ok (sb_bytes blob)" if "sb_bytes blob \<noteq> []"
    using encrypt_sealed_payload_parts [OF assms(1,4)] sealed decode_base64_enc [OF assms(3) that]
    by (metis decode_sealed_blob_def seal_text_value_with_context_def)
  have "for_entity X c' u' \<noteq> for_entity X c u" using for_entity_inject [OF assms(2,9,8)] assms(10) by simp
  moreover have "text_context_bytes c' \<noteq> for_entity X c u"
    using length_for_entity [OF assms(2,8), of c] length_text_context [of c] length_text_context_le [of c']
    by auto
  ultimately show "decrypt_text_value_for_entity X key (sb_bytes blob) c' u' =
      Err (Crypto ''failed to decrypt text value: failed to decrypt ciphertext'')"
    using text_foreign [OF assms(1,4,5,7) sealed] assms(12,13)
    by (simp add: decrypt_text_value_for_entity_def decrypt_text_value_def)
qed

text \<open>a text field sealed before fields were bound to their entity is still read, for any
  entity: the first attempt fails and the fallback opens it.\<close>
theorem text_field_legacy_read:
  assumes "box_laws X" "uuid_laws X" "sym_wf key" "length nonce = 12" "length u = 16"
    and "codec_reads (text_value_codec X) \<lparr> tv_value = value \<rparr>"
    and "\<forall>p. codec_reads (sealed_payload_codec X) p"
    and "seal_text_value X value key nonce c = Ok blob"
    and "\<not> blob_forged X key (sb_bytes blob) (text_context_bytes c) (for_entity X c u)"
  shows "decrypt_text_value_for_entity X key (sb_bytes blob) c u = Ok value"
proof -
  have sealed: "seal_text_value_with_context X value key nonce (text_context_bytes c) = Ok blob"
    using assms(8) by (simp add: seal_text_value_def)
  have "for_entity X c u \<noteq> text_context_bytes c"
    using length_for_entity [OF assms(2,5), of c] by auto
  then show ?thesis
    using text_foreign [OF assms(1,3,4,7) sealed] assms(9) text_open [OF assms(1,3,4,6,7) sealed]
    by (simp add: decrypt_text_value_for_entity_def decrypt_text_value_def)
qed

text \<open>C8: a task payload, and a comment payload, sealed under a list key is opened again with that key by the
  operation for its kind, to the envelope that was built, with its kind, version and body; and neither operation
  opens a sealed payload of another version than the current one, which it names in its error.\<close>
theorem task_payload_round_trip:
  assumes "box_laws X" "sym_wf key" "length nonce = 12" "\<forall>p. codec_reads (sealed_payload_codec X) p"
    and "codec_reads (task_codec X) (build_task_payload_envelope body v)"
    and "encrypt_task_payload X (build_task_payload_envelope body v) key nonce = Ok blob"
    and "codec_reads (comment_codec X) (build_comment_payload_envelope remark v')"
    and "encrypt_comment_payload X (build_comment_payload_envelope remark v') key nonce = Ok blob'"
  shows "decrypt_task_payload X key (sb_bytes blob) = Ok \<lparr> te_kind = ''task'', te_version = v, te_body = body \<rparr> \<and>
    decrypt_comment_payload X key (sb_bytes blob') = Ok \<lparr> ce_kind = ''comment'', ce_version = v', ce_body = remark \<rparr> \<and>
    (\<forall>p b. sp_version p \<noteq> 1 \<longrightarrow> enc (sealed_payload_codec X) p = Ok b \<longrightarrow>
       decrypt_task_payload X key b =
         Err (Validation (''unsupported sealed payload version '' @ show_nat (unat (sp_version p)))) \<and>
       decrypt_comment_payload X key b =
         Err (Validation (''unsupported sealed payload version '' @ show_nat (unat (sp_version p)))))"
proof (intro conjI allI impI)
  show "decrypt_task_payload X key (sb_bytes blob) = Ok \<lparr> te_kind = ''task'', te_version = v, te_body = body \<rparr>"
    using sealed_round_trip [OF assms(1-3,5,4)] assms(6)
    by (simp add: decrypt_task_payload_def encrypt_task_payload_def build_task_payload_envelope_def)
  show "decrypt_comment_payload X key (sb_bytes blob') = Ok \<lparr> ce_kind = ''comment'', ce_version = v', ce_body = remark \<rparr>"
    using sealed_round_trip [OF assms(1-3,7,4)] assms(8)
    by (simp add: decrypt_comment_payload_def encrypt_comment_payload_def build_comment_payload_envelope_def)
  fix p b assume p: "sp_version p \<noteq> 1" "enc (sealed_payload_codec X) p = Ok b"
  show "decrypt_task_payload X key b =
      Err (Validation (''unsupported sealed payload version '' @ show_nat (unat (sp_version p))))"
    and "decrypt_comment_payload X key b =
      Err (Validation (''unsupported sealed payload version '' @ show_nat (unat (sp_version p))))"
    using codec_dec_enc(2) [OF _ p(2)] assms(4) p(1)
    by (simp_all add: decrypt_task_payload_def decrypt_comment_payload_def decrypt_sealed_payload_def
        decrypt_sealed_bytes_def sealed_payload_from_bytes_def deserialize_from_cbor_def ensure_payload_version_def
        SEALED_PAYLOAD_VERSION_def)
qed

section \<open>Witnesses\<close>

definition demo_list_key :: symmetric_key where
  "demo_list_key = SymmetricKey (replicate 32 1)"

definition demo_id :: "u8 \<Rightarrow> uuid" where
  "demo_id n = replicate 16 n"

definition demo_text_blob :: sealed_blob where
  "demo_text_blob = (case seal_text_value_for_entity demo_client ''hi'' demo_list_key (replicate 12 5) TaskTitle (demo_id 1)
     of Ok b \<Rightarrow> b | _ \<Rightarrow> \<lparr> sb_bytes = [], sb_base64 = [] \<rparr>)"

lemma sym_wf_demo [simp]: "sym_wf demo_list_key"
  by (simp add: demo_list_key_def sym_wf_def)

lemma demo_client_simps [simp]:
  "box_laws demo_client" "uuid_laws demo_client" "b64_laws demo_client" "hmac_laws demo_client"
  "codec_reads (sealed_payload_codec demo_client) p" "codec_reads (text_value_codec demo_client) v"
  by (simp_all add: demo_client_def)

lemma demo_text_blob: "seal_text_value_for_entity demo_client ''hi'' demo_list_key (replicate 12 5) TaskTitle (demo_id 1)
  = Ok demo_text_blob"
  by code_simp

lemma demo_not_forged_other:
  "\<not> blob_forged demo_client demo_list_key (sb_bytes demo_text_blob)
     (for_entity demo_client TaskTitle (demo_id 1)) (for_entity demo_client TaskTitle (demo_id 2))"
  by code_simp

lemma demo_not_forged_plain:
  "\<not> blob_forged demo_client demo_list_key (sb_bytes demo_text_blob)
     (for_entity demo_client TaskTitle (demo_id 1)) (text_context_bytes TaskTitle)"
  by code_simp

lemmas demo_not_forged = demo_not_forged_other demo_not_forged_plain

theorem text_field_bound_to_entity_witness:
  "decrypt_text_value_for_entity demo_client demo_list_key (sb_bytes demo_text_blob) TaskTitle (demo_id 1) = Ok ''hi'' \<and>
    (sb_bytes demo_text_blob = [] \<or>
      decode_sealed_blob demo_client (sb_base64 demo_text_blob) = Ok (sb_bytes demo_text_blob)) \<and>
    decrypt_text_value_for_entity demo_client demo_list_key (sb_bytes demo_text_blob) TaskTitle (demo_id 2) =
      Err (Crypto ''failed to decrypt text value: failed to decrypt ciphertext'')"
proof -
  have "(1 :: u8) \<noteq> 2" by simp
  then have "(TaskTitle, demo_id 2) \<noteq> (TaskTitle, demo_id 1)"
    by (simp add: demo_id_def replicate_eq_replicate)
  from text_field_bound_to_entity [OF _ _ _ _ _ _ _ _ _ this demo_text_blob demo_not_forged]
  show ?thesis by (auto simp: demo_id_def)
qed

definition demo_legacy_blob :: sealed_blob where
  "demo_legacy_blob = (case seal_text_value demo_client ''hi'' demo_list_key (replicate 12 5) NoteTitle
     of Ok b \<Rightarrow> b | _ \<Rightarrow> \<lparr> sb_bytes = [], sb_base64 = [] \<rparr>)"

theorem text_field_legacy_read_witness:
  "decrypt_text_value_for_entity demo_client demo_list_key (sb_bytes demo_legacy_blob) NoteTitle (demo_id 2) = Ok ''hi''"
proof (rule text_field_legacy_read)
  show "seal_text_value demo_client ''hi'' demo_list_key (replicate 12 5) NoteTitle = Ok demo_legacy_blob"
    by code_simp
  show "\<not> blob_forged demo_client demo_list_key (sb_bytes demo_legacy_blob)
      (text_context_bytes NoteTitle) (for_entity demo_client NoteTitle (demo_id 2))"
    by code_simp
qed (simp_all add: demo_id_def)

theorem task_payload_round_trip_witness:
  "\<exists>blob blob'. encrypt_task_payload demo_client (build_task_payload_envelope (te_body demo_task) 1)
      demo_list_key (replicate 12 5) = Ok blob \<and>
    decrypt_task_payload demo_client demo_list_key (sb_bytes blob) = Ok demo_task \<and>
    encrypt_comment_payload demo_client (build_comment_payload_envelope (ce_body demo_comment) 1)
      demo_list_key (replicate 12 5) = Ok blob' \<and>
    decrypt_comment_payload demo_client demo_list_key (sb_bytes blob') = Ok demo_comment"
proof -
  have demo: "build_task_payload_envelope (te_body demo_task) 1 = demo_task"
      "build_comment_payload_envelope (ce_body demo_comment) 1 = demo_comment"
    by (simp_all add: build_task_payload_envelope_def demo_task_def build_comment_payload_envelope_def demo_comment_def)
  have "case encrypt_task_payload demo_client demo_task demo_list_key (replicate 12 5) of
      Ok _ \<Rightarrow> True | _ \<Rightarrow> False"
    by code_simp
  then obtain blob where blob: "encrypt_task_payload demo_client
      (build_task_payload_envelope (te_body demo_task) 1) demo_list_key (replicate 12 5) = Ok blob"
    unfolding demo by (auto split: rust_result.splits)
  have "case encrypt_comment_payload demo_client demo_comment demo_list_key (replicate 12 5) of
      Ok _ \<Rightarrow> True | _ \<Rightarrow> False"
    by code_simp
  then obtain blob' where blob': "encrypt_comment_payload demo_client
      (build_comment_payload_envelope (ce_body demo_comment) 1) demo_list_key (replicate 12 5) = Ok blob'"
    unfolding demo by (auto split: rust_result.splits)
  have reads: "codec_reads (task_codec demo_client) (build_task_payload_envelope (te_body demo_task) 1)"
      "codec_reads (comment_codec demo_client) (build_comment_payload_envelope (ce_body demo_comment) 1)"
    unfolding demo by (simp add: demo_client_def one_codec_reads)
      (simp add: demo_client_def client_with_def ext.defs one_codec_reads)
  from task_payload_round_trip [OF _ _ _ _ reads(1) blob reads(2) blob']
  show ?thesis using blob blob' by (auto simp: demo_task_def demo_comment_def)
qed

end
