(* ===== verification/Crypto_Attachments.thy ===== *)
theory Crypto_Attachments
  imports Crypto_Json Crypto_Seal_Thms
begin

text \<open>\<open>crates/client-crypto/src/attachments.rs\<close>: attachment references, in the shapes that older
  clients wrote too, and attachment bytes.\<close>

section \<open>Text and numbers\<close>

text \<open>\<open>str::parse::<u64>\<close>: an optional plus sign and decimal digits, in range.\<close>
definition parse_u64 :: "string \<Rightarrow> nat option" where
  "parse_u64 s =
     (let digits = (case s of c # r \<Rightarrow> if c = CHR ''+'' then r else s | [] \<Rightarrow> []);
          codes = map (\<lambda>c. of_char c :: nat) digits in
      if digits = [] \<or> (\<exists>c\<in>set codes. c < 48 \<or> 57 < c) then None
      else
        let n = foldl (\<lambda>n c. 10 * n + (c - 48)) 0 codes in
        if n < 2 ^ 64 then Some n else None)"

text \<open>\<open>String::from_utf8\<close> accepts the well-formed sequences of the Unicode standard.\<close>
fun valid_utf8 :: "nat list \<Rightarrow> bool" where
  "valid_utf8 [] = True"
| "valid_utf8 (a # r) =
     (let cont = (\<lambda>b. 0x80 \<le> b \<and> b \<le> 0xbf) in
      if a < 0x80 then valid_utf8 r
      else if 0xc2 \<le> a \<and> a \<le> 0xdf then
        (case r of b # r \<Rightarrow> cont b \<and> valid_utf8 r | _ \<Rightarrow> False)
      else if 0xe0 \<le> a \<and> a \<le> 0xef then
        (case r of b # c # r \<Rightarrow>
            cont b \<and> (a = 0xe0 \<longrightarrow> 0xa0 \<le> b) \<and> (a = 0xed \<longrightarrow> b \<le> 0x9f) \<and> cont c \<and> valid_utf8 r
         | _ \<Rightarrow> False)
      else if 0xf0 \<le> a \<and> a \<le> 0xf4 then
        (case r of b # c # d # r \<Rightarrow>
            cont b \<and> (a = 0xf0 \<longrightarrow> 0x90 \<le> b) \<and> (a = 0xf4 \<longrightarrow> b \<le> 0x8f) \<and> cont c \<and> cont d \<and> valid_utf8 r
         | _ \<Rightarrow> False)
      else False)"

definition string_from_utf8 :: "bytes \<Rightarrow> string option" where
  "string_from_utf8 b = (if valid_utf8 (map unat b) then Some (bytes_str b) else None)"

section \<open>Finding a field\<close>

fun find_map :: "('a \<Rightarrow> 'b option) \<Rightarrow> 'a list \<Rightarrow> 'b option" where
  "find_map f [] = None"
| "find_map f (x # xs) = (case f x of Some y \<Rightarrow> Some y | None \<Rightarrow> find_map f xs)"

lemma find_map_cong [fundef_cong]:
  "xs = ys \<Longrightarrow> (\<And>x. x \<in> set ys \<Longrightarrow> f x = g x) \<Longrightarrow> find_map f xs = find_map g ys"
  by (induction xs arbitrary: ys) (auto split: option.split)

lemma find_map_Some: "find_map f xs = Some y \<Longrightarrow> \<exists>x\<in>set xs. f x = Some y"
  by (induction xs) (auto split: option.splits)

fun find_blob_ref_value :: "json \<Rightarrow> string list \<Rightarrow> json option" where
  "find_blob_ref_value (JObject es) names =
     (case find_map (obj_get es) names of
        Some v \<Rightarrow> Some v
      | None \<Rightarrow> find_map (\<lambda>(k, v). find_blob_ref_value v names) es)"
| "find_blob_ref_value (JArray vs) names = find_map (\<lambda>v. find_blob_ref_value v names) vs"
| "find_blob_ref_value _ names = None"

lemma obj_get_in: "obj_get es k = Some v \<Longrightarrow> (k, v) \<in> set es"
  by (simp add: obj_get_def map_of_SomeD)

lemma size_obj_entry: "(k, v) \<in> set es \<Longrightarrow> size v < size (JObject es)"
  using size_list_estimation' [of "(k, v)" es "size v" "size_prod (\<lambda>_. 0) size"]
  by (auto simp: less_Suc_eq_le elim: le_trans)

lemma find_blob_ref_value_size:
  "find_blob_ref_value v names = Some w \<Longrightarrow> size w < size v"
proof (induction v names rule: find_blob_ref_value.induct)
  case (1 es names)
  show ?case
  proof (cases "find_map (obj_get es) names")
    case None
    then obtain k x where x: "(k, x) \<in> set es" "find_blob_ref_value x names = Some w"
      using 1(2) by (auto dest!: find_map_Some)
    then have "size w < size x" using 1(1) None by blast
    then show ?thesis using size_obj_entry [OF x(1)] by simp
  next
    case (Some y)
    then obtain n where "obj_get es n = Some w" using 1(2) by (auto dest!: find_map_Some)
    then show ?thesis using size_obj_entry obj_get_in by blast
  qed
next
  case (2 vs names)
  then obtain x where x: "x \<in> set vs" "find_blob_ref_value x names = Some w"
    by (auto dest!: find_map_Some)
  then have "size w < size x" using 2(1) by blast
  moreover have "size x \<le> size_list size vs" using size_list_estimation' [OF x(1), of "size x" size] by simp
  ultimately show ?case by simp
qed auto

definition json_as_u64 :: "json \<Rightarrow> nat option" where
  "json_as_u64 v = (case v of JPos n \<Rightarrow> Some n | _ \<Rightarrow> None)"

definition json_array_to_bytes :: "json list \<Rightarrow> bytes option" where
  "json_array_to_bytes vs =
     those (map (\<lambda>v. case json_as_u64 v of
        Some n \<Rightarrow> if n < 256 then Some (of_nat n) else None
      | None \<Rightarrow> None) vs)"

definition nested_object_key_names :: "string list" where
  "nested_object_key_names = [''object_key'', ''objectKey'', ''key'', ''path'', ''value'']"

definition nested_file_key_names :: "string list" where
  "nested_file_key_names = [''file_key'', ''fileKey'', ''bytes'', ''data'', ''value'']"

text \<open>\<open>extract_attachment_blob_ref_text\<close> and \<open>extract_attachment_blob_ref_nested_object_key\<close> call
  each other; the second is written out in the first.  The recursion ends because the value found
  in an object is a part of it.\<close>
function extract_text :: "json \<Rightarrow> string option" where
  "extract_text v =
     (case v of
        JString s \<Rightarrow> Some s
      | JArray vs \<Rightarrow> Option.bind (json_array_to_bytes vs) string_from_utf8
      | JObject _ \<Rightarrow>
          (case find_blob_ref_value v nested_object_key_names of
             Some w \<Rightarrow> extract_text w
           | None \<Rightarrow> None)
      | _ \<Rightarrow> None)"
  by pat_completeness auto
termination
  by (relation "measure size") (auto simp del: find_blob_ref_value.simps dest: find_blob_ref_value_size)

declare extract_text.simps [simp del]

definition extract_nested_object_key :: "json \<Rightarrow> string option" where
  "extract_nested_object_key v = Option.bind (find_blob_ref_value v nested_object_key_names) extract_text"

definition extract_u64 :: "json \<Rightarrow> nat option" where
  "extract_u64 v =
     (case v of
        JPos n \<Rightarrow> Some n
      | JString s \<Rightarrow> parse_u64 s
      | _ \<Rightarrow> None)"

function extract_bytes :: "'x client_ext_scheme \<Rightarrow> json \<Rightarrow> bytes option" where
  "extract_bytes X v =
     (case v of
        JArray vs \<Rightarrow> json_array_to_bytes vs
      | JString s \<Rightarrow> (case decode_base64 X s of Ok b \<Rightarrow> Some b | _ \<Rightarrow> None)
      | JObject _ \<Rightarrow>
          (case find_blob_ref_value v nested_file_key_names of
             Some w \<Rightarrow> extract_bytes X w
           | None \<Rightarrow> None)
      | _ \<Rightarrow> None)"
  by pat_completeness auto
termination
  by (relation "measure (\<lambda>(X, v). size v)") (auto simp del: find_blob_ref_value.simps dest: find_blob_ref_value_size)

declare extract_bytes.simps [simp del]

definition extract_nested_file_key :: "'x client_ext_scheme \<Rightarrow> json \<Rightarrow> bytes option" where
  "extract_nested_file_key X v = Option.bind (find_blob_ref_value v nested_file_key_names) (extract_bytes X)"

definition keep_if :: "('a \<Rightarrow> bool) \<Rightarrow> 'a option \<Rightarrow> 'a option" where
  "keep_if p x = (case x of Some a \<Rightarrow> if p a then Some a else None | None \<Rightarrow> None)"

lemma keep_if_eq_Some [simp]: "keep_if p x = Some a \<longleftrightarrow> x = Some a \<and> p a"
  by (auto simp: keep_if_def split: option.splits)

section \<open>Parsing a reference\<close>

definition blob_ref_field_required :: "string list \<Rightarrow> public_error" where
  "blob_ref_field_required names = Validation (''attachment reference '' @ hd names @ '' is required'')"

definition parse_required_text :: "json \<Rightarrow> string list \<Rightarrow> string public_result" where
  "parse_required_text v names =
     ok_or (blob_ref_field_required names)
       (keep_if (\<lambda>s. trim s \<noteq> []) (Option.bind (find_blob_ref_value v names) extract_text))"

definition parse_optional_text :: "json \<Rightarrow> string list \<Rightarrow> string option" where
  "parse_optional_text v names =
     keep_if (\<lambda>s. trim s \<noteq> []) (Option.bind (find_blob_ref_value v names) extract_text)"

definition parse_required_u64 :: "json \<Rightarrow> string list \<Rightarrow> nat public_result" where
  "parse_required_u64 v names =
     ok_or (blob_ref_field_required names) (Option.bind (find_blob_ref_value v names) extract_u64)"

definition parse_required_bytes :: "'x client_ext_scheme \<Rightarrow> json \<Rightarrow> string list \<Rightarrow> bytes public_result" where
  "parse_required_bytes X v names =
     ok_or (blob_ref_field_required names)
       (keep_if (\<lambda>b. b \<noteq> []) (Option.bind (find_blob_ref_value v names) (extract_bytes X)))"

definition parse_version :: "json \<Rightarrow> u8 public_result" where
  "parse_version v =
     and_then (parse_required_u64 v [''version'']) (\<lambda>n.
     if n < 256 then Ok (of_nat n)
     else Err (Validation (''attachment reference version '' @ show_nat n @ '' does not fit in u8'')))"

definition parse_object_key :: "json \<Rightarrow> string public_result" where
  "parse_object_key v =
     or_else (parse_required_text v [''object_key'', ''objectKey'']) (\<lambda>_.
       ok_or (Validation ''attachment reference object key is required'') (extract_nested_object_key v))"

definition parse_file_key :: "'x client_ext_scheme \<Rightarrow> json \<Rightarrow> bytes public_result" where
  "parse_file_key X v =
     or_else (parse_required_bytes X v [''file_key'', ''fileKey'']) (\<lambda>_.
       ok_or (Validation ''attachment reference file key is required'')
         (Option.bind (find_blob_ref_value v [''file_key'', ''fileKey'']) (extract_nested_file_key X)))"

definition parse_attachment_blob_ref :: "'x client_ext_scheme \<Rightarrow> flexible \<Rightarrow> attachment_blob_ref public_result" where
  "parse_attachment_blob_ref X value =
     (let v = flexible_value_to_json X value in
      and_then (parse_version v) (\<lambda>version.
      and_then (parse_object_key v) (\<lambda>object_key.
      and_then (parse_required_u64 v [''ciphertext_bytes'', ''ciphertextBytes'']) (\<lambda>ciphertext_bytes.
      and_then (parse_file_key X v) (\<lambda>file_key.
      Ok \<lparr> br_version = version, br_object_key = object_key, br_ciphertext_bytes = ciphertext_bytes,
           br_file_key = file_key,
           br_enc_context = (case parse_optional_text v [''enc_context'', ''encContext''] of
               Some c \<Rightarrow> c | None \<Rightarrow> ATTACHMENT_BLOB_CONTEXT_LABEL) \<rparr>)))))"

definition validate_attachment_blob_ref :: "attachment_blob_ref \<Rightarrow> attachment_blob_ref public_result" where
  "validate_attachment_blob_ref r =
     (if br_version r \<noteq> 1 then
        Err (Validation (''unsupported attachment reference version '' @ show_nat (unat (br_version r))))
      else if trim (br_object_key r) = [] then
        Err (Validation ''attachment reference object key cannot be empty'')
      else if br_ciphertext_bytes r = 0 then
        Err (Validation ''attachment reference ciphertext bytes must be positive'')
      else
        and_then (symmetric_key_from_bytes (br_file_key r)) (\<lambda>_.
        if trim (br_enc_context r) = [] then
          Err (Validation ''attachment reference encryption context cannot be empty'')
        else Ok r))"

definition decode_attachment_blob_key ::
  "'x client_ext_scheme \<Rightarrow> symmetric_key \<Rightarrow> bytes \<Rightarrow> attachment_blob_ref public_result" where
  "decode_attachment_blob_key X list_key blob_key =
     and_then (decrypt_sealed_bytes X list_key blob_key ATTACHMENT_REF_CONTEXT
                 ''failed to decrypt attachment reference'') (\<lambda>plaintext.
     and_then (map_err (\<lambda>e. Validation (''failed to deserialize attachment reference payload: '' @ public_display e))
                 (deserialize_from_cbor (flexible_codec X) plaintext)) (\<lambda>value.
     and_then (parse_attachment_blob_ref X value) validate_attachment_blob_ref))"

definition decrypt_attachment_bytes ::
  "'x client_ext_scheme \<Rightarrow> bytes \<Rightarrow> bytes \<Rightarrow> string option \<Rightarrow> bytes public_result" where
  "decrypt_attachment_bytes X ciphertext file_key enc_context =
     and_then (symmetric_key_from_bytes file_key) (\<lambda>key.
     let context = str_bytes (case enc_context of Some c \<Rightarrow> c | None \<Rightarrow> ATTACHMENT_BLOB_CONTEXT_LABEL) in
     or_else (decrypt_raw_attachment_bytes X key ciphertext context) (\<lambda>raw_err.
       map_err (\<lambda>sealed_err. Crypto
           (''failed to decrypt attachment bytes as raw StrongBox ciphertext ('' @ public_display raw_err
            @ ''); also failed wrapped payload fallback ('' @ public_display sealed_err @ '')''))
         (decrypt_sealed_bytes X key ciphertext context ''failed to decrypt attachment bytes'')))"

section \<open>Properties\<close>

lemma json_array_to_bytes_list [simp]:
  "json_array_to_bytes (map (\<lambda>w. JPos (unat w)) b) = Some b"
proof (induction b)
  case (Cons w b)
  have "unat w < 256" using unsigned_less [of w, where 'a = nat] by simp
  then show ?case using Cons by (simp add: json_array_to_bytes_def json_as_u64_def)
qed (simp add: json_array_to_bytes_def)

lemma json_array_to_bytes_Nil [simp]: "json_array_to_bytes [] = Some []"
  by (simp add: json_array_to_bytes_def)

definition blob_ref_valid :: "attachment_blob_ref \<Rightarrow> bool" where
  "blob_ref_valid r \<longleftrightarrow> br_version r = 1 \<and> trim (br_object_key r) \<noteq> [] \<and> 0 < br_ciphertext_bytes r \<and>
     length (br_file_key r) = 32 \<and> trim (br_enc_context r) \<noteq> []"

lemma validate_iff: "validate_attachment_blob_ref r = Ok r' \<longleftrightarrow> r' = r \<and> blob_ref_valid r"
  by (auto simp: validate_attachment_blob_ref_def blob_ref_valid_def symmetric_key_from_bytes_def)

lemma validate_rejects:
  "\<not> blob_ref_valid r \<Longrightarrow> \<exists>m. validate_attachment_blob_ref r = Err (Validation m)"
  by (auto simp: validate_attachment_blob_ref_def blob_ref_valid_def symmetric_key_from_bytes_def)

text \<open>The JSON form of the map serde writes for an \<open>AttachmentBlobRef\<close>.\<close>
definition blob_ref_entries :: "attachment_blob_ref \<Rightarrow> (flexible \<times> flexible) list" where
  "blob_ref_entries r =
     [(FText ''version'', FInteger (uint (br_version r))),
      (FText ''object_key'', FText (br_object_key r)),
      (FText ''ciphertext_bytes'', FInteger (int (br_ciphertext_bytes r))),
      (FText ''file_key'', FBytes (br_file_key r)),
      (FText ''enc_context'', FText (br_enc_context r))]"

lemma integer_to_json_nat: "n < 2 ^ 64 \<Longrightarrow> integer_to_json_value (int n) = JPos n"
  by (simp add: integer_to_json_value_def json_of_int_def)

lemma blob_ref_json:
  assumes "br_ciphertext_bytes r < 2 ^ 64"
  shows "flexible_value_to_json X (FMap (blob_ref_entries r)) = JObject
    [(''ciphertext_bytes'', JPos (br_ciphertext_bytes r)),
     (''enc_context'', JString (br_enc_context r)),
     (''file_key'', JArray (map (\<lambda>w. JPos (unat w)) (br_file_key r))),
     (''object_key'', JString (br_object_key r)),
     (''version'', JPos (unat (br_version r)))]"
proof -
  have "unat (br_version r) < 256" using unsigned_less [of "br_version r", where 'a = nat] by simp
  then have "integer_to_json_value (uint (br_version r)) = JPos (unat (br_version r))"
    using integer_to_json_nat [of "unat (br_version r)"] by simp
  then show ?thesis
    using integer_to_json_nat [OF assms]
    by (simp add: blob_ref_entries_def obj_collect_def less_char_def)
qed

text \<open>The reference with the context a reader takes when the stored one is blank.\<close>
definition with_default_context :: "attachment_blob_ref \<Rightarrow> attachment_blob_ref" where
  "with_default_context r =
     (if trim (br_enc_context r) = [] then r\<lparr>br_enc_context := ATTACHMENT_BLOB_CONTEXT_LABEL\<rparr> else r)"

lemma blob_ref_parse:
  assumes "br_ciphertext_bytes r < 2 ^ 64"
  shows "parse_attachment_blob_ref X (FMap (blob_ref_entries r)) =
    (if br_file_key r = [] then Err (Validation ''attachment reference file key is required'')
     else Ok (with_default_context r))"
proof -
  have "unat (br_version r) < 256" using unsigned_less [of "br_version r", where 'a = nat] by simp
  then show ?thesis
    unfolding parse_attachment_blob_ref_def blob_ref_json [OF assms] Let_def
    by (cases "br_file_key r"; cases "trim (br_object_key r) = []")
      (auto simp: parse_version_def parse_required_u64_def obj_get_def extract_u64_def
        parse_object_key_def parse_required_text_def extract_text.simps keep_if_def
        extract_nested_object_key_def nested_object_key_names_def extract_nested_file_key_def
        parse_file_key_def parse_required_bytes_def extract_bytes.simps parse_optional_text_def
        with_default_context_def json_array_to_bytes_list [of "_ # _", simplified])
qed

text \<open>an attachment reference that is returned is valid: version 1, an object key and a context
  that are not blank, a positive size and a 32-byte file key.  From a reference in the form the
  client writes it exactly this reference is returned, when it is valid, with the default context
  in place of a blank one.\<close>
theorem attachment_ref_decoding:
  assumes "br_ciphertext_bytes r < 2 ^ 64"
    and "decrypt_sealed_bytes X list_key blob_key ATTACHMENT_REF_CONTEXT
           ''failed to decrypt attachment reference'' = Ok plaintext"
    and "dec (flexible_codec X) plaintext = Ok (FMap (blob_ref_entries r), n)"
  shows "decode_attachment_blob_key X list_key blob_key = Ok r' \<longleftrightarrow>
    r' = with_default_context r \<and> br_version r' = 1 \<and> trim (br_object_key r') \<noteq> [] \<and>
    0 < br_ciphertext_bytes r' \<and> length (br_file_key r') = 32 \<and> trim (br_enc_context r') \<noteq> []"
proof -
  have "decode_attachment_blob_key X list_key blob_key =
      and_then (parse_attachment_blob_ref X (FMap (blob_ref_entries r))) validate_attachment_blob_ref"
    using assms(2,3) by (simp add: decode_attachment_blob_key_def deserialize_from_cbor_def)
  then show ?thesis unfolding blob_ref_parse [OF assms(1)]
    by (auto simp: validate_iff blob_ref_valid_def with_default_context_def)
qed

lemma or_else_eq_Abort: "or_else r f = Abort \<longleftrightarrow> r = Abort \<or> (\<exists>e. r = Err e \<and> f e = Abort)"
  by (cases r) auto

lemma or_else_eq_Err: "or_else r f = Err e \<longleftrightarrow> (\<exists>e'. r = Err e' \<and> f e' = Err e)"
  by (cases r) auto

lemma parse_attachment_blob_ref_returns:
  "parse_attachment_blob_ref X v \<noteq> Abort"
  "parse_attachment_blob_ref X v = Err e \<Longrightarrow> \<exists>m. e = Validation m"
  by (auto simp: parse_attachment_blob_ref_def Let_def and_then_eq_Abort and_then_eq_Err parse_version_def
      parse_required_u64_def parse_object_key_def parse_required_text_def parse_file_key_def
      parse_required_bytes_def or_else_eq_Abort or_else_eq_Err blob_ref_field_required_def split: if_splits)

text \<open>whatever CBOR value the sealed plaintext of a reference holds, a legacy shape with nested
  fields or garbage, reading it ends without a panic, in a valid reference or a validation
  error.\<close>
theorem attachment_ref_decoding_total:
  assumes "decrypt_sealed_bytes X list_key blob_key ATTACHMENT_REF_CONTEXT
           ''failed to decrypt attachment reference'' = Ok plaintext"
    and "dec (flexible_codec X) plaintext = Ok (v, n)"
  shows "case decode_attachment_blob_key X list_key blob_key of
      Ok r \<Rightarrow> blob_ref_valid r | Err e \<Rightarrow> (\<exists>m. e = Validation m) | Abort \<Rightarrow> False"
proof -
  have eq: "decode_attachment_blob_key X list_key blob_key =
      and_then (parse_attachment_blob_ref X v) validate_attachment_blob_ref"
    using assms by (simp add: decode_attachment_blob_key_def deserialize_from_cbor_def)
  show ?thesis
  proof (cases "parse_attachment_blob_ref X v")
    case (Ok r)
    then show ?thesis using validate_rejects [of r] validate_iff [of r r]
      by (cases "blob_ref_valid r") (auto simp: eq)
  qed (use parse_attachment_blob_ref_returns [of X v] in \<open>auto simp: eq\<close>)
qed

text \<open>attachment bytes are read in both forms that clients stored, the bare ciphertext of a box and
  the versioned payload around one; a ciphertext that is neither is reported with both reasons, and
  a file key that is not 32 bytes before any decryption.\<close>
theorem attachment_bytes_forms:
  assumes "box_laws X" "sym_wf key" "length nonce = 12" "ctx = str_bytes label"
    and "static_encrypt X (box_of_secret X (sym_bytes key)) nonce m ctx = Ok raw"
    and "enc (sealed_payload_codec X) (sealed_payload_new raw) = Ok wrapped"
    and "codec_reads (sealed_payload_codec X) (sealed_payload_new raw)"
    and "take 3 wrapped \<noteq> static_magic"
  shows "decrypt_attachment_bytes X raw (sym_bytes key) (Some label) = Ok m \<and>
    decrypt_attachment_bytes X wrapped (sym_bytes key) (Some label) = Ok m \<and>
    (length bad \<noteq> 32 \<longrightarrow> (\<exists>e. decrypt_attachment_bytes X w bad c = Err (Validation e)))"
proof (intro conjI impI)
  let ?box = "box_of_secret X (sym_bytes key)"
  have open_raw: "static_decrypt X ?box raw ctx = Ok m"
    using static_box.round_trip [OF ring_ready [OF assms(1,3)], of "sym_bytes key"] assms(5) by simp
  have box: "key_ring_strong_box X (key_ring_new key) = (Ok ?box :: (static_strong_box, public_error) rust_result)"
    using assms(1,2) by (simp add: rust_simps box_laws_def)
  show "decrypt_attachment_bytes X raw (sym_bytes key) (Some label) = Ok m"
    using open_raw assms(2,4)
    by (simp add: decrypt_attachment_bytes_def decrypt_raw_attachment_bytes_def Let_def box)
  have "\<exists>e. ciphertext_from_bytes X wrapped = Err e"
    using assms(8) by (simp add: ciphertext_from_bytes_def)
  then have "\<exists>e. decrypt_raw_attachment_bytes X key wrapped ctx = Err e"
    by (auto simp: decrypt_raw_attachment_bytes_def box static_decrypt_def)
  moreover have "decrypt_sealed_bytes X key wrapped ctx err = Ok m" for err
    using decrypt_sealed_bytes_eq [OF assms(1,2,6,7)] open_raw by simp
  ultimately show "decrypt_attachment_bytes X wrapped (sym_bytes key) (Some label) = Ok m"
    using assms(2,4) by (auto simp: decrypt_attachment_bytes_def Let_def)
  show "\<exists>e. decrypt_attachment_bytes X w bad c = Err (Validation e)" if "length bad \<noteq> 32"
    using that by (simp add: decrypt_attachment_bytes_def symmetric_key_from_bytes_def)
qed

section \<open>Witnesses\<close>

definition demo_ref :: attachment_blob_ref where
  "demo_ref = \<lparr> br_version = 1, br_object_key = ''k'', br_ciphertext_bytes = 3,
     br_file_key = replicate 32 1, br_enc_context = ''c'' \<rparr>"

definition ref_client :: client_ext where
  "ref_client = demo_client\<lparr>flexible_codec := one_codec (FMap (blob_ref_entries demo_ref))\<rparr>"

definition demo_ref_blob :: bytes where
  "demo_ref_blob = (case encrypt_sealed_payload demo_client (one_codec FNull) FNull demo_list_key (replicate 12 5)
     ATTACHMENT_REF_CONTEXT ''e'' of Ok b \<Rightarrow> sb_bytes b | _ \<Rightarrow> [])"

lemma demo_ref_blob_opens:
  "decrypt_sealed_bytes ref_client demo_list_key demo_ref_blob ATTACHMENT_REF_CONTEXT
     ''failed to decrypt attachment reference'' = Ok [0xf6]"
  by code_simp

theorem attachment_ref_decoding_witness:
  "decode_attachment_blob_key ref_client demo_list_key demo_ref_blob = Ok demo_ref \<longleftrightarrow>
    demo_ref = with_default_context demo_ref \<and> br_version demo_ref = 1 \<and> trim (br_object_key demo_ref) \<noteq> [] \<and>
    0 < br_ciphertext_bytes demo_ref \<and> length (br_file_key demo_ref) = 32 \<and> trim (br_enc_context demo_ref) \<noteq> []"
  by (rule attachment_ref_decoding [OF _ demo_ref_blob_opens, where n = 1])
    (simp_all add: demo_ref_def ref_client_def one_codec_def)

theorem attachment_ref_decoding_total_witness:
  "case decode_attachment_blob_key ref_client demo_list_key demo_ref_blob of
      Ok r \<Rightarrow> blob_ref_valid r | Err e \<Rightarrow> (\<exists>m. e = Validation m) | Abort \<Rightarrow> False"
  by (rule attachment_ref_decoding_total [OF demo_ref_blob_opens, where n = 1])
    (simp add: ref_client_def one_codec_def)

definition demo_raw :: bytes where
  "demo_raw = (case static_encrypt demo_client (box_of_secret demo_client (replicate 32 1)) (replicate 12 5)
     [1, 2, 3] (str_bytes ''c'') of Ok b \<Rightarrow> b | _ \<Rightarrow> [])"

definition demo_wrapped_raw :: bytes where
  "demo_wrapped_raw = (case enc (sealed_payload_codec demo_client) (sealed_payload_new demo_raw) of Ok b \<Rightarrow> b | _ \<Rightarrow> [])"

theorem attachment_bytes_forms_witness:
  "decrypt_attachment_bytes demo_client demo_raw (replicate 32 1) (Some ''c'') = Ok [1, 2, 3] \<and>
    decrypt_attachment_bytes demo_client demo_wrapped_raw (replicate 32 1) (Some ''c'') = Ok [1, 2, 3] \<and>
    (\<exists>e. decrypt_attachment_bytes demo_client demo_raw [7] None = Err (Validation e))"
proof -
  have "static_encrypt demo_client (box_of_secret demo_client (sym_bytes demo_list_key)) (replicate 12 5)
      [1, 2, 3] (str_bytes ''c'') = Ok demo_raw"
    by code_simp
  moreover have "enc (sealed_payload_codec demo_client) (sealed_payload_new demo_raw) = Ok demo_wrapped_raw"
    by (simp add: demo_wrapped_raw_def demo_client_def client_with_def ext.defs bytes_codec_def)
  moreover have "take 3 demo_wrapped_raw \<noteq> static_magic"
    by code_simp
  ultimately show ?thesis
    using attachment_bytes_forms [where X = demo_client and key = demo_list_key and nonce = "replicate 12 5"
        and label = "''c''" and m = "[1, 2, 3]" and bad = "[7]" and w = demo_raw and c = None]
    by (simp add: demo_list_key_def sym_wf_def)
qed

end
