(* ===== verification/Rust_Io.thy ===== *)
theory Rust_Io
  imports Rust_Str
begin

text \<open>Operations on a state that may fail: what a method with \<open>&mut self\<close>, a file or a connection
  does.  An operation maps the state before to its result and the state after, which an error keeps.\<close>

text \<open>A text in single quotes, for messages.\<close>
definition in_quotes :: "string \<Rightarrow> string" where
  "in_quotes s = [CHR 0x27] @ s @ [CHR 0x27]"

type_synonym ('s, 'a, 'e) rio = "'s \<Rightarrow> ('a, 'e) rust_result \<times> 's"

definition io_return :: "('a, 'e) rust_result \<Rightarrow> ('s, 'a, 'e) rio" where
  "io_return r = (\<lambda>s. (r, s))"

text \<open>The operator \<open>?\<close>: go on with the value, or stop with the error.\<close>
definition io_then :: "('s, 'a, 'e) rio \<Rightarrow> ('a \<Rightarrow> ('s, 'b, 'e) rio) \<Rightarrow> ('s, 'b, 'e) rio" where
  "io_then m f = (\<lambda>s. case m s of
     (Ok a, s') \<Rightarrow> f a s'
   | (Err e, s') \<Rightarrow> (Err e, s')
   | (Abort, s') \<Rightarrow> (Abort, s'))"

definition io_map :: "('a \<Rightarrow> 'b) \<Rightarrow> ('s, 'a, 'e) rio \<Rightarrow> ('s, 'b, 'e) rio" where
  "io_map f m = (\<lambda>s. (map_ok f (fst (m s)), snd (m s)))"

definition io_map_err :: "('e \<Rightarrow> 'f) \<Rightarrow> ('s, 'a, 'e) rio \<Rightarrow> ('s, 'a, 'f) rio" where
  "io_map_err f m = (\<lambda>s. (map_err f (fst (m s)), snd (m s)))"

definition io_get :: "('s \<Rightarrow> 'a) \<Rightarrow> ('s, 'a, 'e) rio" where
  "io_get f = (\<lambda>s. (Ok (f s), s))"

definition io_modify :: "('s \<Rightarrow> 's) \<Rightarrow> ('s, unit, 'e) rio" where
  "io_modify f = (\<lambda>s. (Ok (), f s))"

named_theorems io_simps \<open>running an operation on a state\<close>

lemma io_return_run [io_simps]: "io_return r s = (r, s)"
  by (simp add: io_return_def)

lemma io_get_run [io_simps]: "io_get f s = (Ok (f s), s)"
  by (simp add: io_get_def)

lemma io_modify_run [io_simps]: "io_modify f s = (Ok (), f s)"
  by (simp add: io_modify_def)

lemma io_then_run [io_simps]:
  "m s = (Ok a, s') \<Longrightarrow> io_then m f s = f a s'"
  "m s = (Err e, s') \<Longrightarrow> io_then m f s = (Err e, s')"
  "m s = (Abort, s') \<Longrightarrow> io_then m f s = (Abort, s')"
  by (simp_all add: io_then_def)

lemma io_map_run [io_simps]: "m s = (r, s') \<Longrightarrow> io_map f m s = (map_ok f r, s')"
  by (simp add: io_map_def)

lemma io_map_err_run [io_simps]: "m s = (r, s') \<Longrightarrow> io_map_err f m s = (map_err f r, s')"
  by (simp add: io_map_err_def)

lemma io_then_return [io_simps]:
  "io_then (io_return (Ok a)) f = f a"
  "io_then (io_return (Err e)) f = io_return (Err e)"
  "io_then (io_return Abort) f = io_return Abort"
  by (simp_all add: io_then_def io_return_def)

lemma io_then_assoc: "io_then (io_then m f) g = io_then m (\<lambda>a. io_then (f a) g)"
  by (rule ext) (simp add: io_then_def split: prod.splits rust_result.splits)

lemma io_then_Ok:
  "io_then m f s = (Ok b, s2) \<longleftrightarrow> (\<exists>a s1. m s = (Ok a, s1) \<and> f a s1 = (Ok b, s2))"
  by (auto simp: io_then_def split: prod.splits rust_result.splits)

text \<open>The steps of a run that succeeds.\<close>
lemma io_then_OkE:
  assumes "io_then m f s = (Ok b, s')" obtains a s1 where "m s = (Ok a, s1)" "f a s1 = (Ok b, s')"
  using assms by (auto simp: io_then_Ok)

lemma io_return_OkE:
  assumes "io_return r s = (Ok b, s')" obtains "r = Ok b" "s' = s"
  using assms by (simp add: io_return_def)

lemma if_err_OkE:
  assumes "(if c then io_return (Err e) else m) s = (Ok b, s')" obtains "\<not> c" "m s = (Ok b, s')"
  using assms by (simp add: io_return_def split: if_splits)

lemmas run_elims = io_then_OkE io_return_OkE if_err_OkE

text \<open>A property of the state that every operation keeps is kept by their sequence.\<close>
definition io_keeps :: "('s \<Rightarrow> bool) \<Rightarrow> ('s, 'a, 'e) rio \<Rightarrow> bool" where
  "io_keeps P m \<longleftrightarrow> (\<forall>s. P s \<longrightarrow> P (snd (m s)))"

lemma io_keeps_then [intro]:
  assumes "io_keeps P m" "\<And>a. io_keeps P (f a)" shows "io_keeps P (io_then m f)"
  using assms unfolding io_keeps_def io_then_def
  by (auto split: prod.splits rust_result.splits) 

lemma io_keeps_return [intro, simp]: "io_keeps P (io_return r)"
  by (simp add: io_keeps_def io_return_def)

lemma io_keeps_map [intro]: "io_keeps P m \<Longrightarrow> io_keeps P (io_map f m)"
  by (simp add: io_keeps_def io_map_def)

lemma io_keeps_map_err [intro]: "io_keeps P m \<Longrightarrow> io_keeps P (io_map_err f m)"
  by (simp add: io_keeps_def io_map_err_def)

lemma io_keeps_get [intro, simp]: "io_keeps P (io_get f)"
  by (simp add: io_keeps_def io_get_def)

section \<open>Operations on a part of the state\<close>

definition io_fst :: "('s, 'a, 'e) rio \<Rightarrow> ('s \<times> 't, 'a, 'e) rio" where
  "io_fst m = (\<lambda>(s, t). (fst (m s), (snd (m s), t)))"

definition io_snd :: "('t, 'a, 'e) rio \<Rightarrow> ('s \<times> 't, 'a, 'e) rio" where
  "io_snd m = (\<lambda>(s, t). (fst (m t), (s, snd (m t))))"

lemma io_fst_run [io_simps]: "m s = (r, s') \<Longrightarrow> io_fst m (s, t) = (r, (s', t))"
  by (simp add: io_fst_def)

lemma io_snd_run [io_simps]: "m t = (r, t') \<Longrightarrow> io_snd m (s, t) = (r, (s, t'))"
  by (simp add: io_snd_def)

lemma io_fst_eq: "io_fst m (s, t) = (r, (s', t')) \<longleftrightarrow> m s = (r, s') \<and> t' = t"
  by (cases "m s") (auto simp: io_fst_def)

lemma io_snd_eq: "io_snd m (s, t) = (r, (s', t')) \<longleftrightarrow> m t = (r, t') \<and> s' = s"
  by (cases "m t") (auto simp: io_snd_def)

end
