(* ===== verification/Http.thy ===== *)
theory Http
  imports Client_Core Rust_Io
begin

text \<open>HTTP as the clients use it through \<open>reqwest\<close>: a request is sent and a response or a transport
  error comes back.  The server is a parameter, a function of the requests received so far, which
  are the state; so every order of requests and every answer is covered.\<close>

datatype http_method = GET | POST | PATCH | DELETE

text \<open>The body is the JSON object a request type is serialized to, its fields in their order.\<close>
record http_request =
  rq_method :: http_method
  rq_url :: string
  rq_bearer :: "string option"
  rq_body :: "json option"

text \<open>The body is the text received (\<open>Inr\<close>), or the error of reading it (\<open>Inl\<close>).\<close>
record http_response =
  rs_status :: u16
  rs_body :: "string + string"

record reqwest_error =
  re_is_connect :: bool
  re_is_timeout :: bool
  re_text :: string

type_synonym server =
  "http_request list \<Rightarrow> http_request \<Rightarrow> (http_response, reqwest_error) rust_result"

definition transmit :: "server \<Rightarrow> http_request \<Rightarrow> (http_request list, http_response, reqwest_error) rio" where
  "transmit server r = (\<lambda>sent. (server sent r, sent @ [r]))"

text \<open>\<open>StatusCode::is_success\<close>, and its number in messages.\<close>
definition is_success :: "u16 \<Rightarrow> bool" where
  "is_success status \<longleftrightarrow> 200 \<le> status \<and> status < 300"

definition show_status :: "u16 \<Rightarrow> string" where
  "show_status status = show_nat (unat status)"

text \<open>A field that is left out when it is \<open>None\<close>.\<close>
definition opt_field :: "string \<Rightarrow> ('a \<Rightarrow> json) \<Rightarrow> 'a option \<Rightarrow> (string \<times> json) list" where
  "opt_field name f v = (case v of Some a \<Rightarrow> [(name, f a)] | None \<Rightarrow> [])"

text \<open>A field that is \<open>null\<close> when it is \<open>None\<close>.\<close>
definition json_opt :: "('a \<Rightarrow> json) \<Rightarrow> 'a option \<Rightarrow> json" where
  "json_opt f v = (case v of Some a \<Rightarrow> f a | None \<Rightarrow> JNull)"

text \<open>What a type's \<open>Deserialize\<close> reads from a text.\<close>
type_synonym 'a de = "string \<Rightarrow> ('a, string) rust_result"

text \<open>\<open>response.json::<T>()\<close>.\<close>
definition response_json :: "'a de \<Rightarrow> http_response \<Rightarrow> ('a, string) rust_result" where
  "response_json parse response =
     (case rs_body response of Inl e \<Rightarrow> Err e | Inr text \<Rightarrow> parse text)"

text \<open>The error bodies both \<open>client-auth\<close> and \<open>client-api\<close> read.\<close>
record api_error =
  ae_error :: string
  ae_message :: "string option"

definition api_error_text :: "api_error \<Rightarrow> string" where
  "api_error_text e = (case ae_message e of Some m \<Rightarrow> m | None \<Rightarrow> ae_error e)"

definition trim_end_slashes :: "string \<Rightarrow> string" where
  "trim_end_slashes s = trim_end_char CHR ''/'' s"

lemma transmit_run [io_simps]: "transmit server r sent = (server sent r, sent @ [r])"
  by (simp add: transmit_def)

lemma trim_end_char_last: "trim_end_char c s \<noteq> [] \<Longrightarrow> last (trim_end_char c s) \<noteq> c"
  unfolding trim_end_char_def last_rev rev_is_Nil_conv using hd_dropWhile by metis

lemma trim_end_char_id: "s = [] \<or> last s \<noteq> c \<Longrightarrow> trim_end_char c s = s"
  by (cases s rule: rev_cases) (auto simp: trim_end_char_def)

lemma trim_end_char_idem [simp]: "trim_end_char c (trim_end_char c s) = trim_end_char c s"
  using trim_end_char_id trim_end_char_last by metis

lemma trim_end_slashes_idem [simp]: "trim_end_slashes (trim_end_slashes s) = trim_end_slashes s"
  by (simp add: trim_end_slashes_def)

end
