(* ===== verification/Auth_Credentials.thy ===== *)
theory Auth_Credentials
  imports Http
begin

text \<open>\<open>crates/client-auth/src/credentials.rs\<close>: the credentials of users and of agents, the state of
  an agent's access token, and the choice between the two.  A point in time is a number of
  nanoseconds, a duration their difference; the reading of the clock is an argument.\<close>

section \<open>Third-party code\<close>

type_synonym datetime = int

text \<open>The parts of an absolute URL \<open>reqwest::Url\<close> gives access to.\<close>
record url =
  url_scheme :: string
  url_username :: string
  url_password :: "string option"
  url_host :: "string option"
  url_port :: "nat option"
  url_path :: string
  url_query :: "string option"
  url_fragment :: "string option"

text \<open>The state and the server's message of \<open>opaque_ke\<close> are opaque bytes.\<close>
datatype opaque_client = OpaqueClient bytes
datatype opaque_response = OpaqueResponse bytes

section \<open>What the server answers\<close>

record login_start_response =
  ls_server_login_state :: string
  ls_session_token :: string
  ls_expires_in :: nat

record user_response =
  ur_id :: uuid
  ur_email :: string
  ur_name :: string
  ur_timezone :: string
  ur_avatar_color :: string
  ur_theme_preference :: string
  ur_email_verified :: bool

record auth_response =
  ar_access_token :: string
  ar_refresh_token :: string
  ar_expires_in :: nat
  ar_refresh_expires_in :: nat
  ar_token_type :: string
  ar_user :: user_response
  ar_data_key_ciphertext :: string
  ar_opaque_export_key :: "string option"

record refresh_response =
  rr_access_token :: string
  rr_refresh_token :: string
  rr_expires_in :: nat
  rr_refresh_expires_in :: nat
  rr_token_type :: string

record agent_enrollment =
  en_agent_id :: uuid
  en_owner_user_id :: "uuid option"
  en_status :: string
  en_approved :: bool
  en_auth_public_key :: string
  en_recipient_public_key :: string
  en_enrollment_code :: "string option"
  en_enrollment_expires_at :: "datetime option"
  en_handle :: "string option"
  en_proposed_handle :: "string option"
  en_display_name :: "string option"
  en_scope_mode :: string
  en_fingerprint :: string

record agent_token =
  at_access_token :: string
  at_expires_in :: nat
  at_token_type :: string
  at_agent_id :: uuid
  at_owner_user_id :: uuid

section \<open>The parameters\<close>

record auth_ext = client_ext +
  duration_try_seconds :: "int \<Rightarrow> int option"
  checked_add_signed :: "datetime \<Rightarrow> int \<Rightarrow> datetime option"
  int_error :: string
  datetime_debug :: "datetime \<Rightarrow> string"
  url_parse :: "string \<Rightarrow> (url, string) rust_result"
  url_clear_port :: "url \<Rightarrow> url option"
  url_set_path :: "url \<Rightarrow> string \<Rightarrow> url"
  url_as_str :: "url \<Rightarrow> string"
  status_display :: "u16 \<Rightarrow> string"
  sha256 :: "bytes \<Rightarrow> bytes"
  b64_url_nopad_enc :: "bytes \<Rightarrow> string"
  de_api_error :: "string \<Rightarrow> (api_error, string) rust_result"
  de_login_start :: "string \<Rightarrow> (login_start_response, string) rust_result"
  de_auth_response :: "string \<Rightarrow> (auth_response, string) rust_result"
  de_refresh_response :: "string \<Rightarrow> (refresh_response, string) rust_result"
  de_enrollment :: "string \<Rightarrow> (agent_enrollment, string) rust_result"
  de_agent_token :: "string \<Rightarrow> (agent_token, string) rust_result"
  str_to_lowercase :: "string \<Rightarrow> string"
  opaque_start :: "bytes \<Rightarrow> bytes \<Rightarrow> (opaque_client \<times> bytes, string) rust_result"
  opaque_response_dec :: "bytes \<Rightarrow> (opaque_response, string) rust_result"
  opaque_finish :: "opaque_client \<Rightarrow> bytes \<Rightarrow> bytes \<Rightarrow> opaque_response \<Rightarrow> bytes \<Rightarrow> bytes \<Rightarrow>
    (bytes \<times> bytes, string) rust_result"
  ed25519_public :: "bytes \<Rightarrow> bytes"
  ed25519_sign :: "bytes \<Rightarrow> bytes \<Rightarrow> bytes"

text \<open>\<open>chrono\<close>: a duration of at most \<open>i64::MAX / 1000\<close> seconds either way, and sums as sums.\<close>
definition chrono_laws :: "'x auth_ext_scheme \<Rightarrow> bool" where
  "chrono_laws A \<longleftrightarrow>
     (\<forall>s d. duration_try_seconds A s = Some d \<longleftrightarrow> \<bar>s\<bar> \<le> (2 ^ 63 - 1) div 1000 \<and> d = s * 10 ^ 9) \<and>
     (\<forall>t d t'. checked_add_signed A t d = Some t' \<longrightarrow> t' = t + d)"

text \<open>\<open>now + chrono::Duration::seconds(seconds)\<close>: both panic when out of range.\<close>
definition now_plus :: "'x auth_ext_scheme \<Rightarrow> datetime \<Rightarrow> int \<Rightarrow> (datetime, 'e) rust_result" where
  "now_plus A now seconds =
     and_then (expect_some (duration_try_seconds A seconds)) (\<lambda>d. expect_some (checked_add_signed A now d))"

section \<open>Credentials of a user\<close>

definition REDACTED_SECRET_FIELD :: string where
  "REDACTED_SECRET_FIELD = ''[redacted]''"

datatype unlock_mode = SingleCommand | DaemonMode

fun unlock_mode_as_str :: "unlock_mode \<Rightarrow> string" where
  "unlock_mode_as_str SingleCommand = ''single_command''"
| "unlock_mode_as_str DaemonMode = ''daemon''"

record credentials =
  cr_api_url :: string
  cr_access_token :: string
  cr_refresh_token :: string
  cr_access_expires_at :: datetime
  cr_refresh_expires_at :: datetime
  cr_user_id :: uuid
  cr_email :: string
  cr_data_key_ciphertext :: string

definition is_access_expired :: "credentials \<Rightarrow> datetime \<Rightarrow> bool" where
  "is_access_expired c now \<longleftrightarrow> now \<ge> cr_access_expires_at c"

definition is_refresh_expired :: "credentials \<Rightarrow> datetime \<Rightarrow> bool" where
  "is_refresh_expired c now \<longleftrightarrow> now \<ge> cr_refresh_expires_at c"

definition access_expires_within ::
  "'x auth_ext_scheme \<Rightarrow> credentials \<Rightarrow> datetime \<Rightarrow> int \<Rightarrow> bool public_result" where
  "access_expires_within A c now seconds =
     map_ok (\<lambda>t. t \<ge> cr_access_expires_at c) (now_plus A now seconds)"

section \<open>Credentials of an agent\<close>

record agent_credentials =
  ac_api_url :: string
  ac_agent_id :: uuid
  ac_owner_user_id :: "uuid option"
  ac_handle :: "string option"
  ac_display_name :: "string option"
  ac_access_token :: "string option"
  ac_access_expires_at :: "datetime option"

definition agent_registered ::
  "string \<Rightarrow> uuid \<Rightarrow> uuid option \<Rightarrow> string option \<Rightarrow> string option \<Rightarrow> agent_credentials" where
  "agent_registered api_url agent_id owner_user_id handle display_name =
     \<lparr> ac_api_url = api_url, ac_agent_id = agent_id, ac_owner_user_id = owner_user_id,
       ac_handle = handle, ac_display_name = display_name, ac_access_token = None,
       ac_access_expires_at = None \<rparr>"

definition agent_active ::
  "string \<Rightarrow> uuid \<Rightarrow> uuid \<Rightarrow> string option \<Rightarrow> string option \<Rightarrow> string \<Rightarrow> datetime \<Rightarrow> agent_credentials"
  where
  "agent_active api_url agent_id owner_user_id handle display_name access_token access_expires_at =
     \<lparr> ac_api_url = api_url, ac_agent_id = agent_id, ac_owner_user_id = Some owner_user_id,
       ac_handle = handle, ac_display_name = display_name, ac_access_token = Some access_token,
       ac_access_expires_at = Some access_expires_at \<rparr>"

definition set_active_access_token ::
  "agent_credentials \<Rightarrow> uuid \<Rightarrow> string \<Rightarrow> datetime \<Rightarrow> agent_credentials" where
  "set_active_access_token c owner_user_id access_token access_expires_at =
     c\<lparr> ac_owner_user_id := Some owner_user_id, ac_access_token := Some access_token,
        ac_access_expires_at := Some access_expires_at \<rparr>"

datatype agent_credential_state =
    Registered "uuid option"
  | Active uuid string datetime

fun agent_state_of ::
  "uuid option \<Rightarrow> string option \<Rightarrow> datetime option \<Rightarrow> agent_credential_state public_result" where
  "agent_state_of (Some owner) (Some token) (Some expires) = Ok (Active owner token expires)"
| "agent_state_of None (Some _) (Some _) =
     Err (Validation ''agent credentials have an access token but no owner user id'')"
| "agent_state_of _ (Some _) None = Err (Validation ''agent credentials have a partial access token state'')"
| "agent_state_of _ None (Some _) = Err (Validation ''agent credentials have a partial access token state'')"
| "agent_state_of owner None None = Ok (Registered owner)"

definition agent_state :: "agent_credentials \<Rightarrow> agent_credential_state public_result" where
  "agent_state c = agent_state_of (ac_owner_user_id c) (ac_access_token c) (ac_access_expires_at c)"

definition agent_access_expires_within ::
  "'x auth_ext_scheme \<Rightarrow> agent_credentials \<Rightarrow> datetime \<Rightarrow> int \<Rightarrow> bool public_result" where
  "agent_access_expires_within A c now seconds =
     (case ac_access_expires_at c of
        Some expires_at \<Rightarrow> map_ok (\<lambda>t. t \<ge> expires_at) (now_plus A now seconds)
      | None \<Rightarrow> Ok True)"

definition needs_access_token_within ::
  "'x auth_ext_scheme \<Rightarrow> agent_credentials \<Rightarrow> datetime \<Rightarrow> int \<Rightarrow> bool public_result" where
  "needs_access_token_within A c now seconds =
     and_then (agent_state c) (\<lambda>state. case state of
       Active _ _ expires_at \<Rightarrow> map_ok (\<lambda>t. t \<ge> expires_at) (now_plus A now seconds)
     | Registered _ \<Rightarrow> Ok True)"

definition active_access_token :: "agent_credentials \<Rightarrow> string public_result" where
  "active_access_token c =
     and_then (agent_state c) (\<lambda>state. case state of
       Active _ token _ \<Rightarrow> Ok token
     | Registered _ \<Rightarrow> Err (Validation ''agent access token missing''))"

section \<open>The principal\<close>

datatype principal_credentials = UserPrincipal credentials | AgentPrincipal agent_credentials

fun principal_api_url :: "principal_credentials \<Rightarrow> string" where
  "principal_api_url (UserPrincipal c) = cr_api_url c"
| "principal_api_url (AgentPrincipal c) = ac_api_url c"

datatype principal_selection = SelectAuto | SelectUser | SelectAgent

fun selection_as_str :: "principal_selection \<Rightarrow> string" where
  "selection_as_str SelectAuto = ''auto''"
| "selection_as_str SelectUser = ''user''"
| "selection_as_str SelectAgent = ''agent''"

datatype persisted_status = Available | Missing | Unavailable string

fun is_available :: "persisted_status \<Rightarrow> bool" where
  "is_available Available = True"
| "is_available _ = False"

fun select_principal_credentials ::
  "principal_selection \<Rightarrow> credentials option \<Rightarrow> agent_credentials option
   \<Rightarrow> principal_credentials option public_result" where
  "select_principal_credentials SelectAuto None None = Ok None"
| "select_principal_credentials SelectAuto (Some c) None = Ok (Some (UserPrincipal c))"
| "select_principal_credentials SelectAuto None (Some c) = Ok (Some (AgentPrincipal c))"
| "select_principal_credentials SelectAuto (Some _) (Some _) =
     Err (Validation ''both user and agent credentials exist for this API URL; rerun with --principal user or --principal agent'')"
| "select_principal_credentials SelectUser (Some c) _ = Ok (Some (UserPrincipal c))"
| "select_principal_credentials SelectUser None _ =
     Err (Validation (''user credentials not found for this API URL - run '' @ in_quotes ''worklist auth login'' @ '' first''))"
| "select_principal_credentials SelectAgent _ (Some c) = Ok (Some (AgentPrincipal c))"
| "select_principal_credentials SelectAgent _ None =
     Err (Validation (''agent credentials not found for this API URL - run '' @ in_quotes ''worklist agent register'' @ '' first''))"

section \<open>Theorems\<close>

lemma now_plus_eq:
  assumes "chrono_laws A" "now_plus A now seconds = Ok t" shows "t = now + seconds * 10 ^ 9"
  using assms by (auto simp: now_plus_def chrono_laws_def)

lemma agent_state_eq_Ok [simp]:
  "agent_state c = Ok (Active owner token expires) \<longleftrightarrow>
     ac_owner_user_id c = Some owner \<and> ac_access_token c = Some token \<and> ac_access_expires_at c = Some expires"
  "agent_state c = Ok (Registered owner') \<longleftrightarrow>
     ac_owner_user_id c = owner' \<and> ac_access_token c = None \<and> ac_access_expires_at c = None"
  unfolding agent_state_def
  by (cases "ac_owner_user_id c"; cases "ac_access_token c"; cases "ac_access_expires_at c"; auto)+

lemma active_access_token_eq_Ok:
  "active_access_token c = Ok token \<longleftrightarrow>
     (\<exists>owner expires. agent_state c = Ok (Active owner token expires))"
  unfolding active_access_token_def and_then_eq_Ok
proof
  assume "\<exists>a. agent_state c = Ok a \<and> (case a of Active _ token _ \<Rightarrow> Ok token
     | Registered _ \<Rightarrow> Err (Validation ''agent access token missing'')) = Ok token"
  then obtain a where "agent_state c = Ok a" "(case a of Active _ token _ \<Rightarrow> Ok token
     | Registered _ \<Rightarrow> Err (Validation ''agent access token missing'')) = Ok token" by blast
  then show "\<exists>owner expires. agent_state c = Ok (Active owner token expires)" by (cases a) auto
qed (force simp del: agent_state_eq_Ok)

text \<open>C12: An agent's credentials are in one of two states, registered without a token or active with
  an owner, a token and its expiry; every other combination of the stored fields is refused.
  Registering gives the first state and activating the second, with the API URL, the agent, the handle and the
  display name given; setting a token gives the second state whatever the fields were before, and leaves these
  four as they were.\<close>
theorem agent_token_states:
  "((\<exists>owner. agent_state c = Ok (Registered owner)) \<longleftrightarrow> ac_access_token c = None \<and> ac_access_expires_at c = None) \<and>
   ((\<exists>owner token expires. agent_state c = Ok (Active owner token expires)) \<longleftrightarrow>
      ac_owner_user_id c \<noteq> None \<and> ac_access_token c \<noteq> None \<and> ac_access_expires_at c \<noteq> None) \<and>
   ((\<exists>state. agent_state c = Ok state) \<or> (\<exists>m. agent_state c = Err (Validation m))) \<and>
   (let new = agent_registered url aid owner' handle name in agent_state new = Ok (Registered owner') \<and>
      ac_api_url new = url \<and> ac_agent_id new = aid \<and> ac_handle new = handle \<and> ac_display_name new = name) \<and>
   (let new = agent_active url aid owner handle name token expires in agent_state new = Ok (Active owner token expires) \<and>
      ac_api_url new = url \<and> ac_agent_id new = aid \<and> ac_handle new = handle \<and> ac_display_name new = name) \<and>
   (let new = set_active_access_token c owner token expires in agent_state new = Ok (Active owner token expires) \<and>
      ac_api_url new = ac_api_url c \<and> ac_agent_id new = ac_agent_id c \<and> ac_handle new = ac_handle c \<and>
      ac_display_name new = ac_display_name c)"
proof -
  have "(\<exists>state. agent_state c = Ok state) \<or> (\<exists>m. agent_state c = Err (Validation m))"
    unfolding agent_state_def
    by (cases "ac_owner_user_id c"; cases "ac_access_token c"; cases "ac_access_expires_at c") auto
  then show ?thesis
    by (auto simp: agent_registered_def agent_active_def set_active_access_token_def)
qed

text \<open>A renewal check that answers at all answers \<open>False\<close> exactly when the credentials hold a
  token to use that is still valid the given number of seconds from now.\<close>
theorem agent_token_renewal:
  assumes "chrono_laws A" "needs_access_token_within A c now seconds = Ok needed"
  shows "\<not> needed \<longleftrightarrow> (\<exists>token expires. active_access_token c = Ok token \<and>
    ac_access_expires_at c = Some expires \<and> now + seconds * 10 ^ 9 < expires)"
proof -
  obtain state where state: "agent_state c = Ok state"
    using assms(2) by (auto simp: needs_access_token_within_def)
  show ?thesis
  proof (cases state)
    case (Registered owner)
    then show ?thesis using assms(2) state
      by (auto simp: needs_access_token_within_def active_access_token_eq_Ok)
  next
    case (Active owner token expires)
    then obtain t where t: "now_plus A now seconds = (Ok t :: int public_result)" "needed \<longleftrightarrow> t \<ge> expires"
      using assms(2) state by (auto simp: needs_access_token_within_def)
    moreover have "t = now + seconds * 10 ^ 9" by (rule now_plus_eq [OF assms(1) t(1)])
    ultimately show ?thesis using state Active
      by (auto simp: active_access_token_eq_Ok)
  qed
qed

lemma select_principal_eq_Ok:
  "select_principal_credentials sel u a = Ok p \<longleftrightarrow>
     (case sel of
        SelectUser \<Rightarrow> u \<noteq> None \<and> p = map_option UserPrincipal u
      | SelectAgent \<Rightarrow> a \<noteq> None \<and> p = map_option AgentPrincipal a
      | SelectAuto \<Rightarrow> \<not> (u \<noteq> None \<and> a \<noteq> None) \<and>
          p = (if u \<noteq> None then map_option UserPrincipal u else map_option AgentPrincipal a))"
  by (cases sel; cases u; cases a) auto

end
