(* ===== verification/Auth_Http.thy ===== *)
theory Auth_Http
  imports Auth_Credentials
begin

text \<open>\<open>crates/client-auth/src\<close>: API URLs, the requests of the login, refresh and logout, and the
  credentials made from their answers (\<open>http.rs\<close>), with the OPAQUE client (\<open>opaque.rs\<close>).\<close>

section \<open>API URLs\<close>

definition http_scheme :: "url \<Rightarrow> bool" where
  "http_scheme u \<longleftrightarrow> url_scheme u = ''http'' \<or> url_scheme u = ''https''"

definition default_port :: "url \<Rightarrow> bool" where
  "default_port u \<longleftrightarrow>
     url_scheme u = ''http'' \<and> url_port u = Some 80 \<or> url_scheme u = ''https'' \<and> url_port u = Some 443"

definition canonicalize_api_url :: "'x auth_ext_scheme \<Rightarrow> string \<Rightarrow> string public_result" where
  "canonicalize_api_url A api_url =
     and_then (map_err (\<lambda>e. Validation (''API URL must be an absolute HTTP(S) base URL: '' @ e))
                 (url_parse A (trim api_url))) (\<lambda>url.
     if \<not> http_scheme url \<or> url_host url = None
     then Err (Validation ''API URL must be an absolute HTTP(S) base URL'')
     else if url_query url \<noteq> None \<or> url_fragment url \<noteq> None
     then Err (Validation ''API URL must not include query parameters or a fragment'')
     else if url_username url \<noteq> [] \<or> url_password url \<noteq> None
     then Err (Validation ''API URL must not include credentials'')
     else
       and_then (if default_port url
                 then ok_or (Validation ''API URL default port could not be removed'') (url_clear_port A url)
                 else Ok url) (\<lambda>url.
       let url = (if url_path url = ''/'' then url_set_path A url []
                  else url_set_path A url (trim_end_slashes (url_path url))) in
       Ok (trim_end_slashes (url_as_str A url))))"

definition normalize_api_url :: "'x auth_ext_scheme \<Rightarrow> string \<Rightarrow> string" where
  "normalize_api_url A api_url =
     (case canonicalize_api_url A api_url of
        Ok url \<Rightarrow> url
      | _ \<Rightarrow> trim_end_slashes (trim api_url))"

definition api_endpoint :: "string \<Rightarrow> string \<Rightarrow> string" where
  "api_endpoint base_url path = trim_end_slashes base_url @ path"

section \<open>Requests and answers\<close>

definition encode_bytes :: "'x auth_ext_scheme \<Rightarrow> bytes \<Rightarrow> string" where
  "encode_bytes A b = b64_nopad_enc A b"

definition decode_bytes :: "'x auth_ext_scheme \<Rightarrow> string \<Rightarrow> bytes public_result" where
  "decode_bytes A value =
     (let trimmed = trim value in
      map_err (\<lambda>e. Validation (''invalid base64: '' @ e))
        (or_else (or_else (or_else (b64_nopad_dec A trimmed)
          (\<lambda>_. b64_std_dec A trimmed))
          (\<lambda>_. b64_url_nopad_dec A trimmed))
          (\<lambda>_. b64_url_dec A trimmed)))"

definition auth_map_reqwest_error :: "string \<Rightarrow> reqwest_error \<Rightarrow> public_error" where
  "auth_map_reqwest_error context err =
     (if re_is_connect err then
        Unexpected (''failed to connect to API during '' @ context @ '': '' @ re_text err)
      else if re_is_timeout err then Unexpected (''API request timed out during '' @ context)
      else Unexpected (''API request failed during '' @ context @ '': '' @ re_text err))"

definition send_auth_request ::
  "server \<Rightarrow> http_request \<Rightarrow> string \<Rightarrow> (http_request list, http_response, public_error) rio" where
  "send_auth_request server request context =
     io_map_err (auth_map_reqwest_error context) (transmit server request)"

definition auth_map_api_error :: "'x auth_ext_scheme \<Rightarrow> u16 \<Rightarrow> string \<Rightarrow> public_error" where
  "auth_map_api_error A status body =
     (case de_api_error A body of
        Ok api_error \<Rightarrow>
          let message = api_error_text api_error in
          if status = 401 then Validation (''authentication failed: '' @ message)
          else if status = 403 then Validation (''access denied: '' @ message)
          else if status = 404 then Validation (''not found: '' @ message)
          else if status = 400 \<or> status = 422 then Validation message
          else Unexpected (''API error ('' @ show_status status @ ''): '' @ message)
      | _ \<Rightarrow>
          if status = 401 then Validation ''authentication failed''
          else if status = 403 then Validation ''access denied''
          else if status = 404 then Validation ''resource not found''
          else Unexpected (''API error ('' @ show_status status @ ''): '' @ body))"

definition auth_error_response_text ::
  "'x auth_ext_scheme \<Rightarrow> http_response \<Rightarrow> string \<Rightarrow> string" where
  "auth_error_response_text A response context =
     (case rs_body response of
        Inr text \<Rightarrow> text
      | Inl e \<Rightarrow> ''failed to read '' @ context @ '' error response (status '' @
          status_display A (rs_status response) @ ''): '' @ e)"

definition parse_json_response ::
  "'x auth_ext_scheme \<Rightarrow> 'a de \<Rightarrow> http_response \<Rightarrow> string \<Rightarrow> 'a public_result" where
  "parse_json_response A parse response context =
     (if \<not> is_success (rs_status response) then
        Err (auth_map_api_error A (rs_status response) (auth_error_response_text A response context))
      else map_err (\<lambda>e. Unexpected (''failed to parse '' @ context @ '': '' @ e)) (response_json parse response))"

section \<open>OPAQUE\<close>

definition OPAQUE_SERVER_ID :: bytes where
  "OPAQUE_SERVER_ID = str_bytes ''worklist.api''"

record opaque_login_finish_message =
  ol_finish_message :: string
  ol_export_key :: string

definition opaque_login_start ::
  "'x auth_ext_scheme \<Rightarrow> bytes \<Rightarrow> string \<Rightarrow> (opaque_client \<times> string) public_result" where
  "opaque_login_start A rng password =
     map_ok (\<lambda>(state, message). (state, encode_bytes A message))
       (map_err (\<lambda>e. Crypto (''OPAQUE login start failed: '' @ e)) (opaque_start A rng (str_bytes password)))"

definition opaque_login_finish ::
  "'x auth_ext_scheme \<Rightarrow> bytes \<Rightarrow> opaque_client \<Rightarrow> string \<Rightarrow> string \<Rightarrow> string
   \<Rightarrow> opaque_login_finish_message public_result" where
  "opaque_login_finish A rng state email password server_response_b64 =
     and_then (decode_bytes A server_response_b64) (\<lambda>server_bytes.
     and_then (map_err (\<lambda>e. Crypto (''failed to deserialize server response: '' @ e))
                 (opaque_response_dec A server_bytes)) (\<lambda>response.
     let normalized_email = str_to_lowercase A (trim email) in
     map_ok (\<lambda>(message, export_key).
         \<lparr> ol_finish_message = encode_bytes A message, ol_export_key = encode_bytes A export_key \<rparr>)
       (map_err (\<lambda>e. Crypto (''OPAQUE login finish failed: '' @ e))
         (opaque_finish A state rng (str_bytes password) response (str_bytes normalized_email)
            OPAQUE_SERVER_ID))))"

section \<open>Login, refresh, logout\<close>

definition login_start_request :: "string \<Rightarrow> string \<Rightarrow> json" where
  "login_start_request email client_login_state =
     JObject [(''email'', JString email), (''clientLoginState'', JString client_login_state)]"

definition login_finish_request :: "string \<Rightarrow> string \<Rightarrow> json" where
  "login_finish_request session_token client_finish_message =
     JObject [(''sessionToken'', JString session_token),
       (''clientFinishMessage'', JString client_finish_message)]"

definition refresh_request :: "string \<Rightarrow> json" where
  "refresh_request refresh_token = JObject [(''refreshToken'', JString refresh_token)]"

definition post_json :: "string \<Rightarrow> json \<Rightarrow> http_request" where
  "post_json url body = \<lparr> rq_method = POST, rq_url = url, rq_bearer = None, rq_body = Some body \<rparr>"

definition auth_login ::
  "'x auth_ext_scheme \<Rightarrow> server \<Rightarrow> bytes \<Rightarrow> bytes \<Rightarrow> string \<Rightarrow> string \<Rightarrow> string
   \<Rightarrow> (http_request list, auth_response, public_error) rio" where
  "auth_login A server rng rng' base_url email password =
     io_then (io_return (opaque_login_start A rng password)) (\<lambda>(opaque_state, client_login_state).
     io_then (send_auth_request server
       (post_json (api_endpoint base_url ''/auth/opaque/login/start'') (login_start_request email client_login_state))
       ''login start'') (\<lambda>start_response.
     io_then (io_return (parse_json_response A (de_login_start A) start_response ''login start response''))
       (\<lambda>start_result.
     io_then (io_return (opaque_login_finish A rng' opaque_state email password (ls_server_login_state start_result)))
       (\<lambda>finish.
     io_then (send_auth_request server
       (post_json (api_endpoint base_url ''/auth/opaque/login/finish'')
         (login_finish_request (ls_session_token start_result) (ol_finish_message finish))) ''login finish'')
       (\<lambda>finish_response.
     io_map (ar_opaque_export_key_update (\<lambda>_. Some (ol_export_key finish)))
       (io_return (parse_json_response A (de_auth_response A) finish_response ''auth response'')))))))"

definition refresh_access_token ::
  "'x auth_ext_scheme \<Rightarrow> server \<Rightarrow> string \<Rightarrow> string
   \<Rightarrow> (http_request list, refresh_response, public_error) rio" where
  "refresh_access_token A server base_url refresh_token =
     io_then (send_auth_request server
       (post_json (api_endpoint base_url ''/auth/refresh'') (refresh_request refresh_token)) ''token refresh'')
     (\<lambda>response.
     io_return (parse_json_response A (de_refresh_response A) response ''refresh response''))"

definition auth_logout ::
  "'x auth_ext_scheme \<Rightarrow> server \<Rightarrow> string \<Rightarrow> string
   \<Rightarrow> (http_request list, string option, public_error) rio" where
  "auth_logout A server base_url refresh_token =
     io_map (\<lambda>response. if is_success (rs_status response) then None
         else Some (''server logout returned status '' @ status_display A (rs_status response)))
       (send_auth_request server
         (post_json (api_endpoint base_url ''/auth/logout'') (refresh_request refresh_token)) ''logout'')"

section \<open>Credentials from answers\<close>

definition expires_at_from ::
  "'x auth_ext_scheme \<Rightarrow> datetime \<Rightarrow> nat \<Rightarrow> string \<Rightarrow> datetime public_result" where
  "expires_at_from A now expires_in token_name =
     and_then (if expires_in < 2 ^ 63 then Ok (int expires_in)
       else Err (Unexpected (token_name @ '' ttl seconds overflow for expires_in='' @ show_nat expires_in @
         '': '' @ int_error A))) (\<lambda>seconds.
     and_then (ok_or (Unexpected (token_name @ '' ttl duration overflow for expires_in='' @ show_nat expires_in))
       (duration_try_seconds A seconds)) (\<lambda>ttl.
     ok_or (Unexpected (token_name @ '' expiry overflow for expires_in='' @ show_nat expires_in))
       (checked_add_signed A now ttl)))"

definition auth_response_to_credentials ::
  "'x auth_ext_scheme \<Rightarrow> datetime \<Rightarrow> string \<Rightarrow> auth_response \<Rightarrow> credentials public_result" where
  "auth_response_to_credentials A now api_url response =
     and_then (expires_at_from A now (ar_expires_in response) ''access token'') (\<lambda>access_expires_at.
     and_then (expires_at_from A now (ar_refresh_expires_in response) ''refresh token'') (\<lambda>refresh_expires_at.
     Ok \<lparr> cr_api_url = normalize_api_url A api_url, cr_access_token = ar_access_token response,
       cr_refresh_token = ar_refresh_token response, cr_access_expires_at = access_expires_at,
       cr_refresh_expires_at = refresh_expires_at, cr_user_id = ur_id (ar_user response),
       cr_email = ur_email (ar_user response),
       cr_data_key_ciphertext = ar_data_key_ciphertext response \<rparr>))"

text \<open>The credentials are the state: \<open>&mut Credentials\<close>.\<close>
definition update_credentials_with_refresh ::
  "'x auth_ext_scheme \<Rightarrow> datetime \<Rightarrow> refresh_response \<Rightarrow> (credentials, unit, public_error) rio" where
  "update_credentials_with_refresh A now response =
     io_then (io_return (expires_at_from A now (rr_expires_in response) ''access token'')) (\<lambda>access_expires_at.
     io_then (io_return (expires_at_from A now (rr_refresh_expires_in response) ''refresh token''))
       (\<lambda>refresh_expires_at.
     io_modify (\<lambda>c. c\<lparr> cr_access_token := rr_access_token response,
       cr_refresh_token := rr_refresh_token response, cr_access_expires_at := access_expires_at,
       cr_refresh_expires_at := refresh_expires_at \<rparr>)))"

section \<open>Theorems\<close>

lemma expires_at_from_Ok:
  assumes "chrono_laws A" "expires_at_from A now n name = Ok t"
  shows "t = now + int n * 10 ^ 9" "int n \<le> (2 ^ 63 - 1) div 1000"
proof -
  obtain d where "duration_try_seconds A (int n) = Some d" "checked_add_signed A now d = Some t"
    using assms(2) by (auto simp: expires_at_from_def split: if_splits)
  then show "t = now + int n * 10 ^ 9" "int n \<le> (2 ^ 63 - 1) div 1000"
    using assms(1) unfolding chrono_laws_def by auto
qed

lemma expires_at_from_neq_Abort [simp]: "expires_at_from A now n name \<noteq> Abort"
  by (auto simp: expires_at_from_def and_then_eq_Abort)

lemma expires_at_from_Err: "expires_at_from A now n name = Err e \<Longrightarrow> \<exists>m. e = Unexpected m"
  by (auto simp: expires_at_from_def and_then_eq_Err split: if_splits)

text \<open>Refreshing credentials is atomic: either a lifetime the server sent is out of range, and the
  credentials are as before, or both tokens and both expiries are replaced, the expiries by the
  times the lifetimes give, and the account they belong to is kept.\<close>
theorem refresh_update_atomic:
  assumes "chrono_laws A" "update_credentials_with_refresh A now resp c = (r, c')"
  shows "(\<exists>m. r = Err (Unexpected m)) \<and> c' = c \<or>
    r = Ok () \<and> cr_access_token c' = rr_access_token resp \<and> cr_refresh_token c' = rr_refresh_token resp \<and>
      cr_access_expires_at c' = now + int (rr_expires_in resp) * 10 ^ 9 \<and>
      cr_refresh_expires_at c' = now + int (rr_refresh_expires_in resp) * 10 ^ 9 \<and>
      cr_api_url c' = cr_api_url c \<and> cr_user_id c' = cr_user_id c \<and> cr_email c' = cr_email c \<and>
      cr_data_key_ciphertext c' = cr_data_key_ciphertext c"
proof (cases "expires_at_from A now (rr_expires_in resp) ''access token''")
  case (Ok t)
  show ?thesis
  proof (cases "expires_at_from A now (rr_refresh_expires_in resp) ''refresh token''")
    case (Ok t')
    then show ?thesis
      using assms(2) \<open>_ = Ok t\<close> expires_at_from_Ok [OF assms(1)]
      by (auto simp: update_credentials_with_refresh_def io_simps)
  qed (use assms(2) Ok in \<open>auto simp: update_credentials_with_refresh_def io_simps dest!: expires_at_from_Err\<close>)
qed (use assms(2) in \<open>auto simp: update_credentials_with_refresh_def io_simps dest!: expires_at_from_Err\<close>)

text \<open>The URL whose text \<open>canonicalize_api_url\<close> returns.\<close>
definition canonical_url :: "url \<Rightarrow> url" where
  "canonical_url u =
     (let v = (if default_port u then u\<lparr>url_port := None\<rparr> else u); p = trim_end_slashes (url_path u) in
      v\<lparr>url_path := if p = [] then ''/'' else p\<rparr>)"

definition base_url :: "url \<Rightarrow> bool" where
  "base_url u \<longleftrightarrow> http_scheme u \<and> url_host u \<noteq> None \<and> url_query u = None \<and> url_fragment u = None \<and>
     url_username u = [] \<and> url_password u = None"

text \<open>What the code relies on of \<open>reqwest::Url\<close> for an HTTP(S) URL it has parsed (WHATWG URL
  standard): a default port can be removed, the path with its last slashes trimmed can be set, where
  an empty path is a slash, and the text of the result is read back, also without a last slash.\<close>
definition url_laws :: "'x auth_ext_scheme \<Rightarrow> bool" where
  "url_laws A \<longleftrightarrow> (\<forall>s u. url_parse A s = Ok u \<longrightarrow> base_url u \<longrightarrow>
     (let v = (if default_port u then u\<lparr>url_port := None\<rparr> else u);
          text = trim_end_slashes (url_as_str A (canonical_url u)) in
      (default_port u \<longrightarrow> url_clear_port A u = Some v) \<and>
      url_set_path A v (trim_end_slashes (url_path u)) = canonical_url u \<and>
      trim text = text \<and> url_parse A text = Ok (canonical_url u)))"

lemma url_laws_parsed:
  assumes "url_laws A" "url_parse A s = Ok u" "base_url u"
  shows "default_port u \<Longrightarrow> url_clear_port A u = Some (u\<lparr>url_port := None\<rparr>)"
    and "default_port u \<Longrightarrow> url_set_path A (u\<lparr>url_port := None\<rparr>) (trim_end_slashes (url_path u)) = canonical_url u"
    and "\<not> default_port u \<Longrightarrow> url_set_path A u (trim_end_slashes (url_path u)) = canonical_url u"
    and "trim (trim_end_slashes (url_as_str A (canonical_url u))) = trim_end_slashes (url_as_str A (canonical_url u))"
    and "url_parse A (trim_end_slashes (url_as_str A (canonical_url u))) = Ok (canonical_url u)"
  using assms(1) [unfolded url_laws_def Let_def, rule_format, OF assms(2,3)] by simp_all

lemma trim_end_slashes_slash [simp]: "trim_end_slashes ''/'' = []"
  by (simp add: trim_end_slashes_def trim_end_char_def)

lemma canonicalize_base:
  assumes "url_laws A" "url_parse A (trim s) = Ok u" "base_url u"
  shows "canonicalize_api_url A s = Ok (trim_end_slashes (url_as_str A (canonical_url u)))"
proof -
  note laws = url_laws_parsed [OF assms]
  have base: "http_scheme u" "url_host u \<noteq> None" "url_query u = None" "url_fragment u = None"
    "url_username u = []" "url_password u = None"
    using assms(3) by (simp_all add: base_url_def)
  show ?thesis
  proof (cases "default_port u")
    case True
    then show ?thesis using laws(1,2)
      by (cases "url_path u = ''/''") (simp_all add: canonicalize_api_url_def assms(2) base Let_def)
  next
    case False
    then show ?thesis using laws(3)
      by (cases "url_path u = ''/''") (simp_all add: canonicalize_api_url_def assms(2) base Let_def)
  qed
qed

lemma canonicalize_base_only: "canonicalize_api_url A s = Ok t \<Longrightarrow> \<exists>u. url_parse A (trim s) = Ok u \<and> base_url u"
  by (cases "url_parse A (trim s)") (simp_all add: canonicalize_api_url_def base_url_def split: if_splits)

lemma canonicalize_eq_Ok:
  assumes "url_laws A"
  shows "canonicalize_api_url A s = Ok t \<longleftrightarrow> (\<exists>u. url_parse A (trim s) = Ok u \<and> base_url u \<and>
    t = trim_end_slashes (url_as_str A (canonical_url u)))"
proof
  assume l: "canonicalize_api_url A s = Ok t"
  then obtain u where "url_parse A (trim s) = Ok u" "base_url u" using canonicalize_base_only by blast
  with l canonicalize_base [OF assms this]
  show "\<exists>u. url_parse A (trim s) = Ok u \<and> base_url u \<and> t = trim_end_slashes (url_as_str A (canonical_url u))"
    by simp
qed (use canonicalize_base [OF assms] in blast)

lemma http_scheme_canonical [simp]: "http_scheme (canonical_url u) = http_scheme u"
  by (simp add: canonical_url_def Let_def http_scheme_def)

lemma base_url_canonical [simp]: "base_url (canonical_url u) = base_url u"
  unfolding base_url_def http_scheme_canonical by (simp add: canonical_url_def Let_def)

lemma default_port_canonical [simp]: "\<not> default_port (canonical_url u)"
  by (auto simp: default_port_def canonical_url_def Let_def)

lemma url_path_canonical:
  "url_path (canonical_url u) = (if trim_end_slashes (url_path u) = [] then ''/'' else trim_end_slashes (url_path u))"
  by (simp add: canonical_url_def Let_def)

lemma canonical_url_idem [simp]: "canonical_url (canonical_url u) = canonical_url u"
proof -
  let ?w = "canonical_url u" and ?p = "trim_end_slashes (url_path u)"
  have "(if trim_end_slashes (url_path ?w) = [] then ''/'' else trim_end_slashes (url_path ?w)) = url_path ?w"
    unfolding url_path_canonical by (cases "?p = []") simp_all
  then have "canonical_url ?w = ?w\<lparr>url_path := url_path ?w\<rparr>"
    by (subst canonical_url_def) (simp add: Let_def)
  then show ?thesis by simp
qed

lemma canonicalize_stable:
  assumes "url_laws A" "canonicalize_api_url A s = Ok t"
  shows "canonicalize_api_url A t = Ok t \<and> normalize_api_url A t = t \<and> normalize_api_url A s = t \<and>
    trim_end_slashes t = t \<and>
    (\<exists>u. url_parse A t = Ok u \<and> base_url u \<and> \<not> default_port u)"
proof -
  obtain u where u: "url_parse A (trim s) = Ok u" "base_url u"
      "t = trim_end_slashes (url_as_str A (canonical_url u))"
    using assms canonicalize_eq_Ok by blast
  then have t: "trim t = t" "url_parse A t = Ok (canonical_url u)"
    using url_laws_parsed(4,5) [OF assms(1)] by blast+
  moreover have "canonicalize_api_url A t = Ok t"
    unfolding canonicalize_eq_Ok [OF assms(1)] using t u by (intro exI [of _ "canonical_url u"]) simp
  ultimately show ?thesis using u assms(2) by (auto simp: normalize_api_url_def intro!: exI [of _ "canonical_url u"])
qed

text \<open>A canonical API URL is the text of an absolute HTTP(S) URL without credentials, query,
  fragment, default port or trailing slash, and is its own canonical form, so that credentials are
  found under the URL they were stored under.\<close>
theorem canonical_url_stable:
  assumes "url_laws A" "canonicalize_api_url A s = Ok t"
  shows "canonicalize_api_url A t = Ok t \<and> normalize_api_url A t = t \<and> normalize_api_url A s = t \<and>
    trim_end_slashes t = t \<and>
    (\<exists>u. url_parse A t = Ok u \<and> base_url u \<and> \<not> default_port u)"
  by (rule canonicalize_stable [OF assms])

text \<open>A login that succeeds has sent exactly two requests without credentials, the start and then
  the finish, and returns an export key whatever key the server's answer holds; a login that fails
  has sent no more than those two.\<close>
theorem login_requests:
  assumes "auth_login A server rng rng' base email password sent = (r, sent')"
  shows "\<exists>rqs. sent' = sent @ rqs \<and> map rq_url rqs = take (length rqs)
        [api_endpoint base ''/auth/opaque/login/start'', api_endpoint base ''/auth/opaque/login/finish''] \<and>
      (\<forall>rq\<in>set rqs. rq_method rq = POST \<and> rq_bearer rq = None) \<and> length rqs \<le> 2 \<and>
      (\<forall>resp. r = Ok resp \<longrightarrow> length rqs = 2 \<and> ar_opaque_export_key resp \<noteq> None)"
proof -
  let ?m = "auth_login A server rng rng' base email password"
  have step: "send_auth_request server rq c s = (map_err (auth_map_reqwest_error c) (server s rq), s @ [rq])"
    for rq c s by (simp add: send_auth_request_def io_simps)
  show ?thesis
    using assms unfolding auth_login_def io_then_def io_return_def io_map_def step
    by (auto simp: post_json_def split: rust_result.splits prod.splits)
qed

end
