(* ===== verification/Auth_Storage.thy ===== *)
theory Auth_Storage
  imports Auth_Http
begin

text \<open>\<open>crates/client-auth/src/storage.rs\<close>: credentials in files of the configuration directory, data
  keys and agent seeds in the platform keychain or in files.  The file system and the keychain are
  the state; which of their operations fail, and how, is a parameter, so every failure is covered.\<close>

section \<open>Files and the keychain\<close>

text \<open>A path is the list of its components.\<close>
type_synonym path = "string list"

record file_entry =
  fl_bytes :: bytes
  fl_mode :: nat

record device =
  dv_files :: "path \<rightharpoonup> file_entry"
  dv_dirs :: "path \<rightharpoonup> nat"
  dv_keyring :: "(string \<times> string) \<rightharpoonup> bytes"

text \<open>\<open>keyring::Error\<close>, as far as the code tells its values apart.\<close>
datatype keyring_error =
    NoEntry
  | PlatformFailure string
  | NoStorageAccess string
  | KeyringFailure string

datatype io_op =
    OpenFile path | ReadFile path | CreateFile path | WriteFile path | FlushFile path | SyncFile path
  | RenameFile path path | RemoveFile path | SyncDir path | CreateDir path | SetDirMode path

datatype keyring_op = NewEntry string string | GetSecret string string | SetSecret string string
  | DeleteSecret string string

record storage_ext = auth_ext +
  home_dir :: "path option"
  env_var :: "string \<Rightarrow> string option"
  io_fails :: "io_op \<Rightarrow> string option"
  partial_write :: "bytes \<Rightarrow> bytes"
  temp_nonce :: string
  path_display :: "path \<Rightarrow> string"
  keyring_fails :: "keyring_op \<Rightarrow> keyring_error option"
  keyring_display :: "keyring_error \<Rightarrow> string"
  credentials_ser :: "credentials \<Rightarrow> (bytes, string) rust_result"
  credentials_de :: "bytes \<Rightarrow> (credentials, string) rust_result"
  agent_credentials_ser :: "agent_credentials \<Rightarrow> (bytes, string) rust_result"
  agent_credentials_de :: "bytes \<Rightarrow> (agent_credentials, string) rust_result"

text \<open>An operation of the system, unless it fails: \<open>message\<close> makes the error from the system's.\<close>
definition io_do ::
  "'x storage_ext_scheme \<Rightarrow> io_op \<Rightarrow> (string \<Rightarrow> string) \<Rightarrow> (device \<Rightarrow> device) \<Rightarrow> (device, unit, public_error) rio"
  where
  "io_do W op message f = (\<lambda>d.
     case io_fails W op of
       Some e \<Rightarrow> (Err (Unexpected (message e)), d)
     | None \<Rightarrow> (Ok (), f d))"

definition file_exists :: "path \<Rightarrow> device \<Rightarrow> bool" where
  "file_exists p d \<longleftrightarrow> dv_files d p \<noteq> None"

definition put_file :: "path \<Rightarrow> file_entry \<Rightarrow> device \<Rightarrow> device" where
  "put_file p f d = d\<lparr>dv_files := (dv_files d)(p \<mapsto> f)\<rparr>"

definition drop_file :: "path \<Rightarrow> device \<Rightarrow> device" where
  "drop_file p d = d\<lparr>dv_files := (dv_files d)(p := None)\<rparr>"

section \<open>Paths\<close>

definition config_dir :: "'x storage_ext_scheme \<Rightarrow> path public_result" where
  "config_dir W =
     ok_or (Unexpected ''could not determine home directory'')
       (map_option (\<lambda>home. home @ [''.worklist'']) (home_dir W))"

definition credentials_path :: "'x storage_ext_scheme \<Rightarrow> path public_result" where
  "credentials_path W = map_ok (\<lambda>dir. dir @ [''credentials.json'']) (config_dir W)"

definition agent_credentials_path :: "'x storage_ext_scheme \<Rightarrow> path public_result" where
  "agent_credentials_path W = map_ok (\<lambda>dir. dir @ [''agent.json'']) (config_dir W)"

section \<open>Configuration files\<close>

definition set_config_dir_permissions :: "'x storage_ext_scheme \<Rightarrow> path \<Rightarrow> (device, unit, public_error) rio" where
  "set_config_dir_permissions W dir =
     io_do W (SetDirMode dir) (\<lambda>e. ''failed to set config directory permissions on '' @ path_display W dir @ '': '' @ e)
       (\<lambda>d. d\<lparr>dv_dirs := (dv_dirs d)(dir \<mapsto> 448)\<rparr>)"

definition SECRET_MODE :: nat where "SECRET_MODE = 384"

definition create_secret_file ::
  "'x storage_ext_scheme \<Rightarrow> path \<Rightarrow> (string \<Rightarrow> string) \<Rightarrow> (device, unit, public_error) rio" where
  "create_secret_file W p message = (\<lambda>d.
     if file_exists p d then (Err (Unexpected (message ''File exists (os error 17)'')), d)
     else io_do W (CreateFile p) message (put_file p \<lparr> fl_bytes = [], fl_mode = SECRET_MODE \<rparr>) d)"

text \<open>The contents of a file that is open; its mode stays.\<close>
definition set_contents :: "path \<Rightarrow> bytes \<Rightarrow> device \<Rightarrow> device" where
  "set_contents p contents d =
     d\<lparr>dv_files := (dv_files d)(p := map_option (\<lambda>f. f\<lparr>fl_bytes := contents\<rparr>) (dv_files d p))\<rparr>"

definition write_all ::
  "'x storage_ext_scheme \<Rightarrow> path \<Rightarrow> bytes \<Rightarrow> (string \<Rightarrow> string) \<Rightarrow> (device, unit, public_error) rio" where
  "write_all W p contents message = (\<lambda>d.
     case io_fails W (WriteFile p) of
       Some e \<Rightarrow> (Err (Unexpected (message e)), set_contents p (partial_write W contents) d)
     | None \<Rightarrow> (Ok (), set_contents p contents d))"

definition rename_file :: "path \<Rightarrow> path \<Rightarrow> device \<Rightarrow> device" where
  "rename_file p q d = d\<lparr>dv_files := (dv_files d)(q := dv_files d p, p := None)\<rparr>"

definition temporary_secret_path :: "'x storage_ext_scheme \<Rightarrow> path \<Rightarrow> path" where
  "temporary_secret_path W p =
     (let file_name = (if p = [] then ''secret'' else last p) in
      butlast p @ [''.'' @ file_name @ ''.'' @ temp_nonce W @ ''.tmp''])"

definition sync_directory :: "'x storage_ext_scheme \<Rightarrow> path \<Rightarrow> string \<Rightarrow> (device, unit, public_error) rio" where
  "sync_directory W p label =
     io_do W (SyncDir p)
       (\<lambda>e. ''failed to sync '' @ label @ '' parent directory '' @ path_display W p @ '': '' @ e) id"

text \<open>The closure whose result decides whether the temporary file is removed.\<close>
definition write_temporary ::
  "'x storage_ext_scheme \<Rightarrow> path \<Rightarrow> path \<Rightarrow> bytes \<Rightarrow> string \<Rightarrow> (device, unit, public_error) rio" where
  "write_temporary W temp_path p contents label =
     (let failed = (\<lambda>what q e. ''failed to '' @ what @ label @ '' file '' @ path_display W q @ '': '' @ e) in
      io_then (write_all W temp_path contents (failed ''write temporary '' temp_path)) (\<lambda>_.
      io_then (io_do W (FlushFile temp_path) (failed ''flush temporary '' temp_path) id) (\<lambda>_.
      io_then (io_do W (SyncFile temp_path) (failed ''sync temporary '' temp_path) id) (\<lambda>_.
      io_then (io_do W (RenameFile temp_path p) (failed ''replace '' p) (rename_file temp_path p)) (\<lambda>_.
      sync_directory W (butlast p) label)))))"

text \<open>\<open>fs::remove_file\<close> of the temporary file: that it is not there is no error.\<close>
definition remove_temporary ::
  "'x storage_ext_scheme \<Rightarrow> path \<Rightarrow> string \<Rightarrow> public_error \<Rightarrow> (device, unit, public_error) rio" where
  "remove_temporary W temp_path label original_error = (\<lambda>d.
     if \<not> file_exists temp_path d then (Err original_error, d)
     else (case io_fails W (RemoveFile temp_path) of
       None \<Rightarrow> (Err original_error, drop_file temp_path d)
     | Some e \<Rightarrow> (Err (Unexpected (public_display original_error @
         ''; additionally failed to remove temporary '' @ label @ '' file '' @ path_display W temp_path @ '': '' @ e)), d)))"

definition write_secret_file_atomic ::
  "'x storage_ext_scheme \<Rightarrow> path \<Rightarrow> bytes \<Rightarrow> string \<Rightarrow> (device, unit, public_error) rio" where
  "write_secret_file_atomic W p contents label =
     (if p = [] then io_return (Err (Unexpected (label @ '' file path has no parent directory'')))
      else
        let temp_path = temporary_secret_path W p in
        io_then (create_secret_file W temp_path
          (\<lambda>e. ''failed to create temporary '' @ label @ '' file '' @ path_display W temp_path @ '': '' @ e)) (\<lambda>_ d.
        case write_temporary W temp_path p contents label d of
          (Err original_error, d) \<Rightarrow> remove_temporary W temp_path label original_error d
        | done \<Rightarrow> done))"

definition ensure_config_dir :: "'x storage_ext_scheme \<Rightarrow> (device, path, public_error) rio" where
  "ensure_config_dir W =
     io_then (io_return (config_dir W)) (\<lambda>dir.
     io_then (\<lambda>d. if dv_dirs d dir \<noteq> None then (Ok (), d)
       else io_do W (CreateDir dir) (\<lambda>e. ''failed to create config directory: '' @ e)
         (\<lambda>d. d\<lparr>dv_dirs := (dv_dirs d)(dir \<mapsto> 493)\<rparr>) d) (\<lambda>_.
     io_map (\<lambda>_. dir) (set_config_dir_permissions W dir)))"

definition load_config_file ::
  "'x storage_ext_scheme \<Rightarrow> (bytes \<Rightarrow> ('a, string) rust_result) \<Rightarrow> path \<Rightarrow> string
   \<Rightarrow> (device, 'a option, public_error) rio" where
  "load_config_file W de p label = (\<lambda>d.
     case dv_files d p of
       None \<Rightarrow> (Ok None, d)
     | Some f \<Rightarrow>
         io_then (io_do W (OpenFile p) (\<lambda>e. ''failed to open '' @ label @ '' file: '' @ e) id) (\<lambda>_.
         io_return (map_ok Some (map_err (\<lambda>e. Unexpected (''failed to parse '' @ label @ '' file: '' @ e))
           (de (fl_bytes f))))) d)"

definition save_config_file ::
  "'x storage_ext_scheme \<Rightarrow> ('a \<Rightarrow> (bytes, string) rust_result) \<Rightarrow> path \<Rightarrow> 'a \<Rightarrow> string
   \<Rightarrow> (device, unit, public_error) rio" where
  "save_config_file W ser p v label =
     io_then (ensure_config_dir W) (\<lambda>_.
     io_then (io_return (map_err (\<lambda>e. Unexpected (''failed to write '' @ label @ '' file: '' @ e)) (ser v)))
       (\<lambda>contents.
     write_secret_file_atomic W p contents label))"

text \<open>\<open>if path.exists() { fs::remove_file(path)? }\<close>.\<close>
definition remove_if_exists ::
  "'x storage_ext_scheme \<Rightarrow> path \<Rightarrow> (string \<Rightarrow> string) \<Rightarrow> (device, unit, public_error) rio" where
  "remove_if_exists W p message = (\<lambda>d.
     if file_exists p d then io_do W (RemoveFile p) message (drop_file p) d else (Ok (), d))"

definition remove_config_file :: "'x storage_ext_scheme \<Rightarrow> path \<Rightarrow> string \<Rightarrow> (device, unit, public_error) rio" where
  "remove_config_file W p label =
     remove_if_exists W p (\<lambda>e. ''failed to remove '' @ label @ '' file: '' @ e)"

section \<open>Stored credentials\<close>

definition load_credentials :: "'x storage_ext_scheme \<Rightarrow> (device, credentials option, public_error) rio" where
  "load_credentials W =
     io_then (io_return (credentials_path W)) (\<lambda>p. load_config_file W (credentials_de W) p ''credentials'')"

definition load_credentials_for_url ::
  "'x storage_ext_scheme \<Rightarrow> string \<Rightarrow> (device, credentials option, public_error) rio" where
  "load_credentials_for_url W api_url =
     io_map (\<lambda>r. case r of
         Some c \<Rightarrow> if cr_api_url c = normalize_api_url W api_url then Some c else None
       | None \<Rightarrow> None)
       (load_credentials W)"

definition load_agent_credentials ::
  "'x storage_ext_scheme \<Rightarrow> (device, agent_credentials option, public_error) rio" where
  "load_agent_credentials W =
     io_then (io_return (agent_credentials_path W))
       (\<lambda>p. load_config_file W (agent_credentials_de W) p ''agent credentials'')"

definition load_agent_credentials_for_url ::
  "'x storage_ext_scheme \<Rightarrow> string \<Rightarrow> (device, agent_credentials option, public_error) rio" where
  "load_agent_credentials_for_url W api_url =
     io_map (\<lambda>r. case r of
         Some c \<Rightarrow> if ac_api_url c = normalize_api_url W api_url then Some c else None
       | None \<Rightarrow> None)
       (load_agent_credentials W)"

definition load_principal_credentials_for_url ::
  "'x storage_ext_scheme \<Rightarrow> string \<Rightarrow> principal_selection
   \<Rightarrow> (device, principal_credentials option, public_error) rio" where
  "load_principal_credentials_for_url W api_url selection =
     io_then (load_credentials_for_url W api_url) (\<lambda>user_credentials.
     io_then (load_agent_credentials_for_url W api_url) (\<lambda>agent_credentials.
     io_return (select_principal_credentials selection user_credentials agent_credentials)))"

definition save_credentials :: "'x storage_ext_scheme \<Rightarrow> credentials \<Rightarrow> (device, unit, public_error) rio" where
  "save_credentials W c =
     io_then (io_return (credentials_path W)) (\<lambda>p. save_config_file W (credentials_ser W) p c ''credentials'')"

definition save_agent_credentials ::
  "'x storage_ext_scheme \<Rightarrow> agent_credentials \<Rightarrow> (device, unit, public_error) rio" where
  "save_agent_credentials W c =
     io_then (io_return (agent_credentials_path W))
       (\<lambda>p. save_config_file W (agent_credentials_ser W) p c ''agent credentials'')"

definition clear_credentials :: "'x storage_ext_scheme \<Rightarrow> (device, unit, public_error) rio" where
  "clear_credentials W =
     io_then (io_return (credentials_path W)) (\<lambda>p. remove_config_file W p ''credentials'')"

definition clear_agent_credentials :: "'x storage_ext_scheme \<Rightarrow> (device, unit, public_error) rio" where
  "clear_agent_credentials W =
     io_then (io_return (agent_credentials_path W)) (\<lambda>p. remove_config_file W p ''agent credentials'')"

section \<open>The persisted data key\<close>

definition DATA_KEY_KEYCHAIN_SERVICE :: string where "DATA_KEY_KEYCHAIN_SERVICE = ''worklist.data-key''"
definition TEST_KEYCHAIN_DIR_ENV :: string where "TEST_KEYCHAIN_DIR_ENV = ''WORKLIST_TEST_KEYCHAIN_DIR''"
definition AGENT_SEED_KEYCHAIN_SERVICE :: string where
  "AGENT_SEED_KEYCHAIN_SERVICE = ''worklist.agent-seed''"
definition AGENT_SEED_FILE_ONLY_ENV :: string where
  "AGENT_SEED_FILE_ONLY_ENV = ''WORKLIST_AGENT_SEED_FILE_ONLY''"

definition map_keyring_error :: "'x storage_ext_scheme \<Rightarrow> string \<Rightarrow> keyring_error \<Rightarrow> public_error" where
  "map_keyring_error W action e = Validation (''failed to '' @ action @ '': '' @ keyring_display W e)"

text \<open>The operations of a \<open>keyring::Entry\<close>.\<close>
definition keyring_new :: "'x storage_ext_scheme \<Rightarrow> string \<Rightarrow> string \<Rightarrow> (string \<times> string, keyring_error) rust_result"
  where
  "keyring_new W service name =
     (case keyring_fails W (NewEntry service name) of Some e \<Rightarrow> Err e | None \<Rightarrow> Ok (service, name))"

definition keyring_get ::
  "'x storage_ext_scheme \<Rightarrow> string \<times> string \<Rightarrow> (device, bytes, keyring_error) rio" where
  "keyring_get W entry = (\<lambda>d.
     (case keyring_fails W (GetSecret (fst entry) (snd entry)) of
        Some e \<Rightarrow> Err e | None \<Rightarrow> ok_or NoEntry (dv_keyring d entry), d))"

definition keyring_set ::
  "'x storage_ext_scheme \<Rightarrow> string \<times> string \<Rightarrow> bytes \<Rightarrow> (device, unit, keyring_error) rio" where
  "keyring_set W entry secret = (\<lambda>d.
     case keyring_fails W (SetSecret (fst entry) (snd entry)) of
       Some e \<Rightarrow> (Err e, d)
     | None \<Rightarrow> (Ok (), d\<lparr>dv_keyring := (dv_keyring d)(entry \<mapsto> secret)\<rparr>))"

definition keyring_delete :: "'x storage_ext_scheme \<Rightarrow> string \<times> string \<Rightarrow> (device, unit, keyring_error) rio" where
  "keyring_delete W entry = (\<lambda>d.
     case keyring_fails W (DeleteSecret (fst entry) (snd entry)) of
       Some e \<Rightarrow> (Err e, d)
     | None \<Rightarrow> if dv_keyring d entry = None then (Err NoEntry, d)
         else (Ok (), d\<lparr>dv_keyring := (dv_keyring d)(entry := None)\<rparr>))"

definition data_key_fingerprint :: "'x storage_ext_scheme \<Rightarrow> string \<Rightarrow> string public_result" where
  "data_key_fingerprint W data_key_ciphertext =
     map_ok (\<lambda>b. b64_url_nopad_enc W (sha256 W b)) (decode_bytes W data_key_ciphertext)"

definition persisted_data_key_entry_name :: "'x storage_ext_scheme \<Rightarrow> credentials \<Rightarrow> string public_result" where
  "persisted_data_key_entry_name W c =
     map_ok (\<lambda>fingerprint. normalize_api_url W (cr_api_url c) @ ''::'' @ uuid_display W (cr_user_id c) @
         ''::'' @ fingerprint)
       (data_key_fingerprint W (cr_data_key_ciphertext c))"

definition platform_keyring_entry :: "'x storage_ext_scheme \<Rightarrow> credentials \<Rightarrow> (string \<times> string) public_result" where
  "platform_keyring_entry W c =
     and_then (persisted_data_key_entry_name W c) (\<lambda>entry_name.
     map_err (map_keyring_error W ''create the platform keychain entry'')
       (keyring_new W DATA_KEY_KEYCHAIN_SERVICE entry_name))"

definition test_persisted_data_key_path :: "'x storage_ext_scheme \<Rightarrow> path \<Rightarrow> credentials \<Rightarrow> path public_result" where
  "test_persisted_data_key_path W dir c =
     map_ok (\<lambda>entry_name. dir @ [''persisted-data-key-'' @
         b64_url_nopad_enc W (sha256 W (str_bytes entry_name)) @ ''.bin''])
       (persisted_data_key_entry_name W c)"

definition load_test_persisted_data_key ::
  "'x storage_ext_scheme \<Rightarrow> path \<Rightarrow> credentials \<Rightarrow> (device, bytes option, public_error) rio" where
  "load_test_persisted_data_key W dir c =
     io_then (io_return (test_persisted_data_key_path W dir c)) (\<lambda>p d.
     case dv_files d p of
       None \<Rightarrow> (Ok None, d)
     | Some f \<Rightarrow> io_map (\<lambda>_. Some (fl_bytes f))
         (io_do W (ReadFile p) (\<lambda>e. ''failed to read the persisted test keychain secret '' @
           path_display W p @ '': '' @ e) id) d)"

definition save_test_persisted_data_key ::
  "'x storage_ext_scheme \<Rightarrow> path \<Rightarrow> credentials \<Rightarrow> bytes \<Rightarrow> (device, unit, public_error) rio" where
  "save_test_persisted_data_key W dir c data_key =
     io_then (io_do W (CreateDir dir) (\<lambda>e. ''failed to create the persisted test keychain directory '' @
         path_display W dir @ '': '' @ e)
       (\<lambda>d. if dv_dirs d dir = None then d\<lparr>dv_dirs := (dv_dirs d)(dir \<mapsto> 493)\<rparr> else d)) (\<lambda>_.
     io_then (set_config_dir_permissions W dir) (\<lambda>_.
     io_then (io_return (test_persisted_data_key_path W dir c)) (\<lambda>p.
     write_secret_file_atomic W p data_key ''persisted test keychain secret'')))"

definition clear_test_persisted_data_key ::
  "'x storage_ext_scheme \<Rightarrow> path \<Rightarrow> credentials \<Rightarrow> (device, unit, public_error) rio" where
  "clear_test_persisted_data_key W dir c =
     io_then (io_return (test_persisted_data_key_path W dir c)) (\<lambda>p.
     remove_if_exists W p (\<lambda>e. ''failed to remove the persisted test keychain secret '' @
       path_display W p @ '': '' @ e))"

datatype persisted_data_key_backend = PlatformKeyring | TestDirectory path

definition backend_load ::
  "'x storage_ext_scheme \<Rightarrow> persisted_data_key_backend \<Rightarrow> credentials \<Rightarrow> (device, bytes option, public_error) rio"
  where
  "backend_load W backend c =
     (case backend of
        PlatformKeyring \<Rightarrow>
          io_then (io_return (platform_keyring_entry W c)) (\<lambda>entry d.
          case keyring_get W entry d of
            (Ok secret, d) \<Rightarrow> (Ok (Some secret), d)
          | (Err NoEntry, d) \<Rightarrow> (Ok None, d)
          | (Err e, d) \<Rightarrow> (Err (map_keyring_error W ''read from the platform keychain'' e), d)
          | (Abort, d) \<Rightarrow> (Abort, d))
      | TestDirectory dir \<Rightarrow> load_test_persisted_data_key W dir c)"

definition backend_save ::
  "'x storage_ext_scheme \<Rightarrow> persisted_data_key_backend \<Rightarrow> credentials \<Rightarrow> bytes \<Rightarrow> (device, unit, public_error) rio"
  where
  "backend_save W backend c data_key =
     (case backend of
        PlatformKeyring \<Rightarrow>
          io_then (io_return (platform_keyring_entry W c)) (\<lambda>entry.
          io_map_err (map_keyring_error W ''write to the platform keychain'') (keyring_set W entry data_key))
      | TestDirectory dir \<Rightarrow> save_test_persisted_data_key W dir c data_key)"

definition backend_clear ::
  "'x storage_ext_scheme \<Rightarrow> persisted_data_key_backend \<Rightarrow> credentials \<Rightarrow> (device, unit, public_error) rio" where
  "backend_clear W backend c =
     (case backend of
        PlatformKeyring \<Rightarrow>
          io_then (io_return (platform_keyring_entry W c)) (\<lambda>entry d.
          case keyring_delete W entry d of
            (Ok _, d) \<Rightarrow> (Ok (), d)
          | (Err NoEntry, d) \<Rightarrow> (Ok (), d)
          | (Err e, d) \<Rightarrow> (Err (map_keyring_error W ''clear the platform keychain entry'' e), d)
          | (Abort, d) \<Rightarrow> (Abort, d))
      | TestDirectory dir \<Rightarrow> clear_test_persisted_data_key W dir c)"

text \<open>A directory named in the environment; relative and absolute paths alike are one component.\<close>
definition current_backend :: "'x storage_ext_scheme \<Rightarrow> persisted_data_key_backend" where
  "current_backend W =
     (case env_var W TEST_KEYCHAIN_DIR_ENV of
        Some dir \<Rightarrow> if trim dir \<noteq> [] then TestDirectory [dir] else PlatformKeyring
      | None \<Rightarrow> PlatformKeyring)"

definition load_persisted_data_key ::
  "'x storage_ext_scheme \<Rightarrow> credentials \<Rightarrow> (device, bytes option, public_error) rio" where
  "load_persisted_data_key W c = backend_load W (current_backend W) c"

definition save_persisted_data_key ::
  "'x storage_ext_scheme \<Rightarrow> credentials \<Rightarrow> bytes \<Rightarrow> (device, unit, public_error) rio" where
  "save_persisted_data_key W c data_key = backend_save W (current_backend W) c data_key"

definition clear_persisted_data_key ::
  "'x storage_ext_scheme \<Rightarrow> credentials \<Rightarrow> (device, unit, public_error) rio" where
  "clear_persisted_data_key W c = backend_clear W (current_backend W) c"

definition persisted_data_key_status ::
  "'x storage_ext_scheme \<Rightarrow> credentials \<Rightarrow> device \<Rightarrow> persisted_status" where
  "persisted_data_key_status W c d =
     (case fst (load_persisted_data_key W c d) of
        Ok (Some _) \<Rightarrow> Available
      | Ok None \<Rightarrow> Missing
      | Err e \<Rightarrow> Unavailable (public_display e)
      | Abort \<Rightarrow> Unavailable [])"

section \<open>The agent seed\<close>

definition should_force_agent_seed_file_backend :: "'x storage_ext_scheme \<Rightarrow> bool" where
  "should_force_agent_seed_file_backend W \<longleftrightarrow>
     (case env_var W AGENT_SEED_FILE_ONLY_ENV of
        Some v \<Rightarrow> trim v \<in> {''1'', ''true'', ''yes'', ''on''}
      | None \<Rightarrow> False)"

fun should_fallback_from_keyring :: "keyring_error \<Rightarrow> bool" where
  "should_fallback_from_keyring (PlatformFailure _) = True"
| "should_fallback_from_keyring (NoStorageAccess _) = True"
| "should_fallback_from_keyring _ = False"

definition decode_agent_seed_bytes :: "bytes \<Rightarrow> string \<Rightarrow> bytes public_result" where
  "decode_agent_seed_bytes secret source =
     (if length secret \<noteq> 32 then Err (Validation (source @ '' has invalid length'')) else Ok secret)"

definition agent_seed_entry_name :: "'x storage_ext_scheme \<Rightarrow> agent_credentials \<Rightarrow> string" where
  "agent_seed_entry_name W c = normalize_api_url W (ac_api_url c) @ ''::'' @ uuid_display W (ac_agent_id c)"

definition agent_seed_file_path :: "'x storage_ext_scheme \<Rightarrow> agent_credentials \<Rightarrow> path public_result" where
  "agent_seed_file_path W c =
     map_ok (\<lambda>dir. dir @ [''agent-seed-'' @
         b64_url_nopad_enc W (sha256 W (str_bytes (agent_seed_entry_name W c))) @ ''.bin''])
       (config_dir W)"

definition agent_seed_keyring_entry ::
  "'x storage_ext_scheme \<Rightarrow> agent_credentials \<Rightarrow> (string \<times> string) public_result" where
  "agent_seed_keyring_entry W c =
     map_err (map_keyring_error W ''create the agent seed keychain entry'')
       (keyring_new W AGENT_SEED_KEYCHAIN_SERVICE (agent_seed_entry_name W c))"

definition load_agent_seed_from_file ::
  "'x storage_ext_scheme \<Rightarrow> agent_credentials \<Rightarrow> (device, bytes option, public_error) rio" where
  "load_agent_seed_from_file W c =
     io_then (io_return (agent_seed_file_path W c)) (\<lambda>p d.
     case dv_files d p of
       None \<Rightarrow> (Ok None, d)
     | Some f \<Rightarrow>
         io_then (io_do W (ReadFile p) (\<lambda>e. ''failed to read the local agent seed file '' @
           path_display W p @ '': '' @ e) id) (\<lambda>_.
         io_return (map_ok Some (decode_agent_seed_bytes (fl_bytes f) ''local agent seed file''))) d)"

definition save_agent_seed_to_file ::
  "'x storage_ext_scheme \<Rightarrow> agent_credentials \<Rightarrow> bytes \<Rightarrow> (device, unit, public_error) rio" where
  "save_agent_seed_to_file W c seed =
     io_then (ensure_config_dir W) (\<lambda>_.
     io_then (io_return (agent_seed_file_path W c)) (\<lambda>p.
     write_secret_file_atomic W p seed ''local agent seed''))"

definition clear_agent_seed_file ::
  "'x storage_ext_scheme \<Rightarrow> agent_credentials \<Rightarrow> (device, unit, public_error) rio" where
  "clear_agent_seed_file W c =
     io_then (io_return (agent_seed_file_path W c)) (\<lambda>p.
     remove_if_exists W p (\<lambda>e. ''failed to remove the local agent seed file '' @ path_display W p @ '': '' @ e))"

definition save_agent_seed ::
  "'x storage_ext_scheme \<Rightarrow> agent_credentials \<Rightarrow> bytes \<Rightarrow> (device, unit, public_error) rio" where
  "save_agent_seed W c seed =
     (if should_force_agent_seed_file_backend W then save_agent_seed_to_file W c seed
      else io_then (io_return (agent_seed_keyring_entry W c)) (\<lambda>entry d.
        case keyring_set W entry seed d of
          (Ok _, d) \<Rightarrow> clear_agent_seed_file W c d
        | (Err e, d) \<Rightarrow>
            if should_fallback_from_keyring e then save_agent_seed_to_file W c seed d
            else (Err (map_keyring_error W ''write agent seed to the platform keychain'' e), d)
        | (Abort, d) \<Rightarrow> (Abort, d)))"

definition load_agent_seed ::
  "'x storage_ext_scheme \<Rightarrow> agent_credentials \<Rightarrow> (device, bytes option, public_error) rio" where
  "load_agent_seed W c =
     (if should_force_agent_seed_file_backend W then load_agent_seed_from_file W c
      else io_then (io_return (agent_seed_keyring_entry W c)) (\<lambda>entry d.
        case keyring_get W entry d of
          (Ok secret, d) \<Rightarrow> (map_ok Some (decode_agent_seed_bytes secret ''agent seed in keychain''), d)
        | (Err e, d) \<Rightarrow>
            if e = NoEntry \<or> should_fallback_from_keyring e then load_agent_seed_from_file W c d
            else (Err (map_keyring_error W ''read agent seed from the platform keychain'' e), d)
        | (Abort, d) \<Rightarrow> (Abort, d)))"

definition clear_agent_seed ::
  "'x storage_ext_scheme \<Rightarrow> agent_credentials \<Rightarrow> (device, unit, public_error) rio" where
  "clear_agent_seed W c =
     (if should_force_agent_seed_file_backend W then clear_agent_seed_file W c
      else io_then (io_return (agent_seed_keyring_entry W c)) (\<lambda>entry d.
        case keyring_delete W entry d of
          (Ok _, d) \<Rightarrow> clear_agent_seed_file W c d
        | (Err e, d) \<Rightarrow>
            if e = NoEntry \<or> should_fallback_from_keyring e then clear_agent_seed_file W c d
            else (Err (map_keyring_error W ''clear the agent seed platform keychain entry'' e), d)
        | (Abort, d) \<Rightarrow> (Abort, d)))"

end
