(* ===== verification/Crypto_Keys.thy ===== *)
theory Crypto_Keys
  imports Crypto_Seal_Thms
begin

text \<open>\<open>crates/client-crypto/src/keys.rs\<close>: derivation of keys from passwords, export keys and parent
  keys, and the unwrapping of data keys and work-list keys.\<close>

section \<open>Derivation\<close>

definition derive_master_key ::
  "'x client_ext_scheme \<Rightarrow> bytes \<Rightarrow> bytes \<Rightarrow> symmetric_key public_result" where
  "derive_master_key X secret salt =
     (if length salt < 8 then Err (Validation ''salt must be at least 8 bytes'')
      else
        map_ok SymmetricKey
          (map_err (\<lambda>e. Crypto (''argon2id derivation failed: '' @ e)) (argon2id X secret salt)))"

text \<open>\<open>Hkdf::<Sha256>::new(None, ikm)\<close> and \<open>expand\<close> into 32 bytes.\<close>
definition hkdf_new_expand ::
  "'x client_ext_scheme \<Rightarrow> bytes \<Rightarrow> bytes \<Rightarrow> symmetric_key public_result" where
  "hkdf_new_expand X ikm info =
     map_ok SymmetricKey
       (ok_or (Crypto (''hkdf expansion failed: '' @ hkdf_error X))
         (hkdf_expand X (hkdf_extract X None ikm) info 32))"

definition derive_child_key ::
  "'x client_ext_scheme \<Rightarrow> symmetric_key \<Rightarrow> bytes \<Rightarrow> symmetric_key public_result" where
  "derive_child_key X parent purpose = hkdf_new_expand X (sym_bytes parent) purpose"

definition derive_work_list_key ::
  "'x client_ext_scheme \<Rightarrow> symmetric_key \<Rightarrow> uuid \<Rightarrow> symmetric_key public_result" where
  "derive_work_list_key X data_key work_list_id =
     derive_child_key X data_key (str_bytes (''worklist:'' @ uuid_display X work_list_id))"

definition derive_payload_binding_key ::
  "'x client_ext_scheme \<Rightarrow> symmetric_key \<Rightarrow> symmetric_key public_result" where
  "derive_payload_binding_key X list_key = derive_child_key X list_key (str_bytes ''member:payload-binding'')"

definition OPAQUE_EXPORT_KEY_INFO :: bytes where
  "OPAQUE_EXPORT_KEY_INFO = str_bytes ''worklist.opaque.export_key.data_key.v1''"

definition derive_data_key_wrapping_key ::
  "'x client_ext_scheme \<Rightarrow> string \<Rightarrow> symmetric_key public_result" where
  "derive_data_key_wrapping_key X opaque_export_key =
     and_then (decode_base64 X opaque_export_key) (\<lambda>export_key_bytes.
     if export_key_bytes = [] then Err (Validation ''OPAQUE export key cannot be empty'')
     else hkdf_new_expand X export_key_bytes OPAQUE_EXPORT_KEY_INFO)"

section \<open>The user's data key\<close>

definition OPAQUE_EXPORT_KEY_REQUIRED_MESSAGE :: string where
  "OPAQUE_EXPORT_KEY_REQUIRED_MESSAGE =
     ''OPAQUE export key is required to decrypt this data key payload; run auth login again''"

definition is_opaque_export_key_required_error :: "public_error \<Rightarrow> bool" where
  "is_opaque_export_key_required_error e =
     (case e of Validation m \<Rightarrow> m = OPAQUE_EXPORT_KEY_REQUIRED_MESSAGE | _ \<Rightarrow> False)"

definition decrypt_data_key_with_wrapping_key ::
  "'x client_ext_scheme \<Rightarrow> symmetric_key \<Rightarrow> bytes \<Rightarrow> symmetric_key public_result" where
  "decrypt_data_key_with_wrapping_key X wrapping_key sealed =
     and_then (key_ring_strong_box X (key_ring_new wrapping_key)) (\<lambda>sb.
     and_then (map_err (\<lambda>e. Crypto (''failed to decrypt data key: '' @ error_display e))
                 (static_decrypt X sb sealed USER_DATA_KEY_CONTEXT))
       symmetric_key_from_bytes)"

definition decrypt_legacy_user_data_key ::
  "'x client_ext_scheme \<Rightarrow> string \<Rightarrow> bytes \<Rightarrow> symmetric_key public_result" where
  "decrypt_legacy_user_data_key X password payload =
     (if length payload \<le> 32 then Err (Validation ''data key payload is truncated'')
      else
        and_then (derive_master_key X (str_bytes password) (take 32 payload)) (\<lambda>wrapping_key.
        decrypt_data_key_with_wrapping_key X wrapping_key (drop 32 payload)))"

definition decrypt_opaque_user_data_key ::
  "'x client_ext_scheme \<Rightarrow> string \<Rightarrow> bytes \<Rightarrow> symmetric_key public_result" where
  "decrypt_opaque_user_data_key X opaque_export_key sealed =
     and_then (derive_data_key_wrapping_key X opaque_export_key) (\<lambda>wrapping_key.
     decrypt_data_key_with_wrapping_key X wrapping_key sealed)"

definition decrypt_user_data_key_with_login_secret ::
  "'x client_ext_scheme \<Rightarrow> string \<Rightarrow> string option \<Rightarrow> string \<Rightarrow> symmetric_key public_result" where
  "decrypt_user_data_key_with_login_secret X password opaque_export_key data_key_b64 =
     and_then (decode_base64 X data_key_b64) (\<lambda>b.
     and_then (sealed_payload_from_bytes X b) (\<lambda>payload.
     if sp_version payload = 1 then decrypt_legacy_user_data_key X password (sp_ciphertext payload)
     else if sp_version payload = 2 then
       and_then (ok_or (Validation OPAQUE_EXPORT_KEY_REQUIRED_MESSAGE) opaque_export_key)
         (\<lambda>export_key. decrypt_opaque_user_data_key X export_key (sp_ciphertext payload))
     else
       Err (Validation (''unsupported data key payload version '' @ show_nat (unat (sp_version payload))))))"

definition decrypt_user_data_key ::
  "'x client_ext_scheme \<Rightarrow> string \<Rightarrow> string \<Rightarrow> symmetric_key public_result" where
  "decrypt_user_data_key X password data_key_b64 =
     decrypt_user_data_key_with_login_secret X password None data_key_b64"

section \<open>Work-list keys\<close>

definition decode_membership_key_string :: "'x client_ext_scheme \<Rightarrow> string \<Rightarrow> bytes public_result" where
  "decode_membership_key_string X value =
     (let normalized = map (\<lambda>c. if c = CHR ''-'' then CHR ''+'' else if c = CHR ''_'' then CHR ''/'' else c)
                         (trim value) in
      if normalized = [] then Err (Validation ''membership key string cannot be empty'')
      else
        map_err (\<lambda>e. Validation (''membership key must be base64: '' @ e))
          (or_else (b64_nopad_dec X normalized) (\<lambda>_. b64_std_dec X normalized)))"

definition try_decode_envelope :: "'x client_ext_scheme \<Rightarrow> bytes \<Rightarrow> bytes option public_result" where
  "try_decode_envelope X b =
     (case deserialize_complete_from_cbor (key_envelope_codec X) b of
        Ok envelope \<Rightarrow>
          map_ok Some (case wk_key envelope of
            KeyBytes data \<Rightarrow> Ok data
          | KeyText text \<Rightarrow> decode_membership_key_string X text)
      | Abort \<Rightarrow> Abort
      | Err _ \<Rightarrow>
          (case deserialize_complete_from_cbor (raw_bytes_codec X) b of
             Ok raw_bytes \<Rightarrow> Ok (Some raw_bytes)
           | Abort \<Rightarrow> Abort
           | Err _ \<Rightarrow> Ok None))"

definition decode_work_list_key_bytes :: "'x client_ext_scheme \<Rightarrow> bytes \<Rightarrow> bytes public_result" where
  "decode_work_list_key_bytes X plaintext =
     and_then (try_decode_envelope X plaintext) (\<lambda>decoded.
       case decoded of
         None \<Rightarrow>
           if plaintext = [] then Err (Validation ''work list key cannot be empty'') else Ok plaintext
       | Some b \<Rightarrow>
           if b = [] then Err (Validation ''work list key cannot be empty'') else Ok b)"

definition decrypt_work_list_key ::
  "'x client_ext_scheme \<Rightarrow> symmetric_key \<Rightarrow> bytes \<Rightarrow> symmetric_key public_result" where
  "decrypt_work_list_key X data_key work_list_key_ciphertext =
     and_then (decrypt_sealed_bytes X data_key work_list_key_ciphertext WORK_LIST_MEMBERSHIP_CONTEXT
                 ''failed to decrypt work list key'') (\<lambda>plaintext.
     and_then (decode_work_list_key_bytes X plaintext) symmetric_key_from_bytes)"

section \<open>Lemmas\<close>

lemma hkdf_new_expand_total:
  "hkdf_laws X \<Longrightarrow> \<exists>k. hkdf_new_expand X ikm info = Ok k \<and> sym_wf k"
  using hkdf_expand_Some [of X 32 "hkdf_extract X None ikm" info]
  by (auto simp: hkdf_new_expand_def sym_wf_def)

lemma wrapped_key_opens:
  assumes "box_laws X" "sym_wf wrapping" "sym_wf data_key" "length nonce = 12"
    and "static_encrypt X (box_of_secret X (sym_bytes wrapping)) nonce (sym_bytes data_key)
           USER_DATA_KEY_CONTEXT = Ok sealed"
  shows "decrypt_data_key_with_wrapping_key X wrapping sealed = Ok data_key"
  using static_box.round_trip [OF ring_ready [OF assms(1,4)], of "sym_bytes wrapping"] assms
  by (simp add: decrypt_data_key_with_wrapping_key_def rust_simps box_laws_def)

lemma static_encrypt_nonempty: "static_encrypt X sb nonce m ctx = Ok w \<Longrightarrow> w \<noteq> []"
  by (auto simp: static_encrypt_Ok ciphertext_to_bytes_def static_magic_def)

lemma data_key_payload_read:
  assumes "b64_laws X" "enc (sealed_payload_codec X) p = Ok w" "w \<noteq> []"
    and "codec_reads (sealed_payload_codec X) p"
  shows "decode_base64 X (b64_nopad_enc X w) = Ok w" "sealed_payload_from_bytes X w = Ok p"
  using decode_base64_enc [OF assms(1,3)] codec_dec_enc(2) [OF assms(4,2)]
  by (simp_all add: sealed_payload_from_bytes_def deserialize_from_cbor_def)

text \<open>C9: a data key wrapped the way each payload version wraps it is recovered: version 1 by the
  password and the 32-byte salt in front of the ciphertext, version 2 by the OPAQUE export key,
  whatever the password.\<close>
theorem data_key_unwrap:
  assumes "box_laws X" "b64_laws X" "sym_wf data_key" "length nonce = 12" "length salt = 32"
    and "\<forall>p. codec_reads (sealed_payload_codec X) p"
    and "(version = 1 \<and> derive_master_key X (str_bytes password) salt = Ok wrapping \<and> prefix = salt) \<or>
         (version = 2 \<and> login_secret = Some (b64_nopad_enc X export) \<and> export \<noteq> [] \<and>
          hkdf_new_expand X export OPAQUE_EXPORT_KEY_INFO = Ok wrapping \<and> prefix = [])"
    and "sym_wf wrapping"
    and "static_encrypt X (box_of_secret X (sym_bytes wrapping)) nonce (sym_bytes data_key)
           USER_DATA_KEY_CONTEXT = Ok sealed"
    and "enc (sealed_payload_codec X) \<lparr> sp_version = version, sp_ciphertext = prefix @ sealed \<rparr> = Ok w" "w \<noteq> []"
  shows "decrypt_user_data_key_with_login_secret X password login_secret (b64_nopad_enc X w) = Ok data_key"
proof -
  note read = data_key_payload_read [OF assms(2,10,11) spec [OF assms(6)]]
  note opens = wrapped_key_opens [OF assms(1,8,3,4,9)]
  have "sealed \<noteq> []" using assms(9) by (rule static_encrypt_nonempty)
  then have "\<not> length (salt @ sealed) \<le> 32" using assms(5) by simp
  moreover have "derive_data_key_wrapping_key X (b64_nopad_enc X export) = Ok wrapping"
    if "export \<noteq> []" "hkdf_new_expand X export OPAQUE_EXPORT_KEY_INFO = Ok wrapping"
    using that decode_base64_enc [OF assms(2)] by (simp add: derive_data_key_wrapping_key_def)
  ultimately show ?thesis using assms(5,7) read opens
    by (elim disjE conjE) (simp_all add: decrypt_user_data_key_with_login_secret_def
        decrypt_legacy_user_data_key_def decrypt_opaque_user_data_key_def del: and_then_eq_Ok)
qed


lemma decode_base64_errors:
  "decode_base64 X s = Err e \<Longrightarrow> \<not> is_opaque_export_key_required_error e"
  by (auto simp: decode_base64_def Let_def is_opaque_export_key_required_error_def
      OPAQUE_EXPORT_KEY_REQUIRED_MESSAGE_def split: if_splits)

lemma hkdf_new_expand_errors:
  "hkdf_new_expand X i c = Err e \<Longrightarrow> \<not> is_opaque_export_key_required_error e"
  by (auto simp: hkdf_new_expand_def is_opaque_export_key_required_error_def)

lemma symmetric_key_from_bytes_errors:
  "symmetric_key_from_bytes b = Err e \<Longrightarrow> \<not> is_opaque_export_key_required_error e"
  by (auto simp: symmetric_key_from_bytes_def is_opaque_export_key_required_error_def
      OPAQUE_EXPORT_KEY_REQUIRED_MESSAGE_def split: if_splits)

lemma decrypt_with_wrapping_key_errors:
  assumes "hkdf_laws X" "sym_wf k" "decrypt_data_key_with_wrapping_key X k sealed = Err e"
  shows "\<not> is_opaque_export_key_required_error e"
  using assms symmetric_key_from_bytes_errors
  by (auto simp: decrypt_data_key_with_wrapping_key_def rust_simps and_then_eq_Err
      is_opaque_export_key_required_error_def)

text \<open>Argon2id with the parameters of the code writes the 32 bytes it is asked for.\<close>
definition argon2_laws :: "'x client_ext_scheme \<Rightarrow> bool" where
  "argon2_laws X \<longleftrightarrow> (\<forall>p s k. argon2id X p s = Ok k \<longrightarrow> length k = 32)"

lemma derive_master_key_errors:
  "derive_master_key X p s = Err e \<Longrightarrow> \<not> is_opaque_export_key_required_error e"
  by (auto simp: derive_master_key_def is_opaque_export_key_required_error_def
      OPAQUE_EXPORT_KEY_REQUIRED_MESSAGE_def split: if_splits)

lemma derive_master_key_wf: "argon2_laws X \<Longrightarrow> derive_master_key X p s = Ok k \<Longrightarrow> sym_wf k"
  by (auto simp: derive_master_key_def argon2_laws_def sym_wf_def split: if_splits)

lemma hkdf_new_expand_wf: "hkdf_laws X \<Longrightarrow> hkdf_new_expand X i c = Ok k \<Longrightarrow> sym_wf k"
  using hkdf_new_expand_total [of X i c] by auto

lemma wrapping_key_errors:
  "derive_data_key_wrapping_key X x = Err e \<Longrightarrow> \<not> is_opaque_export_key_required_error e"
  using decode_base64_errors [of X] hkdf_new_expand_errors [of X]
  by (cases "decode_base64 X x")
    (auto simp: derive_data_key_wrapping_key_def is_opaque_export_key_required_error_def
      OPAQUE_EXPORT_KEY_REQUIRED_MESSAGE_def split: if_splits)

lemma wrapping_key_wf: "hkdf_laws X \<Longrightarrow> derive_data_key_wrapping_key X x = Ok k \<Longrightarrow> sym_wf k"
  by (cases "decode_base64 X x")
    (auto simp: derive_data_key_wrapping_key_def hkdf_new_expand_wf split: if_splits)

lemma legacy_data_key_errors:
  assumes "hkdf_laws X" "argon2_laws X" "decrypt_legacy_user_data_key X password c = Err e"
  shows "\<not> is_opaque_export_key_required_error e"
proof (cases "length c \<le> 32")
  case True
  then show ?thesis using assms(3)
    by (simp add: decrypt_legacy_user_data_key_def is_opaque_export_key_required_error_def
        OPAQUE_EXPORT_KEY_REQUIRED_MESSAGE_def) (auto simp: OPAQUE_EXPORT_KEY_REQUIRED_MESSAGE_def)
next
  case False
  then show ?thesis
    using assms derive_master_key_errors [of X] derive_master_key_wf [of X] decrypt_with_wrapping_key_errors [of X]
    by (cases "derive_master_key X (str_bytes password) (take 32 c)")
      (simp_all add: decrypt_legacy_user_data_key_def, blast)
qed

lemma opaque_data_key_errors:
  assumes "hkdf_laws X" "decrypt_opaque_user_data_key X x c = Err e"
  shows "\<not> is_opaque_export_key_required_error e"
  using assms wrapping_key_errors [of X] wrapping_key_wf [of X] decrypt_with_wrapping_key_errors [of X]
  by (cases "derive_data_key_wrapping_key X x") (simp_all add: decrypt_opaque_user_data_key_def, blast)

text \<open>the error that tells the user to log in again with OPAQUE is reported exactly for a
  readable payload of version 2 when no export key is at hand: no other failure of unwrapping a
  data key is taken for it.\<close>
theorem export_key_required_iff:
  assumes "hkdf_laws X" "argon2_laws X"
  shows "(\<exists>e. decrypt_user_data_key_with_login_secret X password login_secret data_key_b64 = Err e \<and>
            is_opaque_export_key_required_error e) \<longleftrightarrow>
    login_secret = None \<and>
    (\<exists>b p. decode_base64 X data_key_b64 = Ok b \<and> sealed_payload_from_bytes X b = Ok p \<and> sp_version p = 2)"
    (is "?lhs \<longleftrightarrow> ?rhs")
proof
  assume ?rhs
  then show ?lhs
    by (auto simp: decrypt_user_data_key_with_login_secret_def is_opaque_export_key_required_error_def)
next
  assume ?lhs
  then obtain e where e: "decrypt_user_data_key_with_login_secret X password login_secret data_key_b64 = Err e"
    and req: "is_opaque_export_key_required_error e" by blast
  have b64: "\<And>s. decode_base64 X s \<noteq> Err e" using decode_base64_errors req by blast
  have payload: "\<And>b. sealed_payload_from_bytes X b \<noteq> Err e"
    using req by (auto simp: sealed_payload_from_bytes_def deserialize_from_cbor_def
        is_opaque_export_key_required_error_def)
  obtain b p where p: "decode_base64 X data_key_b64 = Ok b" "sealed_payload_from_bytes X b = Ok p"
    using e b64 payload by (auto simp: decrypt_user_data_key_with_login_secret_def and_then_eq_Err)
  have "decrypt_legacy_user_data_key X password c \<noteq> Err e"
    "decrypt_opaque_user_data_key X x c \<noteq> Err e" for c x
    using legacy_data_key_errors [OF assms] opaque_data_key_errors [OF assms(1)] req by blast+
  then show ?rhs
    using e p req
    by (cases login_secret) (auto simp: decrypt_user_data_key_with_login_secret_def
        is_opaque_export_key_required_error_def OPAQUE_EXPORT_KEY_REQUIRED_MESSAGE_def split: if_splits)
qed

text \<open>a work-list key is read from the plaintext of a membership exactly when it is 32 bytes and
  the plaintext has one of the forms the clients wrote, tried in this order: the complete CBOR
  envelope, with the key as bytes or as base64 text in either alphabet; a complete CBOR byte
  string; the raw bytes.  An envelope that is complete decides: its key is not looked for in the
  later forms when it is bad.\<close>
theorem work_list_key_forms:
  "decrypt_work_list_key X data_key ct = Ok k \<longleftrightarrow> sym_wf k \<and>
    (\<exists>plaintext.
      decrypt_sealed_bytes X data_key ct WORK_LIST_MEMBERSHIP_CONTEXT ''failed to decrypt work list key'' = Ok plaintext \<and>
      (case deserialize_complete_from_cbor (key_envelope_codec X) plaintext of
         Ok envelope \<Rightarrow>
           (case wk_key envelope of
              KeyBytes data \<Rightarrow> sym_bytes k = data
            | KeyText text \<Rightarrow> decode_membership_key_string X text = Ok (sym_bytes k))
       | Abort \<Rightarrow> False
       | Err _ \<Rightarrow>
           (case deserialize_complete_from_cbor (raw_bytes_codec X) plaintext of
              Ok raw_bytes \<Rightarrow> sym_bytes k = raw_bytes
            | Abort \<Rightarrow> False
            | Err _ \<Rightarrow> sym_bytes k = plaintext)))"
proof -
  have key: "symmetric_key_from_bytes b = Ok k \<longleftrightarrow> sym_wf k \<and> sym_bytes k = b" for b
    using symmetric_key_from_bytes_wf [of b k] by auto
  have forms: "(\<exists>b. decode_work_list_key_bytes X p = Ok b \<and> sym_wf k \<and> sym_bytes k = b) \<longleftrightarrow> sym_wf k \<and>
      (case deserialize_complete_from_cbor (key_envelope_codec X) p of
         Ok envelope \<Rightarrow>
           (case wk_key envelope of
              KeyBytes data \<Rightarrow> sym_bytes k = data
            | KeyText text \<Rightarrow> decode_membership_key_string X text = Ok (sym_bytes k))
       | Abort \<Rightarrow> False
       | Err _ \<Rightarrow>
           (case deserialize_complete_from_cbor (raw_bytes_codec X) p of
              Ok raw_bytes \<Rightarrow> sym_bytes k = raw_bytes
            | Abort \<Rightarrow> False
            | Err _ \<Rightarrow> sym_bytes k = p))" for p
  proof (cases "sym_wf k")
    case True
    then have "sym_bytes k \<noteq> []" by (auto simp: sym_wf_def)
    then have "(\<exists>b. decode_work_list_key_bytes X p = Ok b \<and> sym_wf k \<and> sym_bytes k = b) \<longleftrightarrow>
        try_decode_envelope X p = Ok (Some (sym_bytes k)) \<or> try_decode_envelope X p = Ok None \<and> p = sym_bytes k"
      using True by (cases "try_decode_envelope X p")
        (auto simp: decode_work_list_key_bytes_def split: option.splits if_splits)
    then show ?thesis using True
      by (cases "deserialize_complete_from_cbor (key_envelope_codec X) p";
          cases "deserialize_complete_from_cbor (raw_bytes_codec X) p")
        (auto simp: try_decode_envelope_def split: work_list_key_field.splits)
  qed simp
  show ?thesis
    unfolding decrypt_work_list_key_def and_then_eq_Ok key using forms by blast
qed

section \<open>Witnesses\<close>

definition demo_wrapping_key :: symmetric_key where
  "demo_wrapping_key = SymmetricKey (pad_to 32 (str_bytes ''pw'' @ replicate 32 3))"

definition demo_wrapped :: bytes where
  "demo_wrapped = (case static_encrypt demo_client (box_of_secret demo_client (sym_bytes demo_wrapping_key))
     (replicate 12 5) (sym_bytes demo_list_key) USER_DATA_KEY_CONTEXT of Ok b \<Rightarrow> b | _ \<Rightarrow> [])"

definition demo_data_key_payload :: bytes where
  "demo_data_key_payload = (case enc (sealed_payload_codec demo_client)
     \<lparr> sp_version = 1, sp_ciphertext = replicate 32 3 @ demo_wrapped \<rparr> of Ok b \<Rightarrow> b | _ \<Rightarrow> [])"

theorem data_key_unwrap_witness:
  "decrypt_user_data_key_with_login_secret demo_client ''pw'' None
     (b64_nopad_enc demo_client demo_data_key_payload) = Ok demo_list_key"
proof (rule data_key_unwrap [where version = 1 and salt = "replicate 32 3" and prefix = "replicate 32 3"
      and wrapping = demo_wrapping_key and sealed = demo_wrapped and nonce = "replicate 12 5"
      and export = "[]"])
  show "static_encrypt demo_client (box_of_secret demo_client (sym_bytes demo_wrapping_key))
     (replicate 12 5) (sym_bytes demo_list_key) USER_DATA_KEY_CONTEXT = Ok demo_wrapped"
    by code_simp
  show "enc (sealed_payload_codec demo_client)
      \<lparr> sp_version = 1, sp_ciphertext = replicate 32 3 @ demo_wrapped \<rparr> = Ok demo_data_key_payload"
    by (simp add: demo_data_key_payload_def demo_client_def client_with_def ext.defs bytes_codec_def)
  show "demo_data_key_payload \<noteq> []"
    by (simp add: demo_data_key_payload_def demo_client_def client_with_def ext.defs bytes_codec_def demo_header_def)
  show "(1 :: u8) = 1 \<and> derive_master_key demo_client (str_bytes ''pw'') (replicate 32 3) = Ok demo_wrapping_key \<and>
      replicate 32 (3 :: u8) = replicate 32 3 \<or>
      (1 :: u8) = 2 \<and> None = Some (b64_nopad_enc demo_client []) \<and> ([] :: bytes) \<noteq> [] \<and>
      hkdf_new_expand demo_client [] OPAQUE_EXPORT_KEY_INFO = Ok demo_wrapping_key \<and> replicate 32 (3 :: u8) = []"
    by (simp add: derive_master_key_def demo_client_def demo_wrapping_key_def)
qed (simp_all add: demo_wrapping_key_def demo_list_key_def sym_wf_def)

theorem export_key_required_iff_witness:
  "(\<exists>e. decrypt_user_data_key_with_login_secret demo_client ''pw'' None ''00'' = Err e \<and>
        is_opaque_export_key_required_error e) \<longleftrightarrow>
    (None :: string option) = None \<and>
    (\<exists>b p. decode_base64 demo_client ''00'' = Ok b \<and> sealed_payload_from_bytes demo_client b = Ok p \<and> sp_version p = 2)"
  by (rule export_key_required_iff) (simp_all add: demo_client_def argon2_laws_def)

end
