(* ===== verification/Crypto_Grants.thy ===== *)
theory Crypto_Grants
  imports Crypto_Keys
begin

text \<open>\<open>crates/client-crypto/src/agent_grants.rs\<close>: a work-list key sealed for an agent with HPKE (RFC
  9180, base mode), and the legacy envelopes that are still read.  The ephemeral secret of a seal is
  an argument; the process-wide counter of legacy opens is state passed through
  \<open>decrypt_agent_work_list_key\<close>.  Zeroizing has no effect a caller can see.\<close>

section \<open>The ciphersuites\<close>

definition HPKE_NONCE_SIZE :: nat where "HPKE_NONCE_SIZE = 12"
definition HPKE_MODE_BASE :: u8 where "HPKE_MODE_BASE = 0x00"
definition HPKE_KEM_CODEPOINT :: u16 where "HPKE_KEM_CODEPOINT = 0x0020"
definition HPKE_LEGACY_KEM_CODEPOINT :: u16 where "HPKE_LEGACY_KEM_CODEPOINT = 0x0010"
definition HPKE_KDF_CODEPOINT :: u16 where "HPKE_KDF_CODEPOINT = 0x0001"
definition HPKE_AEAD_CODEPOINT :: u16 where "HPKE_AEAD_CODEPOINT = 0x0003"
definition HPKE_KEM_ID :: bytes where "HPKE_KEM_ID = be_bytes_u16 HPKE_KEM_CODEPOINT"
definition HPKE_LEGACY_KEM_ID :: bytes where
  "HPKE_LEGACY_KEM_ID = be_bytes_u16 HPKE_LEGACY_KEM_CODEPOINT"
definition HPKE_KDF_ID :: bytes where "HPKE_KDF_ID = be_bytes_u16 HPKE_KDF_CODEPOINT"
definition HPKE_AEAD_ID :: bytes where "HPKE_AEAD_ID = be_bytes_u16 HPKE_AEAD_CODEPOINT"

definition hpke_supported :: hpke_suite where
  "hpke_supported = \<lparr> suite_kem = HPKE_KEM_CODEPOINT, suite_kdf = HPKE_KDF_CODEPOINT,
     suite_aead = HPKE_AEAD_CODEPOINT, suite_mode = HPKE_MODE_BASE \<rparr>"

definition hpke_legacy :: hpke_suite where
  "hpke_legacy = \<lparr> suite_kem = HPKE_LEGACY_KEM_CODEPOINT, suite_kdf = HPKE_KDF_CODEPOINT,
     suite_aead = HPKE_AEAD_CODEPOINT, suite_mode = HPKE_MODE_BASE \<rparr>"

datatype hpke_suite_kind = CurrentSuite | LegacySuite

definition get_suite_kind :: "hpke_suite \<Rightarrow> hpke_suite_kind public_result" where
  "get_suite_kind suite =
     (if suite = hpke_supported then Ok CurrentSuite
      else if suite = hpke_legacy then Ok LegacySuite
      else Err (Validation ''agent grant uses an unsupported HPKE ciphersuite''))"

definition hpke_kem_suite_id :: bytes where
  "hpke_kem_suite_id = str_bytes ''KEM'' @ HPKE_KEM_ID"

definition hpke_suite_id :: bytes where
  "hpke_suite_id = str_bytes ''HPKE'' @ HPKE_KEM_ID @ HPKE_KDF_ID @ HPKE_AEAD_ID"

definition legacy_hpke_suite_id :: bytes where
  "legacy_hpke_suite_id = str_bytes ''HPKE'' @ HPKE_LEGACY_KEM_ID @ HPKE_KDF_ID @ HPKE_AEAD_ID"

section \<open>The labeled key derivation\<close>

definition hpke_labeled_ikm :: "bytes \<Rightarrow> bytes \<Rightarrow> bytes \<Rightarrow> bytes" where
  "hpke_labeled_ikm suite_id label ikm = str_bytes ''HPKE-v1'' @ suite_id @ label @ ikm"

definition hpke_labeled_info :: "bytes \<Rightarrow> u16 \<Rightarrow> bytes \<Rightarrow> bytes \<Rightarrow> bytes" where
  "hpke_labeled_info suite_id n label info =
     be_bytes_u16 n @ str_bytes ''HPKE-v1'' @ suite_id @ label @ info"

definition hpke_labeled_extract_with_suite ::
  "'x client_ext_scheme \<Rightarrow> bytes \<Rightarrow> bytes option \<Rightarrow> bytes \<Rightarrow> bytes \<Rightarrow> bytes public_result" where
  "hpke_labeled_extract_with_suite X suite_id salt label ikm =
     (let labeled_ikm = hpke_labeled_ikm suite_id label ikm;
          salt = (case salt of Some s \<Rightarrow> s | None \<Rightarrow> replicate 32 0) in
      and_then (map_err (\<lambda>e. Crypto (''hpke extract init failed: '' @ e))
                 (hmac_sha256 X salt labeled_ikm)) (\<lambda>prk.
      if length prk = 32 then Ok prk else Abort))"

definition hpke_labeled_extract ::
  "'x client_ext_scheme \<Rightarrow> bytes option \<Rightarrow> bytes \<Rightarrow> bytes \<Rightarrow> bytes public_result" where
  "hpke_labeled_extract X salt label ikm = hpke_labeled_extract_with_suite X hpke_suite_id salt label ikm"

definition hpke_labeled_expand_with_suite ::
  "'x client_ext_scheme \<Rightarrow> nat \<Rightarrow> bytes \<Rightarrow> bytes \<Rightarrow> bytes \<Rightarrow> bytes \<Rightarrow> bytes public_result" where
  "hpke_labeled_expand_with_suite X n suite_id prk label info =
     (if \<not> hkdf_prk_ok X prk then Err (Crypto (''hpke prk init failed: '' @ hkdf_prk_error X))
      else
        ok_or (Crypto (''hpke expand failed: '' @ hkdf_error X))
          (hkdf_expand X prk (hpke_labeled_info suite_id (of_nat n) label info) n))"

definition hpke_labeled_expand ::
  "'x client_ext_scheme \<Rightarrow> nat \<Rightarrow> bytes \<Rightarrow> bytes \<Rightarrow> bytes \<Rightarrow> bytes public_result" where
  "hpke_labeled_expand X n prk label info = hpke_labeled_expand_with_suite X n hpke_suite_id prk label info"

definition ensure_contributory_shared_secret ::
  "'x client_ext_scheme \<Rightarrow> bytes \<Rightarrow> bytes public_result" where
  "ensure_contributory_shared_secret X shared_secret =
     (if \<not> was_contributory X shared_secret
      then Err (Validation ''derived HPKE shared secret is invalid'')
      else Ok shared_secret)"

definition hpke_dhkem_shared_secret ::
  "'x client_ext_scheme \<Rightarrow> bytes \<Rightarrow> bytes \<Rightarrow> bytes \<Rightarrow> bytes public_result" where
  "hpke_dhkem_shared_secret X dh encapped recipient_public =
     and_then (hpke_labeled_extract_with_suite X hpke_kem_suite_id None (str_bytes ''eae_prk'') dh)
       (\<lambda>eae_prk.
     hpke_labeled_expand_with_suite X 32 hpke_kem_suite_id eae_prk (str_bytes ''shared_secret'')
       (encapped @ recipient_public))"

definition hpke_key_schedule ::
  "'x client_ext_scheme \<Rightarrow> bytes \<Rightarrow> bytes \<Rightarrow> (bytes \<times> bytes) public_result" where
  "hpke_key_schedule X shared_secret context =
     and_then (hpke_labeled_extract X None (str_bytes ''psk_id_hash'') []) (\<lambda>psk_id_hash.
     and_then (hpke_labeled_extract X None (str_bytes ''info_hash'') context) (\<lambda>info_hash.
     let key_schedule_context = [HPKE_MODE_BASE] @ psk_id_hash @ info_hash in
     and_then (hpke_labeled_extract X (Some shared_secret) (str_bytes ''secret'') []) (\<lambda>secret.
     and_then (hpke_labeled_expand X 32 secret (str_bytes ''key'') key_schedule_context) (\<lambda>key.
     and_then (hpke_labeled_expand X HPKE_NONCE_SIZE secret (str_bytes ''base_nonce'')
                 key_schedule_context) (\<lambda>nonce.
     Ok (key, nonce))))))"

definition legacy_hpke_key_schedule ::
  "'x client_ext_scheme \<Rightarrow> bytes \<Rightarrow> bytes \<Rightarrow> bytes \<Rightarrow> bytes \<Rightarrow> (bytes \<times> bytes) public_result" where
  "legacy_hpke_key_schedule X dh encapped recipient_public context =
     (let suite_id = legacy_hpke_suite_id;
          key_schedule_context = [HPKE_MODE_BASE] @ (encapped @ recipient_public) @ context in
     and_then (hpke_labeled_extract_with_suite X suite_id None (str_bytes ''secret'') dh) (\<lambda>secret.
     and_then (hpke_labeled_expand_with_suite X 32 suite_id secret (str_bytes ''key'')
                 key_schedule_context) (\<lambda>key.
     and_then (hpke_labeled_expand_with_suite X HPKE_NONCE_SIZE suite_id secret
                 (str_bytes ''base_nonce'') key_schedule_context) (\<lambda>nonce.
     Ok (key, nonce)))))"

definition hpke_seal ::
  "'x client_ext_scheme \<Rightarrow> bytes \<Rightarrow> bytes \<Rightarrow> bytes \<Rightarrow> bytes \<Rightarrow> bytes public_result" where
  "hpke_seal X key nonce aad plaintext =
     ok_or (Crypto ''hpke encrypt failed'') (aead_encrypt X key nonce aad plaintext)"

definition hpke_open ::
  "'x client_ext_scheme \<Rightarrow> bytes \<Rightarrow> bytes \<Rightarrow> bytes \<Rightarrow> bytes \<Rightarrow> bytes public_result" where
  "hpke_open X key nonce aad ciphertext =
     (if length ciphertext < 16 then Err (Validation ''agent grant ciphertext is truncated'')
      else ok_or (Crypto ''hpke decrypt failed'') (aead_decrypt X key nonce aad ciphertext))"

definition agent_grant_context :: "'x client_ext_scheme \<Rightarrow> uuid \<Rightarrow> bytes" where
  "agent_grant_context X work_list_id =
     str_bytes (''worklist.agent.grant:'' @ uuid_display X work_list_id)"

section \<open>Sealing and opening a grant\<close>

definition encrypt_agent_work_list_key ::
  "'x client_ext_scheme \<Rightarrow> bytes \<Rightarrow> bytes \<Rightarrow> uuid \<Rightarrow> symmetric_key \<Rightarrow> sealed_blob public_result" where
  "encrypt_agent_work_list_key X ephemeral recipient_public work_list_id list_key =
     and_then (guard_err (length recipient_public \<noteq> 32)
                 (Validation ''agent recipient public key must be 32 bytes'')) (\<lambda>_.
     let encapped = x25519_public X ephemeral;
         shared = x25519_dh X ephemeral recipient_public in
     and_then (ensure_contributory_shared_secret X shared) (\<lambda>dh.
     let context = agent_grant_context X work_list_id in
     and_then (hpke_dhkem_shared_secret X dh encapped recipient_public) (\<lambda>shared_secret.
     and_then (hpke_key_schedule X shared_secret context) (\<lambda>(key, nonce).
     and_then (hpke_seal X key nonce context (sym_bytes list_key)) (\<lambda>ciphertext.
     let envelope = \<lparr> he_version = 1, he_suite = hpke_supported, he_enc = encapped,
           he_ciphertext = ciphertext \<rparr> in
     and_then (serialize_to_cbor (hpke_codec X) envelope) (\<lambda>bytes.
     Ok \<lparr> sb_bytes = bytes, sb_base64 = b64_nopad_enc X bytes \<rparr>))))))"

text \<open>The two arms of \<open>match suite_kind\<close>.\<close>
definition grant_key_schedule ::
  "'x client_ext_scheme \<Rightarrow> hpke_suite_kind \<Rightarrow> bytes \<Rightarrow> bytes \<Rightarrow> bytes \<Rightarrow> bytes \<Rightarrow> (bytes \<times> bytes) public_result"
  where
  "grant_key_schedule X suite_kind dh encapped recipient_public context =
     (case suite_kind of
        CurrentSuite \<Rightarrow>
          and_then (hpke_dhkem_shared_secret X dh encapped recipient_public) (\<lambda>shared_secret.
          hpke_key_schedule X shared_secret context)
      | LegacySuite \<Rightarrow> legacy_hpke_key_schedule X dh encapped recipient_public context)"

definition record_legacy_agent_grant_hpke_open :: "u64 \<Rightarrow> u64" where
  "record_legacy_agent_grant_hpke_open count = count + 1"

text \<open>The part of \<open>decrypt_agent_work_list_key\<close> up to the plaintext: the checks, in their order, and
  the opening of the ciphertext.\<close>
definition open_grant_envelope ::
  "'x client_ext_scheme \<Rightarrow> bytes \<Rightarrow> uuid \<Rightarrow> bytes \<Rightarrow> (hpke_suite_kind \<times> bytes) public_result" where
  "open_grant_envelope X recipient_private work_list_id ciphertext =
     and_then (guard_err (length recipient_private \<noteq> 32)
                 (Validation ''agent recipient private key must be 32 bytes'')) (\<lambda>_.
     and_then (deserialize_complete_from_cbor (hpke_codec X) ciphertext) (\<lambda>envelope.
     and_then (guard_err (he_version envelope \<noteq> 1)
                 (Validation ''unsupported agent grant version'')) (\<lambda>_.
     and_then (get_suite_kind (he_suite envelope)) (\<lambda>suite_kind.
     and_then (guard_err (length (he_enc envelope) \<noteq> 32)
                 (Validation ''agent grant enc must be 32 bytes'')) (\<lambda>_.
     let encapped = he_enc envelope;
         shared = x25519_dh X recipient_private encapped in
     and_then (ensure_contributory_shared_secret X shared) (\<lambda>dh.
     let recipient_public = x25519_public X recipient_private;
         context = agent_grant_context X work_list_id in
     and_then (grant_key_schedule X suite_kind dh encapped recipient_public context) (\<lambda>(key, nonce).
     map_ok (Pair suite_kind) (hpke_open X key nonce context (he_ciphertext envelope)))))))))"

text \<open>The result, and the counter of legacy opens afterwards.\<close>
definition decrypt_agent_work_list_key ::
  "'x client_ext_scheme \<Rightarrow> bytes \<Rightarrow> uuid \<Rightarrow> bytes \<Rightarrow> u64 \<Rightarrow> symmetric_key public_result \<times> u64" where
  "decrypt_agent_work_list_key X recipient_private work_list_id ciphertext count =
     (case open_grant_envelope X recipient_private work_list_id ciphertext of
        Err e \<Rightarrow> (Err e, count)
      | Abort \<Rightarrow> (Abort, count)
      | Ok (suite_kind, plaintext) \<Rightarrow>
          let key_result = symmetric_key_from_bytes plaintext in
          (key_result,
           if (case key_result of Ok _ \<Rightarrow> suite_kind = LegacySuite | _ \<Rightarrow> False)
           then record_legacy_agent_grant_hpke_open count else count))"

section \<open>Totality of the key schedule\<close>

lemma labeled_extract_total:
  assumes "hmac_laws X"
  obtains prk where "hpke_labeled_extract_with_suite X s salt l i = Ok prk" "length prk = 32"
proof -
  obtain t where "hmac_sha256 X (case salt of Some s \<Rightarrow> s | None \<Rightarrow> replicate 32 0) (hpke_labeled_ikm s l i) = Ok t"
      "length t = 32"
    using assms unfolding hmac_laws_def by blast
  then show thesis using that by (simp add: hpke_labeled_extract_with_suite_def)
qed

lemma labeled_expand_total:
  assumes "hkdf_laws X" "length prk = 32" "n \<le> 32"
  obtains r where "hpke_labeled_expand_with_suite X n s prk l i = Ok r" "length r = n"
proof -
  have "n \<le> 255 * 32" using assms(3) by simp
  then obtain r where "hkdf_expand X prk (hpke_labeled_info s (of_nat n) l i) n = Some r" "length r = n"
    using hkdf_expand_Some [OF assms(1)] by blast
  moreover have "hkdf_prk_ok X prk" using assms(1,2) by (simp add: hkdf_laws_def)
  ultimately show thesis using that by (simp add: hpke_labeled_expand_with_suite_def)
qed

lemma dhkem_total:
  assumes "hkdf_laws X" "hmac_laws X"
  obtains s where "hpke_dhkem_shared_secret X dh e p = Ok s" "length s = 32"
proof -
  obtain prk where prk: "hpke_labeled_extract_with_suite X hpke_kem_suite_id None (str_bytes ''eae_prk'') dh = Ok prk"
      "length prk = 32"
    using labeled_extract_total [OF assms(2)] by blast
  obtain r where "hpke_labeled_expand_with_suite X 32 hpke_kem_suite_id prk (str_bytes ''shared_secret'') (e @ p) = Ok r"
      "length r = 32"
    by (rule labeled_expand_total [OF assms(1) prk(2), of 32]) auto
  with prk(1) show thesis using that by (simp add: hpke_dhkem_shared_secret_def)
qed

text \<open>The key and the nonce expanded from one secret.\<close>
lemma expand_pair_total:
  assumes "hkdf_laws X" "length secret = 32"
  obtains k n where
    "hpke_labeled_expand_with_suite X 32 s secret (str_bytes ''key'') c = Ok k" "length k = 32"
    "hpke_labeled_expand_with_suite X HPKE_NONCE_SIZE s secret (str_bytes ''base_nonce'') c = Ok n"
    "length n = 12"
proof -
  obtain k where k: "hpke_labeled_expand_with_suite X 32 s secret (str_bytes ''key'') c = Ok k" "length k = 32"
    by (rule labeled_expand_total [OF assms, of 32]) auto
  obtain n where n: "hpke_labeled_expand_with_suite X 12 s secret (str_bytes ''base_nonce'') c = Ok n"
      "length n = 12"
    by (rule labeled_expand_total [OF assms, of 12]) auto
  show thesis using that [OF k] n by (simp add: HPKE_NONCE_SIZE_def)
qed

lemma key_schedule_total:
  assumes "hkdf_laws X" "hmac_laws X"
  obtains k n where "hpke_key_schedule X s c = Ok (k, n)" "length k = 32" "length n = 12"
proof -
  note ext = labeled_extract_total [OF assms(2), of hpke_suite_id]
  obtain a where a: "hpke_labeled_extract X None (str_bytes ''psk_id_hash'') [] = Ok a"
    using ext [of None "str_bytes ''psk_id_hash''" "[]"] by (auto simp: hpke_labeled_extract_def)
  obtain b where b: "hpke_labeled_extract X None (str_bytes ''info_hash'') c = Ok b"
    using ext [of None "str_bytes ''info_hash''" c] by (auto simp: hpke_labeled_extract_def)
  obtain d where d: "hpke_labeled_extract X (Some s) (str_bytes ''secret'') [] = Ok d" "length d = 32"
    using ext [of "Some s" "str_bytes ''secret''" "[]"] by (auto simp: hpke_labeled_extract_def)
  obtain k n where "hpke_labeled_expand X 32 d (str_bytes ''key'') ([HPKE_MODE_BASE] @ a @ b) = Ok k"
      "length k = 32" "length n = 12"
      "hpke_labeled_expand X HPKE_NONCE_SIZE d (str_bytes ''base_nonce'') ([HPKE_MODE_BASE] @ a @ b) = Ok n"
    using expand_pair_total [OF assms(1) d(2), of hpke_suite_id "[HPKE_MODE_BASE] @ a @ b"]
    unfolding hpke_labeled_expand_def by metis
  with a b d show thesis using that by (simp add: hpke_key_schedule_def)
qed

lemma legacy_schedule_total:
  assumes "hkdf_laws X" "hmac_laws X"
  obtains k n where "legacy_hpke_key_schedule X dh e p c = Ok (k, n)" "length k = 32" "length n = 12"
proof -
  obtain d where d: "hpke_labeled_extract_with_suite X legacy_hpke_suite_id None (str_bytes ''secret'') dh = Ok d"
      "length d = 32"
    using labeled_extract_total [OF assms(2)] by blast
  obtain k n where "hpke_labeled_expand_with_suite X 32 legacy_hpke_suite_id d (str_bytes ''key'')
        ([HPKE_MODE_BASE] @ (e @ p) @ c) = Ok k" "length k = 32" "length n = 12"
      "hpke_labeled_expand_with_suite X HPKE_NONCE_SIZE legacy_hpke_suite_id d (str_bytes ''base_nonce'')
        ([HPKE_MODE_BASE] @ (e @ p) @ c) = Ok n"
    using expand_pair_total [OF assms(1) d(2), of legacy_hpke_suite_id "[HPKE_MODE_BASE] @ (e @ p) @ c"]
    by metis
  with d show thesis using that by (simp add: legacy_hpke_key_schedule_def)
qed

lemma grant_key_schedule_total:
  assumes "hkdf_laws X" "hmac_laws X"
  obtains k n where "grant_key_schedule X kind dh e p c = Ok (k, n)" "length k = 32" "length n = 12"
proof (cases kind)
  case CurrentSuite
  obtain s where s: "hpke_dhkem_shared_secret X dh e p = Ok s" using dhkem_total [OF assms] by blast
  obtain k n where "hpke_key_schedule X s c = Ok (k, n)" "length k = 32" "length n = 12"
    using key_schedule_total [OF assms] by blast
  with s CurrentSuite that show thesis by (simp add: grant_key_schedule_def)
next
  case LegacySuite
  obtain k n where "legacy_hpke_key_schedule X dh e p c = Ok (k, n)" "length k = 32" "length n = 12"
    using legacy_schedule_total [OF assms] by blast
  with LegacySuite that show thesis by (simp add: grant_key_schedule_def)
qed

section \<open>Opening and sealing\<close>

lemma suite_kinds [simp]:
  "get_suite_kind s = Ok CurrentSuite \<longleftrightarrow> s = hpke_supported"
  "get_suite_kind s = Ok LegacySuite \<longleftrightarrow> s = hpke_legacy"
  "get_suite_kind s \<noteq> Abort"
  by (auto simp: get_suite_kind_def hpke_supported_def hpke_legacy_def HPKE_KEM_CODEPOINT_def
      HPKE_LEGACY_KEM_CODEPOINT_def)

lemma ensure_contributory_eq [simp]:
  "ensure_contributory_shared_secret X s = Ok r \<longleftrightarrow> was_contributory X s \<and> r = s"
  by (auto simp: ensure_contributory_shared_secret_def)

lemma hpke_open_eq_Ok:
  assumes "aead_laws X"
  shows "hpke_open X k n a c = Ok m \<longleftrightarrow> aead_encrypt X k n a m = Some c"
  using aead_length [OF assms] by (auto simp: hpke_open_def aead_decrypt_iff [OF assms])

lemma deserialize_complete_eq_Ok:
  "deserialize_complete_from_cbor c b = Ok v \<longleftrightarrow> dec c b = Ok (v, length b)"
  by (auto simp: deserialize_complete_from_cbor_def split: if_splits)

lemma open_grant_eq_Ok:
  "open_grant_envelope X priv wid w = Ok (kind, pt) \<longleftrightarrow>
     length priv = 32 \<and>
     (\<exists>env key nonce. dec (hpke_codec X) w = Ok (env, length w) \<and> he_version env = 1 \<and>
       get_suite_kind (he_suite env) = Ok kind \<and> length (he_enc env) = 32 \<and>
       was_contributory X (x25519_dh X priv (he_enc env)) \<and>
       grant_key_schedule X kind (x25519_dh X priv (he_enc env)) (he_enc env) (x25519_public X priv)
         (agent_grant_context X wid) = Ok (key, nonce) \<and>
       hpke_open X key nonce (agent_grant_context X wid) (he_ciphertext env) = Ok pt)"
  unfolding open_grant_envelope_def and_then_guard_err Let_def
  by (auto simp: deserialize_complete_eq_Ok split: if_splits)

lemma decrypt_grant_eq_Ok:
  "fst (decrypt_agent_work_list_key X priv wid w count) = Ok k \<longleftrightarrow>
     (\<exists>kind. open_grant_envelope X priv wid w = Ok (kind, sym_bytes k)) \<and> sym_wf k"
  by (cases "open_grant_envelope X priv wid w")
    (auto simp: decrypt_agent_work_list_key_def Let_def dest!: symmetric_key_from_bytes_wf)

text \<open>C11: A grant is opened for a work list exactly when the private key has 32 bytes, the input is
  one complete envelope of version 1 under the supported or the legacy suite, its encapsulated key
  has 32 bytes and a contributory shared secret, and its ciphertext is the AEAD encryption of the
  32-byte key, under the key and nonce the suite's schedule derives, with the work list's context
  as associated data.\<close>
theorem grant_open_iff:
  assumes "aead_laws X"
  shows "fst (decrypt_agent_work_list_key X priv wid w count) = Ok k \<longleftrightarrow>
    length priv = 32 \<and> length (sym_bytes k) = 32 \<and>
    (\<exists>env kind key nonce. dec (hpke_codec X) w = Ok (env, length w) \<and> he_version env = 1 \<and>
       (he_suite env = hpke_supported \<and> kind = CurrentSuite \<or> he_suite env = hpke_legacy \<and> kind = LegacySuite) \<and>
       length (he_enc env) = 32 \<and> was_contributory X (x25519_dh X priv (he_enc env)) \<and>
       grant_key_schedule X kind (x25519_dh X priv (he_enc env)) (he_enc env) (x25519_public X priv)
         (agent_grant_context X wid) = Ok (key, nonce) \<and>
       aead_encrypt X key nonce (agent_grant_context X wid) (sym_bytes k) = Some (he_ciphertext env))"
proof -
  have "get_suite_kind s = Ok kind \<longleftrightarrow>
      s = hpke_supported \<and> kind = CurrentSuite \<or> s = hpke_legacy \<and> kind = LegacySuite" for s kind
    by (cases kind) simp_all
  then show ?thesis
    unfolding decrypt_grant_eq_Ok open_grant_eq_Ok hpke_open_eq_Ok [OF assms] sym_wf_def
    by blast
qed

text \<open>The counter of legacy opens grows by one, wrapping, when and only when a key is returned
  and the envelope read names the legacy suite.\<close>
theorem grant_legacy_count:
  "snd (decrypt_agent_work_list_key X priv wid w count) =
     (if (\<exists>k. fst (decrypt_agent_work_list_key X priv wid w count) = Ok k) \<and>
         (\<exists>env. dec (hpke_codec X) w = Ok (env, length w) \<and> he_suite env = hpke_legacy)
      then count + 1 else count)"
proof (cases "open_grant_envelope X priv wid w")
  case (Ok r)
  obtain kind pt where r: "r = (kind, pt)" by (cases r)
  have "(\<exists>env. dec (hpke_codec X) w = Ok (env, length w) \<and> he_suite env = hpke_legacy) \<longleftrightarrow> kind = LegacySuite"
    using Ok r by (cases kind) (auto simp: open_grant_eq_Ok, (metis suite_kinds(1,2) hpke_suite_kind.distinct(1) rust_result.inject(1))?)
  then show ?thesis using Ok r
    by (cases "symmetric_key_from_bytes pt")
      (simp_all add: decrypt_agent_work_list_key_def record_legacy_agent_grant_hpke_open_def)
qed (simp_all add: decrypt_agent_work_list_key_def)

text \<open>The envelopes \<open>encrypt_agent_work_list_key\<close> writes.\<close>
definition current_envelope :: "hpke_envelope \<Rightarrow> bool" where
  "current_envelope env \<longleftrightarrow> he_version env = 1 \<and> he_suite env = hpke_supported \<and> length (he_enc env) = 32"

lemma encrypt_grant_parts:
  assumes "encrypt_agent_work_list_key X eph pub wid k = Ok blob"
  obtains key nonce ct where
    "length pub = 32" "was_contributory X (x25519_dh X eph pub)"
    "grant_key_schedule X CurrentSuite (x25519_dh X eph pub) (x25519_public X eph) pub
       (agent_grant_context X wid) = Ok (key, nonce)"
    "aead_encrypt X key nonce (agent_grant_context X wid) (sym_bytes k) = Some ct"
    "enc (hpke_codec X) \<lparr> he_version = 1, he_suite = hpke_supported, he_enc = x25519_public X eph,
       he_ciphertext = ct \<rparr> = Ok (sb_bytes blob)"
    "sb_base64 blob = b64_nopad_enc X (sb_bytes blob)"
  using assms unfolding encrypt_agent_work_list_key_def and_then_guard_err Let_def
  by (auto simp: grant_key_schedule_def hpke_seal_def serialize_to_cbor_def split: if_splits)

lemma grant_envelope_read:
  assumes "dh_laws X" "length eph = 32" "length priv = 32"
    and reads: "\<And>env. current_envelope env \<Longrightarrow> codec_reads (hpke_codec X) env"
    and "encrypt_agent_work_list_key X eph (x25519_public X priv) wid k = Ok blob"
  obtains env key nonce where
    "dec (hpke_codec X) (sb_bytes blob) = Ok (env, length (sb_bytes blob))"
    "he_version env = 1" "he_suite env = hpke_supported" "length (he_enc env) = 32"
    "was_contributory X (x25519_dh X priv (he_enc env))"
    "grant_key_schedule X CurrentSuite (x25519_dh X priv (he_enc env)) (he_enc env) (x25519_public X priv)
       (agent_grant_context X wid) = Ok (key, nonce)"
    "aead_encrypt X key nonce (agent_grant_context X wid) (sym_bytes k) = Some (he_ciphertext env)"
proof -
  have dh: "x25519_dh X eph (x25519_public X priv) = x25519_dh X priv (x25519_public X eph)"
    and len: "length (x25519_public X eph) = 32"
    using assms(1,2,3) by (simp_all add: dh_laws_def)
  obtain key nonce ct where parts:
    "was_contributory X (x25519_dh X eph (x25519_public X priv))"
    "grant_key_schedule X CurrentSuite (x25519_dh X eph (x25519_public X priv)) (x25519_public X eph)
       (x25519_public X priv) (agent_grant_context X wid) = Ok (key, nonce)"
    "aead_encrypt X key nonce (agent_grant_context X wid) (sym_bytes k) = Some ct"
    "enc (hpke_codec X) \<lparr> he_version = 1, he_suite = hpke_supported, he_enc = x25519_public X eph,
       he_ciphertext = ct \<rparr> = Ok (sb_bytes blob)"
    by (rule encrypt_grant_parts [OF assms(5)])
  let ?env = "\<lparr> he_version = 1, he_suite = hpke_supported, he_enc = x25519_public X eph,
       he_ciphertext = ct \<rparr>"
  have "dec (hpke_codec X) (sb_bytes blob) = Ok (?env, length (sb_bytes blob))"
    by (rule codec_dec_enc [OF reads parts(4)]) (simp add: current_envelope_def len)
  then show thesis using parts len dh by (intro that [of ?env key nonce]) simp_all
qed

lemma grant_opens:
  assumes "aead_laws X" "dh_laws X" "length eph = 32" "length priv = 32" "sym_wf k"
    and "\<And>env. current_envelope env \<Longrightarrow> codec_reads (hpke_codec X) env"
    and "encrypt_agent_work_list_key X eph (x25519_public X priv) wid k = Ok blob"
  shows "decrypt_agent_work_list_key X priv wid (sb_bytes blob) count = (Ok k, count)"
proof -
  obtain env key nonce where e:
    "dec (hpke_codec X) (sb_bytes blob) = Ok (env, length (sb_bytes blob))"
    "he_version env = 1" "he_suite env = hpke_supported" "length (he_enc env) = 32"
    "was_contributory X (x25519_dh X priv (he_enc env))"
    "grant_key_schedule X CurrentSuite (x25519_dh X priv (he_enc env)) (he_enc env) (x25519_public X priv)
       (agent_grant_context X wid) = Ok (key, nonce)"
    "aead_encrypt X key nonce (agent_grant_context X wid) (sym_bytes k) = Some (he_ciphertext env)"
    by (rule grant_envelope_read [OF assms(2,3,4) _ assms(7)]) (rule assms(6))
  have "open_grant_envelope X priv wid (sb_bytes blob) = Ok (CurrentSuite, sym_bytes k)"
    using e assms(4) by (auto simp: open_grant_eq_Ok hpke_open_eq_Ok [OF assms(1)])
  then show ?thesis using assms(5) by (simp add: decrypt_agent_work_list_key_def)
qed

text \<open>A work-list key sealed for an agent's public key is recovered by the agent's private key
  for the same work list, and counts as no legacy open.\<close>
theorem grant_round_trip:
  assumes "aead_laws X" "dh_laws X" "length eph = 32" "length priv = 32" "sym_wf k"
    and "\<And>env. current_envelope env \<Longrightarrow> codec_reads (hpke_codec X) env"
    and "encrypt_agent_work_list_key X eph (x25519_public X priv) wid k = Ok blob"
  shows "decrypt_agent_work_list_key X priv wid (sb_bytes blob) count = (Ok k, count)"
  using grant_opens [OF assms] .

text \<open>The cipher opens the envelope under the key schedule and the context of the list.\<close>
definition envelope_opens :: "'x client_ext_scheme \<Rightarrow> bytes \<Rightarrow> uuid \<Rightarrow> hpke_envelope \<Rightarrow> bool" where
  "envelope_opens X priv wid env \<longleftrightarrow> (\<exists>key nonce.
     grant_key_schedule X CurrentSuite (x25519_dh X priv (he_enc env)) (he_enc env) (x25519_public X priv)
       (agent_grant_context X wid) = Ok (key, nonce) \<and>
     aead_decrypt X key nonce (agent_grant_context X wid) (he_ciphertext env) \<noteq> None)"

text \<open>The cipher opens one envelope in two different contexts.\<close>
definition grant_forged :: "'x client_ext_scheme \<Rightarrow> bytes \<Rightarrow> uuid \<Rightarrow> uuid \<Rightarrow> bytes \<Rightarrow> bool" where
  "grant_forged X priv wid wid' w \<longleftrightarrow> agent_grant_context X wid' \<noteq> agent_grant_context X wid \<and>
     (\<exists>env. dec (hpke_codec X) w = Ok (env, length w) \<and> envelope_opens X priv wid env \<and> envelope_opens X priv wid' env)"

lemma agent_grant_context_inject:
  assumes "uuid_laws X" "length u = 16" "length v = 16"
  shows "agent_grant_context X u = agent_grant_context X v \<longleftrightarrow> u = v"
  using assms by (auto simp: agent_grant_context_def uuid_laws_def)

text \<open>C10: A grant sealed for one work list does not open for any other list: the contexts of different lists differ,
  and the opening fails in the AEAD, unless the cipher itself opens the one ciphertext under the key schedules
  and associated data of both contexts.\<close>
theorem grant_bound_to_list:
  assumes "aead_laws X" "hkdf_laws X" "hmac_laws X" "dh_laws X" "uuid_laws X" "length eph = 32" "length priv = 32"
    and "\<And>env. current_envelope env \<Longrightarrow> codec_reads (hpke_codec X) env"
    and "encrypt_agent_work_list_key X eph (x25519_public X priv) wid k = Ok blob"
    and "length wid = 16" "length wid' = 16" "wid' \<noteq> wid"
    and forged: "\<not> grant_forged X priv wid wid' (sb_bytes blob)"
  shows "decrypt_agent_work_list_key X priv wid' (sb_bytes blob) count = (Err (Crypto ''hpke decrypt failed''), count)"
proof -
  obtain env key nonce where e:
    "dec (hpke_codec X) (sb_bytes blob) = Ok (env, length (sb_bytes blob))"
    "he_version env = 1" "he_suite env = hpke_supported" "length (he_enc env) = 32"
    "was_contributory X (x25519_dh X priv (he_enc env))"
    "grant_key_schedule X CurrentSuite (x25519_dh X priv (he_enc env)) (he_enc env) (x25519_public X priv)
       (agent_grant_context X wid) = Ok (key, nonce)"
    "aead_encrypt X key nonce (agent_grant_context X wid) (sym_bytes k) = Some (he_ciphertext env)"
    by (rule grant_envelope_read [OF assms(4,6,7) _ assms(9)]) (rule assms(8))
  obtain key' nonce' where ks: "grant_key_schedule X CurrentSuite (x25519_dh X priv (he_enc env)) (he_enc env)
      (x25519_public X priv) (agent_grant_context X wid') = Ok (key', nonce')"
    by (rule grant_key_schedule_total [OF assms(2,3)])
  have "envelope_opens X priv wid env"
    using e(6,7) by (simp add: envelope_opens_def aead_decrypt_iff [OF assms(1), symmetric])
  then have "\<not> envelope_opens X priv wid' env"
    using forged e(1) assms(12) agent_grant_context_inject [OF assms(5,11,10)] by (auto simp: grant_forged_def)
  then have "aead_decrypt X key' nonce' (agent_grant_context X wid') (he_ciphertext env) = None"
    using ks by (simp add: envelope_opens_def)
  moreover have "16 \<le> length (he_ciphertext env)" using aead_length [OF assms(1) e(7)] by simp
  ultimately have "open_grant_envelope X priv wid' (sb_bytes blob) = Err (Crypto ''hpke decrypt failed'')"
    using e(1-5) ks assms(7)
    by (simp add: open_grant_envelope_def deserialize_complete_from_cbor_def get_suite_kind_def
        ensure_contributory_shared_secret_def hpke_open_def)
  then show ?thesis by (simp add: decrypt_agent_work_list_key_def)
qed

section \<open>Witnesses\<close>

definition current_codec :: "hpke_envelope codec" where
  "current_codec = bytes_codec (\<lambda>e. he_enc e @ he_ciphertext e)
     (\<lambda>b. \<lparr> he_version = 1, he_suite = hpke_supported, he_enc = take 32 b, he_ciphertext = drop 32 b \<rparr>)"

definition grant_client :: client_ext where
  "grant_client = demo_client\<lparr>hpke_codec := current_codec\<rparr>"

lemma grant_client_laws [simp]:
  "aead_laws grant_client" "hkdf_laws grant_client" "dh_laws grant_client" "hmac_laws grant_client"
proof -
  have "aead_laws demo_client" "hkdf_laws demo_client" "dh_laws demo_client" "hmac_laws demo_client"
    by (simp_all add: demo_client_def)
  then show "aead_laws grant_client" "hkdf_laws grant_client" "dh_laws grant_client" "hmac_laws grant_client"
    by (simp_all add: grant_client_def aead_laws_def hkdf_laws_def dh_laws_def hmac_laws_def)
qed

lemma grant_client_uuid [simp]: "uuid_laws grant_client"
proof -
  have "uuid_laws demo_client" by (simp add: demo_client_def)
  then show ?thesis by (simp add: grant_client_def uuid_laws_def)
qed

lemma grant_client_reads: "current_envelope env \<Longrightarrow> codec_reads (hpke_codec grant_client) env"
  by (cases env) (simp add: grant_client_def current_codec_def bytes_codec_reads current_envelope_def)

definition demo_agent :: bytes where "demo_agent = replicate 32 4"
definition demo_list_id :: uuid where "demo_list_id = replicate 16 1"
definition demo_other_id :: uuid where "demo_other_id = replicate 16 2"

definition demo_grant :: sealed_blob where
  "demo_grant = (case encrypt_agent_work_list_key grant_client (replicate 32 3)
     (x25519_public grant_client demo_agent) demo_list_id demo_list_key of Ok b \<Rightarrow> b | _ \<Rightarrow> \<lparr> sb_bytes = [], sb_base64 = [] \<rparr>)"

lemma demo_grant_sealed:
  "encrypt_agent_work_list_key grant_client (replicate 32 3) (x25519_public grant_client demo_agent)
     demo_list_id demo_list_key = Ok demo_grant"
  by code_simp

lemma demo_grant_not_forged: "\<not> grant_forged grant_client demo_agent demo_list_id demo_other_id (sb_bytes demo_grant)"
proof -
  have "case dec (hpke_codec grant_client) (sb_bytes demo_grant) of Ok (env, _) \<Rightarrow>
      (case grant_key_schedule grant_client CurrentSuite (x25519_dh grant_client demo_agent (he_enc env))
          (he_enc env) (x25519_public grant_client demo_agent) (agent_grant_context grant_client demo_other_id) of
        Ok (key, nonce) \<Rightarrow>
          aead_decrypt grant_client key nonce (agent_grant_context grant_client demo_other_id) (he_ciphertext env) = None
      | _ \<Rightarrow> False) | _ \<Rightarrow> False"
    by code_simp
  then show ?thesis by (auto simp: grant_forged_def envelope_opens_def)
qed

theorem grant_round_trip_witness:
  "decrypt_agent_work_list_key grant_client demo_agent demo_list_id (sb_bytes demo_grant) 7 = (Ok demo_list_key, 7)"
  by (rule grant_round_trip [OF _ _ _ _ _ grant_client_reads demo_grant_sealed])
    (simp_all add: demo_agent_def demo_list_key_def sym_wf_def)

theorem grant_bound_to_list_witness:
  "decrypt_agent_work_list_key grant_client demo_agent demo_other_id (sb_bytes demo_grant) 7 =
     (Err (Crypto ''hpke decrypt failed''), 7)"
  by (rule grant_bound_to_list [OF _ _ _ _ _ _ _ grant_client_reads demo_grant_sealed _ _ _ demo_grant_not_forged])
    (simp_all add: demo_agent_def demo_list_id_def demo_other_id_def replicate_eq_replicate)

theorem grant_open_iff_witness:
  "\<exists>env. dec (hpke_codec grant_client) (sb_bytes demo_grant) = Ok (env, length (sb_bytes demo_grant)) \<and>
     he_version env = 1 \<and> length (he_enc env) = 32"
proof -
  have "fst (decrypt_agent_work_list_key grant_client demo_agent demo_list_id (sb_bytes demo_grant) 0) = Ok demo_list_key"
    by code_simp
  then show ?thesis
    using grant_open_iff [OF grant_client_laws(1), of demo_agent demo_list_id "sb_bytes demo_grant" 0 demo_list_key]
    by blast
qed

end
