(* ===== verification/Auth_Agent.thy ===== *)
theory Auth_Agent
  imports Auth_Storage Crypto_Grants
begin

text \<open>\<open>crates/client-auth/src/agent_keys.rs\<close>: the keys an agent derives from its seed, the signed
  assertion it exchanges for an access token, and its requests.  The reading of the clock, the fresh
  identifier of an assertion and the random bytes of a new seed are arguments.\<close>

section \<open>Key material\<close>

definition AGENT_ASSERTION_PURPOSE_TOKEN_MINT :: string where
  "AGENT_ASSERTION_PURPOSE_TOKEN_MINT = ''token_mint''"

record agent_key_material =
  km_seed :: bytes
  km_signing_key :: bytes
  km_auth_public_key :: bytes
  km_recipient_private_key :: bytes
  km_recipient_public_key :: bytes

definition hkdf_expand_label :: "'x client_ext_scheme \<Rightarrow> bytes \<Rightarrow> bytes \<Rightarrow> bytes public_result" where
  "hkdf_expand_label X seed label =
     ok_or (Crypto (''hkdf expansion failed: '' @ hkdf_error X))
       (hkdf_expand X (hkdf_extract X None seed) label 32)"

text \<open>A signing key is its 32 secret bytes.\<close>
definition agent_key_material_from_seed :: "'x auth_ext_scheme \<Rightarrow> bytes \<Rightarrow> agent_key_material public_result" where
  "agent_key_material_from_seed A seed =
     and_then (hkdf_expand_label A seed (str_bytes ''worklist.agent.auth'')) (\<lambda>auth_seed.
     and_then (hkdf_expand_label A seed (str_bytes ''worklist.agent.recipient'')) (\<lambda>recipient_seed.
     Ok \<lparr> km_seed = seed, km_signing_key = auth_seed, km_auth_public_key = ed25519_public A auth_seed,
          km_recipient_private_key = recipient_seed, km_recipient_public_key = x25519_public A recipient_seed \<rparr>))"

text \<open>The operating system's random bytes, or the reason it has none.\<close>
definition generate_agent_key_material ::
  "'x auth_ext_scheme \<Rightarrow> (bytes, string) rust_result \<Rightarrow> agent_key_material public_result" where
  "generate_agent_key_material A random =
     and_then (map_err (\<lambda>e. Crypto (''os random generation failed: '' @ e)) random)
       (agent_key_material_from_seed A)"

section \<open>Assertions\<close>

text \<open>An \<open>i64\<close> as a JSON number.\<close>
definition json_int :: "int \<Rightarrow> json" where
  "json_int i = (if 0 \<le> i then JPos (nat i) else JNeg i)"

definition assertion_header :: json where
  "assertion_header = JObject [(''alg'', JString ''EdDSA''), (''typ'', JString ''JWT'')]"

definition assertion_claims ::
  "'x client_ext_scheme \<Rightarrow> uuid \<Rightarrow> string \<Rightarrow> string \<Rightarrow> int \<Rightarrow> uuid \<Rightarrow> json" where
  "assertion_claims X agent_id audience purpose now jti =
     JObject [(''aud'', JString audience), (''exp'', json_int (now + 60)), (''iat'', json_int now),
       (''iss'', JString (uuid_display X agent_id)), (''jti'', JString (uuid_display X jti)),
       (''purpose'', JString purpose)]"

definition build_agent_assertion ::
  "'x auth_ext_scheme \<Rightarrow> uuid \<Rightarrow> bytes \<Rightarrow> string \<Rightarrow> string \<Rightarrow> int \<Rightarrow> uuid \<Rightarrow> string" where
  "build_agent_assertion A agent_id signing_key audience purpose now jti =
     (let header_b64 = b64_url_nopad_enc A (str_bytes (json_display A assertion_header));
          claims_b64 = b64_url_nopad_enc A
            (str_bytes (json_display A (assertion_claims A agent_id audience purpose now jti)));
          signing_input = header_b64 @ ''.'' @ claims_b64;
          signature = ed25519_sign A signing_key (str_bytes signing_input) in
      signing_input @ ''.'' @ b64_url_nopad_enc A signature)"

definition build_token_mint_assertion ::
  "'x auth_ext_scheme \<Rightarrow> agent_key_material \<Rightarrow> uuid \<Rightarrow> string \<Rightarrow> int \<Rightarrow> uuid \<Rightarrow> string" where
  "build_token_mint_assertion A km agent_id audience now jti =
     build_agent_assertion A agent_id (km_signing_key km) audience AGENT_ASSERTION_PURPOSE_TOKEN_MINT now jti"

section \<open>Requests\<close>

definition enrollment_request :: "'x auth_ext_scheme \<Rightarrow> agent_key_material \<Rightarrow> string option \<Rightarrow> json" where
  "enrollment_request A km proposed_handle =
     JObject [(''authPublicKey'', JString (encode_bytes A (km_auth_public_key km))),
       (''recipientPublicKey'', JString (encode_bytes A (km_recipient_public_key km))),
       (''proposedHandle'', json_opt JString proposed_handle)]"

definition register_agent ::
  "'x auth_ext_scheme \<Rightarrow> server \<Rightarrow> string \<Rightarrow> agent_key_material \<Rightarrow> string option
   \<Rightarrow> (http_request list, agent_enrollment, public_error) rio" where
  "register_agent A server base km proposed_handle =
     io_then (send_auth_request server
         (post_json (api_endpoint base ''/agents/enrollments'') (enrollment_request A km proposed_handle))
         ''agent enrollment'')
       (\<lambda>response. io_return (parse_json_response A (de_enrollment A) response ''agent enrollment response''))"

definition lookup_enrollment_request :: "string \<Rightarrow> json" where
  "lookup_enrollment_request code = JObject [(''code'', JString code)]"

definition fetch_agent_enrollment ::
  "'x auth_ext_scheme \<Rightarrow> server \<Rightarrow> string \<Rightarrow> string \<Rightarrow> (http_request list, agent_enrollment, public_error) rio"
  where
  "fetch_agent_enrollment A server base code =
     io_then (send_auth_request server
         (post_json (api_endpoint base ''/agents/enrollments/lookup'') (lookup_enrollment_request code))
         ''agent enrollment lookup'')
       (\<lambda>response. io_return (parse_json_response A (de_enrollment A) response ''agent enrollment response''))"

definition agent_token_request :: "string \<Rightarrow> json" where
  "agent_token_request assertion = JObject [(''assertion'', JString assertion)]"

text \<open>The seed is read from the device, the token comes from the server.\<close>
definition mint_agent_access_token ::
  "'x storage_ext_scheme \<Rightarrow> server \<Rightarrow> int \<Rightarrow> uuid \<Rightarrow> agent_credentials
   \<Rightarrow> (device \<times> http_request list, agent_token, public_error) rio" where
  "mint_agent_access_token W server now jti c =
     io_then (io_fst (load_agent_seed W c)) (\<lambda>stored.
     io_then (io_return (ok_or (Validation ''agent seed missing from local secure storage'') stored)) (\<lambda>seed.
     io_then (io_return (agent_key_material_from_seed W seed)) (\<lambda>km.
     io_then (io_return (canonicalize_api_url W (ac_api_url c))) (\<lambda>audience.
     let assertion = build_token_mint_assertion W km (ac_agent_id c) audience now jti in
     io_then (io_snd (send_auth_request server
         (post_json (api_endpoint (ac_api_url c) ''/auth/agents/token'') (agent_token_request assertion))
         ''agent token mint'')) (\<lambda>response.
     io_return (parse_json_response W (de_agent_token W) response ''agent token response''))))))"

end
