(* ===== verification/Api_Types.thy ===== *)
theory Api_Types
  imports Auth_Agent
begin

text \<open>The data of \<open>crates/client-api\<close>: what the API answers (\<open>agents.rs\<close>, \<open>attachments.rs\<close>,
  \<open>comments.rs\<close>, \<open>tasks.rs\<close>, \<open>users.rs\<close>, \<open>work_lists.rs\<close>), the enumerations with their text forms,
  and the request bodies with the JSON object each is serialized to.\<close>

section \<open>Enumerations with open text forms\<close>

datatype delegation_target_type = TargetMembership | TargetAgent | TargetUnknown string

fun target_type_as_str :: "delegation_target_type \<Rightarrow> string" where
  "target_type_as_str TargetMembership = ''membership''"
| "target_type_as_str TargetAgent = ''agent''"
| "target_type_as_str (TargetUnknown v) = v"

definition target_type_from :: "string \<Rightarrow> delegation_target_type" where
  "target_type_from v =
     (if v = ''membership'' then TargetMembership else if v = ''agent'' then TargetAgent else TargetUnknown v)"

datatype delegation_role = RoleAssignee | RoleFollower | RoleUnknown string

fun role_as_str :: "delegation_role \<Rightarrow> string" where
  "role_as_str RoleAssignee = ''assignee''"
| "role_as_str RoleFollower = ''follower''"
| "role_as_str (RoleUnknown v) = v"

definition role_from :: "string \<Rightarrow> delegation_role" where
  "role_from v = (if v = ''assignee'' then RoleAssignee else if v = ''follower'' then RoleFollower else RoleUnknown v)"

datatype delegation_status = StatusPending | StatusAccepted | StatusDeclined | StatusUnknown string

fun delegation_status_as_str :: "delegation_status \<Rightarrow> string" where
  "delegation_status_as_str StatusPending = ''pending''"
| "delegation_status_as_str StatusAccepted = ''accepted''"
| "delegation_status_as_str StatusDeclined = ''declined''"
| "delegation_status_as_str (StatusUnknown v) = v"

definition delegation_status_from :: "string \<Rightarrow> delegation_status" where
  "delegation_status_from v =
     (if v = ''pending'' then StatusPending else if v = ''accepted'' then StatusAccepted
      else if v = ''declined'' then StatusDeclined else StatusUnknown v)"

text \<open>An enumeration that keeps texts it does not know: what was read is written back.\<close>
locale wire_enum =
  fixes as_str :: "'e \<Rightarrow> string" and of_str :: "string \<Rightarrow> 'e"
  assumes as_str_of_str: "as_str (of_str s) = s"
begin

definition known :: "'e \<Rightarrow> bool" where
  "known e \<longleftrightarrow> of_str (as_str e) = e"

lemma of_str_inject: "of_str s = of_str t \<longleftrightarrow> s = t"
  by (metis as_str_of_str)

lemma known_iff: "known e \<longleftrightarrow> e \<in> range of_str"
  by (metis as_str_of_str known_def rangeE rangeI)

lemma of_str_known [simp]: "known (of_str s)"
  by (simp add: known_def as_str_of_str)

end

interpretation target_enum: wire_enum target_type_as_str target_type_from
  by unfold_locales (simp add: target_type_from_def)

interpretation role_enum: wire_enum role_as_str role_from
  by unfold_locales (simp add: role_from_def)

interpretation status_enum: wire_enum delegation_status_as_str delegation_status_from
  by unfold_locales (simp add: delegation_status_from_def)

section \<open>Delegation targets\<close>

datatype delegation_target =
    DelegateMembership uuid
  | DelegateAgent uuid
  | DelegateUnknown string "uuid option" "uuid option"

fun target_type_of :: "delegation_target \<Rightarrow> delegation_target_type" where
  "target_type_of (DelegateMembership _) = TargetMembership"
| "target_type_of (DelegateAgent _) = TargetAgent"
| "target_type_of (DelegateUnknown t _ _) = TargetUnknown t"

fun delegation_membership_id :: "delegation_target \<Rightarrow> uuid option" where
  "delegation_membership_id (DelegateMembership m) = Some m"
| "delegation_membership_id (DelegateAgent _) = None"
| "delegation_membership_id (DelegateUnknown _ m _) = m"

fun delegation_agent_id :: "delegation_target \<Rightarrow> uuid option" where
  "delegation_agent_id (DelegateMembership _) = None"
| "delegation_agent_id (DelegateAgent a) = Some a"
| "delegation_agent_id (DelegateUnknown _ _ a) = a"

record delegation_target_wire =
  tw_target_type :: delegation_target_type
  tw_membership_id :: "uuid option"
  tw_agent_id :: "uuid option"

definition target_to_wire :: "delegation_target \<Rightarrow> delegation_target_wire" where
  "target_to_wire t = \<lparr> tw_target_type = target_type_of t,
     tw_membership_id = delegation_membership_id t, tw_agent_id = delegation_agent_id t \<rparr>"

definition target_try_from :: "delegation_target_wire \<Rightarrow> (delegation_target, string) rust_result" where
  "target_try_from w =
     (case tw_target_type w of
        TargetMembership \<Rightarrow>
          and_then (ok_or ''membership delegation missing membershipId'' (tw_membership_id w)) (\<lambda>m.
          if tw_agent_id w \<noteq> None then Err ''membership delegation cannot include agentId''
          else Ok (DelegateMembership m))
      | TargetAgent \<Rightarrow>
          and_then (ok_or ''agent delegation missing agentId'' (tw_agent_id w)) (\<lambda>a.
          if tw_membership_id w \<noteq> None then Err ''agent delegation cannot include membershipId''
          else Ok (DelegateAgent a))
      | TargetUnknown t \<Rightarrow> Ok (DelegateUnknown t (tw_membership_id w) (tw_agent_id w)))"

text \<open>The wire form as the derived \<open>Serialize\<close> writes it and \<open>Deserialize\<close> reads its parts: the type
  as its text, an identifier or nothing.\<close>
definition wire_texts :: "delegation_target_wire \<Rightarrow> string \<times> uuid option \<times> uuid option" where
  "wire_texts w = (target_type_as_str (tw_target_type w), tw_membership_id w, tw_agent_id w)"

definition wire_of_texts :: "string \<times> uuid option \<times> uuid option \<Rightarrow> delegation_target_wire" where
  "wire_of_texts p = (case p of (t, m, a) \<Rightarrow>
     \<lparr> tw_target_type = target_type_from t, tw_membership_id = m, tw_agent_id = a \<rparr>)"

definition read_target :: "string \<times> uuid option \<times> uuid option \<Rightarrow> (delegation_target, string) rust_result" where
  "read_target p = target_try_from (wire_of_texts p)"

definition write_target :: "delegation_target \<Rightarrow> string \<times> uuid option \<times> uuid option" where
  "write_target t = wire_texts (target_to_wire t)"

lemma read_target_writes: "read_target p = Ok t \<Longrightarrow> write_target t = p"
  by (cases p; cases t)
    (auto simp: read_target_def write_target_def wire_of_texts_def wire_texts_def target_to_wire_def
      target_try_from_def target_type_from_def split: if_splits option.splits)

text \<open>Delegation targets survive the wire: a target that was read is written back as it was, also
  one of a kind this client does not know, and what is written is read back, except for an unknown
  target carrying the name of a known kind; a target of a known kind is read only with the one
  identifier of that kind.\<close>
theorem delegation_target_wire:
  "(case read_target p of Ok u \<Rightarrow> write_target u = p | _ \<Rightarrow> True) \<and>
   (read_target (write_target t) = Ok t \<longleftrightarrow>
      (case t of DelegateUnknown k _ _ \<Rightarrow> k \<noteq> ''membership'' \<and> k \<noteq> ''agent'' | _ \<Rightarrow> True)) \<and>
   (read_target (''membership'', m, a) = Ok t \<longleftrightarrow> a = None \<and> (\<exists>i. m = Some i \<and> t = DelegateMembership i)) \<and>
   (read_target (''agent'', m, a) = Ok t \<longleftrightarrow> m = None \<and> (\<exists>i. a = Some i \<and> t = DelegateAgent i)) \<and>
   read_target (k, m, a) \<noteq> Abort"
proof (intro conjI)
  show "case read_target p of Ok u \<Rightarrow> write_target u = p | _ \<Rightarrow> True"
    using read_target_writes [of p] by (cases "read_target p") auto
qed (cases t; auto simp: read_target_def write_target_def wire_of_texts_def wire_texts_def target_to_wire_def
      target_try_from_def target_type_from_def and_then_eq_Abort split: if_splits option.splits)+

section \<open>Answers\<close>

text \<open>A sealed blob is its base64 text; an \<open>i64\<close> is an integer, an \<open>i8\<close> too, where no arithmetic is
  done on it.\<close>
type_synonym i64 = "64 word"

record delegation_response =
  dg_id :: uuid
  dg_task_id :: uuid
  dg_target :: delegation_target
  dg_role :: delegation_role
  dg_status :: delegation_status
  dg_note_ciphertext :: "string option"
  dg_created_at :: datetime
  dg_updated_at :: datetime

record task_response =
  tk_id :: uuid
  tk_work_list_id :: uuid
  tk_created_by_membership_id :: uuid
  tk_title_ciphertext :: string
  tk_payload_ciphertext :: string
  tk_section_id :: "uuid option"
  tk_priority :: "int option"
  tk_position :: string
  tk_due_at :: "datetime option"
  tk_start_at :: "datetime option"
  tk_completed_at :: "datetime option"
  tk_archived_at :: "datetime option"
  tk_is_completed :: bool
  tk_recurrence_id :: "uuid option"
  tk_recurrence_schedule :: "string option"
  tk_recurrence_iteration :: "int option"
  tk_materialized_at :: "datetime option"
  tk_created_at :: datetime
  tk_updated_at :: datetime
  tk_comment_count :: int
  tk_delegations :: "delegation_response list"

record comment_response =
  cm_id :: uuid
  cm_task_id :: uuid
  cm_author_membership_id :: uuid
  cm_author_agent_id :: "uuid option"
  cm_author_agent_handle :: "string option"
  cm_author_agent_display_name :: "string option"
  cm_body_ciphertext :: string
  cm_created_at :: datetime
  cm_updated_at :: datetime

record task_detail_response =
  td_task :: task_response
  td_comments :: "comment_response list"

record archived_task_count =
  atc_section_id :: "uuid option"
  atc_count :: int

record task_list_response =
  tl_tasks :: "task_response list"
  tl_archived_counts :: "archived_task_count list"

record my_task_response =
  mk_id :: uuid
  mk_work_list_id :: uuid
  mk_work_list_title_ciphertext :: string
  mk_created_by_membership_id :: uuid
  mk_title_ciphertext :: string
  mk_payload_ciphertext :: string
  mk_section_id :: "uuid option"
  mk_priority :: "int option"
  mk_due_at :: "datetime option"
  mk_start_at :: "datetime option"
  mk_completed_at :: "datetime option"
  mk_is_completed :: bool
  mk_created_at :: datetime
  mk_updated_at :: datetime
  mk_comment_count :: int
  mk_delegations :: "delegation_response list"

record my_tasks_response =
  mt_tasks :: "my_task_response list"
  mt_total :: i64
  mt_limit :: int
  mt_offset :: int

record membership_response =
  ms_id :: uuid
  ms_user_id :: uuid
  ms_user_email :: string
  ms_user_name :: string
  ms_user_avatar_color :: string
  ms_role :: string
  ms_status :: string
  ms_work_list_key_ciphertext :: string
  ms_recipient_ciphertext :: "string option"
  ms_invite_package_ciphertext :: "string option"
  ms_salt_member :: "string option"
  ms_expires_at :: "datetime option"
  ms_joined_at :: datetime
  ms_payload_binding_key :: "string option"

record section_snapshot =
  ss_id :: uuid
  ss_position :: int
  ss_auto_archive_enabled :: bool
  ss_auto_archive_after_days :: "int option"

record work_list_response =
  wl_id :: uuid
  wl_owner_user_id :: uuid
  wl_workspace_id :: uuid
  wl_redacted :: "bool option"
  wl_title_ciphertext :: "string option"
  wl_description_ciphertext :: "string option"
  wl_payload_ciphertext :: "string option"
  wl_timezone :: string
  wl_section_snapshots :: "section_snapshot list"
  wl_created_at :: datetime
  wl_updated_at :: datetime
  wl_membership :: membership_response

record work_list_detail_response =
  wd_work_list :: work_list_response
  wd_members :: "membership_response list"

record current_user_response =
  cu_id :: uuid
  cu_email :: string
  cu_name :: string
  cu_timezone :: string
  cu_avatar_color :: string
  cu_data_key_ciphertext :: string
  cu_workspace_lock_timeout_minutes :: "int option"
  cu_theme_preference :: string
  cu_email_verified :: bool
  cu_last_accessed_work_list_id :: "uuid option"

record dashboard_stats_response =
  ds_tasks_overdue :: int
  ds_tasks_due_today :: int
  ds_tasks_due_this_week :: int
  ds_completed :: int

record download_attachment_response =
  dl_download_url :: string
  dl_download_headers :: "string \<rightharpoonup> string"
  dl_expires_at :: datetime

section \<open>Agents\<close>

datatype agent_task_read_scope = ReadAssignedOnly | ReadFullBoard
datatype agent_board_scope = BoardNone | BoardAssignedOnly | BoardFull
datatype agent_assignment_scope = AssignNone | SelfAcceptOnly

record agent_grant_permissions =
  gp_task_read_scope :: agent_task_read_scope
  gp_task_write_scope :: agent_board_scope
  gp_comment_scope :: agent_board_scope
  gp_attachment_scope :: agent_board_scope
  gp_assignment_scope :: agent_assignment_scope

definition assigned_task_worker :: agent_grant_permissions where
  "assigned_task_worker = \<lparr> gp_task_read_scope = ReadAssignedOnly, gp_task_write_scope = BoardAssignedOnly,
     gp_comment_scope = BoardAssignedOnly, gp_attachment_scope = BoardAssignedOnly,
     gp_assignment_scope = SelfAcceptOnly \<rparr>"

fun read_scope_json :: "agent_task_read_scope \<Rightarrow> json" where
  "read_scope_json ReadAssignedOnly = JString ''assigned_only''"
| "read_scope_json ReadFullBoard = JString ''full_board''"

fun board_scope_json :: "agent_board_scope \<Rightarrow> json" where
  "board_scope_json BoardNone = JString ''none''"
| "board_scope_json BoardAssignedOnly = JString ''assigned_only''"
| "board_scope_json BoardFull = JString ''full_board''"

fun assignment_scope_json :: "agent_assignment_scope \<Rightarrow> json" where
  "assignment_scope_json AssignNone = JString ''none''"
| "assignment_scope_json SelfAcceptOnly = JString ''self_accept_only''"

definition permission_fields :: "agent_grant_permissions \<Rightarrow> (string \<times> json) list" where
  "permission_fields p =
     [(''taskReadScope'', read_scope_json (gp_task_read_scope p)),
      (''taskWriteScope'', board_scope_json (gp_task_write_scope p)),
      (''commentScope'', board_scope_json (gp_comment_scope p)),
      (''attachmentScope'', board_scope_json (gp_attachment_scope p)),
      (''assignmentScope'', assignment_scope_json (gp_assignment_scope p))]"

record agent_grant_response =
  gr_work_list_id :: uuid
  gr_permissions :: agent_grant_permissions
  gr_created_at :: datetime

record agent_summary_response =
  as_agent_id :: uuid
  as_owner_user_id :: "uuid option"
  as_status :: string
  as_approved :: bool
  as_handle :: "string option"
  as_proposed_handle :: "string option"
  as_display_name :: "string option"
  as_scope_mode :: string
  as_fingerprint :: string
  as_activated_at :: "datetime option"
  as_revoked_at :: "datetime option"
  as_last_seen_at :: "datetime option"
  as_grants :: "agent_grant_response list"

record approve_agent_grant_request =
  ag_work_list_id :: uuid
  ag_key_ciphertext :: string
  ag_permissions :: agent_grant_permissions

definition approve_grant_json :: "'x client_ext_scheme \<Rightarrow> approve_agent_grant_request \<Rightarrow> json" where
  "approve_grant_json X g =
     JObject ([(''workListId'', JString (uuid_display X (ag_work_list_id g))),
       (''keyCiphertext'', JString (ag_key_ciphertext g))] @ permission_fields (ag_permissions g))"

record approve_agent_enrollment_request =
  ae_code :: string
  ae_handle :: string
  ae_display_name :: string
  ae_scope_mode :: string
  ae_fingerprint :: string
  ae_grants :: "approve_agent_grant_request list"

definition approve_enrollment_json :: "'x client_ext_scheme \<Rightarrow> approve_agent_enrollment_request \<Rightarrow> json" where
  "approve_enrollment_json X r =
     JObject [(''code'', JString (ae_code r)), (''handle'', JString (ae_handle r)),
       (''displayName'', JString (ae_display_name r)), (''scopeMode'', JString (ae_scope_mode r)),
       (''fingerprint'', JString (ae_fingerprint r)),
       (''grants'', JArray (map (approve_grant_json X) (ae_grants r)))]"

section \<open>Audit patches\<close>

record audit_patch_field_request =
  pf_field :: string
  pf_change_kind :: string
  pf_before_scalar :: "string option"
  pf_after_scalar :: "string option"
  pf_before_ciphertext_digest :: "string option"
  pf_after_ciphertext_digest :: "string option"

record audit_patch_request =
  ap_fields :: "audit_patch_field_request list"
  ap_payload_ciphertext :: string
  ap_payload_ciphertext_proof :: string
  ap_payload_version :: int

definition field_encrypted_boundary :: "audit_patch_field_request \<Rightarrow> unit public_result" where
  "field_encrypted_boundary f =
     (if pf_before_scalar f \<noteq> None \<or> pf_after_scalar f \<noteq> None then
        Err (Validation ''audit patch fields must use ciphertext digests, not plaintext scalar values'')
      else Ok ())"

fun fields_encrypted_boundary :: "audit_patch_field_request list \<Rightarrow> unit public_result" where
  "fields_encrypted_boundary [] = Ok ()"
| "fields_encrypted_boundary (f # fs) =
     and_then (field_encrypted_boundary f) (\<lambda>_. fields_encrypted_boundary fs)"

definition validate_encrypted_boundary :: "audit_patch_request \<Rightarrow> unit public_result" where
  "validate_encrypted_boundary p = fields_encrypted_boundary (ap_fields p)"

definition validate_optional_audit_patch :: "audit_patch_request option \<Rightarrow> unit public_result" where
  "validate_optional_audit_patch p =
     (case p of Some patch \<Rightarrow> validate_encrypted_boundary patch | None \<Rightarrow> Ok ())"

definition audit_field_json :: "audit_patch_field_request \<Rightarrow> json" where
  "audit_field_json f =
     JObject ([(''field'', JString (pf_field f)), (''changeKind'', JString (pf_change_kind f))] @
       opt_field ''beforeScalar'' JString (pf_before_scalar f) @
       opt_field ''afterScalar'' JString (pf_after_scalar f) @
       opt_field ''beforeCiphertextDigest'' JString (pf_before_ciphertext_digest f) @
       opt_field ''afterCiphertextDigest'' JString (pf_after_ciphertext_digest f))"

definition audit_patch_json :: "audit_patch_request \<Rightarrow> json" where
  "audit_patch_json p =
     JObject [(''fields'', JArray (map audit_field_json (ap_fields p))),
       (''payloadCiphertext'', JString (ap_payload_ciphertext p)),
       (''payloadCiphertextProof'', JString (ap_payload_ciphertext_proof p)),
       (''payloadVersion'', json_int (ap_payload_version p))]"

text \<open>\<open>DeleteTaskRequest\<close> and \<open>DeleteCommentRequest\<close> have the same one field.\<close>
record delete_request =
  dr_audit_patch :: "audit_patch_request option"

definition delete_request_json :: "delete_request \<Rightarrow> json" where
  "delete_request_json r = JObject (opt_field ''auditPatch'' audit_patch_json (dr_audit_patch r))"

section \<open>Requests\<close>

record create_task_request =
  ct_task_id :: "uuid option"
  ct_title_ciphertext :: string
  ct_title_ciphertext_proof :: string
  ct_payload_ciphertext :: string
  ct_payload_ciphertext_proof :: string
  ct_attachment_ids :: "uuid list"
  ct_priority :: "int option"
  ct_due_at :: "datetime option"
  ct_section_id :: "uuid option"

definition uuid_json :: "'x client_ext_scheme \<Rightarrow> uuid \<Rightarrow> json" where
  "uuid_json X u = JString (uuid_display X u)"

definition create_task_json :: "'x client_ext_scheme \<Rightarrow> (datetime \<Rightarrow> json) \<Rightarrow> create_task_request \<Rightarrow> json" where
  "create_task_json X datetime_json r =
     JObject (opt_field ''taskId'' (uuid_json X) (ct_task_id r) @
       [(''titleCiphertext'', JString (ct_title_ciphertext r)),
        (''titleCiphertextProof'', JString (ct_title_ciphertext_proof r)),
        (''payloadCiphertext'', JString (ct_payload_ciphertext r)),
        (''payloadCiphertextProof'', JString (ct_payload_ciphertext_proof r))] @
       (if ct_attachment_ids r = [] then []
        else [(''attachmentIds'', JArray (map (uuid_json X) (ct_attachment_ids r)))]) @
       opt_field ''priority'' json_int (ct_priority r) @
       opt_field ''dueAt'' datetime_json (ct_due_at r) @
       opt_field ''sectionId'' (uuid_json X) (ct_section_id r))"

text \<open>\<open>Some None\<close> clears a field, \<open>None\<close> leaves it alone.\<close>
record update_task_request =
  ut_title_ciphertext :: "string option"
  ut_title_ciphertext_proof :: "string option"
  ut_payload_ciphertext :: "string option"
  ut_payload_ciphertext_proof :: "string option"
  ut_attachment_ids :: "uuid list option"
  ut_priority :: "int option option"
  ut_due_at :: "datetime option option"
  ut_section_id :: "uuid option option"

definition update_task_default :: update_task_request where
  "update_task_default = \<lparr> ut_title_ciphertext = None, ut_title_ciphertext_proof = None,
     ut_payload_ciphertext = None, ut_payload_ciphertext_proof = None, ut_attachment_ids = None,
     ut_priority = None, ut_due_at = None, ut_section_id = None \<rparr>"

definition update_task_json :: "'x client_ext_scheme \<Rightarrow> (datetime \<Rightarrow> json) \<Rightarrow> update_task_request \<Rightarrow> json" where
  "update_task_json X datetime_json r =
     JObject (opt_field ''titleCiphertext'' JString (ut_title_ciphertext r) @
       opt_field ''titleCiphertextProof'' JString (ut_title_ciphertext_proof r) @
       opt_field ''payloadCiphertext'' JString (ut_payload_ciphertext r) @
       opt_field ''payloadCiphertextProof'' JString (ut_payload_ciphertext_proof r) @
       opt_field ''attachmentIds'' (\<lambda>ids. JArray (map (uuid_json X) ids)) (ut_attachment_ids r) @
       opt_field ''priority'' (json_opt json_int) (ut_priority r) @
       opt_field ''dueAt'' (json_opt datetime_json) (ut_due_at r) @
       opt_field ''sectionId'' (json_opt (uuid_json X)) (ut_section_id r))"

record move_task_request =
  mv_section_id :: "uuid option"
  mv_insert_before_task_id :: "uuid option"

definition move_task_json :: "'x client_ext_scheme \<Rightarrow> move_task_request \<Rightarrow> json" where
  "move_task_json X r =
     JObject (opt_field ''sectionId'' (uuid_json X) (mv_section_id r) @
       opt_field ''insertBeforeTaskId'' (uuid_json X) (mv_insert_before_task_id r))"

record update_delegation_request =
  ud_status :: "delegation_status option"

definition update_delegation_json :: "update_delegation_request \<Rightarrow> json" where
  "update_delegation_json r =
     JObject (opt_field ''status'' (\<lambda>s. JString (delegation_status_as_str s)) (ud_status r))"

record create_comment_request =
  cc_body_ciphertext :: string
  cc_body_ciphertext_proof :: string

definition create_comment_json :: "create_comment_request \<Rightarrow> json" where
  "create_comment_json r =
     JObject [(''bodyCiphertext'', JString (cc_body_ciphertext r)),
       (''bodyCiphertextProof'', JString (cc_body_ciphertext_proof r))]"

record update_comment_request =
  uc_body_ciphertext :: "string option"
  uc_body_ciphertext_proof :: "string option"

definition update_comment_json :: "update_comment_request \<Rightarrow> json" where
  "update_comment_json r =
     JObject (opt_field ''bodyCiphertext'' JString (uc_body_ciphertext r) @
       opt_field ''bodyCiphertextProof'' JString (uc_body_ciphertext_proof r))"

end
