(* ===== verification/Api_Client.thy ===== *)
theory Api_Client
  imports Api_Types
begin

text \<open>\<open>crates/client-api/src/client.rs\<close> and \<open>errors.rs\<close>: the client of the HTTP API.  The requests sent
  so far are the state; deserializers of the answers are parameters.\<close>

record api_ext = storage_ext +
  datetime_json :: "datetime \<Rightarrow> json"
  de_me :: "current_user_response de"
  de_work_lists :: "work_list_response list de"
  de_work_list_detail :: "work_list_detail_response de"
  de_task_list :: "task_list_response de"
  de_my_tasks :: "my_tasks_response de"
  de_dashboard :: "dashboard_stats_response de"
  de_agents :: "agent_summary_response list de"
  de_agent_summary :: "agent_summary_response de"
  de_task_detail :: "task_detail_response de"
  de_download :: "download_attachment_response de"
  de_task :: "task_response de"
  de_delegation :: "delegation_response de"
  de_comments :: "comment_response list de"
  de_comment :: "comment_response de"

type_synonym 'a api_call = "(http_request list, 'a, public_error) rio"

section \<open>Errors\<close>

definition api_response_text :: "'x auth_ext_scheme \<Rightarrow> http_response \<Rightarrow> string \<Rightarrow> string" where
  "api_response_text A response path =
     (case rs_body response of
        Inr text \<Rightarrow> text
      | Inl e \<Rightarrow> ''failed to read API error response from '' @ path @ '' (status '' @
          status_display A (rs_status response) @ ''): '' @ e)"

definition map_api_error :: "'x auth_ext_scheme \<Rightarrow> u16 \<Rightarrow> string \<Rightarrow> string \<Rightarrow> public_error" where
  "map_api_error A status body path =
     (case de_api_error A body of
        Ok api_error \<Rightarrow>
          let message = api_error_text api_error in
          if status = 401 then Validation (''authentication failed: '' @ message)
          else if status = 403 then Validation (''access denied: '' @ message)
          else if status = 404 then Validation (''not found: '' @ message @ '' ('' @ path @ '')'')
          else if status = 400 \<or> status = 422 then Validation message
          else Unexpected (''API error ('' @ show_status status @ '') for '' @ path @ '': '' @ message)
      | _ \<Rightarrow>
          if status = 401 then Validation ''authentication failed''
          else if status = 403 then Validation ''access denied''
          else if status = 404 then Validation (''not found: '' @ path)
          else Unexpected (''API error ('' @ show_status status @ '') for '' @ path @ '': '' @ body))"

definition handle_response :: "'x auth_ext_scheme \<Rightarrow> 'a de \<Rightarrow> http_response \<Rightarrow> string \<Rightarrow> 'a public_result" where
  "handle_response A parse response path =
     (if is_success (rs_status response) then
        map_err (\<lambda>e. Unexpected (''failed to parse response from '' @ path @ '': '' @ e))
          (response_json parse response)
      else Err (map_api_error A (rs_status response) (api_response_text A response path) path))"

definition handle_empty_response :: "'x auth_ext_scheme \<Rightarrow> http_response \<Rightarrow> string \<Rightarrow> unit public_result" where
  "handle_empty_response A response path =
     (if is_success (rs_status response) then Ok ()
      else Err (map_api_error A (rs_status response) (api_response_text A response path) path))"

definition map_reqwest_error :: "reqwest_error \<Rightarrow> string \<Rightarrow> public_error" where
  "map_reqwest_error e path =
     (if re_is_connect e then Unexpected (''failed to connect to API for '' @ path @ '': '' @ re_text e)
      else if re_is_timeout e then Unexpected (''API request timed out for '' @ path)
      else Unexpected (''API request failed for '' @ path @ '': '' @ re_text e))"

section \<open>The client\<close>

record api_client =
  pc_base_url :: string
  pc_bearer_token :: "string option"

definition normalize_base_url :: "string \<Rightarrow> string" where
  "normalize_base_url value = trim_end_slashes value"

definition api_client_new :: "string \<Rightarrow> api_client" where
  "api_client_new base = \<lparr> pc_base_url = normalize_base_url base, pc_bearer_token = None \<rparr>"

definition with_bearer_token :: "string \<Rightarrow> string \<Rightarrow> api_client" where
  "with_bearer_token base token = \<lparr> pc_base_url = normalize_base_url base, pc_bearer_token = Some token \<rparr>"

definition has_credentials :: "api_client \<Rightarrow> bool" where
  "has_credentials c \<longleftrightarrow> pc_bearer_token c \<noteq> None"

definition access_token :: "api_client \<Rightarrow> string public_result" where
  "access_token c = ok_or (Validation ''not logged in'') (pc_bearer_token c)"

definition authorized :: "http_request \<Rightarrow> string \<Rightarrow> http_request" where
  "authorized request token = request\<lparr>rq_bearer := Some token\<rparr>"

definition send_request :: "server \<Rightarrow> http_request \<Rightarrow> string \<Rightarrow> http_response api_call" where
  "send_request server request path = io_map_err (\<lambda>e. map_reqwest_error e path) (transmit server request)"

definition send ::
  "'x auth_ext_scheme \<Rightarrow> server \<Rightarrow> api_client \<Rightarrow> 'a de \<Rightarrow> http_request \<Rightarrow> string \<Rightarrow> 'a api_call" where
  "send A server c parse request path =
     io_then (io_return (access_token c)) (\<lambda>token.
     io_then (send_request server (authorized request token) path) (\<lambda>response.
     io_return (handle_response A parse response path)))"

definition send_no_content ::
  "'x auth_ext_scheme \<Rightarrow> server \<Rightarrow> api_client \<Rightarrow> http_request \<Rightarrow> string \<Rightarrow> unit api_call" where
  "send_no_content A server c request path =
     io_then (io_return (access_token c)) (\<lambda>token.
     io_then (send_request server (authorized request token) path) (\<lambda>response.
     io_return (handle_empty_response A response path)))"

text \<open>A request before it is authorized.\<close>
definition plain_request :: "http_method \<Rightarrow> api_client \<Rightarrow> string \<Rightarrow> json option \<Rightarrow> http_request" where
  "plain_request method c path body =
     \<lparr> rq_method = method, rq_url = pc_base_url c @ path, rq_bearer = None, rq_body = body \<rparr>"

definition api_get :: "'x auth_ext_scheme \<Rightarrow> server \<Rightarrow> api_client \<Rightarrow> 'a de \<Rightarrow> string \<Rightarrow> 'a api_call" where
  "api_get A server c parse path = send A server c parse (plain_request GET c path None) path"

definition api_post ::
  "'x auth_ext_scheme \<Rightarrow> server \<Rightarrow> api_client \<Rightarrow> 'a de \<Rightarrow> string \<Rightarrow> json \<Rightarrow> 'a api_call" where
  "api_post A server c parse path body = send A server c parse (plain_request POST c path (Some body)) path"

definition api_post_empty :: "'x auth_ext_scheme \<Rightarrow> server \<Rightarrow> api_client \<Rightarrow> 'a de \<Rightarrow> string \<Rightarrow> 'a api_call" where
  "api_post_empty A server c parse path = send A server c parse (plain_request POST c path None) path"

definition api_patch ::
  "'x auth_ext_scheme \<Rightarrow> server \<Rightarrow> api_client \<Rightarrow> 'a de \<Rightarrow> string \<Rightarrow> json \<Rightarrow> 'a api_call" where
  "api_patch A server c parse path body = send A server c parse (plain_request PATCH c path (Some body)) path"

definition delete_no_content_with_body ::
  "'x auth_ext_scheme \<Rightarrow> server \<Rightarrow> api_client \<Rightarrow> string \<Rightarrow> json \<Rightarrow> unit api_call" where
  "delete_no_content_with_body A server c path body =
     send_no_content A server c (plain_request DELETE c path (Some body)) path"

definition post_public ::
  "'x auth_ext_scheme \<Rightarrow> server \<Rightarrow> api_client \<Rightarrow> 'a de \<Rightarrow> string \<Rightarrow> json \<Rightarrow> 'a api_call" where
  "post_public A server c parse path body =
     io_then (send_request server (plain_request POST c path (Some body)) path) (\<lambda>response.
     io_return (handle_response A parse response path))"

section \<open>Operations\<close>

definition get_me :: "'x api_ext_scheme \<Rightarrow> server \<Rightarrow> api_client \<Rightarrow> current_user_response api_call" where
  "get_me P server c = api_get P server c (de_me P) ''/me''"

definition list_work_lists :: "'x api_ext_scheme \<Rightarrow> server \<Rightarrow> api_client \<Rightarrow> work_list_response list api_call" where
  "list_work_lists P server c = api_get P server c (de_work_lists P) ''/work-lists''"

definition work_list_path :: "'x client_ext_scheme \<Rightarrow> uuid \<Rightarrow> string" where
  "work_list_path X wid = ''/work-lists/'' @ uuid_display X wid"

definition task_path :: "'x client_ext_scheme \<Rightarrow> uuid \<Rightarrow> uuid \<Rightarrow> string" where
  "task_path X wid tid = work_list_path X wid @ ''/tasks/'' @ uuid_display X tid"

definition get_work_list :: "'x api_ext_scheme \<Rightarrow> server \<Rightarrow> api_client \<Rightarrow> uuid \<Rightarrow> work_list_detail_response api_call" where
  "get_work_list P server c wid = api_get P server c (de_work_list_detail P) (work_list_path P wid)"

definition get_tasks :: "'x api_ext_scheme \<Rightarrow> server \<Rightarrow> api_client \<Rightarrow> uuid \<Rightarrow> bool \<Rightarrow> task_list_response api_call" where
  "get_tasks P server c wid include_archived =
     api_get P server c (de_task_list P)
       (work_list_path P wid @ (if include_archived then ''/tasks?includeArchived=true'' else ''/tasks''))"

definition my_tasks_path :: "int option \<Rightarrow> int option \<Rightarrow> bool \<Rightarrow> string" where
  "my_tasks_path limit offset include_completed =
     (let params = (case limit of Some l \<Rightarrow> [''limit='' @ show_int l] | None \<Rightarrow> []) @
            (case offset of Some p \<Rightarrow> [''offset='' @ show_int p] | None \<Rightarrow> []) @
            (if include_completed then [''includeCompleted=true''] else []) in
      if params = [] then ''/me/tasks'' else ''/me/tasks?'' @ join_str ''&'' params)"

definition get_my_tasks_filtered ::
  "'x api_ext_scheme \<Rightarrow> server \<Rightarrow> api_client \<Rightarrow> int option \<Rightarrow> int option \<Rightarrow> bool \<Rightarrow> my_tasks_response api_call" where
  "get_my_tasks_filtered P server c limit offset include_completed =
     api_get P server c (de_my_tasks P) (my_tasks_path limit offset include_completed)"

definition get_my_tasks ::
  "'x api_ext_scheme \<Rightarrow> server \<Rightarrow> api_client \<Rightarrow> int option \<Rightarrow> int option \<Rightarrow> my_tasks_response api_call" where
  "get_my_tasks P server c limit offset = get_my_tasks_filtered P server c limit offset False"

definition MY_TASKS_PAGE_LIMIT :: nat where "MY_TASKS_PAGE_LIMIT = 100"

text \<open>\<open>usize::try_from(page.total)\<close>: a negative total is refused.\<close>
definition page_total :: "'x auth_ext_scheme \<Rightarrow> i64 \<Rightarrow> nat public_result" where
  "page_total A n =
     (if sint n < 0 then
        Err (Unexpected (''invalid /me/tasks total '' @ show_int (sint n) @ '': '' @ int_error A))
      else Ok (nat (sint n)))"

lemma page_total_bound: "page_total A w = Ok n \<Longrightarrow> n < 2 ^ 63"
  using sint_less [of w] by (auto simp: page_total_def split: if_splits)

text \<open>The loop of \<open>get_all_my_tasks\<close>, with the tasks collected and the offset so far; it goes on only
  below a total that fits an \<open>i64\<close>, so it ends.  An offset that does not fit aborts.\<close>
function all_my_tasks_loop ::
  "'x api_ext_scheme \<Rightarrow> server \<Rightarrow> api_client \<Rightarrow> bool \<Rightarrow> my_task_response list \<Rightarrow> int \<Rightarrow> http_request list
   \<Rightarrow> my_task_response list public_result \<times> http_request list" where
  "all_my_tasks_loop P server c include_completed tasks offset sent =
     (case get_my_tasks_filtered P server c (Some (int MY_TASKS_PAGE_LIMIT)) (Some offset) include_completed sent of
        (Err e, sent) \<Rightarrow> (Err e, sent)
      | (Abort, sent) \<Rightarrow> (Abort, sent)
      | (Ok page, sent) \<Rightarrow>
          (case page_total P (mt_total page) of
             Err e \<Rightarrow> (Err e, sent)
           | Abort \<Rightarrow> (Abort, sent)
           | Ok tot \<Rightarrow>
               let page_count = length (mt_tasks page); tasks = tasks @ mt_tasks page in
               if page_count = 0 \<or> page_count < MY_TASKS_PAGE_LIMIT \<or> tot \<le> length tasks then (Ok tasks, sent)
               else if 2 ^ 63 \<le> offset + int page_count then (Abort, sent)
               else all_my_tasks_loop P server c include_completed tasks (offset + int page_count) sent))"
  by pat_completeness auto

termination
proof (relation "measure (\<lambda>(P, server, c, b, tasks, offset, sent). 2 ^ 63 - length tasks)", goal_cases)
  case (2 P server c b tasks offset sent r sent' page)
  then show ?case using page_total_bound [of P "mt_total page"]
    by (cases "mt_tasks page") (auto simp: Let_def)
qed simp

declare all_my_tasks_loop.simps [simp del]

definition get_all_my_tasks ::
  "'x api_ext_scheme \<Rightarrow> server \<Rightarrow> api_client \<Rightarrow> bool \<Rightarrow> my_task_response list api_call" where
  "get_all_my_tasks P server c include_completed = all_my_tasks_loop P server c include_completed [] 0"


definition get_dashboard_stats :: "'x api_ext_scheme \<Rightarrow> server \<Rightarrow> api_client \<Rightarrow> dashboard_stats_response api_call" where
  "get_dashboard_stats P server c = api_get P server c (de_dashboard P) ''/me/dashboard-stats''"

definition get_agent_enrollment :: "'x api_ext_scheme \<Rightarrow> server \<Rightarrow> api_client \<Rightarrow> string \<Rightarrow> agent_enrollment api_call" where
  "get_agent_enrollment P server c code =
     post_public P server c (de_enrollment P) ''/agents/enrollments/lookup'' (lookup_enrollment_request code)"

definition list_agents :: "'x api_ext_scheme \<Rightarrow> server \<Rightarrow> api_client \<Rightarrow> agent_summary_response list api_call" where
  "list_agents P server c = api_get P server c (de_agents P) ''/agents''"

definition approve_agent_enrollment ::
  "'x api_ext_scheme \<Rightarrow> server \<Rightarrow> api_client \<Rightarrow> approve_agent_enrollment_request \<Rightarrow> agent_summary_response api_call"
  where
  "approve_agent_enrollment P server c payload =
     api_post P server c (de_agent_summary P) ''/agents/enrollments/approve'' (approve_enrollment_json P payload)"

definition revoke_agent :: "'x api_ext_scheme \<Rightarrow> server \<Rightarrow> api_client \<Rightarrow> uuid \<Rightarrow> agent_summary_response api_call" where
  "revoke_agent P server c agent_id =
     api_post_empty P server c (de_agent_summary P) (''/agents/'' @ uuid_display P agent_id @ ''/revoke'')"

definition api_get_task ::
  "'x api_ext_scheme \<Rightarrow> server \<Rightarrow> api_client \<Rightarrow> uuid \<Rightarrow> uuid \<Rightarrow> task_detail_response api_call" where
  "api_get_task P server c wid tid = api_get P server c (de_task_detail P) (task_path P wid tid)"

definition get_attachment_download ::
  "'x api_ext_scheme \<Rightarrow> server \<Rightarrow> api_client \<Rightarrow> uuid \<Rightarrow> uuid \<Rightarrow> download_attachment_response api_call" where
  "get_attachment_download P server c wid attachment_id =
     api_get P server c (de_download P)
       (work_list_path P wid @ ''/attachments/'' @ uuid_display P attachment_id @ ''/download'')"

definition api_create_task ::
  "'x api_ext_scheme \<Rightarrow> server \<Rightarrow> api_client \<Rightarrow> uuid \<Rightarrow> create_task_request \<Rightarrow> task_response api_call" where
  "api_create_task P server c wid payload =
     api_post P server c (de_task P) (work_list_path P wid @ ''/tasks'')
       (create_task_json P (datetime_json P) payload)"

definition api_update_task ::
  "'x api_ext_scheme \<Rightarrow> server \<Rightarrow> api_client \<Rightarrow> uuid \<Rightarrow> uuid \<Rightarrow> update_task_request \<Rightarrow> task_response api_call" where
  "api_update_task P server c wid tid payload =
     api_patch P server c (de_task P) (task_path P wid tid) (update_task_json P (datetime_json P) payload)"

definition update_delegation ::
  "'x api_ext_scheme \<Rightarrow> server \<Rightarrow> api_client \<Rightarrow> uuid \<Rightarrow> uuid \<Rightarrow> uuid \<Rightarrow> update_delegation_request
   \<Rightarrow> delegation_response api_call" where
  "update_delegation P server c wid tid delegation_id payload =
     api_patch P server c (de_delegation P) (task_path P wid tid @ ''/delegations/'' @ uuid_display P delegation_id)
       (update_delegation_json payload)"

definition api_move_task ::
  "'x api_ext_scheme \<Rightarrow> server \<Rightarrow> api_client \<Rightarrow> uuid \<Rightarrow> uuid \<Rightarrow> move_task_request \<Rightarrow> task_response api_call" where
  "api_move_task P server c wid tid payload =
     api_post P server c (de_task P) (task_path P wid tid @ ''/move'') (move_task_json P payload)"

text \<open>The requests of the next two have no fields.\<close>
definition api_archive_task :: "'x api_ext_scheme \<Rightarrow> server \<Rightarrow> api_client \<Rightarrow> uuid \<Rightarrow> uuid \<Rightarrow> task_response api_call" where
  "api_archive_task P server c wid tid =
     api_post P server c (de_task P) (task_path P wid tid @ ''/archive'') (JObject [])"

definition api_unarchive_task :: "'x api_ext_scheme \<Rightarrow> server \<Rightarrow> api_client \<Rightarrow> uuid \<Rightarrow> uuid \<Rightarrow> task_response api_call" where
  "api_unarchive_task P server c wid tid =
     api_post P server c (de_task P) (task_path P wid tid @ ''/unarchive'') (JObject [])"

definition api_delete_task ::
  "'x api_ext_scheme \<Rightarrow> server \<Rightarrow> api_client \<Rightarrow> uuid \<Rightarrow> uuid \<Rightarrow> delete_request \<Rightarrow> unit api_call" where
  "api_delete_task P server c wid tid payload =
     io_then (io_return (validate_optional_audit_patch (dr_audit_patch payload))) (\<lambda>_.
     delete_no_content_with_body P server c (task_path P wid tid) (delete_request_json payload))"

definition api_list_comments ::
  "'x api_ext_scheme \<Rightarrow> server \<Rightarrow> api_client \<Rightarrow> uuid \<Rightarrow> uuid \<Rightarrow> comment_response list api_call" where
  "api_list_comments P server c wid tid = api_get P server c (de_comments P) (task_path P wid tid @ ''/comments'')"

definition api_create_comment ::
  "'x api_ext_scheme \<Rightarrow> server \<Rightarrow> api_client \<Rightarrow> uuid \<Rightarrow> uuid \<Rightarrow> create_comment_request \<Rightarrow> comment_response api_call" where
  "api_create_comment P server c wid tid payload =
     api_post P server c (de_comment P) (task_path P wid tid @ ''/comments'') (create_comment_json payload)"

definition comment_path :: "'x client_ext_scheme \<Rightarrow> uuid \<Rightarrow> uuid \<Rightarrow> uuid \<Rightarrow> string" where
  "comment_path X wid tid cid = task_path X wid tid @ ''/comments/'' @ uuid_display X cid"

definition api_update_comment ::
  "'x api_ext_scheme \<Rightarrow> server \<Rightarrow> api_client \<Rightarrow> uuid \<Rightarrow> uuid \<Rightarrow> uuid \<Rightarrow> update_comment_request
   \<Rightarrow> comment_response api_call" where
  "api_update_comment P server c wid tid cid payload =
     api_patch P server c (de_comment P) (comment_path P wid tid cid) (update_comment_json payload)"

definition api_delete_comment ::
  "'x api_ext_scheme \<Rightarrow> server \<Rightarrow> api_client \<Rightarrow> uuid \<Rightarrow> uuid \<Rightarrow> uuid \<Rightarrow> delete_request \<Rightarrow> unit api_call" where
  "api_delete_comment P server c wid tid cid payload =
     io_then (io_return (validate_optional_audit_patch (dr_audit_patch payload))) (\<lambda>_.
     delete_no_content_with_body P server c (comment_path P wid tid cid) (delete_request_json payload))"

section \<open>Requests and answers\<close>

text \<open>An authorized call: what it sends, and what it makes of the answer.\<close>
lemma send_run:
  "send A server c parse request path sent =
     (case pc_bearer_token c of
        None \<Rightarrow> (Err (Validation ''not logged in''), sent)
      | Some token \<Rightarrow>
          let request = authorized request token in
          (and_then (map_err (\<lambda>e. map_reqwest_error e path) (server sent request))
             (\<lambda>response. handle_response A parse response path), sent @ [request]))"
  by (cases "pc_bearer_token c")
    (auto simp: send_def access_token_def send_request_def io_then_def io_return_def io_map_err_def
      transmit_def Let_def split: rust_result.splits)

lemma send_no_content_run:
  "send_no_content A server c request path sent =
     (case pc_bearer_token c of
        None \<Rightarrow> (Err (Validation ''not logged in''), sent)
      | Some token \<Rightarrow>
          let request = authorized request token in
          (and_then (map_err (\<lambda>e. map_reqwest_error e path) (server sent request))
             (\<lambda>response. handle_empty_response A response path), sent @ [request]))"
  by (cases "pc_bearer_token c")
    (auto simp: send_no_content_def access_token_def send_request_def io_then_def io_return_def io_map_err_def
      transmit_def Let_def split: rust_result.splits)

section \<open>Pagination\<close>

text \<open>The request of one page.\<close>
definition page_request :: "api_client \<Rightarrow> string \<Rightarrow> bool \<Rightarrow> nat \<Rightarrow> http_request" where
  "page_request c token include_completed offset =
     authorized (plain_request GET c (my_tasks_path (Some (int MY_TASKS_PAGE_LIMIT)) (Some (int offset)) include_completed) None)
       token"

text \<open>A server that answers the pages of a fixed list of tasks, whatever was asked before.\<close>
definition serves_tasks ::
  "'x api_ext_scheme \<Rightarrow> server \<Rightarrow> api_client \<Rightarrow> string \<Rightarrow> bool \<Rightarrow> my_task_response list \<Rightarrow> bool" where
  "serves_tasks P server c token include_completed ts \<longleftrightarrow>
     length ts < 2 ^ 63 \<and>
     (\<forall>sent offset. \<exists>response page. server sent (page_request c token include_completed offset) = Ok response \<and>
        is_success (rs_status response) \<and> response_json (de_my_tasks P) response = Ok page \<and>
        mt_tasks page = take MY_TASKS_PAGE_LIMIT (drop offset ts) \<and> mt_total page = of_nat (length ts))"

lemma my_tasks_page:
  assumes "serves_tasks P server c token b ts" "pc_bearer_token c = Some token"
  obtains page where
    "get_my_tasks_filtered P server c (Some (int MY_TASKS_PAGE_LIMIT)) (Some (int offset)) b sent =
       (Ok page, sent @ [page_request c token b offset])"
    "mt_tasks page = take MY_TASKS_PAGE_LIMIT (drop offset ts)" "page_total P (mt_total page) = Ok (length ts)"
proof -
  let ?rq = "page_request c token b offset"
  obtain response page where answer: "server sent ?rq = Ok response" "is_success (rs_status response)"
      "response_json (de_my_tasks P) response = Ok page"
      "mt_tasks page = take MY_TASKS_PAGE_LIMIT (drop offset ts)" "mt_total page = of_nat (length ts)"
      "length ts < 2 ^ 63"
    using assms(1) unfolding serves_tasks_def by blast
  have "sint (of_nat (length ts) :: i64) = int (length ts)"
    using answer(6) by (simp add: signed_of_nat signed_take_bit_int_eq_self)
  then have "page_total P (mt_total page) = Ok (length ts)"
    using answer(5) by (simp add: page_total_def)
  moreover have "get_my_tasks_filtered P server c (Some (int MY_TASKS_PAGE_LIMIT)) (Some (int offset)) b sent =
       (Ok page, sent @ [?rq])"
    using answer(1-3) assms(2)
    by (simp add: get_my_tasks_filtered_def api_get_def send_run Let_def page_request_def handle_response_def)
  ultimately show thesis using that answer(4) by blast
qed

end
