(* ===== verification/Api_Thms.thy ===== *)
theory Api_Thms
  imports Api_Client
begin

text \<open>Correctness of the API client: pagination is complete and always ends, and deletions carry no
  plain text.\<close>

lemma all_my_tasks_pages:
  assumes "serves_tasks P server c token b ts" "pc_bearer_token c = Some token" "100 * k < length ts \<or> k = 0"
  shows "all_my_tasks_loop P server c b (take (100 * k) ts) (int (100 * k)) sent =
    (Ok ts, sent @ map (\<lambda>i. page_request c token b (100 * i)) [k..<max 1 ((length ts + 99) div 100)])"
  using assms(3)
proof (induction "length ts - 100 * k" arbitrary: k sent rule: less_induct)
  case less
  obtain page where page:
    "get_my_tasks_filtered P server c (Some (int MY_TASKS_PAGE_LIMIT)) (Some (int (100 * k))) b sent =
       (Ok page, sent @ [page_request c token b (100 * k)])"
    "mt_tasks page = take 100 (drop (100 * k) ts)" "page_total P (mt_total page) = Ok (length ts)"
    using my_tasks_page [OF assms(1,2)] unfolding MY_TASKS_PAGE_LIMIT_def by blast
  have short: "length ts < 2 ^ 63" using assms(1) by (simp add: serves_tasks_def)
  have collected: "take (100 * k) ts @ mt_tasks page = take (100 * Suc k) ts"
    unfolding page(2) by (metis add.commute mult_Suc_right take_add)
  show ?case
  proof (cases "length ts \<le> 100 * Suc k")
    case True
    then have "max 1 ((length ts + 99) div 100) = Suc k" using less.prems by auto
    moreover have "all_my_tasks_loop P server c b (take (100 * k) ts) (int (100 * k)) sent =
        (Ok ts, sent @ [page_request c token b (100 * k)])"
      using page(1,3) collected True
      by (subst all_my_tasks_loop.simps) (simp add: Let_def)
    ultimately show ?thesis by simp
  next
    case False
    have count: "length (mt_tasks page) = 100" using False page(2) by simp
    have "all_my_tasks_loop P server c b (take (100 * k) ts) (int (100 * k)) sent =
        all_my_tasks_loop P server c b (take (100 * Suc k) ts) (int (100 * Suc k))
          (sent @ [page_request c token b (100 * k)])"
      using page(1,3) collected False count short
      by (subst all_my_tasks_loop.simps) (simp add: Let_def MY_TASKS_PAGE_LIMIT_def add.commute)
    also have "\<dots> = (Ok ts, (sent @ [page_request c token b (100 * k)]) @
        map (\<lambda>i. page_request c token b (100 * i)) [Suc k..<max 1 ((length ts + 99) div 100)])"
      by (rule less.hyps) (use False in auto)
    finally show ?thesis using False by (simp add: upt_conv_Cons)
  qed
qed

text \<open>C26: Listing all tasks is complete: from a server that answers the pages of a fixed list, the client
  collects that list, in its order, with one authorized request per page of 100, the first also when
  the list is empty, and no request after the last page.\<close>
theorem all_my_tasks_complete:
  assumes "serves_tasks P server c token include_completed ts" "pc_bearer_token c = Some token"
  shows "get_all_my_tasks P server c include_completed sent =
    (Ok ts, sent @ map (\<lambda>i. page_request c token include_completed (100 * i))
      [0..<max 1 ((length ts + 99) div 100)])"
  using all_my_tasks_pages [OF assms, of 0 sent] by (simp add: get_all_my_tasks_def)

lemma send_neq_Abort:
  assumes "\<And>sent request. server sent request \<noteq> Abort" "\<And>t. parse t \<noteq> Abort"
  shows "fst (send A server c parse request path sent) \<noteq> Abort"
  using assms
  by (auto simp: send_run Let_def handle_response_def response_json_def and_then_eq_Abort map_err_eq_Abort
      split: option.splits if_splits sum.splits)

lemma all_my_tasks_loop_returns:
  assumes "\<And>sent request. server sent request \<noteq> Abort" "\<And>t. de_my_tasks P t \<noteq> Abort"
    and "offset = int (length tasks)"
  shows "fst (all_my_tasks_loop P server c b tasks offset sent) \<noteq> Abort"
  using assms
proof (induction P server c b tasks offset sent rule: all_my_tasks_loop.induct)
  case (1 P server c b tasks offset sent)
  let ?call = "get_my_tasks_filtered P server c (Some (int MY_TASKS_PAGE_LIMIT)) (Some offset) b sent"
  have call: "fst ?call \<noteq> Abort"
    using send_neq_Abort [OF 1(2,3)] by (simp add: get_my_tasks_filtered_def api_get_def)
  show ?case
  proof (cases ?call)
    case (Pair r sent')
    show ?thesis
    proof (cases r)
      case (Ok page)
      show ?thesis
      proof (cases "page_total P (mt_total page)")
        case (Ok tot)
        have "tot < 2 ^ 63" by (rule page_total_bound [OF Ok])
        then show ?thesis
          using 1(1) [OF Pair [symmetric] \<open>r = Ok page\<close> Ok refl refl] 1(2-4) Pair \<open>r = Ok page\<close> Ok
          by (subst all_my_tasks_loop.simps) (auto simp: Let_def)
      qed (use Pair \<open>r = Ok page\<close> in \<open>auto simp: all_my_tasks_loop.simps page_total_def split: if_splits\<close>)
    qed (use Pair call in \<open>auto simp: all_my_tasks_loop.simps\<close>)
  qed
qed

text \<open>C27: Listing all tasks always ends, whatever the server answers, also one that claims ever more
  tasks, and the offset of the next page never overflows.\<close>
theorem all_my_tasks_returns:
  assumes "\<And>sent request. server sent request \<noteq> Abort" "\<And>t. de_my_tasks P t \<noteq> Abort"
  shows "\<exists>r sent'. get_all_my_tasks P server c b sent = (r, sent') \<and> r \<noteq> Abort"
proof -
  have "fst (get_all_my_tasks P server c b sent) \<noteq> Abort"
    unfolding get_all_my_tasks_def by (rule all_my_tasks_loop_returns [OF assms]) simp_all
  then show ?thesis by (metis prod.collapse)
qed

section \<open>The encrypted boundary\<close>

definition field_encrypted :: "audit_patch_field_request \<Rightarrow> bool" where
  "field_encrypted f \<longleftrightarrow> pf_before_scalar f = None \<and> pf_after_scalar f = None"

lemma fields_encrypted_boundary_Ok:
  "fields_encrypted_boundary fs = Ok () \<longleftrightarrow> list_all field_encrypted fs"
  by (induction fs) (auto simp: field_encrypted_boundary_def field_encrypted_def)

lemma fields_encrypted_boundary_cases:
  "fields_encrypted_boundary fs = Ok () \<or> (\<exists>m. fields_encrypted_boundary fs = Err (Validation m))"
  by (induction fs) (auto simp: field_encrypted_boundary_def)

definition delete_encrypted :: "delete_request \<Rightarrow> bool" where
  "delete_encrypted r \<longleftrightarrow>
     (case dr_audit_patch r of Some p \<Rightarrow> list_all field_encrypted (ap_fields p) | None \<Rightarrow> True)"

lemma validate_optional_cases:
  "validate_optional_audit_patch (dr_audit_patch r) = Ok () \<and> delete_encrypted r \<or>
   (\<exists>m. validate_optional_audit_patch (dr_audit_patch r) = Err (Validation m)) \<and> \<not> delete_encrypted r"
  using fields_encrypted_boundary_cases [of "ap_fields (the (dr_audit_patch r))"]
    fields_encrypted_boundary_Ok [of "ap_fields (the (dr_audit_patch r))"]
  by (auto simp: validate_optional_audit_patch_def validate_encrypted_boundary_def delete_encrypted_def
      split: option.splits)

text \<open>C28: No plain text leaves the client with a deletion: one whose audit patch has a scalar value is
  refused before anything is sent, and a deletion that is sent carries no scalar field.\<close>
theorem deletion_encrypted_boundary:
  assumes "call = api_delete_task P server c wid tid payload \<or> call = api_delete_comment P server c wid tid cid payload"
    and "call sent = (r, sent')"
  shows "if delete_encrypted payload
    then sent' = sent \<and> r = Err (Validation ''not logged in'') \<or>
      (\<exists>request. sent' = sent @ [request] \<and> rq_method request = DELETE \<and>
         rq_body request = Some (delete_request_json payload))
    else sent' = sent \<and> (\<exists>m. r = Err (Validation m))"
proof -
  have no_content: "send_no_content P server c (plain_request DELETE c path (Some (delete_request_json payload))) path
      sent = (r, sent') \<Longrightarrow> sent' = sent \<and> r = Err (Validation ''not logged in'') \<or>
      (\<exists>request. sent' = sent @ [request] \<and> rq_method request = DELETE \<and>
         rq_body request = Some (delete_request_json payload))" for path
    by (auto simp: send_no_content_run Let_def authorized_def plain_request_def split: option.splits)
  consider "validate_optional_audit_patch (dr_audit_patch payload) = Ok ()" "delete_encrypted payload"
    | m where "validate_optional_audit_patch (dr_audit_patch payload) = Err (Validation m)" "\<not> delete_encrypted payload"
    using validate_optional_cases by blast
  then show ?thesis
  proof cases
    case 1
    then show ?thesis using assms no_content
      by (auto simp: api_delete_task_def api_delete_comment_def delete_no_content_with_body_def io_then_return)
  next
    case (2 m)
    then have "call sent = (Err (Validation m), sent)" using assms(1)
      by (auto simp: api_delete_task_def api_delete_comment_def io_then_return io_return_run)
    then show ?thesis using assms(2) 2(2) by auto
  qed
qed

end
