(* ===== verification/Auth_Storage_Thms.thy ===== *)
theory Auth_Storage_Thms
  imports Auth_Storage
begin

text \<open>Correctness of the storage of \<open>client-auth\<close>: atomic replacement of secret files under every
  failure of the file system, lookup of stored credentials by URL, and the backends of the
  persisted data key as instances of one contract.\<close>

section \<open>Atomic replacement\<close>

lemma temporary_neq: "p \<noteq> [] \<Longrightarrow> temporary_secret_path W p \<noteq> p"
proof -
  assume "p \<noteq> []"
  then have "last (temporary_secret_path W p) = ''.'' @ last p @ ''.'' @ temp_nonce W @ ''.tmp''"
    by (simp add: temporary_secret_path_def Let_def)
  then have "length (last (temporary_secret_path W p)) \<noteq> length (last p)" by simp
  then show ?thesis by metis
qed

text \<open>Two devices agree but for the contents of files among \<open>ps\<close>.\<close>
definition same_but :: "path set \<Rightarrow> device \<Rightarrow> device \<Rightarrow> bool" where
  "same_but ps d d' \<longleftrightarrow> dv_dirs d' = dv_dirs d \<and> dv_keyring d' = dv_keyring d \<and>
     (\<forall>q. q \<notin> ps \<longrightarrow> dv_files d' q = dv_files d q)"

lemma same_but_trans: "same_but ps d d' \<Longrightarrow> same_but ps d' d'' \<Longrightarrow> same_but ps d d''"
  by (simp add: same_but_def)

lemma same_but_refl [simp]: "same_but ps d d"
  by (simp add: same_but_def)

lemma io_do_cases:
  assumes "io_do W op m f d = (r, d')"
  obtains e where "io_fails W op = Some e" "r = Err (Unexpected (m e))" "d' = d"
  | "io_fails W op = None" "r = Ok ()" "d' = f d"
  using assms by (auto simp: io_do_def split: option.splits)

text \<open>The closure: it ends well with the file replaced, or fails before the rename with the target
  as it was, or fails after it.  The file that replaces the target has the mode the temporary one was created with.\<close>
lemma write_temporary_cases:
  assumes "write_temporary W t p contents label d = (r, d')" "t \<noteq> p"
    and "dv_files d t = Some \<lparr>fl_bytes = b, fl_mode = mode\<rparr>"
  shows "same_but {t, p} d d' \<and>
    (r = Ok () \<and> dv_files d' p = Some \<lparr>fl_bytes = contents, fl_mode = mode\<rparr> \<and> dv_files d' t = None \<or>
     (\<exists>e. r = Err e) \<and> dv_files d' p = dv_files d p \<and> dv_files d' t \<noteq> None \<or>
     (\<exists>e. r = Err e) \<and> dv_files d' p = Some \<lparr>fl_bytes = contents, fl_mode = mode\<rparr> \<and> dv_files d' t = None)"
  using assms
  unfolding write_temporary_def Let_def io_then_def write_all_def sync_directory_def io_do_def
  by (auto simp: same_but_def set_contents_def rename_file_def split: option.splits)

lemma secret_file_replaced_all:
  assumes "write_secret_file_atomic W p contents label d = (r, d')"
  defines "t \<equiv> temporary_secret_path W p"
  shows "same_but {t, p} d d' \<and> r \<noteq> Abort \<and>
    (dv_files d' p = dv_files d p \<or> dv_files d' p = Some \<lparr>fl_bytes = contents, fl_mode = SECRET_MODE\<rparr>) \<and>
    (r = Ok () \<longrightarrow> dv_files d' p = Some \<lparr>fl_bytes = contents, fl_mode = SECRET_MODE\<rparr>) \<and>
    (r = Ok () \<or> io_fails W (RemoveFile t) = None \<longrightarrow> dv_files d' t = dv_files d t)"
proof (cases "p = []")
  case False
  note neq = temporary_neq [OF False, of W, folded t_def]
  show ?thesis
  proof (cases "dv_files d t")
    case None
    then show ?thesis
    proof (cases "io_fails W (CreateFile t)")
      case (Some e)
      then show ?thesis using assms(1) False None
        by (auto simp: write_secret_file_atomic_def Let_def t_def [symmetric] io_then_def create_secret_file_def
            file_exists_def io_do_def)
    next
      case created: None
      let ?d1 = "put_file t \<lparr> fl_bytes = [], fl_mode = SECRET_MODE \<rparr> d"
      obtain r2 d2 where w: "write_temporary W t p contents label ?d1 = (r2, d2)" by fastforce
      have start: "same_but {t, p} d ?d1" "dv_files ?d1 p = dv_files d p"
        using neq by (simp_all add: same_but_def put_file_def)
      have run: "(r, d') = (case (r2, d2) of (Err e, d) \<Rightarrow> remove_temporary W t label e d | done \<Rightarrow> done)"
        using assms(1) False None created
        by (simp add: write_secret_file_atomic_def Let_def t_def [symmetric] io_then_def create_secret_file_def
            file_exists_def io_do_def w)
      have mode: "dv_files ?d1 t = Some \<lparr> fl_bytes = [], fl_mode = SECRET_MODE \<rparr>" by (simp add: put_file_def)
      note cases = write_temporary_cases [OF w neq mode]
      have sb: "same_but {t, p} d d2"
        using same_but_trans [OF start(1)] cases by blast
      then have keep: "same_but {t, p} d (drop_file t d2)" by (simp add: same_but_def drop_file_def)
      show ?thesis
        using cases run start(2) None neq sb keep
        by (auto simp: remove_temporary_def file_exists_def drop_file_def
            split: option.splits if_splits)
    qed
  next
    case (Some f)
    then show ?thesis using assms(1) False
      by (auto simp: write_secret_file_atomic_def Let_def t_def [symmetric] io_then_def create_secret_file_def
          file_exists_def)
  qed
qed (use assms(1) in \<open>auto simp: write_secret_file_atomic_def io_return_def\<close>)

text \<open>C15: Replacing a secret file is atomic, whatever fails: the file holds afterwards what it held
  before or the new contents, with mode 0600, that its owner only can read and write, and nothing else of the device has
  changed; it holds the new contents when the operation reports success, and the temporary file is
  gone unless its removal fails as well.\<close>
theorem secret_file_atomic:
  assumes "write_secret_file_atomic W p contents label d = (r, d')"
  shows "same_but {temporary_secret_path W p, p} d d' \<and> r \<noteq> Abort \<and>
    (dv_files d' p = dv_files d p \<or> dv_files d' p = Some \<lparr>fl_bytes = contents, fl_mode = 384\<rparr>) \<and>
    (r = Ok () \<longrightarrow> dv_files d' p = Some \<lparr>fl_bytes = contents, fl_mode = 384\<rparr>) \<and>
    (r = Ok () \<or> io_fails W (RemoveFile (temporary_secret_path W p)) = None \<longrightarrow>
       dv_files d' (temporary_secret_path W p) = dv_files d (temporary_secret_path W p))"
  using secret_file_replaced_all [OF assms] unfolding SECRET_MODE_def .

lemma secret_file_replaced:
  assumes "write_secret_file_atomic W p contents label d = (Ok (), d')"
  shows "dv_files d' p = Some \<lparr>fl_bytes = contents, fl_mode = SECRET_MODE\<rparr>"
    "dv_files d' (temporary_secret_path W p) = dv_files d (temporary_secret_path W p)"
    "same_but {temporary_secret_path W p, p} d d'"
  using secret_file_replaced_all [OF assms] by auto

section \<open>Stored credentials\<close>

lemma ensure_config_dir_Ok:
  assumes "ensure_config_dir W d = (Ok dir, d')"
  shows "config_dir W = Ok dir" "dv_files d' = dv_files d" "dv_keyring d' = dv_keyring d"
  using assms
  by (auto simp: ensure_config_dir_def io_then_Ok io_return_def io_map_def set_config_dir_permissions_def io_do_def
      split: if_splits option.splits)

lemma save_config_file_Ok:
  assumes "save_config_file W ser p v label d = (Ok (), d')"
  obtains b where "ser v = Ok b" "dv_files d' p = Some \<lparr>fl_bytes = b, fl_mode = SECRET_MODE\<rparr>"
    "\<And>q. q \<noteq> p \<Longrightarrow> dv_files d' q = dv_files d q"
proof -
  obtain dir d1 b where d1: "ensure_config_dir W d = (Ok dir, d1)" "ser v = Ok b"
      "write_secret_file_atomic W p b label d1 = (Ok (), d')"
    using assms by (auto simp: save_config_file_def io_then_Ok io_return_def)
  have "dv_files d' q = dv_files d q" if "q \<noteq> p" for q
    using secret_file_replaced [OF d1(3)] that ensure_config_dir_Ok(2) [OF d1(1)]
    by (cases "q = temporary_secret_path W p") (simp_all add: same_but_def)
  then show thesis using that secret_file_replaced [OF d1(3)] d1(2) by blast
qed

lemma load_config_file_stored:
  assumes "dv_files d p = Some f" "de (fl_bytes f) = Ok v" "io_fails W (OpenFile p) = None"
  shows "load_config_file W de p label d = (Ok (Some v), d)"
  using assms by (simp add: load_config_file_def io_then_def io_do_def io_return_def)

lemma load_config_file_state: "snd (load_config_file W de p label d) = d"
  by (auto simp: load_config_file_def io_then_def io_do_def io_return_def split: option.splits rust_result.splits)

lemma load_credentials_state [simp]: "snd (load_credentials W d) = d"
  using load_config_file_state [of W "credentials_de W" _ "''credentials''" d]
  by (cases "credentials_path W") (simp_all add: load_credentials_def io_simps io_return_def)

lemma load_agent_credentials_state [simp]: "snd (load_agent_credentials W d) = d"
  using load_config_file_state [of W "agent_credentials_de W" _ "''agent credentials''" d]
  by (cases "agent_credentials_path W") (simp_all add: load_agent_credentials_def io_simps io_return_def)

lemma load_for_url_state [simp]:
  "snd (load_credentials_for_url W url d) = d" "snd (load_agent_credentials_for_url W url d) = d"
  by (simp_all add: load_credentials_for_url_def load_agent_credentials_for_url_def io_map_def)

lemma save_credentials_Ok:
  assumes "save_credentials W c d = (Ok (), d')"
  obtains dir b where "config_dir W = Ok dir" "credentials_ser W c = Ok b"
    "dv_files d' (dir @ [''credentials.json'']) = Some \<lparr>fl_bytes = b, fl_mode = SECRET_MODE\<rparr>"
    "\<And>q. q \<noteq> dir @ [''credentials.json''] \<Longrightarrow> dv_files d' q = dv_files d q"
proof -
  obtain dir where dir: "config_dir W = Ok dir"
      "save_config_file W (credentials_ser W) (dir @ [''credentials.json'']) c ''credentials'' d = (Ok (), d')"
    using assms by (auto simp: save_credentials_def credentials_path_def io_then_Ok io_return_def)
  show thesis by (rule save_config_file_Ok [OF dir(2)]) (use that dir(1) in blast)
qed

text \<open>C16: Credentials saved after a login at an API URL are found again under that URL, under its
  canonical form, and under no URL of another normal form; the agent's credentials stay as they
  were.\<close>
theorem saved_credentials_found:
  assumes "url_laws W" "auth_response_to_credentials W now url resp = Ok c"
    and "save_credentials W c d = (Ok (), d')"
    and "\<And>b. credentials_ser W c = Ok b \<Longrightarrow> credentials_de W b = Ok c" "\<And>q. io_fails W (OpenFile q) = None"
  shows "load_credentials_for_url W url' d' =
      (Ok (if normalize_api_url W url' = normalize_api_url W url then Some c else None), d') \<and>
    (\<forall>t. canonicalize_api_url W url = Ok t \<longrightarrow> normalize_api_url W t = normalize_api_url W url) \<and>
    load_agent_credentials W d' = (fst (load_agent_credentials W d), d')"
proof -
  obtain dir b where saved: "config_dir W = Ok dir" "credentials_ser W c = Ok b"
      "dv_files d' (dir @ [''credentials.json'']) = Some \<lparr>fl_bytes = b, fl_mode = SECRET_MODE\<rparr>"
      "\<And>q. q \<noteq> dir @ [''credentials.json''] \<Longrightarrow> dv_files d' q = dv_files d q"
    using save_credentials_Ok [OF assms(3)] by blast
  have "cr_api_url c = normalize_api_url W url"
    using assms(2) by (auto simp: auth_response_to_credentials_def)
  moreover have "load_credentials W d' = (Ok (Some c), d')"
    using saved(1) load_config_file_stored [of d' _ _ "credentials_de W" c W, OF saved(3)] assms(4) [OF saved(2)] assms(5)
    by (simp add: load_credentials_def credentials_path_def io_simps)
  ultimately have found: "load_credentials_for_url W url' d' =
      (Ok (if normalize_api_url W url' = normalize_api_url W url then Some c else None), d')"
    by (simp add: load_credentials_for_url_def io_map_def)
  have "dv_files d' (dir @ [''agent.json'']) = dv_files d (dir @ [''agent.json''])"
    by (rule saved(4)) simp
  then have "fst (load_agent_credentials W d') = fst (load_agent_credentials W d)"
    using saved(1)
    by (auto simp: load_agent_credentials_def agent_credentials_path_def io_simps load_config_file_def
        io_then_def io_do_def io_return_def split: option.splits)
  then have agent: "load_agent_credentials W d' = (fst (load_agent_credentials W d), d')"
    by (metis load_agent_credentials_state prod.collapse)
  have "normalize_api_url W t = normalize_api_url W url" if "canonicalize_api_url W url = Ok t" for t
    using canonicalize_stable [OF assms(1) that] by simp
  with found agent show ?thesis by blast
qed

text \<open>The principal a command acts as is one that is stored for the URL asked for, of the kind
  asked for; without a choice it is the only kind stored for that URL.\<close>
theorem principal_selected:
  assumes "load_principal_credentials_for_url W url sel d = (Ok (Some p), d')"
  shows "d' = d \<and> principal_api_url p = normalize_api_url W url \<and>
    (case p of
       UserPrincipal c \<Rightarrow> sel \<noteq> SelectAgent \<and> fst (load_credentials W d) = Ok (Some c) \<and>
         (sel = SelectAuto \<longrightarrow> fst (load_agent_credentials_for_url W url d) = Ok None)
     | AgentPrincipal c \<Rightarrow> sel \<noteq> SelectUser \<and> fst (load_agent_credentials W d) = Ok (Some c) \<and>
         (sel = SelectAuto \<longrightarrow> fst (load_credentials_for_url W url d) = Ok None))"
proof -
  obtain u a d1 where run: "load_credentials_for_url W url d = (Ok u, d1)"
      "load_agent_credentials_for_url W url d1 = (Ok a, d')" "select_principal_credentials sel u a = Ok (Some p)"
    using assms by (auto simp: load_principal_credentials_for_url_def io_then_Ok io_return_def)
  have "d1 = d" "d' = d1"
    using load_for_url_state(1) [of W url d] load_for_url_state(2) [of W url d1] unfolding run by simp_all
  then have loads: "load_credentials_for_url W url d = (Ok u, d)"
      "load_agent_credentials_for_url W url d = (Ok a, d)"
      "select_principal_credentials sel u a = Ok (Some p)" "d' = d"
    using run by simp_all
  have user: "fst (load_credentials W d) = Ok (Some c) \<and> cr_api_url c = normalize_api_url W url" if "u = Some c" for c
    using loads(1) that by (auto simp: load_credentials_for_url_def io_map_def split: option.splits if_splits)
  have agent: "fst (load_agent_credentials W d) = Ok (Some c) \<and> ac_api_url c = normalize_api_url W url"
    if "a = Some c" for c
    using loads(2) that by (auto simp: load_agent_credentials_for_url_def io_map_def split: option.splits if_splits)
  show ?thesis using loads user agent
    by (cases p; cases sel; cases u; cases a) (auto simp: select_principal_eq_Ok)
qed

end
