(* ===== verification/Auth_Backends.thy ===== *)
theory Auth_Backends
  imports Auth_Storage_Thms
begin

text \<open>What \<open>storage.rs\<close> promises of the places secrets are kept in, as one contract: the value last
  saved for an owner is the value loaded, until it is cleared, whatever is saved for others
  meanwhile.  The backends of the persisted data key and the store of agent seeds with its fallback
  from the keychain to a file meet it.\<close>

datatype 'c secret_op = SaveSecret 'c bytes | ClearSecret 'c

fun secret_owner :: "'c secret_op \<Rightarrow> 'c" where
  "secret_owner (SaveSecret c _) = c"
| "secret_owner (ClearSecret c) = c"

text \<open>A sequence of operations that all succeed; \<open>None\<close> when one fails.\<close>
fun run_secret_ops ::
  "('c \<Rightarrow> bytes \<Rightarrow> ('s, unit, 'e) rio) \<Rightarrow> ('c \<Rightarrow> ('s, unit, 'e) rio) \<Rightarrow> 'c secret_op list \<Rightarrow> 's \<Rightarrow> 's option" where
  "run_secret_ops save clear [] s = Some s"
| "run_secret_ops save clear (op # ops) s =
     (case (case op of SaveSecret c v \<Rightarrow> save c v s | ClearSecret c \<Rightarrow> clear c s) of
        (Ok _, s') \<Rightarrow> run_secret_ops save clear ops s'
      | _ \<Rightarrow> None)"

text \<open>What the operations leave for the owners \<open>mine\<close> selects, given what was there before.\<close>
fun last_secret :: "('c \<Rightarrow> bool) \<Rightarrow> 'c secret_op list \<Rightarrow> (bytes option, 'e) rust_result \<Rightarrow> (bytes option, 'e) rust_result"
  where
  "last_secret mine [] r = r"
| "last_secret mine (op # ops) r =
     last_secret mine ops
       (if mine (secret_owner op) then (case op of SaveSecret _ v \<Rightarrow> Ok (Some v) | ClearSecret _ \<Rightarrow> Ok None) else r)"

locale secret_store =
  fixes load :: "'c \<Rightarrow> ('s, bytes option, 'e) rio"
    and save :: "'c \<Rightarrow> bytes \<Rightarrow> ('s, unit, 'e) rio"
    and clear :: "'c \<Rightarrow> ('s, unit, 'e) rio"
    and same :: "'c \<Rightarrow> 'c \<Rightarrow> bool"
    and apart :: "'c \<Rightarrow> 'c \<Rightarrow> bool"
    and valid :: "bytes \<Rightarrow> bool"
  assumes save_load: "save c v s = (Ok (), s') \<Longrightarrow> same c' c \<Longrightarrow> valid v \<Longrightarrow> fst (load c' s') = Ok (Some v)"
    and clear_load: "clear c s = (Ok (), s') \<Longrightarrow> same c' c \<Longrightarrow> fst (load c' s') = Ok None"
    and save_apart: "save c v s = (Ok (), s') \<Longrightarrow> apart c' c \<Longrightarrow> fst (load c' s') = fst (load c' s)"
    and clear_apart: "clear c s = (Ok (), s') \<Longrightarrow> apart c' c \<Longrightarrow> fst (load c' s') = fst (load c' s)"
    and same_not_apart: "same c' c \<Longrightarrow> \<not> apart c' c"
begin

lemma last_write:
  assumes "run_secret_ops save clear ops s = Some s'"
    and "\<forall>op\<in>set ops. same c (secret_owner op) \<or> apart c (secret_owner op)"
    and "\<forall>op\<in>set ops. case op of SaveSecret _ v \<Rightarrow> valid v | ClearSecret _ \<Rightarrow> True"
  shows "fst (load c s') = last_secret (same c) ops (fst (load c s))"
  using assms
proof (induction ops arbitrary: s)
  case (Cons op ops)
  obtain s1 where s1: "(case op of SaveSecret c v \<Rightarrow> save c v s | ClearSecret c \<Rightarrow> clear c s) = (Ok (), s1)"
      "run_secret_ops save clear ops s1 = Some s'"
    using Cons.prems(1) by (auto split: prod.splits rust_result.splits)
  have "fst (load c s1) = (if same c (secret_owner op)
      then (case op of SaveSecret _ v \<Rightarrow> Ok (Some v) | ClearSecret _ \<Rightarrow> Ok None) else fst (load c s))"
    using s1(1) Cons.prems(2,3) save_load clear_load save_apart clear_apart
    by (cases op) auto
  then show ?case using Cons.IH [OF s1(2)] Cons.prems(2,3) by simp
qed simp

lemma kept:
  assumes "run_secret_ops save clear ops s = Some s'" "\<forall>op\<in>set ops. apart c (secret_owner op)"
    "\<forall>op\<in>set ops. case op of SaveSecret _ v \<Rightarrow> valid v | ClearSecret _ \<Rightarrow> True"
  shows "fst (load c s') = fst (load c s)"
proof -
  have "last_secret (same c) ops r = r" if "\<forall>op\<in>set ops. apart c (secret_owner op)" for r
    using that by (induction ops) (auto dest: same_not_apart)
  then show ?thesis using last_write [OF assms(1) _ assms(3)] assms(2) by metis
qed

end

section \<open>The persisted data key\<close>

text \<open>Where a backend keeps the key of some credentials, if it can be read there at all.\<close>
definition data_key_slot ::
  "'x storage_ext_scheme \<Rightarrow> persisted_data_key_backend \<Rightarrow> credentials \<Rightarrow> ((string \<times> string) + path) option" where
  "data_key_slot W backend c =
     (case backend of
        PlatformKeyring \<Rightarrow>
          (case platform_keyring_entry W c of
             Ok entry \<Rightarrow>
               if keyring_fails W (GetSecret (fst entry) (snd entry)) = None \<and>
                 keyring_fails W (DeleteSecret (fst entry) (snd entry)) \<noteq> Some NoEntry
               then Some (Inl entry) else None
           | _ \<Rightarrow> None)
      | TestDirectory dir \<Rightarrow>
          (case test_persisted_data_key_path W dir c of
             Ok p \<Rightarrow> if io_fails W (ReadFile p) = None then Some (Inr p) else None
           | _ \<Rightarrow> None))"

definition data_key_same where
  "data_key_same W backend c c' \<longleftrightarrow> data_key_slot W backend c \<noteq> None \<and>
     data_key_slot W backend c = data_key_slot W backend c'"

definition data_key_apart where
  "data_key_apart W backend c c' \<longleftrightarrow> data_key_slot W backend c \<noteq> None \<and> data_key_slot W backend c' \<noteq> None \<and>
     data_key_slot W backend c \<noteq> data_key_slot W backend c'"

lemma keyring_slot:
  assumes "data_key_slot W PlatformKeyring c = Some k"
  obtains entry where "k = Inl entry" "platform_keyring_entry W c = Ok entry"
    "keyring_fails W (DeleteSecret (fst entry) (snd entry)) \<noteq> Some NoEntry"
    "\<And>d. fst (backend_load W PlatformKeyring c d) = Ok (dv_keyring d entry)"
proof -
  obtain entry where e: "k = Inl entry" "platform_keyring_entry W c = Ok entry"
      "keyring_fails W (DeleteSecret (fst entry) (snd entry)) \<noteq> Some NoEntry"
      "keyring_fails W (GetSecret (fst entry) (snd entry)) = None"
    using assms by (auto simp: data_key_slot_def split: rust_result.splits if_splits)
  have "fst (backend_load W PlatformKeyring c d) = Ok (dv_keyring d entry)" for d
    using e by (cases "dv_keyring d entry") (simp_all add: backend_load_def io_simps keyring_get_def)
  with e(1-3) show thesis by (rule that)
qed

lemma directory_slot:
  assumes "data_key_slot W (TestDirectory dir) c = Some k"
  obtains p where "k = Inr p" "test_persisted_data_key_path W dir c = Ok p"
    "\<exists>name. p = dir @ [''persisted-data-key-'' @ name]"
    "\<And>d. fst (backend_load W (TestDirectory dir) c d) = Ok (map_option fl_bytes (dv_files d p))"
proof -
  obtain p where p: "k = Inr p" "test_persisted_data_key_path W dir c = Ok p" "io_fails W (ReadFile p) = None"
    using assms by (auto simp: data_key_slot_def split: rust_result.splits if_splits)
  have "\<exists>name. p = dir @ [''persisted-data-key-'' @ name]"
    using p(2) by (auto simp: test_persisted_data_key_path_def)
  moreover have "fst (backend_load W (TestDirectory dir) c d) = Ok (map_option fl_bytes (dv_files d p))" for d
    using p by (cases "dv_files d p")
      (simp_all add: backend_load_def load_test_persisted_data_key_def io_simps io_map_def io_do_def)
  ultimately show thesis using p(1,2) that by blast
qed

lemma keyring_save_effect:
  assumes "backend_save W PlatformKeyring c v d = (Ok (), d')" "platform_keyring_entry W c = Ok entry"
  shows "dv_keyring d' = (dv_keyring d)(entry \<mapsto> v)"
  using assms by (auto simp: backend_save_def io_simps keyring_set_def io_map_err_def split: option.splits)

lemma keyring_delete_effect:
  assumes "keyring_delete W entry d = (r, d')" "r = Ok () \<or> r = Err NoEntry"
    and "keyring_fails W (DeleteSecret (fst entry) (snd entry)) \<noteq> Some NoEntry"
  shows "dv_keyring d' = (dv_keyring d)(entry := None)"
proof (cases "keyring_fails W (DeleteSecret (fst entry) (snd entry))")
  case None
  then show ?thesis using assms(1)
    by (cases "dv_keyring d entry = None") (auto simp: keyring_delete_def fun_upd_idem)
next
  case (Some e)
  then show ?thesis using assms by (auto simp: keyring_delete_def)
qed

lemma keyring_clear_effect:
  assumes "backend_clear W PlatformKeyring c d = (Ok (), d')" "platform_keyring_entry W c = Ok entry"
    and "keyring_fails W (DeleteSecret (fst entry) (snd entry)) \<noteq> Some NoEntry"
  shows "dv_keyring d' = (dv_keyring d)(entry := None)"
proof -
  obtain r d1 where del: "keyring_delete W entry d = (r, d1)" by fastforce
  then have "(r = Ok () \<or> r = Err NoEntry) \<and> d1 = d'"
  proof (cases r)
    case (Err e)
    then show ?thesis using assms(1,2) del by (cases e) (simp_all add: backend_clear_def io_simps)
  qed (use assms(1,2) del in \<open>simp_all add: backend_clear_def io_simps\<close>)
  then show ?thesis using keyring_delete_effect [OF del _ assms(3)] by blast
qed

lemma hd_last_temporary [simp]: "hd (last (temporary_secret_path W p)) = CHR ''.''"
  by (simp add: temporary_secret_path_def Let_def)

lemma directory_save_effect:
  assumes "backend_save W (TestDirectory dir) c v d = (Ok (), d')" "test_persisted_data_key_path W dir c = Ok p"
  shows "map_option fl_bytes (dv_files d' p) = Some v"
    "q \<noteq> p \<Longrightarrow> q = dir @ [''persisted-data-key-'' @ name] \<Longrightarrow> dv_files d' q = dv_files d q"
proof -
  obtain d1 where d1: "write_secret_file_atomic W p v ''persisted test keychain secret'' d1 = (Ok (), d')"
      "dv_files d1 = dv_files d"
    using assms by (auto simp: backend_save_def save_test_persisted_data_key_def io_then_Ok io_return_def
        set_config_dir_permissions_def io_do_def split: option.splits if_splits)
  note written = secret_file_replaced [OF d1(1)]
  show "map_option fl_bytes (dv_files d' p) = Some v" using written(1) by simp
  show "dv_files d' q = dv_files d q" if "q \<noteq> p" "q = dir @ [''persisted-data-key-'' @ name]"
  proof -
    have "hd (last q) = CHR ''p''" using that(2) by simp
    then have "q \<noteq> temporary_secret_path W p" using hd_last_temporary [of W p] by force
    then show ?thesis using that(1) written(3) d1(2) by (simp add: same_but_def)
  qed
qed

lemma remove_if_exists_effect:
  assumes "remove_if_exists W p m d = (Ok (), d')" shows "dv_files d' = (dv_files d)(p := None)"
  using assms by (cases "dv_files d p")
    (auto simp: remove_if_exists_def file_exists_def io_do_def drop_file_def fun_eq_iff split: option.splits)

lemma directory_clear_effect:
  assumes "backend_clear W (TestDirectory dir) c d = (Ok (), d')" "test_persisted_data_key_path W dir c = Ok p"
  shows "dv_files d' = (dv_files d)(p := None)"
  using assms by (auto simp: backend_clear_def clear_test_persisted_data_key_def io_simps intro: remove_if_exists_effect)

lemma keyring_load_after:
  assumes "data_key_slot W PlatformKeyring c' = Some k'" "data_key_slot W PlatformKeyring c = Some k"
    and "backend_save W PlatformKeyring c v d = (Ok (), d') \<and> x = Some v \<or>
      backend_clear W PlatformKeyring c d = (Ok (), d') \<and> x = None"
  shows "fst (backend_load W PlatformKeyring c' d') =
    (if k = k' then Ok x else fst (backend_load W PlatformKeyring c' d))"
proof -
  obtain e' where e': "k' = Inl e'" "\<And>d. fst (backend_load W PlatformKeyring c' d) = Ok (dv_keyring d e')"
    by (rule keyring_slot [OF assms(1)]) blast
  obtain e where e: "k = Inl e" "platform_keyring_entry W c = Ok e"
      "keyring_fails W (DeleteSecret (fst e) (snd e)) \<noteq> Some NoEntry"
    by (rule keyring_slot [OF assms(2)]) blast
  have "dv_keyring d' = (dv_keyring d)(e := x)"
    using assms(3) keyring_save_effect [OF _ e(2)] keyring_clear_effect [OF _ e(2,3)] by blast
  then show ?thesis using e(1) e' by simp
qed

lemma directory_load_after:
  assumes "data_key_slot W (TestDirectory dir) c' = Some k'" "data_key_slot W (TestDirectory dir) c = Some k"
    and "backend_save W (TestDirectory dir) c v d = (Ok (), d') \<and> x = Some v \<or>
      backend_clear W (TestDirectory dir) c d = (Ok (), d') \<and> x = None"
  shows "fst (backend_load W (TestDirectory dir) c' d') =
    (if k = k' then Ok x else fst (backend_load W (TestDirectory dir) c' d))"
proof -
  obtain p' name where p': "k' = Inr p'" "p' = dir @ [''persisted-data-key-'' @ name]"
      "\<And>d. fst (backend_load W (TestDirectory dir) c' d) = Ok (map_option fl_bytes (dv_files d p'))"
    by (rule directory_slot [OF assms(1)]) blast
  obtain p where p: "k = Inr p" "test_persisted_data_key_path W dir c = Ok p"
    by (rule directory_slot [OF assms(2)]) blast
  have "map_option fl_bytes (dv_files d' p) = x" "p' \<noteq> p \<longrightarrow> dv_files d' p' = dv_files d p'"
    using assms(3) directory_save_effect [OF _ p(2)] directory_clear_effect [OF _ p(2)] p'(2) by auto
  then show ?thesis using p(1) p' by auto
qed

lemma data_key_load_after:
  assumes "data_key_slot W b c' = Some k'" "data_key_slot W b c = Some k"
    and "backend_save W b c v d = (Ok (), d') \<and> x = Some v \<or> backend_clear W b c d = (Ok (), d') \<and> x = None"
  shows "fst (backend_load W b c' d') = (if k = k' then Ok x else fst (backend_load W b c' d))"
proof (cases b)
  case PlatformKeyring
  show ?thesis using assms unfolding PlatformKeyring by (rule keyring_load_after)
next
  case (TestDirectory dir)
  show ?thesis using assms unfolding TestDirectory by (rule directory_load_after)
qed

lemma data_key_relations:
  "data_key_same W b c c' \<Longrightarrow> \<exists>k. data_key_slot W b c = Some k \<and> data_key_slot W b c' = Some k"
  "data_key_apart W b c c' \<Longrightarrow> \<exists>k k'. data_key_slot W b c = Some k \<and> data_key_slot W b c' = Some k' \<and> k \<noteq> k'"
  unfolding data_key_same_def data_key_apart_def by (metis option.exhaust)+

interpretation data_key_store: secret_store
  "backend_load W b" "backend_save W b" "backend_clear W b" "data_key_same W b" "data_key_apart W b" "\<lambda>_. True"
  for W :: "'x storage_ext_scheme" and b
proof
  show "fst (backend_load W b c' d') = Ok (Some v)"
    if "backend_save W b c v d = (Ok (), d')" "data_key_same W b c' c" for c v d d' c'
    using data_key_load_after [of W b c' _ c _ v d d' "Some v"] data_key_relations(1) that by fastforce
  show "fst (backend_load W b c' d') = Ok None"
    if "backend_clear W b c d = (Ok (), d')" "data_key_same W b c' c" for c d d' c'
    using data_key_load_after [of W b c' _ c _ "[]" d d' None] data_key_relations(1) that by fastforce
  show "fst (backend_load W b c' d') = fst (backend_load W b c' d)"
    if "backend_save W b c v d = (Ok (), d')" "data_key_apart W b c' c" for c v d d' c'
    using data_key_load_after [of W b c' _ c _ v d d' "Some v"] data_key_relations(2) that by fastforce
  show "fst (backend_load W b c' d') = fst (backend_load W b c' d)"
    if "backend_clear W b c d = (Ok (), d')" "data_key_apart W b c' c" for c d d' c'
    using data_key_load_after [of W b c' _ c _ "[]" d d' None] data_key_relations(2) that by fastforce
qed (simp add: data_key_same_def data_key_apart_def)

text \<open>The data key kept for a login, in the keychain or in the test directory, is the one last
  saved for the same API URL, user and wrapped key, or none after it was cleared, through any
  sequence of successful saves and clears for this and other logins.\<close>
theorem persisted_data_key_last_write:
  assumes "run_secret_ops (save_persisted_data_key W) (clear_persisted_data_key W) ops d = Some d'"
    and "\<forall>op\<in>set ops. data_key_same W (current_backend W) c (secret_owner op) \<or>
      data_key_apart W (current_backend W) c (secret_owner op)"
  shows "fst (load_persisted_data_key W c d') =
    last_secret (data_key_same W (current_backend W) c) ops (fst (load_persisted_data_key W c d))"
proof -
  have "save_persisted_data_key W = backend_save W (current_backend W)"
    "clear_persisted_data_key W = backend_clear W (current_backend W)"
    by (rule ext | simp add: save_persisted_data_key_def clear_persisted_data_key_def)+
  then show ?thesis
    using data_key_store.last_write [of W "current_backend W" ops d d' c] assms
    by (simp add: load_persisted_data_key_def split: secret_op.splits)
qed

section \<open>The agent seed\<close>

text \<open>Whether the keychain answers for an agent throughout, is out of reach throughout, or is not used;
  \<open>None\<close> when it is none of these, or the seed file cannot be read.\<close>
datatype seed_place = InKeychain | InFile

definition seed_place :: "'x storage_ext_scheme \<Rightarrow> agent_credentials \<Rightarrow> seed_place option" where
  "seed_place W c =
     (case agent_seed_file_path W c of
        Ok p \<Rightarrow>
          if io_fails W (ReadFile p) \<noteq> None then None
          else if should_force_agent_seed_file_backend W then Some InFile
          else (case agent_seed_keyring_entry W c of
            Ok (service, name) \<Rightarrow>
              (case (keyring_fails W (GetSecret service name), keyring_fails W (SetSecret service name),
                  keyring_fails W (DeleteSecret service name)) of
                 (None, None, None) \<Rightarrow> Some InKeychain
               | (Some e, Some e', Some e'') \<Rightarrow>
                   if should_fallback_from_keyring e \<and> should_fallback_from_keyring e' \<and>
                     should_fallback_from_keyring e'' then Some InFile else None
               | _ \<Rightarrow> None)
          | _ \<Rightarrow> None)
      | _ \<Rightarrow> None)"

definition seed_same :: "'x storage_ext_scheme \<Rightarrow> agent_credentials \<Rightarrow> agent_credentials \<Rightarrow> bool" where
  "seed_same W c c' \<longleftrightarrow> seed_place W c \<noteq> None \<and> agent_seed_entry_name W c = agent_seed_entry_name W c'"

text \<open>The hashes that name the files of two agents are taken to differ.\<close>
definition seed_apart :: "'x storage_ext_scheme \<Rightarrow> agent_credentials \<Rightarrow> agent_credentials \<Rightarrow> bool" where
  "seed_apart W c c' \<longleftrightarrow> seed_place W c \<noteq> None \<and> seed_place W c' \<noteq> None \<and>
     agent_seed_entry_name W c \<noteq> agent_seed_entry_name W c' \<and>
     agent_seed_file_path W c \<noteq> agent_seed_file_path W c'"

lemma seed_place_cong: "agent_seed_entry_name W c = agent_seed_entry_name W c' \<Longrightarrow> seed_place W c = seed_place W c'"
  by (simp only: seed_place_def agent_seed_file_path_def agent_seed_keyring_entry_def)

lemma seed_place_path:
  assumes "seed_place W c = Some place"
  obtains p where "agent_seed_file_path W c = Ok p" "io_fails W (ReadFile p) = None" "hd (last p) = CHR ''a''"
  using assms by (auto simp: seed_place_def agent_seed_file_path_def split: rust_result.splits if_splits)

lemma seed_place_keychain:
  assumes "seed_place W c = Some InKeychain"
  shows "\<not> should_force_agent_seed_file_backend W"
    "agent_seed_keyring_entry W c = Ok (AGENT_SEED_KEYCHAIN_SERVICE, agent_seed_entry_name W c)"
    "keyring_fails W (GetSecret AGENT_SEED_KEYCHAIN_SERVICE (agent_seed_entry_name W c)) = None"
    "keyring_fails W (SetSecret AGENT_SEED_KEYCHAIN_SERVICE (agent_seed_entry_name W c)) = None"
    "keyring_fails W (DeleteSecret AGENT_SEED_KEYCHAIN_SERVICE (agent_seed_entry_name W c)) = None"
  using assms
  by (auto simp: seed_place_def agent_seed_keyring_entry_def keyring_new_def
      split: rust_result.splits if_splits option.splits)

lemma seed_place_file:
  assumes "seed_place W c = Some InFile"
  shows "should_force_agent_seed_file_backend W \<or>
    agent_seed_keyring_entry W c = Ok (AGENT_SEED_KEYCHAIN_SERVICE, agent_seed_entry_name W c) \<and>
    (\<exists>e e' e''. keyring_fails W (GetSecret AGENT_SEED_KEYCHAIN_SERVICE (agent_seed_entry_name W c)) = Some e \<and>
      keyring_fails W (SetSecret AGENT_SEED_KEYCHAIN_SERVICE (agent_seed_entry_name W c)) = Some e' \<and>
      keyring_fails W (DeleteSecret AGENT_SEED_KEYCHAIN_SERVICE (agent_seed_entry_name W c)) = Some e'' \<and>
      should_fallback_from_keyring e \<and> should_fallback_from_keyring e' \<and> should_fallback_from_keyring e'')"
  using assms
  by (auto simp: seed_place_def agent_seed_keyring_entry_def keyring_new_def
      split: rust_result.splits if_splits option.splits)

text \<open>The stored bytes a load reads, before their length is checked.\<close>
definition seed_bytes :: "seed_place \<Rightarrow> string \<Rightarrow> path \<Rightarrow> device \<Rightarrow> (bytes \<times> string) option" where
  "seed_bytes place name p d =
     (case (place, dv_keyring d (AGENT_SEED_KEYCHAIN_SERVICE, name)) of
        (InKeychain, Some b) \<Rightarrow> Some (b, ''agent seed in keychain'')
      | _ \<Rightarrow> map_option (\<lambda>f. (fl_bytes f, ''local agent seed file'')) (dv_files d p))"

lemma load_seed_file:
  assumes "agent_seed_file_path W c = Ok p" "io_fails W (ReadFile p) = None"
  shows "fst (load_agent_seed_from_file W c d) =
    (case dv_files d p of None \<Rightarrow> Ok None
     | Some f \<Rightarrow> map_ok Some (decode_agent_seed_bytes (fl_bytes f) ''local agent seed file''))"
  using assms by (auto simp: load_agent_seed_from_file_def io_simps io_do_def split: option.splits)

lemma load_agent_seed_eq:
  assumes place: "seed_place W c = Some place" and p: "agent_seed_file_path W c = Ok p"
  shows "fst (load_agent_seed W c d) =
    (case seed_bytes place (agent_seed_entry_name W c) p d of
       None \<Rightarrow> Ok None | Some (b, source) \<Rightarrow> map_ok Some (decode_agent_seed_bytes b source))"
proof -
  note stored = load_seed_file [OF p, of d]
  have read: "io_fails W (ReadFile p) = None" using seed_place_path [OF place] p by auto
  show ?thesis
  proof (cases place)
    case InKeychain
    note k = seed_place_keychain [OF place [unfolded InKeychain]]
    show ?thesis
      by (cases "dv_keyring d (AGENT_SEED_KEYCHAIN_SERVICE, agent_seed_entry_name W c)"; cases "dv_files d p")
        (simp_all add: load_agent_seed_def k io_simps keyring_get_def seed_bytes_def InKeychain stored [OF read])
  next
    case InFile
    from seed_place_file [OF place [unfolded InFile]] show ?thesis
      by (cases "dv_files d p")
        (auto simp: load_agent_seed_def io_simps keyring_get_def seed_bytes_def InFile stored [OF read])
  qed
qed

lemma seed_file_saved:
  assumes "save_agent_seed_to_file W c v d = (Ok (), d')" "agent_seed_file_path W c = Ok p"
  shows "map_option fl_bytes (dv_files d' p) = Some v" "dv_keyring d' = dv_keyring d"
    "q \<noteq> p \<Longrightarrow> hd (last q) = CHR ''a'' \<Longrightarrow> dv_files d' q = dv_files d q"
proof -
  obtain dir d1 where d1: "ensure_config_dir W d = (Ok dir, d1)"
      "write_secret_file_atomic W p v ''local agent seed'' d1 = (Ok (), d')"
    using assms by (auto simp: save_agent_seed_to_file_def io_then_Ok io_return_def)
  note written = secret_file_replaced [OF d1(2)] and dirs = ensure_config_dir_Ok [OF d1(1)]
  show "map_option fl_bytes (dv_files d' p) = Some v" using written(1) by simp
  show "dv_keyring d' = dv_keyring d" using written(3) dirs(3) by (simp add: same_but_def)
  show "dv_files d' q = dv_files d q" if "q \<noteq> p" "hd (last q) = CHR ''a''"
  proof -
    have "q \<noteq> temporary_secret_path W p" using hd_last_temporary [of W p] that(2) by force
    then show ?thesis using that(1) written(3) dirs(2) by (simp add: same_but_def)
  qed
qed

lemma seed_file_cleared:
  assumes "clear_agent_seed_file W c d = (Ok (), d')" "agent_seed_file_path W c = Ok p"
  shows "dv_files d' = (dv_files d)(p := None)" "dv_keyring d' = dv_keyring d"
  using assms remove_if_exists_effect [of W p _ d d']
  by (auto simp: clear_agent_seed_file_def io_simps remove_if_exists_def io_do_def drop_file_def
      split: if_splits option.splits)

text \<open>The device after a successful save or clear.\<close>
lemma seed_saved:
  assumes "seed_place W c = Some place" "agent_seed_file_path W c = Ok p" "save_agent_seed W c v d = (Ok (), d')"
  shows "place = InKeychain \<and> dv_keyring d' = (dv_keyring d)((AGENT_SEED_KEYCHAIN_SERVICE, agent_seed_entry_name W c) \<mapsto> v)
      \<and> dv_files d' = (dv_files d)(p := None) \<or>
    place = InFile \<and> dv_keyring d' = dv_keyring d \<and> map_option fl_bytes (dv_files d' p) = Some v \<and>
      (\<forall>q. q \<noteq> p \<longrightarrow> hd (last q) = CHR ''a'' \<longrightarrow> dv_files d' q = dv_files d q)"
proof (cases place)
  case InKeychain
  note k = seed_place_keychain [OF assms(1) [unfolded InKeychain]]
  let ?d = "d\<lparr>dv_keyring := (dv_keyring d)((AGENT_SEED_KEYCHAIN_SERVICE, agent_seed_entry_name W c) \<mapsto> v)\<rparr>"
  have "clear_agent_seed_file W c ?d = (Ok (), d')"
    using assms(3) by (simp add: save_agent_seed_def k io_simps keyring_set_def)
  then show ?thesis using seed_file_cleared [OF _ assms(2)] InKeychain by fastforce
next
  case InFile
  have "save_agent_seed_to_file W c v d = (Ok (), d')"
    using assms(3) seed_place_file [OF assms(1) [unfolded InFile]]
    by (auto simp: save_agent_seed_def io_simps keyring_set_def split: if_splits)
  then show ?thesis using seed_file_saved [OF _ assms(2)] InFile by blast
qed

lemma seed_cleared:
  assumes "seed_place W c = Some place" "agent_seed_file_path W c = Ok p" "clear_agent_seed W c d = (Ok (), d')"
  shows "dv_files d' = (dv_files d)(p := None)"
    "dv_keyring d' = (if place = InKeychain
       then (dv_keyring d)((AGENT_SEED_KEYCHAIN_SERVICE, agent_seed_entry_name W c) := None) else dv_keyring d)"
proof -
  let ?e = "(AGENT_SEED_KEYCHAIN_SERVICE, agent_seed_entry_name W c)"
  have "dv_files d' = (dv_files d)(p := None) \<and>
      dv_keyring d' = (if place = InKeychain then (dv_keyring d)(?e := None) else dv_keyring d)"
  proof (cases place)
    case InKeychain
    note k = seed_place_keychain [OF assms(1) [unfolded InKeychain]]
    obtain r d1 where del: "keyring_delete W ?e d = (r, d1)" by fastforce
    have d1: "(r = Ok () \<or> r = Err NoEntry) \<and> dv_files d1 = dv_files d"
      using del k(5) by (auto simp: keyring_delete_def split: if_splits)
    then have "clear_agent_seed_file W c d1 = (Ok (), d')"
      using assms(3) del by (auto simp: clear_agent_seed_def k io_simps)
    then show ?thesis
      using seed_file_cleared [OF _ assms(2)] keyring_delete_effect [OF del] d1 k(5) InKeychain by simp
  next
    case InFile
    have "clear_agent_seed_file W c d = (Ok (), d')"
      using assms(3) seed_place_file [OF assms(1) [unfolded InFile]]
      by (auto simp: clear_agent_seed_def io_simps keyring_delete_def split: if_splits)
    then show ?thesis using seed_file_cleared [OF _ assms(2)] InFile by simp
  qed
  then show "dv_files d' = (dv_files d)(p := None)"
    "dv_keyring d' = (if place = InKeychain then (dv_keyring d)(?e := None) else dv_keyring d)" by blast+
qed

lemma decode_seed_valid [simp]: "length b = 32 \<Longrightarrow> decode_agent_seed_bytes b source = Ok b"
  by (simp add: decode_agent_seed_bytes_def)

lemma seed_same_load:
  assumes "seed_same W c' c"
  obtains place p where "seed_place W c = Some place" "agent_seed_file_path W c = Ok p"
    "\<And>d. fst (load_agent_seed W c' d) =
      (case seed_bytes place (agent_seed_entry_name W c) p d of
         None \<Rightarrow> Ok None | Some (b, source) \<Rightarrow> map_ok Some (decode_agent_seed_bytes b source))"
proof -
  have name: "agent_seed_entry_name W c' = agent_seed_entry_name W c" and "seed_place W c' \<noteq> None"
    using assms by (simp_all add: seed_same_def)
  then obtain place where place: "seed_place W c' = Some place" "seed_place W c = Some place"
    using seed_place_cong [OF name] by auto
  obtain p where "agent_seed_file_path W c = Ok p" by (rule seed_place_path [OF place(2)])
  moreover have "agent_seed_file_path W c' = agent_seed_file_path W c"
    by (simp only: agent_seed_file_path_def name)
  ultimately show thesis using that place load_agent_seed_eq [OF place(1)] name by metis
qed

lemma seed_apart_load:
  assumes "seed_apart W c' c"
  obtains place p p' where "seed_place W c = Some place" "agent_seed_file_path W c = Ok p" "p' \<noteq> p"
    "hd (last p') = CHR ''a''"
    "\<And>d d'. dv_files d' p' = dv_files d p' \<Longrightarrow>
      dv_keyring d' (AGENT_SEED_KEYCHAIN_SERVICE, agent_seed_entry_name W c') =
        dv_keyring d (AGENT_SEED_KEYCHAIN_SERVICE, agent_seed_entry_name W c') \<Longrightarrow>
      fst (load_agent_seed W c' d') = fst (load_agent_seed W c' d)"
proof -
  obtain place' where place': "seed_place W c' = Some place'" using assms by (auto simp: seed_apart_def)
  obtain place where place: "seed_place W c = Some place" using assms by (auto simp: seed_apart_def)
  obtain p' where p': "agent_seed_file_path W c' = Ok p'" "hd (last p') = CHR ''a''"
    by (rule seed_place_path [OF place'])
  obtain p where p: "agent_seed_file_path W c = Ok p" by (rule seed_place_path [OF place])
  have neq: "p' \<noteq> p" using assms p p' by (auto simp: seed_apart_def)
  have "fst (load_agent_seed W c' d') = fst (load_agent_seed W c' d)"
    if "dv_files d' p' = dv_files d p'"
      "dv_keyring d' (AGENT_SEED_KEYCHAIN_SERVICE, agent_seed_entry_name W c') =
        dv_keyring d (AGENT_SEED_KEYCHAIN_SERVICE, agent_seed_entry_name W c')" for d d'
    by (simp only: load_agent_seed_eq [OF place' p'(1)] seed_bytes_def that)
  then show thesis by (rule that [OF place p neq p'(2)])
qed

interpretation agent_seed_store: secret_store
  "load_agent_seed W" "save_agent_seed W" "clear_agent_seed W" "seed_same W" "seed_apart W" "\<lambda>v. length v = 32"
  for W :: "'x storage_ext_scheme"
proof
  show "fst (load_agent_seed W c' d') = Ok (Some v)"
    if save: "save_agent_seed W c v d = (Ok (), d')" and same: "seed_same W c' c" and "length v = 32" for c v d d' c'
  proof -
    obtain place p where load: "seed_place W c = Some place" "agent_seed_file_path W c = Ok p"
      "\<And>d. fst (load_agent_seed W c' d) =
      (case seed_bytes place (agent_seed_entry_name W c) p d of
         None \<Rightarrow> Ok None | Some (b, source) \<Rightarrow> map_ok Some (decode_agent_seed_bytes b source))"
      by (rule seed_same_load [OF same]) blast
    show ?thesis using seed_saved [OF load(1,2) save] \<open>length v = 32\<close>
      unfolding load(3) by (auto simp: seed_bytes_def)
  qed
  show "fst (load_agent_seed W c' d') = Ok None"
    if clear: "clear_agent_seed W c d = (Ok (), d')" and same: "seed_same W c' c" for c d d' c'
  proof -
    obtain place p where load: "seed_place W c = Some place" "agent_seed_file_path W c = Ok p"
      "\<And>d. fst (load_agent_seed W c' d) =
      (case seed_bytes place (agent_seed_entry_name W c) p d of
         None \<Rightarrow> Ok None | Some (b, source) \<Rightarrow> map_ok Some (decode_agent_seed_bytes b source))"
      by (rule seed_same_load [OF same]) blast
    show ?thesis using seed_cleared [OF load(1,2) clear] unfolding load(3)
      by (cases place) (auto simp: seed_bytes_def)
  qed
  show "fst (load_agent_seed W c' d') = fst (load_agent_seed W c' d)"
    if save: "save_agent_seed W c v d = (Ok (), d')" and apart: "seed_apart W c' c" for c v d d' c'
  proof -
    obtain place p p' where load: "seed_place W c = Some place" "agent_seed_file_path W c = Ok p" "p' \<noteq> p"
      "hd (last p') = CHR ''a''" "\<And>d d'. dv_files d' p' = dv_files d p' \<Longrightarrow>
        dv_keyring d' (AGENT_SEED_KEYCHAIN_SERVICE, agent_seed_entry_name W c') =
          dv_keyring d (AGENT_SEED_KEYCHAIN_SERVICE, agent_seed_entry_name W c') \<Longrightarrow>
        fst (load_agent_seed W c' d') = fst (load_agent_seed W c' d)"
      by (rule seed_apart_load [OF apart]) blast
    have "agent_seed_entry_name W c' \<noteq> agent_seed_entry_name W c" using apart by (simp add: seed_apart_def)
    then show ?thesis using seed_saved [OF load(1,2) save] load(3,4) by (intro load(5)) auto
  qed
  show "fst (load_agent_seed W c' d') = fst (load_agent_seed W c' d)"
    if clear: "clear_agent_seed W c d = (Ok (), d')" and apart: "seed_apart W c' c" for c d d' c'
  proof -
    obtain place p p' where load: "seed_place W c = Some place" "agent_seed_file_path W c = Ok p" "p' \<noteq> p"
      "hd (last p') = CHR ''a''" "\<And>d d'. dv_files d' p' = dv_files d p' \<Longrightarrow>
        dv_keyring d' (AGENT_SEED_KEYCHAIN_SERVICE, agent_seed_entry_name W c') =
          dv_keyring d (AGENT_SEED_KEYCHAIN_SERVICE, agent_seed_entry_name W c') \<Longrightarrow>
        fst (load_agent_seed W c' d') = fst (load_agent_seed W c' d)"
      by (rule seed_apart_load [OF apart]) blast
    have "agent_seed_entry_name W c' \<noteq> agent_seed_entry_name W c" using apart by (simp add: seed_apart_def)
    then show ?thesis using seed_cleared [OF load(1,2) clear] load(3,4) by (intro load(5)) auto
  qed
qed (simp add: seed_same_def seed_apart_def)

text \<open>While the keychain is reachable, or unreachable, or switched off throughout, an agent's seed is
  the 32 bytes last saved for it, or none after it was cleared, whatever is done for other agents
  meanwhile; so the fallback to a file never loses a seed or brings an old one back.\<close>
theorem agent_seed_last_write:
  assumes "run_secret_ops (save_agent_seed W) (clear_agent_seed W) ops d = Some d'"
    and "\<forall>op\<in>set ops. seed_same W c (secret_owner op) \<or> seed_apart W c (secret_owner op)"
    and "\<forall>op\<in>set ops. case op of SaveSecret _ v \<Rightarrow> length v = 32 | ClearSecret _ \<Rightarrow> True"
  shows "fst (load_agent_seed W c d') = last_secret (seed_same W c) ops (fst (load_agent_seed W c d))"
  by (rule agent_seed_store.last_write [OF assms])

end
