(* ===== verification/Auth_Agent_Thms.thy ===== *)
theory Auth_Agent_Thms
  imports Auth_Agent Auth_Backends
begin

text \<open>What an agent does with its seed: the access token it asks for, and the work-list keys it opens.\<close>

section \<open>Access tokens\<close>

text \<open>RFC 4648 URL-safe base64 without padding.\<close>
definition url_alphabet :: string where
  "url_alphabet = ''ABCDEFGHIJKLMNOPQRSTUVWXYZabcdefghijklmnopqrstuvwxyz0123456789-_''"

definition b64_url_laws :: "'x auth_ext_scheme \<Rightarrow> bool" where
  "b64_url_laws A \<longleftrightarrow> (\<forall>b. set (b64_url_nopad_enc A b) \<subseteq> set url_alphabet \<and>
     b64_url_nopad_dec A (b64_url_nopad_enc A b) = Ok b)"

text \<open>What a server checks of a compact JWS: three parts, of which the last is the signature of the
  first two, and the texts the first two stand for.\<close>
definition signed_token ::
  "'x auth_ext_scheme \<Rightarrow> bytes \<Rightarrow> string \<Rightarrow> json \<Rightarrow> json \<Rightarrow> bool" where
  "signed_token A secret token header claims \<longleftrightarrow> (\<exists>h c s.
     token = h @ ''.'' @ c @ ''.'' @ s \<and> CHR ''.'' \<notin> set h \<union> set c \<union> set s \<and>
     b64_url_nopad_dec A h = Ok (str_bytes (json_display A header)) \<and>
     b64_url_nopad_dec A c = Ok (str_bytes (json_display A claims)) \<and>
     b64_url_nopad_dec A s = Ok (ed25519_sign A secret (str_bytes (h @ ''.'' @ c))))"

lemma agent_assertion_signed:
  assumes "b64_url_laws A"
  shows "signed_token A key (build_agent_assertion A aid key audience purpose now jti)
    assertion_header (assertion_claims A aid audience purpose now jti)"
proof -
  have "CHR ''.'' \<notin> set url_alphabet" by (simp add: url_alphabet_def)
  then have "CHR ''.'' \<notin> set (b64_url_nopad_enc A b)" for b
    using assms by (auto simp: b64_url_laws_def)
  moreover have "b64_url_nopad_dec A (b64_url_nopad_enc A b) = Ok b" for b
    using assms by (simp add: b64_url_laws_def)
  ultimately show ?thesis
    unfolding signed_token_def build_agent_assertion_def Let_def
    by (intro exI [of _ "b64_url_nopad_enc A (str_bytes (json_display A assertion_header))"]
        exI [of _ "b64_url_nopad_enc A (str_bytes (json_display A
          (assertion_claims A aid audience purpose now jti)))"] exI) auto
qed

lemma agent_key_material_eq_Ok:
  "agent_key_material_from_seed A seed = Ok km \<longleftrightarrow> (\<exists>auth_seed recipient_seed.
     hkdf_expand_label A seed (str_bytes ''worklist.agent.auth'') = Ok auth_seed \<and>
     hkdf_expand_label A seed (str_bytes ''worklist.agent.recipient'') = Ok recipient_seed \<and>
     km = \<lparr> km_seed = seed, km_signing_key = auth_seed, km_auth_public_key = ed25519_public A auth_seed,
       km_recipient_private_key = recipient_seed, km_recipient_public_key = x25519_public A recipient_seed \<rparr>)"
  by (auto simp: agent_key_material_from_seed_def and_then_eq_Ok)

lemma load_agent_seed_state: "snd (load_agent_seed W c d) = d"
  by (auto simp: load_agent_seed_def load_agent_seed_from_file_def io_then_def io_return_def io_do_def
      keyring_get_def Let_def split: rust_result.splits option.splits prod.splits)

text \<open>C14: An agent that got an access token has asked for it with one request, without bearer token, whose only
  field is a token signed with the key derived from the stored seed, the key whose public half was enrolled.
  The claims signed are these and no others: the agent as issuer, the canonical form of the API URL as audience,
  the fresh identifier, the purpose of minting a token, the present second, and an expiry 60 seconds later.
  Whether minting succeeds or not, the device is unchanged, and no other request is sent.\<close>
theorem agent_token_minting:
  assumes "b64_url_laws W" "mint_agent_access_token W server now jti c (d, sent) = (r, (d', sent'))"
  shows "d' = d \<and> (sent' = sent \<and> (\<forall>t. r \<noteq> Ok t) \<or>
    (\<exists>seed km audience token. fst (load_agent_seed W c d) = Ok (Some seed) \<and>
       agent_key_material_from_seed W seed = Ok km \<and>
       km_auth_public_key km = ed25519_public W (km_signing_key km) \<and>
       canonicalize_api_url W (ac_api_url c) = Ok audience \<and>
       sent' = sent @ [\<lparr> rq_method = POST, rq_url = api_endpoint (ac_api_url c) ''/auth/agents/token'',
         rq_bearer = None, rq_body = Some (JObject [(''assertion'', JString token)]) \<rparr>] \<and>
       signed_token W (km_signing_key km) token
         (JObject [(''alg'', JString ''EdDSA''), (''typ'', JString ''JWT'')])
         (JObject [(''aud'', JString audience), (''exp'', json_int (now + 60)), (''iat'', json_int now),
           (''iss'', JString (uuid_display W (ac_agent_id c))), (''jti'', JString (uuid_display W jti)),
           (''purpose'', JString ''token_mint'')])))"
proof -
  have load: "load_agent_seed W c d = (fst (load_agent_seed W c d), d)"
    by (metis load_agent_seed_state prod.collapse)
  note run = assms(2) [unfolded mint_agent_access_token_def io_then_def io_fst_def io_snd_def io_return_def
      send_auth_request_def io_map_err_def transmit_def Let_def, simplified]
  show ?thesis
  proof (cases "fst (load_agent_seed W c d)")
    case (Ok stored)
    show ?thesis
    proof (cases stored)
      case (Some seed)
      note stored = Ok [unfolded Some]
      show ?thesis
      proof (cases "agent_key_material_from_seed W seed")
        case (Ok km)
        show ?thesis
        proof (cases "canonicalize_api_url W (ac_api_url c)")
          case (Ok audience)
          define token where "token = build_token_mint_assertion W km (ac_agent_id c) audience now jti"
          have signed: "signed_token W (km_signing_key km) token
              (JObject [(''alg'', JString ''EdDSA''), (''typ'', JString ''JWT'')])
              (JObject [(''aud'', JString audience), (''exp'', json_int (now + 60)), (''iat'', json_int now),
                (''iss'', JString (uuid_display W (ac_agent_id c))), (''jti'', JString (uuid_display W jti)),
                (''purpose'', JString ''token_mint'')])"
            using agent_assertion_signed [OF assms(1)]
            unfolding token_def build_token_mint_assertion_def AGENT_ASSERTION_PURPOSE_TOKEN_MINT_def
              assertion_header_def assertion_claims_def .
          have public: "km_auth_public_key km = ed25519_public W (km_signing_key km)"
            using \<open>agent_key_material_from_seed W seed = Ok km\<close> by (auto simp: agent_key_material_eq_Ok)
          have "d' = d \<and> sent' = sent @ [\<lparr> rq_method = POST, rq_url = api_endpoint (ac_api_url c) ''/auth/agents/token'',
              rq_bearer = None, rq_body = Some (JObject [(''assertion'', JString token)]) \<rparr>]"
            using run load stored \<open>agent_key_material_from_seed W seed = Ok km\<close> Ok
            by (auto simp: token_def post_json_def agent_token_request_def load_agent_seed_state
                split: rust_result.splits)
          then show ?thesis using stored \<open>agent_key_material_from_seed W seed = Ok km\<close> Ok signed public by blast
        qed (use run load stored Ok in \<open>auto simp: load_agent_seed_state\<close>)
      qed (use run load stored in \<open>auto simp: load_agent_seed_state\<close>)
    qed (use run load Ok in \<open>auto simp: load_agent_seed_state\<close>)
  qed (use run load in \<open>auto simp: load_agent_seed_state\<close>)
qed

section \<open>Work-list keys\<close>

text \<open>C13: A work-list key sealed for an enrolled agent is opened by the agent after a restart: the seed
  it has saved is found, gives the key pair it enrolled, and the private key opens the grant.\<close>
theorem agent_recovers_grant:
  assumes laws: "aead_laws W" "dh_laws W" "hkdf_laws W"
    and reads: "\<And>env. current_envelope env \<Longrightarrow> codec_reads (hpke_codec W) env"
    and km: "agent_key_material_from_seed W seed = Ok km" "length seed = 32"
    and saved: "save_agent_seed W c (km_seed km) d = (Ok (), d')" "seed_place W c \<noteq> None"
    and grant: "length eph = 32" "sym_wf k"
      "encrypt_agent_work_list_key W eph (km_recipient_public_key km) wid k = Ok blob"
  shows "\<exists>seed' km'. load_agent_seed W c d' = (Ok (Some seed'), d') \<and>
    agent_key_material_from_seed W seed' = Ok km' \<and>
    decrypt_agent_work_list_key W (km_recipient_private_key km') wid (sb_bytes blob) count = (Ok k, count)"
proof -
  have seed: "km_seed km = seed" and
    pub: "km_recipient_public_key km = x25519_public W (km_recipient_private_key km)"
    using km(1) by (auto simp: agent_key_material_eq_Ok)
  have "length b = 32" if "hkdf_expand W key info 32 = Some b" for key info b
    using hkdf_expand_32 [OF laws(3), of key info] that by auto
  then have "length (km_recipient_private_key km) = 32"
    using km(1) by (auto simp: agent_key_material_eq_Ok hkdf_expand_label_def)
  then have "decrypt_agent_work_list_key W (km_recipient_private_key km) wid (sb_bytes blob) count = (Ok k, count)"
    using grant_opens [OF laws(1,2) grant(1) _ grant(2) reads grant(3) [unfolded pub]] by blast
  moreover have "fst (load_agent_seed W c d') = Ok (Some seed)"
  proof -
    obtain place p where place: "seed_place W c = Some place" "agent_seed_file_path W c = Ok p"
      using saved(2) seed_place_path by (metis option.exhaust)
    show ?thesis
      using seed_saved [OF place saved(1) [unfolded seed]] km(2)
      by (auto simp: load_agent_seed_eq [OF place] seed_bytes_def)
  qed
  then have "load_agent_seed W c d' = (Ok (Some seed), d')" by (metis load_agent_seed_state prod.collapse)
  ultimately show ?thesis using km(1) by blast
qed

end
