(* ===== verification/Auth_Instance.thy ===== *)
theory Auth_Instance
  imports Auth_Agent_Thms
begin

text \<open>The concrete instance of the third-party code of \<open>client-auth\<close>: \<open>grant_client\<close> extended by a
  calendar of whole numbers, a parser of two URLs, a device on which every operation succeeds, and
  encoders that read one value back; and the theorems of \<open>client-auth\<close> applied to it.\<close>

section \<open>The instance\<close>

definition demo_url :: url where
  "demo_url = \<lparr> url_scheme = ''https'', url_username = [], url_password = None, url_host = Some ''h'',
     url_port = Some 443, url_path = ''/api/'', url_query = None, url_fragment = None \<rparr>"

definition demo_url_text :: "url \<Rightarrow> string" where
  "demo_url_text u = ''https://h'' @ url_path u"

definition demo_url_parse :: "string \<Rightarrow> (url, string) rust_result" where
  "demo_url_parse s =
     (if s = ''https://h:443/api/'' then Ok demo_url
      else if s = ''https://h/api'' then Ok (canonical_url demo_url)
      else Err ''relative URL without a base'')"

definition demo_user :: user_response where
  "demo_user = \<lparr> ur_id = replicate 16 7, ur_email = ''a@b'', ur_name = ''A'', ur_timezone = ''UTC'',
     ur_avatar_color = ''blue'', ur_theme_preference = ''dark'', ur_email_verified = True \<rparr>"

definition demo_auth_response :: auth_response where
  "demo_auth_response = \<lparr> ar_access_token = ''access'', ar_refresh_token = ''refresh'', ar_expires_in = 60,
     ar_refresh_expires_in = 600, ar_token_type = ''Bearer'', ar_user = demo_user,
     ar_data_key_ciphertext = ''00'', ar_opaque_export_key = Some ''from the server'' \<rparr>"

definition demo_refresh_response :: refresh_response where
  "demo_refresh_response = \<lparr> rr_access_token = ''access2'', rr_refresh_token = ''refresh2'', rr_expires_in = 60,
     rr_refresh_expires_in = 600, rr_token_type = ''Bearer'' \<rparr>"

definition demo_enrollment :: agent_enrollment where
  "demo_enrollment = \<lparr> en_agent_id = replicate 16 9, en_owner_user_id = None, en_status = ''pending'',
     en_approved = False, en_auth_public_key = [], en_recipient_public_key = [], en_enrollment_code = None,
     en_enrollment_expires_at = None, en_handle = None, en_proposed_handle = None, en_display_name = None,
     en_scope_mode = ''all'', en_fingerprint = ''fp'' \<rparr>"

definition demo_agent_token :: agent_token where
  "demo_agent_token = \<lparr> at_access_token = ''token'', at_expires_in = 60, at_token_type = ''Bearer'',
     at_agent_id = replicate 16 9, at_owner_user_id = replicate 16 7 \<rparr>"

definition demo_auth :: auth_ext where
  "demo_auth = client_ext.extend grant_client \<lparr>
     duration_try_seconds = (\<lambda>s. if \<bar>s\<bar> \<le> (2 ^ 63 - 1) div 1000 then Some (s * 10 ^ 9) else None),
     checked_add_signed = (\<lambda>t d. Some (t + d)), int_error = ''out of range'', datetime_debug = (\<lambda>_. ''time''),
     url_parse = demo_url_parse, url_clear_port = (\<lambda>u. Some (u\<lparr>url_port := None\<rparr>)),
     url_set_path = (\<lambda>u p. u\<lparr>url_path := if p = [] then ''/'' else p\<rparr>), url_as_str = demo_url_text,
     status_display = show_status, sha256 = pad_to 32, b64_url_nopad_enc = hex_bytes,
     de_api_error = (\<lambda>_. Err ''not an error''),
     de_login_start = (\<lambda>_. Ok \<lparr> ls_server_login_state = ''00'', ls_session_token = ''s'', ls_expires_in = 60 \<rparr>),
     de_auth_response = (\<lambda>_. Ok demo_auth_response), de_refresh_response = (\<lambda>_. Ok demo_refresh_response),
     de_enrollment = (\<lambda>_. Ok demo_enrollment), de_agent_token = (\<lambda>_. Ok demo_agent_token),
     str_to_lowercase = id, opaque_start = (\<lambda>rng password. Ok (OpaqueClient password, rng)),
     opaque_response_dec = (\<lambda>b. Ok (OpaqueResponse b)),
     opaque_finish = (\<lambda>_ _ password _ _ _. Ok (password, [1, 2, 3])),
     ed25519_public = pad_to 32, ed25519_sign = (\<lambda>k m. pad_to 64 (k @ m)) \<rparr>"

definition demo_credentials :: credentials where
  "demo_credentials = \<lparr> cr_api_url = ''https://h/api'', cr_access_token = ''access'', cr_refresh_token = ''refresh'',
     cr_access_expires_at = 60 * 10 ^ 9, cr_refresh_expires_at = 600 * 10 ^ 9, cr_user_id = replicate 16 7,
     cr_email = ''a@b'', cr_data_key_ciphertext = ''00'' \<rparr>"

definition demo_agent_credentials :: agent_credentials where
  "demo_agent_credentials = agent_active ''https://h/api'' (replicate 16 9) (replicate 16 7) None None ''token'' (100 * 10 ^ 9)"

definition demo_storage :: storage_ext where
  "demo_storage = auth_ext.extend demo_auth \<lparr>
     home_dir = Some [''home''], env_var = (\<lambda>_. None), io_fails = (\<lambda>_. None), partial_write = (\<lambda>_. []),
     temp_nonce = ''nonce'', path_display = concat, keyring_fails = (\<lambda>_. None), keyring_display = (\<lambda>_. ''error''),
     credentials_ser = (\<lambda>_. Ok [1]), credentials_de = (\<lambda>_. Ok demo_credentials),
     agent_credentials_ser = (\<lambda>_. Ok [2]), agent_credentials_de = (\<lambda>_. Ok demo_agent_credentials) \<rparr>"

definition demo_device :: device where
  "demo_device = \<lparr> dv_files = (\<lambda>_. None), dv_dirs = (\<lambda>_. None), dv_keyring = (\<lambda>_. None) \<rparr>"

lemmas demo_storage_defs = demo_storage_def demo_auth_def client_ext.defs auth_ext.defs

lemma demo_storage_fields [simp]:
  "duration_try_seconds demo_storage = (\<lambda>s. if \<bar>s\<bar> \<le> (2 ^ 63 - 1) div 1000 then Some (s * 10 ^ 9) else None)"
  "checked_add_signed demo_storage = (\<lambda>t d. Some (t + d))"
  "url_parse demo_storage = demo_url_parse" "url_as_str demo_storage = demo_url_text"
  "url_clear_port demo_storage = (\<lambda>u. Some (u\<lparr>url_port := None\<rparr>))"
  "url_set_path demo_storage = (\<lambda>u p. u\<lparr>url_path := if p = [] then ''/'' else p\<rparr>)"
  "home_dir demo_storage = Some [''home'']" "env_var demo_storage = (\<lambda>_. None)"
  "io_fails demo_storage = (\<lambda>_. None)" "keyring_fails demo_storage = (\<lambda>_. None)"
  "temp_nonce demo_storage = ''nonce''"
  "credentials_ser demo_storage = (\<lambda>_. Ok [1])" "credentials_de demo_storage = (\<lambda>_. Ok demo_credentials)"
  "de_login_start demo_storage = (\<lambda>_. Ok \<lparr> ls_server_login_state = ''00'', ls_session_token = ''s'', ls_expires_in = 60 \<rparr>)"
  "de_auth_response demo_storage = (\<lambda>_. Ok demo_auth_response)"
  "de_refresh_response demo_storage = (\<lambda>_. Ok demo_refresh_response)"
  "de_agent_token demo_storage = (\<lambda>_. Ok demo_agent_token)"
  "opaque_start demo_storage = (\<lambda>rng password. Ok (OpaqueClient password, rng))"
  "opaque_response_dec demo_storage = (\<lambda>b. Ok (OpaqueResponse b))"
  "opaque_finish demo_storage = (\<lambda>_ _ password _ _ _. Ok (password, [1, 2, 3]))"
  by (simp_all add: demo_storage_defs)

lemma demo_io_do [simp]: "io_do demo_storage op m f d = (Ok (), f d)"
  by (simp add: io_do_def)

lemma demo_trim:
  "trim ''https://h/api'' = ''https://h/api''" "trim ''https://h:443/api/'' = ''https://h:443/api/''"
  by (rule trim_graphic; simp add: graphic_def)+

lemma demo_storage_laws [simp]:
  "chrono_laws demo_storage" "url_laws demo_storage" "b64_url_laws demo_storage"
  "aead_laws demo_storage" "dh_laws demo_storage" "hkdf_laws demo_storage"
proof -
  show "chrono_laws demo_storage" by (auto simp: chrono_laws_def demo_storage_defs)
  show "url_laws demo_storage"
    unfolding url_laws_def
  proof (intro allI impI)
    fix s u assume "url_parse demo_storage s = Ok u"
    then have "s = ''https://h:443/api/'' \<and> u = demo_url \<or> s = ''https://h/api'' \<and> u = canonical_url demo_url"
      by (auto simp: demo_storage_defs demo_url_parse_def split: if_splits)
    then show "let v = (if default_port u then u\<lparr>url_port := None\<rparr> else u);
          text = trim_end_slashes (url_as_str demo_storage (canonical_url u)) in
      (default_port u \<longrightarrow> url_clear_port demo_storage u = Some v) \<and>
      url_set_path demo_storage v (trim_end_slashes (url_path u)) = canonical_url u \<and>
      trim text = text \<and> url_parse demo_storage text = Ok (canonical_url u)"
      by (elim disjE conjE; hypsubst)
        (simp_all add: demo_url_parse_def demo_url_def canonical_url_def default_port_def trim_end_slashes_def
          trim_end_char_def demo_url_text_def demo_trim)
  qed
  have "set (hex_bytes b) \<subseteq> set url_alphabet" for b
  proof -
    have "hex_digit n \<in> set url_alphabet" if "n < 16" for n
      using that by (auto simp: hex_digit_def url_alphabet_def eval_nat_numeral less_Suc_eq)
    then have "set (hex_byte x) \<subseteq> set url_alphabet" for x
    proof -
      have "unat x < 256" using unsigned_less [of x, where 'a = nat] by simp
      then show ?thesis
        using \<open>\<And>n. n < 16 \<Longrightarrow> hex_digit n \<in> set url_alphabet\<close>
        by (simp add: hex_byte_def)
    qed
    then show ?thesis by (auto simp: hex_bytes_def)
  qed
  then show "b64_url_laws demo_storage"
    by (auto simp: b64_url_laws_def demo_storage_defs grant_client_def demo_client_def client_with_def ext.defs
        unhex_hex_bytes)
  have "aead_laws grant_client" "dh_laws grant_client" "hkdf_laws grant_client" by simp_all
  then show "aead_laws demo_storage" "dh_laws demo_storage" "hkdf_laws demo_storage"
    by (simp_all add: aead_laws_def dh_laws_def hkdf_laws_def demo_storage_defs)
qed

lemma demo_canonical:
  "canonicalize_api_url demo_storage ''https://h:443/api/'' = Ok ''https://h/api''"
  "canonicalize_api_url demo_storage ''https://h/api'' = Ok ''https://h/api''"
  using canonicalize_base [OF demo_storage_laws(2), of "''https://h:443/api/''" demo_url]
    canonicalize_base [OF demo_storage_laws(2), of "''https://h/api''" "canonical_url demo_url"]
  by (simp_all add: demo_trim demo_url_parse_def demo_url_def canonical_url_def default_port_def base_url_def
      http_scheme_def demo_url_text_def trim_end_slashes_def trim_end_char_def)

lemma demo_normal [simp]:
  "normalize_api_url demo_storage ''https://h:443/api/'' = ''https://h/api''"
  "normalize_api_url demo_storage ''https://h/api'' = ''https://h/api''"
  by (simp_all add: normalize_api_url_def demo_canonical)

lemma demo_config_dir [simp]: "config_dir demo_storage = Ok [''home'', ''.worklist'']"
  by (simp add: config_dir_def)

lemma demo_write: "dv_files d (temporary_secret_path demo_storage p) = None \<Longrightarrow> p \<noteq> [] \<Longrightarrow>
    fst (write_secret_file_atomic demo_storage p b l d) = Ok ()"
  by (simp add: write_secret_file_atomic_def Let_def io_simps create_secret_file_def file_exists_def
      write_temporary_def write_all_def set_contents_def sync_directory_def)

lemma demo_saved: "fst (save_credentials demo_storage demo_credentials demo_device) = Ok ()"
  by (simp add: save_credentials_def credentials_path_def save_config_file_def ensure_config_dir_def
      set_config_dir_permissions_def io_simps demo_device_def demo_write)

section \<open>Witnesses\<close>

theorem agent_token_renewal_witness:
  "\<exists>token expires. active_access_token demo_agent_credentials = Ok token \<and>
     ac_access_expires_at demo_agent_credentials = Some expires \<and> 0 + 60 * 10 ^ 9 < expires"
proof -
  have "needs_access_token_within demo_storage demo_agent_credentials 0 60 = Ok False"
    by (simp add: needs_access_token_within_def demo_agent_credentials_def agent_active_def agent_state_def
        now_plus_def)
  then show ?thesis using agent_token_renewal [OF demo_storage_laws(1)] by blast
qed

theorem refresh_update_atomic_witness:
  "cr_access_token (snd (update_credentials_with_refresh demo_storage 5 demo_refresh_response demo_credentials)) =
     ''access2''"
proof -
  have "fst (update_credentials_with_refresh demo_storage 5 demo_refresh_response demo_credentials) = Ok ()"
    by (simp add: update_credentials_with_refresh_def expires_at_from_def demo_storage_defs io_simps
        demo_refresh_response_def)
  then show ?thesis
    using refresh_update_atomic [OF demo_storage_laws(1) prod.collapse [symmetric],
        of 5 demo_refresh_response demo_credentials]
    by (simp add: demo_refresh_response_def)
qed

theorem canonical_url_stable_witness:
  "canonicalize_api_url demo_storage ''https://h/api'' = Ok ''https://h/api''"
proof -
  show ?thesis using canonical_url_stable [OF demo_storage_laws(2) demo_canonical(1)] by blast
qed

lemma demo_decode [simp]: "decode_bytes demo_storage ''00'' = Ok [0]"
  by (simp add: decode_bytes_def demo_storage_defs grant_client_def demo_client_def trim_graphic graphic_def
      unhex_digit_def)

text \<open>A server that answers every request.\<close>
definition demo_server :: server where
  "demo_server sent request = Ok \<lparr> rs_status = 200, rs_body = Inr ''body'' \<rparr>"

theorem login_requests_witness:
  "length (snd (auth_login demo_storage demo_server [1] [2] ''https://h/api'' ''a@b'' ''pw'' [])) = 2"
proof -
  obtain resp where "fst (auth_login demo_storage demo_server [1] [2] ''https://h/api'' ''a@b'' ''pw'' []) = Ok resp"
    by (simp add: auth_login_def opaque_login_start_def opaque_login_finish_def io_simps
        send_auth_request_def demo_server_def parse_json_response_def is_success_def response_json_def)
  then show ?thesis using login_requests [OF prod.collapse [symmetric]] by fastforce
qed

theorem secret_file_atomic_witness:
  "dv_files (snd (write_secret_file_atomic demo_storage [''d'', ''f''] [7] ''x'' demo_device)) [''d'', ''f''] =
     Some \<lparr>fl_bytes = [7], fl_mode = 384\<rparr>"
proof -
  have "fst (write_secret_file_atomic demo_storage [''d'', ''f''] [7] ''x'' demo_device) = Ok ()"
    by (rule demo_write) (simp_all add: demo_device_def)
  then show ?thesis using secret_file_atomic [OF prod.collapse [symmetric]] by blast
qed

theorem saved_credentials_found_witness:
  "fst (load_credentials_for_url demo_storage ''https://h/api''
      (snd (save_credentials demo_storage demo_credentials demo_device))) = Ok (Some demo_credentials)"
proof -
  have c: "auth_response_to_credentials demo_storage 0 ''https://h:443/api/'' demo_auth_response = Ok demo_credentials"
    by (simp add: auth_response_to_credentials_def expires_at_from_def demo_auth_response_def
        demo_user_def demo_credentials_def)
  have s: "save_credentials demo_storage demo_credentials demo_device =
      (Ok (), snd (save_credentials demo_storage demo_credentials demo_device))"
    using demo_saved by (metis prod.collapse)
  have n: "normalize_api_url demo_storage ''https://h/api'' = normalize_api_url demo_storage ''https://h:443/api/''"
    by simp
  have de: "credentials_de demo_storage b = Ok demo_credentials" "io_fails demo_storage q = None" for b q
    by (simp_all add: demo_storage_defs)
  show ?thesis
    using saved_credentials_found [OF demo_storage_laws(2) c s de, of "''https://h/api''"] n by simp
qed

definition demo_user_device :: device where
  "demo_user_device = demo_device\<lparr>dv_files :=
     [[''home'', ''.worklist'', ''credentials.json''] \<mapsto> \<lparr> fl_bytes = [1], fl_mode = SECRET_MODE \<rparr>]\<rparr>"

theorem principal_selected_witness:
  "fst (load_agent_credentials_for_url demo_storage ''https://h/api'' demo_user_device) = Ok None"
proof -
  have "load_principal_credentials_for_url demo_storage ''https://h/api'' SelectAuto demo_user_device =
      (Ok (Some (UserPrincipal demo_credentials)), demo_user_device)"
    by (simp add: load_principal_credentials_for_url_def load_credentials_for_url_def load_credentials_def
        load_agent_credentials_for_url_def load_agent_credentials_def credentials_path_def
        agent_credentials_path_def load_config_file_def io_simps demo_user_device_def demo_device_def
        demo_credentials_def)
  then show ?thesis using principal_selected by fastforce
qed

lemma demo_run_save:
  assumes "fst (save c v d) = Ok ()"
  obtains d' where "run_secret_ops save clear [SaveSecret c v] d = Some d'" "save c v d = (Ok (), d')"
  using assms by (cases "save c v d") auto

theorem persisted_data_key_last_write_witness:
  "\<exists>d'. save_persisted_data_key demo_storage demo_credentials [1, 2, 3] demo_device = (Ok (), d') \<and>
     fst (load_persisted_data_key demo_storage demo_credentials d') = Ok (Some [1, 2, 3])"
proof -
  have b: "current_backend demo_storage = PlatformKeyring"
    by (simp add: current_backend_def)
  have slot: "data_key_same demo_storage PlatformKeyring demo_credentials demo_credentials"
    by (simp add: data_key_same_def data_key_slot_def platform_keyring_entry_def persisted_data_key_entry_name_def
        data_key_fingerprint_def keyring_new_def demo_credentials_def)
  have "fst (save_persisted_data_key demo_storage demo_credentials [1, 2, 3] demo_device) = Ok ()"
    by (simp add: save_persisted_data_key_def b backend_save_def platform_keyring_entry_def keyring_set_def io_simps
        persisted_data_key_entry_name_def data_key_fingerprint_def keyring_new_def demo_credentials_def)
  then obtain d' where d': "save_persisted_data_key demo_storage demo_credentials [1, 2, 3] demo_device = (Ok (), d')"
      "run_secret_ops (save_persisted_data_key demo_storage) (clear_persisted_data_key demo_storage)
         [SaveSecret demo_credentials [1, 2, 3]] demo_device = Some d'"
    by (rule demo_run_save)
  then show ?thesis using persisted_data_key_last_write [OF d'(2), of demo_credentials] slot by (simp add: b)
qed

definition demo_seed :: bytes where
  "demo_seed = replicate 32 5"

lemma demo_seed_place [simp]: "seed_place demo_storage c = Some InKeychain"
  by (simp add: seed_place_def agent_seed_file_path_def should_force_agent_seed_file_backend_def
      agent_seed_keyring_entry_def keyring_new_def)

lemma demo_seed_saved: "fst (save_agent_seed demo_storage c v d) = Ok ()"
  by (simp add: save_agent_seed_def should_force_agent_seed_file_backend_def agent_seed_keyring_entry_def
      keyring_new_def io_simps keyring_set_def clear_agent_seed_file_def agent_seed_file_path_def
      remove_if_exists_def)

theorem agent_seed_last_write_witness:
  "\<exists>d'. save_agent_seed demo_storage demo_agent_credentials demo_seed demo_device = (Ok (), d') \<and>
     fst (load_agent_seed demo_storage demo_agent_credentials d') = Ok (Some demo_seed)"
proof -
  obtain d' where d': "save_agent_seed demo_storage demo_agent_credentials demo_seed demo_device = (Ok (), d')"
      "run_secret_ops (save_agent_seed demo_storage) (clear_agent_seed demo_storage)
         [SaveSecret demo_agent_credentials demo_seed] demo_device = Some d'"
    using demo_run_save [of "save_agent_seed demo_storage", OF demo_seed_saved] by blast
  then show ?thesis using agent_seed_last_write [OF d'(2), of demo_agent_credentials]
    by (simp add: seed_same_def demo_seed_def)
qed

definition demo_key_material :: agent_key_material where
  "demo_key_material = (case agent_key_material_from_seed demo_storage demo_seed of Ok km \<Rightarrow> km)"

lemma demo_keys: "agent_key_material_from_seed demo_storage demo_seed = Ok demo_key_material"
proof -
  obtain km where "agent_key_material_from_seed demo_storage demo_seed = Ok km"
    using hkdf_expand_32 [OF demo_storage_laws(6)]
    by (auto simp: agent_key_material_eq_Ok hkdf_expand_label_def) (metis ok_or.simps(1))
  then show ?thesis by (simp add: demo_key_material_def)
qed

lemma demo_key_parts:
  obtains a r where "hkdf_expand_label demo_storage demo_seed (str_bytes ''worklist.agent.recipient'') = Ok r"
    "km_seed demo_key_material = demo_seed" "km_recipient_public_key demo_key_material = x25519_public demo_storage r"
proof -
  obtain a r where r: "hkdf_expand_label demo_storage demo_seed (str_bytes ''worklist.agent.recipient'') = Ok r"
    and km: "demo_key_material = \<lparr> km_seed = demo_seed, km_signing_key = a,
      km_auth_public_key = ed25519_public demo_storage a, km_recipient_private_key = r,
      km_recipient_public_key = x25519_public demo_storage r \<rparr>"
    using demo_keys unfolding agent_key_material_eq_Ok by blast
  show thesis by (rule that [OF r]) (simp_all only: km agent_key_material.select_convs)
qed

definition demo_seed_device :: device where
  "demo_seed_device = demo_device\<lparr>dv_keyring :=
     [(AGENT_SEED_KEYCHAIN_SERVICE, agent_seed_entry_name demo_storage demo_agent_credentials) \<mapsto> demo_seed]\<rparr>"

theorem agent_token_minting_witness:
  "\<exists>sent' token. mint_agent_access_token demo_storage demo_server 0 (replicate 16 3) demo_agent_credentials
     (demo_seed_device, []) = (Ok demo_agent_token, (demo_seed_device, sent')) \<and>
     map rq_body sent' = [Some (JObject [(''assertion'', JString token)])]"
proof -
  have "load_agent_seed demo_storage demo_agent_credentials demo_seed_device = (Ok (Some demo_seed), demo_seed_device)"
    by (simp add: load_agent_seed_def should_force_agent_seed_file_backend_def agent_seed_keyring_entry_def
        keyring_new_def io_simps keyring_get_def demo_seed_device_def demo_seed_def decode_agent_seed_bytes_def)
  moreover have "ac_api_url demo_agent_credentials = ''https://h/api''"
    by (simp add: demo_agent_credentials_def agent_active_def)
  ultimately obtain d' sent' where run: "mint_agent_access_token demo_storage demo_server 0 (replicate 16 3)
      demo_agent_credentials (demo_seed_device, []) = (Ok demo_agent_token, (d', sent'))"
    using demo_keys
    by (simp add: mint_agent_access_token_def io_fst_def io_snd_def io_then_def io_return_def demo_canonical
        send_auth_request_def io_map_err_def transmit_def demo_server_def parse_json_response_def is_success_def
        response_json_def Let_def)
  show ?thesis using run agent_token_minting [OF demo_storage_laws(3) run] by fastforce
qed

lemma demo_storage_crypto:
  "hpke_codec demo_storage = hpke_codec grant_client" "x25519_public demo_storage = pad_to 32"
  "x25519_dh demo_storage = demo_dh" "was_contributory demo_storage = (\<lambda>s. s \<noteq> replicate 32 0)"
  "hkdf_extract demo_storage = hkdf_extract demo" "hkdf_expand demo_storage = demo_expand"
  "hmac_sha256 demo_storage = (\<lambda>k m. Ok (map2 (+) (pad_to 32 k) (pad_to 32 (rev m))))"
  "aead_encrypt demo_storage = demo_aead"
  by (simp_all add: demo_storage_defs grant_client_def demo_client_def)

lemma demo_grant_enc: "\<exists>b. enc (hpke_codec grant_client) e = Ok b"
  by (simp add: grant_client_def current_codec_def bytes_codec_def)

lemma demo_recipient:
  "km_recipient_public_key demo_key_material = pad_to 32 (the (demo_expand (pad_to 32 demo_seed)
     (str_bytes ''worklist.agent.recipient'') 32))"
proof -
  have "hkdf_extract demo None demo_seed = pad_to 32 demo_seed" by (simp add: demo_def)
  then show ?thesis
    by (rule_tac demo_key_parts) (simp add: hkdf_expand_label_def demo_storage_crypto)
qed

lemma demo_contributory:
  "was_contributory demo_storage (x25519_dh demo_storage (replicate 32 3) (km_recipient_public_key demo_key_material))"
  unfolding demo_storage_crypto demo_recipient by code_simp

lemma demo_agent_grant:
  obtains blob where "encrypt_agent_work_list_key demo_storage (replicate 32 3)
      (km_recipient_public_key demo_key_material) demo_list_id demo_list_key = Ok blob"
proof -
  have hmac: "hmac_laws demo_storage" by (simp add: hmac_laws_def demo_storage_crypto)
  obtain key nonce where "grant_key_schedule demo_storage CurrentSuite
      (x25519_dh demo_storage (replicate 32 3) (km_recipient_public_key demo_key_material))
      (x25519_public demo_storage (replicate 32 3)) (km_recipient_public_key demo_key_material)
      (agent_grant_context demo_storage demo_list_id) = Ok (key, nonce)"
    by (rule grant_key_schedule_total [OF demo_storage_laws(6) hmac])
  then obtain s where "hpke_dhkem_shared_secret demo_storage
      (x25519_dh demo_storage (replicate 32 3) (km_recipient_public_key demo_key_material))
      (x25519_public demo_storage (replicate 32 3)) (km_recipient_public_key demo_key_material) = Ok s"
      "hpke_key_schedule demo_storage s (agent_grant_context demo_storage demo_list_id) = Ok (key, nonce)"
    by (auto simp: grant_key_schedule_def and_then_eq_Ok)
  moreover have "length (km_recipient_public_key demo_key_material) = 32" by (simp add: demo_recipient)
  moreover obtain b where "enc (hpke_codec grant_client) \<lparr> he_version = 1, he_suite = hpke_supported,
      he_enc = x25519_public demo_storage (replicate 32 3),
      he_ciphertext = sym_bytes demo_list_key @ demo_tag key nonce (agent_grant_context demo_storage demo_list_id) \<rparr> = Ok b"
    using demo_grant_enc by blast
  ultimately show thesis
    using that demo_contributory
    by (simp add: encrypt_agent_work_list_key_def ensure_contributory_shared_secret_def hpke_seal_def
        serialize_to_cbor_def demo_storage_crypto(1,8) demo_aead_def)
qed

theorem agent_recovers_grant_witness:
  "\<exists>d' blob seed' km'. save_agent_seed demo_storage demo_agent_credentials demo_seed demo_device = (Ok (), d') \<and>
     encrypt_agent_work_list_key demo_storage (replicate 32 3) (km_recipient_public_key demo_key_material)
       demo_list_id demo_list_key = Ok blob \<and>
     load_agent_seed demo_storage demo_agent_credentials d' = (Ok (Some seed'), d') \<and>
     agent_key_material_from_seed demo_storage seed' = Ok km' \<and>
     decrypt_agent_work_list_key demo_storage (km_recipient_private_key km') demo_list_id (sb_bytes blob) 0 =
       (Ok demo_list_key, 0)"
proof -
  obtain d' where saved: "save_agent_seed demo_storage demo_agent_credentials demo_seed demo_device = (Ok (), d')"
    using demo_seed_saved by (metis prod.collapse)
  have seed: "km_seed demo_key_material = demo_seed"
    by (rule demo_key_parts)
  obtain blob where blob: "encrypt_agent_work_list_key demo_storage (replicate 32 3)
      (km_recipient_public_key demo_key_material) demo_list_id demo_list_key = Ok blob"
    by (rule demo_agent_grant)
  have "\<exists>seed' km'. load_agent_seed demo_storage demo_agent_credentials d' = (Ok (Some seed'), d') \<and>
    agent_key_material_from_seed demo_storage seed' = Ok km' \<and>
    decrypt_agent_work_list_key demo_storage (km_recipient_private_key km') demo_list_id (sb_bytes blob) 0 =
      (Ok demo_list_key, 0)"
    by (rule agent_recovers_grant [OF demo_storage_laws(4,5,6) _ demo_keys _ saved [folded seed] _ _ _ blob])
      (simp_all add: demo_storage_crypto(1) grant_client_reads demo_seed_def demo_list_key_def sym_wf_def)
  then show ?thesis using saved blob by blast
qed

end
