(* ===== verification/Api_Instance.thy ===== *)
theory Api_Instance
  imports Api_Thms Auth_Instance
begin

text \<open>The concrete instance of the API client's parameters, \<open>demo_storage\<close> extended by readers of the
  answers, and the theorems of \<open>client-api\<close> applied to it.\<close>

definition demo_my_task :: my_task_response where
  "demo_my_task = \<lparr> mk_id = replicate 16 1, mk_work_list_id = replicate 16 2, mk_work_list_title_ciphertext = [],
     mk_created_by_membership_id = replicate 16 3, mk_title_ciphertext = [], mk_payload_ciphertext = [],
     mk_section_id = None, mk_priority = None, mk_due_at = None, mk_start_at = None, mk_completed_at = None,
     mk_is_completed = False, mk_created_at = 0, mk_updated_at = 0, mk_comment_count = 0, mk_delegations = [] \<rparr>"

text \<open>The page that text stands for.\<close>
definition demo_page :: "string \<Rightarrow> my_tasks_response" where
  "demo_page s = \<lparr> mt_tasks = (if s = ''first'' then [demo_my_task] else []), mt_total = 1, mt_limit = 100,
     mt_offset = 0 \<rparr>"

definition demo_api :: api_ext where
  "demo_api = storage_ext.extend demo_storage \<lparr>
     datetime_json = json_int, de_me = (\<lambda>_. Err ''eof''), de_work_lists = (\<lambda>_. Ok []),
     de_work_list_detail = (\<lambda>_. Err ''eof''), de_task_list = (\<lambda>_. Ok \<lparr> tl_tasks = [], tl_archived_counts = [] \<rparr>),
     de_my_tasks = (\<lambda>s. Ok (demo_page s)), de_dashboard = (\<lambda>_. Err ''eof''), de_agents = (\<lambda>_. Ok []),
     de_agent_summary = (\<lambda>_. Err ''eof''), de_task_detail = (\<lambda>_. Err ''eof''), de_download = (\<lambda>_. Err ''eof''),
     de_task = (\<lambda>_. Err ''eof''), de_delegation = (\<lambda>_. Err ''eof''), de_comments = (\<lambda>_. Ok []),
     de_comment = (\<lambda>_. Err ''eof'') \<rparr>"

definition demo_api_client :: api_client where
  "demo_api_client = with_bearer_token ''https://h/api/'' ''token''"

definition demo_task_server :: server where
  "demo_task_server sent request =
     Ok \<lparr> rs_status = 200, rs_body = Inr (if request = page_request demo_api_client ''token'' False 0
       then ''first'' else ''rest'') \<rparr>"

lemma show_nat_0: "show_nat n = show_nat 0 \<longleftrightarrow> n = 0"
proof (cases "n < 10")
  case True
  have "n = 0" if "char_of (48 + n) = (char_of (48 :: nat) :: char)"
  proof -
    from that have "of_char (char_of (48 + n) :: char) = (of_char (char_of (48 :: nat) :: char) :: nat)" by simp
    then show ?thesis using True by (simp only: of_char_of) simp
  qed
  then show ?thesis using True by (auto simp: show_nat.simps [of n] show_nat.simps [of 0])
next
  case False
  have "show_nat m \<noteq> []" for m by (subst show_nat.simps) simp
  then have "length (show_nat n) \<noteq> length (show_nat 0)"
    using False by (subst show_nat.simps [of n], subst show_nat.simps [of 0]) simp
  then show ?thesis using False by auto
qed

lemma demo_page_request:
  "page_request c token b n = page_request c token b 0 \<longleftrightarrow> n = 0"
  by (auto simp: page_request_def authorized_def plain_request_def my_tasks_path_def Let_def show_int_def
      show_nat_0)

lemma demo_serves: "serves_tasks demo_api demo_task_server demo_api_client ''token'' False [demo_my_task]"
  unfolding serves_tasks_def
  by (auto simp: demo_task_server_def demo_page_request demo_api_def storage_ext.defs response_json_def
      demo_page_def is_success_def MY_TASKS_PAGE_LIMIT_def)

lemma demo_bearer: "pc_bearer_token demo_api_client = Some ''token''"
  by (simp add: demo_api_client_def with_bearer_token_def)

theorem all_my_tasks_complete_witness:
  "get_all_my_tasks demo_api demo_task_server demo_api_client False [] =
     (Ok [demo_my_task], [page_request demo_api_client ''token'' False 0])"
  using all_my_tasks_complete [OF demo_serves demo_bearer, of "[]"] by simp

text \<open>A server that claims that there are always more tasks.\<close>
definition endless_api :: api_ext where
  "endless_api = demo_api\<lparr>de_my_tasks := (\<lambda>_. Ok \<lparr> mt_tasks = replicate 100 demo_my_task,
     mt_total = 2 ^ 63 - 1, mt_limit = 100, mt_offset = 0 \<rparr>)\<rparr>"

theorem all_my_tasks_returns_witness:
  "\<exists>r sent'. get_all_my_tasks endless_api demo_task_server demo_api_client False [] = (r, sent') \<and> r \<noteq> Abort"
  by (rule all_my_tasks_returns) (simp_all add: demo_task_server_def endless_api_def)

definition demo_plain_delete :: delete_request where
  "demo_plain_delete = \<lparr> dr_audit_patch = Some \<lparr> ap_fields = [\<lparr> pf_field = ''title'', pf_change_kind = ''clear'',
     pf_before_scalar = Some ''secret'', pf_after_scalar = None, pf_before_ciphertext_digest = None,
     pf_after_ciphertext_digest = None \<rparr>], ap_payload_ciphertext = [], ap_payload_ciphertext_proof = [],
     ap_payload_version = 1 \<rparr> \<rparr>"

theorem deletion_encrypted_boundary_witness:
  "snd (api_delete_task demo_api demo_task_server demo_api_client [1] [2] demo_plain_delete []) = [] \<and>
   (\<exists>request. snd (api_delete_comment demo_api demo_task_server demo_api_client [1] [2] [3]
       \<lparr> dr_audit_patch = None \<rparr> []) = [request] \<and> rq_method request = DELETE)"
proof -
  have "\<not> delete_encrypted demo_plain_delete" "delete_encrypted \<lparr> dr_audit_patch = None \<rparr>"
    by (simp_all add: delete_encrypted_def demo_plain_delete_def field_encrypted_def)
  moreover have "fst (api_delete_comment demo_api demo_task_server demo_api_client [1] [2] [3]
      \<lparr> dr_audit_patch = None \<rparr> []) = Ok ()"
    by (simp add: api_delete_comment_def validate_optional_audit_patch_def io_then_return
        delete_no_content_with_body_def send_no_content_run demo_bearer Let_def demo_task_server_def
        handle_empty_response_def is_success_def)
  moreover have "if delete_encrypted demo_plain_delete then sent' = [] \<and> r = Err (Validation ''not logged in'') \<or>
        (\<exists>request. sent' = [] @ [request] \<and> rq_method request = DELETE \<and>
          rq_body request = Some (delete_request_json demo_plain_delete))
      else sent' = [] \<and> (\<exists>m. r = Err (Validation m))"
    if "api_delete_task demo_api demo_task_server demo_api_client [1] [2] demo_plain_delete [] = (r, sent')" for r sent'
    by (rule deletion_encrypted_boundary [OF disjI1 [OF refl] that])
  moreover have "if delete_encrypted \<lparr> dr_audit_patch = None \<rparr> then sent' = [] \<and> r = Err (Validation ''not logged in'') \<or>
        (\<exists>request. sent' = [] @ [request] \<and> rq_method request = DELETE \<and>
          rq_body request = Some (delete_request_json \<lparr> dr_audit_patch = None \<rparr>))
      else sent' = [] \<and> (\<exists>m. r = Err (Validation m))"
    if "api_delete_comment demo_api demo_task_server demo_api_client [1] [2] [3] \<lparr> dr_audit_patch = None \<rparr> [] = (r, sent')"
      for r sent'
    by (rule deletion_encrypted_boundary [OF disjI2 [OF refl] that])
  ultimately show ?thesis by (metis append_Nil prod.collapse rust_result.distinct(1))
qed

end
