(* ===== verification/Rt_Daemon.thy ===== *)
theory Rt_Daemon
  imports Api_Client "HOL-Library.AList"
begin

text \<open>\<open>crates/client-runtime/src/unlock_daemon.rs\<close>: the daemon that keeps unlocked data keys in memory
  for a limited time, its serving loop, and the client's side of the conversation.\<close>

section \<open>Sessions\<close>

record session_key =
  sk_api_url :: string
  sk_user_id :: uuid
  sk_data_key_fingerprint :: string

record unlock_status =
  us_unlocked :: bool
  us_session_key :: "session_key option"
  us_expires_at_unix :: "u64 option"

datatype daemon_request =
    PutSession session_key string u64
  | GetSession session_key
  | StatusOf "session_key option"
  | DeleteSession session_key
  | ShutdownDaemon

datatype daemon_response =
    Stored
  | Deleted
  | DataKeyIs "string option"
  | StatusIs unlock_status
  | ShuttingDown
  | DaemonError string

record stored_session =
  st_data_key_b64 :: string
  st_expires_at_unix :: u64

text \<open>The hash map of the sessions; it has one entry for a key.\<close>
type_synonym unlock_store = "(session_key \<times> stored_session) list"

definition build_status :: "session_key option \<Rightarrow> u64 option \<Rightarrow> unlock_status" where
  "build_status sk expires = \<lparr> us_unlocked = (expires \<noteq> None), us_session_key = sk, us_expires_at_unix = expires \<rparr>"

definition prune_expired :: "u64 \<Rightarrow> unlock_store \<Rightarrow> unlock_store" where
  "prune_expired now store = filter (\<lambda>(_, session). st_expires_at_unix session > now) store"

definition store_put :: "session_key \<Rightarrow> stored_session \<Rightarrow> unlock_store \<Rightarrow> unlock_store" where
  "store_put sk session store = AList.update sk session store"

definition store_get :: "u64 \<Rightarrow> session_key \<Rightarrow> unlock_store \<Rightarrow> string option \<times> unlock_store" where
  "store_get now sk store =
     (let store = prune_expired now store in (map_option st_data_key_b64 (map_of store sk), store))"

definition store_delete :: "u64 \<Rightarrow> session_key \<Rightarrow> unlock_store \<Rightarrow> unlock_store" where
  "store_delete now sk store = AList.delete sk (prune_expired now store)"

text \<open>Which entry a hash map's iterator yields first is not specified: \<open>first\<close> picks it.\<close>
definition store_status ::
  "(unlock_store \<Rightarrow> nat) \<Rightarrow> u64 \<Rightarrow> session_key option \<Rightarrow> unlock_store \<Rightarrow> unlock_status \<times> unlock_store" where
  "store_status first now query store =
     (let store = prune_expired now store in
      (case query of
         Some sk \<Rightarrow> build_status (Some sk) (map_option st_expires_at_unix (map_of store sk))
       | None \<Rightarrow>
           if store = [] then build_status None None
           else let entry = store ! (first store mod length store) in
             build_status (Some (fst entry)) (Some (st_expires_at_unix (snd entry))), store))"

section \<open>The daemon\<close>

definition handle_request ::
  "(unlock_store \<Rightarrow> nat) \<Rightarrow> u64 \<Rightarrow> daemon_request \<Rightarrow> unlock_store \<Rightarrow> daemon_response \<times> unlock_store" where
  "handle_request first now request store =
     (case request of
        PutSession sk data_key expires \<Rightarrow>
          (Stored, store_put sk \<lparr> st_data_key_b64 = data_key, st_expires_at_unix = expires \<rparr> store)
      | GetSession sk \<Rightarrow> (let (key, store) = store_get now sk store in (DataKeyIs key, store))
      | StatusOf sk \<Rightarrow> (let (status, store) = store_status first now sk store in (StatusIs status, store))
      | DeleteSession sk \<Rightarrow> (Deleted, store_delete now sk store)
      | ShutdownDaemon \<Rightarrow> (ShuttingDown, store))"

text \<open>What happens on one connection: accepting it or reading it fails, or a request is read, decoded or
  not, answered at the time given, and the answer is sent or not.\<close>
datatype connection =
    AcceptFails string
  | ReadFails string
  | Undecodable string
  | Requests daemon_request u64 "string option"

text \<open>What \<open>serve\<close> does before it accepts a connection, on the file system: the directory is made
  private, a socket left over is removed, and the new one is made private after it is bound.\<close>
datatype socket_op = BindSocket path | SecureSocket path

datatype daemon_state = Listening unlock_store | Exited "unit public_result"

text \<open>The body of the loop of \<open>serve\<close>: every failure ends it.\<close>
definition serve_connection ::
  "(unlock_store \<Rightarrow> nat) \<Rightarrow> connection \<Rightarrow> unlock_store \<Rightarrow> daemon_response option \<times> daemon_state" where
  "serve_connection first c store =
     (case c of
        AcceptFails e \<Rightarrow> (None, Exited (Err (Unexpected (''unlock daemon accept failed: '' @ e))))
      | ReadFails e \<Rightarrow> (None, Exited (Err (Unexpected (''unlock daemon read failed: '' @ e))))
      | Undecodable e \<Rightarrow> (None, Exited (Err (Unexpected (''failed to decode unlock daemon request: '' @ e))))
      | Requests request now write_error \<Rightarrow>
          (let (response, store) = handle_request first now request store in
           case write_error of
             Some e \<Rightarrow> (None, Exited (Err (Unexpected (''unlock daemon write failed: '' @ e))))
           | None \<Rightarrow> (Some response, if response = ShuttingDown then Exited (Ok ()) else Listening store)))"

text \<open>The loop over the connections that arrive, with the answers sent.\<close>
inductive serves ::
  "(unlock_store \<Rightarrow> nat) \<Rightarrow> unlock_store \<Rightarrow> connection list \<Rightarrow> daemon_response list \<Rightarrow> daemon_state \<Rightarrow> bool"
  for first where
  waiting: "serves first store [] [] (Listening store)"
| answered: "serve_connection first c store = (Some response, Listening store') \<Longrightarrow>
    serves first store' cs responses state \<Longrightarrow> serves first store (c # cs) (response # responses) state"
| shut_down: "serve_connection first c store = (Some response, Exited r) \<Longrightarrow>
    serves first store (c # cs) [response] (Exited r)"
| failed: "serve_connection first c store = (None, Exited r) \<Longrightarrow> serves first store (c # cs) [] (Exited r)"

inductive_cases serves_NilE: "serves first store [] responses state"
inductive_cases serves_ConsE: "serves first store (c # cs) responses state"

section \<open>Preparing the socket\<close>

text \<open>The modes of a directory before it is made private, and of a socket as it is bound, are what the
  usual file creation mask leaves.\<close>
definition prepare_socket ::
  "'x storage_ext_scheme \<Rightarrow> (socket_op \<Rightarrow> string option) \<Rightarrow> path \<Rightarrow> (device, unit, public_error) rio" where
  "prepare_socket W socket_fails socket =
     (let dir = butlast socket;
          failed = (\<lambda>what p e. ''failed to '' @ what @ '' '' @ path_display W p @ '': '' @ e);
          socket_do = (\<lambda>op message f d. case socket_fails op of
             Some e \<Rightarrow> (Err (Unexpected (message e)), d) | None \<Rightarrow> (Ok (), f d)) in
      io_then (io_return (guard_err (socket = [])
        (Unexpected (''unlock daemon socket path has no parent: '' @ path_display W socket)))) (\<lambda>_.
      io_then (\<lambda>d. if dv_dirs d dir \<noteq> None then (Ok (), d)
        else io_do W (CreateDir dir) (failed ''create unlock daemon directory'' dir)
          (\<lambda>d. d\<lparr>dv_dirs := (dv_dirs d)(dir \<mapsto> 493)\<rparr>) d) (\<lambda>_.
      io_then (io_do W (SetDirMode dir) (failed ''secure unlock daemon directory'' dir)
        (\<lambda>d. d\<lparr>dv_dirs := (dv_dirs d)(dir \<mapsto> 448)\<rparr>)) (\<lambda>_.
      io_then (remove_if_exists W socket (failed ''remove stale unlock daemon socket'' socket)) (\<lambda>_.
      io_then (socket_do (BindSocket socket) (failed ''bind unlock daemon socket'' socket)
        (put_file socket \<lparr> fl_bytes = [], fl_mode = 493 \<rparr>)) (\<lambda>_.
      socket_do (SecureSocket socket) (failed ''secure unlock daemon socket'' socket)
        (put_file socket \<lparr> fl_bytes = [], fl_mode = 384 \<rparr>)))))))"

section \<open>The client\<close>

text \<open>How a conversation with a running daemon can fail: the connection is not made, for want of permission or of
  file descriptors or because the socket was removed, of which the daemon does not learn; the request does not
  get through, which the daemon cannot decode; or the answer does not, and the daemon may have failed to send it.\<close>
datatype sock_failure =
    ConnectFailed string
  | WriteFailed string
  | FinishFailed string
  | AnswerUnread string bool
  | AnswerUndecodable string bool

fun sock_failure_text :: "string \<Rightarrow> sock_failure \<Rightarrow> string" where
  "sock_failure_text socket (ConnectFailed e) = ''failed to connect to unlock daemon at '' @ socket @ '': '' @ e"
| "sock_failure_text _ (WriteFailed e) = ''failed to write unlock daemon request: '' @ e"
| "sock_failure_text _ (FinishFailed e) = ''failed to finish unlock daemon request: '' @ e"
| "sock_failure_text _ (AnswerUnread e _) = ''failed to read unlock daemon response: '' @ e"
| "sock_failure_text _ (AnswerUndecodable e _) = ''failed to decode unlock daemon response: '' @ e"

text \<open>The daemon that listens on the socket, and a number that grows with every reading of the clock and every
  conversation, so that each may go differently.\<close>
record daemon_world =
  dw_daemon :: "unlock_store option"
  dw_reads :: nat

record runtime_ext = api_ext +
  unix_clock :: "nat \<Rightarrow> u64"
  hash_first :: "unlock_store \<Rightarrow> nat"
  connect_error :: string
  sock_fails :: "nat \<Rightarrow> daemon_request \<Rightarrow> sock_failure option"
  spawn_fails :: "string option"
  ready_after :: nat
  exe_exists :: "path \<Rightarrow> bool"
  current_exe :: "(path, string) rust_result"
  parse_path :: "string \<Rightarrow> path"
  utc_clock :: "nat \<Rightarrow> datetime"
  random_bytes :: "nat \<Rightarrow> nat \<Rightarrow> bytes"
  join_error :: string
  http_client_fails :: "string option"
  parse_uuid :: "string \<Rightarrow> (uuid, string) rust_result"
  utf8_error :: "bytes \<Rightarrow> string"
  docx_markdown :: "bytes \<Rightarrow> (string, string) rust_result"
  html_to_md :: "string \<Rightarrow> string"
  blob_server :: "string \<Rightarrow> (string \<rightharpoonup> string) \<Rightarrow> (u16 \<times> (string + bytes), string) rust_result"
  read_stdin :: "nat \<Rightarrow> (string, string) rust_result"
  read_prompt :: "nat \<Rightarrow> (string, string) rust_result"
  env_unicode :: "string \<Rightarrow> bool"

definition SOCKET_FILE_NAME :: string where "SOCKET_FILE_NAME = ''unlock.sock''"
definition DAEMON_EXECUTABLE_ENV :: string where "DAEMON_EXECUTABLE_ENV = ''WORKLIST_UNLOCK_DAEMON_EXECUTABLE''"

definition socket_path :: "'x storage_ext_scheme \<Rightarrow> path public_result" where
  "socket_path W = map_ok (\<lambda>dir. dir @ [SOCKET_FILE_NAME]) (config_dir W)"

definition daemon_decode_base64 :: "'x client_ext_scheme \<Rightarrow> string \<Rightarrow> string \<Rightarrow> bytes public_result" where
  "daemon_decode_base64 X value message =
     map_err (\<lambda>e. Validation (message @ '': '' @ e))
       (or_else (b64_nopad_dec X value) (\<lambda>_. b64_std_dec X value))"

definition make_session_key :: "'x auth_ext_scheme \<Rightarrow> string \<Rightarrow> uuid \<Rightarrow> string \<Rightarrow> session_key public_result" where
  "make_session_key A api_url user_id data_key_ciphertext =
     and_then (daemon_decode_base64 A (trim data_key_ciphertext)
       ''invalid data key ciphertext for daemon session key'') (\<lambda>b.
     Ok \<lparr> sk_api_url = normalize_api_url A api_url, sk_user_id = user_id,
       sk_data_key_fingerprint = b64_nopad_enc A (sha256 A b) \<rparr>)"

definition unix_now :: "'x runtime_ext_scheme \<Rightarrow> (daemon_world, u64, public_error) rio" where
  "unix_now R = (\<lambda>w. (Ok (unix_clock R (dw_reads w)), w\<lparr>dw_reads := Suc (dw_reads w)\<rparr>))"

definition is_daemon_unavailable :: "public_error \<Rightarrow> bool" where
  "is_daemon_unavailable e =
     (case e of Unexpected message \<Rightarrow> contains_str message ''failed to connect to unlock daemon'' | _ \<Rightarrow> False)"

text \<open>\<open>try_send_request\<close> with \<open>send_request_over_stream\<close>.  Without a daemon the connection is refused, and it can
  fail with one, which stays as it is; a request that does not get through ends the daemon, as
  \<open>serve_connection\<close> does.\<close>
definition try_send_request ::
  "'x runtime_ext_scheme \<Rightarrow> daemon_request \<Rightarrow> (daemon_world, daemon_response, public_error) rio" where
  "try_send_request R request =
     io_then (io_return (socket_path R)) (\<lambda>socket_path w.
     let failed = (\<lambda>f. Err (Unexpected (sock_failure_text (path_display R socket_path) f))) in
     case dw_daemon w of
       None \<Rightarrow> (failed (ConnectFailed (connect_error R)), w)
     | Some store \<Rightarrow>
         let (response, store) = handle_request (hash_first R) (unix_clock R (dw_reads w)) request store;
             after = w\<lparr>dw_daemon := if response = ShuttingDown then None else Some store,
               dw_reads := Suc (dw_reads w)\<rparr>;
             gone = w\<lparr>dw_daemon := None, dw_reads := Suc (dw_reads w)\<rparr>;
             untouched = w\<lparr>dw_reads := Suc (dw_reads w)\<rparr> in
         (case sock_fails R (dw_reads w) request of
            None \<Rightarrow> (Ok response, after)
          | Some f \<Rightarrow> (failed f,
              case f of ConnectFailed _ \<Rightarrow> untouched
                | AnswerUnread _ alive \<Rightarrow> if alive then after else gone
                | AnswerUndecodable _ alive \<Rightarrow> if alive then after else gone
                | _ \<Rightarrow> gone)))"

definition send_daemon_request ::
  "'x runtime_ext_scheme \<Rightarrow> daemon_request \<Rightarrow> (daemon_world, daemon_response, public_error) rio" where
  "send_daemon_request R request =
     io_map_err (\<lambda>e. Unexpected (''failed to communicate with unlock daemon: '' @ public_display e))
       (try_send_request R request)"

text \<open>The shape the client functions share: a daemon that is not there gives \<open>absent\<close>, another failure an
  error that says what failed, and an answer is read.\<close>
definition query_daemon ::
  "'x runtime_ext_scheme \<Rightarrow> daemon_request \<Rightarrow> 'a public_result \<Rightarrow> string \<Rightarrow> (daemon_response \<Rightarrow> 'a public_result)
   \<Rightarrow> (daemon_world, 'a, public_error) rio" where
  "query_daemon R request absent failure read w =
     (case try_send_request R request w of
        (Ok response, w) \<Rightarrow> (read response, w)
      | (Err e, w) \<Rightarrow>
          if is_daemon_unavailable e then (absent, w)
          else (Err (Unexpected (failure @ public_display e)), w)
      | (Abort, w) \<Rightarrow> (Abort, w))"

definition query_unlock_status ::
  "'x runtime_ext_scheme \<Rightarrow> session_key option \<Rightarrow> (daemon_world, unlock_status, public_error) rio" where
  "query_unlock_status R sk =
     query_daemon R (StatusOf sk) (Ok (build_status sk None)) ''failed to query unlock daemon status: ''
       (\<lambda>response. case response of
          StatusIs status \<Rightarrow> Ok status
        | DaemonError message \<Rightarrow> Err (Unexpected message)
        | _ \<Rightarrow> Err (Unexpected ''unexpected daemon response to status''))"

definition fetch_data_key ::
  "'x runtime_ext_scheme \<Rightarrow> session_key \<Rightarrow> (daemon_world, symmetric_key option, public_error) rio" where
  "fetch_data_key R sk =
     query_daemon R (GetSession sk) (Ok None) ''failed to fetch data key from unlock daemon: ''
       (\<lambda>response. case response of
          DataKeyIs (Some data_key_b64) \<Rightarrow>
            and_then (daemon_decode_base64 R data_key_b64 ''invalid daemon data key'') (\<lambda>b.
            map_ok Some (symmetric_key_from_bytes b))
        | DataKeyIs None \<Rightarrow> Ok None
        | DaemonError message \<Rightarrow> Err (Unexpected message)
        | _ \<Rightarrow> Err (Unexpected ''unexpected daemon response to get''))"

definition lock_daemon :: "'x runtime_ext_scheme \<Rightarrow> (daemon_world, unit, public_error) rio" where
  "lock_daemon R =
     query_daemon R ShutdownDaemon (Ok ()) ''failed to lock unlock daemon: ''
       (\<lambda>response. case response of
          ShuttingDown \<Rightarrow> Ok ()
        | DaemonError message \<Rightarrow> Err (Unexpected message)
        | _ \<Rightarrow> Err (Unexpected ''unexpected daemon response to shutdown''))"

definition clear_session :: "'x runtime_ext_scheme \<Rightarrow> session_key \<Rightarrow> (daemon_world, unit, public_error) rio" where
  "clear_session R sk =
     query_daemon R (DeleteSession sk) (Ok ()) ''failed to clear unlock daemon session: ''
       (\<lambda>response. case response of
          Deleted \<Rightarrow> Ok ()
        | DaemonError message \<Rightarrow> Err (Unexpected message)
        | _ \<Rightarrow> Err (Unexpected ''unexpected daemon response to delete''))"

section \<open>Starting the daemon\<close>

definition configured_daemon_executable :: "'x runtime_ext_scheme \<Rightarrow> path option" where
  "configured_daemon_executable R =
     (case env_var R DAEMON_EXECUTABLE_ENV of
        Some v \<Rightarrow> if exe_exists R (parse_path R v) then Some (parse_path R v) else None
      | None \<Rightarrow> None)"

text \<open>On Linux.\<close>
definition resolve_daemon_executable :: "'x runtime_ext_scheme \<Rightarrow> path public_result" where
  "resolve_daemon_executable R =
     (case configured_daemon_executable R of
        Some p \<Rightarrow> Ok p
      | None \<Rightarrow>
          let proc_self_exe = [''proc'', ''self'', ''exe''] in
          if exe_exists R proc_self_exe then Ok proc_self_exe
          else and_then (map_err (\<lambda>e. Unexpected (''failed to locate current executable: '' @ e)) (current_exe R)) (\<lambda>p.
            if exe_exists R p then Ok p
            else Err (Unexpected (''failed to locate unlock daemon executable: '' @ path_display R p @
              '' does not exist''))))"

text \<open>The polls that are left, each after a pause; at poll \<open>ready_after\<close> the new daemon, with an empty
  store, has begun to listen.\<close>
fun await_daemon :: "'x runtime_ext_scheme \<Rightarrow> nat \<Rightarrow> nat \<Rightarrow> (daemon_world, unit, public_error) rio" where
  "await_daemon R poll 0 w = (Err (Unexpected ''unlock daemon did not become ready in time''), w)"
| "await_daemon R poll (Suc left) w =
     (case try_send_request R (StatusOf None) (if poll = ready_after R then w\<lparr>dw_daemon := Some []\<rparr> else w) of
        (Ok _, w) \<Rightarrow> (Ok (), w)
      | (_, w) \<Rightarrow> await_daemon R (Suc poll) left w)"

definition DAEMON_POLLS :: nat where "DAEMON_POLLS = 50"

text \<open>The new daemon removes the socket of one that was there and could not be connected to, at the latest by the
  first poll: no client reaches that one any more.\<close>
definition spawn_daemon :: "'x runtime_ext_scheme \<Rightarrow> (daemon_world, unit, public_error) rio" where
  "spawn_daemon R =
     io_then (io_return (socket_path R)) (\<lambda>_.
     io_then (io_return (resolve_daemon_executable R)) (\<lambda>_.
     io_then (io_return (case spawn_fails R of
         Some e \<Rightarrow> Err (Unexpected (''failed to start unlock daemon: '' @ e)) | None \<Rightarrow> Ok ())) (\<lambda>_.
     \<lambda>w. await_daemon R 0 DAEMON_POLLS (w\<lparr>dw_daemon := None\<rparr>))))"

definition ensure_running :: "'x runtime_ext_scheme \<Rightarrow> (daemon_world, unit, public_error) rio" where
  "ensure_running R w =
     (case try_send_request R (StatusOf None) w of
        (Ok _, w) \<Rightarrow> (Ok (), w)
      | (Err e, w) \<Rightarrow>
          if is_daemon_unavailable e then spawn_daemon R w
          else (Err (Unexpected (''failed to check unlock daemon: '' @ public_display e)), w)
      | (Abort, w) \<Rightarrow> (Abort, w))"

text \<open>\<open>unix_now() + ttl_seconds\<close> wraps, as it does in a release build.\<close>
definition unlock_session ::
  "'x runtime_ext_scheme \<Rightarrow> session_key \<Rightarrow> symmetric_key \<Rightarrow> u64 \<Rightarrow> (daemon_world, unit, public_error) rio" where
  "unlock_session R sk data_key ttl_seconds =
     io_then (ensure_running R) (\<lambda>_.
     io_then (unix_now R) (\<lambda>now.
     io_then (send_daemon_request R (PutSession sk (b64_nopad_enc R (sym_bytes data_key)) (now + ttl_seconds)))
       (\<lambda>response.
     io_return (case response of
         Stored \<Rightarrow> Ok ()
       | DaemonError message \<Rightarrow> Err (Unexpected message)
       | _ \<Rightarrow> Err (Unexpected ''unexpected daemon response to unlock'')))))"

end
