(* ===== verification/Rt_Daemon_Thms.thy ===== *)
theory Rt_Daemon_Thms
  imports Rt_Daemon
begin

text \<open>Correctness of the unlock daemon: what it answers is what an ideal store that never prunes would,
  through any sequence of connections; its one outcome, and when it ends; that an unlocked key is found
  until it expires; and what a client makes of a daemon it cannot reach.\<close>

section \<open>The store\<close>

definition store_inv :: "unlock_store \<Rightarrow> bool" where
  "store_inv store \<longleftrightarrow> distinct (map fst store)"

lemma store_inv_Nil [simp]: "store_inv []"
  by (simp add: store_inv_def)

lemma prune_inv [simp]: "store_inv store \<Longrightarrow> store_inv (prune_expired now store)"
  by (simp add: store_inv_def prune_expired_def distinct_map_filter)

lemma map_of_prune:
  "store_inv store \<Longrightarrow> map_of (prune_expired now store) sk =
     (case map_of store sk of Some s \<Rightarrow> if st_expires_at_unix s > now then Some s else None | None \<Rightarrow> None)"
  unfolding store_inv_def prune_expired_def
  by (induction store) (auto simp: map_of_eq_None_iff split: option.splits)

lemma handle_request_inv:
  assumes "store_inv store" "handle_request first now request store = (response, store')"
  shows "store_inv store'"
  using assms prune_inv [OF assms(1), of now]
  by (auto simp: handle_request_def store_put_def store_get_def store_status_def store_delete_def Let_def
      store_inv_def distinct_update distinct_delete split: daemon_request.splits option.splits)

section \<open>The ideal store\<close>

text \<open>What was put and not deleted; an entry counts until it expires.\<close>
type_synonym ideal = "session_key \<rightharpoonup> stored_session"

definition live :: "u64 \<Rightarrow> ideal \<Rightarrow> ideal" where
  "live now m sk = (case m sk of Some s \<Rightarrow> if st_expires_at_unix s > now then Some s else None | None \<Rightarrow> None)"

fun ideal_step :: "daemon_request \<Rightarrow> ideal \<Rightarrow> ideal" where
  "ideal_step (PutSession sk key expires) m =
     m(sk \<mapsto> \<lparr> st_data_key_b64 = key, st_expires_at_unix = expires \<rparr>)"
| "ideal_step (DeleteSession sk) m = m(sk := None)"
| "ideal_step _ m = m"

fun ideal_answer :: "u64 \<Rightarrow> daemon_request \<Rightarrow> ideal \<Rightarrow> daemon_response \<Rightarrow> bool" where
  "ideal_answer now (PutSession _ _ _) m response \<longleftrightarrow> response = Stored"
| "ideal_answer now (GetSession sk) m response \<longleftrightarrow>
     response = DataKeyIs (map_option st_data_key_b64 (live now m sk))"
| "ideal_answer now (StatusOf (Some sk)) m response \<longleftrightarrow>
     response = StatusIs (build_status (Some sk) (map_option st_expires_at_unix (live now m sk)))"
| "ideal_answer now (StatusOf None) m response \<longleftrightarrow>
     (if live now m = Map.empty then response = StatusIs (build_status None None)
      else \<exists>sk s. live now m sk = Some s \<and> response = StatusIs (build_status (Some sk) (Some (st_expires_at_unix s))))"
| "ideal_answer now (DeleteSession sk) m response \<longleftrightarrow> response = Deleted"
| "ideal_answer now ShutdownDaemon m response \<longleftrightarrow> response = ShuttingDown"

text \<open>From \<open>now\<close> on, the store and the ideal one hold the same.\<close>
definition agrees :: "u64 \<Rightarrow> unlock_store \<Rightarrow> ideal \<Rightarrow> bool" where
  "agrees now store m \<longleftrightarrow> store_inv store \<and> (\<forall>t\<ge>now. live t (map_of store) = live t m)"

lemma agrees_later: "agrees t store m \<Longrightarrow> t \<le> t' \<Longrightarrow> agrees t' store m"
  by (auto simp: agrees_def)

lemma map_of_pruned:
  assumes "agrees now store m" shows "map_of (prune_expired now store) = live now m"
proof
  fix sk
  have "live now (map_of store) sk = live now m sk" using assms by (simp add: agrees_def)
  then show "map_of (prune_expired now store) sk = live now m sk"
    using assms by (simp add: map_of_prune agrees_def live_def)
qed

lemma live_live: "t \<ge> now \<Longrightarrow> live t (live now m) = live t m"
  by (rule ext) (auto simp: live_def split: option.splits)

lemma agrees_prune: "agrees now store m \<Longrightarrow> agrees now (prune_expired now store) m"
  using map_of_pruned [of now store m] by (auto simp: agrees_def live_live)

lemma agrees_put:
  "agrees now store m \<Longrightarrow> agrees now (store_put sk s store) (m(sk \<mapsto> s))"
  unfolding agrees_def store_put_def store_inv_def
  by (auto simp: distinct_update update_conv' live_def fun_eq_iff)

lemma agrees_delete:
  "agrees now store m \<Longrightarrow> agrees now (AList.delete sk store) (m(sk := None))"
  unfolding agrees_def store_inv_def
  by (auto simp: distinct_delete delete_conv' live_def fun_eq_iff)

lemma handle_request_agrees:
  assumes "agrees t store m" "t \<le> now" "handle_request first now request store = (response, store')"
  shows "ideal_answer now request m response \<and> agrees now store' (ideal_step request m)"
proof -
  have now: "agrees now store m" by (rule agrees_later [OF assms(1,2)])
  note pruned = map_of_pruned [OF now] and keep = agrees_prune [OF now]
  show ?thesis
  proof (cases request)
    case (PutSession sk key expires)
    then show ?thesis using assms(3) agrees_put [OF now] by (auto simp: handle_request_def)
  next
    case (GetSession sk)
    then show ?thesis using assms(3) keep by (auto simp: handle_request_def store_get_def Let_def pruned)
  next
    case (StatusOf query)
    show ?thesis
    proof (cases query)
      case None
      let ?p = "prune_expired now store"
      have empty: "live now m = Map.empty \<longleftrightarrow> ?p = []" unfolding pruned [symmetric] by simp
      have "\<exists>sk s. live now m sk = Some s \<and>
          ?p ! (first ?p mod length ?p) = (sk, s)" if "?p \<noteq> []"
      proof -
        have "?p ! (first ?p mod length ?p) \<in> set ?p" using that by simp
        then show ?thesis using keep unfolding pruned [symmetric] agrees_def store_inv_def
          by (metis map_of_eq_Some_iff surj_pair)
      qed
      then show ?thesis using assms(3) StatusOf None keep empty
        by (auto simp: handle_request_def store_status_def Let_def split: if_splits) force
    qed (use assms(3) StatusOf keep in \<open>auto simp: handle_request_def store_status_def Let_def pruned\<close>)
  next
    case (DeleteSession sk)
    then show ?thesis using assms(3) agrees_delete [OF keep]
      by (auto simp: handle_request_def store_delete_def)
  qed (use assms(3) now in \<open>auto simp: handle_request_def\<close>)
qed

section \<open>The serving loop\<close>

text \<open>The answers of the ideal store to a sequence of requests with their times.\<close>
fun ideal_serves :: "ideal \<Rightarrow> (daemon_request \<times> u64) list \<Rightarrow> daemon_response list \<Rightarrow> bool" where
  "ideal_serves m [] responses \<longleftrightarrow> responses = []"
| "ideal_serves m ((request, now) # trace) responses \<longleftrightarrow>
     (case responses of
        [] \<Rightarrow> False
      | response # responses \<Rightarrow>
          ideal_answer now request m response \<and> ideal_serves (ideal_step request m) trace responses)"

fun asked :: "connection \<Rightarrow> (daemon_request \<times> u64) option" where
  "asked (Requests request now None) = Some (request, now)"
| "asked _ = None"

lemma serve_connection_answered:
  assumes "serve_connection first c store = (Some response, state)"
  obtains request now store' where "c = Requests request now None"
    "handle_request first now request store = (response, store')"
    "state = (if response = ShuttingDown then Exited (Ok ()) else Listening store')"
  using assms by (cases c) (auto simp: serve_connection_def Let_def split: prod.splits option.splits)

lemma serves_agrees:
  assumes "serves first store cs responses state" "agrees t store m"
    and "sorted (t # map snd (map (the \<circ> asked) (take (length responses) cs)))"
  shows "ideal_serves m (map (the \<circ> asked) (take (length responses) cs)) responses"
  using assms
proof (induction arbitrary: t m rule: serves.induct)
  case (answered c store response store' cs responses state)
  obtain request now store'' where c: "c = Requests request now None"
      "handle_request first now request store = (response, store'')"
      "Listening store' = (if response = ShuttingDown then Exited (Ok ()) else Listening store'')"
    by (rule serve_connection_answered [OF answered.hyps(1)])
  then have same: "store'' = store'" by (auto split: if_splits)
  have "t \<le> now" using answered.prems(2) c(1) by simp
  from handle_request_agrees [OF answered.prems(1) this c(2)]
  show ?case using answered.IH [of now "ideal_step request m"] answered.prems(2) c(1) same by simp
next
  case (shut_down c store response r cs)
  obtain request now store' where c: "c = Requests request now None"
      "handle_request first now request store = (response, store')"
    by (rule serve_connection_answered [OF shut_down.hyps])
  have "t \<le> now" using shut_down.prems(2) c(1) by simp
  from handle_request_agrees [OF shut_down.prems(1) this c(2)] show ?case using c(1) by simp
qed simp_all

text \<open>C17: The daemon refines an ideal store that keeps what was put until it is deleted and answers with
  it until it expires: through any sequence of connections whose clock does not run back, every
  answer is one of the ideal store; pruning, and when it happens, is not to be seen.\<close>
theorem daemon_refines_ideal_store:
  assumes "serves first [] cs responses state"
    and "sorted (map snd (map (the \<circ> asked) (take (length responses) cs)))"
  shows "ideal_serves Map.empty (map (the \<circ> asked) (take (length responses) cs)) responses"
  by (rule serves_agrees [OF assms(1), of 0]) (use assms(2) in \<open>auto simp: agrees_def\<close>)

text \<open>Every session held is the one that the requests so far leave for its key.\<close>
definition holds_only :: "unlock_store \<Rightarrow> ideal \<Rightarrow> bool" where
  "holds_only store m \<longleftrightarrow> store_inv store \<and> map_of store \<subseteq>\<^sub>m m"

lemma holds_only_prune: "holds_only store m \<Longrightarrow> holds_only (prune_expired now store) m"
  by (auto simp: holds_only_def map_le_def map_of_prune dom_def split: option.splits if_splits)

lemma handle_request_holds:
  assumes "holds_only store m" "handle_request first now request store = (response, store')"
  shows "holds_only store' (ideal_step request m)"
proof -
  have inv: "store_inv store'" using assms handle_request_inv by (auto simp: holds_only_def)
  have "map_of store' \<subseteq>\<^sub>m ideal_step request m"
    using assms(2) assms(1) holds_only_prune [OF assms(1), of now]
    by (cases request)
      (auto simp: handle_request_def store_put_def store_get_def store_status_def store_delete_def Let_def
        holds_only_def update_conv delete_conv map_le_def dom_def)
  with inv show ?thesis by (simp add: holds_only_def)
qed

lemma serves_holds:
  assumes "serves first store cs responses state" "state = Listening store'" "holds_only store m"
  shows "holds_only store' (fold (ideal_step \<circ> fst \<circ> the \<circ> asked) cs m)"
  using assms
proof (induction arbitrary: m rule: serves.induct)
  case (answered c store response store1 cs responses state)
  obtain request now store2 where c: "c = Requests request now None"
      "handle_request first now request store = (response, store2)"
      "Listening store1 = (if response = ShuttingDown then Exited (Ok ()) else Listening store2)"
    by (rule serve_connection_answered [OF answered.hyps(1)])
  then have "store2 = store1" by (auto split: if_splits)
  with handle_request_holds [OF answered.prems(2) c(2)] answered.IH [OF answered.prems(1)] c(1) show ?case by simp
next
  case (shut_down first c store response r cs)
  then show ?case by simp
qed simp_all

text \<open>C18: In every state the daemon can reach, it holds at most one session for a key, and that session
  is the one of the last unlock for the key, with no lock or clearing since: a key that was never
  unlocked, or was cleared, is not in its memory.\<close>
theorem daemon_holds_only_unlocked:
  assumes "serves first [] cs responses (Listening store)"
  shows "distinct (map fst store) \<and>
    (\<forall>sk s. (sk, s) \<in> set store \<longrightarrow> fold (ideal_step \<circ> fst \<circ> the \<circ> asked) cs Map.empty sk = Some s)"
proof -
  have "holds_only store (fold (ideal_step \<circ> fst \<circ> the \<circ> asked) cs Map.empty)"
    by (rule serves_holds [OF assms refl]) (simp add: holds_only_def)
  then show ?thesis
    by (auto simp: holds_only_def store_inv_def map_le_def dom_def)
qed

definition well_answered :: "connection \<Rightarrow> bool" where
  "well_answered c \<longleftrightarrow> (\<exists>request now. c = Requests request now None \<and> request \<noteq> ShutdownDaemon)"

lemma handle_request_shutting_down:
  "handle_request first now request store = (response, store') \<Longrightarrow> response = ShuttingDown \<longleftrightarrow> request = ShutdownDaemon"
  by (auto simp: handle_request_def store_get_def store_status_def Let_def split: daemon_request.splits prod.splits)

text \<open>The answers to requests, one after the other, and the store they leave.\<close>
fun run_store ::
  "(unlock_store \<Rightarrow> nat) \<Rightarrow> unlock_store \<Rightarrow> (daemon_request \<times> u64) list \<Rightarrow> daemon_response list \<times> unlock_store" where
  "run_store first store [] = ([], store)"
| "run_store first store ((request, now) # trace) =
     (let (response, store) = handle_request first now request store;
          (responses, store) = run_store first store trace in
      (response # responses, store))"

text \<open>What a connection that is not well answered ends with: the last answer sent, if any, and the result of
  the daemon.\<close>
fun ending :: "connection \<Rightarrow> daemon_response list \<times> unit public_result" where
  "ending (AcceptFails e) = ([], Err (Unexpected (''unlock daemon accept failed: '' @ e)))"
| "ending (ReadFails e) = ([], Err (Unexpected (''unlock daemon read failed: '' @ e)))"
| "ending (Undecodable e) = ([], Err (Unexpected (''failed to decode unlock daemon request: '' @ e)))"
| "ending (Requests _ _ (Some e)) = ([], Err (Unexpected (''unlock daemon write failed: '' @ e)))"
| "ending (Requests _ _ None) = ([ShuttingDown], Ok ())"

inductive_simps serves_Nil: "serves first store [] responses state"
inductive_simps serves_Cons: "serves first store (c # cs) responses state"

lemma serve_well_answered:
  assumes "well_answered c"
  obtains request now where "asked c = Some (request, now)" "serve_connection first c store =
    (Some (fst (handle_request first now request store)), Listening (snd (handle_request first now request store)))"
proof -
  obtain request now where c: "c = Requests request now None" "request \<noteq> ShutdownDaemon"
    using assms by (auto simp: well_answered_def)
  then show thesis
    using that handle_request_shutting_down [of first now request store]
    by (cases "handle_request first now request store") (simp add: serve_connection_def)
qed

lemma serve_ending:
  assumes "\<not> well_answered c"
  shows "serve_connection first c store =
    (case fst (ending c) of [] \<Rightarrow> None | response # _ \<Rightarrow> Some response, Exited (snd (ending c)))"
proof (cases c)
  case (Requests request now e)
  then show ?thesis
    using assms by (cases e) (auto simp: serve_connection_def well_answered_def handle_request_def Let_def split: prod.splits)
qed (simp_all add: serve_connection_def)

lemma ending_answers: "fst (ending c) = [] \<or> (\<exists>response. fst (ending c) = [response])"
  by (cases c rule: ending.cases) simp_all

text \<open>C19: For every sequence of connections the serving loop has this one outcome and no other.  It answers, from the
  store as the requests before left it, each connection up to the first that brings no request it can decode and
  answer, or the request to shut down.  Without such a connection it is still listening, with the store those
  requests left.  With one, it is over: a failure, whichever it is and whoever caused it, ends the daemon with
  the error of that one connection, and all that follow are not served.\<close>
theorem daemon_outcome:
  "serves first store cs responses state \<longleftrightarrow>
    (let (answers, store') = run_store first store (map (the \<circ> asked) (takeWhile well_answered cs)) in
     (responses, state) =
       (case dropWhile well_answered cs of
          [] \<Rightarrow> (answers, Listening store')
        | c # _ \<Rightarrow> (answers @ fst (ending c), Exited (snd (ending c)))))"
proof (induction cs arbitrary: store responses)
  case Nil
  then show ?case by (simp add: serves_Nil)
next
  case (Cons c cs)
  show ?case
  proof (cases "well_answered c")
    case True
    obtain request now where c: "asked c = Some (request, now)" "serve_connection first c store =
      (Some (fst (handle_request first now request store)), Listening (snd (handle_request first now request store)))"
      by (rule serve_well_answered [OF True])
    obtain a store1 where h: "handle_request first now request store = (a, store1)" by fastforce
    obtain answers store2 where r: "run_store first store1 (map (the \<circ> asked) (takeWhile well_answered cs)) = (answers, store2)"
      by fastforce
    have "serves first store (c # cs) responses state \<longleftrightarrow> (\<exists>rs. responses = a # rs \<and> serves first store1 cs rs state)"
      by (auto simp: serves_Cons [of first store] c(2) h)
    then show ?thesis unfolding Cons.IH r
      using True c(1) h r by (cases "dropWhile well_answered cs") (simp_all add: comp_def del: dropWhile_eq_Nil_conv)
  next
    case False
    have "serves first store (c # cs) responses state \<longleftrightarrow>
        responses = fst (ending c) \<and> state = Exited (snd (ending c))"
      using ending_answers [of c] by (auto simp: serves_Cons [of first store] serve_ending [OF False])
    then show ?thesis using False by simp
  qed
qed

section \<open>Unlocked keys\<close>

lemma try_send_request_Ok:
  assumes "try_send_request R request w = (Ok response, w')"
  obtains store store' where "dw_daemon w = Some store"
    "handle_request (hash_first R) (unix_clock R (dw_reads w)) request store = (response, store')"
    "dw_daemon w' = (if response = ShuttingDown then None else Some store')" "dw_reads w' = Suc (dw_reads w)"
proof -
  obtain p where p: "socket_path R = Ok p"
    using assms by (cases "socket_path R") (auto simp: try_send_request_def io_then_return io_return_run)
  show thesis
  proof (cases "dw_daemon w")
    case (Some store)
    then show ?thesis
      using assms that p by (auto simp: try_send_request_def io_then_return Let_def split: prod.splits option.splits if_splits)
  qed (use assms p in \<open>simp add: try_send_request_def io_then_return\<close>)
qed

text \<open>Requests of other clients in between, each answered.\<close>
fun run_requests :: "'x runtime_ext_scheme \<Rightarrow> daemon_request list \<Rightarrow> daemon_world \<Rightarrow> daemon_world option" where
  "run_requests R [] w = Some w"
| "run_requests R (request # requests) w =
     (case try_send_request R request w of (Ok _, w) \<Rightarrow> run_requests R requests w | _ \<Rightarrow> None)"

text \<open>A request that leaves the session of \<open>sk\<close> alone.\<close>
fun leaves :: "session_key \<Rightarrow> daemon_request \<Rightarrow> bool" where
  "leaves sk (PutSession sk' _ _) \<longleftrightarrow> sk' \<noteq> sk"
| "leaves sk (DeleteSession sk') \<longleftrightarrow> sk' \<noteq> sk"
| "leaves sk ShutdownDaemon \<longleftrightarrow> False"
| "leaves sk _ \<longleftrightarrow> True"

lemma ideal_step_leaves: "leaves sk request \<Longrightarrow> ideal_step request m sk = m sk"
  by (cases request) auto

definition daemon_agrees :: "'x runtime_ext_scheme \<Rightarrow> daemon_world \<Rightarrow> ideal \<Rightarrow> bool" where
  "daemon_agrees R w m \<longleftrightarrow> (\<exists>store. dw_daemon w = Some store \<and> agrees (unix_clock R (dw_reads w)) store m)"

lemma try_send_agrees:
  assumes "mono (unix_clock R)" "daemon_agrees R w m" "try_send_request R request w = (Ok response, w')"
    and "request \<noteq> ShutdownDaemon"
  shows "ideal_answer (unix_clock R (dw_reads w)) request m response \<and> daemon_agrees R w' (ideal_step request m)"
proof -
  obtain store store' where step: "dw_daemon w = Some store"
      "handle_request (hash_first R) (unix_clock R (dw_reads w)) request store = (response, store')"
      "dw_daemon w' = (if response = ShuttingDown then None else Some store')" "dw_reads w' = Suc (dw_reads w)"
    by (rule try_send_request_Ok [OF assms(3)])
  have "response \<noteq> ShuttingDown" using handle_request_shutting_down [OF step(2)] assms(4) by simp
  moreover have "unix_clock R (dw_reads w) \<le> unix_clock R (Suc (dw_reads w))"
    using assms(1) by (simp add: monoD)
  ultimately show ?thesis
    using handle_request_agrees [OF _ order_refl step(2), of m] assms(2) step
    by (auto simp: daemon_agrees_def intro: agrees_later)
qed

lemma run_requests_agrees:
  assumes "mono (unix_clock R)" "daemon_agrees R w m" "run_requests R requests w = Some w'"
    and "list_all (leaves sk) requests"
  shows "\<exists>m'. daemon_agrees R w' m' \<and> m' sk = m sk"
  using assms(2-4)
proof (induction requests arbitrary: w m)
  case (Cons request requests)
  obtain response w1 where w1: "try_send_request R request w = (Ok response, w1)" "run_requests R requests w1 = Some w'"
    using Cons.prems(2) by (auto split: prod.splits rust_result.splits)
  have "leaves sk request" using Cons.prems(3) by simp
  then have "request \<noteq> ShutdownDaemon" by auto
  from try_send_agrees [OF assms(1) Cons.prems(1) w1(1) this]
  show ?case using Cons.IH [OF _ w1(2)] Cons.prems(3) ideal_step_leaves by fastforce
qed auto

text \<open>The store of a daemon that was there, or was started, is well formed.\<close>
definition daemon_inv :: "daemon_world \<Rightarrow> bool" where
  "daemon_inv w \<longleftrightarrow> (case dw_daemon w of Some store \<Rightarrow> store_inv store | None \<Rightarrow> True)"

lemma try_send_inv: "daemon_inv w \<Longrightarrow> daemon_inv (snd (try_send_request R request w))"
  by (cases "socket_path R"; cases "dw_daemon w")
    (auto simp: try_send_request_def io_then_return io_return_run daemon_inv_def Let_def split: prod.splits option.splits sock_failure.splits
      dest: handle_request_inv)

lemma await_daemon_inv: "daemon_inv w \<Longrightarrow> daemon_inv (snd (await_daemon R poll left w))"
proof (induction left arbitrary: poll w)
  case (Suc left)
  let ?w = "if poll = ready_after R then w\<lparr>dw_daemon := Some []\<rparr> else w"
  have "daemon_inv (snd (try_send_request R (StatusOf None) ?w))"
    using Suc.prems by (intro try_send_inv) (simp add: daemon_inv_def)
  then show ?case using Suc.IH by (auto split: prod.splits rust_result.splits)
qed simp

lemma spawn_daemon_inv: "io_keeps daemon_inv (spawn_daemon R)"
proof -
  have "daemon_inv (w\<lparr>dw_daemon := None\<rparr>)" for w by (simp add: daemon_inv_def)
  then show ?thesis unfolding spawn_daemon_def
    by (intro io_keeps_then io_keeps_return) (simp add: io_keeps_def await_daemon_inv)
qed

lemma ensure_running_inv:
  assumes "daemon_inv w" shows "daemon_inv (snd (ensure_running R w))"
proof (cases "try_send_request R (StatusOf None) w")
  case (Pair r w1)
  then have "daemon_inv w1" using try_send_inv [OF assms, of R "StatusOf None"] by simp
  then show ?thesis using Pair spawn_daemon_inv [of R]
    by (cases r) (simp_all add: ensure_running_def io_keeps_def)
qed

lemma daemon_decode_enc: "b64_laws R \<Longrightarrow> daemon_decode_base64 R (b64_nopad_enc R b) m = Ok b"
  by (simp add: daemon_decode_base64_def b64_laws_def)

text \<open>An unlock that succeeds leaves the session with the key and the expiry it computed.\<close>
lemma unlock_session_stored:
  assumes "mono (unix_clock R)" "daemon_inv w" "unlock_session R sk data_key ttl w = (Ok (), w')"
  obtains n m where "dw_reads w' = n + 2" "daemon_agrees R w' m"
    "m sk = Some \<lparr> st_data_key_b64 = b64_nopad_enc R (sym_bytes data_key), st_expires_at_unix = unix_clock R n + ttl \<rparr>"
proof -
  obtain w1 where w1: "ensure_running R w = (Ok (), w1)"
    using assms(3) by (auto simp: unlock_session_def io_then_Ok)
  define n where "n = dw_reads w1"
  let ?put = "PutSession sk (b64_nopad_enc R (sym_bytes data_key)) (unix_clock R n + ttl)"
  let ?w2 = "w1\<lparr>dw_reads := Suc n\<rparr>"
  obtain response where r: "try_send_request R ?put ?w2 = (Ok response, w')"
    using assms(3) w1
    by (auto simp: unlock_session_def io_then_Ok unix_now_def n_def send_daemon_request_def io_map_err_def io_return_def)
      (metis map_err_eq_Ok prod.collapse)
  obtain store store' where step: "dw_daemon ?w2 = Some store" "dw_reads w' = Suc (dw_reads ?w2)"
    by (rule try_send_request_Ok [OF r]) blast
  have "daemon_inv w1" using ensure_running_inv [OF assms(2), of R] w1 by simp
  then have "daemon_agrees R ?w2 (map_of store)"
    using step(1) by (auto simp: daemon_agrees_def agrees_def daemon_inv_def)
  from try_send_agrees [OF assms(1) this r]
  show thesis using step(2) by (intro that [of n "ideal_step ?put (map_of store)"]) auto
qed

lemma run_requests_reads: "run_requests R requests w = Some w' \<Longrightarrow> dw_reads w \<le> dw_reads w'"
proof (induction requests arbitrary: w)
  case (Cons request requests)
  then obtain response w1 where w1: "try_send_request R request w = (Ok response, w1)" "run_requests R requests w1 = Some w'"
    by (auto split: prod.splits rust_result.splits)
  have "dw_reads w1 = Suc (dw_reads w)" by (rule try_send_request_Ok [OF w1(1)])
  with Cons.IH [OF w1(2)] show ?case by simp
qed simp

lemma unlocked_session_fetched:
  assumes "mono (unix_clock R)" "b64_laws R" "sym_wf data_key" "daemon_inv w"
    and "unlock_session R sk data_key ttl w = (Ok (), w1)"
    and "run_requests R requests w1 = Some w2" "list_all (leaves sk) requests"
    and "sock_fails R (dw_reads w2) (GetSession sk) = None"
  obtains n where "dw_reads w1 = n + 2" "dw_reads w1 \<le> dw_reads w2" "fst (fetch_data_key R sk w2) =
    Ok (if unix_clock R (dw_reads w2) < unix_clock R n + ttl then Some data_key else None)"
proof -
  obtain n m where n: "dw_reads w1 = n + 2" "daemon_agrees R w1 m"
    "m sk = Some \<lparr> st_data_key_b64 = b64_nopad_enc R (sym_bytes data_key), st_expires_at_unix = unix_clock R n + ttl \<rparr>"
    by (rule unlock_session_stored [OF assms(1,4,5)])
  obtain m' where m': "daemon_agrees R w2 m'" "m' sk = m sk"
    using run_requests_agrees [OF assms(1) n(2) assms(6,7)] by blast
  obtain p where p: "socket_path R = Ok p"
    using assms(5) by (cases "socket_path R")
      (auto simp: unlock_session_def ensure_running_def try_send_request_def spawn_daemon_def io_then_return
        io_return_run io_then_Ok is_daemon_unavailable_def split: prod.splits public_error.splits if_splits)
  obtain store where store: "dw_daemon w2 = Some store" using m'(1) by (auto simp: daemon_agrees_def)
  obtain response w3 where sent: "try_send_request R (GetSession sk) w2 = (Ok response, w3)"
    using p store assms(8)
    by (cases "handle_request (hash_first R) (unix_clock R (dw_reads w2)) (GetSession sk) store")
      (auto simp: try_send_request_def io_then_return Let_def)
  have "response = DataKeyIs (map_option st_data_key_b64 (live (unix_clock R (dw_reads w2)) m' sk))"
    using try_send_agrees [OF assms(1) m'(1) sent] by simp
  then have "fst (fetch_data_key R sk w2) =
      Ok (if unix_clock R (dw_reads w2) < unix_clock R n + ttl then Some data_key else None)"
    using sent m'(2) n(3) assms(2,3)
    by (simp add: fetch_data_key_def query_daemon_def live_def daemon_decode_enc)
  then show thesis using n(1) run_requests_reads [OF assms(6)] that by blast
qed

lemma wrapped_expiry:
  assumes "a \<le> now" shows "now < a + ttl \<longleftrightarrow> unat a + unat ttl < 2 ^ 64 \<and> unat now < unat a + unat (ttl :: u64)"
proof (cases "unat a + unat ttl < 2 ^ 64")
  case True
  then show ?thesis by (simp add: u64_less u64_add)
next
  case False
  have "unat ttl < 2 ^ 64" by (rule order.strict_trans2 [OF unsigned_less]) simp
  moreover have "unat (a + ttl) = unat a + unat ttl - 2 ^ 64" using False unat_plus_if' [of a ttl] by simp
  ultimately have "unat (a + ttl) \<le> unat a" by simp
  then show ?thesis using assms False by (simp add: u64_less u64_le)
qed

text \<open>C21: The bounds of the time an unlock lasts, in seconds of the daemon's clock: it ends exactly \<open>ttl\<close> seconds after
  the reading that was taken when it was made, the last but one that it took, provided that this moment is below \<open>2 ^ 64\<close>.  A longer time wraps around: the
  unlock that reported success gives no key at any later moment.\<close>
theorem unlock_ttl_bounds:
  assumes "mono (unix_clock R)" "b64_laws R" "sym_wf data_key" "daemon_inv w"
    and "unlock_session R sk data_key ttl w = (Ok (), w1)"
    and "run_requests R requests w1 = Some w2" "list_all (leaves sk) requests"
    and "sock_fails R (dw_reads w2) (GetSession sk) = None"
  shows "let start = unat (unix_clock R (dw_reads w1 - 2)); now = unat (unix_clock R (dw_reads w2)) in
    start \<le> now \<and> fst (fetch_data_key R sk w2) =
      Ok (if start + unat ttl < 2 ^ 64 \<and> now < start + unat ttl then Some data_key else None)"
proof -
  obtain n where n: "dw_reads w1 = n + 2" "dw_reads w1 \<le> dw_reads w2" "fst (fetch_data_key R sk w2) =
      Ok (if unix_clock R (dw_reads w2) < unix_clock R n + ttl then Some data_key else None)"
    by (rule unlocked_session_fetched [OF assms])
  then have "unix_clock R n \<le> unix_clock R (dw_reads w2)" using assms(1) by (simp add: monoD)
  with n(1,3) show ?thesis by (simp add: Let_def wrapped_expiry u64_le)
qed

section \<open>A daemon that cannot be reached\<close>

lemma find_str_start: "find_str (p @ s) p = Some 0"
proof (cases "p @ s")
  case (Cons c t)
  then have "starts_with (c # t) p" using starts_with_append [of p s] by simp
  then show ?thesis by (simp add: Cons)
qed simp

lemma connect_failed_unavailable: "is_daemon_unavailable (Unexpected (sock_failure_text socket (ConnectFailed e)))"
  using find_str_start [of "''failed to connect to unlock daemon''" "'' at '' @ socket @ '': '' @ e"]
  by (simp add: is_daemon_unavailable_def contains_str_def del: find_str.simps)

lemma query_unreachable:
  assumes "socket_path R = Ok p" "dw_daemon w = Some store" "sock_fails R (dw_reads w) request = Some (ConnectFailed e)"
  shows "query_daemon R request absent failure read w = (absent, w\<lparr>dw_reads := Suc (dw_reads w)\<rparr>)"
  using assms connect_failed_unavailable
  by (auto simp: query_daemon_def try_send_request_def io_then_return Let_def split: prod.splits)

text \<open>C20: A daemon that runs but cannot be connected to, for whatever reason of the system, is taken for one that is
  not there: locking it and clearing a session report success, a fetch finds no key and the status says locked,
  while the daemon keeps every session it holds.\<close>
theorem unreachable_daemon_taken_for_absent:
  assumes "socket_path R = Ok p" "dw_daemon w = Some store"
    and "\<And>request. \<exists>e. sock_fails R (dw_reads w) request = Some (ConnectFailed e)"
  shows "let w' = w\<lparr>dw_reads := Suc (dw_reads w)\<rparr> in dw_daemon w' = Some store \<and>
    lock_daemon R w = (Ok (), w') \<and> clear_session R sk w = (Ok (), w') \<and> fetch_data_key R sk w = (Ok None, w') \<and>
    query_unlock_status R query w = (Ok \<lparr> us_unlocked = False, us_session_key = query, us_expires_at_unix = None \<rparr>, w')"
proof -
  obtain e where e: "\<And>request. sock_fails R (dw_reads w) request = Some (ConnectFailed (e request))"
    using assms(3) by metis
  show ?thesis
    using assms(2)
    by (simp add: query_unreachable [OF assms(1,2) e] Let_def lock_daemon_def clear_session_def fetch_data_key_def query_unlock_status_def build_status_def)
qed

section \<open>The socket\<close>

text \<open>A daemon that starts to serve has a socket only its user can reach: the directory is private
  before the socket is bound, and the socket is; no other file has changed.\<close>
theorem socket_private:
  assumes "prepare_socket W socket_fails socket d = (Ok (), d')"
  shows "dv_dirs d' (butlast socket) = Some 448 \<and> map_option fl_mode (dv_files d' socket) = Some 384 \<and>
    (\<forall>p. p \<noteq> socket \<longrightarrow> dv_files d' p = dv_files d p) \<and> dv_keyring d' = dv_keyring d"
  using assms
  by (auto simp: prepare_socket_def Let_def io_then_Ok io_return_def remove_if_exists_def io_do_def put_file_def
      drop_file_def split: if_splits option.splits)

end
