(* ===== verification/Rt_Projections.thy ===== *)
theory Rt_Projections
  imports Rt_Daemon Crypto_Json Crypto_Attachments
begin

text \<open>\<open>crates/client-runtime/src/projections.rs\<close> with \<open>models.rs\<close> and the projections of \<open>comments.rs\<close> and
  \<open>work_lists.rs\<close>: how what the API answers is decrypted for the user, and what is shown when it
  cannot be.  The counter of legacy grant opens, a metric, is left out here.  A projection never fails, so
  its result is \<open>Ok\<close> unless a decryption panics.\<close>

section \<open>Combinators\<close>

text \<open>\<open>Result::ok\<close>, a \<open>match\<close> on a result, and \<open>Option::or\<close>.\<close>
fun ok_option :: "('a, 'e) rust_result \<Rightarrow> ('a option, 'f) rust_result" where
  "ok_option (Ok a) = Ok (Some a)"
| "ok_option (Err _) = Ok None"
| "ok_option Abort = Abort"

fun match_result ::
  "('a, 'e) rust_result \<Rightarrow> ('a \<Rightarrow> ('b, 'f) rust_result) \<Rightarrow> ('e \<Rightarrow> ('b, 'f) rust_result) \<Rightarrow> ('b, 'f) rust_result" where
  "match_result (Ok a) f g = f a"
| "match_result (Err e) f g = g e"
| "match_result Abort f g = Abort"

fun or_option :: "'a option \<Rightarrow> 'a option \<Rightarrow> 'a option" where
  "or_option (Some a) b = Some a"
| "or_option None b = b"

text \<open>\<open>Option::and_then\<close> with a body that may panic.\<close>
definition option_then :: "'a option \<Rightarrow> ('a \<Rightarrow> ('b option, 'e) rust_result) \<Rightarrow> ('b option, 'e) rust_result" where
  "option_then x f = (case x of None \<Rightarrow> Ok None | Some a \<Rightarrow> f a)"

lemma ok_option_eq_Ok [simp]:
  "ok_option r = Ok x \<longleftrightarrow> (\<exists>a. r = Ok a \<and> x = Some a) \<or> (\<exists>e. r = Err e \<and> x = None)"
  by (cases r) auto

lemma ok_option_neq_Err [simp]: "ok_option r \<noteq> Err e"
  by (cases r) auto

lemma option_then_simps [simp]: "option_then None f = Ok None" "option_then (Some a) f = f a"
  by (simp_all add: option_then_def)

section \<open>Models\<close>

record read_error =
  rd_code :: string
  rd_message :: string

record agent_membership =
  am_id :: uuid
  am_user_id :: uuid
  am_user_email :: string
  am_user_name :: string
  am_user_avatar_color :: string
  am_role :: string
  am_status :: string
  am_expires_at :: "datetime option"
  am_joined_at :: datetime

record work_list_summary =
  ws_id :: uuid
  ws_owner_user_id :: uuid
  ws_workspace_id :: uuid
  ws_timezone :: string
  ws_section_snapshots :: "section_snapshot list"
  ws_created_at :: datetime
  ws_updated_at :: datetime
  ws_membership :: agent_membership
  ws_title :: "string option"
  ws_description :: "string option"
  ws_payload :: "json option"
  ws_read_error :: "read_error option"

record work_list_detail =
  wt_work_list :: work_list_summary
  wt_members :: "agent_membership list"

record agent_delegation =
  ad_id :: uuid
  ad_task_id :: uuid
  ad_target :: delegation_target
  ad_role :: delegation_role
  ad_status :: delegation_status
  ad_note_present :: bool
  ad_created_at :: datetime
  ad_updated_at :: datetime

record agent_attachment =
  aa_id :: uuid
  aa_file_name :: string
  aa_content_type :: string
  aa_size_bytes :: nat
  aa_blob_key :: bytes

record task_metadata =
  tm_id :: uuid
  tm_work_list_id :: uuid
  tm_work_list_title :: "string option"
  tm_created_by_membership_id :: uuid
  tm_section_id :: "uuid option"
  tm_priority :: "int option"
  tm_position :: "string option"
  tm_due_at :: "datetime option"
  tm_start_at :: "datetime option"
  tm_completed_at :: "datetime option"
  tm_archived_at :: "datetime option"
  tm_is_completed :: bool
  tm_recurrence_id :: "uuid option"
  tm_recurrence_schedule :: "string option"
  tm_recurrence_iteration :: "int option"
  tm_materialized_at :: "datetime option"
  tm_created_at :: datetime
  tm_updated_at :: datetime
  tm_comment_count :: int

text \<open>The fields a summary copies from the metadata are kept together.\<close>
record task_summary =
  ts_metadata :: task_metadata
  ts_title :: "string option"
  ts_body_markdown :: "string option"
  ts_body_rich_text :: "rich_text option"
  ts_checklist :: "checklist_item list option"
  ts_attachments :: "agent_attachment list option"
  ts_references :: "json list option"
  ts_mentions :: "string list option"
  ts_client_meta :: "json option"
  ts_recurrence_state :: "json option"
  ts_delegations :: "agent_delegation list"
  ts_read_error :: "read_error option"

record agent_comment =
  ao_id :: uuid
  ao_task_id :: uuid
  ao_author_membership_id :: uuid
  ao_author_agent_id :: "uuid option"
  ao_author_agent_handle :: "string option"
  ao_author_agent_display_name :: "string option"
  ao_body_markdown :: "string option"
  ao_content :: "rich_text option"
  ao_mentions :: "string list option"
  ao_attachments :: "agent_attachment list option"
  ao_client_meta :: "json option"
  ao_created_at :: datetime
  ao_updated_at :: datetime
  ao_read_error :: "read_error option"

record task_detail =
  tl_task :: task_summary
  tl_comments :: "agent_comment list"

record work_list_context =
  lc_work_list_title :: "string option"
  lc_list_key :: "symmetric_key option"
  lc_read_error :: "read_error option"

datatype key_source = UserDataKey symmetric_key | AgentRecipientKey bytes

definition make_read_error :: "string \<Rightarrow> public_error \<Rightarrow> read_error" where
  "make_read_error code e = \<lparr> rd_code = code, rd_message = public_display e \<rparr>"

definition read_error_to_public_error :: "read_error option \<Rightarrow> string \<Rightarrow> public_error" where
  "read_error_to_public_error e fallback =
     (case e of Some e \<Rightarrow> Validation (rd_message e) | None \<Rightarrow> Validation fallback)"

section \<open>Attachments of a payload\<close>

definition flexible_key_to_string :: "'x client_ext_scheme \<Rightarrow> flexible \<Rightarrow> string" where
  "flexible_key_to_string X v =
     (case v of FText s \<Rightarrow> s | _ \<Rightarrow> json_display X (flexible_value_to_json X v))"

text \<open>The loop over the entries: the last entry of a name counts.\<close>
definition last_entry :: "'x client_ext_scheme \<Rightarrow> string \<Rightarrow> (flexible \<times> flexible) list \<Rightarrow> flexible option" where
  "last_entry X name entries =
     fold (\<lambda>(k, v) found. if flexible_key_to_string X k = name then Some v else found) entries None"

definition parse_attachment_uuid :: "'x runtime_ext_scheme \<Rightarrow> flexible option \<Rightarrow> string \<Rightarrow> uuid public_result" where
  "parse_attachment_uuid R value field =
     (case value of
        Some (FText s) \<Rightarrow> map_err (\<lambda>e. Validation (field @ '' must be a UUID string: '' @ e)) (parse_uuid R s)
      | Some (FBytes b) \<Rightarrow>
          if length b = 16 then Ok b
          else Err (Validation (field @ '' must be a UUID string or 16-byte UUID''))
      | Some _ \<Rightarrow> Err (Validation (field @ '' must be a UUID string or 16-byte UUID''))
      | None \<Rightarrow> Err (Validation (field @ '' is required'')))"

definition parse_attachment_text :: "flexible option \<Rightarrow> string \<Rightarrow> string public_result" where
  "parse_attachment_text value field =
     (case value of
        Some (FText s) \<Rightarrow> if trim s \<noteq> [] then Ok s else Err (Validation (field @ '' cannot be empty''))
      | Some _ \<Rightarrow> Err (Validation (field @ '' must be text''))
      | None \<Rightarrow> Err (Validation (field @ '' is required'')))"

definition parse_attachment_u64 :: "flexible option \<Rightarrow> string \<Rightarrow> nat public_result" where
  "parse_attachment_u64 value field =
     (case value of
        None \<Rightarrow> Err (Validation (field @ '' is required''))
      | Some (FInteger i) \<Rightarrow>
          if 0 \<le> i \<and> i < 2 ^ 64 then Ok (nat i)
          else Err (Validation (field @ '' must be a non-negative integer''))
      | Some _ \<Rightarrow> Err (Validation (field @ '' must be a non-negative integer'')))"

definition parse_attachment_bytes :: "flexible option \<Rightarrow> string \<Rightarrow> bytes public_result" where
  "parse_attachment_bytes value field =
     (case value of
        Some (FBytes b) \<Rightarrow> if b \<noteq> [] then Ok b else Err (Validation (field @ '' cannot be empty''))
      | Some _ \<Rightarrow> Err (Validation (field @ '' must be bytes''))
      | None \<Rightarrow> Err (Validation (field @ '' is required'')))"

definition project_attachment :: "'x runtime_ext_scheme \<Rightarrow> flexible \<Rightarrow> agent_attachment public_result" where
  "project_attachment R value =
     (case value of
        FMap entries \<Rightarrow>
          and_then (parse_attachment_uuid R (last_entry R ''id'' entries) ''attachment.id'') (\<lambda>i.
          and_then (parse_attachment_text (last_entry R ''file_name'' entries) ''attachment.file_name'') (\<lambda>name.
          and_then (parse_attachment_text (last_entry R ''content_type'' entries) ''attachment.content_type'') (\<lambda>ct.
          and_then (parse_attachment_u64 (last_entry R ''size_bytes'' entries) ''attachment.size_bytes'') (\<lambda>size.
          and_then (parse_attachment_bytes (last_entry R ''blob_key'' entries) ''attachment.blob_key'') (\<lambda>blob_key.
          Ok \<lparr> aa_id = i, aa_file_name = name, aa_content_type = ct, aa_size_bytes = size,
            aa_blob_key = blob_key \<rparr>)))))
      | _ \<Rightarrow> Err (Validation ''attachment must be an object''))"

definition project_attachments ::
  "'x runtime_ext_scheme \<Rightarrow> flexible list option \<Rightarrow> agent_attachment list option public_result" where
  "project_attachments R values =
     (case values of None \<Rightarrow> Ok None | Some vs \<Rightarrow> map_ok Some (map_result (project_attachment R) vs))"

section \<open>Text fallbacks\<close>

definition decode_text_fallback ::
  "'x client_ext_scheme \<Rightarrow> string \<Rightarrow> symmetric_key \<Rightarrow> uuid
   \<Rightarrow> ('x client_ext_scheme \<Rightarrow> symmetric_key \<Rightarrow> bytes \<Rightarrow> uuid \<Rightarrow> string public_result) \<Rightarrow> string option public_result" where
  "decode_text_fallback X ciphertext list_key entity_id decrypt =
     ok_option (and_then (decode_sealed_blob X ciphertext) (\<lambda>b. decrypt X list_key b entity_id))"

definition decode_work_list_title_fallback ::
  "'x client_ext_scheme \<Rightarrow> string \<Rightarrow> symmetric_key \<Rightarrow> uuid \<Rightarrow> string option public_result" where
  "decode_work_list_title_fallback X ciphertext list_key work_list_id =
     decode_text_fallback X ciphertext list_key work_list_id decrypt_work_list_title_for_id"

definition decode_work_list_description_fallback ::
  "'x client_ext_scheme \<Rightarrow> string \<Rightarrow> symmetric_key \<Rightarrow> uuid \<Rightarrow> string option public_result" where
  "decode_work_list_description_fallback X ciphertext list_key work_list_id =
     decode_text_fallback X ciphertext list_key work_list_id decrypt_work_list_description_for_id"

definition decode_task_title_fallback ::
  "'x client_ext_scheme \<Rightarrow> string \<Rightarrow> symmetric_key \<Rightarrow> uuid \<Rightarrow> string option public_result" where
  "decode_task_title_fallback X ciphertext list_key task_id =
     decode_text_fallback X ciphertext list_key task_id decrypt_task_title_for_id"

definition rich_text_to_markdown :: "rich_text \<Rightarrow> string option" where
  "rich_text_to_markdown rt =
     (let t = join_str [CHR 0x0A, CHR 0x0A] (filter (\<lambda>s. s \<noteq> []) (map (\<lambda>b. trim (rb_text b)) (rt_blocks rt))) in
      if t = [] then None else Some t)"

section \<open>Tasks\<close>

definition project_delegation :: "delegation_response \<Rightarrow> agent_delegation" where
  "project_delegation d = \<lparr> ad_id = dg_id d, ad_task_id = dg_task_id d, ad_target = dg_target d,
     ad_role = dg_role d, ad_status = dg_status d, ad_note_present = (dg_note_ciphertext d \<noteq> None),
     ad_created_at = dg_created_at d, ad_updated_at = dg_updated_at d \<rparr>"

text \<open>A summary without the payload.\<close>
definition unreadable_task ::
  "task_metadata \<Rightarrow> string option \<Rightarrow> agent_delegation list \<Rightarrow> read_error \<Rightarrow> task_summary" where
  "unreadable_task metadata title delegations e =
     \<lparr> ts_metadata = metadata, ts_title = title, ts_body_markdown = None, ts_body_rich_text = None,
       ts_checklist = None, ts_attachments = None, ts_references = None, ts_mentions = None,
       ts_client_meta = None, ts_recurrence_state = None, ts_delegations = delegations,
       ts_read_error = Some e \<rparr>"

definition readable_attachments ::
  "'x runtime_ext_scheme \<Rightarrow> string \<Rightarrow> flexible list option
   \<Rightarrow> (agent_attachment list option \<times> read_error option) public_result" where
  "readable_attachments R code values =
     match_result (project_attachments R values) (\<lambda>a. Ok (a, None))
       (\<lambda>e. Ok (None, Some (make_read_error code e)))"

definition readable_task ::
  "'x runtime_ext_scheme \<Rightarrow> task_metadata \<Rightarrow> agent_delegation list \<Rightarrow> task_body \<Rightarrow> task_summary public_result" where
  "readable_task R metadata delegations body =
     map_ok (\<lambda>(attachments, e).
      \<lparr> ts_metadata = metadata, ts_title = Some (tb_title body),
        ts_body_markdown = Option.bind (tb_rich_text body) rich_text_to_markdown,
        ts_body_rich_text = tb_rich_text body, ts_checklist = tb_checklist body, ts_attachments = attachments,
        ts_references = map_option (map (flexible_value_to_json R)) (tb_references body),
        ts_mentions = tb_mentions body,
        ts_client_meta = map_option (flexible_value_to_json R) (tb_client_meta body),
        ts_recurrence_state = map_option (flexible_value_to_json R) (tb_recurrence_state body),
        ts_delegations = delegations, ts_read_error = e \<rparr>)
      (readable_attachments R ''task_attachments'' (tb_attachments body))"

definition project_task ::
  "'x runtime_ext_scheme \<Rightarrow> task_metadata \<Rightarrow> delegation_response list \<Rightarrow> string \<Rightarrow> string
   \<Rightarrow> symmetric_key option \<Rightarrow> read_error option \<Rightarrow> task_summary public_result" where
  "project_task R metadata delegations title_ciphertext payload_ciphertext list_key inherited_error =
     and_then (option_then list_key (\<lambda>k. decode_task_title_fallback R title_ciphertext k (tm_id metadata)))
       (\<lambda>fallback_title.
     let delegations = map project_delegation delegations in
      case list_key of
        Some k \<Rightarrow>
          match_result (and_then (decode_sealed_blob R payload_ciphertext) (decrypt_task_payload R k))
            (\<lambda>payload. readable_task R metadata delegations (te_body payload))
            (\<lambda>e. Ok (unreadable_task metadata fallback_title delegations (make_read_error ''task_payload'' e)))
      | None \<Rightarrow>
          Ok (unreadable_task metadata fallback_title delegations
            (case inherited_error of
               Some e \<Rightarrow> e
             | None \<Rightarrow> \<lparr> rd_code = ''work_list_key_missing'',
                 rd_message = ''could not resolve work list key for task decryption'' \<rparr>)))"

section \<open>Work-list keys and payloads\<close>

definition resolve_list_key ::
  "'x client_ext_scheme \<Rightarrow> symmetric_key \<Rightarrow> uuid \<Rightarrow> string \<Rightarrow> symmetric_key public_result" where
  "resolve_list_key X data_key work_list_id membership_ciphertext =
     (if trim membership_ciphertext = [] then derive_work_list_key X data_key work_list_id
      else and_then (decode_sealed_blob X membership_ciphertext) (decrypt_work_list_key X data_key))"

definition resolve_work_list_key ::
  "'x client_ext_scheme \<Rightarrow> key_source \<Rightarrow> uuid \<Rightarrow> string \<Rightarrow> symmetric_key public_result" where
  "resolve_work_list_key X source work_list_id membership_ciphertext =
     (case source of
        UserDataKey data_key \<Rightarrow> resolve_list_key X data_key work_list_id membership_ciphertext
      | AgentRecipientKey recipient_private_key \<Rightarrow>
          if trim membership_ciphertext = [] then Err (Validation ''agent work list grant missing'')
          else and_then (decode_sealed_blob X membership_ciphertext) (\<lambda>b.
            fst (decrypt_agent_work_list_key X recipient_private_key work_list_id b 0)))"

definition decode_work_list_payload_value ::
  "'x client_ext_scheme \<Rightarrow> symmetric_key \<Rightarrow> string \<Rightarrow> json public_result" where
  "decode_work_list_payload_value X list_key payload_ciphertext =
     and_then (decode_sealed_blob X payload_ciphertext) (\<lambda>b.
     map_ok (flexible_value_to_json X) (decrypt_work_list_payload X (flexible_codec X) list_key b))"

definition json_get :: "json \<Rightarrow> string \<Rightarrow> json option" where
  "json_get j name = (case j of JObject es \<Rightarrow> obj_get es name | _ \<Rightarrow> None)"

definition json_as_str :: "json \<Rightarrow> string option" where
  "json_as_str j = (case j of JString s \<Rightarrow> Some s | _ \<Rightarrow> None)"

definition extract_work_list_title :: "json \<Rightarrow> string option" where
  "extract_work_list_title payload =
     Option.bind (Option.bind (json_get payload ''body'') (\<lambda>body. json_get body ''title'')) json_as_str"

definition extract_work_list_description :: "json \<Rightarrow> string option" where
  "extract_work_list_description payload =
     Option.bind (Option.bind (json_get payload ''body'') (\<lambda>body. json_get body ''description'')) json_as_str"

definition project_membership :: "membership_response \<Rightarrow> agent_membership" where
  "project_membership m = \<lparr> am_id = ms_id m, am_user_id = ms_user_id m, am_user_email = ms_user_email m,
     am_user_name = ms_user_name m, am_user_avatar_color = ms_user_avatar_color m, am_role = ms_role m,
     am_status = ms_status m, am_expires_at = ms_expires_at m, am_joined_at = ms_joined_at m \<rparr>"

definition unreadable_work_list_context :: "string option \<Rightarrow> read_error \<Rightarrow> work_list_context" where
  "unreadable_work_list_context title e =
     \<lparr> lc_work_list_title = title, lc_list_key = None, lc_read_error = Some e \<rparr>"

definition missing_work_list_key_source_error :: read_error where
  "missing_work_list_key_source_error = \<lparr> rd_code = ''work_list_key_source_missing'',
     rd_message = ''could not load work list key material for decryption'' \<rparr>"

definition build_work_list_summary ::
  "work_list_response \<Rightarrow> agent_membership \<Rightarrow> string option \<Rightarrow> string option \<Rightarrow> json option \<Rightarrow> read_error option
   \<Rightarrow> work_list_summary" where
  "build_work_list_summary wl membership title description payload e =
     \<lparr> ws_id = wl_id wl, ws_owner_user_id = wl_owner_user_id wl, ws_workspace_id = wl_workspace_id wl,
       ws_timezone = wl_timezone wl, ws_section_snapshots = wl_section_snapshots wl,
       ws_created_at = wl_created_at wl, ws_updated_at = wl_updated_at wl, ws_membership = membership,
       ws_title = title, ws_description = description, ws_payload = payload, ws_read_error = e \<rparr>"

section \<open>Work lists\<close>

definition context_from_work_list_response ::
  "'x client_ext_scheme \<Rightarrow> work_list_response \<Rightarrow> key_source option \<Rightarrow> work_list_context public_result" where
  "context_from_work_list_response X wl source =
     (case source of
        None \<Rightarrow> Ok (unreadable_work_list_context None missing_work_list_key_source_error)
      | Some source \<Rightarrow>
          match_result (resolve_work_list_key X source (wl_id wl) (ms_work_list_key_ciphertext (wl_membership wl)))
            (\<lambda>list_key.
               and_then (option_then (wl_title_ciphertext wl)
                 (\<lambda>c. decode_work_list_title_fallback X c list_key (wl_id wl))) (\<lambda>fallback_title.
               let context = (\<lambda>title e.
                 \<lparr> lc_work_list_title = title, lc_list_key = Some list_key, lc_read_error = e \<rparr>) in
               case wl_payload_ciphertext wl of
                 None \<Rightarrow> Ok (context fallback_title None)
               | Some c \<Rightarrow>
                   match_result (decode_work_list_payload_value X list_key c)
                     (\<lambda>payload. Ok (context (or_option (extract_work_list_title payload) fallback_title) None))
                     (\<lambda>e. Ok (context fallback_title (Some (make_read_error ''work_list_payload'' e))))))
            (\<lambda>e. Ok (unreadable_work_list_context None (make_read_error ''work_list_key'' e))))"

definition project_work_list_with_key_source ::
  "'x client_ext_scheme \<Rightarrow> work_list_response \<Rightarrow> agent_membership \<Rightarrow> key_source \<Rightarrow> work_list_summary public_result" where
  "project_work_list_with_key_source X wl membership source =
     match_result (resolve_work_list_key X source (wl_id wl) (ms_work_list_key_ciphertext (wl_membership wl)))
       (\<lambda>list_key.
          and_then (option_then (wl_title_ciphertext wl)
            (\<lambda>c. decode_work_list_title_fallback X c list_key (wl_id wl))) (\<lambda>fallback_title.
          and_then (option_then (wl_description_ciphertext wl)
            (\<lambda>c. decode_work_list_description_fallback X c list_key (wl_id wl))) (\<lambda>fallback_description.
          case wl_payload_ciphertext wl of
            None \<Rightarrow> Ok (build_work_list_summary wl membership fallback_title fallback_description None None)
          | Some c \<Rightarrow>
              match_result (decode_work_list_payload_value X list_key c)
                (\<lambda>payload. Ok (build_work_list_summary wl membership
                   (or_option (extract_work_list_title payload) fallback_title)
                   (or_option (extract_work_list_description payload) fallback_description) (Some payload) None))
                (\<lambda>e. Ok (build_work_list_summary wl membership fallback_title fallback_description None
                   (Some (make_read_error ''work_list_payload'' e)))))))
       (\<lambda>e. Ok (build_work_list_summary wl membership None None None (Some (make_read_error ''work_list_key'' e))))"

definition project_work_list_summary ::
  "'x client_ext_scheme \<Rightarrow> work_list_response \<Rightarrow> key_source option \<Rightarrow> work_list_summary public_result" where
  "project_work_list_summary X wl source =
     (let membership = project_membership (wl_membership wl) in
      case source of
        None \<Rightarrow> Ok (build_work_list_summary wl membership None None None (Some missing_work_list_key_source_error))
      | Some source \<Rightarrow> project_work_list_with_key_source X wl membership source)"

definition project_work_list_detail ::
  "'x client_ext_scheme \<Rightarrow> work_list_detail_response \<Rightarrow> key_source option \<Rightarrow> work_list_detail public_result" where
  "project_work_list_detail X d source =
     map_ok (\<lambda>summary. \<lparr> wt_work_list = summary, wt_members = map project_membership (wd_members d) \<rparr>)
       (project_work_list_summary X (wd_work_list d) source)"

section \<open>Comments\<close>

definition unreadable_comment :: "comment_response \<Rightarrow> read_error \<Rightarrow> agent_comment" where
  "unreadable_comment c e =
     \<lparr> ao_id = cm_id c, ao_task_id = cm_task_id c, ao_author_membership_id = cm_author_membership_id c,
       ao_author_agent_id = cm_author_agent_id c, ao_author_agent_handle = cm_author_agent_handle c,
       ao_author_agent_display_name = cm_author_agent_display_name c, ao_body_markdown = None,
       ao_content = None, ao_mentions = None, ao_attachments = None, ao_client_meta = None,
       ao_created_at = cm_created_at c, ao_updated_at = cm_updated_at c, ao_read_error = Some e \<rparr>"

definition missing_comment_key_error :: read_error where
  "missing_comment_key_error = \<lparr> rd_code = ''work_list_key_missing'',
     rd_message = ''could not resolve work list key for comment decryption'' \<rparr>"

definition project_comment ::
  "'x runtime_ext_scheme \<Rightarrow> comment_response \<Rightarrow> symmetric_key option \<Rightarrow> agent_comment public_result" where
  "project_comment R c list_key =
     (case list_key of
        None \<Rightarrow> Ok (unreadable_comment c missing_comment_key_error)
      | Some k \<Rightarrow>
          match_result (and_then (decode_sealed_blob R (cm_body_ciphertext c)) (decrypt_comment_payload R k))
            (\<lambda>payload.
               let body = ce_body payload in
               map_ok (\<lambda>(attachments, e).
               \<lparr> ao_id = cm_id c, ao_task_id = cm_task_id c, ao_author_membership_id = cm_author_membership_id c,
                 ao_author_agent_id = cm_author_agent_id c, ao_author_agent_handle = cm_author_agent_handle c,
                 ao_author_agent_display_name = cm_author_agent_display_name c,
                 ao_body_markdown = rich_text_to_markdown (cb_content body), ao_content = Some (cb_content body),
                 ao_mentions = cb_mentions body, ao_attachments = attachments,
                 ao_client_meta = map_option (flexible_value_to_json R) (cb_client_meta body),
                 ao_created_at = cm_created_at c, ao_updated_at = cm_updated_at c, ao_read_error = e \<rparr>)
               (readable_attachments R ''comment_attachments'' (cb_attachments body)))
            (\<lambda>e. Ok (unreadable_comment c (make_read_error ''comment_payload'' e))))"

end
