(* ===== verification/Rt_Attachments.thy ===== *)
theory Rt_Attachments
  imports Rt_Projections
begin

text \<open>\<open>crates/client-runtime/src/attachments\<close>: how an attachment is classified, downloaded, decrypted and
  rendered as text.  Converting a word-processor file and an HTML table to Markdown are parameters.\<close>

section \<open>\<open>classify.rs\<close>\<close>

datatype read_strategy = Utf8Text | DocxMarkdown | UnsupportedRead

datatype content_format = FormatText | FormatMarkdown
datatype source_kind = PlainText | DocxRendered

definition DOCX_CONTENT_TYPE :: string where
  "DOCX_CONTENT_TYPE = ''application/vnd.openxmlformats-officedocument.wordprocessingml.document''"

definition normalized_content_type :: "string \<Rightarrow> string" where
  "normalized_content_type ct = to_ascii_lowercase (trim (takeWhile (\<lambda>c. c \<noteq> CHR '';'') ct))"

text \<open>\<open>str::split\<close> on an ASCII character.\<close>
fun split_char :: "char \<Rightarrow> string \<Rightarrow> string list" where
  "split_char d [] = [[]]"
| "split_char d (c # s) =
     (if c = d then [] # split_char d s
      else case split_char d s of [] \<Rightarrow> [[c]] | p # ps \<Rightarrow> (c # p) # ps)"

text \<open>\<open>Path::file_name\<close>: the last component, unless it is the parent; empty components and single dots do
  not count.\<close>
definition path_file_name :: "string \<Rightarrow> string option" where
  "path_file_name s =
     (let parts = filter (\<lambda>p. p \<noteq> [] \<and> p \<noteq> ''.'') (split_char CHR ''/'' s) in
      if parts = [] \<or> last parts = ''..'' then None else Some (last parts))"

text \<open>\<open>Path::extension\<close>: what follows the last dot, if something precedes it.\<close>
definition path_extension :: "string \<Rightarrow> string option" where
  "path_extension s =
     Option.bind (path_file_name s) (\<lambda>name.
       let pieces = split_char CHR ''.'' name in
       if length pieces = 1 \<or> (length pieces = 2 \<and> hd pieces = []) then None else Some (last pieces))"

definition file_extension :: "string \<Rightarrow> string option" where
  "file_extension file_name = map_option to_ascii_lowercase (path_extension file_name)"

definition content_type_is_textual :: "string \<Rightarrow> bool" where
  "content_type_is_textual ct =
     (let n = normalized_content_type ct in
      starts_with n ''text/'' \<or> n = ''application/json'' \<or> n = ''application/xml'' \<or>
      ends_with n ''+json'' \<or> ends_with n ''+xml'')"

definition file_extension_is_textual :: "string \<Rightarrow> bool" where
  "file_extension_is_textual name =
     (case file_extension name of
        None \<Rightarrow> False
      | Some e \<Rightarrow> e \<in> set [''txt'', ''md'', ''markdown'', ''json'', ''yaml'', ''yml'', ''toml'', ''csv'', ''log''])"

definition content_type_is_docx :: "string \<Rightarrow> bool" where
  "content_type_is_docx ct = (normalized_content_type ct = DOCX_CONTENT_TYPE)"

definition file_extension_is_docx :: "string \<Rightarrow> bool" where
  "file_extension_is_docx name = (file_extension name = Some ''docx'')"

definition content_type_is_markdown :: "string \<Rightarrow> bool" where
  "content_type_is_markdown ct = (normalized_content_type ct = ''text/markdown'')"

definition file_extension_is_markdown :: "string \<Rightarrow> bool" where
  "file_extension_is_markdown name = (file_extension name = Some ''md'' \<or> file_extension name = Some ''markdown'')"

definition attachment_read_strategy :: "agent_attachment \<Rightarrow> read_strategy" where
  "attachment_read_strategy a =
     (if content_type_is_docx (aa_content_type a) then DocxMarkdown
      else if content_type_is_textual (aa_content_type a) then Utf8Text
      else if file_extension_is_docx (aa_file_name a) then DocxMarkdown
      else if file_extension_is_textual (aa_file_name a) then Utf8Text
      else UnsupportedRead)"

text \<open>The \<open>unreachable!\<close> branch panics.\<close>
definition readable_content_format :: "agent_attachment \<Rightarrow> read_strategy \<Rightarrow> content_format public_result" where
  "readable_content_format a strategy =
     (case strategy of
        Utf8Text \<Rightarrow>
          Ok (if content_type_is_markdown (aa_content_type a) \<or> file_extension_is_markdown (aa_file_name a)
              then FormatMarkdown else FormatText)
      | DocxMarkdown \<Rightarrow> Ok FormatMarkdown
      | UnsupportedRead \<Rightarrow> Abort)"

fun strategy_source_kind :: "read_strategy \<Rightarrow> source_kind public_result" where
  "strategy_source_kind Utf8Text = Ok PlainText"
| "strategy_source_kind DocxMarkdown = Ok DocxRendered"
| "strategy_source_kind UnsupportedRead = Abort"

definition find_task_attachment ::
  "'x client_ext_scheme \<Rightarrow> task_summary \<Rightarrow> uuid \<Rightarrow> agent_attachment public_result" where
  "find_task_attachment X task attachment_id =
     (case ts_attachments task of
        Some attachments \<Rightarrow>
          ok_or (Validation (''attachment '' @ uuid_display X attachment_id @ '' not found''))
            (find (\<lambda>a. aa_id a = attachment_id) attachments)
      | None \<Rightarrow>
          if ts_read_error task \<noteq> None then
            Err (read_error_to_public_error (ts_read_error task) ''failed to read task attachments'')
          else Err (Validation ''task does not include attachments''))"

definition unsupported_attachment_read_error :: "string \<Rightarrow> public_error" where
  "unsupported_attachment_read_error name =
     Validation (''attachment '' @ in_quotes name @ '' is not readable in the CLI; use download instead'')"

section \<open>\<open>download.rs\<close>\<close>

record resolved_download =
  rl_attachment :: agent_attachment
  rl_blob_ref :: attachment_blob_ref
  rl_download :: download_attachment_response

record downloaded_attachment =
  da_attachment :: agent_attachment
  da_bytes :: bytes

definition download_presigned_attachment ::
  "'x runtime_ext_scheme \<Rightarrow> download_attachment_response \<Rightarrow> bytes public_result" where
  "download_presigned_attachment R download =
     and_then (map_err (\<lambda>e. Unexpected (''failed to download attachment ciphertext: '' @ e))
       (blob_server R (dl_download_url download) (dl_download_headers download))) (\<lambda>(status, body).
     if \<not> is_success status then
       Err (Unexpected (''attachment download failed with status '' @ status_display R status))
     else
       (case body of
          Inl e \<Rightarrow> Err (Unexpected (''failed to read attachment ciphertext: '' @ e))
        | Inr b \<Rightarrow> Ok b))"

definition download_and_decrypt_attachment ::
  "'x runtime_ext_scheme \<Rightarrow> resolved_download \<Rightarrow> downloaded_attachment public_result" where
  "download_and_decrypt_attachment R resolved =
     and_then (download_presigned_attachment R (rl_download resolved)) (\<lambda>ciphertext.
     let blob_ref = rl_blob_ref resolved in
     if length ciphertext \<noteq> br_ciphertext_bytes blob_ref then
       Err (Validation (''attachment '' @ in_quotes (aa_file_name (rl_attachment resolved)) @
         '' download size mismatch: expected '' @ show_nat (br_ciphertext_bytes blob_ref) @ '' bytes, got '' @
         show_nat (length ciphertext)))
     else
       map_ok (\<lambda>b. \<lparr> da_attachment = rl_attachment resolved, da_bytes = b \<rparr>)
         (decrypt_attachment_bytes R ciphertext (br_file_key blob_ref) (Some (br_enc_context blob_ref))))"

section \<open>\<open>render.rs\<close>\<close>

record readable_attachment =
  rr_attachment :: agent_attachment
  rr_text :: string
  rr_content_format :: content_format
  rr_source_kind :: source_kind

subsection \<open>HTML tables\<close>

lemma find_str_bounds: "find_str s p = Some i \<Longrightarrow> i + length p \<le> length s \<and> starts_with (drop i s) p"
proof (induction s arbitrary: i)
  case Nil
  then show ?case by (simp add: starts_with_def split: if_splits)
next
  case (Cons c s)
  show ?case
  proof (cases "starts_with (c # s) p")
    case True
    then obtain t where "c # s = p @ t" by (auto simp: starts_with_iff)
    then have "length (c # s) = length p + length t" by simp
    then show ?thesis using True Cons.prems by simp
  next
    case False
    then obtain j where "find_str s p = Some j" "i = Suc j" using Cons.prems by auto
    then show ?thesis using Cons.IH [of j] by simp
  qed
qed

lemma find_str_nonempty: "find_str s p = Some i \<Longrightarrow> p \<noteq> [] \<Longrightarrow> i < length s"
  using find_str_bounds [of s p i] by (cases p) auto

text \<open>\<open>s[from..].find(p)\<close>, as an offset in \<open>s\<close>.\<close>
definition find_from :: "string \<Rightarrow> nat \<Rightarrow> string \<Rightarrow> nat option" where
  "find_from s n p = map_option ((+) n) (find_str (drop n s) p)"

lemma find_from_bounds: "find_from s n p = Some i \<Longrightarrow> p \<noteq> [] \<Longrightarrow> n \<le> i \<and> i + length p \<le> length s"
  using find_str_bounds [of "drop n s" p "i - n"] by (cases p) (auto simp: find_from_def)

definition TABLE_OPEN :: string where "TABLE_OPEN = ''<table''"
definition TABLE_CLOSE :: string where "TABLE_CLOSE = ''</table>''"

lemma table_tags [simp]:
  "TABLE_OPEN \<noteq> []" "TABLE_CLOSE \<noteq> []" "length TABLE_OPEN = 6" "length TABLE_CLOSE = 8"
  by (simp_all add: TABLE_OPEN_def TABLE_CLOSE_def)

text \<open>The loop of \<open>find_docx_html_table_end\<close> with its variables \<open>depth\<close> and \<open>search_from\<close>.\<close>
function table_end_loop :: "string \<Rightarrow> nat \<Rightarrow> nat \<Rightarrow> nat option" where
  "table_end_loop markdown depth search_from =
     (if search_from < length markdown then
        (case find_from markdown search_from TABLE_CLOSE of
           None \<Rightarrow> None
         | Some close \<Rightarrow>
             (case Option.bind (find_from markdown search_from TABLE_OPEN)
                     (\<lambda>start. if start < close then Some start else None) of
                Some start \<Rightarrow> table_end_loop markdown (depth + 1) (start + length TABLE_OPEN)
              | None \<Rightarrow>
                  if depth = 0 then None
                  else if depth - 1 = 0 then Some (close + length TABLE_CLOSE)
                  else table_end_loop markdown (depth - 1) (close + length TABLE_CLOSE)))
      else None)"
  by pat_completeness auto
termination
proof (relation "measure (\<lambda>(markdown, depth, search_from). length markdown - search_from)", goal_cases)
  case (3 markdown depth search_from close start)
  then show ?case using find_from_bounds [of markdown search_from TABLE_OPEN start]
    by (auto simp: bind_eq_Some_conv split: if_splits)
next
  case (2 markdown depth search_from close)
  then show ?case using find_from_bounds [of markdown search_from TABLE_CLOSE close]
    by auto
qed simp

declare table_end_loop.simps [simp del]

definition find_docx_html_table_end :: "string \<Rightarrow> nat \<Rightarrow> nat option" where
  "find_docx_html_table_end markdown table_start = table_end_loop markdown 0 table_start"

lemma table_end_loop_bounds:
  "table_end_loop markdown depth search_from = Some e \<Longrightarrow> search_from < e \<and> e \<le> length markdown"
proof (induction markdown depth search_from rule: table_end_loop.induct)
  case (1 markdown depth search_from)
  obtain close where less: "search_from < length markdown"
    and close: "find_from markdown search_from TABLE_CLOSE = Some close"
    using "1.prems" by (subst (asm) table_end_loop.simps) (auto split: if_splits option.splits)
  have bounds: "search_from < close + length TABLE_CLOSE" "close + length TABLE_CLOSE \<le> length markdown"
    using find_from_bounds [OF close] by (auto simp: TABLE_CLOSE_def)
  show ?case
  proof (cases "Option.bind (find_from markdown search_from TABLE_OPEN)
      (\<lambda>start. if start < close then Some start else None)")
    case None
    then show ?thesis using "1.prems" "1.IH"(1) [OF less close None] bounds less close
      by (subst (asm) table_end_loop.simps) (force split: if_splits)
  next
    case (Some start)
    moreover have "search_from \<le> start"
      using Some find_from_bounds [of markdown search_from TABLE_OPEN start] by (auto simp: bind_eq_Some_conv split: if_splits)
    ultimately show ?thesis using "1.prems" "1.IH"(2) [OF less close Some] less close
      by (subst (asm) table_end_loop.simps) auto
  qed
qed

definition trim_newlines :: "string \<Rightarrow> string" where
  "trim_newlines s = trim_end_char (CHR 0x0A) (trim_start_char (CHR 0x0A) s)"

function normalize_docx_html_tables :: "'x runtime_ext_scheme \<Rightarrow> string \<Rightarrow> string" where
  "normalize_docx_html_tables R remaining =
     (case find_str remaining TABLE_OPEN of
        None \<Rightarrow> remaining
      | Some table_start \<Rightarrow>
          (case find_docx_html_table_end remaining table_start of
             None \<Rightarrow> take table_start remaining @ drop table_start remaining
           | Some table_end \<Rightarrow>
               take table_start remaining @
               trim_newlines (html_to_md R (take (table_end - table_start) (drop table_start remaining))) @
               normalize_docx_html_tables R (drop table_end remaining)))"
  by pat_completeness auto
termination
proof (relation "measure (\<lambda>(R, remaining). length remaining)", goal_cases)
  case (2 R remaining table_start table_end)
  then have "table_start < table_end" "table_end \<le> length remaining"
    using table_end_loop_bounds [of remaining 0 table_start table_end] by (simp_all add: find_docx_html_table_end_def)
  then show ?case by simp
qed simp

declare normalize_docx_html_tables.simps [simp del]

subsection \<open>Inline tags\<close>

function inline_tag_loop :: "string \<Rightarrow> string \<Rightarrow> string \<Rightarrow> string" where
  "inline_tag_loop tag marker remaining =
     (let open_tag = ''<'' @ tag @ ''>''; close_tag = ''</'' @ tag @ ''>'' in
      case find_str remaining open_tag of
        None \<Rightarrow> remaining
      | Some tag_start \<Rightarrow>
          let inner_start = tag_start + length open_tag in
          (case find_str (drop inner_start remaining) close_tag of
             None \<Rightarrow> take tag_start remaining @ drop tag_start remaining
           | Some close_offset \<Rightarrow>
               let inner_end = inner_start + close_offset;
                   inner = take close_offset (drop inner_start remaining);
                   leading = length inner - length (trim_start inner);
                   trailing = length inner - length (trim_end inner) in
               take tag_start remaining @ take leading inner @
               (if trim inner \<noteq> [] then marker @ trim inner @ marker else []) @
               (if trailing > 0 then drop (length inner - trailing) inner else []) @
               inline_tag_loop tag marker (drop (inner_end + length close_tag) remaining)))"
  by pat_completeness auto
termination
proof (relation "measure (\<lambda>(tag, marker, remaining). length remaining)", goal_cases)
  case (2 tag marker remaining)
  then show ?case using find_str_nonempty [of remaining "''<'' @ tag @ ''>''"] by simp
qed simp

declare inline_tag_loop.simps [simp del]

definition normalize_docx_inline_tag_pair :: "string \<Rightarrow> string \<Rightarrow> string \<Rightarrow> string" where
  "normalize_docx_inline_tag_pair markdown tag marker = inline_tag_loop tag marker markdown"

definition normalize_non_code_docx_markdown :: "'x runtime_ext_scheme \<Rightarrow> string \<Rightarrow> string" where
  "normalize_non_code_docx_markdown R markdown =
     (let markdown = normalize_docx_html_tables R markdown;
          markdown = normalize_docx_inline_tag_pair markdown ''strong'' ''**'';
          markdown = normalize_docx_inline_tag_pair markdown ''em'' ''*'';
          markdown = normalize_docx_inline_tag_pair markdown ''s'' ''~~'' in
      normalize_docx_inline_tag_pair markdown ''del'' ''~~'')"

subsection \<open>The document\<close>

text \<open>\<open>str::split_inclusive\<close>: each line with the newline that ends it.\<close>
fun split_inclusive :: "string \<Rightarrow> string list" where
  "split_inclusive [] = []"
| "split_inclusive (c # s) =
     (if c = CHR 0x0A then [c] # split_inclusive s
      else case split_inclusive s of [] \<Rightarrow> [[c]] | l # ls \<Rightarrow> (c # l) # ls)"

definition is_fence_line :: "string \<Rightarrow> bool" where
  "is_fence_line line = starts_with (trim_start line) ''```''"

definition flush_prose :: "'x runtime_ext_scheme \<Rightarrow> string \<Rightarrow> string" where
  "flush_prose R prose = (if prose = [] then [] else normalize_non_code_docx_markdown R prose)"

text \<open>One pass of the loop: the state is the text so far, the prose not yet converted, and whether the line
  is inside a code block.\<close>
definition docx_line ::
  "'x runtime_ext_scheme \<Rightarrow> string \<times> string \<times> bool \<Rightarrow> string \<Rightarrow> string \<times> string \<times> bool" where
  "docx_line R = (\<lambda>(normalized, prose, in_fence) line.
     if is_fence_line line then (normalized @ flush_prose R prose @ line, [], \<not> in_fence)
     else if in_fence then (normalized @ line, prose, in_fence)
     else (normalized, prose @ line, in_fence))"

definition normalize_docx_markdown :: "'x runtime_ext_scheme \<Rightarrow> string \<Rightarrow> string" where
  "normalize_docx_markdown R markdown =
     (case foldl (docx_line R) ([], [], False) (split_inclusive markdown) of
        (normalized, prose, _) \<Rightarrow> normalized @ flush_prose R prose)"

definition render_docx_attachment_as_markdown ::
  "'x runtime_ext_scheme \<Rightarrow> string \<Rightarrow> bytes \<Rightarrow> string public_result" where
  "render_docx_attachment_as_markdown R name b =
     map_err (\<lambda>e. Validation (''attachment '' @ in_quotes name @ '' could not be rendered as Markdown: '' @ e))
       (map_ok (normalize_docx_markdown R) (docx_markdown R b))"

definition decode_attachment_utf8_text :: "'x runtime_ext_scheme \<Rightarrow> string \<Rightarrow> bytes \<Rightarrow> string public_result" where
  "decode_attachment_utf8_text R name b =
     (case string_from_utf8 b of
        Some s \<Rightarrow> Ok s
      | None \<Rightarrow>
          Err (Validation (''attachment '' @ in_quotes name @ '' is not valid UTF-8 text: '' @ utf8_error R b)))"

definition unsupported_attachment_render_error :: "string \<Rightarrow> public_error" where
  "unsupported_attachment_render_error name =
     Validation (''attachment '' @ in_quotes name @ '' is not readable in the CLI'')"

definition build_readable_attachment ::
  "'x runtime_ext_scheme \<Rightarrow> agent_attachment \<Rightarrow> bytes \<Rightarrow> read_strategy \<Rightarrow> readable_attachment public_result" where
  "build_readable_attachment R attachment b strategy =
     and_then (readable_content_format attachment strategy) (\<lambda>format.
     and_then (case strategy of
         Utf8Text \<Rightarrow> decode_attachment_utf8_text R (aa_file_name attachment) b
       | DocxMarkdown \<Rightarrow> render_docx_attachment_as_markdown R (aa_file_name attachment) b
       | UnsupportedRead \<Rightarrow> Err (unsupported_attachment_render_error (aa_file_name attachment))) (\<lambda>t.
     map_ok (\<lambda>kind. \<lparr> rr_attachment = attachment, rr_text = t, rr_content_format = format,
         rr_source_kind = kind \<rparr>)
       (strategy_source_kind strategy)))"

end
