(* ===== verification/Rt_Client.thy ===== *)
theory Rt_Client
  imports Rt_Attachments Crypto_Grants
begin

text \<open>The client of \<open>crates/client-runtime\<close>: \<open>lib.rs\<close>, \<open>auth.rs\<close>, \<open>keys.rs\<close>, \<open>unlock.rs\<close>, \<open>agent_grants.rs\<close>
  and \<open>delete_inputs.rs\<close>.  The state it acts on is the device, the requests sent to the API, the unlock
  daemon, and the number of readings taken from the clock, the random source and the user, so that
  each reading may differ.  What is printed is left out.\<close>

section \<open>The state\<close>

record world =
  wd_device :: device
  wd_sent :: "http_request list"
  wd_daemon :: daemon_world
  wd_reads :: nat

type_synonym 'a act = "(world, 'a, public_error) rio"

definition on_device :: "(device, 'a, public_error) rio \<Rightarrow> 'a act" where
  "on_device m = (\<lambda>w. case m (wd_device w) of (r, d) \<Rightarrow> (r, w\<lparr>wd_device := d\<rparr>))"

definition on_server :: "(http_request list, 'a, public_error) rio \<Rightarrow> 'a act" where
  "on_server m = (\<lambda>w. case m (wd_sent w) of (r, sent) \<Rightarrow> (r, w\<lparr>wd_sent := sent\<rparr>))"

definition on_daemon :: "(daemon_world, 'a, public_error) rio \<Rightarrow> 'a act" where
  "on_daemon m = (\<lambda>w. case m (wd_daemon w) of (r, d) \<Rightarrow> (r, w\<lparr>wd_daemon := d\<rparr>))"

definition on_device_server :: "(device \<times> http_request list, 'a, public_error) rio \<Rightarrow> 'a act" where
  "on_device_server m = (\<lambda>w. case m (wd_device w, wd_sent w) of
     (r, (d, sent)) \<Rightarrow> (r, w\<lparr>wd_device := d, wd_sent := sent\<rparr>))"

text \<open>A reading of the environment.\<close>
definition reading :: "(nat \<Rightarrow> ('a, public_error) rust_result) \<Rightarrow> 'a act" where
  "reading f = (\<lambda>w. (f (wd_reads w), w\<lparr>wd_reads := Suc (wd_reads w)\<rparr>))"

definition utc_now :: "'x runtime_ext_scheme \<Rightarrow> datetime act" where
  "utc_now R = reading (\<lambda>n. Ok (utc_clock R n))"

definition draw :: "'x runtime_ext_scheme \<Rightarrow> nat \<Rightarrow> bytes act" where
  "draw R count = reading (\<lambda>n. Ok (random_bytes R n count))"

text \<open>A loop whose body acts and may fail.\<close>
fun map_act :: "('a \<Rightarrow> ('s, 'b, 'e) rio) \<Rightarrow> 'a list \<Rightarrow> ('s, 'b list, 'e) rio" where
  "map_act f [] = io_return (Ok [])"
| "map_act f (x # xs) = io_then (f x) (\<lambda>y. io_map (\<lambda>ys. y # ys) (map_act f xs))"

section \<open>\<open>lib.rs\<close>\<close>

definition DEFAULT_AUTO_UNLOCK_TTL_SECONDS :: u64 where
  "DEFAULT_AUTO_UNLOCK_TTL_SECONDS = 8 * 60 * 60"

record runtime_client =
  rc_api_url :: string
  rc_selection :: principal_selection

definition with_principal_selection ::
  "'x auth_ext_scheme \<Rightarrow> string \<Rightarrow> principal_selection \<Rightarrow> runtime_client" where
  "with_principal_selection A api_url selection =
     \<lparr> rc_api_url = normalize_api_url A api_url, rc_selection = selection \<rparr>"

definition runtime_client_new :: "'x auth_ext_scheme \<Rightarrow> string \<Rightarrow> runtime_client" where
  "runtime_client_new A api_url = with_principal_selection A api_url SelectAuto"

definition current_session_key ::
  "'x auth_ext_scheme \<Rightarrow> runtime_client \<Rightarrow> credentials \<Rightarrow> session_key public_result" where
  "current_session_key A K c =
     make_session_key A (rc_api_url K) (cr_user_id c) (cr_data_key_ciphertext c)"

definition auth_http_client :: "'x runtime_ext_scheme \<Rightarrow> unit public_result" where
  "auth_http_client R =
     (case http_client_fails R of
        Some e \<Rightarrow> Err (Unexpected (''failed to build auth HTTP client: '' @ e))
      | None \<Rightarrow> Ok ())"

section \<open>\<open>auth.rs\<close>\<close>

definition require_logged_in_credentials :: "'x runtime_ext_scheme \<Rightarrow> runtime_client \<Rightarrow> credentials act" where
  "require_logged_in_credentials R K =
     io_then (on_device (load_credentials_for_url R (rc_api_url K))) (\<lambda>found.
     io_return (ok_or (Validation (''not logged in - run '' @ in_quotes ''worklist auth login'' @ '' first'')) found))"

definition require_principal_credentials ::
  "'x runtime_ext_scheme \<Rightarrow> runtime_client \<Rightarrow> principal_credentials act" where
  "require_principal_credentials R K =
     io_then (on_device (load_principal_credentials_for_url R (rc_api_url K) (rc_selection K))) (\<lambda>found.
     io_return (ok_or (Validation (''not logged in - run '' @ in_quotes ''worklist auth login'' @ '' or '' @
       in_quotes ''worklist agent register'' @ '' first'')) found))"

text \<open>A task that panics is an error of joining it.\<close>
definition join_task :: "'x runtime_ext_scheme \<Rightarrow> string \<Rightarrow> 'a act \<Rightarrow> 'a act" where
  "join_task R message m = (\<lambda>w. case m w of
     (Abort, w) \<Rightarrow> (Err (Unexpected (message @ join_error R)), w)
   | (r, w) \<Rightarrow> (r, w))"

definition save_credentials_blocking :: "'x runtime_ext_scheme \<Rightarrow> credentials \<Rightarrow> unit act" where
  "save_credentials_blocking R c =
     join_task R ''failed to join credential save: '' (on_device (save_credentials R c))"

definition save_agent_credentials_blocking :: "'x runtime_ext_scheme \<Rightarrow> agent_credentials \<Rightarrow> unit act" where
  "save_agent_credentials_blocking R c =
     join_task R ''failed to join agent credential save: '' (on_device (save_agent_credentials R c))"

text \<open>The credentials passed as \<open>&mut\<close> are returned.\<close>
definition refresh_user_credentials_if_needed ::
  "'x runtime_ext_scheme \<Rightarrow> server \<Rightarrow> runtime_client \<Rightarrow> credentials \<Rightarrow> credentials act" where
  "refresh_user_credentials_if_needed R server K c =
     io_then (utc_now R) (\<lambda>now.
     io_then (io_return (access_expires_within R c now 60)) (\<lambda>expires.
     if \<not> expires then io_return (Ok c) else
     io_then (utc_now R) (\<lambda>now.
     if is_refresh_expired c now then
       io_return (Err (Validation (''session expired - run '' @ in_quotes ''worklist auth login'' @ '' to authenticate'')))
     else
     io_then (io_return (auth_http_client R)) (\<lambda>_.
     io_then (on_server (refresh_access_token R server (rc_api_url K) (cr_refresh_token c))) (\<lambda>response.
     io_then (utc_now R) (\<lambda>now.
     case update_credentials_with_refresh R now response c of (r, c) \<Rightarrow>
     io_then (io_return r) (\<lambda>_.
     io_map (\<lambda>_. c) (save_credentials_blocking R c))))))))"

definition agent_access_expires_at_from ::
  "'x auth_ext_scheme \<Rightarrow> datetime \<Rightarrow> nat \<Rightarrow> datetime public_result" where
  "agent_access_expires_at_from A now expires_in =
     and_then (if expires_in < 2 ^ 63 then Ok (int expires_in)
       else Err (Unexpected (''agent access token ttl seconds overflow for expires_in='' @ show_nat expires_in @
         '': '' @ int_error A))) (\<lambda>seconds.
     and_then (ok_or (Unexpected (''agent access token ttl duration overflow for expires_in='' @ show_nat expires_in))
       (duration_try_seconds A seconds)) (\<lambda>ttl.
     ok_or (Unexpected (''agent access token expiry overflow for expires_in='' @ show_nat expires_in))
       (checked_add_signed A now ttl)))"

text \<open>The time of an assertion is in seconds, its identifier a new UUID.\<close>
definition refresh_agent_credentials_if_needed ::
  "'x runtime_ext_scheme \<Rightarrow> server \<Rightarrow> agent_credentials \<Rightarrow> agent_credentials act" where
  "refresh_agent_credentials_if_needed R server c =
     io_then (utc_now R) (\<lambda>now.
     io_then (io_return (needs_access_token_within R c now 60)) (\<lambda>needs.
     if \<not> needs then io_return (Ok c) else
     io_then (io_return (auth_http_client R)) (\<lambda>_.
     io_then (utc_now R) (\<lambda>now.
     io_then (draw R 16) (\<lambda>jti.
     io_then (on_device_server (mint_agent_access_token R server (now div 10 ^ 9) jti c)) (\<lambda>response.
     io_then (utc_now R) (\<lambda>now.
     io_then (io_return (agent_access_expires_at_from R now (at_expires_in response))) (\<lambda>access_expires_at.
     let c = set_active_access_token c (at_owner_user_id response) (at_access_token response) access_expires_at in
     io_map (\<lambda>_. c) (save_agent_credentials_blocking R c)))))))))"

definition fresh_principal_access_token ::
  "'x runtime_ext_scheme \<Rightarrow> server \<Rightarrow> runtime_client \<Rightarrow> string act" where
  "fresh_principal_access_token R server K =
     io_then (require_principal_credentials R K) (\<lambda>principal. case principal of
       UserPrincipal c \<Rightarrow> io_map cr_access_token (refresh_user_credentials_if_needed R server K c)
     | AgentPrincipal c \<Rightarrow>
         io_then (refresh_agent_credentials_if_needed R server c) (\<lambda>c. io_return (active_access_token c)))"

definition authenticated_api_client ::
  "'x runtime_ext_scheme \<Rightarrow> server \<Rightarrow> runtime_client \<Rightarrow> api_client act" where
  "authenticated_api_client R server K =
     io_map (with_bearer_token (rc_api_url K)) (fresh_principal_access_token R server K)"

definition authenticated_owner_api_client ::
  "'x runtime_ext_scheme \<Rightarrow> server \<Rightarrow> runtime_client \<Rightarrow> api_client act" where
  "authenticated_owner_api_client R server K =
     io_then (on_device (load_credentials_for_url R (rc_api_url K))) (\<lambda>found.
     io_then (io_return (ok_or (Validation (''owner credentials required - run '' @ in_quotes ''worklist auth login'' @
       '' first'')) found)) (\<lambda>c.
     io_map (\<lambda>c. with_bearer_token (rc_api_url K) (cr_access_token c)) (refresh_user_credentials_if_needed R server K c)))"

definition runtime_get_me :: "'x runtime_ext_scheme \<Rightarrow> server \<Rightarrow> runtime_client \<Rightarrow> current_user_response act" where
  "runtime_get_me R server K = io_then (authenticated_api_client R server K) (\<lambda>client. on_server (get_me R server client))"

definition runtime_get_stats :: "'x runtime_ext_scheme \<Rightarrow> server \<Rightarrow> runtime_client \<Rightarrow> dashboard_stats_response act" where
  "runtime_get_stats R server K =
     io_then (authenticated_api_client R server K) (\<lambda>client. on_server (get_dashboard_stats R server client))"

section \<open>\<open>keys.rs\<close>\<close>

text \<open>The text of the error of \<open>str::parse::<u64>\<close>: digits are read from the left, and the first that is
  none or brings the number out of range is reported.\<close>
fun digits_error :: "nat \<Rightarrow> string \<Rightarrow> string" where
  "digits_error n [] = []"
| "digits_error n (c # s) =
     (let d = of_char c :: nat in
      if d < 48 \<or> 57 < d then ''invalid digit found in string''
      else if 2 ^ 64 \<le> 10 * n + (d - 48) then ''number too large to fit in target type''
      else digits_error (10 * n + (d - 48)) s)"

definition parse_u64_error :: "string \<Rightarrow> string" where
  "parse_u64_error s =
     (if s = [] then ''cannot parse integer from empty string''
      else if s = ''+'' then ''invalid digit found in string''
      else digits_error 0 (if hd s = CHR ''+'' then tl s else s))"

definition auto_unlock_ttl_seconds :: "'x runtime_ext_scheme \<Rightarrow> u64 public_result" where
  "auto_unlock_ttl_seconds R =
     (let name = ''WORKLIST_UNLOCK_TTL_SECONDS'' in
      case env_var R name of
        Some value \<Rightarrow>
          let trimmed = trim value in
          (case parse_u64 trimmed of
             None \<Rightarrow> Err (Validation (''invalid WORKLIST_UNLOCK_TTL_SECONDS value '' @ in_quotes trimmed @ '': '' @
               parse_u64_error trimmed))
           | Some ttl \<Rightarrow>
               if ttl = 0 then Err (Validation ''WORKLIST_UNLOCK_TTL_SECONDS must be greater than zero'')
               else Ok (of_nat ttl))
      | None \<Rightarrow>
          if env_unicode R name then Ok DEFAULT_AUTO_UNLOCK_TTL_SECONDS
          else Err (Validation ''WORKLIST_UNLOCK_TTL_SECONDS must be valid UTF-8''))"

definition missing_unlock_error :: "string \<Rightarrow> public_error" where
  "missing_unlock_error prompt_message = Validation (prompt_message @
     '' No unlocked local session or persisted bootstrap secret is available. Run '' @
     in_quotes ''worklist auth unlock --password-stdin'' @ '' for a temporary session or '' @
     in_quotes ''worklist auth keychain store --password-stdin'' @ '' to persist a local bootstrap secret.'')"

definition persisted_unlock_error :: "string \<Rightarrow> public_error \<Rightarrow> public_error" where
  "persisted_unlock_error prompt_message e = Validation (prompt_message @
     '' Failed to load the persisted bootstrap secret: '' @ public_display e @ ''. Run '' @
     in_quotes ''worklist auth unlock --password-stdin'' @ '' for a temporary session or '' @
     in_quotes ''worklist auth keychain store --password-stdin'' @ '' to refresh the local bootstrap secret.'')"

definition read_password :: "'x runtime_ext_scheme \<Rightarrow> string act" where
  "read_password R = reading (\<lambda>n. map_err (\<lambda>e. Unexpected (''failed to read password: '' @ e)) (read_prompt R n))"

definition read_password_from_stdin :: "'x runtime_ext_scheme \<Rightarrow> string act" where
  "read_password_from_stdin R = reading (\<lambda>n.
     map_ok trim (map_err (\<lambda>e. Unexpected (''failed to read password from stdin: '' @ e)) (read_stdin R n)))"

definition read_required_password :: "'x runtime_ext_scheme \<Rightarrow> bool \<Rightarrow> string act" where
  "read_required_password R password_stdin =
     io_then (if password_stdin then read_password_from_stdin R else read_password R) (\<lambda>password.
     io_return (if password = [] then Err (Validation ''password is required'') else Ok password))"

definition decrypt_user_data_key_after_opaque_login ::
  "'x runtime_ext_scheme \<Rightarrow> server \<Rightarrow> runtime_client \<Rightarrow> credentials \<Rightarrow> string \<Rightarrow> symmetric_key act" where
  "decrypt_user_data_key_after_opaque_login R server K c password =
     io_then (io_return (auth_http_client R)) (\<lambda>_.
     io_then (draw R 32) (\<lambda>rng.
     io_then (draw R 32) (\<lambda>rng'.
     io_then (on_server (auth_login R server rng rng' (rc_api_url K) (cr_email c) password)) (\<lambda>response.
     io_then (io_return (ok_or (Unexpected ''OPAQUE login did not return a client export key'')
       (ar_opaque_export_key response))) (\<lambda>export_key.
     io_then (io_return (decrypt_user_data_key_with_login_secret R password (Some export_key)
       (ar_data_key_ciphertext response))) (\<lambda>data_key.
     io_then (utc_now R) (\<lambda>now.
     io_then (io_return (auth_response_to_credentials R now (rc_api_url K)
       (ar_opaque_export_key_update (\<lambda>_. None) response))) (\<lambda>updated.
     io_map (\<lambda>_. data_key) (save_credentials_blocking R updated)))))))))"

definition decrypt_user_data_key_with_password ::
  "'x runtime_ext_scheme \<Rightarrow> server \<Rightarrow> runtime_client \<Rightarrow> credentials \<Rightarrow> string \<Rightarrow> symmetric_key act" where
  "decrypt_user_data_key_with_password R server K c password =
     (case decrypt_user_data_key_with_login_secret R password None (cr_data_key_ciphertext c) of
        Ok data_key \<Rightarrow> io_return (Ok data_key)
      | Abort \<Rightarrow> io_return Abort
      | Err e \<Rightarrow>
          if is_opaque_export_key_required_error e then
            decrypt_user_data_key_after_opaque_login R server K c password
          else io_return (Err e))"

definition load_data_key_from_persisted_secret ::
  "'x runtime_ext_scheme \<Rightarrow> credentials \<Rightarrow> session_key \<Rightarrow> symmetric_key option act" where
  "load_data_key_from_persisted_secret R c sk =
     io_then (on_device (load_persisted_data_key R c)) (\<lambda>stored. case stored of
       None \<Rightarrow> io_return (Ok None)
     | Some b \<Rightarrow>
         io_then (io_return (symmetric_key_from_bytes b)) (\<lambda>data_key.
         io_then (io_return (auto_unlock_ttl_seconds R)) (\<lambda>ttl.
         io_map (\<lambda>_. Some data_key) (on_daemon (unlock_session R sk data_key ttl)))))"

definition load_data_key ::
  "'x runtime_ext_scheme \<Rightarrow> server \<Rightarrow> runtime_client \<Rightarrow> credentials \<Rightarrow> bool \<Rightarrow> string \<Rightarrow> symmetric_key act" where
  "load_data_key R server K c password_stdin prompt_message =
     io_then (io_return (current_session_key R K c)) (\<lambda>sk.
     if password_stdin then
       io_then (read_required_password R password_stdin) (decrypt_user_data_key_with_password R server K c)
     else
       io_then (on_daemon (fetch_data_key R sk)) (\<lambda>held. case held of
         Some data_key \<Rightarrow> io_return (Ok data_key)
       | None \<Rightarrow>
           io_then (io_map_err (persisted_unlock_error prompt_message) (load_data_key_from_persisted_secret R c sk))
             (\<lambda>stored. io_return (ok_or (missing_unlock_error prompt_message) stored))))"

definition load_agent_recipient_private_key :: "'x runtime_ext_scheme \<Rightarrow> agent_credentials \<Rightarrow> bytes act" where
  "load_agent_recipient_private_key R c =
     io_then (on_device (load_agent_seed R c)) (\<lambda>stored.
     io_then (io_return (ok_or (Validation ''agent seed missing from local secure storage'') stored)) (\<lambda>seed.
     io_return (map_ok km_recipient_private_key (agent_key_material_from_seed R seed))))"

definition load_principal_work_list_key_source ::
  "'x runtime_ext_scheme \<Rightarrow> server \<Rightarrow> runtime_client \<Rightarrow> bool \<Rightarrow> string \<Rightarrow> key_source act" where
  "load_principal_work_list_key_source R server K password_stdin prompt_message =
     io_then (require_principal_credentials R K) (\<lambda>principal. case principal of
       UserPrincipal c \<Rightarrow> io_map UserDataKey (load_data_key R server K c password_stdin prompt_message)
     | AgentPrincipal c \<Rightarrow> io_map AgentRecipientKey (load_agent_recipient_private_key R c))"

section \<open>\<open>unlock.rs\<close>\<close>

definition runtime_unlock_daemon :: "'x runtime_ext_scheme \<Rightarrow> server \<Rightarrow> runtime_client \<Rightarrow> u64 \<Rightarrow> bool \<Rightarrow> unit act" where
  "runtime_unlock_daemon R server K ttl_seconds password_stdin =
     io_then (require_logged_in_credentials R K) (\<lambda>c.
     io_then (read_required_password R password_stdin) (\<lambda>password.
     io_then (decrypt_user_data_key_with_password R server K c password) (\<lambda>data_key.
     io_then (require_logged_in_credentials R K) (\<lambda>current.
     io_then (io_return (current_session_key R K current)) (\<lambda>sk.
     on_daemon (unlock_session R sk data_key ttl_seconds))))))"

definition store_persisted_data_key :: "'x runtime_ext_scheme \<Rightarrow> server \<Rightarrow> runtime_client \<Rightarrow> bool \<Rightarrow> unit act" where
  "store_persisted_data_key R server K password_stdin =
     io_then (require_logged_in_credentials R K) (\<lambda>c.
     io_then (read_required_password R password_stdin) (\<lambda>password.
     io_then (decrypt_user_data_key_with_password R server K c password) (\<lambda>data_key.
     io_then (require_logged_in_credentials R K) (\<lambda>current.
     on_device (save_persisted_data_key R current (sym_bytes data_key))))))"

definition runtime_clear_persisted_data_key :: "'x runtime_ext_scheme \<Rightarrow> runtime_client \<Rightarrow> unit act" where
  "runtime_clear_persisted_data_key R K =
     io_then (on_device (load_credentials_for_url R (rc_api_url K))) (\<lambda>found. case found of
       Some c \<Rightarrow> on_device (clear_persisted_data_key R c)
     | None \<Rightarrow> io_return (Ok ()))"

definition clear_unlock_daemon_session :: "'x runtime_ext_scheme \<Rightarrow> runtime_client \<Rightarrow> unit act" where
  "clear_unlock_daemon_session R K =
     io_then (on_device (load_credentials_for_url R (rc_api_url K))) (\<lambda>found. case found of
       Some c \<Rightarrow>
         io_then (io_return (current_session_key R K c)) (\<lambda>sk. on_daemon (clear_session R sk))
     | None \<Rightarrow> io_return (Ok ()))"

definition runtime_unlock_status :: "'x runtime_ext_scheme \<Rightarrow> unlock_status act" where
  "runtime_unlock_status R =
     io_then (on_device (load_credentials R)) (\<lambda>found. case found of
       Some c \<Rightarrow>
         io_then (io_return (make_session_key R (cr_api_url c) (cr_user_id c) (cr_data_key_ciphertext c))) (\<lambda>sk.
         on_daemon (query_unlock_status R (Some sk)))
     | None \<Rightarrow> on_daemon (query_unlock_status R None))"

definition runtime_persisted_data_key_status ::
  "'x runtime_ext_scheme \<Rightarrow> runtime_client \<Rightarrow> persisted_status option act" where
  "runtime_persisted_data_key_status R K =
     io_then (on_device (load_credentials_for_url R (rc_api_url K))) (\<lambda>found.
     io_get (\<lambda>w. map_option (\<lambda>c. persisted_data_key_status R c (wd_device w)) found))"

section \<open>\<open>agent_grants.rs\<close>\<close>

definition build_agent_grant ::
  "'x runtime_ext_scheme \<Rightarrow> symmetric_key \<Rightarrow> bytes \<Rightarrow> work_list_response \<Rightarrow> approve_agent_grant_request act" where
  "build_agent_grant R data_key recipient_public_key wl =
     io_then (io_return (resolve_list_key R data_key (wl_id wl) (ms_work_list_key_ciphertext (wl_membership wl))))
       (\<lambda>list_key.
     io_then (draw R 32) (\<lambda>ephemeral.
     io_then (io_return (encrypt_agent_work_list_key R ephemeral recipient_public_key (wl_id wl) list_key)) (\<lambda>blob.
     io_return (Ok \<lparr> ag_work_list_id = wl_id wl, ag_key_ciphertext = sb_base64 blob,
       ag_permissions = assigned_task_worker \<rparr>))))"

definition build_agent_grants_for_enrollment ::
  "'x runtime_ext_scheme \<Rightarrow> server \<Rightarrow> runtime_client \<Rightarrow> agent_enrollment \<Rightarrow> bool
   \<Rightarrow> approve_agent_grant_request list act" where
  "build_agent_grants_for_enrollment R server K enrollment password_stdin =
     io_then (require_logged_in_credentials R K) (\<lambda>c.
     io_then (load_data_key R server K c password_stdin ''Password required to approve agent access.'') (\<lambda>data_key.
     io_then (io_return (map_err (\<lambda>e. Validation (''invalid recipient public key: '' @ e))
       (b64_nopad_dec R (trim (en_recipient_public_key enrollment))))) (\<lambda>recipient_public_key.
     io_then (require_logged_in_credentials R K) (\<lambda>c.
     io_then (refresh_user_credentials_if_needed R server K c) (\<lambda>c.
     io_then (on_server (list_work_lists R server (with_bearer_token (rc_api_url K) (cr_access_token c)))) (\<lambda>work_lists.
     map_act (build_agent_grant R data_key recipient_public_key)
       (filter (\<lambda>wl. to_ascii_lowercase (ms_role (wl_membership wl)) = ''owner'') work_lists)))))))"

section \<open>\<open>delete_inputs.rs\<close>\<close>

record delete_field_input =
  fi_field :: string
  fi_change_kind :: string
  fi_before_scalar :: "string option"
  fi_after_scalar :: "string option"
  fi_before_ciphertext_digest :: "string option"
  fi_after_ciphertext_digest :: "string option"

record delete_patch_input =
  pi_fields :: "delete_field_input list"
  pi_payload_ciphertext :: string
  pi_payload_ciphertext_proof :: string
  pi_payload_version :: int

text \<open>\<open>DeleteTaskInput\<close> and \<open>DeleteCommentInput\<close> have the same one field.\<close>
record delete_input =
  di_audit_patch :: "delete_patch_input option"

definition delete_field_request :: "delete_field_input \<Rightarrow> audit_patch_field_request" where
  "delete_field_request f = \<lparr> pf_field = fi_field f, pf_change_kind = fi_change_kind f,
     pf_before_scalar = fi_before_scalar f, pf_after_scalar = fi_after_scalar f,
     pf_before_ciphertext_digest = fi_before_ciphertext_digest f,
     pf_after_ciphertext_digest = fi_after_ciphertext_digest f \<rparr>"

definition delete_patch_request :: "delete_patch_input \<Rightarrow> audit_patch_request" where
  "delete_patch_request p = \<lparr> ap_fields = map delete_field_request (pi_fields p),
     ap_payload_ciphertext = pi_payload_ciphertext p,
     ap_payload_ciphertext_proof = pi_payload_ciphertext_proof p, ap_payload_version = pi_payload_version p \<rparr>"

definition delete_input_request :: "delete_input \<Rightarrow> delete_request" where
  "delete_input_request i = \<lparr> dr_audit_patch = map_option delete_patch_request (di_audit_patch i) \<rparr>"

end
