(* ===== verification/Rt_Auth_Thms.thy ===== *)
theory Rt_Auth_Thms
  imports Rt_Client Auth_Storage_Thms
begin

text \<open>The tokens a command uses: a token that the server has replaced is used only once the new one is
  stored.\<close>

text \<open>The request that refreshes.\<close>
definition refresh_call :: "runtime_client \<Rightarrow> credentials \<Rightarrow> http_request" where
  "refresh_call K c = post_json (api_endpoint (rc_api_url K) ''/auth/refresh'') (refresh_request (cr_refresh_token c))"

lemma refresh_access_token_Ok:
  "refresh_access_token A server b token sent = (Ok response, sent') \<Longrightarrow>
     sent' = sent @ [post_json (api_endpoint b ''/auth/refresh'') (refresh_request token)]"
  by (auto simp: refresh_access_token_def io_then_Ok io_return_def send_auth_request_def io_map_err_def transmit_def)

lemma update_with_refresh_Ok:
  "update_credentials_with_refresh A now response c = (Ok (), c') \<Longrightarrow>
     cr_user_id c' = cr_user_id c \<and> cr_api_url c' = cr_api_url c \<and>
     cr_access_token c' = rr_access_token response \<and> cr_refresh_token c' = rr_refresh_token response"
  by (auto simp: update_credentials_with_refresh_def io_then_Ok io_return_def io_modify_def)

lemma join_task_Ok: "join_task R msg m w = (Ok a, w') \<longleftrightarrow> m w = (Ok a, w')"
  by (auto simp: join_task_def split: prod.splits rust_result.splits)

lemma on_device_Ok: "on_device m w = (Ok a, w') \<longleftrightarrow> (\<exists>d. m (wd_device w) = (Ok a, d) \<and> w' = w\<lparr>wd_device := d\<rparr>)"
  by (auto simp: on_device_def split: prod.splits)

lemma on_server_Ok_iff: "on_server m w = (Ok a, w') \<longleftrightarrow> (\<exists>s. m (wd_sent w) = (Ok a, s) \<and> w' = w\<lparr>wd_sent := s\<rparr>)"
  by (auto simp: on_server_def split: prod.splits)

lemma utc_now_Ok: "utc_now R w = (Ok t, w') \<longleftrightarrow> t = utc_clock R (wd_reads w) \<and> w' = w\<lparr>wd_reads := Suc (wd_reads w)\<rparr>"
  by (auto simp: utc_now_def reading_def)

lemma utc_now_then: "io_then (utc_now R) f w = f (utc_clock R (wd_reads w)) (w\<lparr>wd_reads := Suc (wd_reads w)\<rparr>)"
  by (simp add: io_then_def utc_now_def reading_def)

lemma saved_is_loaded:
  assumes "save_credentials W c d = (Ok (), d')" "\<And>v b. credentials_ser W v = Ok b \<Longrightarrow> credentials_de W b = Ok v"
    and "\<And>q. io_fails W (OpenFile q) = None"
  shows "load_credentials W d' = (Ok (Some c), d')"
proof -
  obtain dir b where saved: "config_dir W = Ok dir" "credentials_ser W c = Ok b"
      "dv_files d' (dir @ [''credentials.json'']) = Some \<lparr>fl_bytes = b, fl_mode = SECRET_MODE\<rparr>"
    using save_credentials_Ok [OF assms(1)] by metis
  show ?thesis
    using saved(1) load_config_file_stored [of d' _ _ "credentials_de W" c W, OF saved(3)] assms(2) [OF saved(2)] assms(3)
    by (simp add: load_credentials_def credentials_path_def io_simps)
qed

lemma save_blocking_Ok:
  "io_map (\<lambda>_. c') (save_credentials_blocking R c) w = (Ok c'', w') \<Longrightarrow>
     c'' = c' \<and> save_credentials R c (wd_device w) = (Ok (), wd_device w') \<and> wd_sent w' = wd_sent w"
  by (auto simp: io_map_def save_credentials_blocking_def on_device_def join_task_def
      split: prod.splits rust_result.splits)

lemma refresh_runs:
  assumes "refresh_user_credentials_if_needed R server K c w = (Ok c', w')"
  obtains "access_expires_within R c (utc_clock R (wd_reads w)) 60 = Ok False" "c' = c"
      "wd_device w' = wd_device w" "wd_sent w' = wd_sent w"
    | response now d where "access_expires_within R c (utc_clock R (wd_reads w)) 60 = Ok True"
      "\<not> is_refresh_expired c (utc_clock R (Suc (wd_reads w)))" "wd_sent w' = wd_sent w @ [refresh_call K c]"
      "update_credentials_with_refresh R now response c = (Ok (), c')"
      "save_credentials R c' d = (Ok (), wd_device w')"
proof -
  obtain expires where expires: "access_expires_within R c (utc_clock R (wd_reads w)) 60 = Ok expires"
    using assms unfolding refresh_user_credentials_if_needed_def
    by (elim run_elims) (simp add: utc_now_Ok)
  show thesis
  proof (cases expires)
    case False
    then have "refresh_user_credentials_if_needed R server K c w = (Ok c, w\<lparr>wd_reads := Suc (wd_reads w)\<rparr>)"
      unfolding refresh_user_credentials_if_needed_def utc_now_then expires io_then_return
      by (simp add: io_return_run)
    with assms have "c' = c" "w' = w\<lparr>wd_reads := Suc (wd_reads w)\<rparr>" by simp_all
    then show thesis using that(1) expires False by simp
  next
    case True
    let ?w1 = "w\<lparr>wd_reads := Suc (wd_reads w)\<rparr>" and ?now = "\<lambda>w. utc_clock R (wd_reads w)"
    let ?new = "\<lambda>w response. update_credentials_with_refresh R (?now w) response c"
    have run: "(if is_refresh_expired c (?now ?w1) then io_return (Err (Validation
           (''session expired - run '' @ in_quotes ''worklist auth login'' @ '' to authenticate'')))
         else io_then (io_return (auth_http_client R)) (\<lambda>_.
           io_then (on_server (refresh_access_token R server (rc_api_url K) (cr_refresh_token c))) (\<lambda>response w.
           io_then (io_return (fst (?new w response))) (\<lambda>_.
           io_map (\<lambda>_. snd (?new w response)) (save_credentials_blocking R (snd (?new w response))))
           (w\<lparr>wd_reads := Suc (wd_reads w)\<rparr>)))) (?w1\<lparr>wd_reads := Suc (wd_reads ?w1)\<rparr>) = (Ok c', w')"
      using assms True
      unfolding refresh_user_credentials_if_needed_def case_prod_beta utc_now_then expires io_then_return
      by simp
    obtain response w4 where
        "\<not> is_refresh_expired c (?now ?w1)"
        "on_server (refresh_access_token R server (rc_api_url K) (cr_refresh_token c))
           (?w1\<lparr>wd_reads := Suc (wd_reads ?w1)\<rparr>) = (Ok response, w4)"
        "fst (?new w4 response) = Ok ()"
        "io_map (\<lambda>_. snd (?new w4 response)) (save_credentials_blocking R (snd (?new w4 response)))
           (w4\<lparr>wd_reads := Suc (wd_reads w4)\<rparr>) = (Ok c', w')"
      using run by (elim run_elims) (rule that, (assumption | simp)+)
    note run = this save_blocking_Ok [OF this(4)]
    show thesis
    proof (rule that(2) [of "?now w4" response "wd_device w4"])
      show "update_credentials_with_refresh R (?now w4) response c = (Ok (), c')"
        using run(3,5) by (metis prod.collapse)
    qed (use run expires True in \<open>auto simp: on_server_Ok_iff refresh_call_def dest!: refresh_access_token_Ok\<close>)
  qed
qed

text \<open>C24: Tokens are rotated safely: either the access token lasts another minute, and nothing is sent or
  stored, or exactly one request exchanges the refresh token, unless that has expired too, and the
  credentials the command goes on with are stored on the device, for the same account; credentials
  that could not be stored are never used.\<close>
theorem refreshed_credentials_stored:
  assumes "\<And>v b. credentials_ser R v = Ok b \<Longrightarrow> credentials_de R b = Ok v" "\<And>q. io_fails R (OpenFile q) = None"
    and "refresh_user_credentials_if_needed R server K c w = (Ok c', w')"
  shows "(access_expires_within R c (utc_clock R (wd_reads w)) 60 = Ok False \<and> c' = c \<and>
      wd_device w' = wd_device w \<and> wd_sent w' = wd_sent w) \<or>
    (access_expires_within R c (utc_clock R (wd_reads w)) 60 = Ok True \<and>
      \<not> is_refresh_expired c (utc_clock R (Suc (wd_reads w))) \<and>
      wd_sent w' = wd_sent w @ [refresh_call K c] \<and>
      load_credentials R (wd_device w') = (Ok (Some c'), wd_device w') \<and>
      cr_user_id c' = cr_user_id c \<and> cr_api_url c' = cr_api_url c)"
  using assms(3)
proof (cases rule: refresh_runs)
  case (2 response now d)
  from saved_is_loaded [OF 2(5) assms(1,2)] 2 update_with_refresh_Ok [OF 2(4)] show ?thesis by blast
qed blast

end
