(* ===== verification/Rt_Tasks.thy ===== *)
theory Rt_Tasks
  imports Rt_Client
begin

text \<open>The operations of the client on work lists, tasks and comments: \<open>tasks.rs\<close>, \<open>comments.rs\<close> and
  \<open>work_lists.rs\<close> of \<open>crates/client-runtime\<close>.  The fields of an argument structure are parameters; the nonce of a sealing is 12 random bytes drawn before it.\<close>

section \<open>Contexts\<close>

definition load_work_list_context ::
  "'x runtime_ext_scheme \<Rightarrow> server \<Rightarrow> runtime_client \<Rightarrow> uuid \<Rightarrow> bool \<Rightarrow> string
   \<Rightarrow> (api_client \<times> work_list_context) act" where
  "load_work_list_context R server K wid password_stdin prompt_message =
     io_then (load_principal_work_list_key_source R server K password_stdin prompt_message) (\<lambda>source.
     io_then (authenticated_api_client R server K) (\<lambda>client.
     io_then (on_server (get_work_list R server client wid)) (\<lambda>detail.
     io_return (map_ok (Pair client) (context_from_work_list_response R (wd_work_list detail) (Some source))))))"

definition require_work_list_key :: "work_list_context \<Rightarrow> symmetric_key public_result" where
  "require_work_list_key context =
     ok_or (read_error_to_public_error (lc_read_error context) ''failed to resolve work list key'')
       (lc_list_key context)"

text \<open>A hash map: a later entry of an identifier replaces an earlier one.\<close>
definition build_work_list_contexts ::
  "'x client_ext_scheme \<Rightarrow> work_list_response list \<Rightarrow> key_source option
   \<Rightarrow> (uuid \<rightharpoonup> work_list_context) public_result" where
  "build_work_list_contexts X work_lists source =
     map_ok (\<lambda>entries. map_of (rev entries))
       (map_result (\<lambda>wl. map_ok (Pair (wl_id wl)) (context_from_work_list_response X wl source)) work_lists)"

section \<open>Projections\<close>

definition project_task_summary ::
  "'x runtime_ext_scheme \<Rightarrow> work_list_context option \<Rightarrow> task_response \<Rightarrow> task_summary public_result" where
  "project_task_summary R context task =
     project_task R
       \<lparr> tm_id = tk_id task, tm_work_list_id = tk_work_list_id task,
         tm_work_list_title = Option.bind context lc_work_list_title,
         tm_created_by_membership_id = tk_created_by_membership_id task, tm_section_id = tk_section_id task,
         tm_priority = tk_priority task, tm_position = Some (tk_position task), tm_due_at = tk_due_at task,
         tm_start_at = tk_start_at task, tm_completed_at = tk_completed_at task,
         tm_archived_at = tk_archived_at task, tm_is_completed = tk_is_completed task,
         tm_recurrence_id = tk_recurrence_id task, tm_recurrence_schedule = tk_recurrence_schedule task,
         tm_recurrence_iteration = tk_recurrence_iteration task, tm_materialized_at = tk_materialized_at task,
         tm_created_at = tk_created_at task, tm_updated_at = tk_updated_at task,
         tm_comment_count = tk_comment_count task \<rparr>
       (tk_delegations task) (tk_title_ciphertext task) (tk_payload_ciphertext task)
       (Option.bind context lc_list_key) (Option.bind context lc_read_error)"

definition project_my_task_summary ::
  "'x runtime_ext_scheme \<Rightarrow> work_list_context option \<Rightarrow> my_task_response \<Rightarrow> task_summary public_result" where
  "project_my_task_summary R context task =
     and_then (option_then (Option.bind context lc_list_key) (\<lambda>k.
       decode_work_list_title_fallback R (mk_work_list_title_ciphertext task) k (mk_work_list_id task)))
       (\<lambda>fallback_title.
     project_task R
       \<lparr> tm_id = mk_id task, tm_work_list_id = mk_work_list_id task,
         tm_work_list_title = or_option (Option.bind context lc_work_list_title) fallback_title,
         tm_created_by_membership_id = mk_created_by_membership_id task, tm_section_id = mk_section_id task,
         tm_priority = mk_priority task, tm_position = None, tm_due_at = mk_due_at task,
         tm_start_at = mk_start_at task, tm_completed_at = mk_completed_at task, tm_archived_at = None,
         tm_is_completed = mk_is_completed task, tm_recurrence_id = None, tm_recurrence_schedule = None,
         tm_recurrence_iteration = None, tm_materialized_at = None, tm_created_at = mk_created_at task,
         tm_updated_at = mk_updated_at task, tm_comment_count = mk_comment_count task \<rparr>
       (mk_delegations task) (mk_title_ciphertext task) (mk_payload_ciphertext task)
       (Option.bind context lc_list_key) (Option.bind context lc_read_error))"

text \<open>The end of \<open>get_task\<close> and \<open>accept_task_assignment\<close>.\<close>
definition project_task_detail ::
  "'x runtime_ext_scheme \<Rightarrow> work_list_context \<Rightarrow> task_detail_response \<Rightarrow> task_detail public_result" where
  "project_task_detail R context detail =
     and_then (project_task_summary R (Some context) (td_task detail)) (\<lambda>task.
     map_ok (\<lambda>comments. \<lparr> tl_task = task, tl_comments = comments \<rparr>)
       (map_result (\<lambda>c. project_comment R c (lc_list_key context)) (td_comments detail)))"

section \<open>Work lists\<close>

definition runtime_list_work_lists ::
  "'x runtime_ext_scheme \<Rightarrow> server \<Rightarrow> runtime_client \<Rightarrow> bool \<Rightarrow> work_list_summary list act" where
  "runtime_list_work_lists R server K password_stdin =
     io_then (load_principal_work_list_key_source R server K password_stdin
       ''Password required to decrypt work lists.'') (\<lambda>source.
     io_then (authenticated_api_client R server K) (\<lambda>client.
     io_then (on_server (list_work_lists R server client)) (\<lambda>lists.
     io_return (map_result (\<lambda>wl. project_work_list_summary R wl (Some source)) lists))))"

definition runtime_get_work_list ::
  "'x runtime_ext_scheme \<Rightarrow> server \<Rightarrow> runtime_client \<Rightarrow> uuid \<Rightarrow> bool \<Rightarrow> work_list_detail act" where
  "runtime_get_work_list R server K wid password_stdin =
     io_then (load_principal_work_list_key_source R server K password_stdin
       ''Password required to decrypt work list data.'') (\<lambda>source.
     io_then (authenticated_api_client R server K) (\<lambda>client.
     io_then (on_server (get_work_list R server client wid)) (\<lambda>detail.
     io_return (project_work_list_detail R detail (Some source)))))"

section \<open>Tasks\<close>

definition list_tasks ::
  "'x runtime_ext_scheme \<Rightarrow> server \<Rightarrow> runtime_client \<Rightarrow> uuid option \<Rightarrow> bool \<Rightarrow> bool \<Rightarrow> bool \<Rightarrow> task_summary list act"
  where
  "list_tasks R server K work_list_id include_completed all_lists password_stdin =
     io_then (load_principal_work_list_key_source R server K password_stdin
       ''Password required to decrypt task data.'') (\<lambda>source.
     io_then (authenticated_api_client R server K) (\<lambda>client.
     case (if all_lists then None else work_list_id) of
       Some wid \<Rightarrow>
         io_then (on_server (get_work_list R server client wid)) (\<lambda>detail.
         io_then (io_return (context_from_work_list_response R (wd_work_list detail) (Some source))) (\<lambda>context.
         io_then (on_server (get_tasks R server client wid False)) (\<lambda>response.
         io_return (map_result (project_task_summary R (Some context))
           (filter (\<lambda>task. include_completed \<or> \<not> tk_is_completed task) (tl_tasks response))))))
     | None \<Rightarrow>
         io_then (on_server (list_work_lists R server client)) (\<lambda>work_lists.
         io_then (io_return (build_work_list_contexts R work_lists (Some source))) (\<lambda>contexts.
         io_then (on_server (get_all_my_tasks R server client include_completed)) (\<lambda>tasks.
         io_return (map_result (\<lambda>task. project_my_task_summary R (contexts (mk_work_list_id task)) task) tasks))))))"

definition get_task ::
  "'x runtime_ext_scheme \<Rightarrow> server \<Rightarrow> runtime_client \<Rightarrow> uuid \<Rightarrow> uuid \<Rightarrow> bool \<Rightarrow> task_detail act" where
  "get_task R server K wid tid password_stdin =
     io_then (load_work_list_context R server K wid password_stdin
       ''Password required to decrypt task data.'') (\<lambda>(client, context).
     io_then (on_server (api_get_task R server client wid tid)) (\<lambda>detail.
     io_return (project_task_detail R context detail)))"

text \<open>The delegation that assigns the task to an agent.\<close>
definition assignee_delegation :: "uuid \<Rightarrow> task_response \<Rightarrow> delegation_response option" where
  "assignee_delegation agent_id task =
     find (\<lambda>d. dg_target d = DelegateAgent agent_id \<and> dg_role d = RoleAssignee) (tk_delegations task)"

definition reload_error :: "'x client_ext_scheme \<Rightarrow> uuid \<Rightarrow> public_error \<Rightarrow> public_error" where
  "reload_error X tid e =
     (let message = ''accepted task assignment but failed to reload task '' @ uuid_display X tid @ '': '' @
        public_display e in
      case e of
        Validation _ \<Rightarrow> Validation message
      | Crypto _ \<Rightarrow> Crypto message
      | Unexpected _ \<Rightarrow> Unexpected message)"

text \<open>\<open>accept_task_assignment\<close>, once the agent is known, on a task fetched from the server.\<close>
definition accept_delegation ::
  "'x runtime_ext_scheme \<Rightarrow> server \<Rightarrow> api_client \<Rightarrow> work_list_context \<Rightarrow> uuid \<Rightarrow> uuid \<Rightarrow> uuid
   \<Rightarrow> task_detail_response \<Rightarrow> task_detail act" where
  "accept_delegation R server client context wid tid agent_id detail =
     io_then (io_return (ok_or (Validation ''no assignee delegation exists for this agent'')
       (assignee_delegation agent_id (td_task detail)))) (\<lambda>delegation.
     let already_accepted = (dg_status delegation = StatusAccepted) in
     io_then (if already_accepted then io_return (Ok ())
       else io_map (\<lambda>_. ()) (on_server (update_delegation R server client wid tid (dg_id delegation)
         \<lparr> ud_status = Some StatusAccepted \<rparr>))) (\<lambda>_.
     io_then (if already_accepted then io_return (Ok detail)
       else io_map_err (reload_error R tid) (on_server (api_get_task R server client wid tid))) (\<lambda>detail.
     io_return (project_task_detail R context detail))))"

definition accept_task_assignment ::
  "'x runtime_ext_scheme \<Rightarrow> server \<Rightarrow> runtime_client \<Rightarrow> uuid \<Rightarrow> uuid \<Rightarrow> bool \<Rightarrow> task_detail act" where
  "accept_task_assignment R server K wid tid password_stdin =
     io_then (require_principal_credentials R K) (\<lambda>principal.
     io_then (io_return (case principal of
         AgentPrincipal c \<Rightarrow> Ok (ac_agent_id c)
       | UserPrincipal _ \<Rightarrow> Err (Validation ''agent credentials required to accept a task assignment''))) (\<lambda>agent_id.
     io_then (load_work_list_context R server K wid password_stdin
       ''Password required to decrypt accepted task data.'') (\<lambda>(client, context).
     io_then (on_server (api_get_task R server client wid tid))
       (accept_delegation R server client context wid tid agent_id))))"

text \<open>\<open>resolve_task_attachment_download\<close>, with the two operations that use it.\<close>
definition resolve_task_attachment_download ::
  "'x runtime_ext_scheme \<Rightarrow> server \<Rightarrow> runtime_client \<Rightarrow> uuid \<Rightarrow> uuid \<Rightarrow> uuid \<Rightarrow> bool \<Rightarrow> resolved_download act" where
  "resolve_task_attachment_download R server K wid tid attachment_id password_stdin =
     io_then (load_work_list_context R server K wid password_stdin
       ''Password required to decrypt attachment data.'') (\<lambda>(client, context).
     io_then (io_return (require_work_list_key context)) (\<lambda>list_key.
     io_then (on_server (api_get_task R server client wid tid)) (\<lambda>detail.
     io_then (io_return (project_task_summary R (Some context) (td_task detail))) (\<lambda>task.
     io_then (io_return (find_task_attachment R task attachment_id)) (\<lambda>attachment.
     io_then (io_return (map_err (\<lambda>e. Validation (''failed to decode attachment blob key: '' @ public_display e))
       (decode_attachment_blob_key R list_key (aa_blob_key attachment)))) (\<lambda>blob_ref.
     io_map (\<lambda>download. \<lparr> rl_attachment = attachment, rl_blob_ref = blob_ref, rl_download = download \<rparr>)
       (on_server (get_attachment_download R server client wid attachment_id))))))))"

definition read_task_attachment ::
  "'x runtime_ext_scheme \<Rightarrow> server \<Rightarrow> runtime_client \<Rightarrow> uuid \<Rightarrow> uuid \<Rightarrow> uuid \<Rightarrow> bool \<Rightarrow> readable_attachment act" where
  "read_task_attachment R server K wid tid attachment_id password_stdin =
     io_then (resolve_task_attachment_download R server K wid tid attachment_id password_stdin) (\<lambda>resolved.
     let strategy = attachment_read_strategy (rl_attachment resolved) in
     if strategy = UnsupportedRead then
       io_return (Err (unsupported_attachment_read_error (aa_file_name (rl_attachment resolved))))
     else
       io_then (io_return (download_and_decrypt_attachment R resolved)) (\<lambda>d.
       io_return (build_readable_attachment R (da_attachment d) (da_bytes d) strategy)))"

definition download_task_attachment ::
  "'x runtime_ext_scheme \<Rightarrow> server \<Rightarrow> runtime_client \<Rightarrow> uuid \<Rightarrow> uuid \<Rightarrow> uuid \<Rightarrow> bool \<Rightarrow> downloaded_attachment act" where
  "download_task_attachment R server K wid tid attachment_id password_stdin =
     io_then (resolve_task_attachment_download R server K wid tid attachment_id password_stdin) (\<lambda>resolved.
     io_return (download_and_decrypt_attachment R resolved))"

definition new_task_body :: "string \<Rightarrow> string option \<Rightarrow> task_body" where
  "new_task_body title body =
     \<lparr> tb_title = title, tb_rich_text = Option.bind body plaintext_rich_text, tb_checklist = None,
       tb_attachments = None, tb_references = None, tb_mentions = None, tb_client_meta = None,
       tb_recurrence_state = None \<rparr>"

definition create_task ::
  "'x runtime_ext_scheme \<Rightarrow> server \<Rightarrow> runtime_client \<Rightarrow> uuid \<Rightarrow> string \<Rightarrow> string option \<Rightarrow> bool \<Rightarrow> task_summary act"
  where
  "create_task R server K wid title body password_stdin =
     io_then (load_work_list_context R server K wid password_stdin
       ''Password required to create encrypted task payloads.'') (\<lambda>(client, context).
     io_then (io_return (require_work_list_key context)) (\<lambda>list_key.
     io_then (io_return (derive_payload_binding_key R list_key)) (\<lambda>binding_key.
     let normalized_title = trim title in
     if normalized_title = [] then io_return (Err (Validation ''title is required'')) else
     io_then (draw R 12) (\<lambda>nonce.
     io_then (io_return (encrypt_task_payload R
       (build_task_payload_envelope (new_task_body normalized_title body) 1) list_key nonce)) (\<lambda>payload_ciphertext.
     io_then (draw R 16) (\<lambda>tid.
     io_then (draw R 12) (\<lambda>nonce.
     io_then (io_return (seal_task_title_for_id R normalized_title list_key nonce tid)) (\<lambda>title_ciphertext.
     io_then (io_return (compute_payload_proof R (sb_bytes payload_ciphertext) binding_key)) (\<lambda>payload_proof.
     io_then (io_return (compute_payload_proof R (sb_bytes title_ciphertext) binding_key)) (\<lambda>title_proof.
     io_then (on_server (api_create_task R server client wid
       \<lparr> ct_task_id = Some tid, ct_title_ciphertext = sb_base64 title_ciphertext,
         ct_title_ciphertext_proof = title_proof, ct_payload_ciphertext = sb_base64 payload_ciphertext,
         ct_payload_ciphertext_proof = payload_proof, ct_attachment_ids = [], ct_priority = None,
         ct_due_at = None, ct_section_id = None \<rparr>)) (\<lambda>created.
     io_return (project_task_summary R (Some context) created))))))))))))"

text \<open>The body of an updated task: what the input does not give is kept.\<close>
definition updated_title :: "string option \<Rightarrow> task_body \<Rightarrow> string" where
  "updated_title title existing =
     (case title of
        Some t \<Rightarrow> if trim t \<noteq> [] then trim t else tb_title existing
      | None \<Rightarrow> tb_title existing)"

definition updated_rich_text :: "string option \<Rightarrow> task_body \<Rightarrow> rich_text option" where
  "updated_rich_text body existing =
     (case body of
        Some v \<Rightarrow> if trim v = [] then None else plaintext_rich_text v
      | None \<Rightarrow> tb_rich_text existing)"

definition updated_task_body :: "string option \<Rightarrow> string option \<Rightarrow> task_body \<Rightarrow> task_body" where
  "updated_task_body title body existing =
     \<lparr> tb_title = updated_title title existing, tb_rich_text = updated_rich_text body existing,
       tb_checklist = tb_checklist existing, tb_attachments = tb_attachments existing,
       tb_references = tb_references existing, tb_mentions = tb_mentions existing,
       tb_client_meta = tb_client_meta existing, tb_recurrence_state = tb_recurrence_state existing \<rparr>"

text \<open>The title of the request, where one is given.\<close>
definition with_updated_title ::
  "'x runtime_ext_scheme \<Rightarrow> symmetric_key \<Rightarrow> symmetric_key \<Rightarrow> uuid \<Rightarrow> string option \<Rightarrow> update_task_request
   \<Rightarrow> update_task_request act" where
  "with_updated_title R list_key binding_key tid title request =
     (case title of
        None \<Rightarrow> io_return (Ok request)
      | Some new_title \<Rightarrow>
          let normalized_title = trim new_title in
          if normalized_title = [] then io_return (Err (Validation ''title cannot be empty'')) else
          io_then (draw R 12) (\<lambda>nonce.
          io_then (io_return (seal_task_title_for_id R normalized_title list_key nonce tid)) (\<lambda>title_ciphertext.
          io_then (io_return (compute_payload_proof R (sb_bytes title_ciphertext) binding_key)) (\<lambda>title_proof.
          io_return (Ok (request\<lparr> ut_title_ciphertext := Some (sb_base64 title_ciphertext),
            ut_title_ciphertext_proof := Some title_proof \<rparr>))))))"

definition update_task ::
  "'x runtime_ext_scheme \<Rightarrow> server \<Rightarrow> runtime_client \<Rightarrow> uuid \<Rightarrow> uuid \<Rightarrow> string option \<Rightarrow> string option \<Rightarrow> bool
   \<Rightarrow> task_summary act" where
  "update_task R server K wid tid title body password_stdin =
     io_then (load_work_list_context R server K wid password_stdin
       ''Password required to update encrypted task payloads.'') (\<lambda>(client, context).
     io_then (io_return (require_work_list_key context)) (\<lambda>list_key.
     io_then (io_return (derive_payload_binding_key R list_key)) (\<lambda>binding_key.
     io_then (on_server (api_get_task R server client wid tid)) (\<lambda>detail.
     io_then (io_return (decode_sealed_blob R (tk_payload_ciphertext (td_task detail)))) (\<lambda>existing_bytes.
     io_then (io_return (decrypt_task_payload R list_key existing_bytes)) (\<lambda>existing_payload.
     if title = None \<and> body = None then
       io_return (Err (Validation ''provide at least one of --title or --body'')) else
     io_then (draw R 12) (\<lambda>nonce.
     io_then (io_return (encrypt_task_payload R
       (build_task_payload_envelope (updated_task_body title body (te_body existing_payload)) 1) list_key nonce))
       (\<lambda>payload_ciphertext.
     io_then (io_return (compute_payload_proof R (sb_bytes payload_ciphertext) binding_key)) (\<lambda>payload_proof.
     let request = update_task_default
           \<lparr> ut_payload_ciphertext := Some (sb_base64 payload_ciphertext),
             ut_payload_ciphertext_proof := Some payload_proof \<rparr> in
     io_then (with_updated_title R list_key binding_key tid title request) (\<lambda>request.
     io_then (on_server (api_update_task R server client wid tid request)) (\<lambda>updated.
     io_return (project_task_summary R (Some context) updated))))))))))))"

definition move_task ::
  "'x runtime_ext_scheme \<Rightarrow> server \<Rightarrow> runtime_client \<Rightarrow> uuid \<Rightarrow> uuid \<Rightarrow> uuid option \<Rightarrow> uuid option \<Rightarrow> bool
   \<Rightarrow> task_summary act" where
  "move_task R server K wid tid section_id insert_before password_stdin =
     io_then (load_work_list_context R server K wid password_stdin
       ''Password required to decrypt moved task data.'') (\<lambda>(client, context).
     io_then (on_server (api_move_task R server client wid tid
       \<lparr> mv_section_id = section_id, mv_insert_before_task_id = insert_before \<rparr>)) (\<lambda>moved.
     io_return (project_task_summary R (Some context) moved)))"

definition archive_task ::
  "'x runtime_ext_scheme \<Rightarrow> server \<Rightarrow> runtime_client \<Rightarrow> uuid \<Rightarrow> uuid \<Rightarrow> bool \<Rightarrow> task_summary act" where
  "archive_task R server K wid tid password_stdin =
     io_then (load_work_list_context R server K wid password_stdin
       ''Password required to decrypt archived task data.'') (\<lambda>(client, context).
     io_then (on_server (api_archive_task R server client wid tid)) (\<lambda>archived.
     io_return (project_task_summary R (Some context) archived)))"

definition unarchive_task ::
  "'x runtime_ext_scheme \<Rightarrow> server \<Rightarrow> runtime_client \<Rightarrow> uuid \<Rightarrow> uuid \<Rightarrow> bool \<Rightarrow> task_summary act" where
  "unarchive_task R server K wid tid password_stdin =
     io_then (load_work_list_context R server K wid password_stdin
       ''Password required to decrypt unarchived task data.'') (\<lambda>(client, context).
     io_then (on_server (api_unarchive_task R server client wid tid)) (\<lambda>unarchived.
     io_return (project_task_summary R (Some context) unarchived)))"

definition delete_task ::
  "'x runtime_ext_scheme \<Rightarrow> server \<Rightarrow> runtime_client \<Rightarrow> uuid \<Rightarrow> uuid \<Rightarrow> delete_input \<Rightarrow> unit act" where
  "delete_task R server K wid tid input =
     io_then (authenticated_api_client R server K) (\<lambda>client.
     on_server (api_delete_task R server client wid tid (delete_input_request input)))"

section \<open>Comments\<close>

definition list_comments ::
  "'x runtime_ext_scheme \<Rightarrow> server \<Rightarrow> runtime_client \<Rightarrow> uuid \<Rightarrow> uuid \<Rightarrow> bool \<Rightarrow> agent_comment list act" where
  "list_comments R server K wid tid password_stdin =
     io_then (load_work_list_context R server K wid password_stdin
       ''Password required to decrypt task comments.'') (\<lambda>(client, context).
     io_then (on_server (api_list_comments R server client wid tid)) (\<lambda>comments.
     io_return (map_result (\<lambda>c. project_comment R c (lc_list_key context)) comments)))"

definition new_comment_body :: "rich_text \<Rightarrow> comment_body" where
  "new_comment_body content =
     \<lparr> cb_content = content, cb_mentions = None, cb_attachments = None, cb_client_meta = None \<rparr>"

text \<open>The content of a comment from the text given.\<close>
definition comment_content :: "string \<Rightarrow> rich_text public_result" where
  "comment_content body =
     (let normalized_body = trim body in
      if normalized_body = [] then Err (Validation ''comment body is required'')
      else ok_or (Validation ''comment body is required'') (plaintext_rich_text normalized_body))"

definition create_comment ::
  "'x runtime_ext_scheme \<Rightarrow> server \<Rightarrow> runtime_client \<Rightarrow> uuid \<Rightarrow> uuid \<Rightarrow> string \<Rightarrow> bool \<Rightarrow> agent_comment act" where
  "create_comment R server K wid tid body password_stdin =
     io_then (load_work_list_context R server K wid password_stdin
       ''Password required to create encrypted comments.'') (\<lambda>(client, context).
     io_then (io_return (require_work_list_key context)) (\<lambda>list_key.
     io_then (io_return (derive_payload_binding_key R list_key)) (\<lambda>binding_key.
     io_then (io_return (comment_content body)) (\<lambda>content.
     io_then (draw R 12) (\<lambda>nonce.
     io_then (io_return (encrypt_comment_payload R (build_comment_payload_envelope (new_comment_body content) 1)
       list_key nonce)) (\<lambda>body_ciphertext.
     io_then (io_return (compute_payload_proof R (sb_bytes body_ciphertext) binding_key)) (\<lambda>body_proof.
     io_then (on_server (api_create_comment R server client wid tid
       \<lparr> cc_body_ciphertext = sb_base64 body_ciphertext, cc_body_ciphertext_proof = body_proof \<rparr>)) (\<lambda>created.
     io_return (project_comment R created (Some list_key))))))))))"

definition update_comment ::
  "'x runtime_ext_scheme \<Rightarrow> server \<Rightarrow> runtime_client \<Rightarrow> uuid \<Rightarrow> uuid \<Rightarrow> uuid \<Rightarrow> string \<Rightarrow> bool \<Rightarrow> agent_comment act"
  where
  "update_comment R server K wid tid cid body password_stdin =
     io_then (load_work_list_context R server K wid password_stdin
       ''Password required to update encrypted comments.'') (\<lambda>(client, context).
     io_then (io_return (require_work_list_key context)) (\<lambda>list_key.
     io_then (io_return (derive_payload_binding_key R list_key)) (\<lambda>binding_key.
     io_then (io_return (comment_content body)) (\<lambda>content.
     io_then (on_server (api_get_task R server client wid tid)) (\<lambda>detail.
     io_then (io_return (ok_or (Validation ''comment not found'')
       (find (\<lambda>c. cm_id c = cid) (td_comments detail)))) (\<lambda>existing.
     io_then (io_return (decode_sealed_blob R (cm_body_ciphertext existing))) (\<lambda>existing_bytes.
     io_then (io_return (decrypt_comment_payload R list_key existing_bytes)) (\<lambda>existing_payload.
     io_then (draw R 12) (\<lambda>nonce.
     io_then (io_return (encrypt_comment_payload R
       (build_comment_payload_envelope ((ce_body existing_payload)\<lparr> cb_content := content \<rparr>) 1)
       list_key nonce)) (\<lambda>body_ciphertext.
     io_then (io_return (compute_payload_proof R (sb_bytes body_ciphertext) binding_key)) (\<lambda>body_proof.
     io_then (on_server (api_update_comment R server client wid tid cid
       \<lparr> uc_body_ciphertext = Some (sb_base64 body_ciphertext), uc_body_ciphertext_proof = Some body_proof \<rparr>))
       (\<lambda>updated.
     io_return (project_comment R updated (Some list_key))))))))))))))"

definition delete_comment ::
  "'x runtime_ext_scheme \<Rightarrow> server \<Rightarrow> runtime_client \<Rightarrow> uuid \<Rightarrow> uuid \<Rightarrow> uuid \<Rightarrow> delete_input \<Rightarrow> unit act" where
  "delete_comment R server K wid tid cid input =
     io_then (authenticated_api_client R server K) (\<lambda>client.
     on_server (api_delete_comment R server client wid tid cid (delete_input_request input)))"

end
