(* ===== verification/Rt_Task_Thms.thy ===== *)
theory Rt_Task_Thms
  imports Rt_Tasks
begin

text \<open>What the client writes, it reads: a created or updated task as the client shows it, and the fields an
  update leaves alone.\<close>

section \<open>Trimming\<close>

lemma trim_front_no_start:
  "w \<in> set ws \<Longrightarrow> w \<noteq> [] \<Longrightarrow> \<not> starts_with (trim_front ws s) w"
proof (induction ws s rule: trim_front.induct)
  case (1 ws s)
  show ?case
  proof (cases "find (\<lambda>w. w \<noteq> [] \<and> starts_with s w) ws")
    case None
    moreover have "\<not> starts_with s w" using None [unfolded find_None_iff] 1(2,3) by blast
    ultimately show ?thesis by (simp add: trim_front.simps [of ws s])
  next
    case (Some v)
    then show ?thesis using 1 by (simp add: trim_front.simps [of ws s])
  qed
qed

lemma trim_end_prefix: "\<exists>t. s = trim_end s @ t"
  by (metis rev_append rev_rev_ident trim_end_def trim_front_suffix)

lemma trim_idem [simp]: "trim (trim s) = trim s"
proof -
  let ?s = "trim_start s"
  have "trim_start (trim_end ?s) = trim_end ?s"
  proof (rule trim_start_noop)
    fix w assume w: "w \<in> set ws_encodings" "w \<noteq> []"
    obtain t where "?s = trim_end ?s @ t" using trim_end_prefix by blast
    moreover have "\<not> starts_with ?s w" unfolding trim_start_def by (rule trim_front_no_start [OF w])
    ultimately show "\<not> starts_with (trim_end ?s) w"
      by (metis append.assoc starts_with_iff)
  qed
  moreover have "trim_end (trim_end t) = trim_end t" for t by (simp add: trim_end_def trim_front_idem)
  ultimately show ?thesis by (simp add: trim_def)
qed

section \<open>Keys and blobs\<close>

lemma work_list_key_wf:
  assumes "box_laws X" "resolve_work_list_key X source wid c = Ok k" shows "sym_wf k"
proof -
  have derived: "derive_work_list_key X dk wid = Ok k \<Longrightarrow> sym_wf k" for dk
    using hkdf_new_expand_total [of X "sym_bytes dk" "str_bytes (''worklist:'' @ uuid_display X wid)"] assms(1)
    by (auto simp: derive_work_list_key_def derive_child_key_def box_laws_def)
  show ?thesis using assms(2) derived
    by (auto simp: resolve_work_list_key_def resolve_list_key_def decrypt_work_list_key_def decrypt_grant_eq_Ok
        split: key_source.splits if_splits dest: symmetric_key_from_bytes_wf)
qed

lemma match_result_Ok:
  "match_result r f g = Ok b \<longleftrightarrow> (\<exists>a. r = Ok a \<and> f a = Ok b) \<or> (\<exists>e. r = Err e \<and> g e = Ok b)"
  by (cases r) auto

lemma context_key_wf:
  assumes "box_laws X" "context_from_work_list_response X wl (Some source) = Ok c" "lc_list_key c = Some k"
  shows "sym_wf k"
  using assms(2,3) work_list_key_wf [OF assms(1)]
  by (auto simp: context_from_work_list_response_def match_result_Ok unreadable_work_list_context_def Let_def
      split: option.splits)

lemma loaded_key_wf:
  assumes "box_laws R" "load_work_list_context R server K wid b msg w = (Ok (client, c), w')"
    and "require_work_list_key c = Ok k"
  shows "sym_wf k" "lc_list_key c = Some k"
proof -
  show key: "lc_list_key c = Some k" using assms(3) by (simp add: require_work_list_key_def)
  obtain wl source where "context_from_work_list_response R wl (Some source) = Ok c"
    using assms(2) by (auto simp: load_work_list_context_def io_then_Ok io_return_def)
  then show "sym_wf k" using context_key_wf [OF assms(1)] key by blast
qed

lemma sealed_payload_nonempty:
  assumes "\<forall>p. codec_reads (sealed_payload_codec X) p" "enc (sealed_payload_codec X) p = Ok b"
  shows "b \<noteq> []"
proof
  assume "b = []"
  define q where "q = p\<lparr>sp_version := sp_version p + 1\<rparr>"
  obtain c where c: "enc (sealed_payload_codec X) q = Ok c"
    using assms(1) by (auto simp: codec_reads_def)
  have "dec (sealed_payload_codec X) ([] @ c) = Ok (p, 0)"
    using codec_dec_enc(1) [OF _ assms(2), of c] assms(1) \<open>b = []\<close> by simp
  moreover have "dec (sealed_payload_codec X) c = Ok (q, length c)"
    using codec_dec_enc(2) [OF _ c] assms(1) by simp
  ultimately have "p = q" by simp
  then have "sp_version p = sp_version p + 1" unfolding q_def by (metis sealed_payload.select_convs(1) sealed_payload.surjective sealed_payload.update_convs(1))
  then show False by simp
qed

text \<open>What the codecs and the base64 code are relied on for.\<close>
definition wire_laws :: "'x client_ext_scheme \<Rightarrow> bool" where
  "wire_laws X \<longleftrightarrow> box_laws X \<and> b64_laws X \<and> (\<forall>p. codec_reads (sealed_payload_codec X) p)"

lemma blob_decodes:
  assumes "wire_laws X" "sym_wf key" "encrypt_sealed_payload X c v key nonce ctx err = Ok blob"
  shows "decode_sealed_blob X (sb_base64 blob) = Ok (sb_bytes blob)"
proof -
  have laws: "box_laws X" "b64_laws X" "\<forall>p. codec_reads (sealed_payload_codec X) p"
    using assms(1) by (simp_all add: wire_laws_def)
  obtain plaintext ct where parts: "enc (sealed_payload_codec X) (sealed_payload_new ct) = Ok (sb_bytes blob)"
      "sb_base64 blob = b64_nopad_enc X (sb_bytes blob)"
    by (rule encrypt_sealed_payload_parts [OF laws(1) assms(2,3)])
  show ?thesis
    using decode_base64_enc [OF laws(2) sealed_payload_nonempty [OF laws(3) parts(1)]] parts(2)
    by (simp add: decode_sealed_blob_def)
qed

lemma task_payload_opens:
  assumes "wire_laws X" "sym_wf key" "length nonce = 12"
    and "codec_reads (task_codec X) (build_task_payload_envelope body v)"
    and "encrypt_task_payload X (build_task_payload_envelope body v) key nonce = Ok blob"
  shows "and_then (decode_sealed_blob X (sb_base64 blob)) (decrypt_task_payload X key) =
    Ok \<lparr> te_kind = ''task'', te_version = v, te_body = body \<rparr>"
proof -
  note laws = assms(1) [unfolded wire_laws_def]
  have "decrypt_task_payload X key (sb_bytes blob) = Ok (build_task_payload_envelope body v)"
    unfolding decrypt_task_payload_def
    by (rule sealed_round_trip) (use assms laws in \<open>auto simp: encrypt_task_payload_def\<close>)
  then show ?thesis using blob_decodes [OF assms(1,2) assms(5) [unfolded encrypt_task_payload_def]]
    by (simp add: build_task_payload_envelope_def)
qed

lemma task_payload_decoded:
  "decrypt_task_payload X k stored = Ok e \<Longrightarrow> \<exists>encoded n. dec (task_codec X) encoded = Ok (e, n)"
  by (auto simp: decrypt_task_payload_def decrypt_sealed_payload_def deserialize_from_cbor_def split: if_splits)

section \<open>Projected tasks\<close>

lemma project_task_readable:
  assumes "project_task R m ds title_ct payload_ct (Some k) e = Ok s"
    and "and_then (decode_sealed_blob R payload_ct) (decrypt_task_payload R k) = Ok payload"
  shows "readable_task R m (map project_delegation ds) (te_body payload) = Ok s"
  using assms by (simp add: project_task_def Let_def del: and_then_eq_Ok) (metis and_then_eq_Ok match_result.simps(1))

lemma readable_task_fields:
  assumes "readable_task R m ds b = Ok s"
  shows "ts_title s = Some (tb_title b)" "ts_body_rich_text s = tb_rich_text b"
    "ts_body_markdown s = Option.bind (tb_rich_text b) rich_text_to_markdown" "ts_checklist s = tb_checklist b"
    "ts_mentions s = tb_mentions b" "ts_references s = map_option (map (flexible_value_to_json R)) (tb_references b)"
    "ts_client_meta s = map_option (flexible_value_to_json R) (tb_client_meta b)"
    "ts_recurrence_state s = map_option (flexible_value_to_json R) (tb_recurrence_state b)"
    "ts_metadata s = m"
    "readable_attachments R ''task_attachments'' (tb_attachments b) = Ok (ts_attachments s, ts_read_error s)"
  using assms by (auto simp: readable_task_def)

lemma plaintext_markdown:
  "Option.bind (plaintext_rich_text t) rich_text_to_markdown = (if trim t = [] then None else Some (trim t))"
  by (simp add: plaintext_rich_text_def rich_text_to_markdown_def Let_def)

section \<open>Creating and updating\<close>

text \<open>The server answers with the payload it was sent.\<close>
definition echoes_payloads :: "'x runtime_ext_scheme \<Rightarrow> server \<Rightarrow> bool" where
  "echoes_payloads R server \<longleftrightarrow>
     (\<forall>client wid request sent t. fst (api_create_task R server client wid request sent) = Ok t \<longrightarrow>
        tk_payload_ciphertext t = ct_payload_ciphertext request) \<and>
     (\<forall>client wid tid request sent t payload. fst (api_update_task R server client wid tid request sent) = Ok t \<longrightarrow>
        ut_payload_ciphertext request = Some payload \<longrightarrow> tk_payload_ciphertext t = payload)"

lemma on_server_result: "on_server m w = (Ok a, w') \<Longrightarrow> \<exists>sent. fst (m sent) = Ok a"
  by (auto simp: on_server_def split: prod.splits) (metis fst_conv)

lemma draw_Ok: "draw R n w = (Ok b, w') \<Longrightarrow> \<exists>k. b = random_bytes R k n"
  by (auto simp: draw_def reading_def)

lemma shown_task:
  assumes "wire_laws R" "sym_wf k" "lc_list_key c = Some k" "length nonce = 12"
    and "codec_reads (task_codec R) (build_task_payload_envelope body v)"
    and "encrypt_task_payload R (build_task_payload_envelope body v) k nonce = Ok blob"
    and "tk_payload_ciphertext t = sb_base64 blob" "project_task_summary R (Some c) t = Ok s"
  shows "\<exists>m ds. readable_task R m ds body = Ok s"
proof -
  have "and_then (decode_sealed_blob R (tk_payload_ciphertext t)) (decrypt_task_payload R k) =
      Ok \<lparr> te_kind = ''task'', te_version = v, te_body = body \<rparr>"
    unfolding assms(7) by (rule task_payload_opens [OF assms(1,2,4,5,6)])
  note readable = project_task_readable [OF _ this]
  have "\<exists>m title_ct e. project_task R m (tk_delegations t) title_ct (tk_payload_ciphertext t) (Some k) e = Ok s"
    using assms(3,8) unfolding project_task_summary_def by simp (intro exI, assumption)
  then obtain m title_ct e where "project_task R m (tk_delegations t) title_ct (tk_payload_ciphertext t) (Some k) e = Ok s"
    by blast
  from readable [OF this] show ?thesis by (intro exI) simp
qed

lemma with_updated_title_Ok:
  assumes "with_updated_title R k binding_key tid title request w = (Ok request', w')"
  shows "ut_payload_ciphertext request' = ut_payload_ciphertext request" "\<forall>t. title = Some t \<longrightarrow> trim t \<noteq> []"
  using assms by (auto simp: with_updated_title_def Let_def io_then_Ok io_return_def split: option.splits if_splits)

text \<open>C22: A task that is created is read back as it was given: from a server that keeps the payload it is
  sent, the task the command shows has the trimmed title, the body as the text the user gave without
  the white space around it, no attachments and no error.\<close>
theorem created_task_reads_back:
  assumes "wire_laws R" "\<And>i n. length (random_bytes R i n) = n" "echoes_payloads R server"
    and "codec_reads (task_codec R) (build_task_payload_envelope (new_task_body (trim title) body) 1)"
    and "create_task R server K wid title body b w = (Ok s, w')"
  shows "ts_title s = Some (trim title) \<and> trim title \<noteq> [] \<and>
    ts_body_rich_text s = Option.bind body plaintext_rich_text \<and>
    ts_body_markdown s = (case body of Some t \<Rightarrow> if trim t = [] then None else Some (trim t) | None \<Rightarrow> None) \<and>
    ts_attachments s = None \<and> ts_read_error s = None"
proof -
  obtain a w1 k nonce w2 w3 payload request w4 created w5 where run:
      "load_work_list_context R server K wid b ''Password required to create encrypted task payloads.'' w = (Ok a, w1)"
      "require_work_list_key (snd a) = Ok k" "trim title \<noteq> []"
      "encrypt_task_payload R (build_task_payload_envelope (new_task_body (trim title) body) 1) k nonce = Ok payload"
      "draw R 12 w2 = (Ok nonce, w3)"
      "on_server (api_create_task R server (fst a) wid request) w4 = (Ok created, w5)"
      "ct_payload_ciphertext request = sb_base64 payload" "project_task_summary R (Some (snd a)) created = Ok s"
    using assms(5) unfolding create_task_def Let_def case_prod_beta
    by (elim run_elims) (rule that, assumption+, simp_all)
  have laws: "box_laws R" using assms(1) by (simp add: wire_laws_def)
  have key: "sym_wf k" "lc_list_key (snd a) = Some k" using loaded_key_wf [OF laws] run(1,2) by (metis prod.collapse)+
  have nonce: "length nonce = 12" using draw_Ok [OF run(5)] assms(2) by auto
  have "tk_payload_ciphertext created = sb_base64 payload"
    using on_server_result [OF run(6)] run(7) assms(3) unfolding echoes_payloads_def by metis
  from shown_task [OF assms(1) key nonce assms(4) run(4) this run(8)]
  obtain m ds where "readable_task R m ds (new_task_body (trim title) body) = Ok s" by blast
  then show ?thesis
    using run(3) readable_task_fields [of R m ds "new_task_body (trim title) body" s] plaintext_markdown
    by (auto simp: new_task_body_def readable_attachments_def project_attachments_def split: option.splits)
qed

text \<open>C23: An update changes what it was given and nothing else: the task the command shows has the title
  and body given, where they are, and every other field as the server's payload had it before, which
  was opened with the same key; an update with neither, or with a blank title, fails.\<close>
theorem updated_task_keeps_fields:
  assumes "wire_laws R" "\<And>i n. length (random_bytes R i n) = n" "echoes_payloads R server"
    and "\<forall>encoded old n. dec (task_codec R) encoded = Ok (old, n) \<longrightarrow>
      codec_reads (task_codec R) (build_task_payload_envelope (updated_task_body title body (te_body old)) 1)"
    and "update_task R server K wid tid title body b w = (Ok s, w')"
  shows "\<exists>client sent detail k payload old. fst (api_get_task R server client wid tid sent) = Ok detail \<and>
      decode_sealed_blob R (tk_payload_ciphertext (td_task detail)) = Ok payload \<and>
      map_ok te_body (decrypt_task_payload R k payload) = Ok old \<and>
    (title \<noteq> None \<or> body \<noteq> None) \<and>
    ts_title s = Some (case title of Some t \<Rightarrow> trim t | None \<Rightarrow> tb_title old) \<and>
    (case title of Some t \<Rightarrow> trim t \<noteq> [] | None \<Rightarrow> True) \<and>
    ts_body_rich_text s = (case body of Some t \<Rightarrow> plaintext_rich_text t | None \<Rightarrow> tb_rich_text old) \<and>
    ts_checklist s = tb_checklist old \<and> ts_mentions s = tb_mentions old \<and>
    readable_attachments R ''task_attachments'' (tb_attachments old) = Ok (ts_attachments s, ts_read_error s) \<and>
    ts_references s = map_option (map (flexible_value_to_json R)) (tb_references old) \<and>
    ts_client_meta s = map_option (flexible_value_to_json R) (tb_client_meta old) \<and>
    ts_recurrence_state s = map_option (flexible_value_to_json R) (tb_recurrence_state old)"
proof -
  obtain a w1 k w2 detail w3 stored envelope nonce payload w4 w5 request0 request w6 w7 w8 updated w9 where run:
      "load_work_list_context R server K wid b ''Password required to update encrypted task payloads.'' w = (Ok a, w1)"
      "require_work_list_key (snd a) = Ok k" "on_server (api_get_task R server (fst a) wid tid) w2 = (Ok detail, w3)"
      "decode_sealed_blob R (tk_payload_ciphertext (td_task detail)) = Ok stored"
      "decrypt_task_payload R k stored = Ok envelope" "\<not> (title = None \<and> body = None)"
      "encrypt_task_payload R (build_task_payload_envelope (updated_task_body title body (te_body envelope)) 1) k nonce
         = Ok payload"
      "draw R 12 w4 = (Ok nonce, w5)" "\<exists>bk. with_updated_title R k bk tid title request0 w6 = (Ok request, w7)"
      "on_server (api_update_task R server (fst a) wid tid request) w8 = (Ok updated, w9)"
      "project_task_summary R (Some (snd a)) updated = Ok s" "ut_payload_ciphertext request0 = Some (sb_base64 payload)"
    using assms(5) unfolding update_task_def Let_def case_prod_beta
    by (elim run_elims) (rule that, (assumption | rule exI, assumption)+, simp_all)
  have laws: "box_laws R" using assms(1) by (simp add: wire_laws_def)
  have key: "sym_wf k" "lc_list_key (snd a) = Some k" using loaded_key_wf [OF laws] run(1,2) by (metis prod.collapse)+
  have nonce: "length nonce = 12" using draw_Ok [OF run(8)] assms(2) by auto
  have title: "ut_payload_ciphertext request = Some (sb_base64 payload)" "\<forall>t. title = Some t \<longrightarrow> trim t \<noteq> []"
    using run(9,12) by (auto dest: with_updated_title_Ok)
  have "tk_payload_ciphertext updated = sb_base64 payload"
    using on_server_result [OF run(10)] title(1) assms(3) unfolding echoes_payloads_def by metis
  moreover have "codec_reads (task_codec R) (build_task_payload_envelope (updated_task_body title body (te_body envelope)) 1)"
    using task_payload_decoded [OF run(5)] assms(4) by blast
  ultimately have "\<exists>m ds. readable_task R m ds (updated_task_body title body (te_body envelope)) = Ok s"
    using shown_task [OF assms(1) key nonce _ run(7) _ run(11)] by blast
  then obtain m ds where "readable_task R m ds (updated_task_body title body (te_body envelope)) = Ok s" by blast
  note fields = readable_task_fields [OF this]
  have "updated_rich_text body (te_body envelope) =
      (case body of Some t \<Rightarrow> plaintext_rich_text t | None \<Rightarrow> tb_rich_text (te_body envelope))"
    by (auto simp: updated_rich_text_def plaintext_rich_text_def split: option.splits)
  then have shown: "ts_body_rich_text s = (case body of Some t \<Rightarrow> plaintext_rich_text t | None \<Rightarrow> tb_rich_text (te_body envelope))"
    using fields(2) by (simp add: updated_task_body_def)
  obtain sent where sent: "fst (api_get_task R server (fst a) wid tid sent) = Ok detail"
    using on_server_result [OF run(3)] by blast
  have opened: "map_ok te_body (decrypt_task_payload R k stored) = Ok (te_body envelope)" using run(5) by simp
  have "ts_title s = Some (case title of Some t \<Rightarrow> trim t | None \<Rightarrow> tb_title (te_body envelope))"
      "case title of Some t \<Rightarrow> trim t \<noteq> [] | None \<Rightarrow> True"
    using fields(1) title(2) by (auto simp: updated_task_body_def updated_title_def split: option.splits)
  with sent run(4,6) opened shown fields show ?thesis
    by (intro exI [of _ "fst a"] exI [of _ sent] exI [of _ detail] exI [of _ k] exI [of _ stored] exI [of _ "te_body envelope"])
      (simp add: updated_task_body_def)
qed

end
