(* ===== verification/Rt_Render_Thms.thy ===== *)
theory Rt_Render_Thms
  imports Rt_Attachments
begin

text \<open>The rendering of word-processor files: where a table ends, what happens to code blocks and to inline
  tags.\<close>

section \<open>Tables\<close>

text \<open>One pass over the text that counts the tables that are open.\<close>
function scan_table_end :: "nat \<Rightarrow> nat \<Rightarrow> string \<Rightarrow> nat option" where
  "scan_table_end depth pos s =
     (if s = [] then None
      else if starts_with s TABLE_OPEN then scan_table_end (depth + 1) (pos + 6) (drop 6 s)
      else if starts_with s TABLE_CLOSE then
        (if depth = 0 then None
         else if depth = 1 then Some (pos + 8)
         else scan_table_end (depth - 1) (pos + 8) (drop 8 s))
      else scan_table_end depth (pos + 1) (tl s))"
  by pat_completeness auto
termination by (relation "measure (\<lambda>(depth, pos, s). length s)") auto

declare scan_table_end.simps [simp del]

lemma find_str_first: "find_str s p = Some i \<Longrightarrow> j < i \<Longrightarrow> \<not> starts_with (drop j s) p"
proof (induction s arbitrary: i j)
  case (Cons c s)
  then show ?case by (cases j) (auto split: if_splits)
qed (auto split: if_splits)

lemma find_str_none: "find_str s p = None \<Longrightarrow> p \<noteq> [] \<Longrightarrow> \<not> starts_with (drop j s) p"
proof (induction s arbitrary: j)
  case (Cons c s)
  then show ?case by (cases j) (auto split: if_splits)
qed (auto simp: starts_with_def)

lemma scan_skip:
  assumes "i \<le> length s" "\<And>j. j < i \<Longrightarrow> \<not> starts_with (drop j s) TABLE_OPEN"
    "\<And>j. j < i \<Longrightarrow> \<not> starts_with (drop j s) TABLE_CLOSE"
  shows "scan_table_end depth pos s = scan_table_end depth (pos + i) (drop i s)"
  using assms
proof (induction i arbitrary: pos s)
  case (Suc i)
  obtain c s' where s: "s = c # s'" using Suc.prems(1) by (cases s) auto
  have "scan_table_end depth pos s = scan_table_end depth (pos + 1) s'"
    using Suc.prems(2,3) [of 0] s by (subst scan_table_end.simps) simp
  also have "\<dots> = scan_table_end depth (pos + 1 + i) (drop i s')"
    by (rule Suc.IH) (use Suc.prems(1) Suc.prems(2,3) [of "Suc _"] s in auto)
  finally show ?case using s by simp
qed simp

lemma scan_no_close:
  "(\<And>j. \<not> starts_with (drop j s) TABLE_CLOSE) \<Longrightarrow> scan_table_end depth pos s = None"
proof (induction depth pos s rule: scan_table_end.induct)
  case (1 depth pos s)
  have here: "\<not> starts_with s TABLE_CLOSE" using "1.prems" [of 0] by simp
  have tail: "\<not> starts_with (drop j (tl s)) TABLE_CLOSE" for j using "1.prems" [of "Suc j"] by (simp add: drop_Suc)
  have far: "\<not> starts_with (drop j (drop 6 s)) TABLE_CLOSE" for j using "1.prems" [of "j + 6"] by simp
  show ?case using here "1.IH"(1) [OF _ _ far] "1.IH"(3) [OF _ _ _ tail]
    by (subst scan_table_end.simps) auto
qed

lemma open_not_close: "starts_with s TABLE_CLOSE \<Longrightarrow> \<not> starts_with s TABLE_OPEN"
  by (auto simp: starts_with_iff TABLE_OPEN_def TABLE_CLOSE_def)

lemma find_from_first:
  assumes "find_from s n p = Some i" "p \<noteq> []"
  shows "n \<le> i" "i + length p \<le> length s" "starts_with (drop i s) p"
    "\<And>j. j < i - n \<Longrightarrow> \<not> starts_with (drop j (drop n s)) p"
proof -
  obtain k where k: "find_str (drop n s) p = Some k" "i = n + k"
    using assms(1) by (auto simp: find_from_def)
  show "n \<le> i" "i + length p \<le> length s" using find_from_bounds [OF assms] by auto
  show "starts_with (drop i s) p" using find_str_bounds [OF k(1)] k(2) by (simp add: add.commute)
  fix j assume "j < i - n"
  then show "\<not> starts_with (drop j (drop n s)) p" using find_str_first [OF k(1)] k(2) by simp
qed

lemma table_end_loop_scan:
  "search_from \<le> length markdown \<Longrightarrow>
     table_end_loop markdown depth search_from = scan_table_end depth search_from (drop search_from markdown)"
proof (induction markdown depth search_from rule: table_end_loop.induct)
  case (1 markdown depth n)
  let ?open = "find_from markdown n TABLE_OPEN"
  show ?case
  proof (cases "n < length markdown")
    case False
    then show ?thesis by (simp add: table_end_loop.simps scan_table_end.simps)
  next
    case less: True
    show ?thesis
    proof (cases "find_from markdown n TABLE_CLOSE")
      case None
      then have "\<not> starts_with (drop j (drop n markdown)) TABLE_CLOSE" for j
        by (intro find_str_none) (auto simp: find_from_def)
      then show ?thesis using None less scan_no_close [of "drop n markdown"]
        by (simp add: table_end_loop.simps)
    next
      case (Some close)
      note close = find_from_first [OF Some]
      show ?thesis
      proof (cases "Option.bind ?open (\<lambda>start. if start < close then Some start else None)")
        case opened: (Some start)
        then have start: "?open = Some start" "start < close" by (auto simp: bind_eq_Some_conv split: if_splits)
        note first = find_from_first [OF start(1)]
        have "scan_table_end depth n (drop n markdown) = scan_table_end depth start (drop start markdown)"
          using scan_skip [of "start - n" "drop n markdown" depth n] first close start(2) by simp
        also have "\<dots> = scan_table_end (depth + 1) (start + 6) (drop (start + 6) markdown)"
          using first by (subst scan_table_end.simps) (auto simp: add.commute)
        finally show ?thesis
          using "1.IH"(2) [OF less Some opened] first less Some opened by (subst table_end_loop.simps) simp
      next
        case unopened: None
        have no_open: "\<not> starts_with (drop j (drop n markdown)) TABLE_OPEN" if "j < close - n" for j
        proof (cases ?open)
          case None
          then show ?thesis by (intro find_str_none) (auto simp: find_from_def)
        next
          case (Some start)
          then have "close \<le> start" using unopened by (auto split: if_splits)
          then show ?thesis using find_from_first(4) [OF Some] that by simp
        qed
        have "scan_table_end depth n (drop n markdown) = scan_table_end depth close (drop close markdown)"
          using scan_skip [of "close - n" "drop n markdown" depth n] close no_open by simp
        also have "\<dots> = (if depth = 0 then None else if depth = 1 then Some (close + 8)
            else scan_table_end (depth - 1) (close + 8) (drop (close + 8) markdown))"
          using close open_not_close [of "drop close markdown"] by (subst scan_table_end.simps) (auto simp: add.commute)
        finally show ?thesis
          using "1.IH"(1) [OF less Some unopened] close less Some unopened
          by (subst table_end_loop.simps) auto
      qed
    qed
  qed
qed

text \<open>The end of a table, which the code finds by searching ahead for the next opening and closing tag
  after each tag, is the one a single pass that counts open tables finds, with nested tables and
  tables that are not closed, and it lies within the text.\<close>
theorem table_end_single_pass:
  "find_docx_html_table_end markdown (min n (length markdown)) =
     scan_table_end 0 (min n (length markdown)) (drop n markdown) \<and>
   (case find_docx_html_table_end markdown n of Some e \<Rightarrow> n < e \<and> e \<le> length markdown | None \<Rightarrow> True)"
proof -
  have "drop (min n (length markdown)) markdown = drop n markdown" by (simp add: min_def)
  then show ?thesis
    using table_end_loop_scan [of "min n (length markdown)" markdown 0] table_end_loop_bounds [of markdown 0 n]
    by (auto simp: find_docx_html_table_end_def split: option.splits)
qed

section \<open>Code blocks\<close>

text \<open>A line with the newline that ends it.\<close>
definition full_line :: "string \<Rightarrow> bool" where
  "full_line l \<longleftrightarrow> l \<noteq> [] \<and> last l = CHR 0x0A \<and> CHR 0x0A \<notin> set (butlast l)"

lemma split_inclusive_line:
  "CHR 0x0A \<notin> set b \<Longrightarrow> split_inclusive (b @ CHR 0x0A # s) = (b @ [CHR 0x0A]) # split_inclusive s"
  by (induction b) auto

lemma split_inclusive_full: "full_line l \<Longrightarrow> split_inclusive (l @ s) = l # split_inclusive s"
  using split_inclusive_line [of "butlast l" s]
  by (cases l rule: rev_cases) (auto simp: full_line_def)

lemma split_inclusive_lines: "list_all full_line ls \<Longrightarrow> split_inclusive (concat ls @ s) = ls @ split_inclusive s"
  by (induction ls) (auto simp: split_inclusive_full)

lemma docx_prose:
  "list_all (\<lambda>l. \<not> is_fence_line l) ls \<Longrightarrow>
     foldl (docx_line R) (before, prose, False) ls = (before, prose @ concat ls, False)"
  by (induction ls arbitrary: prose) (auto simp: docx_line_def)

lemma docx_code:
  "list_all (\<lambda>l. \<not> is_fence_line l) ls \<Longrightarrow>
     foldl (docx_line R) (before, prose, True) ls = (before @ concat ls, prose, True)"
  by (induction ls arbitrary: before) (auto simp: docx_line_def)

lemma docx_fence:
  "is_fence_line l \<Longrightarrow> docx_line R (before, prose, f) l = (before @ flush_prose R prose @ l, [], \<not> f)"
  by (simp add: docx_line_def)

lemma docx_line_prefix:
  "docx_line R (before @ normalized, prose, f) l =
     (case docx_line R (normalized, prose, f) l of (n, p, f) \<Rightarrow> (before @ n, p, f))"
  by (simp add: docx_line_def)

lemma docx_lines_prefix:
  "foldl (docx_line R) (before @ normalized, prose, f) ls =
     (case foldl (docx_line R) (normalized, prose, f) ls of (n, p, f) \<Rightarrow> (before @ n, p, f))"
proof (induction ls arbitrary: normalized prose f)
  case (Cons l ls)
  obtain n p g where "docx_line R (normalized, prose, f) l = (n, p, g)" by (metis prod_cases3)
  then show ?case using Cons by (simp add: docx_line_prefix)
qed simp

text \<open>C32: Code blocks of a rendered document are kept byte for byte, fences included, whatever tags they
  contain: the text before a block is converted by itself, the text after it as a document of its
  own, and the block is copied.\<close>
theorem code_blocks_verbatim:
  assumes "list_all full_line (prose @ [fence] @ code @ [fence'])" "is_fence_line fence" "is_fence_line fence'"
    and "list_all (\<lambda>l. \<not> is_fence_line l) (prose @ code)"
  shows "normalize_docx_markdown R (concat prose @ fence @ concat code @ fence' @ rest) =
    flush_prose R (concat prose) @ fence @ concat code @ fence' @ normalize_docx_markdown R rest"
proof -
  let ?lines = "prose @ [fence] @ code @ [fence']"
  have "split_inclusive (concat ?lines @ rest) = ?lines @ split_inclusive rest"
    by (rule split_inclusive_lines [OF assms(1)])
  moreover have "foldl (docx_line R) ([], [], False) ?lines =
      (flush_prose R (concat prose) @ fence @ concat code @ fence', [], False)"
    using assms(2-4) by (simp add: docx_prose docx_code docx_fence) (simp add: flush_prose_def)
  ultimately show ?thesis
    using docx_lines_prefix [of R "flush_prose R (concat prose) @ fence @ concat code @ fence'" "[]" "[]" False]
    by (auto simp: normalize_docx_markdown_def split: prod.splits)
qed

lemma trim_start_graphic: "graphic c \<Longrightarrow> trim_start (c # s) = c # s"
proof (rule trim_start_noop)
  fix w assume "graphic c" "w \<in> set ws_encodings"
  then show "\<not> starts_with (c # s) w" using ws_not_graphic [of w] by (cases w) (auto simp: starts_with_iff)
qed

theorem code_blocks_verbatim_witness:
  "\<forall>R. normalize_docx_markdown R (''<em>a</em>'' @ [CHR 0x0A] @ ''```'' @ [CHR 0x0A] @ ''<em>'' @ [CHR 0x0A] @ ''```'' @ [CHR 0x0A] @ ''b'') =
     flush_prose R (''<em>a</em>'' @ [CHR 0x0A]) @ ''```'' @ [CHR 0x0A] @ ''<em>'' @ [CHR 0x0A] @ ''```'' @ [CHR 0x0A] @
     normalize_docx_markdown R ''b''"
proof
  fix R :: "'a runtime_ext_scheme"
  have fence: "is_fence_line (''```'' @ [CHR 0x0A])" "\<not> is_fence_line (''<em>'' @ [CHR 0x0A])"
    "\<not> is_fence_line (''<em>a</em>'' @ [CHR 0x0A])"
    by (simp_all add: is_fence_line_def trim_start_graphic graphic_def starts_with_def)
  show "normalize_docx_markdown R (''<em>a</em>'' @ [CHR 0x0A] @ ''```'' @ [CHR 0x0A] @ ''<em>'' @ [CHR 0x0A] @ ''```'' @ [CHR 0x0A] @ ''b'') =
     flush_prose R (''<em>a</em>'' @ [CHR 0x0A]) @ ''```'' @ [CHR 0x0A] @ ''<em>'' @ [CHR 0x0A] @ ''```'' @ [CHR 0x0A] @
     normalize_docx_markdown R ''b''"
    using code_blocks_verbatim [of "[''<em>a</em>'' @ [CHR 0x0A]]" "''```'' @ [CHR 0x0A]" "[''<em>'' @ [CHR 0x0A]]"
        "''```'' @ [CHR 0x0A]" R "''b''"] fence
    by (simp add: full_line_def)
qed

section \<open>Inline tags\<close>

lemma trim_front_Nil: "trim_front ws [] = []"
  using trim_front_suffix [of "[]" ws] by auto

lemma trim_front_single: "[c] \<in> set ws \<Longrightarrow> trim_front ws [c] = []"
proof -
  assume c: "[c] \<in> set ws"
  have "find (\<lambda>w. w \<noteq> [] \<and> starts_with [c] w) ws \<noteq> None"
    using c by (auto simp: find_None_iff starts_with_def)
  then obtain w where w: "find (\<lambda>w. w \<noteq> [] \<and> starts_with [c] w) ws = Some w" by blast
  then have "w = [c]" by (auto simp: find_Some_iff starts_with_iff Cons_eq_append_conv)
  then show ?thesis using w by (subst trim_front.simps) (simp add: trim_front_Nil)
qed

text \<open>A tag around white space only: the white space comes out twice.\<close>
lemma blank_inline_tag_doubled:
  "normalize_docx_inline_tag_pair ''a<strong> </strong>b'' ''strong'' ''**'' = ''a  b''"
proof -
  have ws: "'' '' \<in> set ws_encodings" by code_simp
  then have "'' '' \<in> set (map rev ws_encodings)" by force
  then have "trim_start '' '' = []" "trim_end '' '' = []"
    using trim_front_single [OF ws] trim_front_single by (simp_all add: trim_start_def trim_end_def)
  moreover have "trim '' '' = []" using calculation by (simp add: trim_def trim_end_def trim_front_Nil)
  ultimately show ?thesis
    by (simp add: normalize_docx_inline_tag_pair_def inline_tag_loop.simps starts_with_def Let_def)
qed

end
