(* ===== verification/Rt_Requests.thy ===== *)
theory Rt_Requests
  imports Rt_Tasks
begin

text \<open>Which requests the operations of the client send to the API: reading never modifies anything, and
  every other operation sends at most one request that does, to the resource it names.\<close>

section \<open>Requests that modify\<close>

definition auth_endpoints :: "string list" where
  "auth_endpoints = [''/auth/opaque/login/start'', ''/auth/opaque/login/finish'', ''/auth/refresh'', ''/auth/agents/token'']"

text \<open>A request of the login protocol, which carries no token, or a request that reads.\<close>
definition harmless :: "http_request \<Rightarrow> bool" where
  "harmless q \<longleftrightarrow> rq_method q = GET \<or>
     rq_method q = POST \<and> rq_bearer q = None \<and> (\<exists>b. \<exists>p\<in>set auth_endpoints. rq_url q = api_endpoint b p)"

text \<open>The operation appends requests to those sent; at most \<open>k\<close> of them are not harmless, and those are of
  the kind \<open>Q\<close>.\<close>
definition writes :: "nat \<Rightarrow> (http_request \<Rightarrow> bool) \<Rightarrow> 'a act \<Rightarrow> bool" where
  "writes k Q m \<longleftrightarrow> (\<forall>w. \<exists>new. wd_sent (snd (m w)) = wd_sent w @ new \<and>
     length (filter (Not \<circ> harmless) new) \<le> k \<and> list_all (\<lambda>q. harmless q \<or> Q q) new)"

lemma writesI:
  assumes "\<And>w. \<exists>new. wd_sent (snd (m w)) = wd_sent w @ new \<and>
     length (filter (Not \<circ> harmless) new) \<le> k \<and> list_all (\<lambda>q. harmless q \<or> Q q) new"
  shows "writes k Q m"
  using assms by (simp add: writes_def)

lemma writes_same: "(\<And>w. wd_sent (snd (m w)) = wd_sent w) \<Longrightarrow> writes k Q m"
  by (simp add: writes_def)

lemma writes_more: "writes k Q m \<Longrightarrow> k \<le> k' \<Longrightarrow> writes k' Q m"
  unfolding writes_def by (meson order_trans)

lemma writes_only: "writes 0 P m \<Longrightarrow> writes k Q m"
proof (rule writesI)
  fix w assume "writes 0 P m"
  then obtain new where "wd_sent (snd (m w)) = wd_sent w @ new" "filter (Not \<circ> harmless) new = []"
    unfolding writes_def by force
  then show "\<exists>new. wd_sent (snd (m w)) = wd_sent w @ new \<and>
      length (filter (Not \<circ> harmless) new) \<le> k \<and> list_all (\<lambda>q. harmless q \<or> Q q) new"
    by (intro exI [of _ new]) (auto simp: list_all_iff filter_empty_conv)
qed

lemma writes_return: "writes k Q (io_return r)"
  by (rule writes_same) (simp add: io_return_def)

lemma writes_then:
  assumes "writes j Q m" "\<And>a. writes k Q (f a)" shows "writes (j + k) Q (io_then m f)"
proof (rule writesI)
  fix w
  obtain r w1 where m: "m w = (r, w1)" by fastforce
  from assms(1) obtain new where new: "wd_sent w1 = wd_sent w @ new"
      "length (filter (Not \<circ> harmless) new) \<le> j" "list_all (\<lambda>q. harmless q \<or> Q q) new"
    unfolding writes_def using m by (metis snd_conv)
  show "\<exists>new. wd_sent (snd (io_then m f w)) = wd_sent w @ new \<and>
     length (filter (Not \<circ> harmless) new) \<le> j + k \<and> list_all (\<lambda>q. harmless q \<or> Q q) new"
  proof (cases r)
    case (Ok a)
    obtain new' where "wd_sent (snd (f a w1)) = wd_sent w1 @ new'"
        "length (filter (Not \<circ> harmless) new') \<le> k" "list_all (\<lambda>q. harmless q \<or> Q q) new'"
      using assms(2) [of a] unfolding writes_def by blast
    then show ?thesis using m new Ok by (intro exI [of _ "new @ new'"]) (simp add: io_then_def)
  qed (use m new in \<open>auto simp: io_then_def\<close>)
qed

lemma writes_then_read:
  assumes "writes 0 Q m" "\<And>a. writes k Q (f a)" shows "writes k Q (io_then m f)"
  using writes_then [OF assms] by simp

lemma writes_then_pure:
  assumes "writes k Q m" "\<And>a. writes 0 Q (f a)" shows "writes k Q (io_then m f)"
  using writes_then [OF assms] by simp

lemma writes_map: "writes k Q m \<Longrightarrow> writes k Q (io_map f m)"
  by (simp add: writes_def io_map_def)

lemma writes_map_err: "writes k Q m \<Longrightarrow> writes k Q (io_map_err f m)"
  by (simp add: writes_def io_map_err_def)

lemma writes_local:
  "writes k Q (on_device dm)" "writes k Q (on_daemon wm)" "writes k Q (reading f)" "writes k Q (utc_now R)"
  "writes k Q (draw R n)" "writes k Q (save_credentials_blocking R c)"
  "writes k Q (save_agent_credentials_blocking R ac)" "writes k Q (io_get g)"
  by (rule writes_same;
    auto simp: on_device_def on_daemon_def reading_def utc_now_def draw_def io_get_def
      save_credentials_blocking_def save_agent_credentials_blocking_def join_task_def
      split: prod.splits rust_result.splits)+

lemma writes_on_server:
  assumes "\<And>sent. \<exists>new. snd (m sent) = sent @ new \<and>
     length (filter (Not \<circ> harmless) new) \<le> k \<and> list_all (\<lambda>q. harmless q \<or> Q q) new"
  shows "writes k Q (on_server m)"
  using assms by (auto simp: writes_def on_server_def case_prod_beta)

lemma writes_harmless:
  assumes "\<And>w. \<exists>new. wd_sent (snd (m w)) = wd_sent w @ new \<and> list_all harmless new"
  shows "writes k Q m"
proof (rule writesI)
  fix w
  obtain new where "wd_sent (snd (m w)) = wd_sent w @ new" "list_all harmless new" using assms by blast
  then show "\<exists>new. wd_sent (snd (m w)) = wd_sent w @ new \<and>
      length (filter (Not \<circ> harmless) new) \<le> k \<and> list_all (\<lambda>q. harmless q \<or> Q q) new"
    by (intro exI [of _ new]) (auto simp: list_all_iff filter_empty_conv)
qed

lemma writes_reads:
  "(\<And>sent. \<exists>new. snd (m sent) = sent @ new \<and> list_all harmless new) \<Longrightarrow> writes k Q (on_server m)"
  by (rule writes_harmless) (simp add: on_server_def case_prod_beta)

lemma writes_then_result:
  assumes "writes 0 Q m" "\<And>w a w'. m w = (Ok a, w') \<Longrightarrow> writes k Q (f a)" shows "writes k Q (io_then m f)"
proof -
  let ?f = "\<lambda>a. if \<exists>w w'. m w = (Ok a, w') then f a else io_return Abort"
  have "io_then m f = io_then m ?f"
    by (rule ext) (auto simp: io_then_def split: prod.splits rust_result.splits)
  moreover have "writes k Q (io_then m ?f)"
    by (rule writes_then_read [OF assms(1)]) (auto intro: assms(2) writes_return)
  ultimately show ?thesis by simp
qed

lemmas writes_rules = writes_return writes_map writes_map_err writes_local

section \<open>Calls\<close>

lemma send_requests:
  "\<exists>new. snd (send A server c parse request path sent) = sent @ new \<and>
     (new = [] \<or> (\<exists>token. new = [authorized request token]))"
  by (auto simp: send_run Let_def split: option.splits)

lemma harmless_get: "rq_method request = GET \<Longrightarrow> harmless (authorized request token)"
  by (simp add: harmless_def authorized_def)

lemma writes_get: "writes k Q (on_server (api_get A server c parse path))"
proof (rule writes_reads)
  fix sent
  obtain new where "snd (api_get A server c parse path sent) = sent @ new"
      "new = [] \<or> (\<exists>token. new = [authorized (plain_request GET c path None) token])"
    using send_requests [of A server c parse "plain_request GET c path None" path sent]
    unfolding api_get_def by blast
  then show "\<exists>new. snd (api_get A server c parse path sent) = sent @ new \<and> list_all harmless new"
    by (intro exI [of _ new]) (auto simp: harmless_get plain_request_def)
qed

lemma writes_send:
  assumes "\<And>token. Q (authorized request token)"
  shows "writes (Suc 0) Q (on_server (send A server c parse request path))"
proof (rule writes_on_server)
  fix sent
  obtain new where "snd (send A server c parse request path sent) = sent @ new"
      "new = [] \<or> (\<exists>token. new = [authorized request token])"
    using send_requests [of A server c parse request path sent] by blast
  then show "\<exists>new. snd (send A server c parse request path sent) = sent @ new \<and>
      length (filter (Not \<circ> harmless) new) \<le> Suc 0 \<and> list_all (\<lambda>q. harmless q \<or> Q q) new"
    using assms by (intro exI [of _ new]) auto
qed

lemma writes_delete:
  assumes "\<And>token. Q (authorized (plain_request DELETE c path (Some body)) token)"
  shows "writes (Suc 0) Q (on_server (delete_no_content_with_body A server c path body))"
proof (rule writes_on_server)
  fix sent
  show "\<exists>new. snd (delete_no_content_with_body A server c path body sent) = sent @ new \<and>
      length (filter (Not \<circ> harmless) new) \<le> Suc 0 \<and> list_all (\<lambda>q. harmless q \<or> Q q) new"
    using assms by (auto simp: delete_no_content_with_body_def send_no_content_run Let_def split: option.splits)
qed

lemma all_my_tasks_loop_requests:
  "\<exists>new. snd (all_my_tasks_loop P server c b tasks offset sent) = sent @ new \<and> list_all harmless new"
proof (induction P server c b tasks offset sent rule: all_my_tasks_loop.induct)
  case (1 P server c b tasks offset sent)
  let ?call = "get_my_tasks_filtered P server c (Some (int MY_TASKS_PAGE_LIMIT)) (Some offset) b sent"
  obtain r sent' where call: "?call = (r, sent')" by fastforce
  have "\<exists>new. sent' = sent @ new \<and> list_all harmless new"
    using send_requests [of P server c "de_my_tasks P" "plain_request GET c
      (my_tasks_path (Some (int MY_TASKS_PAGE_LIMIT)) (Some offset) b) None"
      "my_tasks_path (Some (int MY_TASKS_PAGE_LIMIT)) (Some offset) b" sent] call
    by (auto simp: get_my_tasks_filtered_def api_get_def harmless_get plain_request_def)
  then obtain new where new: "sent' = sent @ new" "list_all harmless new" by blast
  show ?case
  proof (cases "\<exists>page tot. r = Ok page \<and> page_total P (mt_total page) = Ok tot \<and>
      \<not> (length (mt_tasks page) = 0 \<or> length (mt_tasks page) < MY_TASKS_PAGE_LIMIT \<or> tot \<le> length (tasks @ mt_tasks page)) \<and>
      \<not> 2 ^ 63 \<le> offset + int (length (mt_tasks page))")
    case True
    then obtain page tot where page: "r = Ok page" "page_total P (mt_total page) = Ok tot"
        "\<not> (length (mt_tasks page) = 0 \<or> length (mt_tasks page) < MY_TASKS_PAGE_LIMIT \<or> tot \<le> length (tasks @ mt_tasks page))"
        "\<not> 2 ^ 63 \<le> offset + int (length (mt_tasks page))" by blast
    have step: "all_my_tasks_loop P server c b tasks offset sent =
        all_my_tasks_loop P server c b (tasks @ mt_tasks page) (offset + int (length (mt_tasks page))) sent'"
      using page call by (subst all_my_tasks_loop.simps) (simp add: Let_def)
    obtain new' where "snd (all_my_tasks_loop P server c b (tasks @ mt_tasks page)
        (offset + int (length (mt_tasks page))) sent') = sent' @ new'" "list_all harmless new'"
      using 1 [OF call [symmetric] page(1,2) refl refl page(3,4)] by blast
    then show ?thesis unfolding step using new by (intro exI [of _ "new @ new'"]) simp
  next
    case False
    then have "snd (all_my_tasks_loop P server c b tasks offset sent) = sent'"
      using call by (subst all_my_tasks_loop.simps) (auto simp: Let_def split: rust_result.splits)
    then show ?thesis using new by blast
  qed
qed

lemma writes_all_my_tasks: "writes k Q (on_server (get_all_my_tasks P server c b))"
  by (rule writes_reads) (simp add: get_all_my_tasks_def all_my_tasks_loop_requests)

section \<open>Authentication\<close>

lemma harmless_auth: "p \<in> set auth_endpoints \<Longrightarrow> harmless (post_json (api_endpoint b p) body)"
  by (auto simp: harmless_def post_json_def)

lemma send_auth_requests: "snd (send_auth_request server request what sent) = sent @ [request]"
  by (simp add: send_auth_request_def io_map_err_def transmit_def)

text \<open>Operations that send requests of the login protocol only.\<close>
definition authenticates :: "(http_request list, 'a, public_error) rio \<Rightarrow> bool" where
  "authenticates m \<longleftrightarrow> (\<forall>sent. \<exists>new. snd (m sent) = sent @ new \<and> list_all harmless new)"

lemma authenticates_then:
  "authenticates m \<Longrightarrow> (\<And>a. authenticates (f a)) \<Longrightarrow> authenticates (io_then m f)"
  unfolding authenticates_def io_then_def
  by (auto split: prod.splits rust_result.splits) (metis append.assoc list_all_append snd_conv)+

lemma authenticates_send:
  "p \<in> set auth_endpoints \<Longrightarrow> authenticates (send_auth_request server (post_json (api_endpoint b p) body) what)"
  by (simp add: authenticates_def send_auth_requests harmless_auth)

lemma authenticates_pure: "authenticates (io_return r)" "authenticates m \<Longrightarrow> authenticates (io_map f m)"
  by (simp_all add: authenticates_def io_return_def io_map_def)

lemmas authenticates_rules = authenticates_then authenticates_send authenticates_pure

lemma authenticates_login: "authenticates (auth_login A server rng rng' b email password)"
  unfolding auth_login_def case_prod_beta
  by (intro authenticates_rules) (simp_all add: auth_endpoints_def)

lemma authenticates_refresh: "authenticates (refresh_access_token A server b token)"
  unfolding refresh_access_token_def by (intro authenticates_rules) (simp_all add: auth_endpoints_def)

lemma writes_authenticates: "authenticates m \<Longrightarrow> writes k Q (on_server m)"
  by (rule writes_reads) (simp add: authenticates_def)

lemmas writes_auth = authenticates_login [THEN writes_authenticates] authenticates_refresh [THEN writes_authenticates]

lemma writes_mint: "writes k Q (on_device_server (mint_agent_access_token W server now jti c))"
proof -
  have "\<exists>new. snd (snd (mint_agent_access_token W server now jti c (d, sent))) = sent @ new \<and> list_all harmless new"
    for d sent
    by (auto simp: mint_agent_access_token_def io_then_def io_fst_def io_snd_def io_return_def Let_def
        send_auth_requests auth_endpoints_def intro!: harmless_auth split: prod.splits rust_result.splits)
  then show ?thesis by (intro writes_harmless) (simp add: on_device_server_def case_prod_beta)
qed

lemma writes_if: "writes k Q m \<Longrightarrow> writes k Q m' \<Longrightarrow> writes k Q (if b then m else m')"
  by simp

lemma writes_refresh_user: "writes k Q (refresh_user_credentials_if_needed R server K c)"
  unfolding refresh_user_credentials_if_needed_def case_prod_beta
  by (rule writes_only [where P = Q]) (intro writes_then_read writes_if writes_rules writes_auth)

lemma writes_refresh_agent: "writes k Q (refresh_agent_credentials_if_needed R server c)"
  unfolding refresh_agent_credentials_if_needed_def Let_def
  by (rule writes_only [where P = Q]) (intro writes_then_read writes_if writes_rules writes_mint)

lemma writes_principal: "writes k Q (require_principal_credentials R K)"
  "writes k Q (require_logged_in_credentials R K)"
  unfolding require_principal_credentials_def require_logged_in_credentials_def
  by (rule writes_only [where P = Q]; intro writes_then_read writes_rules)+

lemma writes_principal_case:
  "(\<And>c. writes k Q (f c)) \<Longrightarrow> (\<And>c. writes k Q (g c)) \<Longrightarrow>
   writes k Q (case p of UserPrincipal c \<Rightarrow> f c | AgentPrincipal c \<Rightarrow> g c)"
  by (cases p) simp_all

lemma writes_option_case:
  "writes k Q m \<Longrightarrow> (\<And>a. writes k Q (f a)) \<Longrightarrow> writes k Q (case x of None \<Rightarrow> m | Some a \<Rightarrow> f a)"
  by (cases x) simp_all

lemma writes_client: "writes k Q (authenticated_api_client R server K)"
  unfolding authenticated_api_client_def fresh_principal_access_token_def
  by (rule writes_only [where P = Q])
    (intro writes_then_read writes_principal_case writes_rules writes_principal writes_refresh_user writes_refresh_agent)

lemma writes_password: "writes k Q (read_required_password R b)"
  unfolding read_required_password_def read_password_from_stdin_def read_password_def
  by (rule writes_only [where P = Q]) (intro writes_then_read writes_if writes_rules)

lemma writes_decrypt_data_key: "writes k Q (decrypt_user_data_key_with_password R server K c password)"
proof (rule writes_only [where P = Q])
  have "writes 0 Q (decrypt_user_data_key_after_opaque_login R server K c password)"
    unfolding decrypt_user_data_key_after_opaque_login_def
    by (intro writes_then_read writes_rules writes_auth)
  then show "writes 0 Q (decrypt_user_data_key_with_password R server K c password)"
    by (auto simp: decrypt_user_data_key_with_password_def intro: writes_return split: rust_result.split)
qed

lemma writes_load_data_key: "writes k Q (load_data_key R server K c b msg)"
  unfolding load_data_key_def load_data_key_from_persisted_secret_def
  by (rule writes_only [where P = Q])
    (intro writes_then_read writes_if writes_option_case writes_rules writes_password writes_decrypt_data_key)

lemma writes_key_source: "writes k Q (load_principal_work_list_key_source R server K b msg)"
  unfolding load_principal_work_list_key_source_def load_agent_recipient_private_key_def
  by (rule writes_only [where P = Q])
    (intro writes_then_read writes_principal_case writes_rules writes_principal writes_load_data_key)

lemma writes_context: "writes k Q (load_work_list_context R server K wid b msg)"
  unfolding load_work_list_context_def get_work_list_def
  by (rule writes_only [where P = Q]) (intro writes_then_read writes_rules writes_client writes_key_source writes_get)

lemmas writes_steps = writes_rules writes_if writes_option_case writes_principal_case writes_client
  writes_context writes_key_source writes_principal writes_get writes_all_my_tasks

section \<open>Operations\<close>

text \<open>The operation modifies nothing.\<close>
definition only_reads :: "'a act \<Rightarrow> bool" where
  "only_reads m \<longleftrightarrow> writes 0 (\<lambda>_. False) m"

text \<open>The operation modifies at most once, by the method and path given.\<close>
definition writes_once :: "runtime_client \<Rightarrow> http_method \<Rightarrow> string \<Rightarrow> 'a act \<Rightarrow> bool" where
  "writes_once K method path m \<longleftrightarrow>
     writes 1 (\<lambda>q. rq_method q = method \<and> rq_url q = normalize_base_url (rc_api_url K) @ path) m"

lemma only_readsI: "writes 0 (\<lambda>_. False) m \<Longrightarrow> only_reads m"
  by (simp add: only_reads_def)

text \<open>Commands that read never modify: listing and showing work lists, tasks, comments and
  attachments, the user and the statistics send only GET requests, besides the requests of the login
  protocol, which carry no token.\<close>
theorem reading_never_writes:
  "only_reads (runtime_list_work_lists R server K b) \<and> only_reads (runtime_get_work_list R server K wid b) \<and>
   only_reads (list_tasks R server K list completed everything b) \<and> only_reads (get_task R server K wid tid b) \<and>
   only_reads (list_comments R server K wid tid b) \<and> only_reads (read_task_attachment R server K wid tid aid b) \<and>
   only_reads (download_task_attachment R server K wid tid aid b) \<and> only_reads (runtime_get_me R server K) \<and>
   only_reads (runtime_get_stats R server K)"
  unfolding runtime_list_work_lists_def runtime_get_work_list_def list_tasks_def get_task_def list_comments_def
    read_task_attachment_def download_task_attachment_def resolve_task_attachment_download_def runtime_get_me_def
    runtime_get_stats_def list_work_lists_def get_work_list_def get_tasks_def api_get_task_def
    api_list_comments_def get_attachment_download_def get_me_def get_dashboard_stats_def case_prod_beta Let_def
  by (intro conjI only_readsI; intro writes_then_read writes_steps)

section \<open>Operations that write\<close>

lemma client_base: "authenticated_api_client R server K w = (Ok c, w') \<Longrightarrow> pc_base_url c = normalize_base_url (rc_api_url K)"
  by (auto simp: authenticated_api_client_def io_map_def with_bearer_token_def)

lemma context_base:
  "load_work_list_context R server K wid b msg w = (Ok (c, context), w') \<Longrightarrow> pc_base_url c = normalize_base_url (rc_api_url K)"
  by (auto simp: load_work_list_context_def io_then_Ok io_return_def dest!: client_base)

lemma writes_then_context:
  assumes "\<And>c context. pc_base_url c = normalize_base_url (rc_api_url K) \<Longrightarrow> writes k Q (f (c, context))"
  shows "writes k Q (io_then (load_work_list_context R server K wid b msg) f)"
  by (rule writes_then_result [OF writes_context]) (auto dest: context_base intro: assms)

lemma writes_then_client:
  assumes "\<And>c. pc_base_url c = normalize_base_url (rc_api_url K) \<Longrightarrow> writes k Q (f c)"
  shows "writes k Q (io_then (authenticated_api_client R server K) f)"
  by (rule writes_then_result [OF writes_client]) (auto dest: client_base intro: assms)

lemma writes_server_return: "writes k Q (on_server (io_return r))"
  by (rule writes_same) (simp add: on_server_def io_return_def)

lemma writes_delete_checked:
  assumes "\<And>token. Q (authorized (plain_request DELETE c path (Some (delete_request_json payload))) token)"
  shows "writes 1 Q (on_server (io_then (io_return r) (\<lambda>_. delete_no_content_with_body A server c path (delete_request_json payload))))"
proof (cases r)
  case (Ok a)
  then show ?thesis using writes_delete [of Q c path "delete_request_json payload" A server] assms
    by (simp add: io_then_return)
qed (simp_all add: io_then_return writes_server_return)

lemma writes_last_call:
  assumes "\<And>token. Q (authorized request token)"
  shows "writes 1 Q (io_then (on_server (send A server c parse request path)) (\<lambda>x. io_return (g x)))"
  using writes_then_pure [OF writes_send [of Q request A server c parse path] writes_return] assms by simp

text \<open>Every command that modifies does so with at most one request, by the method and to the resource
  it names, whatever else it has to read, and whether it succeeds or fails: creating, updating,
  moving, archiving, restoring and deleting a task, and creating, updating and deleting a comment.\<close>
theorem commands_write_once:
  "writes_once K POST (work_list_path R wid @ ''/tasks'') (create_task R server K wid title body b) \<and>
   writes_once K PATCH (task_path R wid tid) (update_task R server K wid tid new_title new_body b) \<and>
   writes_once K POST (task_path R wid tid @ ''/move'') (move_task R server K wid tid section_id before b) \<and>
   writes_once K POST (task_path R wid tid @ ''/archive'') (archive_task R server K wid tid b) \<and>
   writes_once K POST (task_path R wid tid @ ''/unarchive'') (unarchive_task R server K wid tid b) \<and>
   writes_once K DELETE (task_path R wid tid) (delete_task R server K wid tid input) \<and>
   writes_once K POST (task_path R wid tid @ ''/comments'') (create_comment R server K wid tid text b) \<and>
   writes_once K PATCH (comment_path R wid tid cid) (update_comment R server K wid tid cid text b) \<and>
   writes_once K DELETE (comment_path R wid tid cid) (delete_comment R server K wid tid cid input)"
  unfolding writes_once_def create_task_def update_task_def move_task_def archive_task_def unarchive_task_def
    with_updated_title_def delete_task_def create_comment_def update_comment_def delete_comment_def api_create_task_def api_update_task_def
    api_move_task_def api_archive_task_def api_unarchive_task_def api_delete_task_def api_get_task_def
    api_create_comment_def api_update_comment_def api_delete_comment_def api_post_def api_patch_def Let_def case_prod_beta
  by (intro conjI writes_then_context writes_then_client writes_delete_checked;
    ((rule writes_last_call | rule writes_steps | rule writes_then_read)+)?;
    simp add: authorized_def plain_request_def)

section \<open>Accepting an assignment\<close>

text \<open>The request accepts a delegation, not yet accepted, that the task as the server shows it has for the
  agent as its assignee.\<close>
definition accepts ::
  "'x runtime_ext_scheme \<Rightarrow> server \<Rightarrow> runtime_client \<Rightarrow> uuid \<Rightarrow> uuid \<Rightarrow> uuid \<Rightarrow> http_request \<Rightarrow> bool" where
  "accepts R server K wid tid agent_id q \<longleftrightarrow>
     (\<exists>c sent detail d. fst (api_get_task R server c wid tid sent) = Ok detail \<and>
        d \<in> set (tk_delegations (td_task detail)) \<and> dg_target d = DelegateAgent agent_id \<and>
        dg_role d = RoleAssignee \<and> dg_status d \<noteq> StatusAccepted \<and> rq_method q = PATCH \<and>
        rq_url q = normalize_base_url (rc_api_url K) @ task_path R wid tid @ ''/delegations/'' @ uuid_display R (dg_id d) \<and>
        rq_body q = Some (JObject [(''status'', JString ''accepted'')]))"

lemma on_server_Ok: "on_server m w = (Ok a, w') \<Longrightarrow> \<exists>sent. fst (m sent) = Ok a"
  by (auto simp: on_server_def split: prod.splits) (metis fst_conv)

lemma assignee_delegation_Some:
  "assignee_delegation agent_id task = Some d \<Longrightarrow>
     d \<in> set (tk_delegations task) \<and> dg_target d = DelegateAgent agent_id \<and> dg_role d = RoleAssignee"
  by (auto simp: assignee_delegation_def find_Some_iff)

lemma writes_accept:
  assumes "pc_base_url client = normalize_base_url (rc_api_url K)"
    and "fst (api_get_task R server c wid tid sent) = Ok detail"
    and "assignee_delegation agent_id (td_task detail) = Some d" "dg_status d \<noteq> StatusAccepted"
  shows "writes 1 (accepts R server K wid tid agent_id)
    (on_server (update_delegation R server client wid tid (dg_id d) \<lparr> ud_status = Some StatusAccepted \<rparr>))"
  unfolding update_delegation_def api_patch_def One_nat_def
  by (rule writes_send)
    (use assms assignee_delegation_Some [OF assms(3)] in
      \<open>auto simp: accepts_def authorized_def plain_request_def update_delegation_json_def opt_field_def\<close>)

lemma writes_accept_delegation:
  assumes "pc_base_url client = normalize_base_url (rc_api_url K)"
    and "fst (api_get_task R server c wid tid sent) = Ok detail"
  shows "writes 1 (accepts R server K wid tid agent_id)
    (accept_delegation R server client ctxt wid tid agent_id detail)"
proof (cases "assignee_delegation agent_id (td_task detail)")
  case (Some d)
  show ?thesis
  proof (cases "dg_status d = StatusAccepted")
    case False
    note accept = writes_map [OF writes_accept [OF assms Some False]]
    have "writes 0 Q (io_then (io_map_err f (on_server (api_get_task R server client wid tid))) (\<lambda>x. io_return (g x)))"
      for Q f g unfolding api_get_task_def
      by (intro writes_then_read writes_map_err writes_get writes_return)
    from writes_then_pure [OF accept this] show ?thesis
      using Some False by (simp add: accept_delegation_def Let_def io_then_return)
  qed (use Some in \<open>simp add: accept_delegation_def Let_def io_then_return writes_return\<close>)
qed (simp add: accept_delegation_def io_then_return writes_return)

text \<open>What \<open>accept_task_assignment\<close> does once the agent is known.\<close>
lemma writes_accept_rest:
  "writes 1 (accepts R server K wid tid agent_id)
     (io_then (load_work_list_context R server K wid b msg) (\<lambda>(client, ctxt).
      io_then (on_server (api_get_task R server client wid tid))
        (accept_delegation R server client ctxt wid tid agent_id)))"
proof (rule writes_then_context, unfold case_prod_conv, rule writes_then_result)
  fix c :: api_client and ctxt
  assume base: "pc_base_url c = normalize_base_url (rc_api_url K)"
  show "writes 0 (accepts R server K wid tid agent_id) (on_server (api_get_task R server c wid tid))"
    unfolding api_get_task_def by (rule writes_get)
  fix w detail w' assume "on_server (api_get_task R server c wid tid) w = (Ok detail, w')"
  then show "writes 1 (accepts R server K wid tid agent_id) (accept_delegation R server c ctxt wid tid agent_id detail)"
    by (rule on_server_Ok [THEN exE]) (rule writes_accept_delegation [OF base])
qed

lemma require_principal_sent: "wd_sent (snd (require_principal_credentials R K w)) = wd_sent w"
  by (auto simp: require_principal_credentials_def io_then_def on_device_def io_return_def
      split: prod.splits rust_result.splits)

text \<open>C25: Accepting an assignment is safe to repeat and acts only for the agent itself: without stored
  credentials of an agent nothing is sent; otherwise at most one request modifies anything, and it
  accepts a delegation that the server shows for this agent as the assignee of the task and that is
  not accepted yet.\<close>
theorem accept_only_own_assignment:
  "\<exists>new. wd_sent (snd (accept_task_assignment R server K wid tid b w)) = wd_sent w @ new \<and>
     (case fst (require_principal_credentials R K w) of
        Ok (AgentPrincipal c) \<Rightarrow> length (filter (Not \<circ> harmless) new) \<le> 1 \<and>
          list_all (\<lambda>q. harmless q \<or> accepts R server K wid tid (ac_agent_id c) q) new
      | _ \<Rightarrow> new = [])"
proof -
  obtain r w1 where r: "require_principal_credentials R K w = (r, w1)" by fastforce
  have sent: "wd_sent w1 = wd_sent w" using require_principal_sent [of R K w] r by simp
  show ?thesis
  proof (cases "\<exists>c. r = Ok (AgentPrincipal c)")
    case True
    then obtain c where c: "r = Ok (AgentPrincipal c)" by blast
    show ?thesis
      using writes_accept_rest [of R server K wid tid "ac_agent_id c" b
          "''Password required to decrypt accepted task data.''", unfolded writes_def, rule_format, of w1]
        r c sent
      by (simp add: accept_task_assignment_def io_then_run io_then_return)
  next
    case False
    then show ?thesis using r sent
      by (cases r; (cases "\<exists>a. r = Ok a")?)
        (auto simp: accept_task_assignment_def io_then_def io_return_def split: principal_credentials.splits)
  qed
qed

end
