(* ===== verification/Rt_Instance.thy ===== *)
theory Rt_Instance
  imports Rt_Task_Thms Rt_Auth_Thms Rt_Daemon_Thms Api_Instance
begin

text \<open>The concrete instance of the runtime's parameters, \<open>demo_api\<close> extended by a clock, a random source,
  a daemon that is reached, and a server that keeps the payloads it is sent; and the theorems of
  \<open>client-runtime\<close> applied to it.\<close>

section \<open>The instance\<close>

text \<open>A codec of the tasks that have a title and nothing else.\<close>
definition titled_task :: "string \<Rightarrow> task_envelope" where
  "titled_task t = build_task_payload_envelope (new_task_body t None) 1"

definition title_codec :: "task_envelope codec" where
  "title_codec = bytes_codec (\<lambda>e. str_bytes (tb_title (te_body e))) (\<lambda>b. titled_task (bytes_str b))"

lemma title_codec_reads: "codec_reads title_codec (titled_task t)"
  unfolding title_codec_def
  by (rule bytes_codec_reads) (simp add: titled_task_def build_task_payload_envelope_def new_task_body_def)

definition demo_membership :: membership_response where
  "demo_membership = \<lparr> ms_id = demo_id 1, ms_user_id = replicate 16 7, ms_user_email = [], ms_user_name = [],
     ms_user_avatar_color = [], ms_role = ''owner'', ms_status = ''active'', ms_work_list_key_ciphertext = [],
     ms_recipient_ciphertext = None, ms_invite_package_ciphertext = None, ms_salt_member = None,
     ms_expires_at = None, ms_joined_at = 0, ms_payload_binding_key = None \<rparr>"

definition demo_work_list :: work_list_response where
  "demo_work_list = \<lparr> wl_id = demo_list_id, wl_owner_user_id = replicate 16 7, wl_workspace_id = demo_id 2,
     wl_redacted = None, wl_title_ciphertext = None, wl_description_ciphertext = None,
     wl_payload_ciphertext = None, wl_timezone = ''UTC'', wl_section_snapshots = [], wl_created_at = 0,
     wl_updated_at = 0, wl_membership = demo_membership \<rparr>"

text \<open>A task with the payload given.\<close>
definition demo_task_response :: "string \<Rightarrow> task_response" where
  "demo_task_response payload = \<lparr> tk_id = demo_id 3, tk_work_list_id = demo_list_id,
     tk_created_by_membership_id = demo_id 1, tk_title_ciphertext = [], tk_payload_ciphertext = payload,
     tk_section_id = None, tk_priority = None, tk_position = [], tk_due_at = None, tk_start_at = None,
     tk_completed_at = None, tk_archived_at = None, tk_is_completed = False, tk_recurrence_id = None,
     tk_recurrence_schedule = None, tk_recurrence_iteration = None, tk_materialized_at = None,
     tk_created_at = 0, tk_updated_at = 0, tk_comment_count = 0, tk_delegations = [] \<rparr>"

definition demo_base :: api_ext where
  "demo_base = demo_api\<lparr>task_codec := title_codec,
     de_work_list_detail := (\<lambda>_. Ok \<lparr> wd_work_list = demo_work_list, wd_members = [] \<rparr>),
     de_task := (\<lambda>s. Ok (demo_task_response s)) \<rparr>"

definition demo_list_secret :: symmetric_key where
  "demo_list_secret = (case derive_work_list_key demo_base demo_list_key demo_list_id of Ok k \<Rightarrow> k | _ \<Rightarrow> demo_list_key)"

text \<open>The payload of the task the server holds.\<close>
definition demo_stored_payload :: string where
  "demo_stored_payload =
     (case encrypt_task_payload demo_base (titled_task ''old'') demo_list_secret (replicate 12 9) of
        Ok b \<Rightarrow> sb_base64 b | _ \<Rightarrow> [])"

definition demo_runtime :: runtime_ext where
  "demo_runtime = api_ext.extend (demo_base\<lparr>
       de_task_detail := (\<lambda>_. Ok \<lparr> td_task = demo_task_response demo_stored_payload, td_comments = [] \<rparr>)\<rparr>) \<lparr>
     unix_clock = (\<lambda>n. of_nat (min n 100)), hash_first = (\<lambda>_. 0), connect_error = ''refused'', sock_fails = (\<lambda>_ _. None),
     spawn_fails = None, ready_after = 0, exe_exists = (\<lambda>_. True), current_exe = Ok [''worklist''],
     parse_path = (\<lambda>s. [s]), utc_clock = (\<lambda>n. - (10 ^ 12)), random_bytes = (\<lambda>i n. replicate n (of_nat i)),
     join_error = ''cancelled'', http_client_fails = None, parse_uuid = (\<lambda>_. Err ''invalid''),
     utf8_error = (\<lambda>_. ''invalid''), docx_markdown = (\<lambda>_. Err ''invalid''), html_to_md = id,
     blob_server = (\<lambda>_ _. Err ''gone''), read_stdin = (\<lambda>_. Err ''closed''), read_prompt = (\<lambda>_. Err ''closed''),
     env_unicode = (\<lambda>_. True) \<rparr>"

text \<open>The payload of the body of a request.\<close>
definition body_payload :: "json \<Rightarrow> string" where
  "body_payload body = (case json_get body ''payloadCiphertext'' of Some (JString s) \<Rightarrow> s | _ \<Rightarrow> [])"

definition demo_echo :: server where
  "demo_echo sent request = Ok \<lparr> rs_status = 200, rs_body = Inr (case rq_body request of Some body \<Rightarrow> body_payload body | None \<Rightarrow> []) \<rparr>"


lemmas demo_defs = demo_runtime_def demo_base_def demo_api_def api_ext.defs storage_ext.defs

lemma demo_base_fields [simp]:
  "aead_encrypt demo_base = demo_aead" "hkdf_prk_ok demo_base = (\<lambda>k. 32 \<le> length k)"
  "hkdf_expand demo_base = demo_expand" "hkdf_extract demo_base = hkdf_extract demo"
  "sealed_payload_codec demo_base = sealed_payload_codec demo_client" "task_codec demo_base = title_codec"
  "b64_nopad_enc demo_base = hex_bytes" "uuid_display demo_base = show_uuid"
  "cbor_push demo_base = cbor_push demo" "cbor_bytes demo_base = cbor_bytes demo"
  "hkdf_error demo_base = hkdf_error demo_client"
  by (simp_all add: demo_base_def demo_api_def storage_ext.defs demo_storage_defs grant_client_def demo_client_def)

lemma demo_fields [simp]:
  "aead_encrypt demo_runtime = demo_aead" "aead_decrypt demo_runtime = demo_open"
  "hkdf_prk_ok demo_runtime = (\<lambda>k. 32 \<le> length k)" "hkdf_expand demo_runtime = demo_expand"
  "hkdf_extract demo_runtime = hkdf_extract demo"
  "hkdf_error demo_runtime = hkdf_error demo_client"
  "cbor_push demo_runtime = cbor_push demo" "cbor_bytes demo_runtime = cbor_bytes demo"
  "cbor_pull demo_runtime = demo_pull" "segments_pull demo_runtime = segments_pull demo"
  "segment_pull demo_runtime = demo_segment"
  "hmac_sha256 demo_runtime = hmac_sha256 demo_client" "uuid_display demo_runtime = show_uuid"
  "sealed_payload_codec demo_runtime = sealed_payload_codec demo_client"
  "text_value_codec demo_runtime = text_value_codec demo_client" "task_codec demo_runtime = title_codec"
  "b64_nopad_enc demo_runtime = hex_bytes" "b64_nopad_dec demo_runtime = unhex"
  "de_work_list_detail demo_runtime = (\<lambda>_. Ok \<lparr> wd_work_list = demo_work_list, wd_members = [] \<rparr>)"
  "de_task demo_runtime = (\<lambda>s. Ok (demo_task_response s))"
  "de_task_detail demo_runtime = (\<lambda>_. Ok \<lparr> td_task = demo_task_response demo_stored_payload, td_comments = [] \<rparr>)"
  by (simp_all add: demo_defs demo_storage_defs grant_client_def demo_client_def)

lemma demo_runtime_fields [simp]:
  "unix_clock demo_runtime = (\<lambda>n. of_nat (min n 100))" "sock_fails demo_runtime = (\<lambda>_ _. None)" "hash_first demo_runtime = (\<lambda>_. 0)"
  "utc_clock demo_runtime = (\<lambda>n. - (10 ^ 12))" "random_bytes demo_runtime = (\<lambda>i n. replicate n (of_nat i))"
  "http_client_fails demo_runtime = None" "exe_exists demo_runtime = (\<lambda>_. True)" "spawn_fails demo_runtime = None"
  "ready_after demo_runtime = 0"
  by (simp_all add: demo_runtime_def api_ext.defs)

lemma demo_runtime_storage [simp]:
  "home_dir demo_runtime = Some [''home'']" "env_var demo_runtime = (\<lambda>_. None)" "io_fails demo_runtime = (\<lambda>_. None)"
  "credentials_ser demo_runtime = (\<lambda>_. Ok [1])" "credentials_de demo_runtime = (\<lambda>_. Ok demo_credentials)"
  "duration_try_seconds demo_runtime = (\<lambda>s. if \<bar>s\<bar> \<le> (2 ^ 63 - 1) div 1000 then Some (s * 10 ^ 9) else None)"
  "checked_add_signed demo_runtime = (\<lambda>t d. Some (t + d))"
  "de_refresh_response demo_runtime = (\<lambda>_. Ok demo_refresh_response)" "temp_nonce demo_runtime = ''nonce''"
  by (simp_all add: demo_defs)

lemma demo_runtime_url [simp]: "normalize_api_url demo_runtime = normalize_api_url demo_storage"
proof -
  have "url_parse demo_runtime = url_parse demo_storage" "url_clear_port demo_runtime = url_clear_port demo_storage"
      "url_set_path demo_runtime = url_set_path demo_storage" "url_as_str demo_runtime = url_as_str demo_storage"
    by (simp_all add: demo_defs)
  then show ?thesis by (simp only: fun_eq_iff normalize_api_url_def canonicalize_api_url_def) simp
qed

lemma demo_runtime_laws [simp]: "box_laws demo_runtime" "b64_laws demo_runtime" "wire_laws demo_runtime"
proof -
  have "aead_laws demo_runtime" using demo_aead_laws unfolding aead_laws_def demo_fields demo_simps .
  moreover have "hkdf_laws demo_runtime" using demo_hkdf_laws unfolding hkdf_laws_def demo_fields demo_simps .
  moreover have "cbor_laws demo_runtime" using demo_cbor_laws unfolding cbor_laws_def demo_fields demo_simps .
  ultimately show box: "box_laws demo_runtime" by (simp add: box_laws_def)
  have "b64_laws demo_client" by (simp add: demo_client_def)
  then show b64: "b64_laws demo_runtime" by (simp add: b64_laws_def demo_client_def)
  show "wire_laws demo_runtime" using box b64 by (simp add: wire_laws_def demo_client_def)
qed


section \<open>The commands run\<close>

definition demo_rc :: runtime_client where
  "demo_rc = \<lparr> rc_api_url = ''https://h/api'', rc_selection = SelectAuto \<rparr>"

definition demo_session :: session_key where
  "demo_session = \<lparr> sk_api_url = ''https://h/api'', sk_user_id = replicate 16 7,
     sk_data_key_fingerprint = hex_bytes (sha256 demo_runtime [0]) \<rparr>"

text \<open>A device with a login, and a daemon that holds the data key.\<close>
definition demo_world :: world where
  "demo_world = \<lparr> wd_device = demo_user_device, wd_sent = [],
     wd_daemon = \<lparr> dw_daemon = Some [(demo_session, \<lparr> st_data_key_b64 = hex_bytes (sym_bytes demo_list_key),
       st_expires_at_unix = 100 \<rparr>)], dw_reads = 0 \<rparr>, wd_reads = 0 \<rparr>"

lemma demo_config [simp]: "config_dir demo_runtime = Ok [''home'', ''.worklist'']"
  by (simp add: config_dir_def)

lemma demo_runtime_io_do [simp]: "io_do demo_runtime op m f d = (Ok (), f d)"
  by (simp add: io_do_def)

lemma demo_logged_in:
  "wd_device w = demo_user_device \<Longrightarrow>
     require_principal_credentials demo_runtime demo_rc w = (Ok (UserPrincipal demo_credentials), w)"
  by (simp add: require_principal_credentials_def load_principal_credentials_for_url_def on_device_def
      load_credentials_for_url_def load_credentials_def load_agent_credentials_for_url_def load_agent_credentials_def
      credentials_path_def agent_credentials_path_def load_config_file_def io_simps demo_user_device_def io_do_def
      demo_device_def demo_rc_def demo_credentials_def)

lemma demo_session_key: "current_session_key demo_runtime demo_rc demo_credentials = Ok demo_session"
proof -
  have "trim ''00'' = ''00''" by (rule trim_graphic) (simp_all add: graphic_def)
  moreover have "unhex ''00'' = Ok [0]" by (simp add: unhex_digit_def)
  ultimately show ?thesis
    by (simp add: current_session_key_def make_session_key_def daemon_decode_base64_def demo_rc_def
        demo_credentials_def demo_session_def)
qed


lemma demo_key_source:
  "\<exists>w. load_principal_work_list_key_source demo_runtime server demo_rc False msg demo_world =
     (Ok (UserDataKey demo_list_key), w) \<and> wd_device w = demo_user_device \<and> wd_reads w = 0"
proof -
  have "try_send_request demo_runtime (GetSession demo_session) (wd_daemon demo_world) =
      (Ok (DataKeyIs (Some (hex_bytes (sym_bytes demo_list_key)))),
       \<lparr> dw_daemon = Some [(demo_session, \<lparr> st_data_key_b64 = hex_bytes (sym_bytes demo_list_key),
         st_expires_at_unix = 100 \<rparr>)], dw_reads = 1 \<rparr>)"
    by (simp add: try_send_request_def socket_path_def io_simps demo_world_def handle_request_def store_get_def
        prune_expired_def Let_def)
  moreover have "symmetric_key_from_bytes (sym_bytes demo_list_key) = Ok demo_list_key"
    by (simp add: symmetric_key_from_bytes_def demo_list_key_def)
  ultimately have "\<exists>d. fetch_data_key demo_runtime demo_session (wd_daemon demo_world) = (Ok (Some demo_list_key), d)"
    by (simp add: fetch_data_key_def query_daemon_def daemon_decode_base64_def unhex_hex_bytes)
  then obtain d where fetched:
      "fetch_data_key demo_runtime demo_session (wd_daemon demo_world) = (Ok (Some demo_list_key), d)"
    by blast
  have loaded: "load_data_key demo_runtime server demo_rc demo_credentials False msg demo_world =
      (Ok demo_list_key, demo_world\<lparr>wd_daemon := d\<rparr>)"
    by (simp add: load_data_key_def demo_session_key io_then_return io_then_def on_daemon_def fetched io_return_def)
  have "wd_device demo_world = demo_user_device" by (simp add: demo_world_def)
  from demo_logged_in [OF this] have "load_principal_work_list_key_source demo_runtime server demo_rc False msg demo_world =
      (Ok (UserDataKey demo_list_key), demo_world\<lparr>wd_daemon := d\<rparr>)"
    by (simp add: load_principal_work_list_key_source_def io_then_def io_map_def loaded)
  then show ?thesis by (simp add: demo_world_def)
qed

lemma demo_no_refresh:
  "\<exists>w'. refresh_user_credentials_if_needed demo_runtime server demo_rc demo_credentials w = (Ok demo_credentials, w')"
proof -
  have "access_expires_within demo_runtime demo_credentials (- (10 ^ 12)) 60 = Ok False"
    by (simp add: access_expires_within_def now_plus_def demo_credentials_def)
  then show ?thesis
    by (simp add: refresh_user_credentials_if_needed_def utc_now_then io_then_return io_return_run)
qed

definition demo_bearer_client :: api_client where
  "demo_bearer_client = with_bearer_token ''https://h/api'' ''access''"

lemma demo_api_client_run:
  assumes "wd_device w = demo_user_device"
  shows "\<exists>w'. authenticated_api_client demo_runtime server demo_rc w = (Ok demo_bearer_client, w')"
proof -
  obtain w' where "refresh_user_credentials_if_needed demo_runtime server demo_rc demo_credentials w = (Ok demo_credentials, w')"
    using demo_no_refresh by blast
  then show ?thesis
    by (simp add: authenticated_api_client_def fresh_principal_access_token_def io_map_def io_then_def
        demo_logged_in [OF assms] demo_bearer_client_def) (simp add: demo_rc_def demo_credentials_def)
qed

lemma demo_list_secret: "derive_work_list_key demo_runtime demo_list_key demo_list_id = Ok demo_list_secret"
proof -
  have "derive_work_list_key demo_runtime demo_list_key demo_list_id =
      derive_work_list_key demo_base demo_list_key demo_list_id"
    by (simp add: derive_work_list_key_def derive_child_key_def hkdf_new_expand_def)
  moreover have "\<exists>k. derive_work_list_key demo_runtime demo_list_key demo_list_id = Ok k"
    using hkdf_new_expand_total demo_runtime_laws(1)
    unfolding box_laws_def derive_work_list_key_def derive_child_key_def by blast
  ultimately show ?thesis by (auto simp: demo_list_secret_def)
qed

definition demo_context :: work_list_context where
  "demo_context = \<lparr> lc_work_list_title = None, lc_list_key = Some demo_list_secret, lc_read_error = None \<rparr>"

lemma demo_context_run:
  "context_from_work_list_response demo_runtime demo_work_list (Some (UserDataKey demo_list_key)) = Ok demo_context"
  using demo_list_secret
  by (simp add: context_from_work_list_response_def resolve_work_list_key_def resolve_list_key_def
      demo_work_list_def demo_membership_def demo_context_def)

lemma demo_echo_get:
  "\<exists>w'. on_server (api_get demo_runtime demo_echo demo_bearer_client (\<lambda>_. Ok v) path) w = (Ok v, w')"
  by (simp add: on_server_def api_get_def send_run demo_bearer_client_def with_bearer_token_def Let_def demo_echo_def
      handle_response_def response_json_def is_success_def)

lemma demo_load:
  "\<exists>w. load_work_list_context demo_runtime demo_echo demo_rc demo_list_id False msg demo_world =
     (Ok (demo_bearer_client, demo_context), w)"
proof -
  obtain w1 where source: "load_principal_work_list_key_source demo_runtime demo_echo demo_rc False msg demo_world =
      (Ok (UserDataKey demo_list_key), w1)" "wd_device w1 = demo_user_device"
    using demo_key_source by blast
  obtain w2 where client: "authenticated_api_client demo_runtime demo_echo demo_rc w1 = (Ok demo_bearer_client, w2)"
    using demo_api_client_run [OF source(2)] by blast
  obtain w3 where "on_server (get_work_list demo_runtime demo_echo demo_bearer_client demo_list_id) w2 =
      (Ok \<lparr> wd_work_list = demo_work_list, wd_members = [] \<rparr>, w3)"
    using demo_echo_get [of "\<lparr> wd_work_list = demo_work_list, wd_members = [] \<rparr>"
        "work_list_path demo_runtime demo_list_id" w2]
    by (auto simp: get_work_list_def)
  then show ?thesis
    by (simp add: load_work_list_context_def io_then_def source client demo_context_run io_return_def)
qed


section \<open>Sealing\<close>

lemma demo_seals:
  assumes "\<exists>b. enc c v = Ok b" "sym_wf k"
  shows "\<exists>blob. encrypt_sealed_payload demo_runtime c v k nonce ctx err = Ok blob"
proof -
  obtain b where b: "enc c v = Ok b" using assms(1) by blast
  have "hkdf_laws demo_runtime" "cbor_laws demo_runtime" using demo_runtime_laws(1) by (simp_all add: box_laws_def)
  note box = key_ring_box [OF this(1) assms(2)] and cbor = this(2)
  obtain ct where "static_encrypt demo_runtime (box_of_secret demo_runtime (sym_bytes k)) nonce b ctx = Ok ct"
    using ciphertext_to_bytes_total [OF cbor] by (auto simp: static_encrypt_def demo_aead_def)
  moreover have "\<exists>p. enc (sealed_payload_codec demo_runtime) (sealed_payload_new ct) = Ok p" for ct
    by (simp add: demo_client_def client_with_def ext.defs bytes_codec_def)
  ultimately show ?thesis
    by (auto simp: encrypt_sealed_payload_def serialize_to_cbor_def b box sealed_blob_from_payload_def
        sealed_payload_to_bytes_def)
qed

lemma demo_derives: "\<exists>k. derive_payload_binding_key demo_runtime k0 = Ok k \<and> sym_wf k"
  using hkdf_new_expand_total demo_runtime_laws(1)
  unfolding box_laws_def derive_payload_binding_key_def derive_child_key_def by blast

lemma demo_list_secret_wf [simp]: "sym_wf demo_list_secret"
  using demo_list_secret hkdf_new_expand_total demo_runtime_laws(1)
  unfolding box_laws_def derive_work_list_key_def derive_child_key_def by (metis rust_result.inject(1))


lemma demo_proof: "\<exists>t. compute_payload_proof demo_runtime b k = Ok t"
  by (simp add: compute_payload_proof_def demo_client_def)

section \<open>Runs that succeed\<close>

definition runs :: "'a act \<Rightarrow> world \<Rightarrow> bool" where
  "runs m w \<longleftrightarrow> (\<exists>a w'. m w = (Ok a, w'))"

lemma runs_then: "m w = (Ok a, w') \<Longrightarrow> runs (f a) w' \<Longrightarrow> runs (io_then m f) w"
  by (simp add: runs_def io_then_def)

lemma runs_return: "r = Ok a \<Longrightarrow> runs (f a) w \<Longrightarrow> runs (io_then (io_return r) f) w"
  by (simp add: io_then_return)

lemma runs_draw:
  "(\<And>w'. runs (f (replicate n (of_nat (wd_reads w)))) w') \<Longrightarrow> runs (io_then (draw demo_runtime n) f) w"
  by (simp add: io_then_def draw_def reading_def runs_def)

lemma demo_title_trims [simp]: "trim ''new'' = ''new''"
  by (rule trim_graphic) (simp_all add: graphic_def)

lemma demo_project:
  assumes "encrypt_task_payload demo_runtime (titled_task t) demo_list_secret nonce = Ok blob" "length nonce = 12"
  shows "\<exists>s. project_task_summary demo_runtime (Some demo_context) (demo_task_response (sb_base64 blob)) = Ok s"
proof -
  have no_title: "decode_sealed_blob demo_runtime [] = Err (Validation ''ciphertext cannot be empty'')"
    by (simp add: decode_sealed_blob_def decode_base64_def)
  have opens: "and_then (decode_sealed_blob demo_runtime (sb_base64 blob)) (decrypt_task_payload demo_runtime demo_list_secret) =
      Ok (titled_task t)"
    unfolding titled_task_def build_task_payload_envelope_def
    by (rule task_payload_opens [OF _ _ assms(2), of demo_runtime demo_list_secret "new_task_body t None" 1])
      (use assms(1) title_codec_reads [of t] in \<open>simp_all add: titled_task_def\<close>)
  show ?thesis
    by (simp del: and_then_eq_Ok add: opens project_task_summary_def demo_context_def demo_task_response_def project_task_def
        decode_task_title_fallback_def decode_text_fallback_def no_title readable_task_def
        readable_attachments_def project_attachments_def titled_task_def build_task_payload_envelope_def
        new_task_body_def)
qed

lemma demo_sealed_task:
  obtains blob where "encrypt_task_payload demo_runtime (titled_task t) demo_list_secret nonce = Ok blob"
proof -
  have "\<exists>b. enc (task_codec demo_runtime) (titled_task t) = Ok b" by (simp add: title_codec_def bytes_codec_def)
  from demo_seals [OF this demo_list_secret_wf] that show thesis unfolding encrypt_task_payload_def by blast
qed

lemma demo_sealed_title:
  obtains blob where "seal_task_title_for_id demo_runtime t demo_list_secret nonce tid = Ok blob"
proof -
  have "\<exists>b. enc (text_value_codec demo_runtime) \<lparr> tv_value = t \<rparr> = Ok b"
    by (simp add: demo_client_def client_with_def ext.defs bytes_codec_def)
  from demo_seals [OF this demo_list_secret_wf] that show thesis
    unfolding seal_task_title_for_id_def seal_text_value_for_entity_def seal_text_value_with_context_def by blast
qed

lemma demo_echo_send:
  "api_post demo_runtime demo_echo c (\<lambda>s. Ok (demo_task_response s)) path body sent =
     (case pc_bearer_token c of None \<Rightarrow> (Err (Validation ''not logged in''), sent)
      | Some token \<Rightarrow> (Ok (demo_task_response (body_payload body)),
          sent @ [authorized (plain_request POST c path (Some body)) token]))"
  "api_patch demo_runtime demo_echo c (\<lambda>s. Ok (demo_task_response s)) path body sent =
     (case pc_bearer_token c of None \<Rightarrow> (Err (Validation ''not logged in''), sent)
      | Some token \<Rightarrow> (Ok (demo_task_response (body_payload body)),
          sent @ [authorized (plain_request PATCH c path (Some body)) token]))"
  by (simp_all add: api_post_def api_patch_def send_run Let_def demo_echo_def handle_response_def response_json_def
      is_success_def authorized_def plain_request_def split: option.split)

lemma demo_body_payload [simp]:
  "body_payload (create_task_json X f r) = ct_payload_ciphertext r"
  "ut_payload_ciphertext u = Some p \<Longrightarrow> body_payload (update_task_json X f u) = p"
  by (simp_all add: body_payload_def json_get_def obj_get_def create_task_json_def update_task_json_def opt_field_def
      split: option.split)

lemma demo_payload [simp]: "tk_payload_ciphertext (demo_task_response p) = p"
  by (simp add: demo_task_response_def)

lemma demo_echoes: "echoes_payloads demo_runtime demo_echo"
  unfolding echoes_payloads_def api_create_task_def api_update_task_def
  by (auto simp: demo_echo_send split: option.splits)

lemma demo_bearer_access [simp]: "pc_bearer_token demo_bearer_client = Some ''access''"
  by (simp add: demo_bearer_client_def with_bearer_token_def)

lemma demo_creates:
  "\<exists>sent'. api_create_task demo_runtime demo_echo demo_bearer_client demo_list_id request sent =
     (Ok (demo_task_response (ct_payload_ciphertext request)), sent')"
  by (simp add: api_create_task_def demo_echo_send)

lemma demo_updates:
  "ut_payload_ciphertext request = Some payload \<Longrightarrow>
     \<exists>sent'. api_update_task demo_runtime demo_echo demo_bearer_client demo_list_id tid request sent =
       (Ok (demo_task_response payload), sent')"
  by (simp add: api_update_task_def demo_echo_send)

lemma runs_title:
  "(\<And>blob. runs (f blob) w) \<Longrightarrow>
     runs (io_then (io_return (seal_task_title_for_id demo_runtime t demo_list_secret nonce tid)) f) w"
  by (metis demo_sealed_title runs_return)

lemma runs_proof: "(\<And>t. runs (f t) w) \<Longrightarrow> runs (io_then (io_return (compute_payload_proof demo_runtime b k)) f) w"
  by (metis demo_proof runs_return)

lemma demo_key: "require_work_list_key demo_context = Ok demo_list_secret"
  by (simp add: require_work_list_key_def demo_context_def)

lemma demo_create_runs: "runs (create_task demo_runtime demo_echo demo_rc demo_list_id ''new'' None False) demo_world"
proof -
  obtain w1 where loaded: "load_work_list_context demo_runtime demo_echo demo_rc demo_list_id False
      ''Password required to create encrypted task payloads.'' demo_world =
      (Ok (demo_bearer_client, demo_context), w1)" using demo_load by blast
  obtain bk where bk: "derive_payload_binding_key demo_runtime demo_list_secret = Ok bk" using demo_derives by blast
  let ?n = "replicate 12 (of_nat (wd_reads w1))"
  obtain payload where payload: "encrypt_task_payload demo_runtime (titled_task ''new'') demo_list_secret ?n = Ok payload"
    using demo_sealed_task by blast
  obtain s where s: "project_task_summary demo_runtime (Some demo_context) (demo_task_response (sb_base64 payload)) = Ok s"
    using demo_project [OF payload] by auto
  have post: "runs (io_then (on_server (api_create_task demo_runtime demo_echo demo_bearer_client demo_list_id request))
      (\<lambda>created. io_return (project_task_summary demo_runtime (Some demo_context) created))) w"
    if "ct_payload_ciphertext request = sb_base64 payload" for request w
    using demo_creates [of request "wd_sent w"] s that
    by (auto simp: runs_def io_then_def on_server_def io_return_def)
  show ?thesis
    unfolding create_task_def
    apply (rule runs_then, rule loaded, simp only: prod.case)
    apply (rule runs_return [OF demo_key], rule runs_return [OF bk])
    apply (simp only: demo_title_trims Let_def list.simps if_False)
    apply (rule runs_draw, rule runs_return [OF payload [unfolded titled_task_def]])
    apply (rule runs_draw, rule runs_draw, rule runs_title, rule runs_proof, rule runs_proof, rule post)
    apply simp
    done
qed


theorem created_task_reads_back_witness:
  "\<exists>s w'. create_task demo_runtime demo_echo demo_rc demo_list_id ''new'' None False demo_world = (Ok s, w') \<and>
     ts_title s = Some ''new'' \<and> ts_body_markdown s = None \<and> ts_read_error s = None"
proof -
  obtain s w' where run: "create_task demo_runtime demo_echo demo_rc demo_list_id ''new'' None False demo_world = (Ok s, w')"
    using demo_create_runs unfolding runs_def by blast
  have "codec_reads (task_codec demo_runtime) (build_task_payload_envelope (new_task_body (trim ''new'') None) 1)"
    using title_codec_reads [of "''new''"] by (simp add: titled_task_def)
  from created_task_reads_back [OF _ _ demo_echoes this run] show ?thesis using run by simp
qed

lemma demo_key_id: "key_id demo_base k = key_id demo_runtime k"
  by (simp add: key_id_def kdf_derive_key_def)

lemma demo_stored:
  obtains blob where "demo_stored_payload = sb_base64 blob"
    "encrypt_task_payload demo_runtime (titled_task ''old'') demo_list_secret (replicate 12 9) = Ok blob"
proof -
  obtain blob where blob: "encrypt_task_payload demo_runtime (titled_task ''old'') demo_list_secret (replicate 12 9) = Ok blob"
    using demo_sealed_task by blast
  moreover have "encrypt_task_payload demo_base = encrypt_task_payload demo_runtime"
    by (simp add: fun_eq_iff demo_key_id encrypt_task_payload_def encrypt_sealed_payload_def key_ring_strong_box_def static_new_def
        static_encrypt_def ciphertext_to_bytes_def keyid_encode_def sealed_blob_from_payload_def sealed_payload_to_bytes_def
        keyid_of_def)
  ultimately show thesis using that by (simp add: demo_stored_payload_def)
qed


lemma demo_update_runs:
  "runs (update_task demo_runtime demo_echo demo_rc demo_list_id (demo_id 3) (Some ''new'') None False) demo_world"
proof -
  obtain w1 where loaded: "load_work_list_context demo_runtime demo_echo demo_rc demo_list_id False
      ''Password required to update encrypted task payloads.'' demo_world =
      (Ok (demo_bearer_client, demo_context), w1)" using demo_load by blast
  obtain bk where bk: "derive_payload_binding_key demo_runtime demo_list_secret = Ok bk" using demo_derives by blast
  obtain w2 where detail: "on_server (api_get_task demo_runtime demo_echo demo_bearer_client demo_list_id (demo_id 3)) w1 =
      (Ok \<lparr> td_task = demo_task_response demo_stored_payload, td_comments = [] \<rparr>, w2)"
    using demo_echo_get [of "\<lparr> td_task = demo_task_response demo_stored_payload, td_comments = [] \<rparr>"
        "task_path demo_runtime demo_list_id (demo_id 3)" w1]
    by (auto simp: api_get_task_def)
  obtain stored where stored: "demo_stored_payload = sb_base64 stored"
      "encrypt_task_payload demo_runtime (titled_task ''old'') demo_list_secret (replicate 12 9) = Ok stored"
    by (rule demo_stored)
  have opened: "and_then (decode_sealed_blob demo_runtime (sb_base64 stored)) (decrypt_task_payload demo_runtime demo_list_secret)
      = Ok (titled_task ''old'')"
    unfolding titled_task_def build_task_payload_envelope_def
    by (rule task_payload_opens [of demo_runtime demo_list_secret "replicate 12 9" "new_task_body ''old'' None" 1])
      (use stored(2) title_codec_reads [of "''old''"] in \<open>simp_all add: titled_task_def\<close>)
  then obtain b where b: "decode_sealed_blob demo_runtime demo_stored_payload = Ok b"
      "decrypt_task_payload demo_runtime demo_list_secret b = Ok (titled_task ''old'')"
    by (auto simp: stored(1))
  have body: "build_task_payload_envelope (updated_task_body (Some ''new'') None (te_body (titled_task ''old''))) 1 =
      titled_task ''new''"
    by (simp add: updated_task_body_def updated_title_def updated_rich_text_def titled_task_def
        build_task_payload_envelope_def new_task_body_def)
  let ?n = "replicate 12 (of_nat (wd_reads w2))"
  obtain payload where payload: "encrypt_task_payload demo_runtime (titled_task ''new'') demo_list_secret ?n = Ok payload"
    using demo_sealed_task by blast
  obtain s where s: "project_task_summary demo_runtime (Some demo_context) (demo_task_response (sb_base64 payload)) = Ok s"
    using demo_project [OF payload] by auto
  have patch: "runs (io_then (on_server (api_update_task demo_runtime demo_echo demo_bearer_client demo_list_id (demo_id 3) request))
      (\<lambda>updated. io_return (project_task_summary demo_runtime (Some demo_context) updated))) w"
    if "ut_payload_ciphertext request = Some (sb_base64 payload)" for request w
    using demo_updates [OF that, of "demo_id 3" "wd_sent w"] s
    by (auto simp: runs_def io_then_def on_server_def io_return_def)
  show ?thesis
    unfolding update_task_def
    apply (rule runs_then, rule loaded, simp only: prod.case)
    apply (rule runs_return [OF demo_key], rule runs_return [OF bk], rule runs_then, rule detail)
    apply (rule runs_return, simp add: demo_task_response_def, rule b(1), rule runs_return, rule b(2))
    apply (simp only: option.distinct simp_thms if_False Let_def)
    apply (rule runs_draw, rule runs_return, simp only: body, rule payload, rule runs_proof)
    apply (simp only: with_updated_title_def option.case demo_title_trims Let_def list.simps if_False io_then_assoc)
    apply (rule runs_draw, rule runs_title, rule runs_proof, simp only: io_then_return, rule patch)
    apply simp
    done
qed

theorem updated_task_keeps_fields_witness:
  "\<exists>s w'. update_task demo_runtime demo_echo demo_rc demo_list_id (demo_id 3) (Some ''new'') None False demo_world =
     (Ok s, w') \<and> ts_title s = Some ''new''"
proof -
  obtain s w' where run: "update_task demo_runtime demo_echo demo_rc demo_list_id (demo_id 3) (Some ''new'') None False
      demo_world = (Ok s, w')"
    using demo_update_runs unfolding runs_def by blast
  have reads: "codec_reads (task_codec demo_runtime)
      (build_task_payload_envelope (updated_task_body (Some ''new'') None (te_body old)) 1)"
    if "dec (task_codec demo_runtime) encoded = Ok (old, n)" for encoded old n
  proof -
    have "\<exists>t. old = titled_task t"
      using that by (auto simp: title_codec_def bytes_codec_def split: rust_result.splits prod.splits header.splits option.splits if_splits)
    then have "build_task_payload_envelope (updated_task_body (Some ''new'') None (te_body old)) 1 = titled_task ''new''"
      by (auto simp add: updated_task_body_def updated_title_def updated_rich_text_def titled_task_def
          build_task_payload_envelope_def new_task_body_def)
    then show ?thesis using title_codec_reads by simp
  qed
  have random: "length (random_bytes demo_runtime i n) = n" for i n by simp
  have "\<forall>encoded old n. dec (task_codec demo_runtime) encoded = Ok (old, n) \<longrightarrow> codec_reads (task_codec demo_runtime)
      (build_task_payload_envelope (updated_task_body (Some ''new'') None (te_body old)) 1)"
    using reads by blast
  from updated_task_keeps_fields [OF demo_runtime_laws(3) random demo_echoes this run] show ?thesis
    using run by auto
qed


section \<open>Tokens and the daemon\<close>

text \<open>A token that expires within a minute, and the one it is exchanged for.\<close>
definition demo_refreshed :: credentials where
  "demo_refreshed = demo_credentials\<lparr> cr_access_token := ''access2'', cr_refresh_token := ''refresh2'',
     cr_access_expires_at := 60 * 10 ^ 9 + 2, cr_refresh_expires_at := 600 * 10 ^ 9 + 2 \<rparr>"

definition demo_late :: runtime_ext where
  "demo_late = demo_runtime\<lparr> utc_clock := int,
     credentials_ser := (\<lambda>c. if c = demo_refreshed then Ok [1] else Err ''not supported''),
     credentials_de := (\<lambda>_. Ok demo_refreshed) \<rparr>"

lemma demo_late_fields [simp]:
  "utc_clock demo_late = int" "io_fails demo_late = (\<lambda>_. None)" "http_client_fails demo_late = None"
  "credentials_ser demo_late = (\<lambda>c. if c = demo_refreshed then Ok [1] else Err ''not supported'')"
  "credentials_de demo_late = (\<lambda>_. Ok demo_refreshed)" "home_dir demo_late = Some [''home'']"
  "duration_try_seconds demo_late = (\<lambda>s. if \<bar>s\<bar> \<le> (2 ^ 63 - 1) div 1000 then Some (s * 10 ^ 9) else None)"
  "checked_add_signed demo_late = (\<lambda>t d. Some (t + d))" "temp_nonce demo_late = ''nonce''"
  "de_refresh_response demo_late = (\<lambda>_. Ok demo_refresh_response)"
  by (simp_all add: demo_late_def)

lemma demo_late_io_do [simp]: "io_do demo_late op m f d = (Ok (), f d)"
  by (simp add: io_do_def)

lemma demo_late_saves: "fst (save_credentials demo_late demo_refreshed demo_device) = Ok ()"
proof -
  have "temporary_secret_path demo_late = temporary_secret_path demo_storage"
    by (simp add: temporary_secret_path_def fun_eq_iff)
  then show ?thesis
    by (simp add: save_credentials_def credentials_path_def config_dir_def save_config_file_def ensure_config_dir_def
        set_config_dir_permissions_def io_simps demo_device_def write_secret_file_atomic_def Let_def
        create_secret_file_def file_exists_def write_temporary_def write_all_def set_contents_def sync_directory_def)
qed

definition demo_late_world :: world where
  "demo_late_world = demo_world\<lparr> wd_device := demo_device \<rparr>"

lemma demo_late_run:
  "\<exists>w'. refresh_user_credentials_if_needed demo_late demo_echo demo_rc demo_credentials demo_late_world =
     (Ok demo_refreshed, w')"
proof -
  have expires: "access_expires_within demo_late demo_credentials 0 60 = Ok True"
    by (simp add: access_expires_within_def now_plus_def demo_credentials_def)
  have update: "update_credentials_with_refresh demo_late 2 demo_refresh_response demo_credentials = (Ok (), demo_refreshed)"
    by (simp add: update_credentials_with_refresh_def expires_at_from_def io_simps demo_refresh_response_def
        demo_credentials_def demo_refreshed_def)
  have "\<exists>sent'. refresh_access_token demo_late demo_echo url token sent = (Ok demo_refresh_response, sent')" for url token sent
    by (simp add: refresh_access_token_def send_auth_request_def transmit_def io_then_def io_map_err_def demo_echo_def
        io_return_def parse_json_response_def response_json_def is_success_def)
  then obtain sent' where answer: "refresh_access_token demo_late demo_echo (rc_api_url demo_rc)
      (cr_refresh_token demo_credentials) [] = (Ok demo_refresh_response, sent')"
    by blast
  have save: "\<exists>d. save_credentials demo_late demo_refreshed demo_device = (Ok (), d)"
    using demo_late_saves by (metis prod.collapse)
  have live: "\<not> is_refresh_expired demo_credentials 1"
    by (simp add: is_refresh_expired_def demo_credentials_def)
  show ?thesis
    unfolding refresh_user_credentials_if_needed_def utc_now_then
    using save
    by (auto simp: demo_late_world_def demo_world_def expires live io_then_return auth_http_client_def io_then_def
        on_server_def answer utc_now_then [unfolded io_then_def] update io_return_def io_map_def
        save_credentials_blocking_def join_task_def on_device_def utc_now_def reading_def)
qed

theorem refreshed_credentials_stored_witness:
  "\<exists>w'. refresh_user_credentials_if_needed demo_late demo_echo demo_rc demo_credentials demo_late_world =
     (Ok demo_refreshed, w') \<and> load_credentials demo_late (wd_device w') = (Ok (Some demo_refreshed), wd_device w')"
proof -
  obtain w' where run: "refresh_user_credentials_if_needed demo_late demo_echo demo_rc demo_credentials demo_late_world =
     (Ok demo_refreshed, w')" using demo_late_run by blast
  have ser: "credentials_ser demo_late v = Ok b \<Longrightarrow> credentials_de demo_late b = Ok v" for v b
    by (simp split: if_splits)
  have opens: "io_fails demo_late (OpenFile q) = None" for q by simp
  have "demo_refreshed \<noteq> demo_credentials" by (simp add: demo_refreshed_def demo_credentials_def)
  with refreshed_credentials_stored [OF ser opens run] run show ?thesis by auto
qed

theorem socket_private_witness:
  "\<exists>d'. prepare_socket demo_runtime (\<lambda>_. None) [''home'', ''.worklist'', ''unlock.sock''] demo_device = (Ok (), d') \<and>
     map_option fl_mode (dv_files d' [''home'', ''.worklist'', ''unlock.sock'']) = Some 384"
proof -
  have "fst (prepare_socket demo_runtime (\<lambda>_. None) [''home'', ''.worklist'', ''unlock.sock''] demo_device) = Ok ()"
    by (simp add: prepare_socket_def Let_def io_simps guard_err_def remove_if_exists_def file_exists_def demo_device_def
        put_file_def io_then_def)
  then obtain d' where "prepare_socket demo_runtime (\<lambda>_. None) [''home'', ''.worklist'', ''unlock.sock''] demo_device = (Ok (), d')"
    by (metis prod.collapse)
  from socket_private [OF this] this show ?thesis by blast
qed

theorem daemon_refines_ideal_store_witness:
  "ideal_serves Map.empty [(PutSession demo_session ''k'' 9, 1), (GetSession demo_session, 5), (GetSession demo_session, 9)]
     [Stored, DataKeyIs (Some ''k''), DataKeyIs None]"
proof -
  let ?cs = "[Requests (PutSession demo_session ''k'' 9) 1 None, Requests (GetSession demo_session) 5 None,
    Requests (GetSession demo_session) 9 None]"
  have "serves (\<lambda>_. 0) [] ?cs [Stored, DataKeyIs (Some ''k''), DataKeyIs None] (Listening [])"
    by (rule serves.answered, simp add: serve_connection_def handle_request_def store_put_def store_get_def
        prune_expired_def Let_def)+ (rule serves.waiting)
  from daemon_refines_ideal_store [OF this] show ?thesis by simp
qed


theorem daemon_holds_only_unlocked_witness:
  "fold (ideal_step \<circ> fst \<circ> the \<circ> asked) [Requests (PutSession demo_session ''k'' 9) 1 None,
     Requests (GetSession demo_session) 5 None] Map.empty demo_session =
   Some \<lparr> st_data_key_b64 = ''k'', st_expires_at_unix = 9 \<rparr>"
proof -
  let ?cs = "[Requests (PutSession demo_session ''k'' 9) 1 None, Requests (GetSession demo_session) 5 None]"
  have "serves (\<lambda>_. 0) [] ?cs [Stored, DataKeyIs (Some ''k'')]
      (Listening [(demo_session, \<lparr> st_data_key_b64 = ''k'', st_expires_at_unix = 9 \<rparr>)])"
    by (rule serves.answered, simp add: serve_connection_def handle_request_def store_put_def store_get_def
        prune_expired_def Let_def)+ (rule serves.waiting)
  from daemon_holds_only_unlocked [OF this] show ?thesis by simp
qed

lemma demo_clock_mono: "mono (unix_clock demo_runtime)"
proof (rule monoI)
  fix n m :: nat
  assume "n \<le> m"
  moreover have "unat (of_nat (min i 100) :: u64) = min i 100" for i
    by (simp add: unat_of_nat take_bit_nat_eq_self)
  ultimately show "unix_clock demo_runtime n \<le> unix_clock demo_runtime m"
    by (simp add: word_le_nat_alt)
qed

text \<open>Unlocking without a daemon starts one.\<close>
definition demo_no_daemon :: daemon_world where
  "demo_no_daemon = \<lparr> dw_daemon = None, dw_reads = 0 \<rparr>"

definition demo_unlocked :: daemon_world where
  "demo_unlocked = snd (unlock_session demo_runtime demo_session demo_list_key 50 demo_no_daemon)"

lemma demo_unlock_runs:
  "unlock_session demo_runtime demo_session demo_list_key ttl demo_no_daemon =
     (Ok (), \<lparr> dw_daemon = Some [(demo_session, \<lparr> st_data_key_b64 = hex_bytes (sym_bytes demo_list_key),
       st_expires_at_unix = 1 + ttl \<rparr>)], dw_reads = 3 \<rparr>)"
proof -
  let ?w0 = "\<lparr> dw_daemon = Some [], dw_reads = 0 \<rparr>" and ?w1 = "\<lparr> dw_daemon = Some [], dw_reads = 1 \<rparr>"
  have absent: "\<exists>m. try_send_request demo_runtime (StatusOf None) demo_no_daemon =
      (Err (Unexpected (''failed to connect to unlock daemon'' @ m)), demo_no_daemon)"
    by (simp add: try_send_request_def socket_path_def io_simps demo_no_daemon_def)
  have present: "try_send_request demo_runtime (StatusOf None) ?w0 = (Ok (StatusIs (build_status None None)), ?w1)"
    by (simp add: try_send_request_def socket_path_def io_simps handle_request_def store_status_def
        prune_expired_def Let_def)
  have put: "try_send_request demo_runtime (PutSession demo_session d e) \<lparr> dw_daemon = Some [], dw_reads = Suc (Suc 0) \<rparr> =
      (Ok Stored, \<lparr> dw_daemon = Some [(demo_session, \<lparr> st_data_key_b64 = d, st_expires_at_unix = e \<rparr>)],
        dw_reads = Suc (Suc (Suc 0)) \<rparr>)" for d e
    by (simp add: try_send_request_def socket_path_def io_simps handle_request_def store_put_def Let_def)
  have executable: "\<exists>p. resolve_daemon_executable demo_runtime = Ok p"
    by (simp add: resolve_daemon_executable_def configured_daemon_executable_def Let_def)
  have "await_daemon demo_runtime 0 DAEMON_POLLS demo_no_daemon = (Ok (), ?w1)"
    using present by (simp add: DAEMON_POLLS_def demo_no_daemon_def eval_nat_numeral)
  then have "spawn_daemon demo_runtime demo_no_daemon = (Ok (), ?w1)"
    using executable by (auto simp: spawn_daemon_def socket_path_def io_then_return demo_no_daemon_def)
  then have "ensure_running demo_runtime demo_no_daemon = (Ok (), ?w1)"
    using absent by (auto simp: ensure_running_def is_daemon_unavailable_def contains_str_def find_str_start
        simp del: append.simps)
  then show ?thesis
    by (simp add: unlock_session_def io_then_def unix_now_def send_daemon_request_def io_map_err_def put io_return_def
        numeral_3_eq_3)
qed

definition demo_store :: unlock_store where
  "demo_store = [(demo_session, \<lparr> st_data_key_b64 = ''k'', st_expires_at_unix = 51 \<rparr>)]"

definition demo_unreachable :: runtime_ext where
  "demo_unreachable = demo_runtime\<lparr>sock_fails := \<lambda>_ _. Some (ConnectFailed ''EMFILE'')\<rparr>"

theorem unreachable_daemon_taken_for_absent_witness:
  "clear_session demo_unreachable demo_session \<lparr> dw_daemon = Some demo_store, dw_reads = 7 \<rparr> =
     (Ok (), \<lparr> dw_daemon = Some demo_store, dw_reads = 8 \<rparr>)"
proof -
  have "\<exists>p. socket_path demo_unreachable = Ok p"
    by (simp add: socket_path_def config_dir_def demo_unreachable_def)
  then obtain p where "socket_path demo_unreachable = Ok p" by blast
  from unreachable_daemon_taken_for_absent [OF this, of "\<lparr> dw_daemon = Some demo_store, dw_reads = 7 \<rparr>" demo_store]
  show ?thesis by (simp add: demo_unreachable_def Let_def)
qed

theorem unlock_ttl_bounds_witness:
  "\<exists>w1. unlock_session demo_runtime demo_session demo_list_key (- 1) demo_no_daemon = (Ok (), w1) \<and>
     fst (fetch_data_key demo_runtime demo_session w1) = Ok None"
proof -
  let ?w1 = "\<lparr> dw_daemon = Some [(demo_session, \<lparr> st_data_key_b64 = hex_bytes (sym_bytes demo_list_key),
      st_expires_at_unix = 0 \<rparr>)], dw_reads = 3 \<rparr>"
  have hyps: "sym_wf demo_list_key" "daemon_inv demo_no_daemon" "list_all (leaves demo_session) []"
      "sock_fails demo_runtime (dw_reads ?w1) (GetSession demo_session) = None"
    by (simp_all add: demo_list_key_def sym_wf_def daemon_inv_def demo_no_daemon_def)
  have run: "unlock_session demo_runtime demo_session demo_list_key (- 1) demo_no_daemon = (Ok (), ?w1)"
    using demo_unlock_runs [of "- 1"] by simp
  have asked: "run_requests demo_runtime [] ?w1 = Some ?w1" by simp
  have "unat (- 1 :: u64) = 2 ^ 64 - 1" by (simp add: unsigned_minus_1_eq_mask mask_eq_exp_minus_1)
  then show ?thesis
    using unlock_ttl_bounds [OF demo_clock_mono demo_runtime_laws(2) hyps(1,2) run asked hyps(3,4)] run
    by (simp add: Let_def)
qed

end
