(* ===== verification/Wasm_Bridge.thy ===== *)
theory Wasm_Bridge
  imports Crypto_Grants
begin

text \<open>\<open>crates/strong-box-wasm/src/lib.rs\<close>: the bridge through which the browser encrypts.  The state is
  the linear memory of the module and the blocks its allocator has handed out; a caller passes pointers
  and reads a result structure back.  Reading and writing wrap at the end of the 32-bit memory.
  The allocator, and what the random source yields, are parameters; a panic or a trap is \<open>Abort\<close>.\<close>

unbundle bit_operations_syntax

section \<open>Linear memory\<close>

type_synonym usize = "32 word"

record memory =
  mm_bytes :: "usize \<Rightarrow> u8"
  mm_blocks :: "(usize \<times> usize) list"

text \<open>A block of at least the size asked for; \<open>None\<close> when the memory is exhausted.\<close>
type_synonym allocator = "memory \<Rightarrow> nat \<Rightarrow> (usize \<times> usize) option"

definition read_mem :: "memory \<Rightarrow> usize \<Rightarrow> nat \<Rightarrow> bytes" where
  "read_mem h p n = map (\<lambda>i. mm_bytes h (p + of_nat i)) [0..<n]"

definition write_mem :: "usize \<Rightarrow> bytes \<Rightarrow> memory \<Rightarrow> memory" where
  "write_mem p bs h = h\<lparr>mm_bytes := (\<lambda>a. let i = unat (a - p) in if i < length bs then bs ! i else mm_bytes h a)\<rparr>"

text \<open>\<open>u32::to_le_bytes\<close>, and the number such bytes stand for.\<close>
definition le_bytes_u32 :: "32 word \<Rightarrow> bytes" where
  "le_bytes_u32 w = map (\<lambda>i. ucast (drop_bit (8 * i) w)) [0..<4]"

definition u32_of_le :: "bytes \<Rightarrow> 32 word" where
  "u32_of_le b = foldr (\<lambda>x n. push_bit 8 n OR ucast x) b 0"

section \<open>Constants, results and errors\<close>

definition WASM_KEY_SIZE_BYTES :: nat where "WASM_KEY_SIZE_BYTES = 32"
definition WASM_HPKE_NONCE_LEN :: nat where "WASM_HPKE_NONCE_LEN = 12"
definition WASM_HPKE_ENC_LEN :: nat where "WASM_HPKE_ENC_LEN = 32"
definition ERR_INVALID_KEY :: "32 word" where "ERR_INVALID_KEY = 1"
definition ERR_NULL_POINTER :: "32 word" where "ERR_NULL_POINTER = 2"
definition ERR_ENCRYPT_FAILED :: "32 word" where "ERR_ENCRYPT_FAILED = 10"
definition ERR_DECRYPT_FAILED :: "32 word" where "ERR_DECRYPT_FAILED = 11"
definition ERR_HPKE_ENCAP_FAILED :: "32 word" where "ERR_HPKE_ENCAP_FAILED = 20"
definition ERR_HPKE_DECAP_FAILED :: "32 word" where "ERR_HPKE_DECAP_FAILED = 21"
definition ERR_HPKE_DERIVE_FAILED :: "32 word" where "ERR_HPKE_DERIVE_FAILED = 22"
definition WASM_HPKE_MODE_BASE :: u8 where "WASM_HPKE_MODE_BASE = 0x00"
definition WASM_HPKE_KEM_ID :: u16 where "WASM_HPKE_KEM_ID = 0x0020"
definition WASM_HPKE_KDF_ID :: u16 where "WASM_HPKE_KDF_ID = 0x0001"
definition WASM_HPKE_AEAD_ID :: u16 where "WASM_HPKE_AEAD_ID = 0x0003"
definition HPKE_LABEL_PREFIX :: bytes where "HPKE_LABEL_PREFIX = str_bytes ''HPKE-v1''"

lemmas wasm_consts = WASM_KEY_SIZE_BYTES_def WASM_HPKE_NONCE_LEN_def WASM_HPKE_ENC_LEN_def
  WASM_HPKE_MODE_BASE_def WASM_HPKE_KEM_ID_def WASM_HPKE_KDF_ID_def WASM_HPKE_AEAD_ID_def HPKE_LABEL_PREFIX_def

record strong_box_result =
  sr_ptr :: usize
  sr_len :: usize
  sr_capacity :: usize
  sr_error_code :: "32 word"

datatype operation = OpEncrypt | OpDecrypt | OpHpkeEncap | OpHpkeDecap

datatype bridge_error = InvalidKeyLength | NullPointer string | StrongBoxError error | HpkeError string

fun bridge_code :: "operation \<Rightarrow> bridge_error \<Rightarrow> 32 word" where
  "bridge_code op InvalidKeyLength = ERR_INVALID_KEY"
| "bridge_code op (NullPointer _) = ERR_NULL_POINTER"
| "bridge_code op (StrongBoxError _) =
     (case op of OpEncrypt \<Rightarrow> ERR_ENCRYPT_FAILED | OpDecrypt \<Rightarrow> ERR_DECRYPT_FAILED
      | OpHpkeEncap \<Rightarrow> ERR_HPKE_ENCAP_FAILED | OpHpkeDecap \<Rightarrow> ERR_HPKE_DECAP_FAILED)"
| "bridge_code op (HpkeError _) =
     (case op of OpHpkeEncap \<Rightarrow> ERR_HPKE_ENCAP_FAILED | OpHpkeDecap \<Rightarrow> ERR_HPKE_DECAP_FAILED
      | _ \<Rightarrow> ERR_HPKE_DERIVE_FAILED)"

fun bridge_message :: "bridge_error \<Rightarrow> string" where
  "bridge_message InvalidKeyLength = ''key must be '' @ show_nat WASM_KEY_SIZE_BYTES @ '' bytes''"
| "bridge_message (NullPointer field) = field @ '' pointer was null''"
| "bridge_message (StrongBoxError e) = error_display e"
| "bridge_message (HpkeError m) = m"

text \<open>A pointer and a length, and reading the bytes they describe.\<close>
record wasm_slice =
  sl_ptr :: usize
  sl_len :: usize

definition read_slice :: "memory \<Rightarrow> wasm_slice \<Rightarrow> string \<Rightarrow> (bytes, bridge_error) rust_result" where
  "read_slice h s label =
     (if sl_len s = 0 then Ok []
      else if sl_ptr s = 0 then Err (NullPointer label)
      else Ok (read_mem h (sl_ptr s) (unat (sl_len s))))"

section \<open>Allocation\<close>

text \<open>\<open>strong_box_result_size\<close>: four fields of 32 bits.\<close>
definition strong_box_result_size :: usize where
  "strong_box_result_size = 16"

text \<open>A vector with room for \<open>n\<close> bytes; one without capacity owns no block.\<close>
definition alloc_vec :: "allocator \<Rightarrow> nat \<Rightarrow> memory \<Rightarrow> ((usize \<times> usize) \<times> memory) option" where
  "alloc_vec A n h = map_option (\<lambda>(p, c). ((p, c), if c = 0 then h else h\<lparr>mm_blocks := (p, c) # mm_blocks h\<rparr>)) (A h n)"

definition strong_box_alloc :: "allocator \<Rightarrow> usize \<Rightarrow> memory \<Rightarrow> (usize, bridge_error) rust_result \<times> memory" where
  "strong_box_alloc A n h =
     (case alloc_vec A (unat n) h of None \<Rightarrow> (Abort, h) | Some ((p, _), h) \<Rightarrow> (Ok p, h))"

text \<open>Freeing what is not an allocated block is undefined.\<close>
definition strong_box_free :: "usize \<Rightarrow> usize \<Rightarrow> memory \<Rightarrow> (unit, bridge_error) rust_result \<times> memory" where
  "strong_box_free p capacity h =
     (if capacity = 0 \<or> p = 0 then (Ok (), h)
      else if (p, capacity) \<in> set (mm_blocks h) then (Ok (), h\<lparr>mm_blocks := remove1 (p, capacity) (mm_blocks h)\<rparr>)
      else (Abort, h))"

text \<open>The bytes of a vector stay in memory, and the caller is to free them.\<close>
definition from_vec :: "allocator \<Rightarrow> bytes \<Rightarrow> 32 word \<Rightarrow> memory \<Rightarrow> (strong_box_result \<times> memory) option" where
  "from_vec A bs code h =
     map_option (\<lambda>((p, c), h). (\<lparr> sr_ptr = p, sr_len = of_nat (length bs), sr_capacity = c, sr_error_code = code \<rparr>,
       write_mem p bs h)) (alloc_vec A (length bs) h)"

definition result_bytes :: "strong_box_result \<Rightarrow> bytes" where
  "result_bytes r = le_bytes_u32 (sr_ptr r) @ le_bytes_u32 (sr_len r) @ le_bytes_u32 (sr_capacity r) @
     le_bytes_u32 (sr_error_code r)"

definition write_result :: "usize \<Rightarrow> strong_box_result \<Rightarrow> memory \<Rightarrow> memory" where
  "write_result target r h = (if target = 0 then h else write_mem target (result_bytes r) h)"

text \<open>How every exported operation ends.\<close>
definition respond ::
  "allocator \<Rightarrow> operation \<Rightarrow> usize \<Rightarrow> (bytes, bridge_error) rust_result \<Rightarrow> memory
   \<Rightarrow> (unit, bridge_error) rust_result \<times> memory" where
  "respond A op target outcome h =
     (let deliver = (\<lambda>bs code. case from_vec A bs code h of
            None \<Rightarrow> (Abort, h) | Some (r, h) \<Rightarrow> (Ok (), write_result target r h)) in
      case outcome of
        Ok bs \<Rightarrow> deliver bs 0
      | Err e \<Rightarrow> deliver (str_bytes (bridge_message e)) (bridge_code op e)
      | Abort \<Rightarrow> (Abort, h))"

section \<open>Encrypting and decrypting\<close>

definition build_strong_box :: "'x ext_scheme \<Rightarrow> bytes \<Rightarrow> (static_strong_box, bridge_error) rust_result" where
  "build_strong_box X k =
     (if length k \<noteq> WASM_KEY_SIZE_BYTES then Err InvalidKeyLength else static_new X (Key k) [Key k])"

definition encrypt_with_key ::
  "'x ext_scheme \<Rightarrow> bytes \<Rightarrow> bytes \<Rightarrow> bytes \<Rightarrow> bytes \<Rightarrow> (bytes, bridge_error) rust_result" where
  "encrypt_with_key X nonce k ctx plaintext =
     and_then (build_strong_box X k) (\<lambda>sb. map_err StrongBoxError (static_encrypt X sb nonce plaintext ctx))"

definition decrypt_with_key ::
  "'x ext_scheme \<Rightarrow> bytes \<Rightarrow> bytes \<Rightarrow> bytes \<Rightarrow> (bytes, bridge_error) rust_result" where
  "decrypt_with_key X k ctx ciphertext =
     and_then (build_strong_box X k) (\<lambda>sb. map_err StrongBoxError (static_decrypt X sb ciphertext ctx))"

definition encrypt_bytes ::
  "'x ext_scheme \<Rightarrow> bytes \<Rightarrow> wasm_slice \<Rightarrow> wasm_slice \<Rightarrow> wasm_slice \<Rightarrow> memory \<Rightarrow> (bytes, bridge_error) rust_result"
  where
  "encrypt_bytes X nonce k ctx plaintext h =
     and_then (read_slice h plaintext ''plaintext'') (\<lambda>plaintext.
     and_then (read_slice h k ''key'') (\<lambda>k.
     and_then (read_slice h ctx ''context'') (\<lambda>ctx.
     encrypt_with_key X nonce k ctx plaintext)))"

definition decrypt_bytes ::
  "'x ext_scheme \<Rightarrow> wasm_slice \<Rightarrow> wasm_slice \<Rightarrow> wasm_slice \<Rightarrow> memory \<Rightarrow> (bytes, bridge_error) rust_result" where
  "decrypt_bytes X k ctx ciphertext h =
     and_then (read_slice h ciphertext ''ciphertext'') (\<lambda>ciphertext.
     and_then (read_slice h k ''key'') (\<lambda>k.
     and_then (read_slice h ctx ''context'') (\<lambda>ctx.
     decrypt_with_key X k ctx ciphertext)))"

definition strong_box_encrypt ::
  "'x ext_scheme \<Rightarrow> allocator \<Rightarrow> bytes \<Rightarrow> wasm_slice \<Rightarrow> wasm_slice \<Rightarrow> wasm_slice \<Rightarrow> usize \<Rightarrow> memory
   \<Rightarrow> (unit, bridge_error) rust_result \<times> memory" where
  "strong_box_encrypt X A nonce k ctx plaintext target h =
     respond A OpEncrypt target (encrypt_bytes X nonce k ctx plaintext h) h"

definition strong_box_decrypt ::
  "'x ext_scheme \<Rightarrow> allocator \<Rightarrow> wasm_slice \<Rightarrow> wasm_slice \<Rightarrow> wasm_slice \<Rightarrow> usize \<Rightarrow> memory
   \<Rightarrow> (unit, bridge_error) rust_result \<times> memory" where
  "strong_box_decrypt X A k ctx ciphertext target h =
     respond A OpDecrypt target (decrypt_bytes X k ctx ciphertext h) h"

section \<open>HPKE\<close>

definition kem_suite_id :: bytes where
  "kem_suite_id = str_bytes ''KEM'' @ be_bytes_u16 WASM_HPKE_KEM_ID"

definition suite_id :: bytes where
  "suite_id = str_bytes ''HPKE'' @ be_bytes_u16 WASM_HPKE_KEM_ID @ be_bytes_u16 WASM_HPKE_KDF_ID @
     be_bytes_u16 WASM_HPKE_AEAD_ID"

definition labeled_extract_with_suite ::
  "'x client_ext_scheme \<Rightarrow> bytes \<Rightarrow> bytes option \<Rightarrow> bytes \<Rightarrow> bytes \<Rightarrow> (bytes, bridge_error) rust_result" where
  "labeled_extract_with_suite X suite salt label ikm =
     (let labeled = HPKE_LABEL_PREFIX @ suite @ label @ ikm;
          salt = (case salt of Some s \<Rightarrow> s | None \<Rightarrow> replicate WASM_KEY_SIZE_BYTES 0) in
      and_then (map_err (\<lambda>_. HpkeError ''HKDF extract init failed'') (hmac_sha256 X salt labeled)) (\<lambda>prk.
      if length prk = WASM_KEY_SIZE_BYTES then Ok prk else Abort))"

definition labeled_extract ::
  "'x client_ext_scheme \<Rightarrow> bytes option \<Rightarrow> bytes \<Rightarrow> bytes \<Rightarrow> (bytes, bridge_error) rust_result" where
  "labeled_extract X salt label ikm = labeled_extract_with_suite X suite_id salt label ikm"

definition labeled_expand_with_suite ::
  "'x client_ext_scheme \<Rightarrow> bytes \<Rightarrow> bytes \<Rightarrow> bytes \<Rightarrow> bytes \<Rightarrow> nat \<Rightarrow> (bytes, bridge_error) rust_result" where
  "labeled_expand_with_suite X suite prk label info n =
     (let labeled = be_bytes_u16 (of_nat n) @ HPKE_LABEL_PREFIX @ suite @ label @ info in
      if \<not> hkdf_prk_ok X prk then Err (HpkeError ''HKDF expand init failed'')
      else ok_or (HpkeError ''HKDF expand failed'') (hkdf_expand X prk labeled n))"

definition labeled_expand ::
  "'x client_ext_scheme \<Rightarrow> bytes \<Rightarrow> bytes \<Rightarrow> bytes \<Rightarrow> nat \<Rightarrow> (bytes, bridge_error) rust_result" where
  "labeled_expand X prk label info n = labeled_expand_with_suite X suite_id prk label info n"

definition dhkem_shared_secret ::
  "'x client_ext_scheme \<Rightarrow> bytes \<Rightarrow> bytes \<Rightarrow> bytes \<Rightarrow> (bytes, bridge_error) rust_result" where
  "dhkem_shared_secret X dh encapped recipient_pub =
     and_then (labeled_extract_with_suite X kem_suite_id None (str_bytes ''eae_prk'') dh) (\<lambda>eae_prk.
     and_then (labeled_expand_with_suite X kem_suite_id eae_prk (str_bytes ''shared_secret'')
       (encapped @ recipient_pub) WASM_KEY_SIZE_BYTES) (\<lambda>secret.
     if length secret = WASM_KEY_SIZE_BYTES then Ok secret
     else Err (HpkeError ''failed to derive HPKE shared secret'')))"

definition derive_hpke_keys ::
  "'x client_ext_scheme \<Rightarrow> bytes \<Rightarrow> bytes \<Rightarrow> (bytes \<times> bytes, bridge_error) rust_result" where
  "derive_hpke_keys X info shared_secret =
     and_then (labeled_extract X None (str_bytes ''psk_id_hash'') []) (\<lambda>psk_id_hash.
     and_then (labeled_extract X None (str_bytes ''info_hash'') info) (\<lambda>info_hash.
     let key_schedule_context = [WASM_HPKE_MODE_BASE] @ psk_id_hash @ info_hash in
     and_then (labeled_extract X (Some shared_secret) (str_bytes ''secret'') []) (\<lambda>secret.
     and_then (labeled_expand X secret (str_bytes ''key'') key_schedule_context WASM_KEY_SIZE_BYTES) (\<lambda>key.
     and_then (labeled_expand X secret (str_bytes ''base_nonce'') key_schedule_context WASM_HPKE_NONCE_LEN) (\<lambda>nonce.
     if length key \<noteq> WASM_KEY_SIZE_BYTES then Err (HpkeError ''failed to derive HPKE key'')
     else if length nonce \<noteq> WASM_HPKE_NONCE_LEN then Err (HpkeError ''failed to derive HPKE nonce'')
     else Ok (key, nonce))))))"

definition pack_hpke_result :: "bytes \<Rightarrow> bytes \<Rightarrow> bytes \<Rightarrow> bytes" where
  "pack_hpke_result nonce encapped payload =
     le_bytes_u32 (of_nat (length nonce)) @ le_bytes_u32 (of_nat (length encapped)) @
     le_bytes_u32 (of_nat (length payload)) @ nonce @ encapped @ payload"

text \<open>The secret of an exchange, which must not be zero, expanded to a key and a nonce.\<close>
definition hpke_exchange ::
  "'x client_ext_scheme \<Rightarrow> bytes \<Rightarrow> bytes \<Rightarrow> bytes \<Rightarrow> bytes \<Rightarrow> (bytes \<times> bytes, bridge_error) rust_result" where
  "hpke_exchange X dh encapped recipient_pub info =
     (if list_all (\<lambda>b. b = 0) dh then Err (HpkeError ''derived shared secret is invalid'')
      else
        and_then (dhkem_shared_secret X dh encapped recipient_pub) (\<lambda>shared_secret.
        and_then (derive_hpke_keys X info shared_secret) (\<lambda>(key, nonce).
        if length key \<noteq> 32 then Err (HpkeError ''invalid HPKE AEAD key'') else Ok (key, nonce))))"

text \<open>The random source yields the bytes of the ephemeral key, or fails.\<close>
definition hpke_encap ::
  "'x client_ext_scheme \<Rightarrow> bytes option \<Rightarrow> bytes \<Rightarrow> bytes \<Rightarrow> bytes \<Rightarrow> bytes \<Rightarrow> (bytes, bridge_error) rust_result"
  where
  "hpke_encap X random recipient_pub info aad plaintext =
     (if length recipient_pub \<noteq> WASM_HPKE_ENC_LEN then Err InvalidKeyLength
      else
        and_then (ok_or (HpkeError ''failed to generate ephemeral key'') random) (\<lambda>sk.
        let encapped = x25519_public X sk in
        and_then (hpke_exchange X (x25519_dh X sk recipient_pub) encapped recipient_pub info) (\<lambda>(key, nonce).
        map_ok (pack_hpke_result nonce encapped)
          (ok_or (HpkeError ''HPKE encryption failed'') (aead_encrypt X key nonce aad plaintext)))))"

definition hpke_decap ::
  "'x client_ext_scheme \<Rightarrow> bytes \<Rightarrow> bytes \<Rightarrow> bytes \<Rightarrow> bytes \<Rightarrow> bytes \<Rightarrow> (bytes, bridge_error) rust_result" where
  "hpke_decap X recipient_priv info aad encapped ciphertext =
     (if length recipient_priv \<noteq> WASM_KEY_SIZE_BYTES \<or> length encapped \<noteq> WASM_HPKE_ENC_LEN then Err InvalidKeyLength
      else
        and_then (hpke_exchange X (x25519_dh X recipient_priv encapped) encapped (x25519_public X recipient_priv) info)
          (\<lambda>(key, nonce).
        map_ok (pack_hpke_result nonce encapped)
          (ok_or (HpkeError ''HPKE decryption failed'') (aead_decrypt X key nonce aad ciphertext))))"

definition hpke_encap_bytes ::
  "'x client_ext_scheme \<Rightarrow> bytes option \<Rightarrow> wasm_slice \<Rightarrow> wasm_slice \<Rightarrow> wasm_slice \<Rightarrow> wasm_slice \<Rightarrow> memory
   \<Rightarrow> (bytes, bridge_error) rust_result" where
  "hpke_encap_bytes X random recipient_pub info aad plaintext h =
     and_then (read_slice h recipient_pub ''recipient_public_key'') (\<lambda>recipient_pub.
     and_then (read_slice h info ''info'') (\<lambda>info.
     and_then (read_slice h aad ''aad'') (\<lambda>aad.
     and_then (read_slice h plaintext ''plaintext'') (\<lambda>plaintext.
     hpke_encap X random recipient_pub info aad plaintext))))"

definition hpke_decap_bytes ::
  "'x client_ext_scheme \<Rightarrow> wasm_slice \<Rightarrow> wasm_slice \<Rightarrow> wasm_slice \<Rightarrow> wasm_slice \<Rightarrow> wasm_slice \<Rightarrow> memory
   \<Rightarrow> (bytes, bridge_error) rust_result" where
  "hpke_decap_bytes X recipient_priv info aad encapped ciphertext h =
     and_then (read_slice h recipient_priv ''recipient_private_key'') (\<lambda>recipient_priv.
     and_then (read_slice h info ''info'') (\<lambda>info.
     and_then (read_slice h aad ''aad'') (\<lambda>aad.
     and_then (read_slice h encapped ''enc'') (\<lambda>encapped.
     and_then (read_slice h ciphertext ''ciphertext'') (\<lambda>ciphertext.
     hpke_decap X recipient_priv info aad encapped ciphertext)))))"

definition strong_box_hpke_encap ::
  "'x client_ext_scheme \<Rightarrow> allocator \<Rightarrow> bytes option \<Rightarrow> wasm_slice \<Rightarrow> wasm_slice \<Rightarrow> wasm_slice \<Rightarrow> wasm_slice \<Rightarrow> usize
   \<Rightarrow> memory \<Rightarrow> (unit, bridge_error) rust_result \<times> memory" where
  "strong_box_hpke_encap X A random recipient_pub info aad plaintext target h =
     respond A OpHpkeEncap target (hpke_encap_bytes X random recipient_pub info aad plaintext h) h"

definition strong_box_hpke_decap ::
  "'x client_ext_scheme \<Rightarrow> allocator \<Rightarrow> wasm_slice \<Rightarrow> wasm_slice \<Rightarrow> wasm_slice \<Rightarrow> wasm_slice \<Rightarrow> wasm_slice \<Rightarrow> usize
   \<Rightarrow> memory \<Rightarrow> (unit, bridge_error) rust_result \<times> memory" where
  "strong_box_hpke_decap X A recipient_priv info aad encapped ciphertext target h =
     respond A OpHpkeDecap target (hpke_decap_bytes X recipient_priv info aad encapped ciphertext h) h"

end
