(* ===== verification/Wasm_Thms.thy ===== *)
theory Wasm_Thms
  imports Wasm_Bridge
begin

text \<open>What the WebAssembly bridge guarantees: the output of a call arrives in fresh memory that can be
  freed, nothing the caller holds is touched, ciphertexts round-trip through memory, and its HPKE agrees
  with the one of \<open>client-crypto\<close>.\<close>

section \<open>Memory\<close>

lemma length_read_mem [simp]: "length (read_mem h p n) = n"
  by (simp add: read_mem_def)

text \<open>The address \<open>a\<close> is one of the \<open>n\<close> addresses from \<open>p\<close>.\<close>
definition within :: "usize \<Rightarrow> nat \<Rightarrow> usize \<Rightarrow> bool" where
  "within p n a \<longleftrightarrow> unat (a - p) < n"

text \<open>The range of \<open>n\<close> bytes from \<open>p\<close> lies in the block, and two ranges share no address.\<close>
definition in_block :: "usize \<Rightarrow> nat \<Rightarrow> usize \<times> usize \<Rightarrow> bool" where
  "in_block p n b \<longleftrightarrow> unat (p - fst b) + n \<le> unat (snd b)"

definition apart :: "usize \<Rightarrow> nat \<Rightarrow> usize \<Rightarrow> nat \<Rightarrow> bool" where
  "apart p n q m \<longleftrightarrow> (\<forall>a. \<not> (within p n a \<and> within q m a))"

lemma write_mem_outside: "\<not> within p (length bs) a \<Longrightarrow> mm_bytes (write_mem p bs h) a = mm_bytes h a"
  by (simp add: write_mem_def within_def Let_def)

lemma write_mem_inside:
  "i < length bs \<Longrightarrow> length bs < 2 ^ 32 \<Longrightarrow> mm_bytes (write_mem p bs h) (p + of_nat i) = bs ! i"
  by (simp add: write_mem_def Let_def unat_of_nat)

lemma mm_blocks_write_mem [simp]: "mm_blocks (write_mem p bs h) = mm_blocks h"
  by (simp add: write_mem_def)

lemma read_write_mem: "length bs < 2 ^ 32 \<Longrightarrow> read_mem (write_mem p bs h) p (length bs) = bs"
  by (rule nth_equalityI) (simp_all add: read_mem_def write_mem_inside)

lemma within_offset: "i < n \<Longrightarrow> n \<le> 2 ^ 32 \<Longrightarrow> within p n (p + of_nat i)"
  by (simp add: within_def unat_of_nat)

lemma read_mem_cong:
  "n \<le> 2 ^ 32 \<Longrightarrow> (\<And>a. within p n a \<Longrightarrow> mm_bytes h a = mm_bytes h' a) \<Longrightarrow> read_mem h p n = read_mem h' p n"
  by (simp add: read_mem_def within_offset)

lemma within_in_block:
  assumes "in_block p n b" "within p n a" shows "within (fst b) (unat (snd b)) a"
proof -
  have "unat (a - fst b) = unat ((p - fst b) + (a - p))" by simp
  also have "\<dots> \<le> unat (p - fst b) + unat (a - p)" unfolding unat_word_ariths by (rule mod_less_eq_dividend)
  finally show ?thesis using assms by (simp add: in_block_def within_def)
qed

lemma apart_blocks:
  assumes "apart (fst b) (unat (snd b)) p c" "in_block q m b" shows "apart q m p c"
  using assms within_in_block by (auto simp: apart_def)

lemma apart_less: "apart p n q m \<Longrightarrow> n' \<le> n \<Longrightarrow> m' \<le> m \<Longrightarrow> apart p n' q m'"
  by (meson apart_def within_def order_less_le_trans)

lemma apart_sym: "apart p n q m \<longleftrightarrow> apart q m p n"
  by (auto simp: apart_def)

section \<open>The result structure\<close>

lemma length_le_bytes_u32 [simp]: "length (le_bytes_u32 w) = 4"
  by (simp add: le_bytes_u32_def)

lemma u32_of_le_bytes [simp]: "u32_of_le (le_bytes_u32 w) = w"
proof (rule bit_word_eqI)
  fix n assume "n < LENGTH(32)"
  then consider "n < 8" | "8 \<le> n" "n < 16" | "16 \<le> n" "n < 24" | "24 \<le> n" "n < 32" by fastforce
  moreover have "[0..<4] = [0, 1, 2, 3]" by (simp add: upt_rec)
  ultimately show "bit (u32_of_le (le_bytes_u32 w)) n = bit w n"
    unfolding u32_of_le_def le_bytes_u32_def
    by cases (auto simp: bit_or_iff bit_push_bit_iff bit_ucast_iff bit_drop_bit_eq)
qed

lemma length_result_bytes [simp]: "length (result_bytes r) = 16"
  by (simp add: result_bytes_def)

text \<open>What a caller reads at the address it gave.\<close>
definition read_result :: "memory \<Rightarrow> usize \<Rightarrow> strong_box_result" where
  "read_result h p =
     (let field = (\<lambda>i. u32_of_le (take 4 (drop i (read_mem h p 16)))) in
      \<lparr> sr_ptr = field 0, sr_len = field 4, sr_capacity = field 8, sr_error_code = field 12 \<rparr>)"

lemma read_result_written: "read_result (write_mem p (result_bytes r) h) p = r"
proof -
  have "read_mem (write_mem p (result_bytes r) h) p 16 = result_bytes r"
    using read_write_mem [of "result_bytes r" p h] by simp
  then show ?thesis by (simp add: read_result_def Let_def result_bytes_def)
qed

section \<open>Delivery\<close>

text \<open>What the standard library promises of the allocator: a block is not null, has the size asked for,
  and shares no address with a block handed out before.\<close>
definition alloc_laws :: "allocator \<Rightarrow> bool" where
  "alloc_laws A \<longleftrightarrow> (\<forall>h n p c. A h n = Some (p, c) \<longrightarrow> p \<noteq> 0 \<and> n \<le> unat c \<and>
     (\<forall>b \<in> set (mm_blocks h). apart p (unat c) (fst b) (unat (snd b))))"

text \<open>The four calls, as data.\<close>
datatype bridge_call =
    EncryptCall bytes wasm_slice wasm_slice wasm_slice
  | DecryptCall wasm_slice wasm_slice wasm_slice
  | EncapCall "bytes option" wasm_slice wasm_slice wasm_slice wasm_slice
  | DecapCall wasm_slice wasm_slice wasm_slice wasm_slice wasm_slice

fun perform :: "'x client_ext_scheme \<Rightarrow> allocator \<Rightarrow> bridge_call \<Rightarrow> usize \<Rightarrow> memory
    \<Rightarrow> (unit, bridge_error) rust_result \<times> memory" where
  "perform X A (EncryptCall nonce k ctx m) t h = strong_box_encrypt X A nonce k ctx m t h"
| "perform X A (DecryptCall k ctx c) t h = strong_box_decrypt X A k ctx c t h"
| "perform X A (EncapCall random pub info aad m) t h = strong_box_hpke_encap X A random pub info aad m t h"
| "perform X A (DecapCall priv info aad encapped c) t h = strong_box_hpke_decap X A priv info aad encapped c t h"

fun outcome_of :: "'x client_ext_scheme \<Rightarrow> bridge_call \<Rightarrow> memory \<Rightarrow> (bytes, bridge_error) rust_result" where
  "outcome_of X (EncryptCall nonce k ctx m) h = encrypt_bytes X nonce k ctx m h"
| "outcome_of X (DecryptCall k ctx c) h = decrypt_bytes X k ctx c h"
| "outcome_of X (EncapCall random pub info aad m) h = hpke_encap_bytes X random pub info aad m h"
| "outcome_of X (DecapCall priv info aad encapped c) h = hpke_decap_bytes X priv info aad encapped c h"

fun operation_of :: "bridge_call \<Rightarrow> operation" where
  "operation_of (EncryptCall _ _ _ _) = OpEncrypt"
| "operation_of (DecryptCall _ _ _) = OpDecrypt"
| "operation_of (EncapCall _ _ _ _ _) = OpHpkeEncap"
| "operation_of (DecapCall _ _ _ _ _) = OpHpkeDecap"

lemma perform_respond: "perform X A c t h = respond A (operation_of c) t (outcome_of X c h) h"
  by (cases c) (simp_all add: strong_box_encrypt_def strong_box_decrypt_def strong_box_hpke_encap_def
      strong_box_hpke_decap_def)

text \<open>The bytes and the code a call's outcome is reported with.\<close>
fun output_of :: "(bytes, bridge_error) rust_result \<Rightarrow> bytes" where
  "output_of (Ok bs) = bs"
| "output_of (Err e) = str_bytes (bridge_message e)"
| "output_of Abort = []"

fun code_of :: "operation \<Rightarrow> (bytes, bridge_error) rust_result \<Rightarrow> 32 word" where
  "code_of op (Err e) = bridge_code op e"
| "code_of op _ = 0"

lemma bridge_code_nonzero: "bridge_code op e \<noteq> 0"
  by (cases e; cases op) (simp_all add: ERR_INVALID_KEY_def ERR_NULL_POINTER_def ERR_ENCRYPT_FAILED_def
      ERR_DECRYPT_FAILED_def ERR_HPKE_ENCAP_FAILED_def ERR_HPKE_DECAP_FAILED_def ERR_HPKE_DERIVE_FAILED_def)

lemma code_of_zero: "outcome \<noteq> Abort \<Longrightarrow> code_of op outcome = 0 \<longleftrightarrow> (\<exists>bs. outcome = Ok bs)"
  by (cases outcome) (simp_all add: bridge_code_nonzero)

lemma respond_eq:
  "respond A op t outcome h =
     (if outcome = Abort then (Abort, h)
      else case from_vec A (output_of outcome) (code_of op outcome) h of
        None \<Rightarrow> (Abort, h) | Some (r, h) \<Rightarrow> (Ok (), write_result t r h))"
  by (cases outcome) (simp_all add: respond_def)

text \<open>A call that left \<open>h'\<close> delivered the bytes and the code at \<open>t\<close>: they are in memory that is not the
  caller's and that freeing gives back, and the rest of what the caller held is untouched.\<close>
definition delivered :: "memory \<Rightarrow> usize \<Rightarrow> bytes \<Rightarrow> 32 word \<Rightarrow> memory \<Rightarrow> bool" where
  "delivered h t bs code h' \<longleftrightarrow>
     (let r = read_result h' t in
      sr_error_code r = code \<and> unat (sr_len r) = length bs \<and> sr_ptr r \<noteq> 0 \<and>
      read_mem h' (sr_ptr r) (length bs) = bs \<and>
      (\<forall>b \<in> set (mm_blocks h). apart (sr_ptr r) (length bs) (fst b) (unat (snd b))) \<and>
      strong_box_free (sr_ptr r) (sr_capacity r) h' = (Ok (), h'\<lparr>mm_blocks := mm_blocks h\<rparr>) \<and>
      set (mm_blocks h) \<subseteq> set (mm_blocks h') \<and>
      (\<forall>b \<in> set (mm_blocks h). \<forall>a. within (fst b) (unat (snd b)) a \<and> \<not> within t 16 a \<longrightarrow>
         mm_bytes h' a = mm_bytes h a))"

lemma respond_delivers:
  assumes laws: "alloc_laws A" and t: "t \<noteq> 0" "b \<in> set (mm_blocks h)" "in_block t 16 b"
    and ok: "respond A op t outcome h = (Ok (), h')"
  shows "delivered h t (output_of outcome) (code_of op outcome) h'"
proof -
  let ?bs = "output_of outcome"
  obtain p c where A: "A h (length ?bs) = Some (p, c)" and "outcome \<noteq> Abort"
    using ok by (auto simp: respond_eq from_vec_def alloc_vec_def split: if_splits option.splits)
  define r where "r = \<lparr> sr_ptr = p, sr_len = of_nat (length ?bs), sr_capacity = c, sr_error_code = code_of op outcome \<rparr>"
  define h0 where "h0 = (if c = 0 then h else h\<lparr>mm_blocks := (p, c) # mm_blocks h\<rparr>)"
  have h': "h' = write_mem t (result_bytes r) (write_mem p ?bs h0)"
    using ok A t(1) by (simp add: respond_eq from_vec_def alloc_vec_def write_result_def r_def h0_def split: if_splits)
  have p: "p \<noteq> 0" "length ?bs \<le> unat c"
    and fresh: "\<And>b. b \<in> set (mm_blocks h) \<Longrightarrow> apart p (unat c) (fst b) (unat (snd b))"
    using laws A unfolding alloc_laws_def by blast+
  have len: "length ?bs < 2 ^ 32" using p(2) unsigned_less [of c, where 'a = nat] by simp
  have r: "read_result h' t = r" unfolding h' by (rule read_result_written)
  have target: "apart p (length ?bs) t 16"
    using apart_less [OF apart_sym [THEN iffD1, OF apart_blocks [OF _ t(3)]] p(2) order_refl] fresh [OF t(2)]
      apart_sym by blast
  have "read_mem h' p (length ?bs) = read_mem (write_mem p ?bs h0) p (length ?bs)"
    using target len unfolding h' by (intro read_mem_cong) (auto simp: apart_def write_mem_outside)
  then have out: "read_mem h' p (length ?bs) = ?bs" using read_write_mem [OF len] by simp
  have blocks: "mm_blocks h' = (if c = 0 then mm_blocks h else (p, c) # mm_blocks h)"
    by (simp add: h' h0_def)
  have frame: "mm_bytes h' a = mm_bytes h a"
    if "b \<in> set (mm_blocks h)" "within (fst b) (unat (snd b)) a" "\<not> within t 16 a" for b a
  proof -
    have "\<not> within p (length ?bs) a"
      using apart_less [OF fresh [OF that(1)] p(2) order_refl] that(2) by (auto simp: apart_def)
    then show ?thesis using that(3) by (simp add: h' write_mem_outside h0_def)
  qed
  show ?thesis
    unfolding delivered_def r Let_def
    using p len out blocks frame apart_less [OF fresh p(2) order_refl]
    by (auto simp: r_def strong_box_free_def unat_of_nat)
qed

section \<open>Agreement with the other HPKE\<close>

text \<open>A shared secret of X25519 is contributory exactly when it is not all zero (RFC 7748, section 6.1).\<close>
definition contributory_laws :: "'x client_ext_scheme \<Rightarrow> bool" where
  "contributory_laws X \<longleftrightarrow> (\<forall>s. length s = 32 \<longrightarrow> (was_contributory X s \<longleftrightarrow> \<not> list_all (\<lambda>b. b = 0) s))"

lemma suites_agree [simp]: "kem_suite_id = hpke_kem_suite_id" "suite_id = hpke_suite_id"
  by (simp_all add: kem_suite_id_def suite_id_def hpke_kem_suite_id_def hpke_suite_id_def HPKE_KEM_ID_def
      HPKE_KDF_ID_def HPKE_AEAD_ID_def HPKE_KEM_CODEPOINT_def HPKE_KDF_CODEPOINT_def HPKE_AEAD_CODEPOINT_def wasm_consts)

lemma labeled_extract_agrees:
  "labeled_extract_with_suite X s salt l i = Ok r \<longleftrightarrow> hpke_labeled_extract_with_suite X s salt l i = Ok r"
  by (simp add: labeled_extract_with_suite_def hpke_labeled_extract_with_suite_def hpke_labeled_ikm_def wasm_consts
      cong: option.case_cong)

lemma labeled_expand_agrees:
  "labeled_expand_with_suite X s prk l i n = Ok r \<longleftrightarrow> hpke_labeled_expand_with_suite X n s prk l i = Ok r"
  by (simp add: labeled_expand_with_suite_def hpke_labeled_expand_with_suite_def hpke_labeled_info_def wasm_consts)

lemma expand_length:
  assumes "hkdf_laws X" "n \<le> 32" "hpke_labeled_expand_with_suite X n s prk l i = Ok r"
  shows "length r = n"
  using hkdf_expand_Some [OF assms(1), of n prk "hpke_labeled_info s (of_nat n) l i"] assms(2,3)
  by (auto simp: hpke_labeled_expand_with_suite_def split: if_splits)

lemma if_eq_Ok:
  "(if c then Ok x else Err e) = Ok y \<longleftrightarrow> c \<and> x = y" "(if c then Err e else r) = Ok y \<longleftrightarrow> \<not> c \<and> r = Ok y"
  by auto

lemmas expand_lengths = expand_length [of _ 32, simplified] expand_length [of _ 12, simplified]

lemma dhkem_agrees:
  assumes "hkdf_laws X"
  shows "dhkem_shared_secret X dh e p = Ok s \<longleftrightarrow> hpke_dhkem_shared_secret X dh e p = Ok s"
  using assms
  by (auto simp: dhkem_shared_secret_def hpke_dhkem_shared_secret_def labeled_extract_agrees labeled_expand_agrees
      wasm_consts if_eq_Ok dest: expand_lengths)

lemma key_schedule_agrees:
  assumes "hkdf_laws X"
  shows "derive_hpke_keys X info s = Ok (k, n) \<longleftrightarrow> hpke_key_schedule X s info = Ok (k, n)"
  using assms
  by (auto simp: derive_hpke_keys_def hpke_key_schedule_def labeled_extract_def labeled_expand_def
      hpke_labeled_extract_def hpke_labeled_expand_def labeled_extract_agrees labeled_expand_agrees Let_def
      wasm_consts HPKE_NONCE_SIZE_def HPKE_MODE_BASE_def if_eq_Ok dest: expand_lengths)

lemma key_schedule_lengths:
  assumes "hkdf_laws X" "hpke_key_schedule X s c = Ok (k, n)"
  shows "length k = 32 \<and> length n = 12"
  using assms(2) expand_length [OF assms(1), of 32] expand_length [OF assms(1), of 12]
  by (auto simp: hpke_key_schedule_def hpke_labeled_expand_def Let_def HPKE_NONCE_SIZE_def)

lemma exchange_agrees:
  assumes "hkdf_laws X" "contributory_laws X" "length dh = 32"
  shows "hpke_exchange X dh e p info = Ok (k, n) \<longleftrightarrow>
    was_contributory X dh \<and> grant_key_schedule X CurrentSuite dh e p info = Ok (k, n)"
  using assms
  by (auto simp: hpke_exchange_def grant_key_schedule_def contributory_laws_def dhkem_agrees [OF assms(1)]
      key_schedule_agrees [OF assms(1)] if_eq_Ok dest: key_schedule_lengths)

lemma exchange_nonce:
  assumes "hkdf_laws X" "grant_key_schedule X CurrentSuite dh e p info = Ok (k, n)"
  shows "length n = 12"
  using assms(2) key_schedule_lengths [OF assms(1)] by (auto simp: grant_key_schedule_def)

text \<open>The packed layout of an exchange names its parts.\<close>
lemma pack_inject:
  "length n = length n' \<Longrightarrow> length e = length e' \<Longrightarrow>
     pack_hpke_result n e m = pack_hpke_result n' e' m' \<longleftrightarrow> n = n' \<and> e = e' \<and> m = m'"
  by (auto simp: pack_hpke_result_def)

lemma encap_eq_Ok:
  assumes "hkdf_laws X" "dh_laws X" "contributory_laws X"
  shows "hpke_encap X (Some eph) pub info aad m = Ok out \<longleftrightarrow>
    length pub = 32 \<and> was_contributory X (x25519_dh X eph pub) \<and>
    (\<exists>key nonce ct. grant_key_schedule X CurrentSuite (x25519_dh X eph pub) (x25519_public X eph) pub info = Ok (key, nonce) \<and>
       aead_encrypt X key nonce aad m = Some ct \<and> out = pack_hpke_result nonce (x25519_public X eph) ct)"
proof -
  have len: "length (x25519_dh X eph pub) = 32" using assms(2) by (simp add: dh_laws_def)
  show ?thesis
    by (auto simp: hpke_encap_def Let_def exchange_agrees [OF assms(1,3) len] wasm_consts)
qed

lemma decap_eq_Ok:
  assumes "aead_laws X" "hkdf_laws X" "dh_laws X" "contributory_laws X"
  shows "hpke_decap X priv info aad e ct = Ok out \<longleftrightarrow>
    length priv = 32 \<and> length e = 32 \<and> was_contributory X (x25519_dh X priv e) \<and>
    (\<exists>key nonce m. grant_key_schedule X CurrentSuite (x25519_dh X priv e) e (x25519_public X priv) info = Ok (key, nonce) \<and>
       aead_encrypt X key nonce aad m = Some ct \<and> out = pack_hpke_result nonce e m)"
proof -
  have len: "length (x25519_dh X priv e) = 32" using assms(3) by (simp add: dh_laws_def)
  show ?thesis
    by (auto simp: hpke_decap_def exchange_agrees [OF assms(2,4) len] aead_decrypt_iff [OF assms(1)] wasm_consts)
qed

section \<open>Composing calls\<close>

text \<open>The bytes a slice names, which lie in a block of the caller's.\<close>
definition holds :: "memory \<Rightarrow> wasm_slice \<Rightarrow> bytes \<Rightarrow> bool" where
  "holds h s bs \<longleftrightarrow> length bs = unat (sl_len s) \<and> read_mem h (sl_ptr s) (length bs) = bs \<and>
     (bs = [] \<or> sl_ptr s \<noteq> 0 \<and> (\<exists>b \<in> set (mm_blocks h). in_block (sl_ptr s) (length bs) b))"

lemma holds_read: "holds h s bs \<Longrightarrow> read_slice h s label = Ok bs"
  by (cases "sl_len s = 0") (auto simp: holds_def read_slice_def unat_eq_zero)

lemma delivered_keeps:
  assumes "delivered h t out code h'" "holds h s bs" "apart (sl_ptr s) (length bs) t 16"
  shows "holds h' s bs"
proof (cases "bs = []")
  case False
  then obtain b where b: "b \<in> set (mm_blocks h)" "in_block (sl_ptr s) (length bs) b"
    using assms(2) by (auto simp: holds_def)
  have "read_mem h' (sl_ptr s) (length bs) = read_mem h (sl_ptr s) (length bs)"
  proof (rule read_mem_cong)
    show "length bs \<le> 2 ^ 32"
      using assms(2) unsigned_less [of "sl_len s", where 'a = nat] by (simp add: holds_def)
    fix a assume a: "within (sl_ptr s) (length bs) a"
    then show "mm_bytes h' a = mm_bytes h a"
      using assms(1,3) b(1) within_in_block [OF b(2) a] by (auto simp: delivered_def Let_def apart_def)
  qed
  then show ?thesis using assms(1,2) b by (auto simp: holds_def delivered_def Let_def)
qed (use assms in \<open>auto simp: holds_def read_mem_def\<close>)

text \<open>The slice a result names.\<close>
definition result_slice :: "strong_box_result \<Rightarrow> wasm_slice" where
  "result_slice r = \<lparr> sl_ptr = sr_ptr r, sl_len = sr_len r \<rparr>"

lemma delivered_read:
  assumes "delivered h t out code h'"
  shows "read_slice h' (result_slice (read_result h' t)) label = Ok out"
  using assms
  by (cases "out = []") (auto simp: delivered_def Let_def read_slice_def result_slice_def unat_eq_zero read_mem_def)

lemma perform_delivers:
  assumes "alloc_laws A" "t \<noteq> 0" "b \<in> set (mm_blocks h)" "in_block t 16 b" "perform X A call t h = (Ok (), h')"
  shows "delivered h t (output_of (outcome_of X call h)) (code_of (operation_of call) (outcome_of X call h)) h'"
  using assms(5) unfolding perform_respond by (rule respond_delivers [OF assms(1-4)])

lemma perform_Ok_outcome: "perform X A call t h = (Ok (), h') \<Longrightarrow> outcome_of X call h \<noteq> Abort"
  by (auto simp: perform_respond respond_eq split: if_splits)

lemma encrypt_with_key_opens:
  assumes laws: "aead_laws X" "cbor_laws X" "hkdf_laws X" and n: "length nonce = 12"
    and ok: "encrypt_with_key X nonce k ctx m = Ok w"
  shows "decrypt_with_key X k ctx w = Ok m"
proof -
  obtain sb where sb: "(static_new X (Key k) [Key k] :: (_, bridge_error) rust_result) = Ok sb" "static_encrypt X sb nonce m ctx = Ok w"
    and k: "length k = 32"
    using ok by (auto simp: encrypt_with_key_def build_strong_box_def wasm_consts split: if_splits)
  have new: "(static_new X (Key k) [Key k] :: (_, bridge_error) rust_result) = Ok \<lparr> encryption_key = Key k, encryption_key_id = keyid_of X (Key k),
      decryption_keys = [keyid_of X (Key k) \<mapsto> Key k] \<rparr>"
    using k by (simp add: static_new_eq laws(3) key_wf_def)
  have "static_decrypt X sb w ctx = Ok m"
    by (rule static_open_other [OF laws(1,2) n _ _ sb(2)]) (use sb(1) new laws(3) in auto)
  then show ?thesis
    using sb(1) k by (simp add: decrypt_with_key_def build_strong_box_def wasm_consts)
qed

text \<open>What a first call left is what the second one opens.\<close>
lemma bridge_reopens:
  assumes laws: "aead_laws X" "cbor_laws X" "hkdf_laws X" "alloc_laws A" and n: "length nonce = 12"
    and inputs: "holds h k key" "holds h ctx context" "holds h m plaintext"
      "apart (sl_ptr k) (length key) t 16" "apart (sl_ptr ctx) (length context) t 16"
    and target: "t \<noteq> 0" "b \<in> set (mm_blocks h)" "in_block t 16 b"
    and first: "perform X A (EncryptCall nonce k ctx m) t h = (Ok (), h')" "sr_error_code (read_result h' t) = 0"
  shows "decrypt_bytes X k ctx (result_slice (read_result h' t)) h' = Ok plaintext \<and>
    set (mm_blocks h) \<subseteq> set (mm_blocks h')"
proof -
  let ?out = "encrypt_bytes X nonce k ctx m h"
  have d: "delivered h t (output_of ?out) (code_of OpEncrypt ?out) h'"
    using perform_delivers [OF laws(4) target first(1)] by simp
  have "?out \<noteq> Abort" using perform_Ok_outcome [OF first(1)] by simp
  moreover have "code_of OpEncrypt ?out = 0" using d first(2) by (simp add: delivered_def Let_def)
  ultimately obtain w where w: "?out = Ok w" by (auto simp: code_of_zero)
  then have "encrypt_with_key X nonce key context plaintext = Ok w"
    using inputs by (simp add: encrypt_bytes_def holds_read)
  then have "decrypt_with_key X key context w = Ok plaintext" by (rule encrypt_with_key_opens [OF laws(1-3) n])
  moreover have "holds h' k key" "holds h' ctx context"
    using delivered_keeps [OF d] inputs by blast+
  moreover have "read_slice h' (result_slice (read_result h' t)) l = Ok w" for l
    using delivered_read [OF d] w by simp
  ultimately show ?thesis using d by (simp add: decrypt_bytes_def holds_read delivered_def Let_def)
qed

section \<open>Properties\<close>

text \<open>C30: Bytes encrypted through the bridge are decrypted through it: after a call that reports success,
  passing the result it left, with the same key and context, yields the plaintext, provided the
  caller's first result does not lie over its key or context.\<close>
theorem bridge_round_trip:
  assumes laws: "aead_laws X" "cbor_laws X" "hkdf_laws X" "alloc_laws A" and n: "length nonce = 12"
    and inputs: "holds h k key" "holds h ctx context" "holds h m plaintext"
      "apart (sl_ptr k) (length key) t 16" "apart (sl_ptr ctx) (length context) t 16"
    and targets: "t \<noteq> 0" "b \<in> set (mm_blocks h)" "in_block t 16 b"
      "t' \<noteq> 0" "b' \<in> set (mm_blocks h)" "in_block t' 16 b'"
    and first: "perform X A (EncryptCall nonce k ctx m) t h = (Ok (), h')" "sr_error_code (read_result h' t) = 0"
    and second: "perform X A (DecryptCall k ctx (result_slice (read_result h' t))) t' h' = (Ok (), h'')"
  shows "sr_error_code (read_result h'' t') = 0 \<and>
    read_slice h'' (result_slice (read_result h'' t')) label = Ok plaintext"
proof -
  have out: "decrypt_bytes X k ctx (result_slice (read_result h' t)) h' = Ok plaintext"
    and d: "set (mm_blocks h) \<subseteq> set (mm_blocks h')"
    using bridge_reopens [OF laws n inputs targets(1-3) first] by simp_all
  have "b' \<in> set (mm_blocks h')" using d targets(5) by blast
  from perform_delivers [OF laws(4) targets(4) this targets(6) second]
  have d': "delivered h' t' plaintext 0 h''" using out by simp
  then show ?thesis using delivered_read [OF d'] by (simp add: delivered_def Let_def)
qed

text \<open>C29: A call on the bridge returns exactly when its operation does not panic and memory is left for
  its output.  At the caller's address it leaves a result that names the output bytes, or the message of
  the error, with code zero exactly on success; these bytes are in fresh memory, freeing them as the
  result says restores the caller's blocks, and no byte of these blocks but the result changes.\<close>
theorem bridge_call_delivers:
  assumes "alloc_laws A" "t \<noteq> 0" "b \<in> set (mm_blocks h)" "in_block t 16 b"
  shows "case perform X A call t h of
      (Ok _, h') \<Rightarrow>
        (case outcome_of X call h of
           Ok bs \<Rightarrow> delivered h t bs 0 h'
         | Err e \<Rightarrow> delivered h t (str_bytes (bridge_message e)) (bridge_code (operation_of call) e) h' \<and>
             bridge_code (operation_of call) e \<noteq> 0
         | Abort \<Rightarrow> False)
    | (Err _, _) \<Rightarrow> False
    | (Abort, h') \<Rightarrow> h' = h \<and>
        (outcome_of X call h = Abort \<or> A h (length (output_of (outcome_of X call h))) = None)"
proof (cases "fst (perform X A call t h)")
  case (Ok u)
  then have p: "perform X A call t h = (Ok (), snd (perform X A call t h))" by (simp add: prod_eq_iff)
  from perform_delivers [OF assms p] perform_Ok_outcome [OF p] show ?thesis
    by (subst p) (cases "outcome_of X call h"; simp add: bridge_code_nonzero)
qed (auto simp: perform_respond respond_eq from_vec_def alloc_vec_def split: option.splits if_splits)

text \<open>C31: What the bridge seals as an HPKE exchange is what \<open>client-crypto\<close> puts into an agent grant:
  with the grant's context as information and associated data and the same ephemeral key, one succeeds
  with an encapsulated key and a ciphertext exactly when the other writes the envelope of the two.\<close>
theorem bridge_encap_agrees:
  assumes "hkdf_laws X" "dh_laws X" "contributory_laws X"
  shows "encrypt_agent_work_list_key X eph pub wid k = Ok blob \<longleftrightarrow>
    (\<exists>nonce ct. length nonce = HPKE_NONCE_SIZE \<and>
       hpke_encap X (Some eph) pub (agent_grant_context X wid) (agent_grant_context X wid) (sym_bytes k) =
         Ok (pack_hpke_result nonce (x25519_public X eph) ct) \<and>
       enc (hpke_codec X) \<lparr> he_version = 1, he_suite = hpke_supported, he_enc = x25519_public X eph,
         he_ciphertext = ct \<rparr> = Ok (sb_bytes blob) \<and>
       sb_base64 blob = b64_nopad_enc X (sb_bytes blob))"
proof
  assume "encrypt_agent_work_list_key X eph pub wid k = Ok blob"
  then show "\<exists>nonce ct. length nonce = HPKE_NONCE_SIZE \<and>
       hpke_encap X (Some eph) pub (agent_grant_context X wid) (agent_grant_context X wid) (sym_bytes k) =
         Ok (pack_hpke_result nonce (x25519_public X eph) ct) \<and>
       enc (hpke_codec X) \<lparr> he_version = 1, he_suite = hpke_supported, he_enc = x25519_public X eph,
         he_ciphertext = ct \<rparr> = Ok (sb_bytes blob) \<and> sb_base64 blob = b64_nopad_enc X (sb_bytes blob)"
    unfolding HPKE_NONCE_SIZE_def encap_eq_Ok [OF assms]
    by (elim encrypt_grant_parts, intro exI conjI) (assumption | rule refl | erule exchange_nonce [OF assms(1)])+
next
  assume "\<exists>nonce ct. length nonce = HPKE_NONCE_SIZE \<and>
       hpke_encap X (Some eph) pub (agent_grant_context X wid) (agent_grant_context X wid) (sym_bytes k) =
         Ok (pack_hpke_result nonce (x25519_public X eph) ct) \<and>
       enc (hpke_codec X) \<lparr> he_version = 1, he_suite = hpke_supported, he_enc = x25519_public X eph,
         he_ciphertext = ct \<rparr> = Ok (sb_bytes blob) \<and> sb_base64 blob = b64_nopad_enc X (sb_bytes blob)"
  then obtain nonce ct key nonce' ct' where parts: "length nonce = 12" "length pub = 32"
      "was_contributory X (x25519_dh X eph pub)"
      "grant_key_schedule X CurrentSuite (x25519_dh X eph pub) (x25519_public X eph) pub
         (agent_grant_context X wid) = Ok (key, nonce')"
      "aead_encrypt X key nonce' (agent_grant_context X wid) (sym_bytes k) = Some ct'"
      "pack_hpke_result nonce (x25519_public X eph) ct = pack_hpke_result nonce' (x25519_public X eph) ct'"
      "enc (hpke_codec X) \<lparr> he_version = 1, he_suite = hpke_supported, he_enc = x25519_public X eph,
         he_ciphertext = ct \<rparr> = Ok (sb_bytes blob)"
      "sb_base64 blob = b64_nopad_enc X (sb_bytes blob)"
    by (auto simp: encap_eq_Ok [OF assms] HPKE_NONCE_SIZE_def)
  have "ct = ct'" using parts(1,6) exchange_nonce [OF assms(1) parts(4)] by (simp add: pack_inject)
  then show "encrypt_agent_work_list_key X eph pub wid k = Ok blob"
    using parts by (auto simp: encrypt_agent_work_list_key_def ensure_contributory_shared_secret_def Let_def
        grant_key_schedule_def hpke_seal_def serialize_to_cbor_def)
qed

text \<open>The bridge opens a current envelope exactly when \<open>client-crypto\<close> does, to the same key.\<close>
theorem bridge_decap_agrees:
  assumes "aead_laws X" "hkdf_laws X" "dh_laws X" "contributory_laws X"
    and "dec (hpke_codec X) w = Ok (env, length w)" "he_version env = 1" "he_suite env = hpke_supported"
  shows "open_grant_envelope X priv wid w = Ok (CurrentSuite, m) \<longleftrightarrow>
    (\<exists>nonce. length nonce = HPKE_NONCE_SIZE \<and>
       hpke_decap X priv (agent_grant_context X wid) (agent_grant_context X wid) (he_enc env) (he_ciphertext env) =
         Ok (pack_hpke_result nonce (he_enc env) m))"
proof -
  have "open_grant_envelope X priv wid w = Ok (CurrentSuite, m) \<longleftrightarrow> length priv = 32 \<and> length (he_enc env) = 32 \<and>
      was_contributory X (x25519_dh X priv (he_enc env)) \<and>
      (\<exists>key nonce. grant_key_schedule X CurrentSuite (x25519_dh X priv (he_enc env)) (he_enc env) (x25519_public X priv)
           (agent_grant_context X wid) = Ok (key, nonce) \<and>
         aead_encrypt X key nonce (agent_grant_context X wid) m = Some (he_ciphertext env))"
    using assms(5-7) by (auto simp: open_grant_eq_Ok hpke_open_eq_Ok [OF assms(1)])
  then show ?thesis
    using exchange_nonce [OF assms(2)] unfolding decap_eq_Ok [OF assms(1-4)] HPKE_NONCE_SIZE_def
    by (auto simp: pack_inject) blast
qed

section \<open>Witnesses\<close>

text \<open>An allocator that appends blocks, and a caller with one block.\<close>
definition demo_alloc :: allocator where
  "demo_alloc h n =
     (let top = fold (\<lambda>b m. max m (unat (fst b) + unat (snd b))) (mm_blocks h) 4 in
      if top + n < 2 ^ 32 then Some (of_nat top, of_nat n) else None)"

lemma fold_max_ge: "(m :: nat) \<le> fold (\<lambda>x m. max m (f x)) xs m"
proof (induction xs arbitrary: m)
  case (Cons x xs)
  then have "max m (f x) \<le> fold (\<lambda>x m. max m (f x)) xs (max m (f x))" .
  then show ?case by simp
qed simp

lemma fold_max_member: "x \<in> set xs \<Longrightarrow> (f x :: nat) \<le> fold (\<lambda>x m. max m (f x)) xs m"
proof (induction xs arbitrary: m)
  case (Cons y xs)
  then show ?case using fold_max_ge [of "max m (f y)" f xs] by auto
qed simp

lemma unat_from: "unat (p :: usize) + j < 2 ^ 32 \<Longrightarrow> unat (a - p) = j \<Longrightarrow> unat a = unat p + j"
  using unat_add_lem [of p "a - p"] by simp

lemma demo_alloc_laws: "alloc_laws demo_alloc"
  unfolding alloc_laws_def
proof (intro allI impI)
  fix h n p c assume "demo_alloc h n = Some (p, c)"
  then obtain top where top: "top = fold (\<lambda>b m. max m (unat (fst b) + unat (snd b))) (mm_blocks h) 4"
      "top + n < 2 ^ 32" "p = of_nat top" "c = of_nat n"
    by (auto simp: demo_alloc_def Let_def case_prod_beta split: if_splits)
  have p: "unat p = top" "unat c = n" "4 \<le> top"
    using top fold_max_ge [of 4] by (simp_all add: unat_of_nat)
  have "apart p (unat c) (fst b) (unat (snd b))" if b: "b \<in> set (mm_blocks h)" for b
    unfolding apart_def within_def
  proof (intro allI notI, elim conjE)
    fix a assume a: "unat (a - p) < unat c" "unat (a - fst b) < unat (snd b)"
    have "unat (fst b) + unat (snd b) \<le> top"
      using fold_max_member [OF b, of "\<lambda>b. unat (fst b) + unat (snd b)"] top(1) by simp
    then have "unat a < top" using unat_from [of "fst b" "unat (a - fst b)" a] a(2) top(2) by simp
    moreover have "unat a = unat p + unat (a - p)" by (rule unat_from) (use a p top in auto)
    ultimately show False using p by simp
  qed
  then show "p \<noteq> 0 \<and> n \<le> unat c \<and> (\<forall>b \<in> set (mm_blocks h). apart p (unat c) (fst b) (unat (snd b)))"
    using p by auto
qed

definition demo_memory :: memory where
  "demo_memory = \<lparr> mm_bytes = (\<lambda>a. ucast a), mm_blocks = [(16, 400)] \<rparr>"

definition demo_slice :: "usize \<Rightarrow> usize \<Rightarrow> wasm_slice" where
  "demo_slice p n = \<lparr> sl_ptr = p, sl_len = n \<rparr>"

definition demo_sealing :: bridge_call where
  "demo_sealing = EncryptCall (replicate 12 5) (demo_slice 100 32) (demo_slice 200 3) (demo_slice 300 4)"

definition demo_sealed :: memory where
  "demo_sealed = snd (perform grant_client demo_alloc demo_sealing 16 demo_memory)"

lemma demo_outcome: "case outcome_of grant_client demo_sealing demo_memory of Ok w \<Rightarrow> 0 < length w \<and> length w < 200 | _ \<Rightarrow> False"
  by code_simp

lemma perform_allocated:
  assumes "outcome_of X call h = Ok w" "A h (length w) = Some (p, c)"
  shows "perform X A call t h = (Ok (), snd (perform X A call t h))"
    and "mm_blocks (snd (perform X A call t h)) = (if c = 0 then mm_blocks h else (p, c) # mm_blocks h)"
  using assms by (simp_all add: perform_respond respond_eq from_vec_def alloc_vec_def write_result_def)

lemma grant_client_cbor: "cbor_laws grant_client"
proof -
  have "cbor_laws demo_client" by (simp add: demo_client_def)
  then show ?thesis by (simp add: grant_client_def cbor_laws_def)
qed

lemma demo_sealing_performed:
  obtains c where "perform grant_client demo_alloc demo_sealing 16 demo_memory = (Ok (), demo_sealed)"
    "sr_error_code (read_result demo_sealed 16) = 0" "mm_blocks demo_sealed = [(416, c), (16, 400)]" "unat c < 200"
proof -
  obtain w where w: "outcome_of grant_client demo_sealing demo_memory = Ok w" "0 < length w" "length w < 200"
    using demo_outcome by (cases "outcome_of grant_client demo_sealing demo_memory") auto
  have A: "demo_alloc demo_memory (length w) = Some (416, of_nat (length w))"
    using w(3) by (simp add: demo_alloc_def demo_memory_def)
  have c: "unat (of_nat (length w) :: usize) = length w" using w(3) by (simp add: unat_of_nat)
  have p: "perform grant_client demo_alloc demo_sealing 16 demo_memory = (Ok (), demo_sealed)"
    unfolding demo_sealed_def by (rule perform_allocated(1), rule w(1), rule A)
  have "mm_blocks demo_sealed = (if (of_nat (length w) :: usize) = 0 then mm_blocks demo_memory
      else (416, of_nat (length w)) # mm_blocks demo_memory)"
    unfolding demo_sealed_def by (rule perform_allocated(2), rule w(1), rule A)
  moreover have "(of_nat (length w) :: usize) \<noteq> 0" using c w(2) by (metis less_numeral_extra(3) unat_0)
  ultimately have blocks: "mm_blocks demo_sealed = [(416, of_nat (length w)), (16, 400)]"
    by (simp add: demo_memory_def)
  have "delivered demo_memory 16 w 0 demo_sealed"
    using perform_delivers [OF demo_alloc_laws _ _ _ p, of "(16, 400)"] w(1)
    by (simp add: demo_memory_def in_block_def)
  then have "sr_error_code (read_result demo_sealed 16) = 0" by (simp add: delivered_def Let_def)
  with p blocks c w(3) show thesis by (intro that [of "of_nat (length w)"]) simp_all
qed

lemma demo_held:
  "holds demo_memory (demo_slice 100 32) (read_mem demo_memory 100 32)"
  "holds demo_memory (demo_slice 200 3) (read_mem demo_memory 200 3)"
  "holds demo_memory (demo_slice 300 4) (read_mem demo_memory 300 4)"
  by (auto simp: holds_def demo_slice_def demo_memory_def in_block_def)

lemma demo_apart: "16 + n \<le> unat p \<Longrightarrow> unat p + m < 2 ^ 32 \<Longrightarrow> apart p m 16 n"
  unfolding apart_def within_def
proof (intro allI notI, elim conjE)
  fix a assume *: "16 + n \<le> unat p" "unat p + m < 2 ^ 32" "unat (a - p) < m" "unat (a - 16) < n"
  have "unat a = unat p + unat (a - p)" by (rule unat_from) (use * in auto)
  moreover have "unat a = unat (16 :: usize) + unat (a - 16)" by (rule unat_from) (use * in auto)
  ultimately show False using * by simp
qed

theorem bridge_call_delivers_witness:
  "case perform grant_client demo_alloc demo_sealing 16 demo_memory of
     (Ok _, h') \<Rightarrow>
       (case outcome_of grant_client demo_sealing demo_memory of
          Ok bs \<Rightarrow> delivered demo_memory 16 bs 0 h'
        | Err e \<Rightarrow> delivered demo_memory 16 (str_bytes (bridge_message e)) (bridge_code (operation_of demo_sealing) e) h' \<and>
            bridge_code (operation_of demo_sealing) e \<noteq> 0
        | Abort \<Rightarrow> False)
   | (Err _, _) \<Rightarrow> False
   | (Abort, h') \<Rightarrow> h' = demo_memory \<and>
       (outcome_of grant_client demo_sealing demo_memory = Abort \<or>
        demo_alloc demo_memory (length (output_of (outcome_of grant_client demo_sealing demo_memory))) = None)"
  by (rule bridge_call_delivers [OF demo_alloc_laws, of _ "(16, 400)"]) (simp_all add: demo_memory_def in_block_def)

text \<open>Sealing and reopening in the demonstration memory.\<close>
theorem bridge_round_trip_witness:
  "\<exists>h''. perform grant_client demo_alloc (DecryptCall (demo_slice 100 32) (demo_slice 200 3)
       (result_slice (read_result demo_sealed 16))) 32 demo_sealed = (Ok (), h'') \<and>
     sr_error_code (read_result h'' 32) = 0 \<and>
     read_slice h'' (result_slice (read_result h'' 32)) [] = Ok (read_mem demo_memory 300 4)"
proof -
  obtain c where first: "perform grant_client demo_alloc demo_sealing 16 demo_memory = (Ok (), demo_sealed)"
      "sr_error_code (read_result demo_sealed 16) = 0"
    and blocks: "mm_blocks demo_sealed = [(416, c), (16, 400)]" "unat c < 200"
    by (rule demo_sealing_performed) auto
  note laws = grant_client_laws(1) grant_client_cbor grant_client_laws(2) demo_alloc_laws
  note ap = demo_apart [of 16 100 32] demo_apart [of 16 200 3]
  let ?call = "DecryptCall (demo_slice 100 32) (demo_slice 200 3) (result_slice (read_result demo_sealed 16))"
  have "outcome_of grant_client ?call demo_sealed = Ok (read_mem demo_memory 300 4)"
    using bridge_reopens [OF laws _ demo_held _ _ _ _ _ first [unfolded demo_sealing_def], of "(16, 400)"] ap
    by (simp add: demo_slice_def demo_memory_def in_block_def)
  moreover obtain p d where "demo_alloc demo_sealed (length (read_mem demo_memory 300 4)) = Some (p, d)"
    using blocks by (simp add: demo_alloc_def)
  ultimately obtain h'' where second: "perform grant_client demo_alloc ?call 32 demo_sealed = (Ok (), h'')"
    using perform_allocated(1) by blast
  have "sr_error_code (read_result h'' 32) = 0 \<and>
      read_slice h'' (result_slice (read_result h'' 32)) [] = Ok (read_mem demo_memory 300 4)"
    by (rule bridge_round_trip [OF laws _ demo_held _ _ _ _ _ _ _ _ first [unfolded demo_sealing_def] second,
          of "(16, 400)" "(16, 400)"])
      (use ap in \<open>simp_all add: demo_slice_def demo_memory_def in_block_def\<close>)
  with second show ?thesis by blast
qed

lemma grant_client_contributory: "contributory_laws grant_client"
  by (auto simp: contributory_laws_def grant_client_def demo_client_def list_all_iff replicate_eqI
      intro!: replicate_eqI)

theorem bridge_encap_agrees_witness:
  "\<exists>nonce ct. length nonce = HPKE_NONCE_SIZE \<and>
     hpke_encap grant_client (Some (replicate 32 3)) (x25519_public grant_client demo_agent)
       (agent_grant_context grant_client demo_list_id) (agent_grant_context grant_client demo_list_id)
       (sym_bytes demo_list_key) = Ok (pack_hpke_result nonce (x25519_public grant_client (replicate 32 3)) ct)"
  using bridge_encap_agrees [OF grant_client_laws(2,3) grant_client_contributory, THEN iffD1, OF demo_grant_sealed]
  by blast

theorem bridge_decap_agrees_witness:
  "case dec (hpke_codec grant_client) (sb_bytes demo_grant) of
     Ok (env, _) \<Rightarrow> (\<exists>nonce. hpke_decap grant_client demo_agent (agent_grant_context grant_client demo_list_id)
       (agent_grant_context grant_client demo_list_id) (he_enc env) (he_ciphertext env) =
         Ok (pack_hpke_result nonce (he_enc env) (sym_bytes demo_list_key)))
   | _ \<Rightarrow> False"
proof -
  obtain env where env: "dec (hpke_codec grant_client) (sb_bytes demo_grant) = Ok (env, length (sb_bytes demo_grant))"
      "he_version env = 1" "he_suite env = hpke_supported"
    using grant_envelope_read [OF grant_client_laws(3) _ _ grant_client_reads demo_grant_sealed] 
    by (auto simp: demo_agent_def)
  have "fst (decrypt_agent_work_list_key grant_client demo_agent demo_list_id (sb_bytes demo_grant) 0) = Ok demo_list_key"
    by code_simp
  then obtain kind where "open_grant_envelope grant_client demo_agent demo_list_id (sb_bytes demo_grant) =
      Ok (kind, sym_bytes demo_list_key)"
    unfolding decrypt_grant_eq_Ok by blast
  moreover have "kind = CurrentSuite"
    using calculation env by (cases kind) (auto simp: open_grant_eq_Ok hpke_supported_def hpke_legacy_def
      HPKE_KEM_CODEPOINT_def HPKE_LEGACY_KEM_CODEPOINT_def)
  ultimately show ?thesis
    using bridge_decap_agrees [OF grant_client_laws(1-3) grant_client_contributory env] env(1) by auto
qed

end
