(* ===== verification/Cli_Json.thy ===== *)
theory Cli_Json
  imports Rt_Tasks
begin

text \<open>What the commands print with \<open>--json\<close>: the JSON object that the derived \<open>Serialize\<close> writes of each answer
  of \<open>crates/client-api\<close> and of each model of \<open>crates/client-runtime/src/models.rs\<close>, with its fields in the order
  of their declaration.\<close>

definition json_nat :: "nat \<Rightarrow> json" where
  "json_nat n = JPos n"

section \<open>Pieces of payloads\<close>

definition rich_text_block_json :: "rich_text_block \<Rightarrow> json" where
  "rich_text_block_json b =
     JObject ([(''type'', JString (rb_block_type b)),
       (''text'', JString (rb_text b))])"

definition rich_text_json :: "rich_text \<Rightarrow> json" where
  "rich_text_json t =
     JObject ([(''format'', JString (rt_format t)),
       (''version'', json_nat (unat (rt_version t))),
       (''blocks'', JArray (map rich_text_block_json (rt_blocks t)))])"

definition checklist_item_json :: "checklist_item \<Rightarrow> json" where
  "checklist_item_json i =
     JObject ([(''id'', JString (ci_id i)), (''title'', JString (ci_title i)), (''is_done'', JBool (ci_is_done i))] @
       opt_field ''completed_at'' json_int (ci_completed_at i) @
       opt_field ''assignee_user_ids'' (\<lambda>xs. JArray (map JString xs)) (ci_assignee_user_ids i))"

definition section_snapshot_json :: "'x runtime_ext_scheme \<Rightarrow> section_snapshot \<Rightarrow> json" where
  "section_snapshot_json R s =
     JObject ([(''id'', uuid_json R (ss_id s)),
       (''position'', json_int (ss_position s)),
       (''autoArchiveEnabled'', JBool (ss_auto_archive_enabled s)),
       (''autoArchiveAfterDays'', json_opt json_int (ss_auto_archive_after_days s))])"

definition delegation_target_fields :: "'x runtime_ext_scheme \<Rightarrow> delegation_target \<Rightarrow> (string \<times> json) list" where
  "delegation_target_fields R t =
     (let w = target_to_wire t in
      [(''targetType'', JString (target_type_as_str (tw_target_type w))),
       (''membershipId'', json_opt (uuid_json R) (tw_membership_id w)),
       (''agentId'', json_opt (uuid_json R) (tw_agent_id w))])"

section \<open>Answers of the API\<close>

definition delegation_json :: "'x runtime_ext_scheme \<Rightarrow> delegation_response \<Rightarrow> json" where
  "delegation_json R d =
     JObject ([(''id'', uuid_json R (dg_id d)),
       (''taskId'', uuid_json R (dg_task_id d))] @
     delegation_target_fields R (dg_target d) @
     [(''role'', JString (role_as_str (dg_role d))),
       (''status'', JString (delegation_status_as_str (dg_status d))),
       (''noteCiphertext'', json_opt JString (dg_note_ciphertext d)),
       (''createdAt'', datetime_json R (dg_created_at d)),
       (''updatedAt'', datetime_json R (dg_updated_at d))])"

definition task_response_fields :: "'x runtime_ext_scheme \<Rightarrow> task_response \<Rightarrow> (string \<times> json) list" where
  "task_response_fields R t =
     [(''id'', uuid_json R (tk_id t)),
       (''workListId'', uuid_json R (tk_work_list_id t)),
       (''createdByMembershipId'', uuid_json R (tk_created_by_membership_id t)),
       (''titleCiphertext'', JString (tk_title_ciphertext t)),
       (''payloadCiphertext'', JString (tk_payload_ciphertext t)),
       (''sectionId'', json_opt (uuid_json R) (tk_section_id t)),
       (''priority'', json_opt json_int (tk_priority t)),
       (''position'', JString (tk_position t)),
       (''dueAt'', json_opt (datetime_json R) (tk_due_at t)),
       (''startAt'', json_opt (datetime_json R) (tk_start_at t)),
       (''completedAt'', json_opt (datetime_json R) (tk_completed_at t)),
       (''archivedAt'', json_opt (datetime_json R) (tk_archived_at t)),
       (''isCompleted'', JBool (tk_is_completed t)),
       (''recurrenceId'', json_opt (uuid_json R) (tk_recurrence_id t)),
       (''recurrenceSchedule'', json_opt JString (tk_recurrence_schedule t)),
       (''recurrenceIteration'', json_opt json_int (tk_recurrence_iteration t)),
       (''materializedAt'', json_opt (datetime_json R) (tk_materialized_at t)),
       (''createdAt'', datetime_json R (tk_created_at t)),
       (''updatedAt'', datetime_json R (tk_updated_at t)),
       (''commentCount'', json_int (tk_comment_count t)),
       (''delegations'', JArray (map (delegation_json R) (tk_delegations t)))]"

definition task_response_json :: "'x runtime_ext_scheme \<Rightarrow> task_response \<Rightarrow> json" where
  "task_response_json R t = JObject (task_response_fields R t)"

definition comment_response_json :: "'x runtime_ext_scheme \<Rightarrow> comment_response \<Rightarrow> json" where
  "comment_response_json R c =
     JObject ([(''id'', uuid_json R (cm_id c)),
       (''taskId'', uuid_json R (cm_task_id c)),
       (''authorMembershipId'', uuid_json R (cm_author_membership_id c)),
       (''authorAgentId'', json_opt (uuid_json R) (cm_author_agent_id c)),
       (''authorAgentHandle'', json_opt JString (cm_author_agent_handle c)),
       (''authorAgentDisplayName'', json_opt JString (cm_author_agent_display_name c)),
       (''bodyCiphertext'', JString (cm_body_ciphertext c)),
       (''createdAt'', datetime_json R (cm_created_at c)),
       (''updatedAt'', datetime_json R (cm_updated_at c))])"

definition task_detail_response_json :: "'x runtime_ext_scheme \<Rightarrow> task_detail_response \<Rightarrow> json" where
  "task_detail_response_json R d =
     JObject (task_response_fields R (td_task d) @
     [(''comments'', JArray (map (comment_response_json R) (td_comments d)))])"

definition my_task_response_json :: "'x runtime_ext_scheme \<Rightarrow> my_task_response \<Rightarrow> json" where
  "my_task_response_json R t =
     JObject ([(''id'', uuid_json R (mk_id t)),
       (''workListId'', uuid_json R (mk_work_list_id t)),
       (''workListTitleCiphertext'', JString (mk_work_list_title_ciphertext t)),
       (''createdByMembershipId'', uuid_json R (mk_created_by_membership_id t)),
       (''titleCiphertext'', JString (mk_title_ciphertext t)),
       (''payloadCiphertext'', JString (mk_payload_ciphertext t)),
       (''sectionId'', json_opt (uuid_json R) (mk_section_id t)),
       (''priority'', json_opt json_int (mk_priority t)),
       (''dueAt'', json_opt (datetime_json R) (mk_due_at t)),
       (''startAt'', json_opt (datetime_json R) (mk_start_at t)),
       (''completedAt'', json_opt (datetime_json R) (mk_completed_at t)),
       (''isCompleted'', JBool (mk_is_completed t)),
       (''createdAt'', datetime_json R (mk_created_at t)),
       (''updatedAt'', datetime_json R (mk_updated_at t)),
       (''commentCount'', json_int (mk_comment_count t)),
       (''delegations'', JArray (map (delegation_json R) (mk_delegations t)))])"

definition membership_response_json :: "'x runtime_ext_scheme \<Rightarrow> membership_response \<Rightarrow> json" where
  "membership_response_json R m =
     JObject ([(''id'', uuid_json R (ms_id m)),
       (''userId'', uuid_json R (ms_user_id m)),
       (''userEmail'', JString (ms_user_email m)),
       (''userName'', JString (ms_user_name m)),
       (''userAvatarColor'', JString (ms_user_avatar_color m)),
       (''role'', JString (ms_role m)),
       (''status'', JString (ms_status m)),
       (''workListKeyCiphertext'', JString (ms_work_list_key_ciphertext m)),
       (''recipientCiphertext'', json_opt JString (ms_recipient_ciphertext m)),
       (''invitePackageCiphertext'', json_opt JString (ms_invite_package_ciphertext m)),
       (''saltMember'', json_opt JString (ms_salt_member m)),
       (''expiresAt'', json_opt (datetime_json R) (ms_expires_at m)),
       (''joinedAt'', datetime_json R (ms_joined_at m)),
       (''payloadBindingKey'', json_opt JString (ms_payload_binding_key m))])"

definition work_list_response_fields :: "'x runtime_ext_scheme \<Rightarrow> work_list_response \<Rightarrow> (string \<times> json) list" where
  "work_list_response_fields R l =
     [(''id'', uuid_json R (wl_id l)),
       (''ownerUserId'', uuid_json R (wl_owner_user_id l)),
       (''workspaceId'', uuid_json R (wl_workspace_id l))] @
     opt_field ''redacted'' JBool (wl_redacted l) @
     opt_field ''titleCiphertext'' JString (wl_title_ciphertext l) @
     [(''descriptionCiphertext'', json_opt JString (wl_description_ciphertext l))] @
     opt_field ''payloadCiphertext'' JString (wl_payload_ciphertext l) @
     [(''timezone'', JString (wl_timezone l)),
       (''sectionSnapshots'', JArray (map (section_snapshot_json R) (wl_section_snapshots l))),
       (''createdAt'', datetime_json R (wl_created_at l)),
       (''updatedAt'', datetime_json R (wl_updated_at l)),
       (''membership'', membership_response_json R (wl_membership l))]"

definition work_list_response_json :: "'x runtime_ext_scheme \<Rightarrow> work_list_response \<Rightarrow> json" where
  "work_list_response_json R l = JObject (work_list_response_fields R l)"

definition work_list_detail_response_json :: "'x runtime_ext_scheme \<Rightarrow> work_list_detail_response \<Rightarrow> json" where
  "work_list_detail_response_json R d =
     JObject (work_list_response_fields R (wd_work_list d) @
     [(''members'', JArray (map (membership_response_json R) (wd_members d)))])"

definition current_user_json :: "'x runtime_ext_scheme \<Rightarrow> current_user_response \<Rightarrow> json" where
  "current_user_json R u =
     JObject ([(''id'', uuid_json R (cu_id u)),
       (''email'', JString (cu_email u)),
       (''name'', JString (cu_name u)),
       (''timezone'', JString (cu_timezone u)),
       (''avatarColor'', JString (cu_avatar_color u)),
       (''dataKeyCiphertext'', JString (cu_data_key_ciphertext u)),
       (''workspaceLockTimeoutMinutes'', json_opt json_int (cu_workspace_lock_timeout_minutes u)),
       (''themePreference'', JString (cu_theme_preference u)),
       (''emailVerified'', JBool (cu_email_verified u)),
       (''lastAccessedWorkListId'', json_opt (uuid_json R) (cu_last_accessed_work_list_id u))])"

definition dashboard_stats_json :: "dashboard_stats_response \<Rightarrow> json" where
  "dashboard_stats_json s =
     JObject ([(''tasksOverdue'', json_int (ds_tasks_overdue s)),
       (''tasksDueToday'', json_int (ds_tasks_due_today s)),
       (''tasksDueThisWeek'', json_int (ds_tasks_due_this_week s)),
       (''completed'', json_int (ds_completed s))])"

definition agent_grant_json :: "'x runtime_ext_scheme \<Rightarrow> agent_grant_response \<Rightarrow> json" where
  "agent_grant_json R g =
     JObject ([(''workListId'', uuid_json R (gr_work_list_id g))] @
     permission_fields (gr_permissions g) @
     [(''createdAt'', datetime_json R (gr_created_at g))])"

definition agent_summary_json :: "'x runtime_ext_scheme \<Rightarrow> agent_summary_response \<Rightarrow> json" where
  "agent_summary_json R a =
     JObject ([(''agentId'', uuid_json R (as_agent_id a)),
       (''ownerUserId'', json_opt (uuid_json R) (as_owner_user_id a)),
       (''status'', JString (as_status a)),
       (''approved'', JBool (as_approved a)),
       (''handle'', json_opt JString (as_handle a)),
       (''proposedHandle'', json_opt JString (as_proposed_handle a)),
       (''displayName'', json_opt JString (as_display_name a)),
       (''scopeMode'', JString (as_scope_mode a)),
       (''fingerprint'', JString (as_fingerprint a)),
       (''activatedAt'', json_opt (datetime_json R) (as_activated_at a)),
       (''revokedAt'', json_opt (datetime_json R) (as_revoked_at a)),
       (''lastSeenAt'', json_opt (datetime_json R) (as_last_seen_at a)),
       (''grants'', JArray (map (agent_grant_json R) (as_grants a)))])"

section \<open>Models of the runtime\<close>

definition read_error_json :: "read_error \<Rightarrow> json" where
  "read_error_json e =
     JObject ([(''code'', JString (rd_code e)),
       (''message'', JString (rd_message e))])"

definition agent_membership_json :: "'x runtime_ext_scheme \<Rightarrow> agent_membership \<Rightarrow> json" where
  "agent_membership_json R m =
     JObject ([(''id'', uuid_json R (am_id m)),
       (''userId'', uuid_json R (am_user_id m)),
       (''userEmail'', JString (am_user_email m)),
       (''userName'', JString (am_user_name m)),
       (''userAvatarColor'', JString (am_user_avatar_color m)),
       (''role'', JString (am_role m)),
       (''status'', JString (am_status m)),
       (''expiresAt'', json_opt (datetime_json R) (am_expires_at m)),
       (''joinedAt'', datetime_json R (am_joined_at m))])"

definition work_list_summary_fields :: "'x runtime_ext_scheme \<Rightarrow> work_list_summary \<Rightarrow> (string \<times> json) list" where
  "work_list_summary_fields R l =
     [(''id'', uuid_json R (ws_id l)),
       (''ownerUserId'', uuid_json R (ws_owner_user_id l)),
       (''workspaceId'', uuid_json R (ws_workspace_id l)),
       (''timezone'', JString (ws_timezone l)),
       (''sectionSnapshots'', JArray (map (section_snapshot_json R) (ws_section_snapshots l))),
       (''createdAt'', datetime_json R (ws_created_at l)),
       (''updatedAt'', datetime_json R (ws_updated_at l)),
       (''membership'', agent_membership_json R (ws_membership l)),
       (''title'', json_opt JString (ws_title l)),
       (''description'', json_opt JString (ws_description l)),
       (''payload'', json_opt (\<lambda>v. v) (ws_payload l))] @
     opt_field ''readError'' read_error_json (ws_read_error l)"

definition work_list_summary_json :: "'x runtime_ext_scheme \<Rightarrow> work_list_summary \<Rightarrow> json" where
  "work_list_summary_json R l = JObject (work_list_summary_fields R l)"

definition work_list_detail_json :: "'x runtime_ext_scheme \<Rightarrow> work_list_detail \<Rightarrow> json" where
  "work_list_detail_json R d =
     JObject (work_list_summary_fields R (wt_work_list d) @
     [(''members'', JArray (map (agent_membership_json R) (wt_members d)))])"

definition agent_delegation_json :: "'x runtime_ext_scheme \<Rightarrow> agent_delegation \<Rightarrow> json" where
  "agent_delegation_json R d =
     JObject ([(''id'', uuid_json R (ad_id d)),
       (''taskId'', uuid_json R (ad_task_id d))] @
     delegation_target_fields R (ad_target d) @
     [(''role'', JString (role_as_str (ad_role d))),
       (''status'', JString (delegation_status_as_str (ad_status d))),
       (''notePresent'', JBool (ad_note_present d)),
       (''createdAt'', datetime_json R (ad_created_at d)),
       (''updatedAt'', datetime_json R (ad_updated_at d))])"

text \<open>The reference to the blob is not shown.\<close>
definition agent_attachment_json :: "'x runtime_ext_scheme \<Rightarrow> agent_attachment \<Rightarrow> json" where
  "agent_attachment_json R a =
     JObject ([(''id'', uuid_json R (aa_id a)),
       (''fileName'', JString (aa_file_name a)),
       (''contentType'', JString (aa_content_type a)),
       (''sizeBytes'', json_nat (aa_size_bytes a))])"

definition task_metadata_fields :: "'x runtime_ext_scheme \<Rightarrow> task_metadata \<Rightarrow> (string \<times> json) list" where
  "task_metadata_fields R m =
     [(''id'', uuid_json R (tm_id m)),
       (''workListId'', uuid_json R (tm_work_list_id m)),
       (''workListTitle'', json_opt JString (tm_work_list_title m)),
       (''createdByMembershipId'', uuid_json R (tm_created_by_membership_id m)),
       (''sectionId'', json_opt (uuid_json R) (tm_section_id m)),
       (''priority'', json_opt json_int (tm_priority m)),
       (''position'', json_opt JString (tm_position m)),
       (''dueAt'', json_opt (datetime_json R) (tm_due_at m)),
       (''startAt'', json_opt (datetime_json R) (tm_start_at m)),
       (''completedAt'', json_opt (datetime_json R) (tm_completed_at m)),
       (''archivedAt'', json_opt (datetime_json R) (tm_archived_at m)),
       (''isCompleted'', JBool (tm_is_completed m)),
       (''recurrenceId'', json_opt (uuid_json R) (tm_recurrence_id m)),
       (''recurrenceSchedule'', json_opt JString (tm_recurrence_schedule m)),
       (''recurrenceIteration'', json_opt json_int (tm_recurrence_iteration m)),
       (''materializedAt'', json_opt (datetime_json R) (tm_materialized_at m)),
       (''createdAt'', datetime_json R (tm_created_at m)),
       (''updatedAt'', datetime_json R (tm_updated_at m)),
       (''commentCount'', json_int (tm_comment_count m))]"

definition task_summary_fields :: "'x runtime_ext_scheme \<Rightarrow> task_summary \<Rightarrow> (string \<times> json) list" where
  "task_summary_fields R t =
     task_metadata_fields R (ts_metadata t) @
     [(''title'', json_opt JString (ts_title t)),
       (''bodyMarkdown'', json_opt JString (ts_body_markdown t)),
       (''bodyRichText'', json_opt rich_text_json (ts_body_rich_text t)),
       (''checklist'', json_opt (\<lambda>xs. JArray (map checklist_item_json xs)) (ts_checklist t)),
       (''attachments'', json_opt (\<lambda>xs. JArray (map (agent_attachment_json R) xs)) (ts_attachments t)),
       (''references'', json_opt JArray (ts_references t)),
       (''mentions'', json_opt (\<lambda>xs. JArray (map JString xs)) (ts_mentions t)),
       (''clientMeta'', json_opt (\<lambda>v. v) (ts_client_meta t)),
       (''recurrenceState'', json_opt (\<lambda>v. v) (ts_recurrence_state t)),
       (''delegations'', JArray (map (agent_delegation_json R) (ts_delegations t)))] @
     opt_field ''readError'' read_error_json (ts_read_error t)"

definition task_summary_json :: "'x runtime_ext_scheme \<Rightarrow> task_summary \<Rightarrow> json" where
  "task_summary_json R t = JObject (task_summary_fields R t)"

definition agent_comment_json :: "'x runtime_ext_scheme \<Rightarrow> agent_comment \<Rightarrow> json" where
  "agent_comment_json R c =
     JObject ([(''id'', uuid_json R (ao_id c)),
       (''taskId'', uuid_json R (ao_task_id c)),
       (''authorMembershipId'', uuid_json R (ao_author_membership_id c))] @
     opt_field ''authorAgentId'' (uuid_json R) (ao_author_agent_id c) @
     opt_field ''authorAgentHandle'' JString (ao_author_agent_handle c) @
     opt_field ''authorAgentDisplayName'' JString (ao_author_agent_display_name c) @
     [(''bodyMarkdown'', json_opt JString (ao_body_markdown c)),
       (''content'', json_opt rich_text_json (ao_content c)),
       (''mentions'', json_opt (\<lambda>xs. JArray (map JString xs)) (ao_mentions c)),
       (''attachments'', json_opt (\<lambda>xs. JArray (map (agent_attachment_json R) xs)) (ao_attachments c)),
       (''clientMeta'', json_opt (\<lambda>v. v) (ao_client_meta c)),
       (''createdAt'', datetime_json R (ao_created_at c)),
       (''updatedAt'', datetime_json R (ao_updated_at c))] @
     opt_field ''readError'' read_error_json (ao_read_error c))"

definition task_detail_json :: "'x runtime_ext_scheme \<Rightarrow> task_detail \<Rightarrow> json" where
  "task_detail_json R d =
     JObject (task_summary_fields R (tl_task d) @
     [(''comments'', JArray (map (agent_comment_json R) (tl_comments d)))])"

fun content_format_json :: "content_format \<Rightarrow> json" where
  "content_format_json FormatText = JString ''text''"
| "content_format_json FormatMarkdown = JString ''markdown''"

fun source_kind_json :: "source_kind \<Rightarrow> json" where
  "source_kind_json PlainText = JString ''plain_text''"
| "source_kind_json DocxRendered = JString ''docx_rendered''"

definition readable_attachment_json :: "'x runtime_ext_scheme \<Rightarrow> readable_attachment \<Rightarrow> json" where
  "readable_attachment_json R r =
     JObject ([(''attachment'', agent_attachment_json R (rr_attachment r)),
       (''text'', JString (rr_text r)),
       (''contentFormat'', content_format_json (rr_content_format r)),
       (''sourceKind'', source_kind_json (rr_source_kind r))])"

end
