(* ===== verification/Cli_Base.thy ===== *)
theory Cli_Base
  imports Cli_Json
begin

text \<open>The foundations of \<open>cli/src/main.rs\<close>: its errors, what it writes to the two output streams, and how it
  reads input, passwords and files.  The state is the client's, with what has been written; which writes
  fail, and how much of them is written then, is a parameter.\<close>

section \<open>State\<close>

datatype stream = Stdout | Stderr

record stream_failure =
  sf_broken_pipe :: bool
  sf_text :: string
  sf_written :: nat

text \<open>A path as the user gives it is text; the operating system resolves it.  The command-line parser's error
  carries its rendered text.\<close>
record clap_error =
  ce_use_stderr :: bool
  ce_exit_code :: int
  ce_text :: string

record cli_ext = runtime_ext +
  stream_fails :: "stream \<Rightarrow> nat \<Rightarrow> stream_failure option"
  flush_fails :: "nat \<Rightarrow> stream_failure option"
  json_pretty :: "json \<Rightarrow> string"
  resolve_path :: "string \<Rightarrow> path"
  file_utf8 :: "bytes \<Rightarrow> (string, string) rust_result"
  missing_file_error :: string
  read_line :: "nat \<Rightarrow> (string, string) rust_result"
  os_random :: "nat \<Rightarrow> (bytes, string) rust_result"
  datetime_format :: "string \<Rightarrow> datetime \<Rightarrow> string"
  rfc3339 :: "datetime \<Rightarrow> string"
  de_task_create :: "string \<Rightarrow> (string \<times> string option, string) rust_result"
  de_task_update :: "string \<Rightarrow> (string option \<times> string option, string) rust_result"
  de_comment_input :: "string \<Rightarrow> (string, string) rust_result"
  de_delete_input :: "string \<Rightarrow> (delete_input, string) rust_result"

record shell =
  sh_world :: world
  sh_out :: string
  sh_err :: string
  sh_writes :: nat

section \<open>Errors\<close>

record warning_result =
  wr_code :: string
  wr_message :: string

datatype cli_error =
    BrokenPipe
  | Public public_error
  | PublicWithWarnings public_error "warning_result list"

type_synonym 'a cli = "(shell, 'a, cli_error) rio"

fun public_error_of :: "cli_error \<Rightarrow> public_error option" where
  "public_error_of BrokenPipe = None"
| "public_error_of (Public e) = Some e"
| "public_error_of (PublicWithWarnings e _) = Some e"

definition cli_code :: "cli_error \<Rightarrow> string" where
  "cli_code e =
     (case public_error_of e of
        None \<Rightarrow> ''broken_pipe''
      | Some (Validation _) \<Rightarrow> ''validation''
      | Some (Crypto _) \<Rightarrow> ''crypto''
      | Some (Unexpected _) \<Rightarrow> ''unexpected'')"

fun cli_warnings :: "cli_error \<Rightarrow> warning_result list" where
  "cli_warnings (PublicWithWarnings _ ws) = ws"
| "cli_warnings _ = []"

definition with_warnings :: "public_error \<Rightarrow> warning_result list \<Rightarrow> cli_error" where
  "with_warnings e ws = PublicWithWarnings e ws"

definition cli_display :: "cli_error \<Rightarrow> string" where
  "cli_display e = (case public_error_of e of Some p \<Rightarrow> public_display p | None \<Rightarrow> ''broken pipe'')"

record error_result =
  er_code :: string
  er_message :: string

definition cli_error_result :: "cli_error \<Rightarrow> error_result" where
  "cli_error_result e = \<lparr> er_code = cli_code e, er_message = cli_display e \<rparr>"

text \<open>The conversion of a \<open>PublicError\<close>, which \<open>?\<close> applies.\<close>
definition public_act :: "'a act \<Rightarrow> 'a cli" where
  "public_act m = (\<lambda>s. case m (sh_world s) of (r, w) \<Rightarrow> (map_err Public r, s\<lparr>sh_world := w\<rparr>))"

definition public_return :: "'a public_result \<Rightarrow> 'a cli" where
  "public_return r = io_return (map_err Public r)"

section \<open>Output\<close>

definition write_out :: "stream \<Rightarrow> string \<Rightarrow> shell \<Rightarrow> shell" where
  "write_out st text s =
     (case st of Stdout \<Rightarrow> s\<lparr>sh_out := sh_out s @ text\<rparr> | Stderr \<Rightarrow> s\<lparr>sh_err := sh_err s @ text\<rparr>)"

definition map_stream_error :: "stream_failure \<Rightarrow> string \<Rightarrow> string \<Rightarrow> bool \<Rightarrow> cli_error" where
  "map_stream_error f action stream_name broken_pipe_is_success =
     (if broken_pipe_is_success \<and> sf_broken_pipe f then BrokenPipe
      else Public (Unexpected (''failed to '' @ action @ '' '' @ stream_name @ '': '' @ sf_text f)))"

definition write_to_stream :: "'x cli_ext_scheme \<Rightarrow> stream \<Rightarrow> string \<Rightarrow> string \<Rightarrow> string \<Rightarrow> bool \<Rightarrow> unit cli" where
  "write_to_stream C st text action stream_name broken_pipe_is_success = (\<lambda>s.
     let s' = s\<lparr>sh_writes := Suc (sh_writes s)\<rparr> in
     case stream_fails C st (sh_writes s) of
       None \<Rightarrow> (Ok (), write_out st text s')
     | Some f \<Rightarrow> (Err (map_stream_error f action stream_name broken_pipe_is_success),
         write_out st (take (sf_written f) text) s'))"

abbreviation newline :: string where "newline \<equiv> [CHR 0x0A]"

definition write_line_to_stream :: "'x cli_ext_scheme \<Rightarrow> stream \<Rightarrow> string \<Rightarrow> string \<Rightarrow> string \<Rightarrow> bool \<Rightarrow> unit cli" where
  "write_line_to_stream C st text action stream_name broken_pipe_is_success =
     io_then (write_to_stream C st text action stream_name broken_pipe_is_success) (\<lambda>_.
     write_to_stream C st newline action stream_name broken_pipe_is_success)"

definition print_stdout :: "'x cli_ext_scheme \<Rightarrow> string \<Rightarrow> unit cli" where
  "print_stdout C text = write_to_stream C Stdout text ''print to'' ''stdout'' True"

definition println_stdout :: "'x cli_ext_scheme \<Rightarrow> string \<Rightarrow> unit cli" where
  "println_stdout C text = write_line_to_stream C Stdout text ''print to'' ''stdout'' True"

definition write_stderr_line :: "'x cli_ext_scheme \<Rightarrow> string \<Rightarrow> unit cli" where
  "write_stderr_line C text = write_line_to_stream C Stderr text ''print to'' ''stderr'' False"

definition flush_stdout :: "'x cli_ext_scheme \<Rightarrow> unit cli" where
  "flush_stdout C = (\<lambda>s. case flush_fails C (sh_writes s) of
       None \<Rightarrow> (Ok (), s) | Some f \<Rightarrow> (Err (map_stream_error f ''flush'' ''stdout'' True), s))"

text \<open>Lines printed one after the other.\<close>
fun print_lines :: "'x cli_ext_scheme \<Rightarrow> string list \<Rightarrow> unit cli" where
  "print_lines C [] = io_return (Ok ())"
| "print_lines C (l # ls) = io_then (println_stdout C l) (\<lambda>_. print_lines C ls)"

text \<open>Serializing the values printed cannot fail.\<close>
definition print_pretty_json :: "'x cli_ext_scheme \<Rightarrow> json \<Rightarrow> unit cli" where
  "print_pretty_json C v = println_stdout C (json_pretty C v)"

definition print_pretty_json_stderr :: "'x cli_ext_scheme \<Rightarrow> json \<Rightarrow> unit cli" where
  "print_pretty_json_stderr C v = write_stderr_line C (json_pretty C v)"

datatype output_format = Table | Json

definition output_format_from_raw_args :: "string list \<Rightarrow> output_format" where
  "output_format_from_raw_args args = (if ''--json'' \<in> set args then Json else Table)"

section \<open>Warnings and errors\<close>

definition warning_result_of :: "string \<Rightarrow> string \<Rightarrow> warning_result" where
  "warning_result_of code message = \<lparr> wr_code = code, wr_message = message \<rparr>"

definition warning_json :: "warning_result \<Rightarrow> json" where
  "warning_json w = JObject [(''code'', JString (wr_code w)), (''message'', JString (wr_message w))]"

definition error_result_json :: "error_result \<Rightarrow> json" where
  "error_result_json e = JObject [(''code'', JString (er_code e)), (''message'', JString (er_message e))]"

definition stderr_envelope_json :: "warning_result list \<Rightarrow> error_result option \<Rightarrow> json" where
  "stderr_envelope_json warnings error =
     JObject ((if warnings = [] then [] else [(''warnings'', JArray (map warning_json warnings))]) @
       opt_field ''error'' error_result_json error)"

fun warning_lines :: "'x cli_ext_scheme \<Rightarrow> warning_result list \<Rightarrow> unit cli" where
  "warning_lines C [] = io_return (Ok ())"
| "warning_lines C (w # ws) =
     io_then (write_line_to_stream C Stderr (''warning: '' @ wr_message w) ''print to'' ''stderr'' False)
       (\<lambda>_. warning_lines C ws)"

definition write_warnings :: "'x cli_ext_scheme \<Rightarrow> output_format \<Rightarrow> warning_result list \<Rightarrow> unit cli" where
  "write_warnings C format warnings =
     (if warnings = [] then io_return (Ok ())
      else case format of
        Table \<Rightarrow> warning_lines C warnings
      | Json \<Rightarrow> write_line_to_stream C Stderr (json_pretty C (stderr_envelope_json warnings None))
          ''print to'' ''stderr'' False)"

definition print_warnings :: "'x cli_ext_scheme \<Rightarrow> output_format \<Rightarrow> warning_result list \<Rightarrow> unit cli" where
  "print_warnings C format warnings = write_warnings C format warnings"

text \<open>The result of printing is dropped; a panic is not.\<close>
definition emit_warnings_best_effort :: "'x cli_ext_scheme \<Rightarrow> output_format \<Rightarrow> warning_result list \<Rightarrow> unit cli" where
  "emit_warnings_best_effort C format warnings = (\<lambda>s. case print_warnings C format warnings s of
       (Abort, s) \<Rightarrow> (Abort, s) | (_, s) \<Rightarrow> (Ok (), s))"

definition print_json_stderr :: "'x cli_ext_scheme \<Rightarrow> warning_result list \<Rightarrow> error_result option \<Rightarrow> unit cli" where
  "print_json_stderr C warnings error = print_pretty_json_stderr C (stderr_envelope_json warnings error)"

definition print_json_error :: "'x cli_ext_scheme \<Rightarrow> string \<Rightarrow> string \<Rightarrow> unit cli" where
  "print_json_error C code message = print_json_stderr C [] (Some \<lparr> er_code = code, er_message = message \<rparr>)"

definition print_clap_error :: "'x cli_ext_scheme \<Rightarrow> clap_error \<Rightarrow> unit cli" where
  "print_clap_error C e = print_json_error C ''validation'' (trim_end (ce_text e))"

definition print_cli_error :: "'x cli_ext_scheme \<Rightarrow> cli_error \<Rightarrow> output_format \<Rightarrow> unit cli" where
  "print_cli_error C e format =
     (case format of
        Table \<Rightarrow> io_then (print_warnings C format (cli_warnings e)) (\<lambda>_. write_stderr_line C (''error: '' @ cli_display e))
      | Json \<Rightarrow> print_json_stderr C (cli_warnings e) (Some (cli_error_result e)))"

definition print_simple_result :: "'x cli_ext_scheme \<Rightarrow> output_format \<Rightarrow> json \<Rightarrow> string \<Rightarrow> unit cli" where
  "print_simple_result C format payload table_message =
     (case format of Json \<Rightarrow> print_pretty_json C payload | Table \<Rightarrow> println_stdout C table_message)"

section \<open>Input\<close>

definition require_password_stdin_for_json_command :: "output_format \<Rightarrow> bool \<Rightarrow> string \<Rightarrow> unit cli" where
  "require_password_stdin_for_json_command format password_stdin command_name =
     public_return (if format = Json \<and> \<not> password_stdin
       then Err (Validation (''--json '' @ command_name @ '' requires --password-stdin'')) else Ok ())"

datatype json_input_source = InputFile string | InputStdin

fun source_label :: "json_input_source \<Rightarrow> string" where
  "source_label (InputFile _) = ''file''"
| "source_label InputStdin = ''stdin''"

definition select_json_input_source :: "string option \<Rightarrow> bool \<Rightarrow> bool \<Rightarrow> json_input_source option public_result" where
  "select_json_input_source input_file input_stdin password_stdin =
     (if input_file \<noteq> None \<and> input_stdin then
        Err (Validation ''use only one of --input-file or --input-stdin'')
      else if input_stdin \<and> password_stdin then
        Err (Validation ''--input-stdin cannot be combined with --password-stdin'')
      else case (input_file, input_stdin) of
        (Some path, False) \<Rightarrow> Ok (Some (InputFile path))
      | (None, True) \<Rightarrow> Ok (Some InputStdin)
      | (None, False) \<Rightarrow> Ok None
      | (Some _, True) \<Rightarrow> Abort)"

text \<open>\<open>fs::read_to_string\<close>.\<close>
definition read_to_string :: "'x cli_ext_scheme \<Rightarrow> string \<Rightarrow> (string \<Rightarrow> string) \<Rightarrow> (device, string, public_error) rio" where
  "read_to_string C path message = (\<lambda>d.
     let p = resolve_path C path; failed = (\<lambda>e. Unexpected (message e)) in
     (case dv_files d p of
        None \<Rightarrow> Err (failed (missing_file_error C))
      | Some f \<Rightarrow> (case io_fails C (ReadFile p) of
          Some e \<Rightarrow> Err (failed e) | None \<Rightarrow> map_err failed (file_utf8 C (fl_bytes f))), d))"

definition read_json_input :: "'x cli_ext_scheme \<Rightarrow> json_input_source \<Rightarrow> string act" where
  "read_json_input C source =
     (case source of
        InputFile path \<Rightarrow> on_device (read_to_string C path (\<lambda>e. ''failed to read input file '' @ path @ '': '' @ e))
      | InputStdin \<Rightarrow> reading (\<lambda>n. map_err (\<lambda>e. Unexpected (''failed to read input from stdin: '' @ e)) (read_stdin C n)))"

definition parse_json_input :: "(string \<Rightarrow> ('a, string) rust_result) \<Rightarrow> string \<Rightarrow> string \<Rightarrow> 'a public_result" where
  "parse_json_input de contents source =
     map_err (\<lambda>e. Validation (''invalid JSON input from '' @ source @ '': '' @ e)) (de contents)"

definition load_structured_input ::
  "'x cli_ext_scheme \<Rightarrow> (string \<Rightarrow> ('a, string) rust_result) \<Rightarrow> string option \<Rightarrow> bool \<Rightarrow> bool \<Rightarrow> 'a option act" where
  "load_structured_input C de input_file input_stdin password_stdin =
     io_then (io_return (select_json_input_source input_file input_stdin password_stdin)) (\<lambda>source. case source of
       None \<Rightarrow> io_return (Ok None)
     | Some source \<Rightarrow>
         io_then (read_json_input C source) (\<lambda>contents.
         io_return (map_ok Some (parse_json_input de contents (source_label source)))))"

definition resolve_task_create_input ::
  "'x cli_ext_scheme \<Rightarrow> string option \<Rightarrow> string option \<Rightarrow> string option \<Rightarrow> bool \<Rightarrow> bool \<Rightarrow> (string \<times> string option) act"
  where
  "resolve_task_create_input C title body input_file input_stdin password_stdin =
     io_then (load_structured_input C (de_task_create C) input_file input_stdin password_stdin) (\<lambda>found. case found of
       Some input \<Rightarrow> io_return (Ok input)
     | None \<Rightarrow>
         io_then (io_return (ok_or (Validation ''title is required'') title)) (\<lambda>title.
         io_return (Ok (title, body))))"

definition resolve_task_update_input ::
  "'x cli_ext_scheme \<Rightarrow> string option \<Rightarrow> string option \<Rightarrow> string option \<Rightarrow> bool \<Rightarrow> bool
   \<Rightarrow> (string option \<times> string option) act" where
  "resolve_task_update_input C title body input_file input_stdin password_stdin =
     io_then (load_structured_input C (de_task_update C) input_file input_stdin password_stdin) (\<lambda>found. case found of
       Some input \<Rightarrow> io_return (Ok input)
     | None \<Rightarrow> io_return (Ok (title, body)))"

definition resolve_comment_input ::
  "'x cli_ext_scheme \<Rightarrow> string option \<Rightarrow> string option \<Rightarrow> bool \<Rightarrow> bool \<Rightarrow> string act" where
  "resolve_comment_input C body input_file input_stdin password_stdin =
     io_then (load_structured_input C (de_comment_input C) input_file input_stdin password_stdin) (\<lambda>found. case found of
       Some input \<Rightarrow> io_return (Ok input)
     | None \<Rightarrow> io_return (ok_or (Validation ''comment body is required'') body))"

text \<open>\<open>Default\<close> of both inputs has no patch.\<close>
definition resolve_delete_input :: "'x cli_ext_scheme \<Rightarrow> string option \<Rightarrow> bool \<Rightarrow> delete_input act" where
  "resolve_delete_input C input_file input_stdin =
     io_map (\<lambda>input. case input of Some i \<Rightarrow> i | None \<Rightarrow> \<lparr> di_audit_patch = None \<rparr>)
       (load_structured_input C (de_delete_input C) input_file input_stdin False)"

definition cli_prompt :: "'x cli_ext_scheme \<Rightarrow> string \<Rightarrow> string cli" where
  "cli_prompt C label =
     io_then (print_stdout C label) (\<lambda>_.
     io_then (flush_stdout C) (\<lambda>_.
     io_map trim (public_act (reading (\<lambda>n. map_err (\<lambda>e. Unexpected (''failed to read input: '' @ e)) (read_line C n))))))"

definition cli_read_password_from_stdin :: "'x cli_ext_scheme \<Rightarrow> string act" where
  "cli_read_password_from_stdin C = reading (\<lambda>n.
     map_ok trim (map_err (\<lambda>e. Unexpected (''failed to read password from stdin: '' @ e)) (read_stdin C n)))"

definition cli_read_required_password :: "'x cli_ext_scheme \<Rightarrow> bool \<Rightarrow> string option \<Rightarrow> string cli" where
  "cli_read_required_password C password_stdin prompt_message =
     io_then
       (if password_stdin then public_act (cli_read_password_from_stdin C)
        else
          io_then (case prompt_message of Some m \<Rightarrow> println_stdout C m | None \<Rightarrow> io_return (Ok ())) (\<lambda>_.
          public_act (reading (\<lambda>n. map_err (\<lambda>e. Unexpected (''failed to read password: '' @ e)) (read_prompt C n)))))
       (\<lambda>password.
     public_return (if password = [] then Err (Validation ''password is required'') else Ok password))"

section \<open>Attachment files\<close>

definition sanitize_attachment_file_name_char :: "char \<Rightarrow> char" where
  "sanitize_attachment_file_name_char c = (if c = CHR ''/'' \<or> c = CHR 0x5C \<or> c = CHR 0x00 then CHR ''_'' else c)"

definition sanitize_attachment_file_name :: "string \<Rightarrow> string" where
  "sanitize_attachment_file_name file_name =
     (let candidate = (case map_option trim (path_file_name file_name) of
          Some v \<Rightarrow> if v \<noteq> [] \<and> v \<noteq> ''.'' \<and> v \<noteq> ''..'' then v else ''attachment.bin''
        | None \<Rightarrow> ''attachment.bin'') in
      map sanitize_attachment_file_name_char candidate)"

definition resolve_attachment_output_path :: "string \<Rightarrow> string option \<Rightarrow> string" where
  "resolve_attachment_output_path file_name output =
     (case output of Some p \<Rightarrow> p | None \<Rightarrow> sanitize_attachment_file_name file_name)"

text \<open>\<open>Path::parent\<close>: the text before the last component, without the separators and single dots between;
  a leading dot and the root are components.\<close>
fun drop_last_dots :: "string list \<Rightarrow> string list" where
  "drop_last_dots [] = []"
| "drop_last_dots (p # ps) =
     (case drop_last_dots ps of [] \<Rightarrow> if p = [] \<or> p = ''.'' then [] else [p] | qs \<Rightarrow> p # qs)"

definition path_parent :: "string \<Rightarrow> string option" where
  "path_parent s =
     (if s = [] then None
      else case split_char CHR ''/'' s of
        [] \<Rightarrow> None
      | first # rest \<Rightarrow>
          (case drop_last_dots rest of
             [] \<Rightarrow> if first = [] then None else Some []
           | qs \<Rightarrow>
               (case drop_last_dots (butlast qs) of
                  [] \<Rightarrow> Some (if first = [] then ''/'' else first)
                | ds \<Rightarrow> Some (join_str ''/'' (first # ds)))))"

definition make_dirs :: "path \<Rightarrow> device \<Rightarrow> device" where
  "make_dirs p d = d\<lparr>dv_dirs := (\<lambda>q. if dv_dirs d q = None \<and> (\<exists>i \<le> length p. q = take i p) then Some 493 else dv_dirs d q)\<rparr>"

text \<open>Opening with \<open>create_new\<close> fails when something is there; with \<open>create\<close> and \<open>truncate\<close> it keeps the mode.\<close>
definition open_attachment_file :: "'x cli_ext_scheme \<Rightarrow> string \<Rightarrow> bool \<Rightarrow> (device, nat, public_error) rio" where
  "open_attachment_file C path force = (\<lambda>d.
     let p = resolve_path C path;
         failed = (\<lambda>e. Unexpected (''failed to open output file '' @ path @ '': '' @ e)) in
     if \<not> force \<and> (file_exists p d \<or> dv_dirs d p \<noteq> None) then
       (Err (Validation (''output file '' @ path @ '' already exists; use --force to overwrite'')), d)
     else if dv_dirs d p \<noteq> None then (Err (failed ''Is a directory (os error 21)''), d)
     else case io_fails C (if force then OpenFile p else CreateFile p) of
       Some e \<Rightarrow> (Err (failed e), d)
     | None \<Rightarrow>
         let mode = (case dv_files d p of Some f \<Rightarrow> fl_mode f | None \<Rightarrow> 420) in
         (Ok mode, put_file p \<lparr> fl_bytes = [], fl_mode = mode \<rparr> d))"

definition write_attachment_file :: "'x cli_ext_scheme \<Rightarrow> string \<Rightarrow> bytes \<Rightarrow> bool \<Rightarrow> (device, unit, public_error) rio" where
  "write_attachment_file C path contents force =
     (let p = resolve_path C path in
      io_then (case path_parent path of
          Some parent \<Rightarrow>
            if parent = [] then io_return (Ok ())
            else io_do C (CreateDir (resolve_path C parent))
              (\<lambda>e. ''failed to create output directory '' @ parent @ '': '' @ e) (make_dirs (resolve_path C parent))
        | None \<Rightarrow> io_return (Ok ())) (\<lambda>_.
      io_then (open_attachment_file C path force) (\<lambda>mode d.
      case io_fails C (WriteFile p) of
        Some e \<Rightarrow> (Err (Unexpected (''failed to write output file '' @ path @ '': '' @ e)),
          put_file p \<lparr> fl_bytes = partial_write C contents, fl_mode = mode \<rparr> d)
      | None \<Rightarrow> (Ok (), put_file p \<lparr> fl_bytes = contents, fl_mode = mode \<rparr> d))))"

end
