(* ===== verification/Cli_Output.thy ===== *)
theory Cli_Output
  imports Cli_Base
begin

text \<open>\<open>cli/src/output.rs\<close>: what each command prints, as JSON or as a table.\<close>

section \<open>Text\<close>

text \<open>A \<open>char\<close> of Rust is a UTF-8 sequence: the bytes that do not start one continue the one before.\<close>
definition is_continuation :: "char \<Rightarrow> bool" where
  "is_continuation c \<longleftrightarrow> (let n = of_char c :: nat in 128 \<le> n \<and> n < 192)"

definition chars_count :: "string \<Rightarrow> nat" where
  "chars_count s = length (filter (\<lambda>c. \<not> is_continuation c) s)"

fun take_chars :: "nat \<Rightarrow> string \<Rightarrow> string" where
  "take_chars n [] = []"
| "take_chars n (c # s) =
     (if is_continuation c then c # take_chars n s
      else case n of 0 \<Rightarrow> [] | Suc m \<Rightarrow> c # take_chars m s)"

definition truncate_text :: "string \<Rightarrow> nat \<Rightarrow> string" where
  "truncate_text v width = (if width < chars_count v then take_chars width v else v)"

text \<open>\<open>{:<width}\<close>.\<close>
definition pad_right :: "nat \<Rightarrow> string \<Rightarrow> string" where
  "pad_right width s = s @ replicate (width - chars_count s) CHR '' ''"

definition rule_line :: "char \<Rightarrow> nat \<Rightarrow> string" where
  "rule_line c n = replicate n c"

definition text_or :: "string \<Rightarrow> string option \<Rightarrow> string" where
  "text_or fallback v = (case v of Some t \<Rightarrow> t | None \<Rightarrow> fallback)"

text \<open>Two spaces between columns.\<close>
definition columns :: "string list \<Rightarrow> string" where
  "columns cs = join_str ''  '' cs"

definition total_line :: "nat \<Rightarrow> string \<Rightarrow> string" where
  "total_line n what = newline @ ''Total: '' @ show_nat n @ '' '' @ what"

definition print_formatted :: "'x cli_ext_scheme \<Rightarrow> output_format \<Rightarrow> json \<Rightarrow> string list \<Rightarrow> unit cli" where
  "print_formatted C format payload table =
     (case format of Json \<Rightarrow> print_pretty_json C payload | Table \<Rightarrow> print_lines C table)"

section \<open>Attachments, comments, users\<close>

definition print_readable_attachment :: "'x cli_ext_scheme \<Rightarrow> readable_attachment \<Rightarrow> output_format \<Rightarrow> unit cli" where
  "print_readable_attachment C attachment format =
     (case format of
        Json \<Rightarrow> print_pretty_json C (readable_attachment_json C attachment)
      | Table \<Rightarrow>
          io_then (print_stdout C (rr_text attachment)) (\<lambda>_.
          if ends_with (rr_text attachment) newline then io_return (Ok ()) else println_stdout C []))"

definition print_comment_json :: "'x cli_ext_scheme \<Rightarrow> agent_comment \<Rightarrow> unit cli" where
  "print_comment_json C c = print_pretty_json C (agent_comment_json C c)"

definition comment_text :: "agent_comment \<Rightarrow> string" where
  "comment_text c = text_or ''<unreadable comment>'' (ao_body_markdown c)"

definition comment_row :: "'x cli_ext_scheme \<Rightarrow> agent_comment \<Rightarrow> string" where
  "comment_row C c =
     columns [pad_right 36 (uuid_display C (ao_id c)),
       pad_right 16 (datetime_format C ''%Y-%m-%d %H:%M'' (ao_updated_at c)), truncate_text (comment_text c) 40]"

definition print_comments :: "'x cli_ext_scheme \<Rightarrow> agent_comment list \<Rightarrow> output_format \<Rightarrow> unit cli" where
  "print_comments C comments format =
     print_formatted C format (JArray (map (agent_comment_json C) comments))
       ([columns [pad_right 36 ''ID'', pad_right 16 ''Updated'', ''Comment''], rule_line CHR ''-'' 96] @
        map (comment_row C) comments @ [total_line (length comments) ''comment(s)''])"

definition print_delete_result :: "'x cli_ext_scheme \<Rightarrow> output_format \<Rightarrow> json \<Rightarrow> string \<Rightarrow> unit cli" where
  "print_delete_result C format payload table_message = print_formatted C format payload [table_message]"

definition print_user :: "'x cli_ext_scheme \<Rightarrow> current_user_response \<Rightarrow> output_format \<Rightarrow> unit cli" where
  "print_user C u format =
     print_formatted C format (current_user_json C u)
       [''User Information'', rule_line CHR ''-'' 40, ''ID:          '' @ uuid_display C (cu_id u),
        ''Email:       '' @ cu_email u, ''Name:        '' @ cu_name u, ''Timezone:    '' @ cu_timezone u,
        ''Theme:       '' @ cu_theme_preference u,
        ''Verified:    '' @ (if cu_email_verified u then ''Yes'' else ''No'')]"

section \<open>Work lists\<close>

text \<open>A blank line between the blocks of a verbose listing.\<close>
fun blocks :: "string list list \<Rightarrow> string list" where
  "blocks [] = []"
| "blocks [b] = b"
| "blocks (b # bs) = b @ [] # blocks bs"

definition work_list_block :: "'x cli_ext_scheme \<Rightarrow> work_list_summary \<Rightarrow> string list" where
  "work_list_block C l =
     [''Work List: '' @ uuid_display C (ws_id l), rule_line CHR ''-'' 50,
      ''  Title:         '' @ text_or ''-'' (ws_title l), ''  Workspace:     '' @ uuid_display C (ws_workspace_id l),
      ''  Owner:         '' @ uuid_display C (ws_owner_user_id l), ''  Timezone:      '' @ ws_timezone l,
      ''  Sections:      '' @ show_nat (length (ws_section_snapshots l)),
      ''  Your role:     '' @ am_role (ws_membership l), ''  Your status:   '' @ am_status (ws_membership l)] @
     (case ws_read_error l of Some e \<Rightarrow> [''  Read error:    '' @ rd_message e] | None \<Rightarrow> []) @
     [''  Updated:       '' @ datetime_format C ''%Y-%m-%d %H:%M:%S UTC'' (ws_updated_at l)]"

definition work_list_row :: "'x cli_ext_scheme \<Rightarrow> work_list_summary \<Rightarrow> string" where
  "work_list_row C l =
     columns [pad_right 36 (uuid_display C (ws_id l)), pad_right 24 (truncate_text (text_or ''-'' (ws_title l)) 24),
       pad_right 10 (am_role (ws_membership l)), datetime_format C ''%Y-%m-%d %H:%M'' (ws_updated_at l)]"

definition print_work_lists :: "'x cli_ext_scheme \<Rightarrow> work_list_summary list \<Rightarrow> output_format \<Rightarrow> bool \<Rightarrow> unit cli" where
  "print_work_lists C ls format verbose =
     print_formatted C format (JArray (map (work_list_summary_json C) ls))
       ((if verbose then blocks (map (work_list_block C) ls)
         else [columns [pad_right 36 ''ID'', pad_right 24 ''Title'', pad_right 10 ''Role'', ''Updated''],
           rule_line CHR ''-'' 92] @ map (work_list_row C) ls) @
        [total_line (length ls) ''work list(s)''])"

definition print_work_list_detail :: "'x cli_ext_scheme \<Rightarrow> work_list_detail \<Rightarrow> output_format \<Rightarrow> unit cli" where
  "print_work_list_detail C d format =
     (let l = wt_work_list d in
      print_formatted C format (work_list_detail_json C d)
        ([''Work List'', rule_line CHR ''='' 60, ''ID:          '' @ uuid_display C (ws_id l),
          ''Title:       '' @ text_or ''-'' (ws_title l), ''Workspace:   '' @ uuid_display C (ws_workspace_id l),
          ''Owner:       '' @ uuid_display C (ws_owner_user_id l), ''Timezone:    '' @ ws_timezone l,
          ''Members:     '' @ show_nat (length (wt_members d)), ''Your role:   '' @ am_role (ws_membership l),
          ''Your status: '' @ am_status (ws_membership l)] @
         (case ws_description l of Some t \<Rightarrow> [''Description: '' @ t] | None \<Rightarrow> []) @
         (case ws_read_error l of Some e \<Rightarrow> [''Read error:  '' @ rd_message e] | None \<Rightarrow> [])))"

section \<open>Tasks\<close>

definition priority_text :: "int option \<Rightarrow> string" where
  "priority_text p = (case p of Some i \<Rightarrow> show_int i | None \<Rightarrow> [])"

definition due_text :: "'x cli_ext_scheme \<Rightarrow> datetime option \<Rightarrow> string" where
  "due_text C due = (case due of Some t \<Rightarrow> datetime_format C ''%Y-%m-%d'' t | None \<Rightarrow> ''-'')"

definition status_text :: "bool \<Rightarrow> datetime option \<Rightarrow> string" where
  "status_text completed archived_at =
     (if completed then ''Done'' else if archived_at \<noteq> None then ''Archived'' else ''Active'')"

definition task_row :: "'x cli_ext_scheme \<Rightarrow> task_summary \<Rightarrow> string" where
  "task_row C t =
     (let m = ts_metadata t in
      columns [pad_right 36 (uuid_display C (tm_id m)), pad_right 40 (truncate_text (text_or ''-'' (ts_title t)) 40),
        pad_right 3 (priority_text (tm_priority m)), pad_right 10 (due_text C (tm_due_at m)),
        status_text (tm_is_completed m) (tm_archived_at m)])"

definition print_tasks :: "'x cli_ext_scheme \<Rightarrow> task_summary list \<Rightarrow> output_format \<Rightarrow> unit cli" where
  "print_tasks C tasks format =
     print_formatted C format (JArray (map (task_summary_json C) tasks))
       ([columns [pad_right 36 ''ID'', pad_right 40 ''Title'', pad_right 3 ''Pri'', pad_right 10 ''Due'', ''Status''],
         rule_line CHR ''-'' 108] @ map (task_row C) tasks @ [total_line (length tasks) ''task(s)''])"

definition attachment_row :: "'x cli_ext_scheme \<Rightarrow> agent_attachment \<Rightarrow> string" where
  "attachment_row C a =
     columns [pad_right 36 (uuid_display C (aa_id a)), pad_right 24 (truncate_text (aa_file_name a) 24),
       aa_content_type a @ '' / '' @ show_nat (aa_size_bytes a) @ '' B'']"

definition task_detail_lines :: "'x cli_ext_scheme \<Rightarrow> task_detail \<Rightarrow> string list" where
  "task_detail_lines C d =
     (let t = tl_task d; m = ts_metadata t in
      [''Task'', rule_line CHR ''='' 60, ''ID:          '' @ uuid_display C (tm_id m),
       ''Title:       '' @ text_or ''-'' (ts_title t), ''Work List:   '' @ uuid_display C (tm_work_list_id m)] @
      (case tm_work_list_title m of Some w \<Rightarrow> [''List Title:  '' @ w] | None \<Rightarrow> []) @
      [''Status:      '' @ (if tm_is_completed m then ''Done'' else ''Active'')] @
      (case ts_body_markdown t of Some b \<Rightarrow> [[], ''Body'', rule_line CHR ''-'' 60, b] | None \<Rightarrow> []) @
      (case ts_read_error t of Some e \<Rightarrow> [[], ''Read error: '' @ rd_message e] | None \<Rightarrow> []) @
      (case ts_attachments t of
         None \<Rightarrow> []
       | Some as \<Rightarrow> if as = [] then []
           else [[], ''Attachments'', rule_line CHR ''-'' 60,
             columns [pad_right 36 ''ID'', pad_right 24 ''File'', ''Type / Size''], rule_line CHR ''-'' 96] @
             map (attachment_row C) as) @
      (if tl_comments d = [] then []
       else [[], ''Comments'', rule_line CHR ''-'' 60] @ map (\<lambda>c. ''- '' @ comment_text c) (tl_comments d)))"

definition print_task_detail :: "'x cli_ext_scheme \<Rightarrow> task_detail \<Rightarrow> output_format \<Rightarrow> unit cli" where
  "print_task_detail C d format = print_formatted C format (task_detail_json C d) (task_detail_lines C d)"

definition print_stats :: "'x cli_ext_scheme \<Rightarrow> dashboard_stats_response \<Rightarrow> output_format \<Rightarrow> unit cli" where
  "print_stats C s format =
     print_formatted C format (dashboard_stats_json s)
       [''Dashboard Statistics'', rule_line CHR ''-'' 30, ''Overdue:        '' @ show_int (ds_tasks_overdue s),
        ''Due today:      '' @ show_int (ds_tasks_due_today s), ''Due this week:  '' @ show_int (ds_tasks_due_this_week s),
        ''Completed:      '' @ show_int (ds_completed s)]"

section \<open>Answers as they come\<close>

definition raw_work_list_block :: "'x cli_ext_scheme \<Rightarrow> work_list_response \<Rightarrow> string list" where
  "raw_work_list_block C l =
     [''Work List: '' @ uuid_display C (wl_id l), rule_line CHR ''-'' 50,
      ''  Workspace:     '' @ uuid_display C (wl_workspace_id l), ''  Owner:         '' @ uuid_display C (wl_owner_user_id l),
      ''  Timezone:      '' @ wl_timezone l, ''  Sections:      '' @ show_nat (length (wl_section_snapshots l)),
      ''  Your role:     '' @ ms_role (wl_membership l), ''  Your status:   '' @ ms_status (wl_membership l)]"

definition raw_work_list_row :: "'x cli_ext_scheme \<Rightarrow> work_list_response \<Rightarrow> string" where
  "raw_work_list_row C l =
     columns [pad_right 36 (uuid_display C (wl_id l)), pad_right 10 (ms_role (wl_membership l)),
       pad_right 8 (show_nat (length (wl_section_snapshots l))), datetime_format C ''%Y-%m-%d %H:%M'' (wl_updated_at l)]"

definition print_raw_work_lists :: "'x cli_ext_scheme \<Rightarrow> work_list_response list \<Rightarrow> output_format \<Rightarrow> bool \<Rightarrow> unit cli" where
  "print_raw_work_lists C ls format verbose =
     print_formatted C format (JArray (map (work_list_response_json C) ls))
       ((if verbose then blocks (map (raw_work_list_block C) ls)
         else [columns [pad_right 36 ''ID'', pad_right 10 ''Role'', pad_right 8 ''Sections'', ''Updated''],
           rule_line CHR ''-'' 80] @ map (raw_work_list_row C) ls) @
        [total_line (length ls) ''work list(s)''])"

definition print_raw_work_list_detail :: "'x cli_ext_scheme \<Rightarrow> work_list_detail_response \<Rightarrow> output_format \<Rightarrow> unit cli" where
  "print_raw_work_list_detail C d format =
     print_formatted C format (work_list_detail_response_json C d)
       [''Raw Work List'', rule_line CHR ''='' 60, ''ID:          '' @ uuid_display C (wl_id (wd_work_list d)),
        ''Workspace:   '' @ uuid_display C (wl_workspace_id (wd_work_list d)),
        ''Owner:       '' @ uuid_display C (wl_owner_user_id (wd_work_list d)),
        ''Members:     '' @ show_nat (length (wd_members d))]"

definition raw_task_row :: "'x cli_ext_scheme \<Rightarrow> task_response \<Rightarrow> string" where
  "raw_task_row C t =
     columns [pad_right 36 (uuid_display C (tk_id t)), pad_right 3 (priority_text (tk_priority t)),
       pad_right 10 (due_text C (tk_due_at t)), pad_right 10 (status_text (tk_is_completed t) (tk_archived_at t)),
       show_int (tk_comment_count t)]"

definition print_raw_tasks :: "'x cli_ext_scheme \<Rightarrow> task_response list \<Rightarrow> output_format \<Rightarrow> unit cli" where
  "print_raw_tasks C tasks format =
     print_formatted C format (JArray (map (task_response_json C) tasks))
       ([columns [pad_right 36 ''ID'', pad_right 3 ''Pri'', pad_right 10 ''Due'', pad_right 10 ''Status'', ''Comments''],
         rule_line CHR ''-'' 80] @ map (raw_task_row C) tasks @ [total_line (length tasks) ''task(s)''])"

definition raw_my_task_row :: "'x cli_ext_scheme \<Rightarrow> my_task_response \<Rightarrow> string" where
  "raw_my_task_row C t =
     columns [pad_right 36 (uuid_display C (mk_id t)), pad_right 36 (uuid_display C (mk_work_list_id t)),
       pad_right 3 (priority_text (mk_priority t)), pad_right 10 (due_text C (mk_due_at t)),
       (if mk_is_completed t then ''Done'' else ''Active'')]"

definition print_raw_my_tasks :: "'x cli_ext_scheme \<Rightarrow> my_task_response list \<Rightarrow> output_format \<Rightarrow> unit cli" where
  "print_raw_my_tasks C tasks format =
     print_formatted C format (JArray (map (my_task_response_json C) tasks))
       ([columns [pad_right 36 ''Task ID'', pad_right 36 ''Work List ID'', pad_right 3 ''Pri'', pad_right 10 ''Due'',
           ''Status''], rule_line CHR ''-'' 100] @ map (raw_my_task_row C) tasks @ [total_line (length tasks) ''task(s)''])"

definition print_raw_task_detail :: "'x cli_ext_scheme \<Rightarrow> task_detail_response \<Rightarrow> output_format \<Rightarrow> unit cli" where
  "print_raw_task_detail C d format =
     print_formatted C format (task_detail_response_json C d)
       [''Raw Task'', rule_line CHR ''='' 60, ''ID:          '' @ uuid_display C (tk_id (td_task d)),
        ''Work List:   '' @ uuid_display C (tk_work_list_id (td_task d)),
        ''Comments:    '' @ show_nat (length (td_comments d))]"

end
