(* ===== verification/Cli_Auth.thy ===== *)
theory Cli_Auth
  imports Cli_Output
begin

text \<open>The commands of \<open>cli/src/main.rs\<close> on sessions: info, login, unlock, lock, keychain, logout and status.\<close>

section \<open>Results\<close>

record login_result =
  lr_logged_in :: bool
  lr_already_logged_in :: bool
  lr_email :: string
  lr_api_url :: string
  lr_credentials_path :: string

record unlock_result =
  ur_unlocked :: bool
  ur_mode :: string
  ur_ttl_seconds :: "u64 option"

record logout_result =
  lo_logged_out :: bool
  lo_api_url :: "string option"
  lo_reason :: "string option"

record persisted_bootstrap_status =
  pb_status :: string
  pb_message :: "string option"

record persisted_bootstrap_envelope =
  pe_persisted_bootstrap :: persisted_bootstrap_status

record unlock_daemon_status_result =
  uo_active :: bool
  uo_expires_at_unix :: "u64 option"

record api_url_mismatch =
  um_stored_api_url :: string
  um_current_api_url :: string

record logged_in_status =
  li_logged_in :: bool
  li_principal_type :: string
  li_api_url :: string
  li_email :: "string option"
  li_user_id :: "uuid option"
  li_agent_id :: "uuid option"
  li_owner_user_id :: "uuid option"
  li_handle :: "string option"
  li_display_name :: "string option"
  li_access_token_expires_at :: "string option"
  li_refresh_token_expires_at :: "string option"
  li_access_token_expires_display :: "string option"
  li_refresh_token_expires_display :: "string option"
  li_session_state :: string
  li_api_url_mismatch :: "api_url_mismatch option"
  li_unlock_daemon :: unlock_daemon_status_result
  li_persisted_bootstrap :: persisted_bootstrap_status

record logged_out_status =
  ls_logged_in :: bool
  ls_credentials_path :: string
  ls_unlock_daemon :: unlock_daemon_status_result
  ls_persisted_bootstrap :: persisted_bootstrap_status

datatype auth_status_result = LoggedIn logged_in_status | LoggedOut logged_out_status

definition login_result_json :: "login_result \<Rightarrow> json" where
  "login_result_json r =
     JObject [(''loggedIn'', JBool (lr_logged_in r)), (''alreadyLoggedIn'', JBool (lr_already_logged_in r)),
       (''email'', JString (lr_email r)), (''apiUrl'', JString (lr_api_url r)),
       (''credentialsPath'', JString (lr_credentials_path r))]"

definition unlock_result_json :: "unlock_result \<Rightarrow> json" where
  "unlock_result_json r =
     JObject ([(''unlocked'', JBool (ur_unlocked r)), (''mode'', JString (ur_mode r))] @
       opt_field ''ttlSeconds'' (\<lambda>n. json_nat (unat n)) (ur_ttl_seconds r))"

definition logout_result_json :: "logout_result \<Rightarrow> json" where
  "logout_result_json r =
     JObject ([(''loggedOut'', JBool (lo_logged_out r))] @ opt_field ''apiUrl'' JString (lo_api_url r) @
       opt_field ''reason'' JString (lo_reason r))"

definition persisted_bootstrap_json :: "persisted_bootstrap_status \<Rightarrow> json" where
  "persisted_bootstrap_json b =
     JObject ([(''status'', JString (pb_status b))] @ opt_field ''message'' JString (pb_message b))"

definition persisted_bootstrap_envelope_json :: "persisted_bootstrap_envelope \<Rightarrow> json" where
  "persisted_bootstrap_envelope_json e =
     JObject [(''persistedBootstrap'', persisted_bootstrap_json (pe_persisted_bootstrap e))]"

definition unlock_daemon_status_json :: "unlock_daemon_status_result \<Rightarrow> json" where
  "unlock_daemon_status_json u =
     JObject [(''active'', JBool (uo_active u)),
       (''expiresAtUnix'', json_opt (\<lambda>n. json_nat (unat n)) (uo_expires_at_unix u))]"

definition api_url_mismatch_json :: "api_url_mismatch \<Rightarrow> json" where
  "api_url_mismatch_json m =
     JObject [(''storedApiUrl'', JString (um_stored_api_url m)), (''currentApiUrl'', JString (um_current_api_url m))]"

definition logged_in_json :: "'x cli_ext_scheme \<Rightarrow> logged_in_status \<Rightarrow> json" where
  "logged_in_json C s =
     JObject ([(''loggedIn'', JBool (li_logged_in s)), (''principalType'', JString (li_principal_type s)),
         (''apiUrl'', JString (li_api_url s))] @
       opt_field ''email'' JString (li_email s) @ opt_field ''userId'' (uuid_json C) (li_user_id s) @
       opt_field ''agentId'' (uuid_json C) (li_agent_id s) @
       opt_field ''ownerUserId'' (uuid_json C) (li_owner_user_id s) @
       opt_field ''handle'' JString (li_handle s) @ opt_field ''displayName'' JString (li_display_name s) @
       opt_field ''accessTokenExpiresAt'' JString (li_access_token_expires_at s) @
       opt_field ''refreshTokenExpiresAt'' JString (li_refresh_token_expires_at s) @
       [(''sessionState'', JString (li_session_state s)),
        (''apiUrlMismatch'', json_opt api_url_mismatch_json (li_api_url_mismatch s)),
        (''unlockDaemon'', unlock_daemon_status_json (li_unlock_daemon s)),
        (''persistedBootstrap'', persisted_bootstrap_json (li_persisted_bootstrap s))])"

definition logged_out_json :: "logged_out_status \<Rightarrow> json" where
  "logged_out_json s =
     JObject [(''loggedIn'', JBool (ls_logged_in s)), (''credentialsPath'', JString (ls_credentials_path s)),
       (''unlockDaemon'', unlock_daemon_status_json (ls_unlock_daemon s)),
       (''persistedBootstrap'', persisted_bootstrap_json (ls_persisted_bootstrap s))]"

section \<open>Info\<close>

text \<open>\<open>json!\<close> sorts the keys.\<close>
definition cmd_info :: "'x cli_ext_scheme \<Rightarrow> runtime_client \<Rightarrow> unit cli" where
  "cmd_info C K =
     print_pretty_json C (JObject
       [(''apiBaseUrl'', JString (rc_api_url K)),
        (''authUnlockModes'', JArray (map (\<lambda>m. JString (unlock_mode_as_str m)) [SingleCommand, DaemonMode])),
        (''automationProfile'', JString ''agent_task_management''), (''commandName'', JString ''worklist''),
        (''cryptoCapabilities'', JArray (map (\<lambda>c. JString (capability_as_str c))
          [DataKeyUnwrap, WorkListKeyDecrypt, PayloadSeal, PayloadProof])),
        (''decryptedReadModel'', JBool True),
        (''note'', JString ''This CLI is intended for agent-friendly task and comment workflows against Worklist.'')])"

section \<open>Login\<close>

definition credentials_path_string :: "'x cli_ext_scheme \<Rightarrow> string public_result" where
  "credentials_path_string C = map_ok (path_display C) (credentials_path C)"

definition build_login_result :: "'x cli_ext_scheme \<Rightarrow> string \<Rightarrow> string \<Rightarrow> bool \<Rightarrow> login_result public_result" where
  "build_login_result C api_url email already_logged_in =
     map_ok (\<lambda>p. \<lparr> lr_logged_in = True, lr_already_logged_in = already_logged_in, lr_email = email,
       lr_api_url = api_url, lr_credentials_path = p \<rparr>) (credentials_path_string C)"

definition print_login_result :: "'x cli_ext_scheme \<Rightarrow> output_format \<Rightarrow> login_result \<Rightarrow> string \<Rightarrow> unit cli" where
  "print_login_result C format r api_url =
     (case format of
        Json \<Rightarrow> print_pretty_json C (login_result_json r)
      | Table \<Rightarrow>
          if lr_already_logged_in r then
            println_stdout C (''Already logged in as '' @ lr_email r @ '' ('' @ api_url @ '')'')
          else print_lines C [''Logged in as '' @ lr_email r, ''Credentials saved to '' @ lr_credentials_path r])"

text \<open>\<open>reqwest::Client::new\<close> panics where building a client fails.\<close>
definition new_http_client :: "'x cli_ext_scheme \<Rightarrow> unit act" where
  "new_http_client C = io_return (if http_client_fails C = None then Ok () else Abort)"

definition login_with_password :: "'x cli_ext_scheme \<Rightarrow> server \<Rightarrow> string \<Rightarrow> string \<Rightarrow> string \<Rightarrow> credentials act" where
  "login_with_password C server api_url email password =
     io_then (draw C 32) (\<lambda>rng.
     io_then (draw C 32) (\<lambda>rng'.
     io_then (on_server (auth_login C server rng rng' api_url email password)) (\<lambda>response.
     io_then (utc_now C) (\<lambda>now.
     io_then (io_return (auth_response_to_credentials C now api_url response)) (\<lambda>c.
     io_map (\<lambda>_. c) (on_device (save_credentials C c)))))))"

definition cmd_login ::
  "'x cli_ext_scheme \<Rightarrow> server \<Rightarrow> output_format \<Rightarrow> string \<Rightarrow> string option \<Rightarrow> bool \<Rightarrow> unit cli" where
  "cmd_login C server format api_url email_flag password_stdin =
     io_then (public_act (on_device (load_credentials_for_url C api_url))) (\<lambda>found.
     io_then (case found of None \<Rightarrow> io_return (Ok None)
       | Some c \<Rightarrow> io_map (\<lambda>now. if is_refresh_expired c now then None else Some c) (public_act (utc_now C))) (\<lambda>active.
     case active of
       Some c \<Rightarrow>
         io_then (public_return (build_login_result C (normalize_api_url C api_url) (cr_email c) True)) (\<lambda>r.
         print_login_result C format r api_url)
     | None \<Rightarrow>
         if format = Json \<and> email_flag = None then
           io_return (Err (Public (Validation ''--json auth login requires --email''))) else
         io_then (case email_flag of Some e \<Rightarrow> io_return (Ok e) | None \<Rightarrow> cli_prompt C ''Email: '') (\<lambda>email.
         if email = [] then io_return (Err (Public (Validation ''email is required''))) else
         io_then (require_password_stdin_for_json_command format password_stdin ''auth login'') (\<lambda>_.
         io_then (cli_read_required_password C password_stdin None) (\<lambda>password.
         io_then (if format = Table then println_stdout C ''Authenticating...'' else io_return (Ok ())) (\<lambda>_.
         io_then (public_act (new_http_client C)) (\<lambda>_.
         io_then (public_act (login_with_password C server api_url email password)) (\<lambda>c.
         io_then (public_return (build_login_result C (cr_api_url c) (cr_email c) False)) (\<lambda>r.
         print_login_result C format r api_url)))))))))"

section \<open>Unlocking\<close>

definition print_unlock_result :: "'x cli_ext_scheme \<Rightarrow> output_format \<Rightarrow> bool \<Rightarrow> u64 option \<Rightarrow> string \<Rightarrow> unit cli" where
  "print_unlock_result C format unlocked ttl_seconds table_message =
     print_simple_result C format (unlock_result_json
       \<lparr> ur_unlocked = unlocked, ur_mode = ''daemon'', ur_ttl_seconds = ttl_seconds \<rparr>) table_message"

definition cmd_unlock ::
  "'x cli_ext_scheme \<Rightarrow> server \<Rightarrow> output_format \<Rightarrow> runtime_client \<Rightarrow> u64 \<Rightarrow> bool \<Rightarrow> unit cli" where
  "cmd_unlock C server format K ttl_seconds password_stdin =
     io_then (require_password_stdin_for_json_command format password_stdin ''auth unlock'') (\<lambda>_.
     io_then (public_act (runtime_unlock_daemon C server K ttl_seconds password_stdin)) (\<lambda>_.
     print_unlock_result C format True (Some ttl_seconds)
       (''Unlocked local daemon for '' @ show_nat (unat ttl_seconds) @ '' seconds.'')))"

definition cmd_lock :: "'x cli_ext_scheme \<Rightarrow> output_format \<Rightarrow> unit cli" where
  "cmd_lock C format =
     io_then (public_act (on_daemon (lock_daemon C))) (\<lambda>_.
     print_unlock_result C format False None ''Locked local daemon.'')"

datatype keychain_command = KeychainStore bool | KeychainClear

definition simple_persisted_bootstrap_status :: "string \<Rightarrow> persisted_bootstrap_status" where
  "simple_persisted_bootstrap_status s = \<lparr> pb_status = s, pb_message = None \<rparr>"

definition persisted_bootstrap_envelope_of :: "string \<Rightarrow> persisted_bootstrap_envelope" where
  "persisted_bootstrap_envelope_of s = \<lparr> pe_persisted_bootstrap = simple_persisted_bootstrap_status s \<rparr>"

definition cmd_keychain ::
  "'x cli_ext_scheme \<Rightarrow> server \<Rightarrow> output_format \<Rightarrow> runtime_client \<Rightarrow> keychain_command \<Rightarrow> unit cli" where
  "cmd_keychain C server format K command =
     io_then (case command of
         KeychainStore password_stdin \<Rightarrow>
           io_then (require_password_stdin_for_json_command format password_stdin ''auth keychain store'') (\<lambda>_.
           io_map (\<lambda>_. (''available'', ''Stored a local bootstrap secret in the platform keychain.''))
             (public_act (store_persisted_data_key C server K password_stdin)))
       | KeychainClear \<Rightarrow>
           io_map (\<lambda>_. (''cleared'', ''Cleared the local bootstrap secret from the platform keychain.''))
             (public_act (runtime_clear_persisted_data_key C K))) (\<lambda>(status, table_message).
     print_simple_result C format (persisted_bootstrap_envelope_json (persisted_bootstrap_envelope_of status))
       table_message)"

section \<open>Logout\<close>

text \<open>The result of an operation as a value; a panic stays one.\<close>
definition io_result :: "('s, 'a, 'e) rio \<Rightarrow> ('s, ('a, 'e) rust_result, 'f) rio" where
  "io_result m = (\<lambda>s. case m s of (Abort, s) \<Rightarrow> (Abort, s) | (r, s) \<Rightarrow> (Ok r, s))"

fun record_logout_cleanup_result :: "unit public_result \<Rightarrow> public_error option \<Rightarrow> public_error option" where
  "record_logout_cleanup_result (Err e) None = Some e"
| "record_logout_cleanup_result _ cleanup_error = cleanup_error"

fun logout_revoke_warning :: "string option public_result \<Rightarrow> warning_result option" where
  "logout_revoke_warning (Ok (Some message)) =
     Some (warning_result_of ''logout_revoke_failed'' (''failed to revoke token on server: '' @ message))"
| "logout_revoke_warning (Err e) =
     Some (warning_result_of ''logout_revoke_failed'' (''failed to revoke token on server: '' @ public_display e))"
| "logout_revoke_warning _ = None"

fun failure_warning :: "string \<Rightarrow> string \<Rightarrow> unit public_result \<Rightarrow> warning_result list" where
  "failure_warning code message (Err e) = [warning_result_of code (message @ public_display e)]"
| "failure_warning code message _ = []"

text \<open>The arms of \<open>cmd_logout\<close>: the warnings, and the first error of the clean-up.\<close>
definition logout_user ::
  "'x cli_ext_scheme \<Rightarrow> server \<Rightarrow> runtime_client \<Rightarrow> credentials
   \<Rightarrow> (warning_result list \<times> public_error option) act" where
  "logout_user C server K c =
     io_then (new_http_client C) (\<lambda>_.
     io_then (io_result (on_server (auth_logout C server (rc_api_url K) (cr_refresh_token c)))) (\<lambda>revoked.
     io_then (io_result (runtime_clear_persisted_data_key C K)) (\<lambda>keychain.
     io_then (io_result (on_device (clear_credentials C))) (\<lambda>cleared.
     io_then (case current_session_key C K c of
         Ok sk \<Rightarrow> io_result (on_daemon (clear_session C sk))
       | Err e \<Rightarrow> io_return (Ok (Err e))
       | Abort \<Rightarrow> io_return Abort) (\<lambda>session.
     io_return (Ok
       ((case logout_revoke_warning revoked of Some w \<Rightarrow> [w] | None \<Rightarrow> []) @
        failure_warning ''logout_persisted_bootstrap_clear_failed'' ''failed to clear platform keychain entry: '' keychain,
        record_logout_cleanup_result session (record_logout_cleanup_result cleared None))))))))"

definition logout_agent ::
  "'x cli_ext_scheme \<Rightarrow> agent_credentials \<Rightarrow> (warning_result list \<times> public_error option) act" where
  "logout_agent C c =
     io_then (io_result (on_device (clear_agent_seed C c))) (\<lambda>seed.
     io_then (io_result (on_device (clear_agent_credentials C))) (\<lambda>cleared.
     io_return (Ok (failure_warning ''logout_agent_seed_clear_failed'' ''failed to clear local agent seed: '' seed,
       record_logout_cleanup_result cleared None))))"

definition cmd_logout ::
  "'x cli_ext_scheme \<Rightarrow> server \<Rightarrow> output_format \<Rightarrow> runtime_client \<Rightarrow> principal_selection \<Rightarrow> unit cli" where
  "cmd_logout C server format K selection =
     io_then (public_act (on_device (load_principal_credentials_for_url C (rc_api_url K) selection))) (\<lambda>principal.
     case principal of
       None \<Rightarrow>
         print_simple_result C format (logout_result_json
           \<lparr> lo_logged_out = False, lo_api_url = None, lo_reason = Some ''not_logged_in'' \<rparr>) ''Not logged in.''
     | Some p \<Rightarrow>
         io_then (public_act (case p of UserPrincipal c \<Rightarrow> logout_user C server K c | AgentPrincipal c \<Rightarrow> logout_agent C c))
           (\<lambda>(warnings, cleanup_error). case cleanup_error of
             Some e \<Rightarrow> io_return (Err (with_warnings e warnings))
           | None \<Rightarrow>
               io_then (emit_warnings_best_effort C format warnings) (\<lambda>_.
               print_simple_result C format (logout_result_json
                 \<lparr> lo_logged_out = True, lo_api_url = Some (rc_api_url K), lo_reason = None \<rparr>)
                 ''Logged out successfully.'')))"

section \<open>Status\<close>

definition session_state :: "'x cli_ext_scheme \<Rightarrow> credentials \<Rightarrow> string act" where
  "session_state C c =
     io_then (utc_now C) (\<lambda>now.
     if is_refresh_expired c now then io_return (Ok ''refresh_expired'') else
     io_then (utc_now C) (\<lambda>now.
     io_return (Ok (if is_access_expired c now then ''access_expired'' else ''active''))))"

definition agent_session_state :: "'x cli_ext_scheme \<Rightarrow> agent_credentials \<Rightarrow> string act" where
  "agent_session_state C c =
     (case ac_access_expires_at c of
        None \<Rightarrow> io_return (Ok ''registered'')
      | Some _ \<Rightarrow>
          io_then (utc_now C) (\<lambda>now.
          io_return (map_ok (\<lambda>expired. if expired then ''access_expired''
            else if ac_access_token c \<noteq> None then ''active'' else ''registered'')
            (agent_access_expires_within C c now 0))))"

definition session_state_notice :: "string \<Rightarrow> string option" where
  "session_state_notice s =
     (if s = ''refresh_expired'' then Some ''Warning: Session has expired. Please login again.''
      else if s = ''access_expired'' then Some ''Note: Access token has expired but will be refreshed automatically.''
      else if s = ''registered'' then
        Some ''Note: Agent credentials are registered locally and will mint access tokens automatically when needed.''
      else None)"

definition cli_session_key :: "'x cli_ext_scheme \<Rightarrow> credentials \<Rightarrow> session_key public_result" where
  "cli_session_key C c = make_session_key C (cr_api_url c) (cr_user_id c) (cr_data_key_ciphertext c)"

definition api_url_mismatch_of :: "string \<Rightarrow> string \<Rightarrow> api_url_mismatch option" where
  "api_url_mismatch_of stored current =
     (if stored \<noteq> current then Some \<lparr> um_stored_api_url = stored, um_current_api_url = current \<rparr> else None)"

definition unlock_daemon_status :: "unlock_status \<Rightarrow> unlock_daemon_status_result" where
  "unlock_daemon_status s = \<lparr> uo_active = us_unlocked s, uo_expires_at_unix = us_expires_at_unix s \<rparr>"

definition inactive_unlock_daemon_status :: unlock_daemon_status_result where
  "inactive_unlock_daemon_status =
     unlock_daemon_status \<lparr> us_unlocked = False, us_session_key = None, us_expires_at_unix = None \<rparr>"

fun persisted_bootstrap_status_of :: "persisted_status \<Rightarrow> persisted_bootstrap_status" where
  "persisted_bootstrap_status_of Available = simple_persisted_bootstrap_status ''available''"
| "persisted_bootstrap_status_of Missing = simple_persisted_bootstrap_status ''missing''"
| "persisted_bootstrap_status_of (Unavailable message) = \<lparr> pb_status = ''unavailable'', pb_message = Some message \<rparr>"

definition unavailable_persisted_bootstrap_status :: persisted_bootstrap_status where
  "unavailable_persisted_bootstrap_status =
     \<lparr> pb_status = ''unavailable'', pb_message = Some ''unavailable for current target'' \<rparr>"

definition logged_in_auth_status :: "'x cli_ext_scheme \<Rightarrow> credentials \<Rightarrow> string \<Rightarrow> auth_status_result act" where
  "logged_in_auth_status C c current_api_url =
     io_then (io_return (cli_session_key C c)) (\<lambda>sk.
     io_then (on_daemon (query_unlock_status C (Some sk))) (\<lambda>status.
     io_then (session_state C c) (\<lambda>state.
     io_then (io_get (\<lambda>w. persisted_data_key_status C c (wd_device w))) (\<lambda>persisted.
     io_return (Ok (LoggedIn \<lparr> li_logged_in = True, li_principal_type = ''user'', li_api_url = cr_api_url c,
       li_email = Some (cr_email c), li_user_id = Some (cr_user_id c), li_agent_id = None, li_owner_user_id = None,
       li_handle = None, li_display_name = None,
       li_access_token_expires_at = Some (rfc3339 C (cr_access_expires_at c)),
       li_refresh_token_expires_at = Some (rfc3339 C (cr_refresh_expires_at c)),
       li_access_token_expires_display = Some (datetime_format C ''%Y-%m-%d %H:%M:%S UTC'' (cr_access_expires_at c)),
       li_refresh_token_expires_display = Some (datetime_format C ''%Y-%m-%d %H:%M:%S UTC'' (cr_refresh_expires_at c)),
       li_session_state = state, li_api_url_mismatch = api_url_mismatch_of (cr_api_url c) current_api_url,
       li_unlock_daemon = unlock_daemon_status status,
       li_persisted_bootstrap = persisted_bootstrap_status_of persisted \<rparr>))))))"

definition logged_in_agent_auth_status ::
  "'x cli_ext_scheme \<Rightarrow> agent_credentials \<Rightarrow> string \<Rightarrow> auth_status_result act" where
  "logged_in_agent_auth_status C c current_api_url =
     io_then (agent_session_state C c) (\<lambda>state.
     io_return (Ok (LoggedIn \<lparr> li_logged_in = True, li_principal_type = ''agent'', li_api_url = ac_api_url c,
       li_email = None, li_user_id = None, li_agent_id = Some (ac_agent_id c), li_owner_user_id = ac_owner_user_id c,
       li_handle = ac_handle c, li_display_name = ac_display_name c,
       li_access_token_expires_at = map_option (rfc3339 C) (ac_access_expires_at c), li_refresh_token_expires_at = None,
       li_access_token_expires_display =
         map_option (datetime_format C ''%Y-%m-%d %H:%M:%S UTC'') (ac_access_expires_at c),
       li_refresh_token_expires_display = None, li_session_state = state,
       li_api_url_mismatch = api_url_mismatch_of (ac_api_url c) current_api_url,
       li_unlock_daemon = inactive_unlock_daemon_status,
       li_persisted_bootstrap = unavailable_persisted_bootstrap_status \<rparr>)))"

definition logged_out_auth_status :: "'x cli_ext_scheme \<Rightarrow> auth_status_result public_result" where
  "logged_out_auth_status C =
     map_ok (\<lambda>p. LoggedOut \<lparr> ls_logged_in = False, ls_credentials_path = p,
       ls_unlock_daemon = inactive_unlock_daemon_status,
       ls_persisted_bootstrap = unavailable_persisted_bootstrap_status \<rparr>) (credentials_path_string C)"

definition load_auth_status :: "'x cli_ext_scheme \<Rightarrow> string \<Rightarrow> principal_selection \<Rightarrow> auth_status_result act" where
  "load_auth_status C api_url selection =
     (let current = normalize_api_url C api_url in
      io_then (on_device (load_credentials C)) (\<lambda>user.
      io_then (on_device (load_agent_credentials C)) (\<lambda>agent.
      let user_matches = (case user of Some c \<Rightarrow> cr_api_url c = current | None \<Rightarrow> False);
          agent_matches = (case agent of Some c \<Rightarrow> ac_api_url c = current | None \<Rightarrow> False) in
      case (selection, user, agent) of
        (SelectAuto, Some u, Some a) \<Rightarrow>
          if user_matches \<and> \<not> agent_matches then logged_in_auth_status C u current
          else if agent_matches \<and> \<not> user_matches then logged_in_agent_auth_status C a current
          else if user_matches \<or> agent_matches then
            io_return (Err (Validation ''both user and agent credentials exist; rerun with --principal user or --principal agent''))
          else io_return (Err (Validation (''no user or agent credentials are saved for '' @ current @
            ''; saved user credentials target '' @ cr_api_url u @ '', saved agent credentials target '' @ ac_api_url a)))
      | (SelectAuto, Some u, None) \<Rightarrow> logged_in_auth_status C u current
      | (SelectUser, Some u, _) \<Rightarrow> logged_in_auth_status C u current
      | (SelectAuto, None, Some a) \<Rightarrow> logged_in_agent_auth_status C a current
      | (SelectAgent, _, Some a) \<Rightarrow> logged_in_agent_auth_status C a current
      | (SelectAuto, None, None) \<Rightarrow> io_return (logged_out_auth_status C)
      | (SelectUser, None, _) \<Rightarrow> io_return (logged_out_auth_status C)
      | (SelectAgent, _, None) \<Rightarrow> io_return (logged_out_auth_status C))))"

definition format_agent_identity :: "'x cli_ext_scheme \<Rightarrow> logged_in_status \<Rightarrow> string option" where
  "format_agent_identity C s =
     (case (li_display_name s, li_handle s, li_agent_id s) of
        (Some name, Some handle, _) \<Rightarrow> Some (name @ '' (@'' @ handle @ '')'')
      | (Some name, None, _) \<Rightarrow> Some name
      | (None, Some handle, _) \<Rightarrow> Some (''@'' @ handle)
      | (None, None, Some agent_id) \<Rightarrow> Some (uuid_display C agent_id)
      | (None, None, None) \<Rightarrow> None)"

definition unlock_daemon_line :: "unlock_daemon_status_result \<Rightarrow> string \<Rightarrow> string" where
  "unlock_daemon_line u line_prefix =
     (case (uo_active u, uo_expires_at_unix u) of
        (True, Some t) \<Rightarrow> line_prefix @ ''Unlock daemon: active until unix '' @ show_nat (unat t)
      | (True, None) \<Rightarrow> line_prefix @ ''Unlock daemon: active''
      | (False, _) \<Rightarrow> line_prefix @ ''Unlock daemon: inactive'')"

definition persisted_bootstrap_line :: "persisted_bootstrap_status \<Rightarrow> string" where
  "persisted_bootstrap_line b =
     (case pb_message b of
        Some message \<Rightarrow> ''Persisted bootstrap: '' @ pb_status b @ '' ('' @ message @ '')''
      | None \<Rightarrow> ''Persisted bootstrap: '' @ pb_status b)"

definition nil_uuid :: uuid where "nil_uuid = replicate 16 0"

definition id_or_nil :: "'x cli_ext_scheme \<Rightarrow> uuid option \<Rightarrow> string" where
  "id_or_nil C u = uuid_display C (case u of Some v \<Rightarrow> v | None \<Rightarrow> nil_uuid)"

definition logged_in_lines :: "'x cli_ext_scheme \<Rightarrow> logged_in_status \<Rightarrow> string list" where
  "logged_in_lines C s =
     (if li_principal_type s = ''user'' then
        [''Logged in as: '' @ text_or ''unknown user'' (li_email s), ''API URL: '' @ li_api_url s,
         ''User ID: '' @ id_or_nil C (li_user_id s),
         ''Access token expires: '' @ text_or ''-'' (li_access_token_expires_display s),
         ''Refresh token expires: '' @ text_or ''-'' (li_refresh_token_expires_display s)]
      else if li_principal_type s = ''agent'' then
        [''Logged in as agent: '' @ text_or ''unknown agent'' (format_agent_identity C s), ''API URL: '' @ li_api_url s,
         ''Agent ID: '' @ id_or_nil C (li_agent_id s)] @
        (case li_owner_user_id s of Some u \<Rightarrow> [''Owner User ID: '' @ uuid_display C u] | None \<Rightarrow> []) @
        (case li_access_token_expires_display s of Some t \<Rightarrow> [''Access token expires: '' @ t] | None \<Rightarrow> [])
      else [''Logged in.'', ''API URL: '' @ li_api_url s]) @
     (case li_api_url_mismatch s of
        Some m \<Rightarrow> [newline @ ''Note: Stored credentials are for a different API URL.'',
          ''Stored: '' @ um_stored_api_url m, ''Current: '' @ um_current_api_url m]
      | None \<Rightarrow> []) @
     (case session_state_notice (li_session_state s) of Some n \<Rightarrow> [newline @ n] | None \<Rightarrow> []) @
     [unlock_daemon_line (li_unlock_daemon s) newline, persisted_bootstrap_line (li_persisted_bootstrap s)]"

definition logged_out_lines :: "logged_out_status \<Rightarrow> string list" where
  "logged_out_lines s =
     [''Not logged in.'', ''Credentials would be stored at: '' @ ls_credentials_path s,
      ''Unlock daemon: inactive for current target'', ''Persisted bootstrap: unavailable for current target'']"

definition cmd_status :: "'x cli_ext_scheme \<Rightarrow> output_format \<Rightarrow> string \<Rightarrow> principal_selection \<Rightarrow> unit cli" where
  "cmd_status C format api_url selection =
     io_then (public_act (load_auth_status C api_url selection)) (\<lambda>status. case status of
       LoggedIn s \<Rightarrow> print_formatted C format (logged_in_json C s) (logged_in_lines C s)
     | LoggedOut s \<Rightarrow> print_formatted C format (logged_out_json s) (logged_out_lines s))"

end
