(* ===== verification/Cli_Commands.thy ===== *)
theory Cli_Commands
  imports Cli_Auth
begin

text \<open>The remaining commands of \<open>cli/src/main.rs\<close> and \<open>cli/src/commands/agents.rs\<close>, the choice of the command to
  run, and the exit code.  Parsing the command line is a parameter, and so is serving as the unlock
  daemon, which \<open>Rt_Daemon\<close> models.\<close>

section \<open>Commands\<close>

datatype lists_command = ListsGet uuid bool bool

record task_create_args =
  tc_work_list_id :: uuid
  tc_title :: "string option"
  tc_body :: "string option"
  tc_input_file :: "string option"
  tc_input_stdin :: bool
  tc_password_stdin :: bool

record task_update_args =
  tu_work_list_id :: uuid
  tu_task_id :: uuid
  tu_title :: "string option"
  tu_body :: "string option"
  tu_input_file :: "string option"
  tu_input_stdin :: bool
  tu_password_stdin :: bool

text \<open>\<open>TaskAcceptArgsCli\<close>, \<open>TaskArchiveArgsCli\<close> and \<open>TaskUnarchiveArgsCli\<close> have the same fields.\<close>
record task_args =
  ta_work_list_id :: uuid
  ta_task_id :: uuid
  ta_password_stdin :: bool

record task_move_args =
  to_work_list_id :: uuid
  to_task_id :: uuid
  to_section_id :: "uuid option"
  to_insert_before_task_id :: "uuid option"
  to_password_stdin :: bool

record task_delete_args =
  tx_work_list_id :: uuid
  tx_task_id :: uuid
  tx_input_file :: "string option"
  tx_input_stdin :: bool

record comment_create_args =
  oc_work_list_id :: uuid
  oc_task_id :: uuid
  oc_body :: "string option"
  oc_input_file :: "string option"
  oc_input_stdin :: bool
  oc_password_stdin :: bool

record comment_update_args =
  ou_work_list_id :: uuid
  ou_task_id :: uuid
  ou_comment_id :: uuid
  ou_body :: "string option"
  ou_input_file :: "string option"
  ou_input_stdin :: bool
  ou_password_stdin :: bool

record comment_delete_args =
  ox_work_list_id :: uuid
  ox_task_id :: uuid
  ox_comment_id :: uuid
  ox_input_file :: "string option"
  ox_input_stdin :: bool

record attachment_read_args =
  ar_work_list_id :: uuid
  ar_task_id :: uuid
  ar_attachment_id :: uuid
  ar_password_stdin :: bool

record attachment_download_args =
  aw_work_list_id :: uuid
  aw_task_id :: uuid
  aw_attachment_id :: uuid
  aw_output :: "string option"
  aw_force :: bool
  aw_password_stdin :: bool

datatype task_attachments_command = AttachmentRead attachment_read_args | AttachmentDownload attachment_download_args

datatype tasks_command =
    TasksList "uuid option" bool bool bool bool
  | TasksAssigned bool bool bool
  | TasksGet uuid uuid bool bool
  | TasksCreate task_create_args
  | TasksUpdate task_update_args
  | TasksAccept task_args
  | TasksMove task_move_args
  | TasksArchive task_args
  | TasksUnarchive task_args
  | TasksDelete task_delete_args
  | TasksAttachments task_attachments_command

datatype comments_command =
    CommentsList uuid uuid bool
  | CommentsCreate comment_create_args
  | CommentsUpdate comment_update_args
  | CommentsDelete comment_delete_args

datatype auth_command =
    AuthLogin "string option" bool
  | AuthUnlock u64 bool
  | AuthLock
  | AuthKeychain keychain_command
  | AuthLogout
  | AuthStatus

datatype agent_command =
    AgentRegister "string option"
  | AgentApprove "string option" bool "string option" string string bool
  | AgentList
  | AgentRevoke string

datatype command =
    Info
  | Auth auth_command
  | Agent agent_command
  | Me
  | WorkLists bool bool bool "lists_command option"
  | Tasks tasks_command
  | Stats
  | Inspect uuid bool
  | Comments comments_command

datatype principal_arg = UserArg | AgentArg

fun principal_arg_selection :: "principal_arg \<Rightarrow> principal_selection" where
  "principal_arg_selection UserArg = SelectUser"
| "principal_arg_selection AgentArg = SelectAgent"

record cli_args =
  ca_api_url :: string
  ca_json :: bool
  ca_principal :: "principal_arg option"
  ca_serve_unlock_daemon :: "string option"
  ca_command :: "command option"

section \<open>Work lists, tasks and comments\<close>

definition cmd_me :: "'x cli_ext_scheme \<Rightarrow> server \<Rightarrow> runtime_client \<Rightarrow> output_format \<Rightarrow> unit cli" where
  "cmd_me C server K format =
     io_then (public_act (runtime_get_me C server K)) (\<lambda>user. print_user C user format)"

definition cmd_lists :: "'x cli_ext_scheme \<Rightarrow> server \<Rightarrow> runtime_client \<Rightarrow> output_format \<Rightarrow> bool \<Rightarrow> bool \<Rightarrow> bool \<Rightarrow> unit cli" where
  "cmd_lists C server K format verbose password_stdin raw =
     (if raw then
        io_then (public_act (io_then (authenticated_api_client C server K) (\<lambda>client. on_server (list_work_lists C server client))))
          (\<lambda>ls. if ls = [] then println_stdout C ''No work lists found.'' else print_raw_work_lists C ls format verbose)
      else
        io_then (public_act (runtime_list_work_lists C server K password_stdin))
          (\<lambda>ls. if ls = [] then println_stdout C ''No work lists found.'' else print_work_lists C ls format verbose))"

definition cmd_lists_get :: "'x cli_ext_scheme \<Rightarrow> server \<Rightarrow> runtime_client \<Rightarrow> output_format \<Rightarrow> uuid \<Rightarrow> bool \<Rightarrow> bool \<Rightarrow> unit cli" where
  "cmd_lists_get C server K format wid password_stdin raw =
     (if raw then
        io_then (public_act (io_then (authenticated_api_client C server K) (\<lambda>client. on_server (get_work_list C server client wid))))
          (\<lambda>detail. print_raw_work_list_detail C detail format)
      else
        io_then (public_act (runtime_get_work_list C server K wid password_stdin))
          (\<lambda>detail. print_work_list_detail C detail format))"

definition list_raw_my_tasks :: "'x cli_ext_scheme \<Rightarrow> server \<Rightarrow> runtime_client \<Rightarrow> output_format \<Rightarrow> bool \<Rightarrow> string \<Rightarrow> unit cli" where
  "list_raw_my_tasks C server K format include_completed none_found =
     io_then (public_act (io_then (authenticated_api_client C server K) (\<lambda>client.
         on_server (get_all_my_tasks C server client include_completed)))) (\<lambda>tasks.
     if tasks = [] then println_stdout C none_found else print_raw_my_tasks C tasks format)"

definition cmd_tasks_list ::
  "'x cli_ext_scheme \<Rightarrow> server \<Rightarrow> runtime_client \<Rightarrow> output_format \<Rightarrow> uuid option \<Rightarrow> bool \<Rightarrow> bool \<Rightarrow> bool \<Rightarrow> bool \<Rightarrow> unit cli"
  where
  "cmd_tasks_list C server K format work_list_id include_completed all_lists password_stdin raw =
     (if raw then
        (case (if all_lists then None else work_list_id) of
           None \<Rightarrow> list_raw_my_tasks C server K format include_completed ''No tasks found.''
         | Some wid \<Rightarrow>
             io_then (public_act (io_then (authenticated_api_client C server K) (\<lambda>client.
                 on_server (get_tasks C server client wid False)))) (\<lambda>response.
             let tasks = (if include_completed then tl_tasks response
                 else filter (\<lambda>task. \<not> tk_is_completed task) (tl_tasks response)) in
             if tasks = [] then println_stdout C ''No tasks found in this work list.'' else print_raw_tasks C tasks format))
      else
        io_then (public_act (list_tasks C server K work_list_id include_completed all_lists password_stdin)) (\<lambda>tasks.
        if tasks = [] then
          println_stdout C (if all_lists \<or> work_list_id = None then ''No tasks found.'' else ''No tasks found in this work list.'')
        else print_tasks C tasks format))"

definition cmd_tasks_assigned ::
  "'x cli_ext_scheme \<Rightarrow> server \<Rightarrow> runtime_client \<Rightarrow> output_format \<Rightarrow> bool \<Rightarrow> bool \<Rightarrow> bool \<Rightarrow> unit cli" where
  "cmd_tasks_assigned C server K format include_completed password_stdin raw =
     (if raw then list_raw_my_tasks C server K format include_completed ''No assigned tasks found.''
      else
        io_then (public_act (list_tasks C server K None include_completed True password_stdin)) (\<lambda>tasks.
        if tasks = [] then println_stdout C ''No assigned tasks found.'' else print_tasks C tasks format))"

definition cmd_tasks_get ::
  "'x cli_ext_scheme \<Rightarrow> server \<Rightarrow> runtime_client \<Rightarrow> output_format \<Rightarrow> uuid \<Rightarrow> uuid \<Rightarrow> bool \<Rightarrow> bool \<Rightarrow> unit cli" where
  "cmd_tasks_get C server K format wid tid password_stdin raw =
     (if raw then
        io_then (public_act (io_then (authenticated_api_client C server K) (\<lambda>client. on_server (api_get_task C server client wid tid))))
          (\<lambda>detail. print_raw_task_detail C detail format)
      else io_then (public_act (get_task C server K wid tid password_stdin)) (\<lambda>detail. print_task_detail C detail format))"

definition cmd_tasks_create :: "'x cli_ext_scheme \<Rightarrow> server \<Rightarrow> runtime_client \<Rightarrow> task_create_args \<Rightarrow> unit cli" where
  "cmd_tasks_create C server K a =
     io_then (public_act (resolve_task_create_input C (tc_title a) (tc_body a) (tc_input_file a) (tc_input_stdin a)
       (tc_password_stdin a))) (\<lambda>(title, body).
     io_then (public_act (create_task C server K (tc_work_list_id a) title body (tc_password_stdin a))) (\<lambda>created.
     print_pretty_json C (task_summary_json C created)))"

definition cmd_tasks_update :: "'x cli_ext_scheme \<Rightarrow> server \<Rightarrow> runtime_client \<Rightarrow> task_update_args \<Rightarrow> unit cli" where
  "cmd_tasks_update C server K a =
     io_then (public_act (resolve_task_update_input C (tu_title a) (tu_body a) (tu_input_file a) (tu_input_stdin a)
       (tu_password_stdin a))) (\<lambda>(title, body).
     io_then (public_act (update_task C server K (tu_work_list_id a) (tu_task_id a) title body (tu_password_stdin a)))
       (\<lambda>updated.
     print_pretty_json C (task_summary_json C updated)))"

definition cmd_tasks_accept :: "'x cli_ext_scheme \<Rightarrow> server \<Rightarrow> runtime_client \<Rightarrow> task_args \<Rightarrow> unit cli" where
  "cmd_tasks_accept C server K a =
     io_then (public_act (accept_task_assignment C server K (ta_work_list_id a) (ta_task_id a) (ta_password_stdin a)))
       (\<lambda>accepted. print_pretty_json C (task_detail_json C accepted))"

definition cmd_tasks_move :: "'x cli_ext_scheme \<Rightarrow> server \<Rightarrow> runtime_client \<Rightarrow> task_move_args \<Rightarrow> unit cli" where
  "cmd_tasks_move C server K a =
     io_then (public_act (move_task C server K (to_work_list_id a) (to_task_id a) (to_section_id a)
       (to_insert_before_task_id a) (to_password_stdin a))) (\<lambda>moved. print_pretty_json C (task_summary_json C moved))"

definition cmd_tasks_archive :: "'x cli_ext_scheme \<Rightarrow> server \<Rightarrow> runtime_client \<Rightarrow> task_args \<Rightarrow> unit cli" where
  "cmd_tasks_archive C server K a =
     io_then (public_act (archive_task C server K (ta_work_list_id a) (ta_task_id a) (ta_password_stdin a)))
       (\<lambda>archived. print_pretty_json C (task_summary_json C archived))"

definition cmd_tasks_unarchive :: "'x cli_ext_scheme \<Rightarrow> server \<Rightarrow> runtime_client \<Rightarrow> task_args \<Rightarrow> unit cli" where
  "cmd_tasks_unarchive C server K a =
     io_then (public_act (unarchive_task C server K (ta_work_list_id a) (ta_task_id a) (ta_password_stdin a)))
       (\<lambda>unarchived. print_pretty_json C (task_summary_json C unarchived))"

definition cmd_tasks_delete :: "'x cli_ext_scheme \<Rightarrow> server \<Rightarrow> runtime_client \<Rightarrow> output_format \<Rightarrow> task_delete_args \<Rightarrow> unit cli" where
  "cmd_tasks_delete C server K format a =
     io_then (public_act (resolve_delete_input C (tx_input_file a) (tx_input_stdin a))) (\<lambda>input.
     io_then (public_act (delete_task C server K (tx_work_list_id a) (tx_task_id a) input)) (\<lambda>_.
     print_delete_result C format
       (JObject [(''deleted'', JBool True), (''taskId'', uuid_json C (tx_task_id a)),
         (''workListId'', uuid_json C (tx_work_list_id a))])
       (''Deleted task '' @ uuid_display C (tx_task_id a) @ ''.'')))"

definition print_download_result :: "'x cli_ext_scheme \<Rightarrow> output_format \<Rightarrow> string \<Rightarrow> string \<Rightarrow> unit cli" where
  "print_download_result C format file_name output_path =
     print_formatted C format (JObject [(''fileName'', JString file_name), (''outputPath'', JString output_path)])
       [''Saved attachment to '' @ output_path]"

definition cmd_task_attachments ::
  "'x cli_ext_scheme \<Rightarrow> server \<Rightarrow> runtime_client \<Rightarrow> output_format \<Rightarrow> task_attachments_command \<Rightarrow> unit cli" where
  "cmd_task_attachments C server K format command =
     (case command of
        AttachmentRead a \<Rightarrow>
          io_then (public_act (read_task_attachment C server K (ar_work_list_id a) (ar_task_id a) (ar_attachment_id a)
            (ar_password_stdin a))) (\<lambda>r. print_readable_attachment C r format)
      | AttachmentDownload a \<Rightarrow>
          io_then (public_act (download_task_attachment C server K (aw_work_list_id a) (aw_task_id a) (aw_attachment_id a)
            (aw_password_stdin a))) (\<lambda>d.
          let file_name = aa_file_name (da_attachment d);
              output_path = resolve_attachment_output_path file_name (aw_output a) in
          io_then (public_act (on_device (write_attachment_file C output_path (da_bytes d) (aw_force a)))) (\<lambda>_.
          print_download_result C format file_name output_path)))"

definition cmd_tasks :: "'x cli_ext_scheme \<Rightarrow> server \<Rightarrow> runtime_client \<Rightarrow> output_format \<Rightarrow> tasks_command \<Rightarrow> unit cli" where
  "cmd_tasks C server K format command =
     (case command of
        TasksList work_list_id include_completed all_lists password_stdin raw \<Rightarrow>
          cmd_tasks_list C server K format work_list_id include_completed all_lists password_stdin raw
      | TasksAssigned include_completed password_stdin raw \<Rightarrow>
          cmd_tasks_assigned C server K format include_completed password_stdin raw
      | TasksGet wid tid password_stdin raw \<Rightarrow> cmd_tasks_get C server K format wid tid password_stdin raw
      | TasksCreate a \<Rightarrow> cmd_tasks_create C server K a
      | TasksUpdate a \<Rightarrow> cmd_tasks_update C server K a
      | TasksAccept a \<Rightarrow> cmd_tasks_accept C server K a
      | TasksMove a \<Rightarrow> cmd_tasks_move C server K a
      | TasksArchive a \<Rightarrow> cmd_tasks_archive C server K a
      | TasksUnarchive a \<Rightarrow> cmd_tasks_unarchive C server K a
      | TasksDelete a \<Rightarrow> cmd_tasks_delete C server K format a
      | TasksAttachments c \<Rightarrow> cmd_task_attachments C server K format c)"

definition cmd_stats :: "'x cli_ext_scheme \<Rightarrow> server \<Rightarrow> runtime_client \<Rightarrow> output_format \<Rightarrow> unit cli" where
  "cmd_stats C server K format =
     io_then (public_act (runtime_get_stats C server K)) (\<lambda>stats. print_stats C stats format)"

definition cmd_comments_list ::
  "'x cli_ext_scheme \<Rightarrow> server \<Rightarrow> runtime_client \<Rightarrow> output_format \<Rightarrow> uuid \<Rightarrow> uuid \<Rightarrow> bool \<Rightarrow> unit cli" where
  "cmd_comments_list C server K format wid tid password_stdin =
     io_then (public_act (list_comments C server K wid tid password_stdin)) (\<lambda>comments.
     if comments = [] then
       (case format of Json \<Rightarrow> print_pretty_json C (JArray []) | Table \<Rightarrow> println_stdout C ''No comments found.'')
     else print_comments C comments format)"

definition cmd_comments_create :: "'x cli_ext_scheme \<Rightarrow> server \<Rightarrow> runtime_client \<Rightarrow> comment_create_args \<Rightarrow> unit cli" where
  "cmd_comments_create C server K a =
     io_then (public_act (resolve_comment_input C (oc_body a) (oc_input_file a) (oc_input_stdin a) (oc_password_stdin a)))
       (\<lambda>body.
     io_then (public_act (create_comment C server K (oc_work_list_id a) (oc_task_id a) body (oc_password_stdin a)))
       (print_comment_json C))"

definition cmd_comments_update :: "'x cli_ext_scheme \<Rightarrow> server \<Rightarrow> runtime_client \<Rightarrow> comment_update_args \<Rightarrow> unit cli" where
  "cmd_comments_update C server K a =
     io_then (public_act (resolve_comment_input C (ou_body a) (ou_input_file a) (ou_input_stdin a) (ou_password_stdin a)))
       (\<lambda>body.
     io_then (public_act (update_comment C server K (ou_work_list_id a) (ou_task_id a) (ou_comment_id a) body
       (ou_password_stdin a))) (print_comment_json C))"

definition cmd_comments_delete :: "'x cli_ext_scheme \<Rightarrow> server \<Rightarrow> runtime_client \<Rightarrow> output_format \<Rightarrow> comment_delete_args \<Rightarrow> unit cli" where
  "cmd_comments_delete C server K format a =
     io_then (public_act (resolve_delete_input C (ox_input_file a) (ox_input_stdin a))) (\<lambda>input.
     io_then (public_act (delete_comment C server K (ox_work_list_id a) (ox_task_id a) (ox_comment_id a) input)) (\<lambda>_.
     print_delete_result C format
       (JObject [(''commentId'', uuid_json C (ox_comment_id a)), (''deleted'', JBool True),
         (''taskId'', uuid_json C (ox_task_id a)), (''workListId'', uuid_json C (ox_work_list_id a))])
       (''Deleted comment '' @ uuid_display C (ox_comment_id a) @ ''.'')))"

definition cmd_comments :: "'x cli_ext_scheme \<Rightarrow> server \<Rightarrow> runtime_client \<Rightarrow> output_format \<Rightarrow> comments_command \<Rightarrow> unit cli" where
  "cmd_comments C server K format command =
     (case command of
        CommentsList wid tid password_stdin \<Rightarrow> cmd_comments_list C server K format wid tid password_stdin
      | CommentsCreate a \<Rightarrow> cmd_comments_create C server K a
      | CommentsUpdate a \<Rightarrow> cmd_comments_update C server K a
      | CommentsDelete a \<Rightarrow> cmd_comments_delete C server K format a)"

section \<open>Agents\<close>

record agent_register_result =
  gr_registered :: bool
  gr_agent_id :: uuid
  gr_enrollment_code :: "string option"
  gr_fingerprint :: string
  gr_api_url :: string
  gr_credentials_path :: string

definition agent_register_json :: "'x cli_ext_scheme \<Rightarrow> agent_register_result \<Rightarrow> json" where
  "agent_register_json C r =
     JObject [(''registered'', JBool (gr_registered r)), (''agentId'', uuid_json C (gr_agent_id r)),
       (''enrollmentCode'', json_opt JString (gr_enrollment_code r)), (''fingerprint'', JString (gr_fingerprint r)),
       (''apiUrl'', JString (gr_api_url r)), (''credentialsPath'', JString (gr_credentials_path r))]"

definition agent_registration_conflict_message :: "string \<Rightarrow> string \<Rightarrow> string" where
  "agent_registration_conflict_message existing current =
     (if existing = current then ''agent credentials already exist for this API URL''
      else ''agent credentials already exist for '' @ existing @
        ''; remove that registration before registering an agent for '' @ current)"

definition ensure_agent_registration_slot_available :: "'x cli_ext_scheme \<Rightarrow> string \<Rightarrow> unit act" where
  "ensure_agent_registration_slot_available C current =
     io_then (on_device (load_agent_credentials C)) (\<lambda>found.
     io_return (case found of
         None \<Rightarrow> Ok ()
       | Some c \<Rightarrow> Err (Validation (agent_registration_conflict_message (ac_api_url c) current))))"

text \<open>Credentials whose seed cannot be saved are removed again.\<close>
definition save_registered_agent :: "'x cli_ext_scheme \<Rightarrow> agent_credentials \<Rightarrow> bytes \<Rightarrow> unit cli" where
  "save_registered_agent C c seed =
     io_then (public_act (on_device (save_agent_credentials C c))) (\<lambda>_.
     io_then (public_act (io_result (on_device (save_agent_seed C c seed)))) (\<lambda>saved. case saved of
       Err e \<Rightarrow>
         io_then (public_act (io_result (on_device (clear_agent_credentials C)))) (\<lambda>cleared.
         io_return (Err (case cleared of
             Err cleanup \<Rightarrow> with_warnings e [warning_result_of ''agent_registration_cleanup_failed''
               (''failed to remove partial agent credentials: '' @ public_display cleanup)]
           | _ \<Rightarrow> Public e)))
     | _ \<Rightarrow> io_return (Ok ())))"

definition cmd_agent_register ::
  "'x cli_ext_scheme \<Rightarrow> server \<Rightarrow> output_format \<Rightarrow> string \<Rightarrow> string option \<Rightarrow> unit cli" where
  "cmd_agent_register C server format api_url proposed_handle =
     (let current = normalize_api_url C api_url in
      io_then (public_act (ensure_agent_registration_slot_available C current)) (\<lambda>_.
      io_then (public_act (reading (\<lambda>n. generate_agent_key_material C (os_random C n)))) (\<lambda>km.
      io_then (public_act (new_http_client C)) (\<lambda>_.
      io_then (public_act (on_server (register_agent C server api_url km proposed_handle))) (\<lambda>enrollment.
      let c = agent_registered current (en_agent_id enrollment) (en_owner_user_id enrollment)
            (or_option (en_handle enrollment) (en_proposed_handle enrollment)) (en_display_name enrollment) in
      io_then (save_registered_agent C c (km_seed km)) (\<lambda>_.
      io_then (public_return (agent_credentials_path C)) (\<lambda>p.
      let r = \<lparr> gr_registered = True, gr_agent_id = en_agent_id enrollment,
            gr_enrollment_code = en_enrollment_code enrollment, gr_fingerprint = en_fingerprint enrollment,
            gr_api_url = ac_api_url c, gr_credentials_path = path_display C p \<rparr> in
      print_formatted C format (agent_register_json C r)
        [''Enrollment code: '' @ text_or ''-'' (en_enrollment_code enrollment),
         ''Public-key fingerprint: '' @ gr_fingerprint r, ''Agent ID: '' @ uuid_display C (gr_agent_id r),
         ''Agent credentials saved to '' @ gr_credentials_path r])))))))"

definition read_agent_enrollment_code :: "'x cli_ext_scheme \<Rightarrow> string option \<Rightarrow> bool \<Rightarrow> string option \<Rightarrow> string act" where
  "read_agent_enrollment_code C deprecated_code code_stdin code_file =
     io_then (case (deprecated_code, code_stdin, code_file) of
         (None, True, None) \<Rightarrow>
           reading (\<lambda>n. map_err (\<lambda>e. Unexpected (''failed to read agent enrollment code from stdin: '' @ e)) (read_stdin C n))
       | (None, False, Some p) \<Rightarrow>
           on_device (read_to_string C p (\<lambda>e. ''failed to read agent enrollment code file '' @ p @ '': '' @ e))
       | (Some _, _, _) \<Rightarrow> io_return (Err (Validation
           ''agent approve no longer accepts the enrollment code as a positional argument; use --code-stdin or --code-file to avoid shell history and process-list exposure''))
       | (None, False, None) \<Rightarrow> io_return (Err (Validation ''agent approve requires --code-stdin or --code-file''))
       | (None, True, Some _) \<Rightarrow> io_return Abort) (\<lambda>raw.
     let code = trim raw in
     io_return (if code = [] then Err (Validation ''agent enrollment code cannot be empty'') else Ok code))"

definition agent_line :: "'x cli_ext_scheme \<Rightarrow> agent_summary_response \<Rightarrow> string" where
  "agent_line C a =
     columns [text_or ''-'' (as_handle a), text_or ''-'' (as_display_name a), as_status a,
       ''grants='' @ show_nat (length (as_grants a)),
       ''last_seen='' @ text_or ''-'' (map_option (datetime_format C ''%Y-%m-%d %H:%M:%S UTC'') (as_last_seen_at a))]"

definition print_agent_summaries :: "'x cli_ext_scheme \<Rightarrow> output_format \<Rightarrow> agent_summary_response list \<Rightarrow> unit cli" where
  "print_agent_summaries C format agents =
     print_formatted C format (JArray (map (agent_summary_json C) agents))
       (if agents = [] then [''No agents found.''] else map (agent_line C) agents)"

definition cmd_agent_approve ::
  "'x cli_ext_scheme \<Rightarrow> server \<Rightarrow> output_format \<Rightarrow> runtime_client \<Rightarrow> string option \<Rightarrow> bool \<Rightarrow> string option
   \<Rightarrow> string \<Rightarrow> string \<Rightarrow> bool \<Rightarrow> unit cli" where
  "cmd_agent_approve C server format K deprecated_code code_stdin code_file handle display_name password_stdin =
     io_then (require_password_stdin_for_json_command format password_stdin ''agent approve'') (\<lambda>_.
     io_then (public_act (read_agent_enrollment_code C deprecated_code code_stdin code_file)) (\<lambda>code.
     io_then (public_act (new_http_client C)) (\<lambda>_.
     io_then (public_act (on_server (fetch_agent_enrollment C server (rc_api_url K) code))) (\<lambda>enrollment.
     io_then (public_act (build_agent_grants_for_enrollment C server K enrollment password_stdin)) (\<lambda>grants.
     io_then (public_act (authenticated_owner_api_client C server K)) (\<lambda>api.
     io_then (public_act (on_server (approve_agent_enrollment C server api
       \<lparr> ae_code = code, ae_handle = handle, ae_display_name = display_name, ae_scope_mode = ''inherit_owner'',
         ae_fingerprint = en_fingerprint enrollment, ae_grants = grants \<rparr>))) (\<lambda>approved.
     print_agent_summaries C format [approved])))))))"

definition cmd_agent_list :: "'x cli_ext_scheme \<Rightarrow> server \<Rightarrow> output_format \<Rightarrow> runtime_client \<Rightarrow> unit cli" where
  "cmd_agent_list C server format K =
     io_then (public_act (authenticated_owner_api_client C server K)) (\<lambda>api.
     io_then (public_act (on_server (list_agents C server api))) (print_agent_summaries C format))"

definition agent_selected :: "'x cli_ext_scheme \<Rightarrow> string \<Rightarrow> agent_summary_response \<Rightarrow> bool" where
  "agent_selected C selector a \<longleftrightarrow>
     uuid_display C (as_agent_id a) = selector \<or>
     (case as_handle a of Some h \<Rightarrow> h = selector \<or> ''@'' @ h = selector | None \<Rightarrow> False)"

definition cmd_agent_revoke :: "'x cli_ext_scheme \<Rightarrow> server \<Rightarrow> output_format \<Rightarrow> runtime_client \<Rightarrow> string \<Rightarrow> unit cli" where
  "cmd_agent_revoke C server format K selector =
     io_then (public_act (authenticated_owner_api_client C server K)) (\<lambda>api.
     io_then (public_act (on_server (list_agents C server api))) (\<lambda>agents.
     io_then (public_return (ok_or (Validation ''agent not found'') (find (agent_selected C selector) agents))) (\<lambda>agent.
     io_then (public_act (on_server (revoke_agent C server api (as_agent_id agent)))) (\<lambda>revoked.
     print_agent_summaries C format [revoked]))))"

section \<open>Running\<close>

definition run_auth :: "'x cli_ext_scheme \<Rightarrow> server \<Rightarrow> output_format \<Rightarrow> runtime_client \<Rightarrow> principal_selection \<Rightarrow> auth_command \<Rightarrow> unit cli" where
  "run_auth C server format K selection command =
     (case command of
        AuthLogin email password_stdin \<Rightarrow> cmd_login C server format (rc_api_url K) email password_stdin
      | AuthUnlock ttl_seconds password_stdin \<Rightarrow> cmd_unlock C server format K ttl_seconds password_stdin
      | AuthLock \<Rightarrow> cmd_lock C format
      | AuthKeychain c \<Rightarrow> cmd_keychain C server format K c
      | AuthLogout \<Rightarrow> cmd_logout C server format K selection
      | AuthStatus \<Rightarrow> cmd_status C format (rc_api_url K) selection)"

definition run_agent :: "'x cli_ext_scheme \<Rightarrow> server \<Rightarrow> output_format \<Rightarrow> runtime_client \<Rightarrow> agent_command \<Rightarrow> unit cli" where
  "run_agent C server format K command =
     (case command of
        AgentRegister proposed_handle \<Rightarrow> cmd_agent_register C server format (rc_api_url K) proposed_handle
      | AgentApprove deprecated_code code_stdin code_file handle display_name password_stdin \<Rightarrow>
          cmd_agent_approve C server format K deprecated_code code_stdin code_file handle display_name password_stdin
      | AgentList \<Rightarrow> cmd_agent_list C server format K
      | AgentRevoke selector \<Rightarrow> cmd_agent_revoke C server format K selector)"

definition run :: "'x cli_ext_scheme \<Rightarrow> server \<Rightarrow> (string \<Rightarrow> unit act) \<Rightarrow> cli_args \<Rightarrow> output_format \<Rightarrow> unit cli" where
  "run C server serve args format =
     (case ca_serve_unlock_daemon args of
        Some socket \<Rightarrow> public_act (serve socket)
      | None \<Rightarrow>
          let selection = (case ca_principal args of Some p \<Rightarrow> principal_arg_selection p | None \<Rightarrow> SelectAuto);
              K = with_principal_selection C (ca_api_url args) selection in
          (case ca_command args of
             None \<Rightarrow> io_return (Err (Public (Validation ''a command is required'')))
           | Some Info \<Rightarrow> cmd_info C K
           | Some (Auth c) \<Rightarrow> run_auth C server format K selection c
           | Some (Agent c) \<Rightarrow> run_agent C server format K c
           | Some Me \<Rightarrow> cmd_me C server K format
           | Some (WorkLists verbose password_stdin raw c) \<Rightarrow>
               (case c of
                  Some (ListsGet wid password_stdin raw) \<Rightarrow> cmd_lists_get C server K format wid password_stdin raw
                | None \<Rightarrow> cmd_lists C server K format verbose password_stdin raw)
           | Some (Tasks c) \<Rightarrow> cmd_tasks C server K format c
           | Some Stats \<Rightarrow> cmd_stats C server K format
           | Some (Inspect wid password_stdin) \<Rightarrow> cmd_lists_get C server K format wid password_stdin False
           | Some (Comments c) \<Rightarrow> cmd_comments C server K format c))"

datatype exit_status = Exit int | Panicked

text \<open>\<open>let _ = \<dots>\<close> drops an error; then the process exits.\<close>
definition exit_after :: "unit cli \<Rightarrow> int \<Rightarrow> shell \<Rightarrow> exit_status \<times> shell" where
  "exit_after m code s = (case m s of (Abort, s) \<Rightarrow> (Panicked, s) | (_, s) \<Rightarrow> (Exit code, s))"

definition exit_after_clap_error :: "'x cli_ext_scheme \<Rightarrow> clap_error \<Rightarrow> output_format \<Rightarrow> shell \<Rightarrow> exit_status \<times> shell" where
  "exit_after_clap_error C e format =
     (if format = Json \<and> ce_use_stderr e then exit_after (print_clap_error C e) (ce_exit_code e)
      else exit_after (write_to_stream C (if ce_use_stderr e then Stderr else Stdout) (ce_text e) [] [] False)
        (ce_exit_code e))"

definition main ::
  "'x cli_ext_scheme \<Rightarrow> server \<Rightarrow> (string \<Rightarrow> unit act) \<Rightarrow> (string list \<Rightarrow> (cli_args, clap_error) rust_result)
   \<Rightarrow> string list \<Rightarrow> shell \<Rightarrow> exit_status \<times> shell" where
  "main C server serve parse args s =
     (let format = output_format_from_raw_args args in
      case parse args of
        Abort \<Rightarrow> (Panicked, s)
      | Err e \<Rightarrow> exit_after_clap_error C e format s
      | Ok parsed \<Rightarrow>
          (case run C server serve parsed format s of
             (Ok _, s) \<Rightarrow> (Exit 0, s)
           | (Abort, s) \<Rightarrow> (Panicked, s)
           | (Err BrokenPipe, s) \<Rightarrow> (Exit 0, s)
           | (Err e, s) \<Rightarrow> exit_after (print_cli_error C e format) 1 s))"

end
