(* ===== verification/Cli_Instance.thy ===== *)
theory Cli_Instance
  imports Cli_Commands Rt_Instance
begin

text \<open>A concrete instance of the command line's parameters: \<open>demo_runtime\<close> extended by streams that never fail, a
  parser of paths that splits them, and a printer of JSON that shows the texts in it.\<close>

text \<open>The texts of a JSON value, in order.\<close>
fun json_texts :: "json \<Rightarrow> string" where
  "json_texts (JString s) = s @ '';''"
| "json_texts (JArray vs) = concat (map json_texts vs)"
| "json_texts (JObject fs) = concat (map (\<lambda>f. fst f @ ''='' @ json_texts (snd f)) fs)"
| "json_texts _ = '';''"

definition demo_cli :: cli_ext where
  "demo_cli = runtime_ext.extend demo_runtime \<lparr>
     stream_fails = (\<lambda>_ _. None), flush_fails = (\<lambda>_. None), json_pretty = json_texts,
     resolve_path = (\<lambda>s. filter (\<lambda>p. p \<noteq> [] \<and> p \<noteq> ''.'') (split_char CHR ''/'' s)),
     file_utf8 = (\<lambda>b. Ok (bytes_str b)), missing_file_error = ''No such file or directory (os error 2)'',
     read_line = (\<lambda>_. Err ''closed''), os_random = (\<lambda>n. Ok (replicate 32 (of_nat n))),
     datetime_format = (\<lambda>_ _. []), rfc3339 = (\<lambda>_. []), de_task_create = (\<lambda>s. Ok (s, None)),
     de_task_update = (\<lambda>s. Ok (Some s, None)), de_comment_input = (\<lambda>s. Ok s),
     de_delete_input = (\<lambda>_. Ok \<lparr> di_audit_patch = None \<rparr>) \<rparr>"

lemma demo_cli_fields [simp]:
  "stream_fails demo_cli = (\<lambda>_ _. None)" "flush_fails demo_cli = (\<lambda>_. None)" "json_pretty demo_cli = json_texts"
  "resolve_path demo_cli = (\<lambda>s. filter (\<lambda>p. p \<noteq> [] \<and> p \<noteq> ''.'') (split_char CHR ''/'' s))"
  "io_fails demo_cli = (\<lambda>_. None)" "home_dir demo_cli = Some [''home'']" "env_var demo_cli = (\<lambda>_. None)"
  "credentials_de demo_cli = (\<lambda>_. Ok demo_credentials)" "http_client_fails demo_cli = None"
  "sock_fails demo_cli = (\<lambda>_ _. None)" "agent_credentials_ser demo_cli = (\<lambda>_. Ok [2])"
  "temp_nonce demo_cli = ''nonce''"
  by (simp_all add: demo_cli_def runtime_ext.defs demo_runtime_def demo_base_def demo_api_def api_ext.defs
      storage_ext.defs demo_storage_defs)

lemma demo_cli_as_runtime [simp]:
  "url_parse demo_cli = url_parse demo_runtime" "url_clear_port demo_cli = url_clear_port demo_runtime"
  "url_set_path demo_cli = url_set_path demo_runtime" "url_as_str demo_cli = url_as_str demo_runtime"
  "b64_nopad_dec demo_cli = b64_nopad_dec demo_runtime" "b64_nopad_enc demo_cli = b64_nopad_enc demo_runtime"
  "b64_std_dec demo_cli = b64_std_dec demo_runtime" "b64_url_nopad_enc demo_cli = b64_url_nopad_enc demo_runtime"
  "b64_url_nopad_dec demo_cli = b64_url_nopad_dec demo_runtime" "b64_url_dec demo_cli = b64_url_dec demo_runtime"
  "sha256 demo_cli = sha256 demo_runtime" "uuid_display demo_cli = uuid_display demo_runtime"
  "keyring_fails demo_cli = (\<lambda>_. None)" "hash_first demo_cli = (\<lambda>_. 0)" "status_display demo_cli = status_display demo_runtime"
  "connect_error demo_cli = connect_error demo_runtime" "path_display demo_cli = concat"
  by (simp_all add: demo_cli_def runtime_ext.defs demo_defs demo_storage_defs grant_client_def demo_client_def)

lemma demo_cli_url [simp]: "normalize_api_url demo_cli = normalize_api_url demo_storage"
proof -
  have "normalize_api_url demo_cli = normalize_api_url demo_runtime"
    by (simp only: fun_eq_iff normalize_api_url_def canonicalize_api_url_def demo_cli_as_runtime) simp
  then show ?thesis by simp
qed

lemma demo_cli_io_do [simp]: "io_do demo_cli op m f d = (Ok (), f d)"
  by (simp add: io_do_def)

lemma demo_cli_config [simp]: "config_dir demo_cli = Ok [''home'', ''.worklist'']"
  by (simp add: config_dir_def)

lemma demo_cli_user:
  "load_credentials demo_cli demo_user_device = (Ok (Some demo_credentials), demo_user_device)"
  "load_agent_credentials demo_cli demo_user_device = (Ok None, demo_user_device)"
  by (simp_all add: load_credentials_def load_agent_credentials_def credentials_path_def agent_credentials_path_def
      load_config_file_def io_simps demo_user_device_def demo_device_def)

lemma demo_cli_principal:
  "load_principal_credentials_for_url demo_cli (rc_api_url demo_rc) SelectAuto demo_user_device =
     (Ok (Some (UserPrincipal demo_credentials)), demo_user_device)"
  by (simp add: load_principal_credentials_for_url_def load_credentials_for_url_def load_agent_credentials_for_url_def
      io_simps demo_cli_user demo_rc_def demo_credentials_def)

lemma demo_cli_session: "current_session_key demo_cli demo_rc demo_credentials = Ok demo_session"
proof -
  have "current_session_key demo_cli demo_rc demo_credentials = current_session_key demo_runtime demo_rc demo_credentials"
    by (simp add: current_session_key_def make_session_key_def daemon_decode_base64_def)
  then show ?thesis by (simp add: demo_session_key)
qed

text \<open>A user is logged in on the device, and the daemon holds the data key.\<close>
definition demo_shell :: shell where
  "demo_shell = \<lparr> sh_world = demo_world, sh_out = [], sh_err = [], sh_writes = 0 \<rparr>"

section \<open>An empty list of work lists\<close>

lemma demo_cli_clock [simp]:
  "unix_clock demo_cli = (\<lambda>n. of_nat (min n 100))" "utc_clock demo_cli = (\<lambda>n. - (10 ^ 12))"
  "de_work_lists demo_cli = (\<lambda>_. Ok [])" "checked_add_signed demo_cli = (\<lambda>t d. Some (t + d))"
  "duration_try_seconds demo_cli = (\<lambda>s. if \<bar>s\<bar> \<le> (2 ^ 63 - 1) div 1000 then Some (s * 10 ^ 9) else None)"
  by (simp_all add: demo_cli_def runtime_ext.defs demo_defs)

lemma demo_cli_logged_in:
  "wd_device w = demo_user_device \<Longrightarrow>
     require_principal_credentials demo_cli demo_rc w = (Ok (UserPrincipal demo_credentials), w)"
  using demo_cli_principal by (simp add: require_principal_credentials_def on_device_def io_simps io_then_def demo_rc_def)

lemma demo_cli_key_source:
  "\<exists>w. load_principal_work_list_key_source demo_cli server demo_rc False msg demo_world =
     (Ok (UserDataKey demo_list_key), w) \<and> wd_device w = demo_user_device"
proof -
  have "try_send_request demo_cli (GetSession demo_session) (wd_daemon demo_world) =
      (Ok (DataKeyIs (Some (hex_bytes (sym_bytes demo_list_key)))),
       \<lparr> dw_daemon = Some [(demo_session, \<lparr> st_data_key_b64 = hex_bytes (sym_bytes demo_list_key),
         st_expires_at_unix = 100 \<rparr>)], dw_reads = 1 \<rparr>)"
    by (simp add: try_send_request_def socket_path_def io_simps demo_world_def handle_request_def store_get_def
        prune_expired_def Let_def)
  moreover have "symmetric_key_from_bytes (sym_bytes demo_list_key) = Ok demo_list_key"
    by (simp add: symmetric_key_from_bytes_def demo_list_key_def)
  ultimately have "\<exists>d. fetch_data_key demo_cli demo_session (wd_daemon demo_world) = (Ok (Some demo_list_key), d)"
    by (simp add: fetch_data_key_def query_daemon_def daemon_decode_base64_def unhex_hex_bytes)
  then obtain d where fetched:
      "fetch_data_key demo_cli demo_session (wd_daemon demo_world) = (Ok (Some demo_list_key), d)"
    by blast
  have loaded: "load_data_key demo_cli server demo_rc demo_credentials False msg demo_world =
      (Ok demo_list_key, demo_world\<lparr>wd_daemon := d\<rparr>)"
    by (simp add: load_data_key_def demo_cli_session io_then_return io_then_def on_daemon_def fetched io_return_def)
  have "wd_device demo_world = demo_user_device" by (simp add: demo_world_def)
  from demo_cli_logged_in [OF this] have "load_principal_work_list_key_source demo_cli server demo_rc False msg demo_world =
      (Ok (UserDataKey demo_list_key), demo_world\<lparr>wd_daemon := d\<rparr>)"
    by (simp add: load_principal_work_list_key_source_def io_then_def io_map_def loaded)
  then show ?thesis by (simp add: demo_world_def)
qed

lemma demo_cli_client:
  assumes "wd_device w = demo_user_device"
  shows "\<exists>w'. authenticated_api_client demo_cli server demo_rc w = (Ok demo_bearer_client, w')"
proof -
  have "access_expires_within demo_cli demo_credentials (- (10 ^ 12)) 60 = Ok False"
    by (simp add: access_expires_within_def now_plus_def demo_credentials_def)
  then have "\<exists>w'. refresh_user_credentials_if_needed demo_cli server demo_rc demo_credentials w = (Ok demo_credentials, w')"
    by (simp add: refresh_user_credentials_if_needed_def utc_now_then io_then_return io_return_run)
  then obtain w' where "refresh_user_credentials_if_needed demo_cli server demo_rc demo_credentials w = (Ok demo_credentials, w')"
    by blast
  then show ?thesis
    by (simp add: authenticated_api_client_def fresh_principal_access_token_def io_map_def io_then_def
        demo_cli_logged_in [OF assms] demo_bearer_client_def) (simp add: demo_rc_def demo_credentials_def)
qed

lemma demo_cli_no_lists:
  "\<exists>w. runtime_list_work_lists demo_cli demo_echo demo_rc False demo_world = (Ok [], w)"
proof -
  obtain w1 where w1: "load_principal_work_list_key_source demo_cli demo_echo demo_rc False
        ''Password required to decrypt work lists.'' demo_world = (Ok (UserDataKey demo_list_key), w1)"
      "wd_device w1 = demo_user_device"
    using demo_cli_key_source by blast
  obtain w2 where w2: "authenticated_api_client demo_cli demo_echo demo_rc w1 = (Ok demo_bearer_client, w2)"
    using demo_cli_client [OF w1(2)] by blast
  have "\<exists>sent'. list_work_lists demo_cli demo_echo demo_bearer_client sent = (Ok [], sent')" for sent
    by (simp add: list_work_lists_def api_get_def send_run Let_def demo_echo_def handle_response_def response_json_def
        is_success_def)
  then obtain sent' where "list_work_lists demo_cli demo_echo demo_bearer_client (wd_sent w2) = (Ok [], sent')" by blast
  then show ?thesis
    by (simp add: runtime_list_work_lists_def io_then_def w1(1) w2 on_server_def io_return_def)
qed

end
