(* ===== verification/Cli_Thms.thy ===== *)
theory Cli_Thms
  imports Cli_Instance
begin

text \<open>What the command line promises: how errors are reported, that downloads stay where they belong and
  overwrite nothing unasked, that a logout forgets, that a registration leaves nothing half done, that the
  status shown is what commands act on.\<close>

section \<open>Tables\<close>

lemma chars_count_Cons: "chars_count (c # s) = (if is_continuation c then chars_count s else Suc (chars_count s))"
  by (simp add: chars_count_def)

lemma chars_count_append [simp]: "chars_count (s @ t) = chars_count s + chars_count t"
  by (simp add: chars_count_def)

lemma chars_count_take_chars: "chars_count (take_chars n s) = min n (chars_count s)"
  by (induction n s rule: take_chars.induct) (auto simp: chars_count_Cons chars_count_def split: nat.splits)

lemma take_chars_prefix: "\<exists>rest. s = take_chars n s @ rest"
proof (induction n s rule: take_chars.induct)
  case (2 n c s)
  show ?case
  proof (cases "is_continuation c")
    case True
    then show ?thesis using 2(1) by simp
  next
    case False
    then show ?thesis using 2(2) by (cases n) auto
  qed
qed simp

lemma chars_count_spaces: "chars_count (replicate n CHR '' '') = n"
  by (simp add: chars_count_def is_continuation_def)

text \<open>A cell of a table is the start of its text, cut to at most the width of the column and filled with
  spaces to exactly this width, counted in characters and not in bytes; a text that fits is whole.\<close>
theorem table_cells_aligned:
  "chars_count (pad_right width (truncate_text v width)) = width \<and>
   (\<exists>rest. v = truncate_text v width @ rest) \<and>
   (truncate_text v width = v \<longleftrightarrow> chars_count v \<le> width)"
proof (intro conjI)
  show "chars_count (pad_right width (truncate_text v width)) = width"
    by (simp add: pad_right_def truncate_text_def chars_count_spaces chars_count_take_chars)
  show "\<exists>rest. v = truncate_text v width @ rest"
    using take_chars_prefix [of v width] by (simp add: truncate_text_def)
  show "truncate_text v width = v \<longleftrightarrow> chars_count v \<le> width"
    using chars_count_take_chars [of width v] by (auto simp: truncate_text_def)
qed

section \<open>Attachment files\<close>

lemma set_split_char: "p \<in> set (split_char d s) \<Longrightarrow> d \<notin> set p"
proof (induction s arbitrary: p)
  case (Cons c s)
  then show ?case by (cases "split_char d s") (auto split: if_splits)
qed simp

lemma split_char_none: "d \<notin> set s \<Longrightarrow> split_char d s = [s]"
  by (induction s) auto

lemma set_trim: "set (trim s) \<subseteq> set s"
proof -
  have "set (trim_front ws t) \<subseteq> set t" for ws t
    by (metis le_supI2 set_append trim_front_suffix Un_upper2)
  then show ?thesis unfolding trim_def trim_end_def trim_start_def
    by (metis set_rev subset_trans)
qed

lemma path_file_name_no_slash: "path_file_name s = Some v \<Longrightarrow> CHR ''/'' \<notin> set v"
  unfolding path_file_name_def Let_def
  by (auto split: if_splits dest!: last_in_set dest: set_split_char)

lemma sanitize_char_neutral:
  "sanitize_attachment_file_name_char c \<noteq> CHR ''/''" "sanitize_attachment_file_name_char c \<noteq> CHR 0x5C"
  "sanitize_attachment_file_name_char c \<noteq> CHR 0x00"
  by (simp_all add: sanitize_attachment_file_name_char_def)

lemma sanitize_dot: "sanitize_attachment_file_name_char c = CHR ''.'' \<longleftrightarrow> c = CHR ''.''"
  by (simp add: sanitize_attachment_file_name_char_def)

lemma sanitize_dots:
  "map sanitize_attachment_file_name_char v = ''.'' \<longleftrightarrow> v = ''.''"
  "map sanitize_attachment_file_name_char v = ''..'' \<longleftrightarrow> v = ''..''"
  by (simp_all add: map_eq_Cons_conv sanitize_dot)

text \<open>C36: However the server names an attachment, the file it is saved to when the user names none is an entry
  of the current directory: one file name, without separators or NUL, neither empty nor a dot name, in no
  directory that would have to be made; and a plain name is kept as it is.\<close>
theorem download_stays_in_directory:
  "(let p = resolve_attachment_output_path file_name None in
      p \<noteq> [] \<and> p \<noteq> ''.'' \<and> p \<noteq> ''..'' \<and> CHR ''/'' \<notin> set p \<and> CHR 0x5C \<notin> set p \<and> CHR 0x00 \<notin> set p \<and>
      path_file_name p = Some p \<and> path_parent p = Some []) \<and>
   (resolve_attachment_output_path file_name None = file_name \<or> file_name \<in> {[], ''.'', ''..''} \<or>
      trim file_name \<noteq> file_name \<or> set file_name \<inter> {CHR ''/'', CHR 0x5C, CHR 0x00} \<noteq> {})"
proof
  let ?c = "case map_option trim (path_file_name file_name) of
      Some v \<Rightarrow> if v \<noteq> [] \<and> v \<noteq> ''.'' \<and> v \<noteq> ''..'' then v else ''attachment.bin''
    | None \<Rightarrow> ''attachment.bin''"
  obtain c where c: "c = ?c" "c \<noteq> []" "c \<noteq> ''.''" "c \<noteq> ''..''" by (simp split: option.splits)
  let ?p = "map sanitize_attachment_file_name_char c"
  have p: "resolve_attachment_output_path file_name None = ?p"
    unfolding resolve_attachment_output_path_def sanitize_attachment_file_name_def Let_def c(1) by simp
  have names: "?p \<noteq> []" "?p \<noteq> ''.''" "?p \<noteq> ''..''" using c(2-) by (simp_all only: sanitize_dots map_is_Nil_conv not_False_eq_True)
  have clean: "CHR ''/'' \<notin> set ?p" "CHR 0x5C \<notin> set ?p" "CHR 0x00 \<notin> set ?p"
    using sanitize_char_neutral by (auto dest: sym)
  note s = split_char_none [OF clean(1)]
  have "path_file_name ?p = Some ?p" unfolding path_file_name_def s Let_def using names by simp
  moreover have "path_parent ?p = Some []" unfolding path_parent_def s using names by simp
  ultimately show "let p = resolve_attachment_output_path file_name None in
      p \<noteq> [] \<and> p \<noteq> ''.'' \<and> p \<noteq> ''..'' \<and> CHR ''/'' \<notin> set p \<and> CHR 0x5C \<notin> set p \<and> CHR 0x00 \<notin> set p \<and>
      path_file_name p = Some p \<and> path_parent p = Some []"
    unfolding p Let_def using names clean by blast
next
  show "resolve_attachment_output_path file_name None = file_name \<or> file_name \<in> {[], ''.'', ''..''} \<or>
      trim file_name \<noteq> file_name \<or> set file_name \<inter> {CHR ''/'', CHR 0x5C, CHR 0x00} \<noteq> {}"
  proof (rule ccontr)
    assume "\<not> ?thesis"
    then have n: "resolve_attachment_output_path file_name None \<noteq> file_name" "file_name \<noteq> []" "file_name \<noteq> ''.''"
        "file_name \<noteq> ''..''" "trim file_name = file_name" "CHR ''/'' \<notin> set file_name"
        "CHR 0x5C \<notin> set file_name" "CHR 0x00 \<notin> set file_name" by auto
    have "path_file_name file_name = Some file_name"
      unfolding path_file_name_def split_char_none [OF n(6)] Let_def using n by simp
    moreover have "map sanitize_attachment_file_name_char file_name = file_name"
      using n(6-8) by (intro map_idI) (auto simp: sanitize_attachment_file_name_char_def)
    ultimately show False using n by (simp add: resolve_attachment_output_path_def sanitize_attachment_file_name_def)
  qed
qed

theorem download_stays_in_directory_witness:
  "resolve_attachment_output_path ''notes.txt'' None = ''notes.txt''"
proof -
  have "trim ''notes.txt'' = ''notes.txt''" by (rule trim_graphic) (simp_all add: graphic_def)
  with download_stays_in_directory [of "''notes.txt''"] show ?thesis by simp
qed

text \<open>C35: A download touches no file but its target.  Without \<open>--force\<close> a file that is there stays as it is and the
  command fails; with it, only the target changes.  On success the target holds exactly the bytes downloaded,
  with the mode it had, or the usual one when it is new.  No directory is removed or changed.\<close>
theorem download_keeps_existing_file:
  assumes "write_attachment_file C path contents force d = (r, d')"
  defines "p \<equiv> resolve_path C path"
  shows "r \<noteq> Abort \<and> (\<forall>q. q \<noteq> p \<longrightarrow> dv_files d' q = dv_files d q) \<and> dv_keyring d' = dv_keyring d \<and>
    (\<forall>q m. dv_dirs d q = Some m \<longrightarrow> dv_dirs d' q = Some m) \<and>
    (\<not> force \<and> file_exists p d \<longrightarrow> dv_files d' = dv_files d \<and> (\<exists>e. r = Err e)) \<and>
    (r = Ok () \<longrightarrow> dv_files d' p = Some \<lparr> fl_bytes = contents,
       fl_mode = (case dv_files d p of Some f \<Rightarrow> fl_mode f | None \<Rightarrow> 420) \<rparr>)"
proof -
  let ?prepare = "case path_parent path of
      Some parent \<Rightarrow>
        if parent = [] then io_return (Ok ())
        else io_do C (CreateDir (resolve_path C parent))
          (\<lambda>e. ''failed to create output directory '' @ parent @ '': '' @ e) (make_dirs (resolve_path C parent))
    | None \<Rightarrow> io_return (Ok ())"
  obtain r1 d1 where d1: "?prepare d = (r1, d1)" by fastforce
  have prepared: "dv_files d1 = dv_files d" "dv_keyring d1 = dv_keyring d"
      "\<forall>q m. dv_dirs d q = Some m \<longrightarrow> dv_dirs d1 q = Some m" "r1 \<noteq> Abort"
    using d1 by (auto simp: io_return_def io_do_def make_dirs_def split: option.splits if_splits)
  show ?thesis
  proof (cases r1)
    case (Ok u)
    then have "write_attachment_file C path contents force d =
        io_then (open_attachment_file C path force) (\<lambda>mode d.
          case io_fails C (WriteFile p) of
            Some e \<Rightarrow> (Err (Unexpected (''failed to write output file '' @ path @ '': '' @ e)),
              put_file p \<lparr> fl_bytes = partial_write C contents, fl_mode = mode \<rparr> d)
          | None \<Rightarrow> (Ok (), put_file p \<lparr> fl_bytes = contents, fl_mode = mode \<rparr> d)) d1"
      using d1 unfolding write_attachment_file_def Let_def p_def by (simp add: io_then_run)
    with assms(1) show ?thesis using prepared
      by (auto simp: io_then_def open_attachment_file_def Let_def p_def [symmetric] file_exists_def put_file_def
          split: if_splits option.splits)
  next
    case (Err e)
    then have "r = Err e" "d' = d1"
      using d1 assms(1) unfolding write_attachment_file_def Let_def by (simp_all add: io_then_run)
    then show ?thesis using prepared by simp
  qed (use prepared in simp)
qed

theorem download_keeps_existing_file_witness:
  "\<exists>d'. write_attachment_file demo_cli ''out/a.txt'' [1, 2] False demo_device = (Ok (), d') \<and>
     dv_files d' [''out'', ''a.txt''] = Some \<lparr> fl_bytes = [1, 2], fl_mode = 420 \<rparr>"
proof -
  have "[''out'', ''a.txt''] \<noteq> take i [''out'']" for i by (cases i) simp_all
  then have "\<exists>d'. write_attachment_file demo_cli ''out/a.txt'' [1, 2] False demo_device = (Ok (), d')"
    by (simp add: write_attachment_file_def path_parent_def io_do_def io_then_def io_return_def make_dirs_def
        open_attachment_file_def file_exists_def demo_device_def Let_def)
  then obtain d' where d': "write_attachment_file demo_cli ''out/a.txt'' [1, 2] False demo_device = (Ok (), d')" by blast
  show ?thesis using download_keeps_existing_file [OF d'] d' by (simp add: demo_device_def)
qed

section \<open>Printing\<close>

lemma io_keepsD: "io_keeps P m \<Longrightarrow> m s = (r, s') \<Longrightarrow> P s \<Longrightarrow> P s'"
  by (metis io_keeps_def snd_conv)

text \<open>What is printed leaves the client's state alone.\<close>
abbreviation world_is :: "world \<Rightarrow> shell \<Rightarrow> bool" where "world_is w s \<equiv> sh_world s = w"

lemma write_to_stream_world [intro]: "io_keeps (world_is w) (write_to_stream C st text action name ok)"
  by (auto simp: io_keeps_def write_to_stream_def Let_def write_out_def split: option.splits stream.splits)

lemma write_line_world [intro]: "io_keeps (world_is w) (write_line_to_stream C st text action name ok)"
  unfolding write_line_to_stream_def by (intro io_keeps_then write_to_stream_world)

lemma warning_lines_world [intro]: "io_keeps (world_is w) (warning_lines C ws)"
  by (induction ws) (auto intro!: io_keeps_then write_line_world)

lemma print_warnings_world [intro]: "io_keeps (world_is w) (print_warnings C format ws)"
  unfolding print_warnings_def write_warnings_def by (cases format) auto

lemma emit_warnings_world [intro]: "io_keeps (world_is w) (emit_warnings_best_effort C format ws)"
  using print_warnings_world [of w C format ws]
  unfolding emit_warnings_best_effort_def io_keeps_def by (fastforce split: prod.splits rust_result.splits)

lemma print_simple_world [intro]: "io_keeps (world_is w) (print_simple_result C format payload message)"
  unfolding print_simple_result_def print_pretty_json_def println_stdout_def by (cases format) auto

text \<open>Nothing that is printed makes the program panic.\<close>
lemma no_abort_then:
  "(\<And>s. fst (m s) \<noteq> Abort) \<Longrightarrow> (\<And>a s. fst (f a s) \<noteq> Abort) \<Longrightarrow> fst (io_then m f s) \<noteq> Abort"
  by (auto simp: io_then_def split: prod.splits rust_result.splits) (metis fst_conv)

lemma no_abort_result: "(\<And>s. fst (m s) \<noteq> Abort) \<Longrightarrow> fst (io_result m s) \<noteq> Abort"
  by (auto simp: io_result_def split: prod.splits rust_result.splits) (metis fst_conv)

lemma no_abort_on:
  "(\<And>s. fst (m s) \<noteq> Abort) \<Longrightarrow> fst (on_device m w) \<noteq> Abort"
  "(\<And>s. fst (m' s) \<noteq> Abort) \<Longrightarrow> fst (on_server m' w) \<noteq> Abort"
  "(\<And>s. fst (m'' s) \<noteq> Abort) \<Longrightarrow> fst (on_daemon m'' w) \<noteq> Abort"
  by (auto simp: on_device_def on_server_def on_daemon_def split: prod.splits) (metis fst_conv)+

lemma no_abort_public: "(\<And>w. fst (m w) \<noteq> Abort) \<Longrightarrow> fst (public_act m s) \<noteq> Abort"
  by (auto simp: public_act_def split: prod.splits) (metis fst_conv)

lemma no_abort_write: "fst (write_to_stream C st text action name ok s) \<noteq> Abort"
  by (simp add: write_to_stream_def Let_def split: option.splits)

lemma no_abort_write_line: "fst (write_line_to_stream C st text action name ok s) \<noteq> Abort"
  unfolding write_line_to_stream_def by (intro no_abort_then no_abort_write)

lemma no_abort_warnings: "fst (print_warnings C format ws s) \<noteq> Abort"
proof -
  have "fst (warning_lines C ws s) \<noteq> Abort" for s
  proof (induction ws arbitrary: s)
    case (Cons w ws)
    then show ?case unfolding warning_lines.simps by (intro no_abort_then no_abort_write_line)
  qed (simp add: io_return_def)
  then show ?thesis
    unfolding print_warnings_def write_warnings_def by (cases format) (simp_all add: no_abort_write_line io_return_def)
qed

lemma no_abort_emit: "fst (emit_warnings_best_effort C format ws s) \<noteq> Abort"
  using no_abort_warnings [of C format ws s] unfolding emit_warnings_best_effort_def
  by (auto split: prod.splits rust_result.splits)

lemma no_abort_simple: "fst (print_simple_result C format payload message s) \<noteq> Abort"
  unfolding print_simple_result_def print_pretty_json_def println_stdout_def
  by (cases format) (simp_all add: no_abort_write_line)

section \<open>Logout\<close>

lemma io_result_Ok: "io_result m s = (Ok r, s') \<longleftrightarrow> m s = (r, s') \<and> r \<noteq> Abort"
  by (auto simp: io_result_def split: prod.splits rust_result.splits)

lemma io_result_not_Err: "io_result m s \<noteq> (Err e, s')"
  by (auto simp: io_result_def split: prod.splits rust_result.splits)

text \<open>The daemon holds no key of the session.\<close>
definition session_absent :: "session_key \<Rightarrow> daemon_world \<Rightarrow> bool" where
  "session_absent sk w \<longleftrightarrow> (case dw_daemon w of Some store \<Rightarrow> map_of store sk = None | None \<Rightarrow> True)"

text \<open>The daemon could not be connected to, and still is as it was.\<close>
definition kept_unreachable :: "'x runtime_ext_scheme \<Rightarrow> session_key \<Rightarrow> daemon_world \<Rightarrow> daemon_world \<Rightarrow> bool" where
  "kept_unreachable R sk w w' \<longleftrightarrow>
     (\<exists>e. sock_fails R (dw_reads w) (DeleteSession sk) = Some (ConnectFailed e)) \<and> dw_daemon w' = dw_daemon w"

lemma try_send_delete:
  assumes "try_send_request R (DeleteSession sk) w = (r, w')" "socket_path R = Ok p"
  shows "(session_absent sk w' \<or> kept_unreachable R sk w w') \<and> (r = Ok Deleted \<or> (\<exists>e. r = Err e))"
  using assms
  by (auto simp: try_send_request_def io_then_return handle_request_def Let_def session_absent_def store_delete_def
      kept_unreachable_def AList.delete_conv' split: option.splits sock_failure.splits if_splits)

text \<open>Once the daemon is asked, it does not hold the session any more, whatever becomes of its answer.\<close>
lemma clear_session_absent:
  assumes "clear_session R sk w = (r, w')" "config_dir R = Ok dir"
  shows "session_absent sk w' \<or> kept_unreachable R sk w w'"
proof -
  have "socket_path R = Ok (dir @ [SOCKET_FILE_NAME])" using assms(2) by (simp add: socket_path_def)
  from try_send_delete [OF _ this, of sk w] show ?thesis
    using assms(1) by (auto simp: clear_session_def query_daemon_def split: prod.splits rust_result.splits if_splits)
qed

lemma remove_if_exists_Ok:
  assumes "remove_if_exists W p m d = (r, d')" "r = Ok () \<or> io_fails W (RemoveFile p) = None"
  shows "dv_files d' p = None"
  using assms by (auto simp: remove_if_exists_def file_exists_def io_do_def drop_file_def split: if_splits option.splits)

lemma clear_credentials_gone:
  assumes "clear_credentials W d = (r, d')" "config_dir W = Ok dir"
    and "r = Ok () \<or> io_fails W (RemoveFile (dir @ [''credentials.json''])) = None"
  shows "dv_files d' (dir @ [''credentials.json'']) = None"
proof (rule remove_if_exists_Ok)
  show "remove_if_exists W (dir @ [''credentials.json'']) (\<lambda>e. ''failed to remove '' @ ''credentials'' @ '' file: '' @ e) d = (r, d')"
    using assms(1,2) by (simp add: clear_credentials_def credentials_path_def io_then_return remove_config_file_def)
qed (rule assms(3))

lemma clear_agent_credentials_gone:
  assumes "clear_agent_credentials W d = (r, d')" "config_dir W = Ok dir"
    and "r = Ok () \<or> io_fails W (RemoveFile (dir @ [''agent.json''])) = None"
  shows "dv_files d' (dir @ [''agent.json'']) = None"
proof (rule remove_if_exists_Ok)
  show "remove_if_exists W (dir @ [''agent.json'']) (\<lambda>e. ''failed to remove '' @ ''agent credentials'' @ '' file: '' @ e) d = (r, d')"
    using assms(1,2) by (simp add: clear_agent_credentials_def agent_credentials_path_def io_then_return remove_config_file_def)
qed (rule assms(3))

lemma io_return_ne: "r \<noteq> Err e \<Longrightarrow> io_return r s \<noteq> (Err e, s')" by (simp add: io_return_def)

lemma record_cleanup_None:
  "record_logout_cleanup_result r e = None \<longleftrightarrow> e = None \<and> (\<forall>x. r \<noteq> Err x)"
  by (cases r; cases e) simp_all

text \<open>Only the last step of a logout speaks to the daemon.\<close>
lemma on_daemon_unchanged [simp]:
  "wd_daemon (snd (on_device m w)) = wd_daemon w" "wd_daemon (snd (on_server m' w)) = wd_daemon w"
  "snd (io_result act s) = snd (act s)"
  by (simp_all add: on_device_def on_server_def io_result_def split: prod.splits rust_result.splits)

lemma clear_persisted_daemon [simp]: "wd_daemon (snd (runtime_clear_persisted_data_key R K w)) = wd_daemon w"
proof -
  obtain r w1 where load: "on_device (load_credentials_for_url R (rc_api_url K)) w = (r, w1)" by fastforce
  then have "wd_daemon w1 = wd_daemon w"
    using on_daemon_unchanged(1) [of "load_credentials_for_url R (rc_api_url K)" w] by simp
  then show ?thesis
    by (auto simp: runtime_clear_persisted_data_key_def io_then_def io_return_def load split: rust_result.splits option.splits)
qed

lemma logout_user_effect:
  assumes "logout_user C server K c w = (Ok (ws, ce), w')" "config_dir C = Ok dir"
  shows "(ce = None \<or> io_fails C (RemoveFile (dir @ [''credentials.json''])) = None \<longrightarrow>
       dv_files (wd_device w') (dir @ [''credentials.json'']) = None) \<and>
    (case current_session_key C K c of
       Ok sk \<Rightarrow> session_absent sk (wd_daemon w') \<or> kept_unreachable C sk (wd_daemon w) (wd_daemon w')
     | _ \<Rightarrow> ce \<noteq> None)"
proof -
  obtain u w0 revoked w1 keychain cleared w2 session w3 where run: "new_http_client C w = (Ok u, w0)"
      "(io_result (on_server (auth_logout C server (rc_api_url K) (cr_refresh_token c))) :: string option public_result act) w0 =
        (Ok revoked, w1)"
      "(io_result (runtime_clear_persisted_data_key C K) :: unit public_result act) w1 = (Ok keychain, w2)"
      "(io_result (on_device (clear_credentials C)) :: unit public_result act) w2 = (Ok cleared, w3)"
      "(case current_session_key C K c of
         Ok sk \<Rightarrow> (io_result (on_daemon (clear_session C sk)) :: unit public_result act)
       | Err e \<Rightarrow> io_return (Ok (Err e))
       | Abort \<Rightarrow> io_return Abort) w3 = (Ok session, w')"
      "ce = record_logout_cleanup_result session (record_logout_cleanup_result cleared None)"
    using assms(1) unfolding logout_user_def
    by (elim run_elims, hypsubst) (rule that, assumption, assumption, assumption, assumption, assumption, simp)
  obtain d where d: "clear_credentials C (wd_device w2) = (cleared, d)" "wd_device w3 = d" "cleared \<noteq> Abort"
    using run(4) by (auto simp: io_result_Ok on_device_def split: prod.splits)
  have "w0 = w" using run(1) by (simp add: new_http_client_def io_return_def split: if_splits)
  moreover have "wd_daemon w1 = wd_daemon w0" using on_daemon_unchanged(2) [of _ w0] run(2) by (metis on_daemon_unchanged(3) snd_conv)
  moreover have "wd_daemon w2 = wd_daemon w1" using clear_persisted_daemon run(3) by (metis on_daemon_unchanged(3) snd_conv)
  moreover have "wd_daemon w3 = wd_daemon w2" using on_daemon_unchanged(1) run(4) by (metis on_daemon_unchanged(3) snd_conv)
  ultimately have daemon: "wd_daemon w3 = wd_daemon w" by simp
  have same: "wd_device w' = wd_device w3"
    using run(5) by (auto simp: io_result_Ok on_daemon_def io_return_def split: prod.splits rust_result.splits)
  have "session_absent sk (wd_daemon w') \<or> kept_unreachable C sk (wd_daemon w) (wd_daemon w')"
    if "current_session_key C K c = Ok sk" for sk
    using run(5) that clear_session_absent [OF _ assms(2)] daemon
    by (fastforce simp: io_result_Ok on_daemon_def split: prod.splits)
  moreover have "ce \<noteq> None" if "\<And>sk. current_session_key C K c \<noteq> Ok sk"
    using run(5,6) that by (cases "current_session_key C K c") (auto simp: io_return_def record_cleanup_None)
  moreover have "cleared = Ok ()" if "ce = None"
    using that run(6) d(3) by (cases cleared) (auto simp: record_cleanup_None)
  ultimately show ?thesis using clear_credentials_gone [OF d(1) assms(2)] d(2) same
    by (auto split: rust_result.splits)
qed

lemma logout_agent_effect:
  assumes "logout_agent C c w = (Ok (ws, ce), w')" "config_dir C = Ok dir"
    "ce = None \<or> io_fails C (RemoveFile (dir @ [''agent.json''])) = None"
  shows "dv_files (wd_device w') (dir @ [''agent.json'']) = None"
proof -
  obtain cleared w2 where run: "(io_result (on_device (clear_agent_credentials C)) :: unit public_result act) w2 = (Ok cleared, w')"
      "ce = record_logout_cleanup_result cleared None"
    using assms(1) unfolding logout_agent_def
    by (elim run_elims, hypsubst) (rule that, assumption, simp)
  then have "cleared = Ok () \<or> io_fails C (RemoveFile (dir @ [''agent.json''])) = None"
    using assms(3) by (cases cleared) (auto simp: io_result_Ok)
  with run(1) show ?thesis using clear_agent_credentials_gone [OF _ assms(2)]
    by (auto simp: io_result_Ok on_device_def split: prod.splits)
qed

lemma io_then_Ok_or_Abort:
  assumes "\<And>s e s'. m s \<noteq> (Err e, s')" "\<And>a s e s'. f a s \<noteq> (Err e, s')"
  shows "io_then m f s \<noteq> (Err e, s')"
  using assms by (auto simp: io_then_def split: prod.splits rust_result.splits)

lemma logout_user_not_Err: "logout_user C server K c s \<noteq> (Err e, s')"
  unfolding logout_user_def new_http_client_def
  by (intro io_then_Ok_or_Abort)
    (auto simp: io_result_not_Err io_return_def split: rust_result.splits)

lemma logout_agent_not_Err: "logout_agent C c s \<noteq> (Err e, s')"
  unfolding logout_agent_def by (intro io_then_Ok_or_Abort) (auto simp: io_result_not_Err io_return_def)


text \<open>What follows once the principal is found.\<close>
definition logout_finish ::
  "'x cli_ext_scheme \<Rightarrow> output_format \<Rightarrow> string \<Rightarrow> warning_result list \<times> public_error option \<Rightarrow> unit cli" where
  "logout_finish C format url = (\<lambda>(warnings, cleanup_error). case cleanup_error of
       Some e \<Rightarrow> io_return (Err (with_warnings e warnings))
     | None \<Rightarrow>
         io_then (emit_warnings_best_effort C format warnings) (\<lambda>_.
         print_simple_result C format (logout_result_json
           \<lparr> lo_logged_out = True, lo_api_url = Some url, lo_reason = None \<rparr>) ''Logged out successfully.''))"

lemma cmd_logout_found:
  assumes "load_principal_credentials_for_url C (rc_api_url K) selection (wd_device (sh_world s)) = (Ok (Some p), d)"
  shows "cmd_logout C server format K selection s =
    io_then (public_act (case p of UserPrincipal c \<Rightarrow> logout_user C server K c | AgentPrincipal c \<Rightarrow> logout_agent C c))
      (logout_finish C format (rc_api_url K)) (s\<lparr>sh_world := (sh_world s)\<lparr>wd_device := d\<rparr>\<rparr>)"
proof -
  have "public_act (on_device (load_principal_credentials_for_url C (rc_api_url K) selection)) s =
      (Ok (Some p), s\<lparr>sh_world := (sh_world s)\<lparr>wd_device := d\<rparr>\<rparr>)"
    by (simp add: public_act_def on_device_def assms)
  then show ?thesis by (simp add: cmd_logout_def logout_finish_def io_then_run(1))
qed

lemma logout_finish_world: "io_keeps (world_is w) (logout_finish C format url (ws, ce))"
  by (cases ce) (simp_all add: logout_finish_def io_keeps_then emit_warnings_world print_simple_world)

lemma no_abort_finish: "fst (logout_finish C format url x s) \<noteq> Abort"
  by (cases x; cases "snd x") (simp_all add: logout_finish_def no_abort_then no_abort_emit no_abort_simple io_return_def)







lemma demo_clears_session: "fst (clear_session demo_cli sk w) \<noteq> Abort"
  by (auto simp: clear_session_def query_daemon_def try_send_request_def socket_path_def io_then_return handle_request_def
      Let_def split: option.splits)

lemma demo_clears_credentials: "fst (clear_credentials demo_cli d) \<noteq> Abort"
  by (simp add: clear_credentials_def credentials_path_def io_then_return remove_config_file_def remove_if_exists_def)

lemma trim_zeros: "trim ''00'' = ''00''" by (rule trim_graphic) (simp_all add: graphic_def)

lemma demo_clears_keychain: "fst (runtime_clear_persisted_data_key demo_cli demo_rc w) \<noteq> Abort"
proof -
  have b: "current_backend demo_cli = PlatformKeyring" by (simp add: current_backend_def)
  have d: "decode_bytes demo_cli ''00'' = Ok [0]"
    using trim_zeros by (simp add: decode_bytes_def unhex_digit_def)
  have "fst (clear_persisted_data_key demo_cli demo_credentials d) \<noteq> Abort" for d
    by (auto simp: clear_persisted_data_key_def b backend_clear_def platform_keyring_entry_def io_then_return
        persisted_data_key_entry_name_def data_key_fingerprint_def demo_credentials_def keyring_new_def keyring_delete_def
        d split: option.splits)
  then show ?thesis
    by (auto simp: runtime_clear_persisted_data_key_def on_device_def load_credentials_for_url_def load_credentials_def io_map_def
        credentials_path_def load_config_file_def io_simps io_then_def case_prod_beta split: option.splits if_splits)
qed

lemma demo_logs_out: "fst (auth_logout demo_cli demo_echo url t sent) \<noteq> Abort"
  by (simp add: auth_logout_def io_map_def send_auth_request_def io_map_err_def transmit_def demo_echo_def)


section \<open>Reporting errors\<close>

text \<open>What \<open>print_cli_error\<close> says.\<close>
definition error_report :: "'x cli_ext_scheme \<Rightarrow> output_format \<Rightarrow> cli_error \<Rightarrow> string" where
  "error_report C format e =
     (case format of
        Json \<Rightarrow> json_pretty C (stderr_envelope_json (cli_warnings e) (Some (cli_error_result e))) @ newline
      | Table \<Rightarrow> concat (map (\<lambda>w. ''warning: '' @ wr_message w @ newline) (cli_warnings e)) @
          ''error: '' @ cli_display e @ newline)"

text \<open>A line that is written whole.\<close>
lemma write_line_run:
  assumes "\<And>n. stream_fails C st n = None"
  shows "write_line_to_stream C st text action name ok s =
    (Ok (), write_out st (text @ newline) (s\<lparr>sh_writes := sh_writes s + 2\<rparr>))"
  using assms
  by (cases st) (simp_all add: write_line_to_stream_def write_to_stream_def io_then_def write_out_def Let_def)

lemma warning_lines_run:
  assumes "\<And>n. stream_fails C Stderr n = None"
  shows "warning_lines C ws s =
    (Ok (), write_out Stderr (concat (map (\<lambda>w. ''warning: '' @ wr_message w @ newline) ws))
       (s\<lparr>sh_writes := sh_writes s + 2 * length ws\<rparr>))"
proof (induction ws arbitrary: s)
  case (Cons w ws)
  show ?case by (simp add: io_then_def write_line_run [OF assms] Cons.IH) (simp add: write_out_def)
qed (simp add: io_return_def write_out_def)

lemma print_cli_error_run:
  assumes "\<And>n. stream_fails C Stderr n = None"
  shows "\<exists>n. print_cli_error C e format s = (Ok (), write_out Stderr (error_report C format e) (s\<lparr>sh_writes := n\<rparr>))"
proof (cases format)
  case Json
  then show ?thesis
    by (auto simp: print_cli_error_def print_json_stderr_def print_pretty_json_stderr_def write_stderr_line_def
        write_line_run [OF assms] error_report_def)
next
  case Table
  have ws: "\<exists>n. print_warnings C Table ws s =
      (Ok (), write_out Stderr (concat (map (\<lambda>w. ''warning: '' @ wr_message w @ newline) ws)) (s\<lparr>sh_writes := n\<rparr>))" for ws
    by (auto simp: print_warnings_def write_warnings_def warning_lines_run [OF assms] io_return_def write_out_def
        intro!: exI [of _ "sh_writes s + 2 * length ws"])
  obtain n where "print_warnings C Table (cli_warnings e) s =
      (Ok (), write_out Stderr (concat (map (\<lambda>w. ''warning: '' @ wr_message w @ newline) (cli_warnings e))) (s\<lparr>sh_writes := n\<rparr>))"
    using ws by blast
  then show ?thesis using Table
    by (auto simp: print_cli_error_def io_then_def write_stderr_line_def write_line_run [OF assms] error_report_def write_out_def)
qed

text \<open>Reporting goes to the standard error stream only.\<close>
lemma report_keeps:
  "io_keeps (\<lambda>s. sh_world s = w \<and> sh_out s = out) (print_cli_error C e format)"
proof -
  let ?P = "\<lambda>s :: shell. sh_world s = w \<and> sh_out s = out"
  have line: "io_keeps ?P (write_line_to_stream C Stderr l action name ok)" for l action name ok
    unfolding write_line_to_stream_def
    by (intro io_keeps_then) (auto simp: io_keeps_def write_to_stream_def Let_def write_out_def split: option.splits)
  have "io_keeps ?P (warning_lines C ws)" for ws
    by (induction ws) (simp_all add: io_keeps_then line)
  then have "io_keeps ?P (print_warnings C Table ws)" for ws
    by (simp add: print_warnings_def write_warnings_def)
  then show ?thesis
    by (cases format) (simp_all add: print_cli_error_def print_json_stderr_def print_pretty_json_stderr_def
        write_stderr_line_def io_keeps_then line)
qed

lemma no_abort_cli_error: "fst (print_cli_error C e format s) \<noteq> Abort"
  by (cases format)
    (simp_all add: print_cli_error_def print_json_stderr_def print_pretty_json_stderr_def write_stderr_line_def
      no_abort_then no_abort_warnings no_abort_write_line)

text \<open>A command that fails makes the program exit with status 1, unless the reader of its output has gone,
  which is no failure.  The report leaves the standard output and the client's state alone; with a standard
  error stream that works, it adds there exactly the JSON envelope, or the warnings and the error on lines of
  their own.\<close>
theorem main_reports_errors:
  assumes "parse args = Ok parsed"
    and "run C server serve parsed (output_format_from_raw_args args) s = (Err e, s1)"
  shows "\<exists>s'. main C server serve parse args s = (Exit (if e = BrokenPipe then 0 else 1), s') \<and>
    sh_world s' = sh_world s1 \<and> sh_out s' = sh_out s1 \<and> (e = BrokenPipe \<longrightarrow> s' = s1) \<and>
    (e \<noteq> BrokenPipe \<and> (\<forall>n. stream_fails C Stderr n = None) \<longrightarrow>
       sh_err s' = sh_err s1 @ error_report C (output_format_from_raw_args args) e)"
proof (cases "e = BrokenPipe")
  case True
  then show ?thesis using assms by (simp add: main_def Let_def)
next
  case False
  let ?format = "output_format_from_raw_args args"
  obtain r s' where r: "print_cli_error C e ?format s1 = (r, s')" by fastforce
  have "r \<noteq> Abort" using no_abort_cli_error r by (metis fst_conv)
  moreover have "main C server serve parse args s = exit_after (print_cli_error C e ?format) 1 s1"
    using False assms by (cases e) (simp_all add: main_def Let_def)
  ultimately have "main C server serve parse args s = (Exit 1, s')"
    using r by (simp add: exit_after_def split: rust_result.splits)
  moreover have "sh_world s' = sh_world s1 \<and> sh_out s' = sh_out s1"
    using io_keepsD [OF report_keeps r, of "sh_world s1" "sh_out s1"] by simp
  moreover have "sh_err s' = sh_err s1 @ error_report C ?format e" if "\<forall>n. stream_fails C Stderr n = None"
    using print_cli_error_run [of C e ?format s1] that r by (auto simp: write_out_def)
  ultimately show ?thesis using False by simp
qed

theorem main_reports_errors_witness:
  "\<exists>s'. main demo_cli demo_echo (\<lambda>_. io_return (Ok ())) (\<lambda>_. Ok \<lparr> ca_api_url = ''https://h/api'', ca_json = False,
       ca_principal = None, ca_serve_unlock_daemon = None, ca_command = None \<rparr>) [] demo_shell = (Exit 1, s') \<and>
     sh_err s' = ''error: '' @ public_display (Validation ''a command is required'') @ newline \<and> sh_out s' = []"
proof -
  let ?args = "\<lparr> ca_api_url = ''https://h/api'', ca_json = False, ca_principal = None, ca_serve_unlock_daemon = None,
      ca_command = None \<rparr>"
  have "run demo_cli demo_echo (\<lambda>_. io_return (Ok ())) ?args (output_format_from_raw_args []) demo_shell =
      (Err (Public (Validation ''a command is required'')), demo_shell)"
    by (simp add: run_def io_return_def Let_def)
  from main_reports_errors [of "\<lambda>_. Ok ?args", OF refl this] show ?thesis
    by (auto simp: error_report_def output_format_from_raw_args_def cli_display_def demo_shell_def)
qed

section \<open>Listings\<close>

lemma print_pretty_json_run:
  assumes "\<And>n. stream_fails C Stdout n = None"
  shows "print_pretty_json C v s = (Ok (), write_out Stdout (json_pretty C v @ newline) (s\<lparr>sh_writes := sh_writes s + 2\<rparr>))"
  by (simp add: print_pretty_json_def println_stdout_def write_line_run [OF assms])

text \<open>With \<open>--json\<close>, \<open>lists\<close> prints the decrypted work lists as one JSON array.  When there is none it prints a
  sentence, which is no JSON, instead of the empty array.\<close>
theorem lists_printed:
  assumes "\<And>n. stream_fails C Stdout n = None"
    and "runtime_list_work_lists C server K password_stdin (sh_world s) = (Ok ls, w)"
  shows "\<exists>s'. cmd_lists C server K Json verbose password_stdin False s = (Ok (), s') \<and> sh_world s' = w \<and>
    sh_err s' = sh_err s \<and>
    sh_out s' = sh_out s @ (if ls = [] then ''No work lists found.''
      else json_pretty C (JArray (map (work_list_summary_json C) ls))) @ newline"
  using assms(2)
  by (auto simp: cmd_lists_def public_act_def io_then_def print_work_lists_def print_formatted_def
      print_pretty_json_run [OF assms(1)] println_stdout_def write_line_run [OF assms(1)] write_out_def)

theorem lists_printed_witness:
  "\<exists>s'. cmd_lists demo_cli demo_echo demo_rc Json False False False demo_shell = (Ok (), s') \<and>
     sh_out s' = ''No work lists found.'' @ newline"
proof -
  obtain w where "runtime_list_work_lists demo_cli demo_echo demo_rc False (sh_world demo_shell) = (Ok [], w)"
    using demo_cli_no_lists by (auto simp: demo_shell_def)
  from lists_printed [OF _ this, of False] show ?thesis by (auto simp: demo_shell_def)
qed

section \<open>Status\<close>

lemma on_device_load:
  assumes "snd (m (wd_device w)) = wd_device w" shows "on_device m w = (fst (m (wd_device w)), w)"
  using assms by (simp add: on_device_def case_prod_beta)

lemma logged_in_status_Ok:
  assumes "logged_in_auth_status C c current w = (Ok status, w')"
  obtains s where "status = LoggedIn s" "li_principal_type s = ''user''" "li_user_id s = Some (cr_user_id c)"
    "li_api_url s = cr_api_url c" "li_agent_id s = None" "li_api_url_mismatch s = None \<longleftrightarrow> cr_api_url c = current"
  using assms unfolding logged_in_auth_status_def
  by (elim run_elims) (hypsubst, drule rust_result.inject(1) [THEN iffD1, OF sym], rule that, assumption, simp_all add: api_url_mismatch_of_def)

lemma logged_in_agent_status_Ok:
  assumes "logged_in_agent_auth_status C c current w = (Ok status, w')"
  obtains s where "status = LoggedIn s" "li_principal_type s = ''agent''" "li_agent_id s = Some (ac_agent_id c)"
    "li_api_url s = ac_api_url c" "li_user_id s = None" "li_api_url_mismatch s = None \<longleftrightarrow> ac_api_url c = current"
  using assms unfolding logged_in_agent_auth_status_def
  by (elim run_elims) (hypsubst, drule rust_result.inject(1) [THEN iffD1, OF sym], rule that, assumption, simp_all add: api_url_mismatch_of_def)

text \<open>The status names the principal.\<close>
fun status_names :: "logged_in_status \<Rightarrow> principal_credentials \<Rightarrow> bool" where
  "status_names s (UserPrincipal c) \<longleftrightarrow> li_principal_type s = ''user'' \<and> li_user_id s = Some (cr_user_id c) \<and>
     li_agent_id s = None \<and> li_api_url s = cr_api_url c"
| "status_names s (AgentPrincipal c) \<longleftrightarrow> li_principal_type s = ''agent'' \<and> li_agent_id s = Some (ac_agent_id c) \<and>
     li_user_id s = None \<and> li_api_url s = ac_api_url c"

text \<open>C40: The status shown agrees with what the other commands act on: it reports no mismatch of the API URL
  exactly when they find a principal for this URL and choice, it names then this principal, and when it says that
  nobody is logged in they find none.\<close>
theorem status_agrees_with_selection:
  assumes "load_auth_status C api_url selection w = (Ok status, w')"
  shows "let found = fst (load_principal_credentials_for_url C api_url selection (wd_device w)) in
    case status of
      LoggedIn s \<Rightarrow>
        (if li_api_url_mismatch s = None then \<exists>p. found = Ok (Some p) \<and> status_names s p
         else \<forall>p. found \<noteq> Ok (Some p))
    | LoggedOut _ \<Rightarrow> \<forall>p. found \<noteq> Ok (Some p)"
proof -
  let ?url = "normalize_api_url C api_url"
  let ?d = "wd_device w"
  obtain user agent where loads: "fst (load_credentials C ?d) = Ok user" "fst (load_agent_credentials C ?d) = Ok agent"
    using assms
    by (cases "fst (load_credentials C ?d)"; cases "fst (load_agent_credentials C ?d)")
      (auto simp: load_auth_status_def Let_def io_then_def on_device_load)
  let ?u = "case user of Some c \<Rightarrow> if cr_api_url c = ?url then Some c else None | None \<Rightarrow> None"
  let ?a = "case agent of Some c \<Rightarrow> if ac_api_url c = ?url then Some c else None | None \<Rightarrow> None"
  have "load_credentials_for_url C api_url ?d = (Ok ?u, ?d)" "load_agent_credentials_for_url C api_url ?d = (Ok ?a, ?d)"
    by (simp_all add: load_credentials_for_url_def load_agent_credentials_for_url_def io_map_def loads)
  then have found: "fst (load_principal_credentials_for_url C api_url selection ?d) = select_principal_credentials selection ?u ?a"
    by (simp add: load_principal_credentials_for_url_def io_then_def io_return_def)
  note run = assms [unfolded load_auth_status_def Let_def]
  show ?thesis
    using run unfolding found Let_def
    by (cases selection; cases user; cases agent)
      (auto simp: io_then_def on_device_load loads io_return_def logged_out_auth_status_def split: if_splits
        elim!: logged_in_status_Ok logged_in_agent_status_Ok)
qed

theorem status_agrees_with_selection_witness:
  "\<exists>s w'. load_auth_status demo_cli (rc_api_url demo_rc) SelectAuto demo_world = (Ok (LoggedIn s), w') \<and>
     li_api_url_mismatch s = None \<and> status_names s (UserPrincipal demo_credentials)"
proof -
  have d: "wd_device demo_world = demo_user_device" by (simp add: demo_world_def)
  have url: "normalize_api_url demo_cli (rc_api_url demo_rc) = cr_api_url demo_credentials"
    by (simp add: demo_rc_def demo_credentials_def)
  have sk: "cli_session_key demo_cli demo_credentials = Ok demo_session"
    using demo_cli_session by (simp add: cli_session_key_def current_session_key_def demo_rc_def demo_credentials_def)
  have "\<exists>r d. query_unlock_status demo_cli sk w = (Ok r, d)" if "dw_daemon w \<noteq> None" for sk w
    using that by (auto simp: query_unlock_status_def query_daemon_def try_send_request_def socket_path_def io_then_return
        handle_request_def Let_def case_prod_beta)
  moreover have "dw_daemon (wd_daemon demo_world) \<noteq> None" by (simp add: demo_world_def)
  ultimately obtain r d where q: "query_unlock_status demo_cli (Some demo_session) (wd_daemon demo_world) = (Ok r, d)" by blast
  have "\<exists>state w'. session_state demo_cli demo_credentials w = (Ok state, w')" for w
    by (auto simp: session_state_def utc_now_then io_return_def)
  then obtain state w' where st: "session_state demo_cli demo_credentials (demo_world\<lparr>wd_daemon := d\<rparr>) = (Ok state, w')" by blast
  have "\<exists>status w'. load_auth_status demo_cli (rc_api_url demo_rc) SelectAuto demo_world = (Ok status, w')"
    unfolding load_auth_status_def Let_def
    by (auto simp: io_then_def on_device_load d demo_cli_user logged_in_auth_status_def sk io_return_def on_daemon_def q st io_get_def)
  then obtain status w' where "load_auth_status demo_cli (rc_api_url demo_rc) SelectAuto demo_world = (Ok status, w')" by blast
  from status_agrees_with_selection [OF this] this show ?thesis
    by (auto simp: d demo_cli_principal Let_def split: auth_status_result.splits if_splits)
qed

section \<open>Registration\<close>

lemma write_temporary_keeps:
  assumes "write_temporary W t p contents label d = (Err e, d')" "t \<noteq> p" "io_fails W (SyncDir (butlast p)) = None"
  shows "dv_files d' p = dv_files d p"
  using assms
  unfolding write_temporary_def Let_def io_then_def write_all_def set_contents_def sync_directory_def io_do_def
  by (auto simp: put_file_def split: option.splits)

lemma secret_file_kept:
  assumes "write_secret_file_atomic W p contents label d = (Err e, d')" "io_fails W (SyncDir (butlast p)) = None"
  shows "dv_files d' p = dv_files d p"
proof (cases "p = []")
  case False
  let ?t = "temporary_secret_path W p"
  note neq = temporary_neq [OF False, of W]
  show ?thesis
  proof (cases "file_exists ?t d \<or> io_fails W (CreateFile ?t) \<noteq> None")
    case False
    let ?d1 = "put_file ?t \<lparr> fl_bytes = [], fl_mode = SECRET_MODE \<rparr> d"
    obtain r2 d2 where w: "write_temporary W ?t p contents label ?d1 = (r2, d2)" by fastforce
    then obtain e2 where "r2 = Err e2" "remove_temporary W ?t label e2 d2 = (Err e, d')"
      using assms(1) False \<open>p \<noteq> []\<close>
      by (cases r2) (auto simp: write_secret_file_atomic_def Let_def io_then_def create_secret_file_def io_do_def)
    with write_temporary_keeps [OF _ neq assms(2)] w neq show ?thesis
      by (auto simp: remove_temporary_def drop_file_def put_file_def split: if_splits option.splits)
  qed (use assms(1) \<open>p \<noteq> []\<close> in \<open>auto simp: write_secret_file_atomic_def Let_def io_then_def create_secret_file_def
      io_do_def split: if_splits option.splits\<close>)
qed (use assms(1) in \<open>simp add: write_secret_file_atomic_def io_return_def\<close>)

lemma ensure_config_dir_files: "dv_files (snd (ensure_config_dir W d)) = dv_files d"
  by (cases "config_dir W")
    (auto simp: ensure_config_dir_def io_then_def io_return_def io_map_def set_config_dir_permissions_def io_do_def
      split: option.splits)

lemma save_agent_credentials_kept:
  assumes "save_agent_credentials W c d = (Err e, d')" "agent_credentials_path W = Ok p"
    and "io_fails W (SyncDir (butlast p)) = None"
  shows "dv_files d' p = dv_files d p"
  using assms secret_file_kept [OF _ assms(3)] ensure_config_dir_files [of W d]
  by (auto simp: save_agent_credentials_def save_config_file_def io_then_def io_return_def
      split: prod.splits rust_result.splits)

lemma save_agent_credentials_stored:
  assumes "save_agent_credentials W c d = (Ok (), d')" "agent_credentials_path W = Ok p"
  obtains b where "agent_credentials_ser W c = Ok b" "dv_files d' p = Some \<lparr>fl_bytes = b, fl_mode = SECRET_MODE\<rparr>"
proof -
  have "save_config_file W (agent_credentials_ser W) p c ''agent credentials'' d = (Ok (), d')"
    using assms by (simp add: save_agent_credentials_def io_then_return)
  then show thesis by (rule save_config_file_Ok) (use that in blast)
qed

text \<open>Saving the seed, wherever it goes, leaves the credentials alone.\<close>
lemma save_agent_seed_keeps:
  assumes "save_agent_seed C c seed d = (Ok (), d')" "agent_credentials_path C = Ok p"
  shows "dv_files d' p = dv_files d p"
proof -
  obtain dir where dir: "config_dir C = Ok dir" "p = dir @ [''agent.json'']"
    using assms(2) by (auto simp: agent_credentials_path_def)
  then obtain q where q: "agent_seed_file_path C c = Ok q" "q \<noteq> p" by (simp add: agent_seed_file_path_def)
  have written: "dv_files d2 p = dv_files d1 p" if "save_agent_seed_to_file C c seed d1 = (Ok (), d2)" for d1 d2
    using seed_file_saved [OF that q(1)] q(2) dir(2) by simp
  have clear: "dv_files d2 p = dv_files d1 p" if "clear_agent_seed_file C c d1 = (Ok (), d2)" for d1 d2
    using seed_file_cleared [OF that q(1)] q(2) by simp
  show ?thesis using assms(1) written clear
    by (fastforce simp: save_agent_seed_def io_then_def io_return_def keyring_set_def
        split: if_splits rust_result.splits prod.splits option.splits)
qed

text \<open>What follows once the credentials are saved.\<close>
lemma save_registered_agent_after:
  assumes "save_agent_credentials C c (wd_device (sh_world s)) = (Ok (), d1)" "save_agent_seed C c seed d1 = (r2, d2)"
    and "clear_agent_credentials C d2 = (r3, d3)" "save_registered_agent C c seed s = (r, s')"
  shows "case r2 of
      Ok _ \<Rightarrow> wd_device (sh_world s') = d2 \<and> r = Ok ()
    | Err _ \<Rightarrow> r \<noteq> Ok () \<and> (\<forall>e. r = Err (Public e) \<longrightarrow> wd_device (sh_world s') = d3 \<and> r3 = Ok ())
    | Abort \<Rightarrow> r = Abort"
  using assms
  by (auto simp: save_registered_agent_def io_then_def public_act_def on_device_def io_result_def io_return_def
      with_warnings_def split: rust_result.splits)

lemma save_registered_agent_refused:
  assumes "save_agent_credentials C c (wd_device (sh_world s)) = (r1, d1)" "r1 \<noteq> Ok ()"
    and "save_registered_agent C c seed s = (r, s')"
  shows "r = map_err Public r1 \<and> wd_device (sh_world s') = d1"
  using assms by (cases r1) (auto simp: save_registered_agent_def io_then_def public_act_def on_device_def)

text \<open>C34: A registration leaves nothing half done, when there were no agent credentials before and the directory is
  synced without failure, which alone could fail after the credentials are in place.  When it succeeds, the
  agent's credentials are stored, and the seed that is loaded for them is the one of the new key, if it has the
  32 bytes of a seed and the keychain is in reach for reading exactly if it was for writing.  When it fails with an
  error and no warning, whatever failed, the keychain that refuses the seed included, no agent credentials are
  left in the way of the next attempt; a failed removal of them is what the warning would say.\<close>
theorem registration_all_or_nothing:
  assumes "save_registered_agent C c seed s = (r, s')" "agent_credentials_path C = Ok p"
    and "dv_files (wd_device (sh_world s)) p = None" "io_fails C (SyncDir (butlast p)) = None"
  shows "(r = Ok () \<longrightarrow>
      (\<exists>b. agent_credentials_ser C c = Ok b \<and> map_option fl_bytes (dv_files (wd_device (sh_world s')) p) = Some b) \<and>
      (length seed = 32 \<and> seed_place C c \<noteq> None \<longrightarrow>
         fst (load_agent_seed C c (wd_device (sh_world s'))) = Ok (Some seed))) \<and>
    (\<forall>e. r = Err (Public e) \<longrightarrow> dv_files (wd_device (sh_world s')) p = None)"
proof (cases "fst (save_agent_credentials C c (wd_device (sh_world s)))")
  case (Ok u)
  then obtain d1 where d1: "save_agent_credentials C c (wd_device (sh_world s)) = (Ok (), d1)"
    by (cases "save_agent_credentials C c (wd_device (sh_world s))") simp
  obtain r2 d2 where d2: "save_agent_seed C c seed d1 = (r2, d2)" by fastforce
  obtain r3 d3 where d3: "clear_agent_credentials C d2 = (r3, d3)" by fastforce
  note after = save_registered_agent_after [OF d1 d2 d3 assms(1)]
  obtain b where b: "agent_credentials_ser C c = Ok b" "dv_files d1 p = Some \<lparr>fl_bytes = b, fl_mode = SECRET_MODE\<rparr>"
    by (rule save_agent_credentials_stored [OF d1 assms(2)])
  show ?thesis
  proof (cases r2)
    case (Ok u2)
    then have saved: "save_agent_seed C c seed d1 = (Ok (), d2)" using d2 by simp
    have "fst (load_agent_seed C c d2) = Ok (Some seed)" if "length seed = 32" "seed_place C c \<noteq> None"
      using agent_seed_store.save_load [OF saved _ that(1), of c] that(2) by (simp add: seed_same_def)
    then show ?thesis using save_agent_seed_keeps [OF saved assms(2)] b after Ok by simp
  next
    case (Err e)
    obtain dir where "config_dir C = Ok dir" "p = dir @ [''agent.json'']"
      using assms(2) by (auto simp: agent_credentials_path_def)
    then show ?thesis using Err after clear_agent_credentials_gone [OF d3] by auto
  qed (use after in simp)
next
  case (Err e)
  then obtain d1 where d1: "save_agent_credentials C c (wd_device (sh_world s)) = (Err e, d1)" by (metis prod.collapse)
  then show ?thesis
    using save_registered_agent_refused [OF d1 _ assms(1)] save_agent_credentials_kept [OF d1 assms(2,4)] assms(3) by simp
next
  case Abort
  then obtain d1 where d1: "save_agent_credentials C c (wd_device (sh_world s)) = (Abort, d1)" by (metis prod.collapse)
  then show ?thesis using save_registered_agent_refused [OF d1 _ assms(1)] by simp
qed

theorem registration_all_or_nothing_witness:
  "\<exists>s'. save_registered_agent demo_cli demo_agent_credentials (replicate 32 1)
       (demo_shell\<lparr>sh_world := demo_world\<lparr>wd_device := demo_device\<rparr>\<rparr>) = (Ok (), s') \<and>
     fst (load_agent_seed demo_cli demo_agent_credentials (wd_device (sh_world s'))) = Ok (Some (replicate 32 1))"
proof -
  let ?s = "demo_shell\<lparr>sh_world := demo_world\<lparr>wd_device := demo_device\<rparr>\<rparr>"
  have f: "should_force_agent_seed_file_backend demo_cli = False" by (simp add: should_force_agent_seed_file_backend_def)
  have place: "seed_place demo_cli demo_agent_credentials \<noteq> None"
    by (simp add: seed_place_def agent_seed_file_path_def agent_seed_keyring_entry_def keyring_new_def f)
  have "fst (save_agent_credentials demo_cli demo_agent_credentials demo_device) = Ok ()"
    by (simp add: save_agent_credentials_def agent_credentials_path_def save_config_file_def ensure_config_dir_def
        set_config_dir_permissions_def io_simps write_secret_file_atomic_def write_temporary_def write_all_def set_contents_def
        create_secret_file_def sync_directory_def file_exists_def demo_device_def io_then_def Let_def
        temporary_secret_path_def io_map_def)
  then obtain d1 where d1: "save_agent_credentials demo_cli demo_agent_credentials demo_device = (Ok (), d1)"
    by (metis prod.collapse)
  have "fst (save_agent_seed demo_cli demo_agent_credentials v d1) = Ok ()" for v
    by (simp add: save_agent_seed_def f agent_seed_keyring_entry_def keyring_new_def io_then_return keyring_set_def
        clear_agent_seed_file_def agent_seed_file_path_def remove_if_exists_def)
  then have "\<exists>d. save_agent_seed demo_cli demo_agent_credentials v d1 = (Ok (), d)" for v
    by (metis prod.collapse)
  then obtain d2 where d2: "save_agent_seed demo_cli demo_agent_credentials (replicate 32 1) d1 = (Ok (), d2)" by blast
  have "\<exists>s'. save_registered_agent demo_cli demo_agent_credentials (replicate 32 1) ?s = (Ok (), s')"
    by (simp add: save_registered_agent_def io_then_def public_act_def on_device_def d1 io_result_def d2 io_return_def)
  then obtain s' where s': "save_registered_agent demo_cli demo_agent_credentials (replicate 32 1) ?s = (Ok (), s')" by blast
  show ?thesis using registration_all_or_nothing [OF s'] place s'
    by (simp add: agent_credentials_path_def demo_device_def)
qed

end
