(* ===== verification/Cli_Contract.thy ===== *)
theory Cli_Contract
  imports Cli_Thms
begin

text \<open>What a script that runs the program may rely on, whatever the command: the exit status, and that with
  \<open>--json\<close> standard output carries one document or nothing.  Both go through every command: \<open>quiet\<close>, \<open>answers\<close> and
  \<open>pipe_safe\<close> are kept by sequences and case distinctions, and hold of what a command is made of.\<close>

section \<open>Standard output\<close>

text \<open>The operation prints nothing on standard output.\<close>
definition quiet :: "'a cli \<Rightarrow> bool" where
  "quiet m \<longleftrightarrow> (\<forall>s. sh_out (snd (m s)) = sh_out s)"

text \<open>The operation prints one line, or text of several, that \<open>D\<close> allows, and prints it only when it succeeds.\<close>
definition answers :: "(string \<Rightarrow> bool) \<Rightarrow> unit cli \<Rightarrow> bool" where
  "answers D m \<longleftrightarrow> (\<forall>s. case m s of
     (Ok _, s') \<Rightarrow> \<exists>t. D t \<and> sh_out s' = sh_out s @ t @ newline
   | (_, s') \<Rightarrow> sh_out s' = sh_out s)"

named_theorems quiet_rules \<open>operations that print nothing\<close>
named_theorems answer_rules \<open>operations that print one answer\<close>

lemma quiet_act [quiet_rules]: "quiet (public_act m)" "quiet (public_return r)" "quiet (io_return r')"
  by (simp_all add: quiet_def public_act_def public_return_def io_return_def case_prod_beta)

lemma quiet_then [quiet_rules]: "quiet m \<Longrightarrow> (\<And>a. quiet (f a)) \<Longrightarrow> quiet (io_then m f)"
  by (auto simp: quiet_def io_then_def split: prod.splits rust_result.splits) (metis snd_conv)+

lemma quiet_map [quiet_rules]: "quiet m \<Longrightarrow> quiet (io_map f m)"
  by (simp add: quiet_def io_map_def)

lemma quiet_if [quiet_rules]: "quiet m \<Longrightarrow> quiet m' \<Longrightarrow> quiet (if b then m else m')"
  by simp

lemma quiet_result [quiet_rules]:
  "(\<And>a. quiet (f a)) \<Longrightarrow> (\<And>e. quiet (g e)) \<Longrightarrow> quiet h \<Longrightarrow>
     quiet (case x of Ok a \<Rightarrow> f a | Err e \<Rightarrow> g e | Abort \<Rightarrow> h)"
  by (cases x) simp_all

lemma quiet_option [quiet_rules]: "quiet m \<Longrightarrow> (\<And>a. quiet (f a)) \<Longrightarrow> quiet (case x of None \<Rightarrow> m | Some a \<Rightarrow> f a)"
  by (cases x) simp_all

lemma quiet_keychain [quiet_rules]:
  "(\<And>b. quiet (f b)) \<Longrightarrow> quiet m \<Longrightarrow> quiet (case c of KeychainStore b \<Rightarrow> f b | KeychainClear \<Rightarrow> m)"
  by (cases c) simp_all

lemma quiet_emit [quiet_rules]: "quiet (emit_warnings_best_effort C format ws)"
proof -
  have line: "quiet (write_line_to_stream C Stderr l action name ok)" for l action name ok
    unfolding write_line_to_stream_def
    by (intro quiet_then) (simp_all add: quiet_def write_to_stream_def Let_def write_out_def split: option.splits)
  have "quiet (warning_lines C ws)" for ws
    by (induction ws) (simp_all add: quiet_then quiet_act line)
  then have "quiet (print_warnings C format ws)"
    by (cases format) (simp_all add: print_warnings_def write_warnings_def line quiet_act)
  then show ?thesis
    by (auto simp: quiet_def emit_warnings_best_effort_def split: prod.splits rust_result.splits) (metis snd_conv)+
qed

lemma quiet_password [quiet_rules]:
  "quiet (require_password_stdin_for_json_command format b name)" "quiet (cli_read_required_password C b None)"
  unfolding require_password_stdin_for_json_command_def cli_read_required_password_def option.case
  by (intro quiet_rules)+

lemma answers_then [answer_rules]:
  assumes "quiet m" "\<And>a. answers D (f a)" shows "answers D (io_then m f)"
  unfolding answers_def
proof
  fix s
  obtain r s1 where m: "m s = (r, s1)" by fastforce
  have out: "sh_out s1 = sh_out s" using assms(1) m unfolding quiet_def by (metis snd_conv)
  show "case io_then m f s of (Ok _, s') \<Rightarrow> \<exists>t. D t \<and> sh_out s' = sh_out s @ t @ newline | (_, s') \<Rightarrow> sh_out s' = sh_out s"
  proof (cases r)
    case (Ok a)
    then have "io_then m f s = f a s1" by (simp add: io_then_def m)
    then show ?thesis using assms(2) [of a, unfolded answers_def, rule_format, of s1] by (simp only: out)
  qed (simp_all add: io_then_def m out)
qed

lemma answers_err [answer_rules]: "answers D (io_return (Err e))"
  by (simp add: answers_def io_return_def)

lemma answers_if [answer_rules]: "answers D m \<Longrightarrow> answers D m' \<Longrightarrow> answers D (if b then m else m')"
  by simp

lemma answers_println:
  assumes "\<And>n. stream_fails C Stdout n = None" "D t" shows "answers D (println_stdout C t)"
  using assms(2) by (auto simp: answers_def println_stdout_def write_line_run [OF assms(1)] write_out_def)

lemma answers_json:
  assumes "\<And>n. stream_fails C Stdout n = None" "\<And>v. D (json_pretty C v)" shows "answers D (print_pretty_json C v)"
  unfolding print_pretty_json_def by (rule answers_println) (rule assms)+

lemma answers_option [answer_rules]:
  "answers D m \<Longrightarrow> (\<And>a. answers D (f a)) \<Longrightarrow> answers D (case x of None \<Rightarrow> m | Some a \<Rightarrow> f a)"
  by (cases x) simp_all

lemma answers_prod [answer_rules]: "(\<And>a b. answers D (f a b)) \<Longrightarrow> answers D (case p of (a, b) \<Rightarrow> f a b)"
  by (cases p) simp

lemma answers_status:
  "(\<And>a. answers D (f a)) \<Longrightarrow> (\<And>a. answers D (g a)) \<Longrightarrow> answers D (case x of LoggedIn a \<Rightarrow> f a | LoggedOut a \<Rightarrow> g a)"
  by (cases x) simp_all

text \<open>What is printed with \<open>--json\<close> by the printers of a value.\<close>
lemmas json_printers = print_formatted_def print_simple_result_def print_delete_result_def print_user_def
  print_work_lists_def print_work_list_detail_def print_tasks_def print_task_detail_def print_stats_def
  print_comments_def print_comment_json_def print_readable_attachment_def print_raw_work_lists_def
  print_raw_work_list_detail_def print_raw_tasks_def print_raw_my_tasks_def print_raw_task_detail_def
  print_download_result_def print_login_result_def print_unlock_result_def print_agent_summaries_def output_format.case

section \<open>Every command\<close>

definition none_found :: "string list" where
  "none_found = [''No work lists found.'', ''No tasks found.'', ''No tasks found in this work list.'', ''No assigned tasks found.'']"

text \<open>The commands that list work lists or tasks.\<close>
fun lists_found :: "command \<Rightarrow> bool" where
  "lists_found (WorkLists _ _ _ c) \<longleftrightarrow> c = None"
| "lists_found (Tasks (TasksList _ _ _ _ _)) \<longleftrightarrow> True"
| "lists_found (Tasks (TasksAssigned _ _ _)) \<longleftrightarrow> True"
| "lists_found _ \<longleftrightarrow> False"

definition document :: "'x cli_ext_scheme \<Rightarrow> string \<Rightarrow> bool" where
  "document C t \<longleftrightarrow> (\<exists>v. t = json_pretty C v)"

lemma answers_mono: "answers D m \<Longrightarrow> (\<And>t. D t \<Longrightarrow> D' t) \<Longrightarrow> answers D' m"
  by (fastforce simp: answers_def split: prod.splits rust_result.splits)

lemma json_answers:
  assumes "\<And>n. stream_fails C Stdout n = None"
  shows "answers (document C) (cmd_info C K)"
    "answers (document C) (run_auth C server Json K selection a)"
    "answers (document C) (run_agent C server Json K g)"
    "answers (document C) (cmd_me C server K Json)"
    "answers (document C) (cmd_lists_get C server K Json wid b raw)"
    "answers (document C) (cmd_stats C server K Json)"
    "answers (document C) (cmd_comments C server K Json c)"
proof -
  have v: "answers (document C) (print_pretty_json C v)" for v
    by (rule answers_json [OF assms]) (auto simp: document_def)
  note defs = json_printers Let_def simp_thms
  note rules = v answer_rules quiet_rules
  show "answers (document C) (cmd_info C K)" unfolding cmd_info_def by (rule v)
  show "answers (document C) (cmd_me C server K Json)" unfolding cmd_me_def defs by (intro rules)
  show "answers (document C) (cmd_stats C server K Json)" unfolding cmd_stats_def defs by (intro rules)
  show "answers (document C) (cmd_lists_get C server K Json wid b raw)" unfolding cmd_lists_get_def defs by (intro rules)
  show "answers (document C) (cmd_comments C server K Json c)"
    unfolding cmd_comments_def cmd_comments_list_def cmd_comments_create_def cmd_comments_update_def cmd_comments_delete_def defs
    by (cases c; simp only: comments_command.case; intro rules)
  show "answers (document C) (run_agent C server Json K g)"
    unfolding run_agent_def cmd_agent_register_def cmd_agent_approve_def cmd_agent_list_def cmd_agent_revoke_def
      save_registered_agent_def defs
    by (cases g; simp only: agent_command.case; intro rules)
  have "answers (document C) (cmd_login C server Json url email b)" for url email b
    unfolding cmd_login_def defs
    by (cases email; simp only: output_format.distinct option.distinct option.case simp_thms if_True if_False;
        intro rules)
  moreover have "answers (document C) (cmd_logout C server Json K selection)" "answers (document C) (cmd_status C Json url selection)" for url
    unfolding cmd_logout_def cmd_status_def defs
    by (intro rules answers_status)+
  moreover have "answers (document C) (cmd_unlock C server Json K ttl b)" "answers (document C) (cmd_lock C Json)"
      "answers (document C) (cmd_keychain C server Json K k)" for ttl b k
    unfolding cmd_unlock_def cmd_lock_def cmd_keychain_def defs by (intro rules)+
  ultimately show "answers (document C) (run_auth C server Json K selection a)"
    unfolding run_auth_def by (cases a) (simp_all only: auth_command.case)
qed

definition printed :: "'x cli_ext_scheme \<Rightarrow> command option \<Rightarrow> string \<Rightarrow> bool" where
  "printed C c t \<longleftrightarrow> document C t \<or> (case c of Some c \<Rightarrow> lists_found c | None \<Rightarrow> False) \<and> t \<in> set none_found"

lemma answers_listing [answer_rules]:
  assumes "\<And>n. stream_fails C Stdout n = None" "t \<in> set none_found" "\<And>xs. answers (document C) (f xs)" "quiet m"
  shows "answers (\<lambda>t. document C t \<or> t \<in> set none_found)
    (io_then m (\<lambda>xs. if g xs = [] then println_stdout C t else f xs))"
  by (intro answers_then answers_if answers_println assms answers_mono [OF assms(3)]) (simp_all add: assms)

lemma listing_answers:
  assumes "\<And>n. stream_fails C Stdout n = None"
  shows "answers (\<lambda>t. document C t \<or> t \<in> set none_found) (cmd_lists C server K Json verbose b raw)"
    "answers (\<lambda>t. document C t \<or> t \<in> set none_found) (cmd_tasks_list C server K Json wid completed all_lists b raw)"
    "answers (\<lambda>t. document C t \<or> t \<in> set none_found) (cmd_tasks_assigned C server K Json completed b raw)"
proof -
  have v: "answers (document C) (print_pretty_json C v)" for v
    by (rule answers_json [OF assms]) (auto simp: document_def)
  note rules = answers_option answers_if answers_listing [OF assms] v quiet_rules
  show "answers (\<lambda>t. document C t \<or> t \<in> set none_found) (cmd_lists C server K Json verbose b raw)"
    unfolding cmd_lists_def json_printers by (intro rules) (simp_all add: none_found_def)
  show "answers (\<lambda>t. document C t \<or> t \<in> set none_found) (cmd_tasks_assigned C server K Json completed b raw)"
    unfolding cmd_tasks_assigned_def list_raw_my_tasks_def json_printers by (intro rules) (simp_all add: none_found_def)
  show "answers (\<lambda>t. document C t \<or> t \<in> set none_found) (cmd_tasks_list C server K Json wid completed all_lists b raw)"
    unfolding cmd_tasks_list_def list_raw_my_tasks_def json_printers Let_def by (intro rules) (simp_all add: none_found_def)
qed

lemma task_answers:
  assumes "\<And>n. stream_fails C Stdout n = None" "\<not> lists_found (Tasks c)"
  shows "answers (document C) (cmd_tasks C server K Json c)"
proof -
  have v: "answers (document C) (print_pretty_json C v)" for v
    by (rule answers_json [OF assms(1)]) (auto simp: document_def)
  note rules = v answer_rules quiet_rules
  note defs = json_printers Let_def
  have "answers (document C) (cmd_task_attachments C server K Json a)" for a
    unfolding cmd_task_attachments_def defs by (cases a; simp only: task_attachments_command.case; intro rules)
  then show ?thesis using assms(2)
    unfolding cmd_tasks_def cmd_tasks_get_def cmd_tasks_create_def cmd_tasks_update_def cmd_tasks_accept_def cmd_tasks_move_def
      cmd_tasks_archive_def cmd_tasks_unarchive_def cmd_tasks_delete_def defs
    by (cases c; simp only: tasks_command.case lists_found.simps simp_thms; intro rules)
qed

lemma printed_document: "answers (document C) m \<Longrightarrow> answers (printed C c) m"
  by (erule answers_mono) (simp add: printed_def)

lemma printed_listing:
  assumes "answers (\<lambda>t. document C t \<or> t \<in> set none_found) m" "lists_found c" shows "answers (printed C (Some c)) m"
  using assms(1) by (rule answers_mono) (simp add: printed_def assms(2))

lemma tasks_printed:
  assumes "\<And>n. stream_fails C Stdout n = None"
  shows "answers (printed C (Some (Tasks t))) (cmd_tasks C server K Json t)"
proof (cases "lists_found (Tasks t)")
  case True
  then show ?thesis
    by (intro printed_listing) (cases t; simp add: cmd_tasks_def listing_answers [OF assms])
qed (rule printed_document [OF task_answers [OF assms]])

lemma run_answers:
  assumes "\<And>n. stream_fails C Stdout n = None" "ca_serve_unlock_daemon args = None"
  shows "answers (printed C (ca_command args)) (run C server serve args Json)"
proof (cases "ca_command args")
  case None
  then show ?thesis using assms(2) by (simp add: run_def Let_def answers_err)
next
  case (Some c)
  show ?thesis using assms(2)
    unfolding run_def Let_def Some option.case
    by (cases c) (auto intro!: tasks_printed [OF assms(1)] printed_listing [OF listing_answers(1) [OF assms(1)]]
      printed_document [OF json_answers(1) [OF assms(1)]] printed_document [OF json_answers(2) [OF assms(1)]]
      printed_document [OF json_answers(3) [OF assms(1)]] printed_document [OF json_answers(4) [OF assms(1)]]
      printed_document [OF json_answers(5) [OF assms(1)]] printed_document [OF json_answers(6) [OF assms(1)]]
      printed_document [OF json_answers(7) [OF assms(1)]] split: option.split lists_command.split)
qed

section \<open>The reader of standard output\<close>

text \<open>Nothing that standard output refuses is taken for the end of its reader.\<close>
definition pipe_open :: "'x cli_ext_scheme \<Rightarrow> bool" where
  "pipe_open C \<longleftrightarrow> (\<forall>n f. stream_fails C Stdout n = Some f \<longrightarrow> \<not> sf_broken_pipe f) \<and>
     (\<forall>n f. flush_fails C n = Some f \<longrightarrow> \<not> sf_broken_pipe f)"

text \<open>The operation never ends because its reader has gone.\<close>
definition pipe_safe :: "'a cli \<Rightarrow> bool" where
  "pipe_safe m \<longleftrightarrow> (\<forall>s. fst (m s) \<noteq> Err BrokenPipe)"

named_theorems pipe_rules \<open>operations that never end because their reader has gone\<close>

lemma pipe_act [pipe_rules]: "pipe_safe (public_act m)" "pipe_safe (public_return r)"
  by (auto simp: pipe_safe_def public_act_def public_return_def io_return_def map_err_eq_Err split: prod.splits)

lemma pipe_return [pipe_rules]: "pipe_safe (io_return (Ok a))" "pipe_safe (io_return (Err (Public e)))"
    "pipe_safe (io_return (Err (with_warnings e ws)))"
  by (simp_all add: pipe_safe_def io_return_def with_warnings_def)

lemma pipe_err [pipe_rules]:
  "pipe_safe (io_return (Err (case x of Ok _ \<Rightarrow> Public e | Err a \<Rightarrow> with_warnings e (ws a) | Abort \<Rightarrow> Public e)))"
  by (cases x) (simp_all add: pipe_return)

lemma pipe_then [pipe_rules]: "pipe_safe m \<Longrightarrow> (\<And>a. pipe_safe (f a)) \<Longrightarrow> pipe_safe (io_then m f)"
  by (auto simp: pipe_safe_def io_then_def split: prod.splits rust_result.splits) (metis fst_conv)

lemma pipe_map [pipe_rules]: "pipe_safe m \<Longrightarrow> pipe_safe (io_map f m)"
  by (auto simp: pipe_safe_def io_map_def map_ok_eq_Err)

lemma pipe_cases [pipe_rules]:
  "pipe_safe m \<Longrightarrow> pipe_safe m' \<Longrightarrow> pipe_safe (if b then m else m')"
  "pipe_safe m \<Longrightarrow> (\<And>a. pipe_safe (f a)) \<Longrightarrow> pipe_safe (case x of None \<Rightarrow> m | Some a \<Rightarrow> f a)"
  "(\<And>a b. pipe_safe (p a b)) \<Longrightarrow> pipe_safe (case y of (a, b) \<Rightarrow> p a b)"
  "pipe_safe m \<Longrightarrow> pipe_safe m' \<Longrightarrow> pipe_safe (case format of Table \<Rightarrow> m | Json \<Rightarrow> m')"
  "(\<And>a. pipe_safe (h a)) \<Longrightarrow> (\<And>a. pipe_safe (g a)) \<Longrightarrow> pipe_safe (case st of LoggedIn a \<Rightarrow> h a | LoggedOut a \<Rightarrow> g a)"
  "(\<And>b. pipe_safe (k b)) \<Longrightarrow> pipe_safe m \<Longrightarrow> pipe_safe (case c of KeychainStore b \<Rightarrow> k b | KeychainClear \<Rightarrow> m)"
  by (auto split: option.splits prod.splits output_format.splits auth_status_result.splits keychain_command.splits)

lemma pipe_result [pipe_rules]:
  "(\<And>a. pipe_safe (f a)) \<Longrightarrow> (\<And>e. pipe_safe (g e)) \<Longrightarrow> pipe_safe h \<Longrightarrow>
     pipe_safe (case x of Ok a \<Rightarrow> f a | Err e \<Rightarrow> g e | Abort \<Rightarrow> h)"
  by (cases x) simp_all

lemma pipe_emit [pipe_rules]: "pipe_safe (emit_warnings_best_effort C format ws)"
  by (auto simp: pipe_safe_def emit_warnings_best_effort_def split: prod.splits rust_result.splits)

lemma pipe_out:
  assumes "pipe_open C"
  shows "pipe_safe (write_to_stream C Stdout t action name ok)" "pipe_safe (flush_stdout C)"
    "pipe_safe (println_stdout C t)" "pipe_safe (print_stdout C t)" "pipe_safe (print_lines C ts)"
    "pipe_safe (print_pretty_json C v)"
proof -
  have w: "pipe_safe (write_to_stream C Stdout t action name ok)" for t action name ok
    using assms
    by (auto simp: pipe_safe_def pipe_open_def write_to_stream_def map_stream_error_def Let_def split: option.splits)
  have l: "pipe_safe (println_stdout C t)" for t
    unfolding println_stdout_def write_line_to_stream_def by (intro w pipe_then)
  show "pipe_safe (write_to_stream C Stdout t action name ok)" "pipe_safe (println_stdout C t)" by (rule w l)+
  show "pipe_safe (flush_stdout C)"
    using assms by (auto simp: pipe_safe_def pipe_open_def flush_stdout_def map_stream_error_def split: option.splits)
  show "pipe_safe (print_stdout C t)" unfolding print_stdout_def by (rule w)
  show "pipe_safe (print_pretty_json C v)" unfolding print_pretty_json_def by (rule l)
  show "pipe_safe (print_lines C ts)" by (induction ts) (simp_all add: pipe_return pipe_then l)
qed

lemmas printers = print_formatted_def print_simple_result_def print_delete_result_def print_user_def
  print_work_lists_def print_work_list_detail_def print_tasks_def print_task_detail_def print_stats_def
  print_comments_def print_comment_json_def print_readable_attachment_def print_raw_work_lists_def
  print_raw_work_list_detail_def print_raw_tasks_def print_raw_my_tasks_def print_raw_task_detail_def
  print_download_result_def print_login_result_def print_unlock_result_def print_agent_summaries_def

lemma run_pipe_safe:
  assumes "pipe_open C"
  shows "pipe_safe (run C server serve args format)"
proof -
  note rules = pipe_rules pipe_out [OF assms]
  note defs = printers Let_def
  have input: "pipe_safe (require_password_stdin_for_json_command format b name)"
      "pipe_safe (cli_read_required_password C b m)" "pipe_safe (cli_prompt C label)" for b name m label
    unfolding require_password_stdin_for_json_command_def cli_read_required_password_def cli_prompt_def by (intro rules)+
  have "pipe_safe (run_auth C server format K selection a)" for K selection a
    unfolding run_auth_def cmd_login_def cmd_unlock_def cmd_lock_def cmd_keychain_def cmd_logout_def cmd_status_def defs
    by (cases a; simp only: auth_command.case; intro rules input)
  moreover have "pipe_safe (run_agent C server format K g)" for K g
    unfolding run_agent_def cmd_agent_register_def cmd_agent_approve_def cmd_agent_list_def cmd_agent_revoke_def
      save_registered_agent_def defs
    by (cases g; simp only: agent_command.case; intro rules input)
  moreover have "pipe_safe (cmd_comments C server K format c)" for K c
    unfolding cmd_comments_def cmd_comments_list_def cmd_comments_create_def cmd_comments_update_def cmd_comments_delete_def defs
    by (cases c; simp only: comments_command.case; intro rules)
  moreover have "pipe_safe (cmd_tasks C server K format c)" for K c
  proof -
    have "pipe_safe (cmd_task_attachments C server K format a)" for a
      unfolding cmd_task_attachments_def defs by (cases a; simp only: task_attachments_command.case; intro rules)
    then show ?thesis
      unfolding cmd_tasks_def cmd_tasks_list_def cmd_tasks_assigned_def list_raw_my_tasks_def cmd_tasks_get_def
        cmd_tasks_create_def cmd_tasks_update_def cmd_tasks_accept_def cmd_tasks_move_def cmd_tasks_archive_def
        cmd_tasks_unarchive_def cmd_tasks_delete_def defs
      by (cases c; simp only: tasks_command.case; intro rules)
  qed
  moreover have "pipe_safe (cmd_info C K)" "pipe_safe (cmd_me C server K format)" "pipe_safe (cmd_stats C server K format)"
      "pipe_safe (cmd_lists C server K format verbose b raw)" "pipe_safe (cmd_lists_get C server K format wid b raw)"
    for K verbose b raw wid
    unfolding cmd_info_def cmd_me_def cmd_stats_def cmd_lists_def cmd_lists_get_def defs by (intro rules)+
  ultimately show ?thesis
    unfolding run_def Let_def by (auto intro!: rules split: option.splits command.splits lists_command.splits)
qed

section \<open>The program\<close>

text \<open>What a run of the program comes to, when the command line is understood.\<close>
lemma main_outcome:
  assumes "pipe_open C" "parse args = Ok parsed" "output_format_from_raw_args args = format"
    and "run C server serve parsed format s = (r, s1)"
  shows "\<exists>s'. main C server serve parse args s =
      (case r of Ok _ \<Rightarrow> Exit 0 | Err _ \<Rightarrow> Exit 1 | Abort \<Rightarrow> Panicked, s') \<and>
    sh_world s' = sh_world s1 \<and> sh_out s' = sh_out s1 \<and>
    (case r of
       Err e \<Rightarrow> (\<forall>n. stream_fails C Stderr n = None) \<longrightarrow>
         sh_err s' = sh_err s1 @ error_report C format e
     | _ \<Rightarrow> s' = s1)"
proof (cases r)
  case (Err e)
  obtain r' s' where report: "print_cli_error C e format s1 = (r', s')" by fastforce
  have "r' \<noteq> Abort" using no_abort_cli_error [of C e format s1] report by simp
  moreover have "e \<noteq> BrokenPipe"
    using run_pipe_safe [OF assms(1), of server serve parsed format] assms(4) Err
    unfolding pipe_safe_def by (metis fst_conv)
  ultimately have "main C server serve parse args s = (Exit 1, s')"
    using assms(2-4) Err report by (cases e; cases r') (simp_all add: main_def Let_def exit_after_def)
  moreover have "sh_world s' = sh_world s1 \<and> sh_out s' = sh_out s1"
    using io_keepsD [OF report_keeps report, of "sh_world s1" "sh_out s1"] by simp
  moreover have "sh_err s' = sh_err s1 @ error_report C format e" if "\<forall>n. stream_fails C Stderr n = None"
    using print_cli_error_run [of C e format s1] that report by (auto simp: write_out_def)
  ultimately show ?thesis using Err by simp
qed (use assms in \<open>simp_all add: main_def Let_def\<close>)

text \<open>C37: The exit status tells how the command ended.  Unless the reader of standard output goes away, it is 0
  exactly for a command that succeeded, 1 exactly for one that failed, and a panic shows as one.  After a success nothing more is
  written; after a failure only standard error is, and when it works the report of this error is added there.\<close>
theorem exit_status_faithful:
  assumes "pipe_open C" "parse args = Ok parsed" "run C server serve parsed (output_format_from_raw_args args) s = (r, s1)"
  shows "\<exists>s'. main C server serve parse args s =
      (case r of Ok _ \<Rightarrow> Exit 0 | Err _ \<Rightarrow> Exit 1 | Abort \<Rightarrow> Panicked, s') \<and>
    sh_world s' = sh_world s1 \<and> sh_out s' = sh_out s1 \<and>
    (case r of
       Err e \<Rightarrow> (\<forall>n. stream_fails C Stderr n = None) \<longrightarrow>
         sh_err s' = sh_err s1 @ error_report C (output_format_from_raw_args args) e
     | _ \<Rightarrow> s' = s1)"
  by (rule main_outcome) (rule assms refl)+

theorem exit_status_faithful_witness:
  "\<exists>s'. main demo_cli demo_echo (\<lambda>_. io_return (Ok ())) (\<lambda>_. Ok \<lparr> ca_api_url = ''https://h/api'', ca_json = False,
       ca_principal = None, ca_serve_unlock_daemon = None, ca_command = None \<rparr>) [] demo_shell = (Exit 1, s') \<and>
     sh_err s' = ''error: '' @ public_display (Validation ''a command is required'') @ newline \<and> sh_out s' = []"
proof -
  let ?args = "\<lparr> ca_api_url = ''https://h/api'', ca_json = False, ca_principal = None, ca_serve_unlock_daemon = None,
      ca_command = None \<rparr>"
  have "run demo_cli demo_echo (\<lambda>_. io_return (Ok ())) ?args (output_format_from_raw_args []) demo_shell =
      (Err (Public (Validation ''a command is required'')), demo_shell)"
    by (simp add: run_def io_return_def Let_def)
  moreover have "pipe_open demo_cli" by (simp add: pipe_open_def)
  ultimately show ?thesis using exit_status_faithful [of demo_cli "\<lambda>_. Ok ?args" "[]" ?args]
    by (fastforce simp: error_report_def output_format_from_raw_args_def cli_display_def demo_shell_def)
qed

text \<open>C38: What a script can rely on when it passes \<open>--json\<close> and the streams work.  A command that succeeds has written exactly
  one line, or document of several, to standard output: a JSON document, or, from the commands that list work lists or tasks, a
  sentence saying that there is none.  One that fails has written nothing there, exits with status 1 and ends standard
  error with one JSON report.  So does a command line that is refused, with the parser's status.\<close>
theorem json_output_contract:
  assumes "\<And>st n. stream_fails C st n = None" "\<And>n. flush_fails C n = None" "''--json'' \<in> set args"
    and "main C server serve parse args s = (status, s')"
  shows "case parse args of
      Ok parsed \<Rightarrow> ca_serve_unlock_daemon parsed = None \<longrightarrow>
        (status = Exit 0 \<and> (\<exists>t. printed C (ca_command parsed) t \<and> sh_out s' = sh_out s @ t @ newline)) \<or>
        (status = Exit 1 \<and> sh_out s' = sh_out s \<and> (\<exists>e err. sh_err s' = err @ error_report C Json e)) \<or>
        (status = Panicked \<and> sh_out s' = sh_out s)
    | Err e \<Rightarrow> ce_use_stderr e \<longrightarrow> status = Exit (ce_exit_code e) \<and> sh_out s' = sh_out s \<and> sh_world s' = sh_world s \<and>
        sh_err s' = sh_err s @ json_pretty C (stderr_envelope_json []
          (Some \<lparr> er_code = ''validation'', er_message = trim_end (ce_text e) \<rparr>)) @ newline
    | Abort \<Rightarrow> status = Panicked \<and> s' = s"
proof (cases "parse args")
  case (Ok parsed)
  have json: "output_format_from_raw_args args = Json" using assms(3) by (simp add: output_format_from_raw_args_def)
  have pipe: "pipe_open C" using assms(1,2) by (simp add: pipe_open_def)
  obtain r s1 where run: "run C server serve parsed Json s = (r, s1)" by fastforce
  have out: "case r of Ok _ \<Rightarrow> \<exists>t. printed C (ca_command parsed) t \<and> sh_out s1 = sh_out s @ t @ newline | _ \<Rightarrow> sh_out s1 = sh_out s"
    if "ca_serve_unlock_daemon parsed = None"
    using run_answers [OF assms(1) that, of server serve] run unfolding answers_def by (auto dest: spec [of _ s])
  obtain s2 where s2: "main C server serve parse args s = (case r of Ok _ \<Rightarrow> Exit 0 | Err _ \<Rightarrow> Exit 1 | Abort \<Rightarrow> Panicked, s2)"
      "sh_out s2 = sh_out s1" "\<And>e. r = Err e \<Longrightarrow> sh_err s2 = sh_err s1 @ error_report C Json e"
    using main_outcome [where parse = parse and args = args, OF pipe Ok json run] assms(1) by (auto split: rust_result.splits)
  show ?thesis using Ok s2 out assms(4) by (cases r) auto
next
  case (Err e)
  then show ?thesis using assms
    by (auto simp: main_def Let_def exit_after_clap_error_def exit_after_def print_clap_error_def print_json_error_def
      print_json_stderr_def print_pretty_json_stderr_def write_stderr_line_def output_format_from_raw_args_def
      write_line_run [OF assms(1)] write_out_def)
qed (use assms in \<open>simp add: main_def Let_def\<close>)

theorem json_output_contract_witness:
  "\<exists>s' t. main demo_cli demo_echo (\<lambda>_. io_return (Ok ())) (\<lambda>_. Ok \<lparr> ca_api_url = ''https://h/api'', ca_json = True,
       ca_principal = None, ca_serve_unlock_daemon = None, ca_command = Some Info \<rparr>) [''--json'', ''info''] demo_shell =
       (Exit 0, s') \<and> document demo_cli t \<and> sh_out s' = t @ newline"
proof -
  let ?args = "\<lparr> ca_api_url = ''https://h/api'', ca_json = True,
       ca_principal = None, ca_serve_unlock_daemon = None, ca_command = Some Info \<rparr>"
  have "\<exists>s'. main demo_cli demo_echo (\<lambda>_. io_return (Ok ())) (\<lambda>_. Ok ?args) [''--json'', ''info''] demo_shell = (Exit 0, s')"
    by (simp add: main_def run_def cmd_info_def print_pretty_json_run Let_def)
  then obtain s' where s': "main demo_cli demo_echo (\<lambda>_. io_return (Ok ())) (\<lambda>_. Ok ?args) [''--json'', ''info''] demo_shell = (Exit 0, s')"
    by blast
  show ?thesis using json_output_contract [OF _ _ _ s'] s' by (auto simp: printed_def demo_shell_def)
qed

end
