(* ===== verification/Cli_Budget.thy ===== *)
theory Cli_Budget
  imports Cli_Contract Rt_Requests
begin

text \<open>What each command may change at the server: beside requests that read and the login protocol, which carries no
  token, a command sends at most the requests that are listed for it.\<close>

section \<open>The requests of a command\<close>

definition exact_url :: "http_method \<Rightarrow> string \<Rightarrow> http_request \<Rightarrow> bool" where
  "exact_url method url q \<longleftrightarrow> rq_method q = method \<and> rq_url q = url"

text \<open>The resource is named by the server's answer to an earlier request.\<close>
definition below_url :: "http_method \<Rightarrow> string \<Rightarrow> http_request \<Rightarrow> bool" where
  "below_url method url q \<longleftrightarrow> rq_method q = method \<and> (\<exists>rest. rq_url q = url @ rest)"

fun task_modifications :: "'x cli_ext_scheme \<Rightarrow> string \<Rightarrow> tasks_command \<Rightarrow> (http_request \<Rightarrow> bool) list" where
  "task_modifications C url (TasksCreate a) = [exact_url POST (url @ work_list_path C (tc_work_list_id a) @ ''/tasks'')]"
| "task_modifications C url (TasksUpdate a) = [exact_url PATCH (url @ task_path C (tu_work_list_id a) (tu_task_id a))]"
| "task_modifications C url (TasksAccept a) =
     [below_url PATCH (url @ task_path C (ta_work_list_id a) (ta_task_id a) @ ''/delegations/'')]"
| "task_modifications C url (TasksMove a) = [exact_url POST (url @ task_path C (to_work_list_id a) (to_task_id a) @ ''/move'')]"
| "task_modifications C url (TasksArchive a) = [exact_url POST (url @ task_path C (ta_work_list_id a) (ta_task_id a) @ ''/archive'')]"
| "task_modifications C url (TasksUnarchive a) =
     [exact_url POST (url @ task_path C (ta_work_list_id a) (ta_task_id a) @ ''/unarchive'')]"
| "task_modifications C url (TasksDelete a) = [exact_url DELETE (url @ task_path C (tx_work_list_id a) (tx_task_id a))]"
| "task_modifications C url _ = []"

fun comment_modifications :: "'x cli_ext_scheme \<Rightarrow> string \<Rightarrow> comments_command \<Rightarrow> (http_request \<Rightarrow> bool) list" where
  "comment_modifications C url (CommentsCreate a) =
     [exact_url POST (url @ task_path C (oc_work_list_id a) (oc_task_id a) @ ''/comments'')]"
| "comment_modifications C url (CommentsUpdate a) =
     [exact_url PATCH (url @ comment_path C (ou_work_list_id a) (ou_task_id a) (ou_comment_id a))]"
| "comment_modifications C url (CommentsDelete a) =
     [exact_url DELETE (url @ comment_path C (ox_work_list_id a) (ox_task_id a) (ox_comment_id a))]"
| "comment_modifications C url _ = []"

text \<open>\<open>base\<close> is the API URL as it was chosen; the client of the API cuts it differently than the login does.\<close>
fun modifications :: "'x cli_ext_scheme \<Rightarrow> string \<Rightarrow> command \<Rightarrow> (http_request \<Rightarrow> bool) list" where
  "modifications C base (Auth AuthLogout) = [exact_url POST (api_endpoint base ''/auth/logout'')]"
| "modifications C base (Agent (AgentRegister _)) = [exact_url POST (api_endpoint base ''/agents/enrollments'')]"
| "modifications C base (Agent (AgentApprove _ _ _ _ _ _)) =
     [exact_url POST (api_endpoint base ''/agents/enrollments/lookup''),
      exact_url POST (normalize_base_url base @ ''/agents/enrollments/approve'')]"
| "modifications C base (Agent (AgentRevoke _)) = [below_url POST (normalize_base_url base @ ''/agents/'')]"
| "modifications C base (Tasks c) = task_modifications C (normalize_base_url base) c"
| "modifications C base (Comments c) = comment_modifications C (normalize_base_url base) c"
| "modifications C base _ = []"

definition run_modifications :: "'x cli_ext_scheme \<Rightarrow> cli_args \<Rightarrow> (http_request \<Rightarrow> bool) list" where
  "run_modifications C args =
     (case ca_command args of
        Some c \<Rightarrow> modifications C (normalize_api_url C (ca_api_url args)) c
      | None \<Rightarrow> [])"

section \<open>Runs of the shell\<close>

definition shell_writes :: "nat \<Rightarrow> (http_request \<Rightarrow> bool) \<Rightarrow> 'a cli \<Rightarrow> bool" where
  "shell_writes k Q m \<longleftrightarrow> (\<forall>s. \<exists>new. wd_sent (sh_world (snd (m s))) = wd_sent (sh_world s) @ new \<and>
     length (filter (Not \<circ> harmless) new) \<le> k \<and> list_all (\<lambda>q. harmless q \<or> Q q) new)"

named_theorems shell_rules \<open>operations of the command line that modify nothing\<close>

lemma shell_act: "writes k Q m \<Longrightarrow> shell_writes k Q (public_act m)"
  by (auto simp: shell_writes_def writes_def public_act_def case_prod_beta)

lemma shell_return [shell_rules]: "shell_writes k Q (public_return r)" "shell_writes k Q (io_return r')"
  by (simp_all add: shell_writes_def public_return_def io_return_def)

lemma shell_quiet: "(\<And>w. io_keeps (world_is w) m) \<Longrightarrow> shell_writes k Q m"
  by (simp add: shell_writes_def io_keeps_def)

lemma shell_then:
  assumes "shell_writes j Q m" "\<And>a. shell_writes k Q (f a)" shows "shell_writes (j + k) Q (io_then m f)"
  unfolding shell_writes_def
proof
  fix s
  obtain r s1 where m: "m s = (r, s1)" by fastforce
  from assms(1) obtain new where new: "wd_sent (sh_world s1) = wd_sent (sh_world s) @ new"
      "length (filter (Not \<circ> harmless) new) \<le> j" "list_all (\<lambda>q. harmless q \<or> Q q) new"
    unfolding shell_writes_def using m by (metis snd_conv)
  show "\<exists>new. wd_sent (sh_world (snd (io_then m f s))) = wd_sent (sh_world s) @ new \<and>
     length (filter (Not \<circ> harmless) new) \<le> j + k \<and> list_all (\<lambda>q. harmless q \<or> Q q) new"
  proof (cases r)
    case (Ok a)
    obtain new' where "wd_sent (sh_world (snd (f a s1))) = wd_sent (sh_world s1) @ new'"
        "length (filter (Not \<circ> harmless) new') \<le> k" "list_all (\<lambda>q. harmless q \<or> Q q) new'"
      using assms(2) [of a] unfolding shell_writes_def by blast
    then show ?thesis using m new Ok by (intro exI [of _ "new @ new'"]) (simp add: io_then_def)
  qed (use m new in \<open>auto simp: io_then_def\<close>)
qed

lemma shell_read [shell_rules]:
  assumes "shell_writes 0 Q m" "\<And>a. shell_writes k Q (f a)" shows "shell_writes k Q (io_then m f)"
  using shell_then [OF assms] by simp

text \<open>The operation modifies at once, and then nothing.\<close>
lemma shell_last:
  assumes "writes k Q m" "\<And>a. shell_writes 0 Q (f a)" shows "shell_writes k Q (io_then (public_act m) f)"
  using shell_then [OF shell_act [OF assms(1)] assms(2)] by simp

lemma shell_map [shell_rules]: "shell_writes k Q m \<Longrightarrow> shell_writes k Q (io_map f m)"
  by (simp add: shell_writes_def io_map_def)

lemma shell_cases [shell_rules]:
  "shell_writes k Q m \<Longrightarrow> shell_writes k Q m' \<Longrightarrow> shell_writes k Q (if b then m else m')"
  "shell_writes k Q m \<Longrightarrow> (\<And>a. shell_writes k Q (f a)) \<Longrightarrow> shell_writes k Q (case x of None \<Rightarrow> m | Some a \<Rightarrow> f a)"
  "(\<And>a b. shell_writes k Q (p a b)) \<Longrightarrow> shell_writes k Q (case y of (a, b) \<Rightarrow> p a b)"
  "shell_writes k Q m \<Longrightarrow> shell_writes k Q m' \<Longrightarrow> shell_writes k Q (case format of Table \<Rightarrow> m | Json \<Rightarrow> m')"
  by (auto split: option.splits prod.splits output_format.splits)

lemma shell_print [shell_rules]:
  "shell_writes k Q (write_to_stream C st t action name ok)" "shell_writes k Q (flush_stdout C)"
  "shell_writes k Q (println_stdout C t)" "shell_writes k Q (print_stdout C t)" "shell_writes k Q (print_pretty_json C v)"
  "shell_writes k Q (print_simple_result C format v t)" "shell_writes k Q (emit_warnings_best_effort C format ws)"
proof -
  have "io_keeps (world_is w) (flush_stdout C)" for w
    by (auto simp: io_keeps_def flush_stdout_def split: option.splits)
  then show "shell_writes k Q (flush_stdout C)" by (rule shell_quiet)
qed (auto intro!: shell_quiet simp: println_stdout_def print_stdout_def print_pretty_json_def)

lemma shell_lines [shell_rules]: "shell_writes k Q (print_lines C ts)"
  by (induction ts) (simp_all add: shell_rules)

section \<open>Operations of the client\<close>

named_theorems quiet_ops \<open>operations of the client that modify nothing\<close>

lemma writes_result: "writes k Q m \<Longrightarrow> writes k Q (io_result m)"
  by (auto simp: writes_def io_result_def split: prod.splits rust_result.splits) (metis snd_conv)+

lemma writes_result_case:
  "(\<And>a. writes k Q (f a)) \<Longrightarrow> (\<And>e. writes k Q (g e)) \<Longrightarrow> writes k Q m \<Longrightarrow>
     writes k Q (case x of Ok a \<Rightarrow> f a | Err e \<Rightarrow> g e | Abort \<Rightarrow> m)"
  by (cases x) simp_all

lemma writes_structured [quiet_ops]: "writes k Q (load_structured_input C de input_file input_stdin b)"
proof (rule writes_only [where P = Q])
  have "writes 0 Q (read_json_input C source)" for source
    by (cases source) (simp_all add: read_json_input_def writes_rules)
  then show "writes 0 Q (load_structured_input C de input_file input_stdin b)"
    unfolding load_structured_input_def by (intro writes_then_read writes_option_case writes_rules)
qed

lemma writes_inputs [quiet_ops]:
  "writes 0 Q (resolve_task_create_input C title body file stdin b)"
  "writes 0 Q (resolve_task_update_input C title body file stdin b)"
  "writes 0 Q (resolve_comment_input C body file stdin b)"
  "writes 0 Q (resolve_delete_input C file stdin)"
  unfolding resolve_task_create_input_def resolve_task_update_input_def resolve_comment_input_def resolve_delete_input_def
  by (intro writes_then_read writes_option_case writes_rules writes_structured)+

lemma writes_reading [quiet_ops]:
  "writes 0 Q (runtime_list_work_lists R server K b)" "writes 0 Q (runtime_get_work_list R server K wid b)"
  "writes 0 Q (list_tasks R server K found completed everything b)" "writes 0 Q (get_task R server K wid tid b)"
  "writes 0 Q (list_comments R server K wid tid b)" "writes 0 Q (read_task_attachment R server K wid tid aid b)"
  "writes 0 Q (download_task_attachment R server K wid tid aid b)" "writes 0 Q (runtime_get_me R server K)"
  "writes 0 Q (runtime_get_stats R server K)"
  by (rule writes_only [where P = "\<lambda>_. False"],
    use reading_never_writes [of R server K b wid found completed everything tid aid] in \<open>simp add: only_reads_def\<close>)+

lemma writes_raw [quiet_ops]:
  "writes 0 Q (io_then (authenticated_api_client R server K) (\<lambda>client. on_server (list_work_lists R server client)))"
  "writes 0 Q (io_then (authenticated_api_client R server K) (\<lambda>client. on_server (get_work_list R server client wid)))"
  "writes 0 Q (io_then (authenticated_api_client R server K) (\<lambda>client. on_server (get_all_my_tasks R server client completed)))"
  "writes 0 Q (io_then (authenticated_api_client R server K) (\<lambda>client. on_server (get_tasks R server client wid deleted)))"
  "writes 0 Q (io_then (authenticated_api_client R server K) (\<lambda>client. on_server (api_get_task R server client wid tid)))"
  unfolding list_work_lists_def get_work_list_def get_tasks_def api_get_task_def
  by (intro writes_then_read writes_steps)+

lemma writes_owner [quiet_ops]: "writes 0 Q (authenticated_owner_api_client R server K)"
  unfolding authenticated_owner_api_client_def
  by (intro writes_then_read writes_rules writes_refresh_user)

lemma writes_grants [quiet_ops]: "writes 0 Q (build_agent_grants_for_enrollment R server K enrollment b)"
proof -
  have "writes 0 Q (map_act (build_agent_grant R data_key key) ls)" for data_key key ls
    by (induction ls) (auto simp: build_agent_grant_def intro!: writes_then_read writes_rules)
  then show ?thesis
    unfolding build_agent_grants_for_enrollment_def list_work_lists_def
    by (intro writes_then_read writes_rules writes_principal writes_load_data_key writes_refresh_user writes_get)
qed

lemma writes_session [quiet_ops]:
  "writes 0 Q (login_with_password C server url email password)"
  "writes 0 Q (runtime_unlock_daemon R server K ttl b)"
  "writes 0 Q (store_persisted_data_key R server K b)"
  "writes 0 Q (runtime_clear_persisted_data_key R K)"
  "writes 0 Q (new_http_client C)"
  unfolding login_with_password_def runtime_unlock_daemon_def store_persisted_data_key_def
    runtime_clear_persisted_data_key_def new_http_client_def
  by (intro writes_then_read writes_option_case writes_rules writes_auth writes_principal writes_password writes_decrypt_data_key)+

lemma writes_status [quiet_ops]: "writes 0 Q (load_auth_status C url selection)"
proof -
  have "writes 0 Q (logged_in_auth_status C c current)" for c current
    unfolding logged_in_auth_status_def session_state_def by (intro writes_then_read writes_if writes_rules)
  moreover have "writes 0 Q (logged_in_agent_auth_status C a current)" for a current
    unfolding logged_in_agent_auth_status_def agent_session_state_def
    by (intro writes_then_read writes_option_case writes_rules)
  ultimately show ?thesis
    unfolding load_auth_status_def Let_def
    by (intro writes_then_read writes_rules) (auto intro!: writes_rules split: principal_selection.splits option.splits)
qed

lemma writes_code [quiet_ops]: "writes 0 Q (read_agent_enrollment_code C code stdin file)"
  unfolding read_agent_enrollment_code_def Let_def
  by (intro writes_then_read writes_rules) (auto intro!: writes_rules split: option.splits bool.splits prod.splits)

lemma writes_auth_request:
  "Q (post_json url body) \<Longrightarrow> writes 1 Q (on_server (send_auth_request server (post_json url body) what))"
  by (rule writes_on_server) (simp add: send_auth_requests)

lemma on_server_then: "on_server (io_then m f) = io_then (on_server m) (\<lambda>a. on_server (f a))"
  by (rule ext) (simp add: on_server_def io_then_def split: prod.splits rust_result.splits)

lemma writes_auth_call:
  "Q (post_json url body) \<Longrightarrow>
     writes 1 Q (on_server (io_then (send_auth_request server (post_json url body) what) (\<lambda>r. io_return (g r))))"
  unfolding on_server_then
  by (rule writes_then_pure [OF writes_auth_request]) (auto simp: on_server_def io_return_def intro: writes_same)

lemma writes_enrollment:
  "writes 1 (exact_url POST (api_endpoint base ''/agents/enrollments'')) (on_server (register_agent A server base km handle))"
  "Q (post_json (api_endpoint base ''/agents/enrollments/lookup'') (lookup_enrollment_request code)) \<Longrightarrow>
     writes 1 Q (on_server (fetch_agent_enrollment A server base code))"
  unfolding register_agent_def fetch_agent_enrollment_def
  by (rule writes_auth_call; simp add: exact_url_def post_json_def)+

lemma writes_logout_user:
  "writes 1 (exact_url POST (api_endpoint (rc_api_url K) ''/auth/logout'')) (logout_user C server K c)"
proof -
  let ?Q = "exact_url POST (api_endpoint (rc_api_url K) ''/auth/logout'')"
  have "on_server (auth_logout C server (rc_api_url K) t) = io_map (\<lambda>response. if is_success (rs_status response) then None
      else Some (''server logout returned status '' @ status_display C (rs_status response)))
    (on_server (send_auth_request server (post_json (api_endpoint (rc_api_url K) ''/auth/logout'') (refresh_request t)) ''logout''))" for t
    by (rule ext) (simp add: auth_logout_def on_server_def io_map_def split: prod.splits)
  then have call: "writes 1 ?Q (io_result (on_server (auth_logout C server (rc_api_url K) t)))" for t
    by (simp only:) (intro writes_result writes_map writes_auth_request, simp add: exact_url_def post_json_def)
  show ?thesis unfolding logout_user_def
    by (rule writes_then_read [OF writes_session(5)], rule writes_then_pure [OF call])
      (intro writes_then_read writes_result writes_result_case writes_session writes_rules)
qed

lemma writes_logout_agent: "writes 0 Q (logout_agent C c)"
  unfolding logout_agent_def by (intro writes_then_read writes_result writes_rules)

section \<open>Commands\<close>

text \<open>The requests \<open>ms\<close> are all that the operation may send to modify anything.\<close>
definition within_budget :: "(http_request \<Rightarrow> bool) list \<Rightarrow> 'a cli \<Rightarrow> bool" where
  "within_budget ms m \<longleftrightarrow> shell_writes (length ms) (\<lambda>q. \<exists>p\<in>set ms. p q) m"

lemma budget_none: "(\<And>Q. shell_writes 0 Q m) \<Longrightarrow> within_budget [] m"
  by (simp add: within_budget_def)

lemma budget_one: "shell_writes 1 p m \<Longrightarrow> within_budget [p] m"
  by (simp add: within_budget_def)

lemma budget_two: "shell_writes 2 (\<lambda>q. p q \<or> p' q) m \<Longrightarrow> within_budget [p, p'] m"
  by (simp add: within_budget_def numeral_2_eq_2)

lemma shell_input: "shell_writes 0 Q (require_password_stdin_for_json_command format b name)"
    "shell_writes 0 Q (cli_read_required_password C b m)" "shell_writes 0 Q (cli_prompt C label)"
  unfolding require_password_stdin_for_json_command_def cli_read_required_password_def cli_prompt_def
    cli_read_password_from_stdin_def
  by (intro shell_rules shell_act writes_rules)+

lemma shell_reading:
  "shell_writes 0 Q (cmd_info C K)" "shell_writes 0 Q (cmd_me C server K format)"
  "shell_writes 0 Q (cmd_stats C server K format)" "shell_writes 0 Q (cmd_lists C server K format verbose b raw)"
  "shell_writes 0 Q (cmd_lists_get C server K format wid b raw)"
  "shell_writes 0 Q (cmd_tasks_list C server K format list_id completed everything b raw)"
  "shell_writes 0 Q (cmd_tasks_assigned C server K format completed b raw)"
  "shell_writes 0 Q (cmd_tasks_get C server K format wid tid b raw)"
  "shell_writes 0 Q (cmd_comments_list C server K format wid tid b)"
  unfolding cmd_info_def cmd_me_def cmd_stats_def cmd_lists_def cmd_lists_get_def cmd_tasks_list_def cmd_tasks_assigned_def
    list_raw_my_tasks_def cmd_tasks_get_def cmd_comments_list_def printers Let_def
  by (intro shell_rules shell_act quiet_ops)+

lemma shell_attachments: "shell_writes 0 Q (cmd_task_attachments C server K format c)"
  unfolding cmd_task_attachments_def printers Let_def
  by (cases c; simp only: task_attachments_command.case; intro shell_rules shell_act quiet_ops writes_rules)

lemma shell_session:
  "shell_writes 0 Q (cmd_login C server format url email b)" "shell_writes 0 Q (cmd_unlock C server format K ttl b)"
  "shell_writes 0 Q (cmd_lock C format)" "shell_writes 0 Q (cmd_status C format url selection)"
  unfolding cmd_login_def cmd_unlock_def cmd_lock_def cmd_status_def printers
  by (intro shell_rules shell_input shell_act quiet_ops writes_rules;
    auto intro!: shell_rules split: auth_status_result.splits)+

lemma shell_keychain: "shell_writes 0 Q (cmd_keychain C server format K c)"
  unfolding cmd_keychain_def
  by (cases c; simp only: keychain_command.case; intro shell_rules shell_input shell_act quiet_ops)

lemma write_once:
  "writes 1 (exact_url POST (normalize_base_url (rc_api_url K) @ work_list_path R wid @ ''/tasks'')) (create_task R server K wid title body b)"
  "writes 1 (exact_url PATCH (normalize_base_url (rc_api_url K) @ task_path R wid tid)) (update_task R server K wid tid new_title new_body b)"
  "writes 1 (exact_url POST (normalize_base_url (rc_api_url K) @ task_path R wid tid @ ''/move'')) (move_task R server K wid tid section_id before b)"
  "writes 1 (exact_url POST (normalize_base_url (rc_api_url K) @ task_path R wid tid @ ''/archive'')) (archive_task R server K wid tid b)"
  "writes 1 (exact_url POST (normalize_base_url (rc_api_url K) @ task_path R wid tid @ ''/unarchive'')) (unarchive_task R server K wid tid b)"
  "writes 1 (exact_url DELETE (normalize_base_url (rc_api_url K) @ task_path R wid tid)) (delete_task R server K wid tid input)"
  "writes 1 (exact_url POST (normalize_base_url (rc_api_url K) @ task_path R wid tid @ ''/comments'')) (create_comment R server K wid tid t b)"
  "writes 1 (exact_url PATCH (normalize_base_url (rc_api_url K) @ comment_path R wid tid cid)) (update_comment R server K wid tid cid t b)"
  "writes 1 (exact_url DELETE (normalize_base_url (rc_api_url K) @ comment_path R wid tid cid)) (delete_comment R server K wid tid cid input)"
  using commands_write_once [of K R wid server title body b tid new_title new_body section_id before input t cid]
  by (simp_all only: writes_once_def exact_url_def [abs_def])

lemma writes_weaken: "writes k P m \<Longrightarrow> (\<And>q. P q \<Longrightarrow> Q q) \<Longrightarrow> writes k Q m"
  unfolding writes_def by (metis (mono_tags, lifting) list.pred_mono_strong)

lemma writes_acceptance:
  "writes 1 (below_url PATCH (normalize_base_url (rc_api_url K) @ task_path R wid tid @ ''/delegations/''))
     (accept_task_assignment R server K wid tid b)"
  unfolding accept_task_assignment_def
  by (rule writes_then_read [OF writes_principal(1)], rule writes_then_read [OF writes_return],
      rule writes_weaken [OF writes_accept_rest]) (auto simp: accepts_def below_url_def)

lemmas shell_once = write_once [THEN shell_last] writes_acceptance [THEN shell_last]

lemma shell_tasks:
  "shell_writes 1 (exact_url POST (normalize_base_url (rc_api_url K) @ work_list_path C (tc_work_list_id a) @ ''/tasks''))
     (cmd_tasks_create C server K a)"
  "shell_writes 1 (exact_url PATCH (normalize_base_url (rc_api_url K) @ task_path C (tu_work_list_id u) (tu_task_id u)))
     (cmd_tasks_update C server K u)"
  "shell_writes 1 (below_url PATCH (normalize_base_url (rc_api_url K) @ task_path C (ta_work_list_id t) (ta_task_id t) @ ''/delegations/''))
     (cmd_tasks_accept C server K t)"
  "shell_writes 1 (exact_url POST (normalize_base_url (rc_api_url K) @ task_path C (to_work_list_id m) (to_task_id m) @ ''/move''))
     (cmd_tasks_move C server K m)"
  "shell_writes 1 (exact_url POST (normalize_base_url (rc_api_url K) @ task_path C (ta_work_list_id t) (ta_task_id t) @ ''/archive''))
     (cmd_tasks_archive C server K t)"
  "shell_writes 1 (exact_url POST (normalize_base_url (rc_api_url K) @ task_path C (ta_work_list_id t) (ta_task_id t) @ ''/unarchive''))
     (cmd_tasks_unarchive C server K t)"
  "shell_writes 1 (exact_url DELETE (normalize_base_url (rc_api_url K) @ task_path C (tx_work_list_id x) (tx_task_id x)))
     (cmd_tasks_delete C server K format x)"
  unfolding cmd_tasks_create_def cmd_tasks_update_def cmd_tasks_accept_def cmd_tasks_move_def
    cmd_tasks_archive_def cmd_tasks_unarchive_def cmd_tasks_delete_def printers
  by ((rule shell_read, rule shell_act, rule quiet_ops, (rule shell_cases(3))?)?, rule shell_once, intro shell_rules)+

lemma shell_comments:
  "shell_writes 1 (exact_url POST (normalize_base_url (rc_api_url K) @ task_path C (oc_work_list_id a) (oc_task_id a) @ ''/comments''))
     (cmd_comments_create C server K a)"
  "shell_writes 1 (exact_url PATCH (normalize_base_url (rc_api_url K) @ comment_path C (ou_work_list_id u) (ou_task_id u) (ou_comment_id u)))
     (cmd_comments_update C server K u)"
  "shell_writes 1 (exact_url DELETE (normalize_base_url (rc_api_url K) @ comment_path C (ox_work_list_id x) (ox_task_id x) (ox_comment_id x)))
     (cmd_comments_delete C server K format x)"
  unfolding cmd_comments_create_def cmd_comments_update_def cmd_comments_delete_def printers
  by (rule shell_read, rule shell_act, rule quiet_ops, rule shell_once, intro shell_rules)+

lemma tasks_budget:
  "within_budget (modifications C (rc_api_url K) (Tasks c)) (cmd_tasks C server K format c)"
  by (cases c) (simp_all only: modifications.simps cmd_tasks_def tasks_command.case task_modifications.simps budget_none budget_one
    shell_reading shell_attachments shell_tasks)

lemma comments_budget:
  "within_budget (modifications C (rc_api_url K) (Comments c)) (cmd_comments C server K format c)"
  by (cases c) (simp_all only: modifications.simps cmd_comments_def comments_command.case comment_modifications.simps budget_none budget_one
    shell_reading shell_comments)

lemma writes_logout:
  "writes 1 (exact_url POST (api_endpoint (rc_api_url K) ''/auth/logout''))
     (case p of UserPrincipal c \<Rightarrow> logout_user C server K c | AgentPrincipal c \<Rightarrow> logout_agent C c)"
  by (intro writes_principal_case writes_logout_user writes_only [OF writes_logout_agent])

lemma shell_logout:
  "shell_writes 1 (exact_url POST (api_endpoint (rc_api_url K) ''/auth/logout'')) (cmd_logout C server format K selection)"
  unfolding cmd_logout_def
  by (rule shell_read, rule shell_act, rule writes_local, rule shell_cases(2), rule shell_rules,
      rule shell_last [OF writes_logout], intro shell_rules)

lemma shell_register:
  "shell_writes 1 (exact_url POST (api_endpoint url ''/agents/enrollments'')) (cmd_agent_register C server format url handle)"
proof -
  have slot: "writes 0 Q (ensure_agent_registration_slot_available C current)" for Q current
    unfolding ensure_agent_registration_slot_available_def by (intro writes_then_read writes_rules)
  have save: "shell_writes 0 Q (save_registered_agent C c seed)" for Q c seed
    unfolding save_registered_agent_def
    by (intro shell_rules shell_act writes_result writes_rules) (auto intro!: shell_rules shell_act writes_result writes_rules
        split: rust_result.splits)
  show ?thesis
    unfolding cmd_agent_register_def Let_def printers
    by (rule shell_read, rule shell_act, rule slot, rule shell_read, rule shell_act, rule writes_rules,
        rule shell_read, rule shell_act, rule quiet_ops, rule shell_last, rule writes_enrollment, intro shell_rules save)
qed

lemma shell_act_result:
  assumes "writes 0 Q m" "\<And>w a w'. m w = (Ok a, w') \<Longrightarrow> shell_writes k Q (f a)"
  shows "shell_writes k Q (io_then (public_act m) f)"
proof -
  let ?f = "\<lambda>a. if \<exists>w w'. m w = (Ok a, w') then f a else io_return Abort"
  have "io_then (public_act m) f s = io_then (public_act m) ?f s" for s
    by (cases "m (sh_world s)"; cases "fst (m (sh_world s))") (auto simp: io_then_def public_act_def)
  then have "io_then (public_act m) f = io_then (public_act m) ?f" ..
  moreover have "shell_writes k Q (io_then (public_act m) ?f)"
    by (rule shell_read [OF shell_act [OF assms(1)]]) (auto intro: assms(2) shell_rules)
  ultimately show ?thesis by simp
qed

lemma owner_base:
  "authenticated_owner_api_client R server K w = (Ok c, w') \<Longrightarrow> pc_base_url c = normalize_base_url (rc_api_url K)"
  by (auto simp: authenticated_owner_api_client_def io_then_Ok io_map_def with_bearer_token_def)

lemma shell_agent_list: "shell_writes 0 Q (cmd_agent_list C server format K)"
  unfolding cmd_agent_list_def list_agents_def printers
  by (intro shell_rules shell_act quiet_ops writes_get)

lemma shell_revoke:
  "shell_writes 1 (below_url POST (normalize_base_url (rc_api_url K) @ ''/agents/'')) (cmd_agent_revoke C server format K selector)"
proof -
  let ?Q = "below_url POST (normalize_base_url (rc_api_url K) @ ''/agents/'')"
  have post: "writes 1 ?Q (on_server (revoke_agent C server c aid))" if "pc_base_url c = normalize_base_url (rc_api_url K)" for c aid
    unfolding revoke_agent_def api_post_empty_def One_nat_def
    by (rule writes_send) (simp add: below_url_def authorized_def plain_request_def that)
  show ?thesis
    unfolding cmd_agent_revoke_def list_agents_def printers
    by (rule shell_act_result [OF writes_owner], drule owner_base, rule shell_read [OF shell_act [OF writes_get]],
        rule shell_read, rule shell_rules, rule shell_last [OF post], assumption, intro shell_rules)
qed

lemma shell_approve:
  assumes "Q = (\<lambda>q. exact_url POST (api_endpoint (rc_api_url K) ''/agents/enrollments/lookup'') q \<or>
    exact_url POST (normalize_base_url (rc_api_url K) @ ''/agents/enrollments/approve'') q)"
  shows "shell_writes 2 Q (cmd_agent_approve C server format K deprecated stdin file handle name b)"
proof -
  have lookup: "writes 1 Q (on_server (fetch_agent_enrollment C server (rc_api_url K) code))" for code
    by (rule writes_enrollment) (simp add: assms exact_url_def post_json_def)
  have post: "writes 1 Q (on_server (approve_agent_enrollment C server c payload))"
    if "pc_base_url c = normalize_base_url (rc_api_url K)" for c payload
    unfolding approve_agent_enrollment_def api_post_def One_nat_def
    by (rule writes_send) (simp add: assms exact_url_def authorized_def plain_request_def that)
  have two: "(2 :: nat) = 1 + 1" by simp
  show ?thesis
    unfolding cmd_agent_approve_def printers two
    by (rule shell_read [OF shell_input(1)], rule shell_read [OF shell_act [OF writes_code]],
        rule shell_read [OF shell_act [OF writes_session(5)]], rule shell_then [OF shell_act [OF lookup]],
        rule shell_read [OF shell_act [OF writes_grants]], rule shell_act_result [OF writes_owner], drule owner_base,
        rule shell_last [OF post], assumption, intro shell_rules)
qed

lemma agent_budget:
  "within_budget (modifications C (rc_api_url K) (Agent c)) (run_agent C server format K c)"
proof (cases c)
  case (AgentApprove deprecated code_stdin code_file handle name b)
  show ?thesis
    unfolding AgentApprove run_agent_def agent_command.case modifications.simps
    by (rule budget_two [OF shell_approve]) (rule refl)
qed (simp_all only: run_agent_def agent_command.case modifications.simps budget_none budget_one shell_agent_list
    shell_register shell_revoke)

lemma auth_budget:
  "within_budget (modifications C (rc_api_url K) (Auth c)) (run_auth C server format K selection c)"
  by (cases c) (simp_all only: run_auth_def auth_command.case modifications.simps budget_none budget_one shell_session
    shell_keychain shell_logout)

lemma run_budget:
  assumes "ca_serve_unlock_daemon args = None"
  shows "within_budget (run_modifications C args) (run C server serve args format)"
proof (cases "ca_command args")
  case None
  then show ?thesis using assms by (simp add: run_def run_modifications_def Let_def budget_none shell_rules)
next
  case (Some c)
  define selection where "selection = (case ca_principal args of Some p \<Rightarrow> principal_arg_selection p | None \<Rightarrow> SelectAuto)"
  define K where "K = with_principal_selection C (ca_api_url args) selection"
  have url: "normalize_api_url C (ca_api_url args) = rc_api_url K"
    by (simp add: K_def with_principal_selection_def)
  show ?thesis
    unfolding run_def run_modifications_def Let_def Some option.case assms selection_def [symmetric] K_def [symmetric] url
    by (cases c)
      (simp_all only: command.case tasks_budget [unfolded modifications.simps]
        comments_budget [unfolded modifications.simps] agent_budget auth_budget modifications.simps budget_none
        shell_reading split: option.split lists_command.split, simp_all add: budget_none shell_reading)
qed

lemma main_world:
  assumes "parse args = Ok parsed" "output_format_from_raw_args args = format"
  shows "sh_world (snd (main C server serve parse args s)) = sh_world (snd (run C server serve parsed format s))"
proof -
  obtain r s1 where run: "run C server serve parsed format s = (r, s1)" by fastforce
  have report: "sh_world (snd (exit_after (print_cli_error C e format) 1 s1)) = sh_world s1" for e
  proof -
    obtain r' s2 where r': "print_cli_error C e format s1 = (r', s2)" by fastforce
    then have "sh_world s2 = sh_world s1" using io_keepsD [OF report_keeps r', of "sh_world s1" "sh_out s1"] by simp
    then show ?thesis using r' by (cases r') (simp_all add: exit_after_def)
  qed
  show ?thesis
  proof (cases r)
    case (Err e)
    then show ?thesis using assms run report by (cases e) (simp_all add: main_def Let_def)
  qed (use assms run in \<open>simp_all add: main_def Let_def\<close>)
qed

text \<open>C39: What a run of the program may change at the server, whatever it answers and whether the run succeeds or fails.  Beside
  requests that read and the login protocol, which carries no token, it sends at most the requests listed for its command: none
  for a command that shows something or manages the local session; one, by the method and to the resource it names, for a
  change to a task or a comment, a logout, a registration and a revocation; two for an approval.\<close>
theorem cli_write_budget:
  assumes "parse args = Ok parsed" "ca_serve_unlock_daemon parsed = None"
  shows "\<exists>new. wd_sent (sh_world (snd (main C server serve parse args s))) = wd_sent (sh_world s) @ new \<and>
    length (filter (Not \<circ> harmless) new) \<le> length (run_modifications C parsed) \<and>
    list_all (\<lambda>q. harmless q \<or> (\<exists>p\<in>set (run_modifications C parsed). p q)) new"
  using run_budget [OF assms(2), of C server serve "output_format_from_raw_args args"]
  unfolding within_budget_def shell_writes_def
  by (subst main_world [where parse = parse and args = args, OF assms(1) refl]) blast

theorem cli_write_budget_witness:
  "\<exists>new. wd_sent (sh_world (snd (main demo_cli demo_echo (\<lambda>_. io_return (Ok ())) (\<lambda>_. Ok \<lparr> ca_api_url = ''https://h/api'',
       ca_json = True, ca_principal = None, ca_serve_unlock_daemon = None, ca_command = Some (Auth AuthStatus) \<rparr>)
       [''--json'', ''auth'', ''status''] demo_shell))) = wd_sent (sh_world demo_shell) @ new \<and> list_all harmless new"
proof -
  let ?args = "\<lparr> ca_api_url = ''https://h/api'', ca_json = True, ca_principal = None, ca_serve_unlock_daemon = None,
      ca_command = Some (Auth AuthStatus) \<rparr>"
  have "(\<lambda>_. Ok ?args) [''--json'', ''auth'', ''status''] = Ok ?args" by simp
  from cli_write_budget [where parse = "\<lambda>_. Ok ?args" and args = "[''--json'', ''auth'', ''status'']" and C = demo_cli
      and server = demo_echo and serve = "\<lambda>_. io_return (Ok ())" and s = demo_shell, OF this]
  show ?thesis by (auto simp: run_modifications_def)
qed

end
