(* ===== verification/Spec2Isabelle.thy ===== *)
theory Spec2Isabelle
  imports SB_Stem SB_Shared Crypto_Json Crypto_Attachments Api_Instance Rt_Daemon_Thms
    Rt_Auth_Thms Rt_Task_Thms Rt_Render_Thms Rt_Requests
    Rt_Instance Wasm_Thms Cli_Thms Cli_Contract Cli_Budget
begin

text \<open>
A model of the Rust code of Worklist's open clients, translated function by function, with the theorems that
make its parts correct.

\<^bold>\<open>The program.\<close>

\<^item> \<open>crates/strong-box\<close> encrypts: boxes with fixed keys, with keys that rotate with the clock, with keys derived
  from a root key, and for a recipient's public key.

\<^item> \<open>crates/client-crypto\<close> seals and opens the payloads of work lists, tasks, comments and attachments, derives and
  unwraps keys, and grants a list's key to an agent (HPKE).

\<^item> \<open>crates/client-auth\<close> logs in (OPAQUE), keeps credentials, data keys and agent seeds in files and the platform
  keychain, and mints agents' tokens.

\<^item> \<open>crates/client-api\<close> speaks the HTTP API with a bearer token.

\<^item> \<open>crates/client-runtime\<close> joins them: it selects the principal, refreshes tokens, gets the data key (from the
  unlock daemon, the keychain or a password), opens what the API answers, and seals what is written.  Its unlock
  daemon is a process that keeps data keys in memory until they expire.

\<^item> \<open>crates/strong-box-wasm\<close> exports encryption and HPKE to the browser through linear memory.

\<^item> \<open>cli\<close> is the command line over the runtime.

\<^bold>\<open>Foundations.\<close>  \<open>Prelude\<close> has bytes, machine integers and the result type: \<open>Ok\<close>, \<open>Err\<close> and, for a panic, \<open>Abort\<close>.
\<open>Rust_Str\<close> has the text functions of Rust on UTF-8 strings, \<open>Rust_Io\<close> operations on a state that may fail,
\<open>m\<close> then \<open>f\<close> for the operator \<open>?\<close>.  What is not the repository's code (ciphers, hashes, curves, CBOR and JSON decoders,
the keychain's and the system's failures, clocks, random sources, the server) is a field of a record that every
definition takes: \<open>ext\<close> for \<open>strong-box\<close>, extended by \<open>client_ext\<close>, \<open>auth_ext\<close>, \<open>storage_ext\<close>, \<open>api_ext\<close>,
\<open>runtime_ext\<close> and \<open>cli_ext\<close>.  Theorems that rely on such code name what they rely on (\<open>aead_laws\<close>, \<open>hkdf_laws\<close>,
\<open>dh_laws\<close>, \<open>cbor_laws\<close>, \<open>b64_laws\<close>, \<open>url_laws\<close>, \<open>chrono_laws\<close>); the theories named \<open>_Instance\<close> give one concrete,
executable value that satisfies all of them, on which the witnesses run the model.

\<^bold>\<open>strong-box.\<close>  \<open>SB_Keys\<close>: keys, key identifiers, errors.  \<open>SB_Trait\<close>: the interface of a box as two locales.
\<open>SB_Static\<close>, \<open>SB_Shared\<close>: the boxes of \<open>static_strong_box.rs\<close> and \<open>shared_strong_box.rs\<close>, each an interpretation of
the interface: what is encrypted is decrypted under the same context, under no other, and by no box without the
key.  \<open>SB_Rotating\<close>: the key cache of \<open>rotating_strong_box.rs\<close> and its refresh; \<open>SB_Rotation\<close>: which keys the cache
holds at which time, that in every run only a key of a period that has begun and has not expired decrypts, what
happens without keys.  \<open>SB_Stem\<close>: derived boxes, and that distinct derivations
have distinct contexts.

\<^bold>\<open>client-crypto.\<close>  \<open>Client_Core\<close>: errors and payload data.  \<open>Crypto_Seal\<close>, \<open>Crypto_Seal_Thms\<close>: sealing, proofs, text
fields bound to their entity.  \<open>Crypto_Keys\<close>: derivation and unwrapping.  \<open>Crypto_Json\<close>: JSON as CBOR.
\<open>Crypto_Attachments\<close>: references to blobs and their encryption.  \<open>Crypto_Grants\<close>: HPKE and the grants of list keys.

\<^bold>\<open>client-auth.\<close>  \<open>Auth_Credentials\<close>: credentials and tokens, principal selection.  \<open>Http\<close>, \<open>Auth_Http\<close>: requests, URLs,
login, refresh, logout; a server is any function of the requests it received.  \<open>Auth_Storage\<close>: files as a map from
paths, the keychain as a map from entries, each system call failing or not as a parameter says;
\<open>Auth_Storage_Thms\<close>: replacing a file is atomic, saved credentials are found.  \<open>Auth_Backends\<close>: the stores of data
keys and seeds as a locale, interpreted for both, with the last-write property.  \<open>Auth_Agent\<close>,
\<open>Auth_Agent_Thms\<close>: the agent's key pair and assertions, and that it opens its grants.

\<^bold>\<open>client-api.\<close>  \<open>Api_Types\<close>: requests with their JSON, answers, enumerations (a locale for their wire form).
\<open>Api_Client\<close>, \<open>Api_Thms\<close>: the calls; the paginated listing is complete and ends; a deletion carries no plain text.

\<^bold>\<open>client-runtime.\<close>  \<open>Rt_Daemon\<close>, \<open>Rt_Daemon_Thms\<close>: the daemon's store, its serving loop as the inductive relation
\<open>serves\<close> over connections, the socket and the client side; it refines a store that never prunes, holds only
what was stored and not cleared, the outcome of every sequence of connections is one, spelled out, and an unlock lasts
exactly the seconds asked for, unless its end wraps around at \<open>2 ^ 64\<close>.  A connection to a daemon that runs can
fail, and the theorems say what then goes wrong.  \<open>Rt_Client\<close>,
\<open>Rt_Auth_Thms\<close>: sessions, tokens, keys.  \<open>Rt_Projections\<close>: what is shown of answers.  \<open>Rt_Attachments\<close>,
\<open>Rt_Render_Thms\<close>: classifying, downloading and rendering attachments.  \<open>Rt_Tasks\<close>, \<open>Rt_Task_Thms\<close>: the operations on
tasks and comments, and that what is written is what is read back.  \<open>Rt_Requests\<close>: which requests each operation
may send: reading sends none that modifies, a command at most one.

\<^bold>\<open>strong-box-wasm.\<close>  \<open>Wasm_Bridge\<close>: linear memory as a function, its blocks as a list, the exported functions;
\<open>Wasm_Thms\<close>: a call hands out a fresh block with its result and touches nothing of the caller's, round trips
through memory, agreement with the HPKE of \<open>Crypto_Grants\<close>.

\<^bold>\<open>cli.\<close>  \<open>Cli_Base\<close>: errors, streams, input, files.  \<open>Cli_Json\<close>, \<open>Cli_Output\<close>: what is printed.  \<open>Cli_Auth\<close>: the commands
on sessions.  \<open>Cli_Commands\<close>: all other commands, \<open>run\<close> and \<open>main\<close>.  \<open>Cli_Thms\<close>: errors are reported on standard error,
downloads neither leave the directory nor overwrite unasked, a logout forgets unless the daemon that runs cannot be
reached, a registration is all or nothing,
the status agrees with what commands act on.  \<open>Cli_Contract\<close> and \<open>Cli_Budget\<close> go through every command: the exit
status tells how it ended, with \<open>--json\<close> standard output carries one document or nothing, and the requests a run of
the program may send that modify anything are those listed for its command.

\<^bold>\<open>State.\<close>  A \<open>device\<close> is the file system and keychain; \<open>world\<close> adds the requests sent, the daemon and the number of
readings of clocks and random sources, so that each reading may differ; \<open>shell\<close> adds what was printed.

\<^bold>\<open>Bounds.\<close>  No fuel is used.  The recursions are structural, or end by a measure proved with the definition: the
search of a string by its rest, the pages of a listing by the total the first page names, the polls of the
daemon by their count of 50.  Integers keep the width of the source where overflow is possible (\<open>u64\<close>, \<open>u32\<close>
words); lengths and times of the standard library's unbounded use are \<open>nat\<close> and \<open>int\<close>.

\<^bold>\<open>Not modelled.\<close>  Parsing the command line, which \<open>clap\<close> does; \<open>Debug\<close> output; the variants for systems other than
Unix; the registration of a random source for the browser (\<open>strong-box/src/wasm.rs\<close>); the TypeScript wrappers of
\<open>packages/crypto-web\<close>; the integration tests.  The world has one daemon, the one on the socket: a new one is taken
to have removed the socket of its predecessor by the time the client polls, and the predecessor is not followed.  Waiting, threads and timeouts of the asynchronous runtime are not
observable in the model: a task that is joined has run, or failed.  The erasure of secrets from memory and
constant-time comparison have no counterpart in it.
\<close>

end
